(* ===== verification/Float64.thy ===== *)
theory Float64
  imports Complex_Main "HOL-Library.Log_Nat"
begin

text \<open>
  Go's float64, IEEE 754 binary64 with rounding to nearest, ties to even: a value is a
  finite rational, an infinity or NaN.  The two zeros are one value, which no comparison
  of the sources can tell apart.  The operations compute the exact rational result and
  round it, subnormals and overflow included.  The lemmas show that rounding is monotone,
  keeps the representable values and is exact on the integers below \<open>2 ^ 53\<close>.
\<close>

datatype float64 = Fin rat | PInf | NInf | NaN

definition pow2 :: "int \<Rightarrow> rat" where
  "pow2 e = (if 0 \<le> e then 2 ^ nat e else 1 / 2 ^ nat (- e))"

text \<open>The exponent of the leading bit of a positive rational.\<close>

definition ilog2 :: "rat \<Rightarrow> int" where
  "ilog2 x =
     (let (n, d) = quotient_of x; k = bitlen n - bitlen d
      in if pow2 k \<le> x then k else k - 1)"

definition fexp :: "rat \<Rightarrow> int" where
  "fexp x = max (- 1074) (ilog2 \<bar>x\<bar> - 52)"

definition round_even :: "rat \<Rightarrow> int" where
  "round_even x =
     (let f = \<lfloor>x\<rfloor>; r = x - of_int f
      in if r < 1 / 2 then f else if 1 / 2 < r then f + 1 else if even f then f else f + 1)"

definition rnd :: "rat \<Rightarrow> rat" where
  "rnd x = (if x = 0 then 0 else of_int (round_even (x / pow2 (fexp x))) * pow2 (fexp x))"

definition f64_round :: "rat \<Rightarrow> float64" where
  "f64_round x =
     (let y = rnd x in if 2 ^ 1024 \<le> y then PInf else if y \<le> - (2 ^ 1024) then NInf else Fin y)"

definition f64_of_int :: "int \<Rightarrow> float64" where
  "f64_of_int n = f64_round (of_int n)"

definition f64_inf :: "bool \<Rightarrow> float64" where
  "f64_inf neg = (if neg then NInf else PInf)"

fun f64_mul :: "float64 \<Rightarrow> float64 \<Rightarrow> float64" where
  "f64_mul (Fin a) (Fin b) = f64_round (a * b)"
| "f64_mul NaN _ = NaN"
| "f64_mul _ NaN = NaN"
| "f64_mul (Fin a) PInf = (if a = 0 then NaN else f64_inf (a < 0))"
| "f64_mul (Fin a) NInf = (if a = 0 then NaN else f64_inf (0 < a))"
| "f64_mul PInf (Fin b) = (if b = 0 then NaN else f64_inf (b < 0))"
| "f64_mul NInf (Fin b) = (if b = 0 then NaN else f64_inf (0 < b))"
| "f64_mul PInf PInf = PInf"
| "f64_mul PInf NInf = NInf"
| "f64_mul NInf PInf = NInf"
| "f64_mul NInf NInf = PInf"

fun f64_neg :: "float64 \<Rightarrow> float64" where
  "f64_neg (Fin a) = Fin (- a)"
| "f64_neg PInf = NInf"
| "f64_neg NInf = PInf"
| "f64_neg NaN = NaN"

fun f64_add :: "float64 \<Rightarrow> float64 \<Rightarrow> float64" where
  "f64_add (Fin a) (Fin b) = f64_round (a + b)"
| "f64_add NaN _ = NaN"
| "f64_add _ NaN = NaN"
| "f64_add (Fin a) y = y"
| "f64_add x (Fin b) = x"
| "f64_add PInf PInf = PInf"
| "f64_add NInf NInf = NInf"
| "f64_add _ _ = NaN"

definition f64_sub :: "float64 \<Rightarrow> float64 \<Rightarrow> float64" where
  "f64_sub x y = f64_add x (f64_neg y)"

fun f64_less :: "float64 \<Rightarrow> float64 \<Rightarrow> bool" where
  "f64_less NaN _ = False"
| "f64_less _ NaN = False"
| "f64_less (Fin a) (Fin b) = (a < b)"
| "f64_less NInf y = (y \<noteq> NInf)"
| "f64_less x PInf = (x \<noteq> PInf)"
| "f64_less _ _ = False"

text \<open>
  The conversion to a signed 64-bit integer drops the fraction.  Go leaves the result
  implementation-dependent when it does not fit: \<open>ovf\<close> is what the machine delivers.
\<close>

definition f64_to_int64 :: "(float64 \<Rightarrow> int) \<Rightarrow> float64 \<Rightarrow> int" where
  "f64_to_int64 ovf x =
     (case x of
        Fin a \<Rightarrow>
          (let t = (if 0 \<le> a then \<lfloor>a\<rfloor> else \<lceil>a\<rceil>)
           in if - (2 ^ 63) \<le> t \<and> t < 2 ^ 63 then t else ovf x)
      | _ \<Rightarrow> ovf x)"

subsection \<open>Powers of two and the leading exponent\<close>

lemma pow2_pos [simp]: "0 < pow2 e"
  by (simp add: pow2_def)

lemma pow2_nonneg [simp]: "0 \<le> pow2 e"
  by (simp add: pow2_def)

lemma pow2_nonzero [simp]: "pow2 e \<noteq> 0"
  using pow2_pos [of e] by linarith

lemma pow2_powi: "pow2 e = 2 powi e"
  by (simp add: pow2_def power_int_def field_simps)

lemma pow2_add: "pow2 (a + b) = pow2 a * pow2 b"
  by (simp add: pow2_powi power_int_add)

lemma pow2_diff: "pow2 (a - b) = pow2 a / pow2 b"
  by (simp add: pow2_powi power_int_diff)

lemma pow2_nat [simp]: "pow2 (int n) = 2 ^ n"
  by (simp add: pow2_def)

lemma pow2_mono: "a \<le> b \<Longrightarrow> pow2 a \<le> pow2 b"
  by (simp add: pow2_powi power_int_increasing)

lemma pow2_strict_mono: "a < b \<Longrightarrow> pow2 a < pow2 b"
  by (simp add: pow2_powi power_int_strict_increasing)

lemma pow2_less_iff: "pow2 a < pow2 b \<longleftrightarrow> a < b"
  using pow2_strict_mono [of a b] pow2_mono [of b a] by linarith

lemma pow2_numeral [simp]: "pow2 (numeral k) = 2 ^ numeral k"
  by (simp add: pow2_def)

lemma bitlen_pow2:
  assumes "0 < n"
  shows "pow2 (bitlen n - 1) \<le> of_int n" and "(of_int n :: rat) < pow2 (bitlen n)"
proof -
  have b: "2 ^ nat (bitlen n - 1) \<le> n" "n < 2 ^ nat (bitlen n)"
    using bitlen_bounds [OF assms] by auto
  have p: "0 < bitlen n"
  proof (rule ccontr)
    assume "\<not> 0 < bitlen n"
    with b(2) assms show False by simp
  qed
  have "(of_int (2 ^ nat (bitlen n - 1)) :: rat) \<le> of_int n" using b by linarith
  then show "pow2 (bitlen n - 1) \<le> of_int n" using p by (simp add: pow2_def)
  have "of_int n < (of_int (2 ^ nat (bitlen n)) :: rat)" using b by linarith
  then show "(of_int n :: rat) < pow2 (bitlen n)" using p by (simp add: pow2_def)
qed

lemma ilog2_bounds:
  assumes "0 < x"
  shows "pow2 (ilog2 x) \<le> x" and "x < pow2 (ilog2 x + 1)"
proof -
  obtain n d where q: "quotient_of x = (n, d)" by fastforce
  have d: "0 < d" using quotient_of_denom_pos [OF q] .
  have x: "x = of_int n / of_int d" using quotient_of_div [OF q] .
  with assms d have n: "0 < n" by (simp add: zero_less_divide_iff)
  define k where "k = bitlen n - bitlen d"
  have nb: "pow2 (bitlen n - 1) \<le> of_int n" "(of_int n :: rat) < pow2 (bitlen n)"
    using bitlen_pow2 [OF n] by auto
  have db: "pow2 (bitlen d - 1) \<le> of_int d" "(of_int d :: rat) < pow2 (bitlen d)"
    using bitlen_pow2 [OF d] by auto
  have "pow2 (bitlen n - 1) / pow2 (bitlen d) \<le> of_int n / (of_int d :: rat)"
    using nb db d n by (intro frac_le) auto
  moreover have "pow2 (bitlen n - 1) / pow2 (bitlen d) = pow2 (k - 1)"
    by (simp add: k_def algebra_simps flip: pow2_diff)
  ultimately have lo: "pow2 (k - 1) \<le> x" by (simp add: x)
  have "of_int n / (of_int d :: rat) < pow2 (bitlen n) / pow2 (bitlen d - 1)"
    using nb db d n by (intro frac_less) auto
  moreover have "pow2 (bitlen n) / pow2 (bitlen d - 1) = pow2 (k + 1)"
    by (simp add: k_def algebra_simps flip: pow2_diff)
  ultimately have hi: "x < pow2 (k + 1)" by (simp add: x)
  have il: "ilog2 x = (if pow2 k \<le> x then k else k - 1)"
    by (simp add: ilog2_def q k_def)
  show "pow2 (ilog2 x) \<le> x" using lo by (simp add: il)
  show "x < pow2 (ilog2 x + 1)" using hi by (simp add: il)
qed

lemma ilog2_less: "0 < x \<Longrightarrow> x < pow2 k \<Longrightarrow> ilog2 x < k"
  using ilog2_bounds(1) [of x] pow2_less_iff [of "ilog2 x" k] by linarith

lemma ilog2_mono: "0 < x \<Longrightarrow> x \<le> y \<Longrightarrow> ilog2 x \<le> ilog2 y"
  using ilog2_less [of x "ilog2 y + 1"] ilog2_bounds(2) [of y] by linarith

lemma fexp_mono: "0 < x \<Longrightarrow> x \<le> y \<Longrightarrow> fexp x \<le> fexp y"
  using ilog2_mono [of x y] by (simp add: fexp_def)

subsection \<open>Rounding\<close>

lemma round_even_of_int [simp]: "round_even (of_int n) = n"
  by (simp add: round_even_def)

lemma round_even_mono: "x \<le> y \<Longrightarrow> round_even x \<le> round_even y"
proof -
  assume le: "x \<le> y"
  then have f: "\<lfloor>x\<rfloor> \<le> \<lfloor>y\<rfloor>" by (rule floor_mono)
  show ?thesis
  proof (cases "\<lfloor>x\<rfloor> = \<lfloor>y\<rfloor>")
    case True
    with le show ?thesis by (auto simp: round_even_def Let_def)
  next
    case False
    with f have "\<lfloor>x\<rfloor> + 1 \<le> \<lfloor>y\<rfloor>" by simp
    then show ?thesis by (auto simp: round_even_def Let_def)
  qed
qed

lemma round_even_ge: "of_int n \<le> x \<Longrightarrow> n \<le> round_even x"
  using round_even_mono [of "of_int n" x] by simp

lemma round_even_le: "x \<le> of_int n \<Longrightarrow> round_even x \<le> n"
  using round_even_mono [of x "of_int n"] by simp

lemma rnd_0 [simp]: "rnd 0 = 0"
  by (simp add: rnd_def)

lemma rnd_nonneg: "0 \<le> x \<Longrightarrow> 0 \<le> rnd x"
  using round_even_ge [of 0 "x / pow2 (fexp x)"] pow2_pos [of "fexp x"]
  by (simp add: rnd_def zero_le_mult_iff)

lemma scaled_bounds:
  assumes "0 < x"
  shows "x / pow2 (fexp x) < 2 ^ 53"
    and "- 1074 < fexp x \<Longrightarrow> 2 ^ 52 \<le> x / pow2 (fexp x)"
proof -
  have "x < pow2 (ilog2 x + 1)" by (rule ilog2_bounds [OF assms])
  also have "\<dots> \<le> pow2 (fexp x + 53)"
    using assms by (intro pow2_mono) (simp add: fexp_def)
  also have "\<dots> = pow2 (fexp x) * 2 ^ 53" by (simp add: pow2_add)
  finally show "x / pow2 (fexp x) < 2 ^ 53" by (simp add: field_simps)
  assume "- 1074 < fexp x"
  with assms have "ilog2 x = fexp x + 52" by (simp add: fexp_def max_def split: if_splits)
  with ilog2_bounds(1) [OF assms] have "pow2 (fexp x + 52) \<le> x" by simp
  then show "2 ^ 52 \<le> x / pow2 (fexp x)" by (simp add: pow2_add field_simps)
qed

lemma rnd_mono_pos:
  assumes "0 < x" and "x \<le> y"
  shows "rnd x \<le> rnd y"
proof (cases "fexp x = fexp y")
  case True
  have "x / pow2 (fexp y) \<le> y / pow2 (fexp y)"
    using assms by (intro divide_right_mono) (auto simp: less_imp_le)
  then have "round_even (x / pow2 (fexp y)) \<le> round_even (y / pow2 (fexp y))"
    by (rule round_even_mono)
  with True assms show ?thesis by (simp add: rnd_def mult_right_mono less_imp_le)
next
  case False
  have y: "0 < y" using assms by simp
  from False fexp_mono [OF assms] have lt: "fexp x + 1 \<le> fexp y" by simp
  then have sub: "- 1074 < fexp y" by (simp add: fexp_def max_def split: if_splits)
  have "round_even (x / pow2 (fexp x)) \<le> 2 ^ 53"
    using scaled_bounds(1) [OF assms(1)] by (intro round_even_le) simp
  then have "rnd x \<le> of_int (2 ^ 53) * pow2 (fexp x)"
    using assms by (simp add: rnd_def less_imp_le del: of_int_power)
  also have "\<dots> = pow2 (fexp x + 1 + 52)" by (simp add: pow2_add)
  also have "\<dots> \<le> pow2 (fexp y + 52)" using lt by (intro pow2_mono) simp
  also have "\<dots> = of_int (2 ^ 52) * pow2 (fexp y)" by (simp add: pow2_add)
  also have "\<dots> \<le> of_int (round_even (y / pow2 (fexp y))) * pow2 (fexp y)"
    using scaled_bounds(2) [OF y sub]
    by (intro mult_right_mono) (auto intro: round_even_ge simp: less_imp_le simp del: of_int_power)
  also have "\<dots> = rnd y" using y by (simp add: rnd_def)
  finally show ?thesis .
qed

lemma rnd_mono: "0 \<le> x \<Longrightarrow> x \<le> y \<Longrightarrow> rnd x \<le> rnd y"
  using rnd_mono_pos [of x y] rnd_nonneg [of y] by (cases "x = 0") auto

text \<open>A significand of at most 53 bits over an exponent in range is kept.\<close>

lemma rnd_exact:
  assumes "0 \<le> m" and "m < 2 ^ 53" and "- 1074 \<le> e"
  shows "rnd (of_int m * pow2 e) = of_int m * pow2 e"
proof (cases "m = 0")
  case False
  define x where "x = of_int m * pow2 e"
  have x: "0 < x" using assms False by (simp add: x_def)
  have "(of_int m :: rat) < of_int (2 ^ 53)" using assms by linarith
  then have "x < of_int (2 ^ 53) * pow2 e" by (simp add: x_def del: of_int_power)
  then have "x < pow2 (e + 53)" by (simp add: pow2_add mult.commute)
  then have fe: "fexp x \<le> e"
    using ilog2_less [OF x, of "e + 53"] assms x by (simp add: fexp_def)
  have "x / pow2 (fexp x) = of_int m * pow2 (e - fexp x)"
    by (simp add: x_def pow2_diff)
  also have "\<dots> = of_int (m * 2 ^ nat (e - fexp x))"
    using fe by (simp add: pow2_def)
  finally have "round_even (x / pow2 (fexp x)) = m * 2 ^ nat (e - fexp x)"
    by (simp only: round_even_of_int)
  then have "rnd x = of_int (m * 2 ^ nat (e - fexp x)) * pow2 (fexp x)"
    using x by (simp add: rnd_def)
  also have "\<dots> = of_int m * (pow2 (e - fexp x) * pow2 (fexp x))"
    using fe by (simp add: pow2_def)
  also have "\<dots> = x" by (simp add: x_def flip: pow2_add)
  finally show ?thesis by (simp add: x_def)
qed simp

text \<open>Rounding twice is rounding once: a rounded value is representable.\<close>

lemma rnd_idem:
  assumes "0 \<le> x"
  shows "rnd (rnd x) = rnd x"
proof (cases "x = 0")
  case False
  with assms have x: "0 < x" by simp
  define m where "m = round_even (x / pow2 (fexp x))"
  have r: "rnd x = of_int m * pow2 (fexp x)" using False by (simp add: rnd_def m_def)
  have m: "0 \<le> m" "m \<le> 2 ^ 53"
    using x scaled_bounds(1) [OF x]
    by (auto simp: m_def intro!: round_even_ge round_even_le)
  have e: "- 1074 \<le> fexp x" by (simp add: fexp_def)
  show ?thesis
  proof (cases "m = 2 ^ 53")
    case True
    then have "rnd x = of_int 1 * pow2 (fexp x + 53)" by (simp add: r pow2_add)
    then show ?thesis using rnd_exact [of 1 "fexp x + 53"] e by simp
  next
    case False
    with m e show ?thesis by (simp add: r rnd_exact)
  qed
qed simp

lemma rnd_of_int: "0 \<le> n \<Longrightarrow> n < 2 ^ 53 \<Longrightarrow> rnd (of_int n) = of_int n"
  using rnd_exact [of n 0] by (simp add: pow2_def)

lemma f64_of_int_exact: "0 \<le> n \<Longrightarrow> n < 2 ^ 53 \<Longrightarrow> f64_of_int n = Fin (of_int n)"
proof -
  assume n: "0 \<le> n" "n < 2 ^ 53"
  then have "(of_int n :: rat) < of_int (2 ^ 53)" by linarith
  also have "\<dots> < 2 ^ 1024" by simp
  finally show ?thesis using n by (simp add: f64_of_int_def f64_round_def rnd_of_int)
qed

text \<open>Below \<open>2 ^ 54\<close> the rounding error is at most 1.\<close>

lemma round_even_err: "\<bar>of_int (round_even x) - x\<bar> \<le> 1 / 2"
  using floor_correct [of x] by (auto simp: round_even_def Let_def abs_le_iff)

lemma rnd_err:
  assumes "0 \<le> x" and "x < 2 ^ 54"
  shows "rnd x \<le> x + 1" and "x - 1 \<le> rnd x"
proof -
  have "\<bar>rnd x - x\<bar> \<le> 1"
  proof (cases "x = 0")
    case False
    with assms have x: "0 < x" by simp
    then have "fexp x \<le> 1"
      using ilog2_less [OF x, of 54] assms by (simp add: fexp_def)
    then have p: "pow2 (fexp x) \<le> 2" using pow2_mono [of "fexp x" 1] by (simp add: pow2_def)
    have "rnd x - x = (of_int (round_even (x / pow2 (fexp x))) - x / pow2 (fexp x)) * pow2 (fexp x)"
      using False by (simp add: rnd_def left_diff_distrib)
    then have "\<bar>rnd x - x\<bar> \<le> 1 / 2 * pow2 (fexp x)"
      using round_even_err [of "x / pow2 (fexp x)"] by (simp add: abs_mult mult_right_mono)
    with p show ?thesis by linarith
  qed simp
  then show "rnd x \<le> x + 1" and "x - 1 \<le> rnd x" by linarith+
qed

lemma f64_round_Fin: "0 \<le> x \<Longrightarrow> x \<le> 2 ^ 64 \<Longrightarrow> f64_round x = Fin (rnd x)"
proof -
  assume x: "0 \<le> x" "x \<le> 2 ^ 64"
  then have "rnd x \<le> rnd (2 ^ 64)" by (rule rnd_mono)
  also have "\<dots> = 2 ^ 64" using rnd_exact [of 1 64] by simp
  also have "\<dots> < 2 ^ 1024" by simp
  finally show ?thesis using rnd_nonneg [OF x(1)] by (simp add: f64_round_def)
qed

text \<open>The values the positive computations of the sources produce: finite or an overflow.\<close>

fun f64_ge0 :: "float64 \<Rightarrow> bool" where
  "f64_ge0 (Fin a) = (0 \<le> a)"
| "f64_ge0 PInf = True"
| "f64_ge0 _ = False"

text \<open>A value that a computation delivered: a finite one is representable.\<close>

definition f64_repr :: "float64 \<Rightarrow> bool" where
  "f64_repr x \<longleftrightarrow> (case x of Fin a \<Rightarrow> rnd a = a | _ \<Rightarrow> True)"

fun f64_le :: "float64 \<Rightarrow> float64 \<Rightarrow> bool" where
  "f64_le (Fin a) (Fin b) = (a \<le> b)"
| "f64_le (Fin a) PInf = True"
| "f64_le PInf PInf = True"
| "f64_le _ _ = False"

lemma f64_round_ge0: "0 \<le> x \<Longrightarrow> f64_ge0 (f64_round x)"
  using rnd_nonneg [of x] by (auto simp: f64_round_def Let_def)

lemma f64_round_mono: "0 \<le> x \<Longrightarrow> x \<le> y \<Longrightarrow> f64_le (f64_round x) (f64_round y)"
  using rnd_mono [of x y] rnd_nonneg [of x] by (auto simp: f64_round_def Let_def)

lemma f64_of_int_ge0 [simp]: "0 \<le> n \<Longrightarrow> f64_ge0 (f64_of_int n)"
  by (simp add: f64_of_int_def f64_round_ge0)

lemma f64_repr_simps [simp]:
  "f64_repr (Fin a) \<longleftrightarrow> rnd a = a" "f64_repr PInf" "f64_repr NInf" "f64_repr NaN"
  by (auto simp: f64_repr_def)

lemma f64_round_repr: "0 \<le> x \<Longrightarrow> f64_repr (f64_round x)"
  by (auto simp: f64_repr_def f64_round_def Let_def rnd_idem)

lemma f64_mul_grows:
  assumes "f64_ge0 x" and "f64_repr x" and "1 \<le> b"
  shows "f64_le x (f64_mul x (Fin b))"
proof (cases x)
  case (Fin a)
  with assms have a: "0 \<le> a" "rnd a = a" by (auto simp: f64_repr_def)
  then have "a * 1 \<le> a * b" using assms(3) by (intro mult_left_mono) auto
  then have "a \<le> rnd (a * b)" using rnd_mono [of a "a * b"] a by simp
  with Fin a show ?thesis by (auto simp: f64_round_def Let_def)
qed (use assms in \<open>auto simp: f64_inf_def\<close>)

lemma f64_mul_repr: "f64_ge0 x \<Longrightarrow> 0 < b \<Longrightarrow> f64_repr (f64_mul x (Fin b))"
  by (cases x) (auto simp: f64_round_repr f64_inf_def)

lemma f64_mul_ge0: "f64_ge0 x \<Longrightarrow> 0 < b \<Longrightarrow> f64_ge0 (f64_mul x (Fin b))"
  by (cases x) (auto simp: f64_round_ge0 f64_inf_def)

lemma f64_le_trans: "f64_le x y \<Longrightarrow> f64_le y z \<Longrightarrow> f64_le x z"
  by (cases x; cases y; cases z) auto

lemma f64_le_refl: "f64_ge0 x \<Longrightarrow> f64_le x x"
  by (cases x) auto

end
