(* ===== verification/RetryPolicies.thy ===== *)
theory RetryPolicies
  imports Prelude Float64
begin

text \<open>
  Package jobs, \<open>retry_policy.go\<close>: the retry policy of a job and the backoff it prescribes.
  The arithmetic is that of float64 (theory Float64).  \<open>CalculateBackoff\<close> takes the number
  \<open>rand.Float64\<close> draws and what the machine's conversion of an out-of-range float delivers
  as arguments.
\<close>

named_theorems retry_defs

subsection \<open>Data and operations\<close>

type_synonym RetryPolicyType = string

definition RetryPolicyTypeExponential :: RetryPolicyType where
  "RetryPolicyTypeExponential = ''exponential''"

definition RetryPolicyTypeFixed :: RetryPolicyType where
  "RetryPolicyTypeFixed = ''fixed''"

definition RetryPolicyTypeNone :: RetryPolicyType where
  "RetryPolicyTypeNone = ''none''"

record RetryPolicy =
  rp_Type :: RetryPolicyType
  rp_MaxRetries :: int
  rp_InitialInterval :: duration
  rp_MaxInterval :: duration
  rp_Multiplier :: float64
  rp_RandomizationFactor :: float64

definition DefaultRetryPolicy :: RetryPolicy where
  "DefaultRetryPolicy =
     \<lparr>rp_Type = RetryPolicyTypeExponential, rp_MaxRetries = 3,
      rp_InitialInterval = 1 * Second, rp_MaxInterval = 1 * Minute,
      rp_Multiplier = Fin 2, rp_RandomizationFactor = f64_round (1 / 5)\<rparr>"

definition NoRetryPolicy :: RetryPolicy where
  "NoRetryPolicy =
     \<lparr>rp_Type = RetryPolicyTypeNone, rp_MaxRetries = 0, rp_InitialInterval = 0,
      rp_MaxInterval = 0, rp_Multiplier = Fin 0, rp_RandomizationFactor = Fin 0\<rparr>"

definition FixedRetryPolicy :: "duration \<Rightarrow> int \<Rightarrow> RetryPolicy" where
  "FixedRetryPolicy interval maxRetries =
     \<lparr>rp_Type = RetryPolicyTypeFixed, rp_MaxRetries = maxRetries,
      rp_InitialInterval = interval, rp_MaxInterval = interval,
      rp_Multiplier = Fin 1, rp_RandomizationFactor = Fin 0\<rparr>"

text \<open>The loop \<open>for i := 1; i < retryCount; i++\<close>: the interval times the multiplier, \<open>n\<close> times.\<close>

fun backoff_loop :: "float64 \<Rightarrow> nat \<Rightarrow> float64 \<Rightarrow> float64" where
  "backoff_loop m 0 x = x"
| "backoff_loop m (Suc n) x = backoff_loop m n (f64_mul x m)"

definition apply_jitter :: "float64 \<Rightarrow> float64 \<Rightarrow> float64 \<Rightarrow> float64" where
  "apply_jitter factor u intervalFloat =
     (let delta = f64_mul factor intervalFloat;
          minInterval = f64_sub intervalFloat delta;
          maxInterval = f64_add intervalFloat delta
      in f64_add minInterval (f64_mul u (f64_sub maxInterval minInterval)))"

definition CalculateBackoff :: "(float64 \<Rightarrow> int) \<Rightarrow> float64 \<Rightarrow> RetryPolicy \<Rightarrow> int \<Rightarrow> duration" where
  "CalculateBackoff ovf u policy retryCount =
     (if retryCount \<le> 0 \<or> rp_Type policy = RetryPolicyTypeNone \<or> rp_MaxRetries policy < retryCount
      then 0
      else if rp_Type policy = RetryPolicyTypeFixed then rp_InitialInterval policy
      else if rp_Type policy = RetryPolicyTypeExponential then
        (let base = backoff_loop (rp_Multiplier policy) (nat (retryCount - 1))
                      (f64_of_int (rp_InitialInterval policy));
             capped = (if f64_less (f64_of_int (rp_MaxInterval policy)) base
                       then f64_of_int (rp_MaxInterval policy) else base);
             jittered = (if f64_less (Fin 0) (rp_RandomizationFactor policy)
                         then apply_jitter (rp_RandomizationFactor policy) u capped else capped)
         in f64_to_int64 ovf jittered)
      else 0)"

definition ShouldRetry :: "RetryPolicy \<Rightarrow> int \<Rightarrow> bool" where
  "ShouldRetry policy retryCount \<longleftrightarrow>
     rp_Type policy \<noteq> RetryPolicyTypeNone \<and> retryCount \<le> rp_MaxRetries policy"

definition NextRetryTime ::
  "(float64 \<Rightarrow> int) \<Rightarrow> float64 \<Rightarrow> time \<Rightarrow> RetryPolicy \<Rightarrow> int \<Rightarrow> time option" where
  "NextRetryTime ovf u now policy retryCount =
     (let backoff = CalculateBackoff ovf u policy retryCount
      in if backoff = 0 then None else Some (now + backoff))"

lemmas retry_type_defs [retry_defs] =
  RetryPolicyTypeExponential_def RetryPolicyTypeFixed_def RetryPolicyTypeNone_def

text \<open>
  What the validation tags of the struct and a sensible configuration guarantee: intervals of
  less than \<open>2 ^ 52\<close> nanoseconds (52 days, which float64 represents exactly), a multiplier of at least 1 and a randomization factor in [0, 1].
\<close>

definition valid_policy :: "RetryPolicy \<Rightarrow> bool" where
  "valid_policy p \<longleftrightarrow>
     0 \<le> rp_InitialInterval p \<and> rp_InitialInterval p < 2 ^ 52 \<and>
     0 \<le> rp_MaxInterval p \<and> rp_MaxInterval p < 2 ^ 52 \<and>
     (\<exists>m. rp_Multiplier p = Fin m \<and> 1 \<le> m) \<and>
     (\<exists>f. rp_RandomizationFactor p = Fin f \<and> 0 \<le> f \<and> f \<le> 1)"

text \<open>The range \<open>rand.Float64\<close> documents: a representable number in [0, 1).\<close>

definition rand_Float64_range :: "float64 \<Rightarrow> bool" where
  "rand_Float64_range u \<longleftrightarrow> (\<exists>r. u = Fin r \<and> 0 \<le> r \<and> r < 1)"

subsection \<open>The loop\<close>

lemma backoff_loop_mul: "backoff_loop m n (f64_mul x m) = f64_mul (backoff_loop m n x) m"
  by (induction n arbitrary: x) auto

lemma backoff_loop_ge0:
  "f64_ge0 x \<Longrightarrow> 0 < b \<Longrightarrow> f64_ge0 (backoff_loop (Fin b) n x)"
  by (induction n arbitrary: x) (auto simp: f64_mul_ge0)

lemma backoff_loop_repr:
  "f64_ge0 x \<Longrightarrow> f64_repr x \<Longrightarrow> 0 < b \<Longrightarrow> f64_repr (backoff_loop (Fin b) n x)"
  by (induction n arbitrary: x) (auto simp: f64_mul_ge0 f64_mul_repr)

lemma backoff_loop_step:
  assumes "f64_ge0 x" and "f64_repr x" and "1 \<le> b"
  shows "f64_le (backoff_loop (Fin b) n x) (backoff_loop (Fin b) (Suc n) x)"
  using assms
  by (auto simp: backoff_loop_mul intro!: f64_mul_grows backoff_loop_ge0 backoff_loop_repr)

lemma backoff_loop_exact:
  assumes "0 \<le> i" and "1 \<le> m" and "i * m ^ n < 2 ^ 53"
  shows "backoff_loop (Fin (of_int m)) n (Fin (of_int i)) = Fin (of_int (i * m ^ n))"
  using assms
proof (induction n arbitrary: i)
  case 0
  then show ?case by simp
next
  case (Suc n)
  have "i * m * 1 \<le> i * m * m ^ n"
    using Suc.prems by (intro mult_left_mono) auto
  with Suc.prems have lt: "i * m < 2 ^ 53" by (simp add: mult.assoc)
  then have "f64_mul (Fin (of_int i)) (Fin (of_int m)) = Fin (of_int (i * m))"
    using f64_of_int_exact [of "i * m"] Suc.prems by (simp add: f64_of_int_def)
  moreover have "backoff_loop (Fin (of_int m)) n (Fin (of_int (i * m))) = Fin (of_int (i * m * m ^ n))"
    using Suc.prems by (intro Suc.IH) (auto simp: mult.assoc)
  ultimately show ?case by (simp add: mult.assoc)
qed

subsection \<open>The capped interval\<close>

definition capped_interval :: "RetryPolicy \<Rightarrow> int \<Rightarrow> float64" where
  "capped_interval p n =
     (let base = backoff_loop (rp_Multiplier p) (nat (n - 1)) (f64_of_int (rp_InitialInterval p))
      in if f64_less (f64_of_int (rp_MaxInterval p)) base
         then f64_of_int (rp_MaxInterval p) else base)"

lemma CalculateBackoff_exponential:
  assumes "rp_Type p = RetryPolicyTypeExponential" and "1 \<le> n" and "n \<le> rp_MaxRetries p"
  shows "CalculateBackoff ovf u p n =
    f64_to_int64 ovf
      (if f64_less (Fin 0) (rp_RandomizationFactor p)
       then apply_jitter (rp_RandomizationFactor p) u (capped_interval p n)
       else capped_interval p n)"
  using assms by (simp add: CalculateBackoff_def capped_interval_def retry_defs Let_def)

lemma capped_interval_Fin:
  assumes "valid_policy p"
  obtains y where "capped_interval p n = Fin y" and "0 \<le> y" and "y \<le> of_int (rp_MaxInterval p)"
    and "rnd y = y"
proof -
  from assms obtain m where m: "rp_Multiplier p = Fin m" "1 \<le> m"
    by (auto simp: valid_policy_def)
  let ?b = "backoff_loop (Fin m) (nat (n - 1)) (f64_of_int (rp_InitialInterval p))"
  have i: "f64_ge0 (f64_of_int (rp_InitialInterval p))" "f64_repr (f64_of_int (rp_InitialInterval p))"
    using assms by (auto simp: valid_policy_def f64_of_int_def f64_round_ge0 f64_round_repr)
  have b: "f64_ge0 ?b" "f64_repr ?b"
    using i m by (auto intro: backoff_loop_ge0 backoff_loop_repr)
  have mx: "f64_of_int (rp_MaxInterval p) = Fin (of_int (rp_MaxInterval p))"
    and mx0: "0 \<le> rp_MaxInterval p"
    and mr: "rnd (of_int (rp_MaxInterval p)) = of_int (rp_MaxInterval p)"
    using assms by (auto simp: valid_policy_def f64_of_int_exact rnd_of_int)
  show ?thesis
  proof (cases "f64_less (Fin (of_int (rp_MaxInterval p))) ?b")
    case True
    with m mx mx0 mr show ?thesis
      by (intro that [of "of_int (rp_MaxInterval p)"]) (auto simp: capped_interval_def)
  next
    case False
    with b obtain y where y: "?b = Fin y" by (cases ?b) auto
    with False b m mx show ?thesis
      by (intro that [of y]) (auto simp: capped_interval_def f64_repr_def)
  qed
qed

lemma f64_to_int64_floor: "0 \<le> y \<Longrightarrow> y < 2 ^ 63 \<Longrightarrow> f64_to_int64 ovf (Fin y) = \<lfloor>y\<rfloor>"
proof -
  assume y: "0 \<le> y" "y < 2 ^ 63"
  then have "0 \<le> \<lfloor>y\<rfloor>" and "\<lfloor>y\<rfloor> < 2 ^ 63" by (auto simp: floor_less_iff)
  with y show ?thesis by (simp add: f64_to_int64_def)
qed

lemma capped_interval_mono:
  assumes "valid_policy p" and "1 \<le> n"
  shows "f64_le (capped_interval p n) (capped_interval p (n + 1))"
proof -
  from assms obtain m where m: "rp_Multiplier p = Fin m" "1 \<le> m"
    by (auto simp: valid_policy_def)
  let ?b = "\<lambda>k. backoff_loop (Fin m) k (f64_of_int (rp_InitialInterval p))"
  have i: "f64_ge0 (f64_of_int (rp_InitialInterval p))" "f64_repr (f64_of_int (rp_InitialInterval p))"
    using assms by (auto simp: valid_policy_def f64_of_int_def f64_round_ge0 f64_round_repr)
  have "nat (n + 1 - 1) = Suc (nat (n - 1))" using assms by simp
  moreover have "f64_le (?b (nat (n - 1))) (?b (Suc (nat (n - 1))))"
    using i m by (intro backoff_loop_step) auto
  moreover have "f64_of_int (rp_MaxInterval p) = Fin (of_int (rp_MaxInterval p))"
    using assms by (auto simp: valid_policy_def f64_of_int_exact)
  ultimately show ?thesis
    by (cases "?b (nat (n - 1))"; cases "?b (Suc (nat (n - 1)))")
      (auto simp: capped_interval_def m(1) Let_def)
qed

subsection \<open>Jitter\<close>

lemma apply_jitter_bounds:
  assumes "0 \<le> x" and "x < 2 ^ 52" and "rnd x = x" and "0 \<le> f" and "f \<le> 1"
    and "rand_Float64_range u"
  obtains s where "apply_jitter (Fin f) u (Fin x) = Fin s"
    and "(1 - f) * x - 2 \<le> s" and "s \<le> (1 + f) * x + 4" and "0 \<le> s"
proof -
  obtain r where r: "u = Fin r" "0 \<le> r" "r < 1"
    using assms(6) by (auto simp: rand_Float64_range_def)
  define d where "d = rnd (f * x)"
  define lo where "lo = rnd (x - d)"
  define hi where "hi = rnd (x + d)"
  define w where "w = rnd (hi - lo)"
  define j where "j = rnd (r * w)"
  have fx: "0 \<le> f * x" "f * x \<le> x" using assms by (auto simp: mult_left_le_one_le)
  have d: "0 \<le> d" "d \<le> x" "d \<le> f * x + 1"
    using fx assms rnd_nonneg [OF fx(1)] rnd_mono [OF fx] rnd_err(1) [OF fx(1)]
    by (auto simp: d_def)
  have lo: "0 \<le> lo" "x - d - 1 \<le> lo"
    using d assms rnd_err(2) [of "x - d"] by (auto simp: lo_def rnd_nonneg)
  have hi: "lo \<le> hi" "hi \<le> x + d + 1"
    using d assms rnd_err(1) [of "x + d"] rnd_mono [of "x - d" "x + d"] by (auto simp: lo_def hi_def)
  have w: "0 \<le> w" "w \<le> hi - lo + 1"
    using hi lo d assms rnd_err(1) [of "hi - lo"] by (auto simp: w_def rnd_nonneg)
  have rw: "0 \<le> r * w" "r * w \<le> w" using r w by (auto simp: mult_left_le_one_le)
  have "rnd w = w" using hi by (simp add: w_def rnd_idem)
  then have j: "0 \<le> j" "j \<le> w"
    using rnd_nonneg [OF rw(1)] rnd_mono [OF rw] by (auto simp: j_def)
  have s: "lo \<le> rnd (lo + j)" "rnd (lo + j) \<le> lo + j + 1"
    using lo hi w j d assms rnd_mono [of lo "lo + j"] rnd_idem [of "x - d"] rnd_err(1) [of "lo + j"]
    by (auto simp: lo_def)
  show ?thesis
  proof (rule that)
    show "apply_jitter (Fin f) u (Fin x) = Fin (rnd (lo + j))"
      using d lo hi w j r assms fx rw
      by (simp add: apply_jitter_def f64_sub_def r(1) f64_round_Fin Let_def
          flip: d_def lo_def hi_def w_def j_def)
    show "(1 - f) * x - 2 \<le> rnd (lo + j)"
      using s lo d by (simp add: left_diff_distrib)
    show "rnd (lo + j) \<le> (1 + f) * x + 4"
      using s j w hi d by (simp add: distrib_right)
    show "0 \<le> rnd (lo + j)" using s lo by simp
  qed
qed

lemma no_jitter_backoff:
  assumes "valid_policy p" and "rp_Type p = RetryPolicyTypeExponential"
    and "1 \<le> n" and "n \<le> rp_MaxRetries p" and "capped_interval p n = Fin y"
    and "0 \<le> y" and "y \<le> of_int (rp_MaxInterval p)"
  shows "CalculateBackoff ovf u (p\<lparr>rp_RandomizationFactor := Fin 0\<rparr>) n = \<lfloor>y\<rfloor>"
proof -
  have "rp_MaxInterval p < 2 ^ 52" using assms by (simp add: valid_policy_def)
  then have "(of_int (rp_MaxInterval p) :: rat) < of_int (2 ^ 52)" by linarith
  with assms have "y < 2 ^ 63" by simp
  moreover have "capped_interval (p\<lparr>rp_RandomizationFactor := Fin 0\<rparr>) n = Fin y"
    using assms by (simp add: capped_interval_def Let_def cong: if_cong)
  ultimately show ?thesis
    using assms by (simp add: CalculateBackoff_exponential f64_to_int64_floor)
qed

subsection \<open>Properties\<close>

text \<open>
  C13: without jitter and with an integral multiplier, the backoff is the mathematical one:
  the initial interval times the multiplier to the power of the retries already made, cut off at the
  maximal interval.  No floating-point error shows as long as the product stays below
  \<open>2 ^ 53\<close> nanoseconds.
\<close>

theorem CalculateBackoff_exact:
  assumes "valid_policy p" and "rp_Type p = RetryPolicyTypeExponential"
    and "rp_RandomizationFactor p = Fin 0" and "rp_Multiplier p = Fin (of_int m)"
    and "1 \<le> n" and "n \<le> rp_MaxRetries p"
    and "rp_InitialInterval p * m ^ nat (n - 1) < 2 ^ 53"
  shows "CalculateBackoff ovf u p n =
    min (rp_InitialInterval p * m ^ nat (n - 1)) (rp_MaxInterval p)"
proof -
  define b where "b = rp_InitialInterval p * m ^ nat (n - 1)"
  have i: "0 \<le> rp_InitialInterval p" "rp_InitialInterval p < 2 ^ 53" "1 \<le> m"
    and mx: "0 \<le> rp_MaxInterval p" "rp_MaxInterval p < 2 ^ 53"
    using assms by (auto simp: valid_policy_def)
  have "backoff_loop (rp_Multiplier p) (nat (n - 1)) (f64_of_int (rp_InitialInterval p)) = Fin (of_int b)"
    using i assms(4,7) backoff_loop_exact [of "rp_InitialInterval p" m "nat (n - 1)"]
    by (simp add: f64_of_int_exact b_def)
  then have "capped_interval p n = Fin (of_int (min b (rp_MaxInterval p)))"
    using mx by (simp add: capped_interval_def f64_of_int_exact min_def)
  moreover have "0 \<le> min b (rp_MaxInterval p)" "min b (rp_MaxInterval p) \<le> rp_MaxInterval p"
    using i mx by (auto simp: b_def)
  moreover have "p\<lparr>rp_RandomizationFactor := Fin 0\<rparr> = p" using assms(3) by simp
  ultimately show ?thesis unfolding b_def [symmetric]
    using no_jitter_backoff [OF assms(1,2,5,6), of _ ovf u] by (metis floor_of_int of_int_0_le_iff of_int_le_iff)
qed

theorem CalculateBackoff_exact_witness:
  "CalculateBackoff (\<lambda>_. 0) (Fin 0) (DefaultRetryPolicy\<lparr>rp_RandomizationFactor := Fin 0\<rparr>) 3 = 4000000000"
proof -
  let ?p = "DefaultRetryPolicy\<lparr>rp_RandomizationFactor := Fin 0\<rparr>"
  have "valid_policy ?p"
    by (simp add: valid_policy_def DefaultRetryPolicy_def duration_units)
  then show ?thesis
    using CalculateBackoff_exact [of ?p 2 3 "\<lambda>_. 0" "Fin 0"]
    by (simp add: DefaultRetryPolicy_def duration_units)
qed

text \<open>
  Without jitter the backoff never decreases from one retry to the next and never exceeds
  the maximal interval, whatever the multiplier (overflow of the product to infinity included).
\<close>

theorem CalculateBackoff_monotone:
  assumes "valid_policy p" and "rp_Type p = RetryPolicyTypeExponential"
    and "rp_RandomizationFactor p = Fin 0" and "1 \<le> n" and "n + 1 \<le> rp_MaxRetries p"
  shows "0 \<le> CalculateBackoff ovf u p n
    \<and> CalculateBackoff ovf u p n \<le> CalculateBackoff ovf u p (n + 1)
    \<and> CalculateBackoff ovf u p (n + 1) \<le> rp_MaxInterval p"
proof -
  have p: "p\<lparr>rp_RandomizationFactor := Fin 0\<rparr> = p" using assms(3) by simp
  obtain y where y: "capped_interval p n = Fin y" "0 \<le> y" "y \<le> of_int (rp_MaxInterval p)"
    by (rule capped_interval_Fin [OF assms(1)])
  obtain z where z: "capped_interval p (n + 1) = Fin z" "0 \<le> z" "z \<le> of_int (rp_MaxInterval p)"
    by (rule capped_interval_Fin [OF assms(1)])
  have "CalculateBackoff ovf u p n = \<lfloor>y\<rfloor>"
    using no_jitter_backoff [OF assms(1,2,4) _ y] assms(5) by (simp add: p)
  moreover have "CalculateBackoff ovf u p (n + 1) = \<lfloor>z\<rfloor>"
    using no_jitter_backoff [OF assms(1,2) _ assms(5) z] assms(4) by (simp add: p)
  moreover have "y \<le> z" using capped_interval_mono [OF assms(1,4)] y z by simp
  then have "\<lfloor>y\<rfloor> \<le> \<lfloor>z\<rfloor>" by (rule floor_mono)
  moreover have "\<lfloor>z\<rfloor> \<le> rp_MaxInterval p" using floor_mono [OF z(3)] by simp
  ultimately show ?thesis using y by simp
qed

theorem CalculateBackoff_monotone_witness:
  "CalculateBackoff (\<lambda>_. 0) (Fin 0) (DefaultRetryPolicy\<lparr>rp_RandomizationFactor := Fin 0\<rparr>) 2
     \<le> CalculateBackoff (\<lambda>_. 0) (Fin 0) (DefaultRetryPolicy\<lparr>rp_RandomizationFactor := Fin 0\<rparr>) 3"
proof -
  let ?p = "DefaultRetryPolicy\<lparr>rp_RandomizationFactor := Fin 0\<rparr>"
  have "valid_policy ?p"
    by (simp add: valid_policy_def DefaultRetryPolicy_def duration_units)
  then show ?thesis
    using CalculateBackoff_monotone [of ?p 2 "\<lambda>_. 0" "Fin 0"]
    by (simp add: DefaultRetryPolicy_def)
qed

text \<open>
  Jitter keeps the backoff within the randomization factor of the backoff without
  jitter, up to a few nanoseconds of rounding, and it is never negative.
\<close>

theorem CalculateBackoff_jitter:
  assumes "valid_policy p" and "rp_Type p = RetryPolicyTypeExponential"
    and "rp_RandomizationFactor p = Fin f" and "rand_Float64_range u"
    and "1 \<le> n" and "n \<le> rp_MaxRetries p"
  shows "0 \<le> CalculateBackoff ovf u p n
    \<and> (1 - f) * of_int (CalculateBackoff ovf u (p\<lparr>rp_RandomizationFactor := Fin 0\<rparr>) n) - 3
        \<le> of_int (CalculateBackoff ovf u p n)
    \<and> of_int (CalculateBackoff ovf u p n)
        \<le> (1 + f) * of_int (CalculateBackoff ovf u (p\<lparr>rp_RandomizationFactor := Fin 0\<rparr>) n) + 6"
proof -
  have f: "0 \<le> f" "f \<le> 1" using assms by (auto simp: valid_policy_def)
  obtain y where y: "capped_interval p n = Fin y" "0 \<le> y" "y \<le> of_int (rp_MaxInterval p)" "rnd y = y"
    by (rule capped_interval_Fin [OF assms(1)])
  have "rp_MaxInterval p < 2 ^ 52" using assms by (simp add: valid_policy_def)
  then have "(of_int (rp_MaxInterval p) :: rat) < of_int (2 ^ 52)" by linarith
  with y have lt: "y < 2 ^ 52" by simp
  have b0: "CalculateBackoff ovf u (p\<lparr>rp_RandomizationFactor := Fin 0\<rparr>) n = \<lfloor>y\<rfloor>"
    by (rule no_jitter_backoff [OF assms(1,2,5,6) y(1-3)])
  obtain s where s: "(if f64_less (Fin 0) (Fin f) then apply_jitter (Fin f) u (Fin y) else Fin y) = Fin s"
    "(1 - f) * y - 2 \<le> s" "s \<le> (1 + f) * y + 4" "0 \<le> s"
  proof (cases "0 < f")
    case True
    obtain s where "apply_jitter (Fin f) u (Fin y) = Fin s"
      "(1 - f) * y - 2 \<le> s" "s \<le> (1 + f) * y + 4" "0 \<le> s"
      by (rule apply_jitter_bounds [OF y(2) lt y(4) f assms(4)])
    with True show ?thesis by (intro that) auto
  qed (use y f in \<open>auto intro: that [of y]\<close>)
  have fy: "0 \<le> f * y" "f * y \<le> y" using f y by (auto simp: mult_left_le_one_le)
  have "0 \<le> f * (y - of_int \<lfloor>y\<rfloor>)" using f of_int_floor_le [of y] by simp
  moreover have "f * (y - of_int \<lfloor>y\<rfloor>) \<le> f * 1"
    using f floor_correct [of y] by (intro mult_left_mono) linarith+
  moreover have "f * (y - of_int \<lfloor>y\<rfloor>) \<le> y - of_int \<lfloor>y\<rfloor>"
    using f of_int_floor_le [of y] by (intro mult_left_le_one_le) auto
  ultimately have ff: "0 \<le> f * y - f * of_int \<lfloor>y\<rfloor>" "f * y - f * of_int \<lfloor>y\<rfloor> \<le> f"
      "f * y - f * of_int \<lfloor>y\<rfloor> \<le> y - of_int \<lfloor>y\<rfloor>"
    by (simp_all add: right_diff_distrib)
  have "s < 2 ^ 63" using s(3) fy lt by (simp add: distrib_right)
  then have b: "CalculateBackoff ovf u p n = \<lfloor>s\<rfloor>"
    using CalculateBackoff_exponential [OF assms(2,5,6), of ovf u] s(4)
    by (simp only: assms(3) y(1) s(1) f64_to_int64_floor)
  have fl: "of_int \<lfloor>s\<rfloor> \<le> s" "s < of_int \<lfloor>s\<rfloor> + 1" "of_int \<lfloor>y\<rfloor> \<le> y" "y < of_int \<lfloor>y\<rfloor> + 1"
    by linarith+
  have e: "(1 - f) * of_int \<lfloor>y\<rfloor> = of_int \<lfloor>y\<rfloor> - f * of_int \<lfloor>y\<rfloor>"
    "(1 + f) * of_int \<lfloor>y\<rfloor> = of_int \<lfloor>y\<rfloor> + f * of_int \<lfloor>y\<rfloor>"
    "(1 - f) * y = y - f * y" "(1 + f) * y = y + f * y"
    by (simp_all add: left_diff_distrib distrib_right)
  show ?thesis unfolding b b0
    using s(2-4) ff fl f by (intro conjI; (unfold e)?; linarith)
qed

theorem CalculateBackoff_jitter_witness:
  "0 \<le> CalculateBackoff (\<lambda>_. 0) (Fin (1 / 2)) (DefaultRetryPolicy\<lparr>rp_RandomizationFactor := Fin (1 / 4)\<rparr>) 2"
proof -
  let ?p = "DefaultRetryPolicy\<lparr>rp_RandomizationFactor := Fin (1 / 4)\<rparr>"
  have "valid_policy ?p"
    by (simp add: valid_policy_def DefaultRetryPolicy_def duration_units exI [of _ "1 / 4"])
  moreover have "rand_Float64_range (Fin (1 / 2))"
    by (simp add: rand_Float64_range_def exI [of _ "1 / 2"])
  ultimately show ?thesis
    using CalculateBackoff_jitter [of ?p "1 / 4" "Fin (1 / 2)" 2 "\<lambda>_. 0"]
    by (simp add: DefaultRetryPolicy_def)
qed

definition minute_policy :: RetryPolicy where
  "minute_policy =
     \<lparr>rp_Type = RetryPolicyTypeExponential, rp_MaxRetries = 3, rp_InitialInterval = 60 * Second,
      rp_MaxInterval = 60 * Second, rp_Multiplier = Fin 2, rp_RandomizationFactor = Fin (1 / 2)\<rparr>"

lemma f64_round_numeral [simp]:
  "(numeral n :: int) < 9007199254740992 \<Longrightarrow> f64_round (numeral n) = Fin (numeral n)"
  using f64_of_int_exact [of "numeral n"] by (simp add: f64_of_int_def)

text \<open>
  The jitter is applied after the cut-off at \<open>MaxInterval\<close>, the documented maximal delay between
  retries, so the backoff can exceed it: with both intervals a minute, a factor of 1/2 and 3/4
  drawn, the delay is 75 seconds.
\<close>

theorem jitter_exceeds_MaxInterval:
  "rp_MaxInterval minute_policy = 60 * Second \<and>
   CalculateBackoff (\<lambda>_. 0) (Fin (3 / 4)) minute_policy 1 = 75 * Second"
  by (simp add: minute_policy_def CalculateBackoff_def retry_defs duration_units apply_jitter_def f64_of_int_def
      f64_sub_def f64_to_int64_def Let_def)

end
