(* ===== verification/Jobs.thy ===== *)
theory Jobs
  imports RetryPolicies
begin

text \<open>
  Package jobs, the data every queue and the scheduler share: \<open>scheduler.go\<close> (jobs, their
  metadata, status and execution records), the filter and configuration of \<open>job_queue.go\<close>,
  \<open>config.go\<close> and \<open>metrics.go\<close>.  A job is what its accessor methods return; running it is an
  event of the environment.  A histogram keeps the list of what was observed, newest first;
  a duration stands for the seconds it converts to.
\<close>

datatype JobStatus =
    JobStatusUnset \<comment> \<open>the zero value, the empty string\<close>
  | JobStatusPending
  | JobStatusRunning
  | JobStatusCompleted
  | JobStatusFailed
  | JobStatusDeadLettered
  | JobStatusCancelled

record JobMetadata =
  md_Description :: string
  md_Owner :: string
  md_Timeout :: duration
  md_Singleton :: bool
  md_RetryCount :: int
  md_RetryPolicy :: RetryPolicy
  md_Tags :: "string \<rightharpoonup> string"

record Job =
  job_ID :: string
  job_Name :: string
  job_Metadata :: JobMetadata

record JobInfo =
  ji_ID :: string
  ji_Name :: string
  ji_Spec :: string
  ji_NextRun :: time
  ji_LastRun :: "time option"
  ji_LastError :: "string option"
  ji_Status :: JobStatus
  ji_EnqueuedAt :: time
  ji_StartedAt :: "time option"
  ji_FinishedAt :: "time option"
  ji_Error :: "string option"
  ji_RetryCount :: int
  ji_NextRetry :: "time option"
  ji_Metadata :: JobMetadata

record JobExecution =
  ex_JobID :: string
  ex_ExecutionID :: string
  ex_StartTime :: time
  ex_EndTime :: "time option"
  ex_Status :: JobStatus
  ex_Error :: "string option"
  ex_InstanceID :: string

record JobFilter =
  jf_Status :: "JobStatus list"
  jf_StartTime :: "time option"
  jf_EndTime :: "time option"
  jf_Limit :: int
  jf_Offset :: int

datatype queue_error =
    ErrJobNotFound
  | ErrQueueClosed
  | ErrInvalidJobID
  | ErrJobAlreadyExists
  | ErrInvalidRetry
  | ErrNilHandler
  | ErrNotPending
  | ErrStore string \<comment> \<open>an error of the backing store, wrapped with what was attempted\<close>

record JobQueueConfig =
  qc_Name :: string
  qc_Type :: string
  qc_WorkerCount :: int
  qc_PollInterval :: duration
  qc_DefaultTimeout :: duration
  qc_RetryPolicy :: RetryPolicy
  qc_DeadLetterEnabled :: bool
  qc_Redis_Address :: string
  qc_Redis_Password :: string
  qc_Redis_Database :: int
  qc_Redis_Namespace :: string
  qc_Postgres_TableName :: string

definition DefaultJobQueueConfig :: JobQueueConfig where
  "DefaultJobQueueConfig =
     \<lparr>qc_Name = ''default'', qc_Type = ''memory'', qc_WorkerCount = 5,
      qc_PollInterval = 5 * Second, qc_DefaultTimeout = 5 * Minute,
      qc_RetryPolicy = DefaultRetryPolicy, qc_DeadLetterEnabled = True,
      qc_Redis_Address = [], qc_Redis_Password = [], qc_Redis_Database = 0,
      qc_Redis_Namespace = ''microlib:jobs'', qc_Postgres_TableName = ''job_queue''\<rparr>"

record LeaderElectionConfig =
  le_LeaseDuration :: duration
  le_RenewDeadline :: duration
  le_RetryPeriod :: duration
  le_LeaseName :: string
  le_Identity :: string

record SchedulerConfig =
  sc_Enabled :: bool
  sc_LeaderElection :: LeaderElectionConfig
  sc_MaxConcurrent :: int
  sc_DefaultTimeout :: duration
  sc_HistoryLimit :: int

definition DefaultSchedulerConfig :: SchedulerConfig where
  "DefaultSchedulerConfig =
     \<lparr>sc_Enabled = True,
      sc_LeaderElection =
        \<lparr>le_LeaseDuration = 15 * Second, le_RenewDeadline = 10 * Second,
         le_RetryPeriod = 2 * Second, le_LeaseName = ''microlib-scheduler'', le_Identity = []\<rparr>,
      sc_MaxConcurrent = 5, sc_DefaultTimeout = 5 * Minute, sc_HistoryLimit = 100\<rparr>"

record JobQueueMetrics =
  jm_queue :: string \<comment> \<open>the value of the label\<close>
  jm_enqueuedJobs :: nat
  jm_startedJobs :: nat
  jm_completedJobs :: nat
  jm_failedJobs :: nat
  jm_retriedJobs :: nat
  jm_deadLetteredJobs :: nat
  jm_cancelledJobs :: nat
  jm_jobDuration :: "duration list"
  jm_jobQueueTime :: "duration list"
  jm_jobRetryCount :: "int list"

definition newJobQueueMetrics :: "string \<Rightarrow> JobQueueMetrics" where
  "newJobQueueMetrics queueName =
     \<lparr>jm_queue = queueName, jm_enqueuedJobs = 0, jm_startedJobs = 0, jm_completedJobs = 0,
      jm_failedJobs = 0, jm_retriedJobs = 0, jm_deadLetteredJobs = 0, jm_cancelledJobs = 0,
      jm_jobDuration = [], jm_jobQueueTime = [], jm_jobRetryCount = []\<rparr>"

subsection \<open>Filters and pages\<close>

text \<open>
  The loop of \<open>List\<close> that the memory and the Redis queue share: the conditions under which an
  entry is kept.
\<close>

definition filter_matches :: "JobFilter \<Rightarrow> JobStatus \<Rightarrow> time \<Rightarrow> bool" where
  "filter_matches f status enqueuedAt \<longleftrightarrow>
     (jf_Status f \<noteq> [] \<longrightarrow> status \<in> set (jf_Status f)) \<and>
     (case jf_StartTime f of None \<Rightarrow> True | Some t \<Rightarrow> \<not> enqueuedAt < t) \<and>
     (case jf_EndTime f of None \<Rightarrow> True | Some t \<Rightarrow> \<not> t < enqueuedAt)"

text \<open>The limit and offset of a result, cut as the slices of the source are.\<close>

definition page :: "JobFilter \<Rightarrow> 'a list \<Rightarrow> 'a list" where
  "page f result =
     (let result = (if 0 < jf_Offset f \<and> jf_Offset f < int (length result)
                    then drop (nat (jf_Offset f)) result else result)
      in if 0 < jf_Limit f \<and> jf_Limit f < int (length result)
         then take (nat (jf_Limit f)) result else result)"

lemma set_page: "set (page f xs) \<subseteq> set xs"
  by (auto simp: page_def Let_def dest: in_set_takeD in_set_dropD)

lemma length_page_limit: "0 < jf_Limit f \<Longrightarrow> int (length (page f xs)) \<le> jf_Limit f"
  by (auto simp: page_def Let_def)

lemma page_sublist: "\<exists>us vs. xs = us @ page f xs @ vs"
proof -
  have *: "ys = take n ys @ drop n ys" for n and ys :: "'a list" by simp
  show ?thesis
    unfolding page_def Let_def
    by (auto split: if_splits)
      (metis append_take_drop_id append_Nil append_Nil2)+
qed

end
