(* ===== verification/MemoryQueue.thy ===== *)
theory MemoryQueue
  imports Jobs
begin

text \<open>
  Package jobs, \<open>job_queue.go\<close>: the in-memory job queue.  The maps and the queue of the struct
  hold pointers to entries, so the entries live in a store and the pointers are addresses
  of it: an operation that updates an entry is seen through every pointer.  What runs under
  the mutex is one step.  The loop body of a worker is three steps: \<open>dequeueJob\<close> (under the
  mutex), \<open>worker_start\<close> (the entry is marked running without the mutex) and
  \<open>worker_finish\<close> (under the mutex, after the handler returned).
\<close>

named_theorems mq_defs

subsection \<open>State\<close>

record queueJobEntry =
  qe_Job :: Job
  qe_Status :: JobStatus
  qe_EnqueuedAt :: time
  qe_StartedAt :: "time option"
  qe_FinishedAt :: "time option"
  qe_Error :: "string option"
  qe_RetryCount :: int
  qe_NextRetry :: "time option"

type_synonym addr = nat

record MemoryJobQueue =
  mq_store :: "queueJobEntry list"
  mq_jobs :: "string \<rightharpoonup> addr"
  mq_queue :: "addr list"
  mq_processing :: "string \<rightharpoonup> addr"
  mq_deadLettered :: "string \<rightharpoonup> addr"
  mq_workers :: int
  mq_closed :: bool
  mq_metrics :: JobQueueMetrics
  mq_config :: JobQueueConfig

definition entry :: "MemoryJobQueue \<Rightarrow> addr \<Rightarrow> queueJobEntry" where
  "entry q a = mq_store q ! a"

definition set_entry :: "addr \<Rightarrow> (queueJobEntry \<Rightarrow> queueJobEntry) \<Rightarrow> MemoryJobQueue \<Rightarrow> MemoryJobQueue" where
  "set_entry a f q = q\<lparr>mq_store := (mq_store q)[a := f (mq_store q ! a)]\<rparr>"

abbreviation entry_ID :: "MemoryJobQueue \<Rightarrow> addr \<Rightarrow> string" where
  "entry_ID q a \<equiv> job_ID (qe_Job (entry q a))"

abbreviation set_metrics :: "(JobQueueMetrics \<Rightarrow> JobQueueMetrics) \<Rightarrow> MemoryJobQueue \<Rightarrow> MemoryJobQueue" where
  "set_metrics f q \<equiv> q\<lparr>mq_metrics := f (mq_metrics q)\<rparr>"

subsection \<open>Operations\<close>

definition NewMemoryJobQueue :: "JobQueueConfig \<Rightarrow> MemoryJobQueue" where
  "NewMemoryJobQueue config =
     (let config = (if qc_WorkerCount config \<le> 0 then config\<lparr>qc_WorkerCount := 1\<rparr> else config);
          queueName = (if qc_Name config \<noteq> [] then qc_Name config else ''memory'')
      in \<lparr>mq_store = [], mq_jobs = Map.empty, mq_queue = [], mq_processing = Map.empty,
          mq_deadLettered = Map.empty, mq_workers = qc_WorkerCount config, mq_closed = False,
          mq_metrics = newJobQueueMetrics queueName, mq_config = config\<rparr>)"

definition new_entry :: "time \<Rightarrow> Job \<Rightarrow> duration \<Rightarrow> queueJobEntry" where
  "new_entry now j delay =
     \<lparr>qe_Job = j, qe_Status = JobStatusPending, qe_EnqueuedAt = now, qe_StartedAt = None,
      qe_FinishedAt = None, qe_Error = None, qe_RetryCount = 0,
      qe_NextRetry = (if 0 < delay then Some (now + delay) else None)\<rparr>"

definition add_entry :: "queueJobEntry \<Rightarrow> MemoryJobQueue \<Rightarrow> MemoryJobQueue" where
  "add_entry e q =
     (let a = length (mq_store q)
      in q\<lparr>mq_store := mq_store q @ [e],
           mq_jobs := (mq_jobs q)(job_ID (qe_Job e) \<mapsto> a),
           mq_queue := mq_queue q @ [a]\<rparr>)"

definition EnqueueWithDelay ::
  "time \<Rightarrow> Job option \<Rightarrow> duration \<Rightarrow> MemoryJobQueue \<Rightarrow> queue_error option \<times> MemoryJobQueue" where
  "EnqueueWithDelay now job delay q =
     (case job of
        None \<Rightarrow> (Some ErrInvalidJobID, q)
      | Some j \<Rightarrow>
          if job_ID j = [] then (Some ErrInvalidJobID, q)
          else if mq_closed q then (Some ErrQueueClosed, q)
          else if mq_jobs q (job_ID j) \<noteq> None then (Some ErrJobAlreadyExists, q)
          else (None, set_metrics (\<lambda>m. m\<lparr>jm_enqueuedJobs := jm_enqueuedJobs m + 1\<rparr>)
                        (add_entry (new_entry now j delay) q)))"

definition Enqueue ::
  "time \<Rightarrow> Job option \<Rightarrow> MemoryJobQueue \<Rightarrow> queue_error option \<times> MemoryJobQueue" where
  "Enqueue now job q = EnqueueWithDelay now job 0 q"

text \<open>\<open>Process\<close> starts the workers: the result is how many.\<close>

definition Process :: "bool \<Rightarrow> MemoryJobQueue \<Rightarrow> queue_error + nat" where
  "Process handler_nil q =
     (if handler_nil then Inl ErrNilHandler
      else if mq_closed q then Inl ErrQueueClosed
      else Inr (nat (mq_workers q)))"

definition dequeueJob :: "time \<Rightarrow> MemoryJobQueue \<Rightarrow> addr option \<times> MemoryJobQueue" where
  "dequeueJob now q =
     (case mq_queue q of
        [] \<Rightarrow> (None, q)
      | a # rest \<Rightarrow>
          if (case qe_NextRetry (entry q a) of None \<Rightarrow> False | Some t \<Rightarrow> now < t)
          then (None, q\<lparr>mq_queue := rest @ [a]\<rparr>)
          else (Some a, q\<lparr>mq_queue := rest, mq_processing := (mq_processing q)(entry_ID q a \<mapsto> a)\<rparr>))"

definition worker_start :: "time \<Rightarrow> addr \<Rightarrow> MemoryJobQueue \<Rightarrow> MemoryJobQueue" where
  "worker_start now a q =
     set_metrics (\<lambda>m. m\<lparr>jm_startedJobs := jm_startedJobs m + 1\<rparr>)
       (set_entry a (\<lambda>e. e\<lparr>qe_Status := JobStatusRunning, qe_StartedAt := Some now\<rparr>)
         (set_metrics (\<lambda>m. m\<lparr>jm_jobQueueTime := (now - qe_EnqueuedAt (entry q a)) # jm_jobQueueTime m\<rparr>) q))"

text \<open>The timeout of the context the handler runs with; \<open>None\<close> is no timeout.\<close>

definition job_timeout :: "MemoryJobQueue \<Rightarrow> addr \<Rightarrow> duration option" where
  "job_timeout q a =
     (let t = md_Timeout (job_Metadata (qe_Job (entry q a)));
          t = (if t \<le> 0 then qc_DefaultTimeout (mq_config q) else t)
      in if 0 < t then Some t else None)"

definition observe_retries :: "addr \<Rightarrow> MemoryJobQueue \<Rightarrow> MemoryJobQueue" where
  "observe_retries a q =
     set_metrics (\<lambda>m. m\<lparr>jm_jobRetryCount := qe_RetryCount (entry q a) # jm_jobRetryCount m\<rparr>) q"

text \<open>
  What follows the handler: \<open>dur\<close> is how long it took, \<open>err\<close> what it returned, \<open>finishTime\<close> and
  \<open>now\<close> the two instants read, \<open>u\<close> the number drawn for the jitter.
\<close>

definition worker_finish ::
  "(float64 \<Rightarrow> int) \<Rightarrow> float64 \<Rightarrow> duration \<Rightarrow> time \<Rightarrow> time \<Rightarrow> string option \<Rightarrow> addr \<Rightarrow>
   MemoryJobQueue \<Rightarrow> MemoryJobQueue" where
  "worker_finish ovf u dur finishTime now err a q =
     (let q = set_metrics (\<lambda>m. m\<lparr>jm_jobDuration := dur # jm_jobDuration m\<rparr>) q;
          q = set_entry a (\<lambda>e. e\<lparr>qe_FinishedAt := Some finishTime\<rparr>) q;
          q = (case err of
                 Some msg \<Rightarrow>
                   (let q = set_entry a (\<lambda>e. e\<lparr>qe_Error := Some msg, qe_Status := JobStatusFailed\<rparr>) q;
                        q = set_metrics (\<lambda>m. m\<lparr>jm_failedJobs := jm_failedJobs m + 1\<rparr>) q;
                        retryPolicy = md_RetryPolicy (job_Metadata (qe_Job (entry q a)))
                    in if ShouldRetry retryPolicy (qe_RetryCount (entry q a) + 1) then
                         (let q = set_entry a (\<lambda>e. e\<lparr>qe_RetryCount := qe_RetryCount e + 1\<rparr>) q;
                              q = set_metrics (\<lambda>m. m\<lparr>jm_retriedJobs := jm_retriedJobs m + 1\<rparr>) q;
                              backoff = CalculateBackoff ovf u retryPolicy (qe_RetryCount (entry q a));
                              q = set_entry a (\<lambda>e. e\<lparr>qe_NextRetry := Some (now + backoff),
                                                     qe_Status := JobStatusPending\<rparr>) q
                          in q\<lparr>mq_queue := mq_queue q @ [a]\<rparr>)
                       else if qc_DeadLetterEnabled (mq_config q) then
                         (let q = set_entry a (\<lambda>e. e\<lparr>qe_Status := JobStatusDeadLettered\<rparr>) q;
                              q = q\<lparr>mq_deadLettered := (mq_deadLettered q)(entry_ID q a \<mapsto> a)\<rparr>;
                              q = set_metrics (\<lambda>m. m\<lparr>jm_deadLetteredJobs := jm_deadLetteredJobs m + 1\<rparr>) q
                          in observe_retries a q)
                       else q)
               | None \<Rightarrow>
                   (let q = set_entry a (\<lambda>e. e\<lparr>qe_Status := JobStatusCompleted\<rparr>) q;
                        q = set_metrics (\<lambda>m. m\<lparr>jm_completedJobs := jm_completedJobs m + 1\<rparr>) q
                    in observe_retries a q))
      in q\<lparr>mq_processing := (mq_processing q)(entry_ID q a := None)\<rparr>)"

text \<open>The loop of \<open>Cancel\<close>: the first queued entry with the ID is cut out of the slice.\<close>

fun remove_queued :: "MemoryJobQueue \<Rightarrow> string \<Rightarrow> addr list \<Rightarrow> addr list" where
  "remove_queued q jobID [] = []"
| "remove_queued q jobID (a # as) =
     (if entry_ID q a = jobID then as else a # remove_queued q jobID as)"

definition Cancel :: "time \<Rightarrow> string \<Rightarrow> MemoryJobQueue \<Rightarrow> queue_error option \<times> MemoryJobQueue" where
  "Cancel now jobID q =
     (if jobID = [] then (Some ErrInvalidJobID, q)
      else case mq_jobs q jobID of
          None \<Rightarrow> (Some ErrJobNotFound, q)
        | Some a \<Rightarrow>
            if qe_Status (entry q a) \<noteq> JobStatusPending then (Some ErrNotPending, q)
            else
              (let q = q\<lparr>mq_queue := remove_queued q jobID (mq_queue q)\<rparr>;
                   q = set_entry a (\<lambda>e. e\<lparr>qe_Status := JobStatusCancelled, qe_FinishedAt := Some now\<rparr>) q
               in (None, set_metrics (\<lambda>m. m\<lparr>jm_cancelledJobs := jm_cancelledJobs m + 1\<rparr>) q)))"

definition entry_info :: "queueJobEntry \<Rightarrow> JobInfo" where
  "entry_info e =
     \<lparr>ji_ID = job_ID (qe_Job e), ji_Name = job_Name (qe_Job e), ji_Spec = [],
      ji_NextRun = zero_Time, ji_LastRun = None, ji_LastError = None,
      ji_Status = qe_Status e, ji_EnqueuedAt = qe_EnqueuedAt e, ji_StartedAt = qe_StartedAt e,
      ji_FinishedAt = qe_FinishedAt e, ji_Error = qe_Error e, ji_RetryCount = qe_RetryCount e,
      ji_NextRetry = qe_NextRetry e, ji_Metadata = job_Metadata (qe_Job e)\<rparr>"

definition Get :: "string \<Rightarrow> MemoryJobQueue \<Rightarrow> queue_error + JobInfo" where
  "Get jobID q =
     (if jobID = [] then Inl ErrInvalidJobID
      else case mq_jobs q jobID of
          None \<Rightarrow> Inl ErrJobNotFound
        | Some a \<Rightarrow> Inr (entry_info (entry q a)))"

text \<open>\<open>List\<close> ranges over the map of jobs, in the order \<open>ids\<close>.\<close>

definition List_jobs :: "string list \<Rightarrow> JobFilter \<Rightarrow> MemoryJobQueue \<Rightarrow> JobInfo list" where
  "List_jobs ids f q =
     page f
       (map entry_info
         (filter (\<lambda>e. filter_matches f (qe_Status e) (qe_EnqueuedAt e))
           (map (\<lambda>i. entry q (the (mq_jobs q i))) ids)))"

definition Close :: "MemoryJobQueue \<Rightarrow> MemoryJobQueue" where
  "Close q = (if mq_closed q then q else q\<lparr>mq_closed := True\<rparr>)"

text \<open>\<open>GetDeadLetteredJobs\<close> ranges over the dead letters, in the order \<open>ids\<close>.\<close>

definition GetDeadLetteredJobs :: "string list \<Rightarrow> int \<Rightarrow> MemoryJobQueue \<Rightarrow> JobInfo list" where
  "GetDeadLetteredJobs ids limit q =
     map (\<lambda>i. entry_info (entry q (the (mq_deadLettered q i))))
       (if 0 < limit then take (nat limit) ids else ids)"

definition RequeueDeadLetteredJob ::
  "time \<Rightarrow> string \<Rightarrow> MemoryJobQueue \<Rightarrow> queue_error option \<times> MemoryJobQueue" where
  "RequeueDeadLetteredJob now jobID q =
     (case mq_deadLettered q jobID of
        None \<Rightarrow> (Some ErrJobNotFound, q)
      | Some a \<Rightarrow>
          (let q = set_entry a
                     (\<lambda>e. e\<lparr>qe_Status := JobStatusPending, qe_RetryCount := 0, qe_Error := None,
                            qe_NextRetry := None, qe_StartedAt := None, qe_FinishedAt := None,
                            qe_EnqueuedAt := now\<rparr>) q;
               q = q\<lparr>mq_deadLettered := (mq_deadLettered q)(jobID := None)\<rparr>
           in (None, q\<lparr>mq_queue := mq_queue q @ [a]\<rparr>)))"

definition PurgeDeadLetteredJob ::
  "string \<Rightarrow> MemoryJobQueue \<Rightarrow> queue_error option \<times> MemoryJobQueue" where
  "PurgeDeadLetteredJob jobID q =
     (if mq_deadLettered q jobID = None then (Some ErrJobNotFound, q)
      else (None, q\<lparr>mq_deadLettered := (mq_deadLettered q)(jobID := None),
                    mq_jobs := (mq_jobs q)(jobID := None)\<rparr>))"

end
