(* ===== verification/MemoryQueueInv.thy ===== *)
theory MemoryQueueInv
  imports MemoryQueue
begin

text \<open>
  The invariant of the in-memory queue and that every operation keeps it.  The pointers of
  the struct agree (\<open>mq_wf\<close>): every registered entry is allocated under its own ID, the
  queue holds each pending entry at most once, an entry under way, queued or dead-lettered
  is registered, and no registered job is lost.
\<close>

subsection \<open>The store\<close>

lemma entry_set_entry [simp]:
  "a < length (mq_store q) \<Longrightarrow> entry (set_entry a f q) b = (if b = a then f (entry q a) else entry q b)"
  by (auto simp: entry_def set_entry_def)

lemma set_entry_fields [simp]:
  "length (mq_store (set_entry a f q)) = length (mq_store q)"
  "mq_jobs (set_entry a f q) = mq_jobs q"
  "mq_queue (set_entry a f q) = mq_queue q"
  "mq_processing (set_entry a f q) = mq_processing q"
  "mq_deadLettered (set_entry a f q) = mq_deadLettered q"
  "mq_closed (set_entry a f q) = mq_closed q"
  "mq_metrics (set_entry a f q) = mq_metrics q"
  "mq_config (set_entry a f q) = mq_config q"
  "mq_workers (set_entry a f q) = mq_workers q"
  by (simp_all add: set_entry_def)

lemma entry_updates [simp]:
  "entry (q\<lparr>mq_jobs := x1\<rparr>) = entry q"
  "entry (q\<lparr>mq_queue := x2\<rparr>) = entry q"
  "entry (q\<lparr>mq_processing := x3\<rparr>) = entry q"
  "entry (q\<lparr>mq_deadLettered := x4\<rparr>) = entry q"
  "entry (q\<lparr>mq_metrics := x5\<rparr>) = entry q"
  "entry (q\<lparr>mq_closed := x6\<rparr>) = entry q"
  by (auto simp: entry_def fun_eq_iff)

subsection \<open>The invariant\<close>

definition registered :: "MemoryJobQueue \<Rightarrow> addr \<Rightarrow> bool" where
  "registered q a \<longleftrightarrow> a < length (mq_store q) \<and> mq_jobs q (entry_ID q a) = Some a"

definition accounted :: "MemoryJobQueue \<Rightarrow> string \<Rightarrow> addr \<Rightarrow> bool" where
  "accounted q jobID a \<longleftrightarrow>
     qe_Status (entry q a) \<noteq> JobStatusUnset \<and>
     (qe_Status (entry q a) = JobStatusPending \<longrightarrow>
        a \<in> set (mq_queue q) \<or> mq_processing q jobID = Some a) \<and>
     (qe_Status (entry q a) = JobStatusRunning \<longrightarrow> mq_processing q jobID = Some a) \<and>
     (qe_Status (entry q a) = JobStatusDeadLettered \<longrightarrow> mq_deadLettered q jobID = Some a)"

definition retries_bounded :: "queueJobEntry \<Rightarrow> bool" where
  "retries_bounded e \<longleftrightarrow>
     0 \<le> qe_RetryCount e \<and>
     qe_RetryCount e \<le> max 0 (rp_MaxRetries (md_RetryPolicy (job_Metadata (qe_Job e))))"

definition mq_wf :: "MemoryJobQueue \<Rightarrow> bool" where
  "mq_wf q \<longleftrightarrow>
     distinct (mq_queue q) \<and>
     (\<forall>a\<in>set (mq_queue q). registered q a \<and> qe_Status (entry q a) = JobStatusPending) \<and>
     (\<forall>i a. mq_jobs q i = Some a \<longrightarrow> a < length (mq_store q) \<and> entry_ID q a = i \<and> accounted q i a) \<and>
     (\<forall>i a. mq_deadLettered q i = Some a \<longrightarrow>
        mq_jobs q i = Some a \<and> qe_Status (entry q a) = JobStatusDeadLettered) \<and>
     (\<forall>i a. mq_processing q i = Some a \<longrightarrow>
        mq_jobs q i = Some a \<and> a \<notin> set (mq_queue q) \<and> mq_deadLettered q i = None) \<and>
     (\<forall>a < length (mq_store q). retries_bounded (entry q a))"

lemma mq_wfI:
  assumes "distinct (mq_queue q)"
    and "\<And>a. a \<in> set (mq_queue q) \<Longrightarrow> a < length (mq_store q)"
    and "\<And>a. a \<in> set (mq_queue q) \<Longrightarrow> mq_jobs q (entry_ID q a) = Some a"
    and "\<And>a. a \<in> set (mq_queue q) \<Longrightarrow> qe_Status (entry q a) = JobStatusPending"
    and "\<And>i a. mq_jobs q i = Some a \<Longrightarrow> a < length (mq_store q) \<and> entry_ID q a = i"
    and "\<And>i a. mq_jobs q i = Some a \<Longrightarrow> accounted q i a"
    and "\<And>i a. mq_deadLettered q i = Some a \<Longrightarrow>
      mq_jobs q i = Some a \<and> qe_Status (entry q a) = JobStatusDeadLettered"
    and "\<And>i a. mq_processing q i = Some a \<Longrightarrow>
      mq_jobs q i = Some a \<and> a \<notin> set (mq_queue q) \<and> mq_deadLettered q i = None"
    and "\<And>a. a < length (mq_store q) \<Longrightarrow> retries_bounded (entry q a)"
  shows "mq_wf q"
  unfolding mq_wf_def registered_def using assms by (intro conjI allI impI ballI) blast+

lemma mq_wf_queueD:
  assumes "mq_wf q" and "a \<in> set (mq_queue q)"
  shows "a < length (mq_store q)" and "mq_jobs q (entry_ID q a) = Some a"
    and "qe_Status (entry q a) = JobStatusPending"
  using assms unfolding mq_wf_def registered_def by blast+

lemma mq_wf_distinct: "mq_wf q \<Longrightarrow> distinct (mq_queue q)"
  unfolding mq_wf_def by blast

lemma mq_wf_jobsD:
  assumes "mq_wf q" and "mq_jobs q i = Some a"
  shows "a < length (mq_store q)" and "entry_ID q a = i" and "accounted q i a"
  using assms unfolding mq_wf_def by blast+

lemma mq_wf_processingD:
  assumes "mq_wf q" and "mq_processing q i = Some a"
  shows "mq_jobs q i = Some a" and "a \<notin> set (mq_queue q)" and "mq_deadLettered q i = None"
  using assms unfolding mq_wf_def by blast+

lemma mq_wf_deadD:
  assumes "mq_wf q" and "mq_deadLettered q i = Some a"
  shows "mq_jobs q i = Some a" and "qe_Status (entry q a) = JobStatusDeadLettered"
  using assms unfolding mq_wf_def by blast+

lemma mq_wf_retries: "mq_wf q \<Longrightarrow> a < length (mq_store q) \<Longrightarrow> retries_bounded (entry q a)"
  unfolding mq_wf_def by blast

lemmas mq_wf_dests = mq_wf_queueD mq_wf_jobsD mq_wf_processingD mq_wf_deadD

lemma mq_wf_jobs_inj:
  assumes "mq_wf q" and "mq_jobs q i = Some a" and "mq_jobs q j = Some a"
  shows "i = j"
  using mq_wf_jobsD(2) [OF assms(1,2)] mq_wf_jobsD(2) [OF assms(1,3)] by simp

lemma mq_wf_processing_not_dead:
  assumes "mq_wf q" and "mq_deadLettered q i = Some a"
  shows "mq_processing q i = None"
  using assms mq_wf_processingD(3) [OF assms(1)] by (cases "mq_processing q i") auto

lemma mq_wf_dead_not_queued:
  assumes "mq_wf q" and "mq_deadLettered q i = Some a"
  shows "a \<notin> set (mq_queue q)"
  using mq_wf_deadD(2) [OF assms] mq_wf_queueD(3) [OF assms(1)] by auto

lemma mq_wf_queued_only:
  assumes "mq_wf q" and "a \<in> set (mq_queue q)"
  shows "mq_deadLettered q (entry_ID q a) = None" and "mq_processing q (entry_ID q a) = None"
proof -
  note reg = mq_wf_queueD [OF assms]
  show "mq_deadLettered q (entry_ID q a) = None"
    using reg mq_wf_deadD [OF assms(1), of "entry_ID q a"]
    by (cases "mq_deadLettered q (entry_ID q a)") auto
  show "mq_processing q (entry_ID q a) = None"
    using reg assms(2) mq_wf_processingD [OF assms(1), of "entry_ID q a"]
    by (cases "mq_processing q (entry_ID q a)") auto
qed

lemma mq_wf_queue_ID:
  assumes "mq_wf q" and "b \<in> set (mq_queue q)" and "mq_jobs q i = Some a"
  shows "entry_ID q b = i \<longleftrightarrow> b = a"
  using mq_wf_queueD(2) [OF assms(1,2)] mq_wf_jobsD(2) [OF assms(1,3)] assms(3)
  by (metis option.inject)

lemma entry_NewMemory [simp]:
  "mq_store (NewMemoryJobQueue c) = []" "mq_jobs (NewMemoryJobQueue c) = Map.empty"
  "mq_queue (NewMemoryJobQueue c) = []" "mq_processing (NewMemoryJobQueue c) = Map.empty"
  "mq_deadLettered (NewMemoryJobQueue c) = Map.empty" "mq_closed (NewMemoryJobQueue c) = False"
  by (simp_all add: NewMemoryJobQueue_def Let_def)

lemma mq_wf_New: "mq_wf (NewMemoryJobQueue c)"
  by (rule mq_wfI) auto

text \<open>The metrics and the closed flag are not part of the invariant.\<close>

lemma accounted_metrics [simp]:
  "accounted (q\<lparr>mq_metrics := m\<rparr>) i a = accounted q i a"
  "accounted (q\<lparr>mq_closed := c\<rparr>) i a = accounted q i a"
  by (simp_all add: accounted_def)

lemma mq_wf_metrics [simp]:
  "mq_wf (q\<lparr>mq_metrics := m\<rparr>) = mq_wf q" "mq_wf (q\<lparr>mq_closed := c\<rparr>) = mq_wf q"
  by (simp_all add: mq_wf_def registered_def)

subsection \<open>Enqueue\<close>

lemma add_entry_fields [simp]:
  "length (mq_store (add_entry e q)) = Suc (length (mq_store q))"
  "mq_jobs (add_entry e q) = (mq_jobs q)(job_ID (qe_Job e) \<mapsto> length (mq_store q))"
  "mq_queue (add_entry e q) = mq_queue q @ [length (mq_store q)]"
  "mq_processing (add_entry e q) = mq_processing q"
  "mq_deadLettered (add_entry e q) = mq_deadLettered q"
  "mq_closed (add_entry e q) = mq_closed q"
  "mq_metrics (add_entry e q) = mq_metrics q"
  "mq_config (add_entry e q) = mq_config q"
  by (simp_all add: add_entry_def Let_def)

lemma entry_add_old [simp]: "a < length (mq_store q) \<Longrightarrow> entry (add_entry e q) a = entry q a"
  by (simp add: add_entry_def Let_def entry_def nth_append)

lemma entry_add_new [simp]: "entry (add_entry e q) (length (mq_store q)) = e"
  by (simp add: add_entry_def Let_def entry_def)

lemma mq_wf_add_entry:
  assumes wf: "mq_wf q" and new: "mq_jobs q (job_ID (qe_Job e)) = None"
    and st: "qe_Status e = JobStatusPending" and rc: "qe_RetryCount e = 0"
  shows "mq_wf (add_entry e q)"
proof (rule mq_wfI, goal_cases)
  case 1
  then show ?case using mq_wf_distinct [OF wf] mq_wf_queueD(1) [OF wf] by auto
next
  case (2 a)
  then show ?case using mq_wf_queueD(1) [OF wf] by force
next
  case (3 a)
  then show ?case using mq_wf_queueD(1,2) [OF wf] new by force
next
  case (4 a)
  then show ?case using mq_wf_queueD(1,3) [OF wf] st by force
next
  case (5 i a)
  then show ?case using mq_wf_jobsD(1,2) [OF wf] by (force split: if_splits)
next
  case (6 i a)
  then show ?case
    using mq_wf_jobsD(1,3) [OF wf, of i a] st
    by (auto simp: accounted_def split: if_splits)
next
  case (7 i a)
  then show ?case
    using mq_wf_deadD [OF wf, of i a] mq_wf_jobsD(1) [OF wf, of i a] new by auto
next
  case (8 i a)
  then show ?case
    using mq_wf_processingD [OF wf, of i a] mq_wf_jobsD(1) [OF wf, of i a] new by auto
next
  case (9 a)
  then show ?case
    using mq_wf_retries [OF wf, of a] rc
    by (cases "a = length (mq_store q)") (auto simp: retries_bounded_def)
qed

lemma EnqueueWithDelay_error: "EnqueueWithDelay now job delay q = (Some e, q') \<Longrightarrow> q' = q"
  by (auto simp: EnqueueWithDelay_def split: option.splits if_splits)

lemma EnqueueWithDelay_ok:
  assumes "EnqueueWithDelay now job delay q = (None, q')"
  obtains j where "job = Some j" and "job_ID j \<noteq> []" and "\<not> mq_closed q"
    and "mq_jobs q (job_ID j) = None"
    and "q' = set_metrics (\<lambda>m. m\<lparr>jm_enqueuedJobs := jm_enqueuedJobs m + 1\<rparr>)
                (add_entry (new_entry now j delay) q)"
  using assms by (auto simp: EnqueueWithDelay_def split: option.splits if_splits)

lemma new_entry_fields [simp]:
  "qe_Job (new_entry now j d) = j" "qe_Status (new_entry now j d) = JobStatusPending"
  "qe_RetryCount (new_entry now j d) = 0" "qe_EnqueuedAt (new_entry now j d) = now"
  "qe_NextRetry (new_entry now j d) = (if 0 < d then Some (now + d) else None)"
  by (simp_all add: new_entry_def)

lemma mq_wf_Enqueue:
  assumes "mq_wf q"
  shows "mq_wf (snd (EnqueueWithDelay now job delay q))"
  using assms
  by (auto simp: EnqueueWithDelay_def intro!: mq_wf_add_entry split: option.split)

subsection \<open>Moving an entry\<close>

text \<open>
  Every other operation updates one registered entry and moves it between the queue, the
  entries under way and the dead letters.  One lemma covers all of them.
\<close>

lemma mq_wf_move:
  assumes wf: "mq_wf q" and reg: "mq_jobs q i = Some a"
    and len: "length (mq_store q') = length (mq_store q)" and jobs: "mq_jobs q' = mq_jobs q"
    and other: "\<And>b. b \<noteq> a \<Longrightarrow> entry q' b = entry q b" and self: "entry_ID q' a = i"
    and qd: "distinct (mq_queue q')" and qs: "set (mq_queue q') - {a} = set (mq_queue q) - {a}"
    and qp: "a \<in> set (mq_queue q') \<Longrightarrow> qe_Status (entry q' a) = JobStatusPending"
    and pr: "\<And>j. j \<noteq> i \<Longrightarrow> mq_processing q' j = mq_processing q j"
    and pr': "mq_processing q' i = None \<or>
      mq_processing q' i = Some a \<and> a \<notin> set (mq_queue q') \<and> mq_deadLettered q' i = None"
    and dl: "\<And>j. j \<noteq> i \<Longrightarrow> mq_deadLettered q' j = mq_deadLettered q j"
    and dl': "mq_deadLettered q' i = None \<or>
      mq_deadLettered q' i = Some a \<and> qe_Status (entry q' a) = JobStatusDeadLettered"
    and ac: "accounted q' i a" and rb: "retries_bounded (entry q' a)"
  shows "mq_wf q'"
proof (rule mq_wfI, goal_cases)
  case 1
  show ?case by (rule qd)
next
  case (2 b)
  then show ?case
    using qs mq_wf_queueD(1) [OF wf, of b] mq_wf_jobsD(1) [OF wf reg] len by (cases "b = a") auto
next
  case (3 b)
  then show ?case
    using qs mq_wf_queueD(2) [OF wf, of b] reg self other [of b] jobs by (cases "b = a") auto
next
  case (4 b)
  then show ?case
    using qs qp mq_wf_queueD(3) [OF wf, of b] other [of b] by (cases "b = a") auto
next
  case (5 j b)
  then show ?case
    using mq_wf_jobsD(1,2) [OF wf, of j b] mq_wf_jobs_inj [OF wf reg, of j] self other [of b] jobs len
    by (cases "b = a") auto
next
  case (6 j b)
  show ?case
  proof (cases "j = i")
    case True
    with 6 reg jobs ac show ?thesis by simp
  next
    case False
    with 6 jobs reg have ne: "b \<noteq> a" using mq_wf_jobs_inj [OF wf reg, of j] by auto
    from 6 jobs have "accounted q j b" using mq_wf_jobsD(3) [OF wf, of j b] by simp
    then show ?thesis
      using False ne qs pr [OF False] dl [OF False] other [OF ne] by (auto simp: accounted_def)
  qed
next
  case (7 j b)
  show ?case
  proof (cases "j = i")
    case True
    with 7 dl' jobs reg show ?thesis by auto
  next
    case False
    with 7 dl have d: "mq_deadLettered q j = Some b" by simp
    with False reg have "b \<noteq> a" using mq_wf_jobs_inj [OF wf reg, of j] mq_wf_deadD(1) [OF wf d] by auto
    with mq_wf_deadD [OF wf d] other jobs show ?thesis by simp
  qed
next
  case (8 j b)
  show ?case
  proof (cases "j = i")
    case True
    with 8 pr' jobs reg show ?thesis by auto
  next
    case False
    with 8 pr have d: "mq_processing q j = Some b" by simp
    with False reg have "b \<noteq> a" using mq_wf_jobs_inj [OF wf reg, of j] mq_wf_processingD(1) [OF wf d] by auto
    with mq_wf_processingD [OF wf d] qs jobs dl [OF False] show ?thesis by auto
  qed
next
  case (9 b)
  then show ?case
    using rb other [of b] len mq_wf_retries [OF wf, of b] by (cases "b = a") auto
qed

subsection \<open>Workers\<close>

lemma mq_wf_dequeue:
  assumes wf: "mq_wf q"
  shows "mq_wf (snd (dequeueJob now q))"
proof (cases "mq_queue q")
  case Nil
  with assms show ?thesis by (simp add: dequeueJob_def)
next
  case (Cons a rest)
  have a: "a \<in> set (mq_queue q)" using Cons by simp
  note reg = mq_wf_queueD [OF wf a]
  have dist: "a \<notin> set rest" "distinct rest" using mq_wf_distinct [OF wf] Cons by auto
  from reg dist mq_wf_queued_only [OF wf a] mq_wf_retries [OF wf reg(1)] show ?thesis
    unfolding dequeueJob_def Cons
    by (auto intro!: mq_wf_move [OF wf reg(2)] simp: Cons accounted_def split: option.split)
qed

lemma mq_wf_worker_start:
  assumes wf: "mq_wf q" and p: "mq_processing q i = Some a"
  shows "mq_wf (worker_start now a q)"
proof -
  note j = mq_wf_processingD [OF wf p]
  note r = mq_wf_jobsD [OF wf j(1)]
  show ?thesis
    unfolding worker_start_def
    by (rule mq_wf_move [OF wf j(1)])
      (use wf p j r mq_wf_retries [OF wf r(1)] in
        \<open>auto simp: accounted_def retries_bounded_def mq_wf_distinct\<close>)
qed

lemma retries_bounded_incr:
  "retries_bounded e \<Longrightarrow> ShouldRetry (md_RetryPolicy (job_Metadata (qe_Job e))) (qe_RetryCount e + 1) \<Longrightarrow>
   0 \<le> qe_RetryCount e + 1
     \<and> qe_RetryCount e + 1 \<le> max 0 (rp_MaxRetries (md_RetryPolicy (job_Metadata (qe_Job e))))"
  by (auto simp: retries_bounded_def ShouldRetry_def)

text \<open>What the last step of a worker makes of the entry, and where it puts it.\<close>

definition finish_retries :: "string option \<Rightarrow> queueJobEntry \<Rightarrow> bool" where
  "finish_retries err e \<longleftrightarrow>
     err \<noteq> None \<and> ShouldRetry (md_RetryPolicy (job_Metadata (qe_Job e))) (qe_RetryCount e + 1)"

definition finish_buries :: "MemoryJobQueue \<Rightarrow> string option \<Rightarrow> queueJobEntry \<Rightarrow> bool" where
  "finish_buries q err e \<longleftrightarrow>
     err \<noteq> None \<and> \<not> finish_retries err e \<and> qc_DeadLetterEnabled (mq_config q)"

lemma worker_finish_entry:
  fixes ovf u dur finishTime now err
  assumes "a < length (mq_store q)"
  defines "e \<equiv> entry q a" and "e' \<equiv> entry (worker_finish ovf u dur finishTime now err a q) a"
  shows "qe_Job e' = qe_Job e" and "qe_FinishedAt e' = Some finishTime"
    and "qe_Status e' =
      (if err = None then JobStatusCompleted else if finish_retries err e then JobStatusPending
       else if finish_buries q err e then JobStatusDeadLettered else JobStatusFailed)"
    and "qe_RetryCount e' = (if finish_retries err e then qe_RetryCount e + 1 else qe_RetryCount e)"
    and "qe_NextRetry e' =
      (if finish_retries err e
       then Some (now + CalculateBackoff ovf u (md_RetryPolicy (job_Metadata (qe_Job e))) (qe_RetryCount e + 1))
       else qe_NextRetry e)"
    and "qe_Error e' = (case err of None \<Rightarrow> qe_Error e | Some msg \<Rightarrow> Some msg)"
  using assms
  by (auto simp: worker_finish_def Let_def observe_retries_def finish_retries_def finish_buries_def
      split: option.split)

lemma worker_finish_other:
  fixes ovf u dur finishTime now err
  assumes "a < length (mq_store q)"
  defines "e \<equiv> entry q a" and "q' \<equiv> worker_finish ovf u dur finishTime now err a q"
  shows "b \<noteq> a \<Longrightarrow> entry q' b = entry q b"
    and "length (mq_store q') = length (mq_store q)" and "mq_jobs q' = mq_jobs q"
    and "mq_queue q' = mq_queue q @ (if finish_retries err e then [a] else [])"
    and "mq_deadLettered q' =
      (if finish_buries q err e then (mq_deadLettered q)(entry_ID q a \<mapsto> a) else mq_deadLettered q)"
    and "mq_processing q' = (mq_processing q)(entry_ID q a := None)"
    and "mq_closed q' = mq_closed q" and "mq_config q' = mq_config q"
  using assms
  by (auto simp: worker_finish_def Let_def observe_retries_def finish_retries_def finish_buries_def
      split: option.split)

lemmas worker_finish_facts = worker_finish_entry worker_finish_other

lemma mq_wf_worker_finish:
  assumes wf: "mq_wf q" and p: "mq_processing q i = Some a"
  shows "mq_wf (worker_finish ovf u dur finishTime now err a q)"
proof -
  note j = mq_wf_processingD [OF wf p]
  note r = mq_wf_jobsD [OF wf j(1)]
  note rb = mq_wf_retries [OF wf r(1)]
  note f = worker_finish_facts [OF r(1), where ovf = ovf and u = u and dur = dur and finishTime = finishTime
      and now = now and err = err]
  have excl: "\<not> (finish_retries err (entry q a) \<and> finish_buries q err (entry q a))"
    "finish_retries err (entry q a) \<longrightarrow> err \<noteq> None" "finish_buries q err (entry q a) \<longrightarrow> err \<noteq> None"
    by (auto simp: finish_buries_def finish_retries_def)
  have rb': "retries_bounded (entry (worker_finish ovf u dur finishTime now err a q) a)"
    using rb retries_bounded_incr [OF rb]
    by (auto simp: retries_bounded_def f(1,4) finish_retries_def)
  show ?thesis
    by (rule mq_wf_move [OF wf j(1)])
      (use j(2,3) r(2) excl rb' mq_wf_distinct [OF wf] in \<open>auto simp: f accounted_def\<close>)
qed

subsection \<open>Cancel, requeue, purge, close\<close>

lemma set_remove_queued:
  assumes wf: "mq_wf q" and reg: "mq_jobs q i = Some a"
    and qs: "set qs \<subseteq> set (mq_queue q)" "distinct qs"
  shows "set (remove_queued q i qs) = set qs - {a} \<and> distinct (remove_queued q i qs)"
  using qs
proof (induction qs)
  case (Cons b qs)
  have "entry_ID q b = i \<longleftrightarrow> b = a"
    by (rule mq_wf_queue_ID [OF wf _ reg]) (use Cons.prems in simp)
  with Cons show ?case by auto
qed auto

lemma mq_wf_Cancel:
  assumes wf: "mq_wf q"
  shows "mq_wf (snd (Cancel now jobID q))"
proof (cases "mq_jobs q jobID")
  case None
  with wf show ?thesis by (simp add: Cancel_def)
next
  case (Some a)
  note r = mq_wf_jobsD [OF wf Some]
  note rm = set_remove_queued [OF wf Some subset_refl mq_wf_distinct [OF wf]]
  have dl: "mq_deadLettered q jobID = None" if "qe_Status (entry q a) = JobStatusPending"
    using that mq_wf_deadD [OF wf, of jobID] Some by (cases "mq_deadLettered q jobID") auto
  have pr: "mq_processing q jobID = None \<or> mq_processing q jobID = Some a"
    using mq_wf_processingD(1) [OF wf, of jobID] Some by (cases "mq_processing q jobID") auto
  show ?thesis
  proof (cases "jobID = [] \<or> qe_Status (entry q a) \<noteq> JobStatusPending")
    case True
    with wf Some show ?thesis by (auto simp: Cancel_def)
  next
    case False
    with Some show ?thesis
      by (auto simp: Cancel_def Let_def intro!: mq_wf_move [OF wf Some])
        (use r rm dl pr mq_wf_retries [OF wf r(1)] False in
          \<open>auto simp: accounted_def retries_bounded_def\<close>)
  qed
qed

lemma mq_wf_Requeue:
  assumes wf: "mq_wf q"
  shows "mq_wf (snd (RequeueDeadLetteredJob now jobID q))"
proof (cases "mq_deadLettered q jobID")
  case None
  with wf show ?thesis by (simp add: RequeueDeadLetteredJob_def)
next
  case (Some a)
  note j = mq_wf_deadD [OF wf Some]
  note r = mq_wf_jobsD [OF wf j(1)]
  note extra = mq_wf_dead_not_queued [OF wf Some] mq_wf_processing_not_dead [OF wf Some]
  show ?thesis
    by (rule mq_wf_move [OF wf j(1)])
      (use Some j r extra mq_wf_distinct [OF wf] in
        \<open>auto simp: RequeueDeadLetteredJob_def Let_def accounted_def retries_bounded_def\<close>)
qed

lemma mq_wf_Purge:
  assumes wf: "mq_wf q"
  shows "mq_wf (snd (PurgeDeadLetteredJob jobID q))"
proof (cases "mq_deadLettered q jobID")
  case None
  with wf show ?thesis by (simp add: PurgeDeadLetteredJob_def)
next
  case (Some a)
  let ?q = "q\<lparr>mq_deadLettered := (mq_deadLettered q)(jobID := None), mq_jobs := (mq_jobs q)(jobID := None)\<rparr>"
  note j = mq_wf_deadD [OF wf Some]
  note r = mq_wf_jobsD [OF wf j(1)]
  note extra = mq_wf_dead_not_queued [OF wf Some] mq_wf_processing_not_dead [OF wf Some]
  have "mq_wf ?q"
  proof (rule mq_wfI, goal_cases)
    case 1
    then show ?case using mq_wf_distinct [OF wf] by simp
  next
    case (2 b)
    then show ?case using mq_wf_queueD(1) [OF wf, of b] by simp
  next
    case (4 b)
    then show ?case using mq_wf_queueD(3) [OF wf, of b] by simp
  next
    case (5 i b)
    then show ?case using mq_wf_jobsD(1,2) [OF wf, of i b] by (simp split: if_splits)
  next
    case (9 b)
    then show ?case using mq_wf_retries [OF wf, of b] by simp
  next
    case (3 b)
    then have b: "b \<in> set (mq_queue q)" by simp
    with extra(1) have "entry_ID q b \<noteq> jobID" using mq_wf_queue_ID [OF wf b j(1)] by metis
    with mq_wf_queueD(2) [OF wf b] show ?case by simp
  next
    case (6 i b)
    then show ?case
      using mq_wf_jobsD(3) [OF wf, of i b] by (auto simp: accounted_def split: if_splits)
  next
    case (7 i b)
    then show ?case using mq_wf_deadD [OF wf, of i b] by (auto split: if_splits)
  next
    case (8 i b)
    then show ?case using mq_wf_processingD [OF wf, of i b] extra by (auto split: if_splits)
  qed
  with Some show ?thesis by (simp add: PurgeDeadLetteredJob_def)
qed

lemma mq_wf_Close: "mq_wf q \<Longrightarrow> mq_wf (Close q)"
  by (simp add: Close_def)

lemmas mq_wf_ops = mq_wf_Enqueue mq_wf_dequeue mq_wf_worker_start mq_wf_worker_finish
  mq_wf_Cancel mq_wf_Requeue mq_wf_Purge mq_wf_Close

end
