(* ===== verification/MemoryQueueSys.thy ===== *)
theory MemoryQueueSys
  imports MemoryQueueInv
begin

text \<open>
  The in-memory queue with its workers: a step relation in which clients call the queue and
  every worker goroutine is at one point of its loop.  Steps of different goroutines
  interleave freely; clocks, handlers and drawn numbers are arbitrary.
\<close>

subsection \<open>The system\<close>

datatype worker_point =
    WNone \<comment> \<open>not started\<close>
  | WIdle \<comment> \<open>waiting in the select\<close>
  | WGot addr \<comment> \<open>after dequeueJob, before the entry is marked\<close>
  | WRunning addr \<comment> \<open>in the handler\<close>
  | WDone \<comment> \<open>returned\<close>

record mem_system =
  sys_q :: MemoryJobQueue
  sys_w :: "nat \<Rightarrow> worker_point"
  sys_n :: nat \<comment> \<open>workers started so far\<close>

definition init_system :: "JobQueueConfig \<Rightarrow> mem_system" where
  "init_system c = \<lparr>sys_q = NewMemoryJobQueue c, sys_w = (\<lambda>_. WNone), sys_n = 0\<rparr>"

inductive mem_step :: "mem_system \<Rightarrow> mem_system \<Rightarrow> bool" where
  s_enqueue: "mem_step s (s\<lparr>sys_q := snd (EnqueueWithDelay now job delay (sys_q s))\<rparr>)"
| s_cancel: "mem_step s (s\<lparr>sys_q := snd (Cancel now jobID (sys_q s))\<rparr>)"
| s_requeue: "mem_step s (s\<lparr>sys_q := snd (RequeueDeadLetteredJob now jobID (sys_q s))\<rparr>)"
| s_purge: "mem_step s (s\<lparr>sys_q := snd (PurgeDeadLetteredJob jobID (sys_q s))\<rparr>)"
| s_close: "mem_step s (s\<lparr>sys_q := Close (sys_q s)\<rparr>)"
| s_process: "Process handler_nil (sys_q s) = Inr k \<Longrightarrow>
    mem_step s (s\<lparr>sys_w := (\<lambda>i. if sys_n s \<le> i \<and> i < sys_n s + k then WIdle else sys_w s i),
                  sys_n := sys_n s + k\<rparr>)"
| s_exit: "sys_w s i = WIdle \<Longrightarrow> mem_step s (s\<lparr>sys_w := (sys_w s)(i := WDone)\<rparr>)"
| s_poll_none: "sys_w s i = WIdle \<Longrightarrow> dequeueJob now (sys_q s) = (None, q') \<Longrightarrow>
    mem_step s (s\<lparr>sys_q := q'\<rparr>)"
| s_poll_some: "sys_w s i = WIdle \<Longrightarrow> dequeueJob now (sys_q s) = (Some a, q') \<Longrightarrow>
    mem_step s (s\<lparr>sys_q := q', sys_w := (sys_w s)(i := WGot a)\<rparr>)"
| s_start: "sys_w s i = WGot a \<Longrightarrow>
    mem_step s (s\<lparr>sys_q := worker_start now a (sys_q s), sys_w := (sys_w s)(i := WRunning a)\<rparr>)"
| s_finish: "sys_w s i = WRunning a \<Longrightarrow>
    mem_step s (s\<lparr>sys_q := worker_finish ovf u dur finishTime now err a (sys_q s),
                  sys_w := (sys_w s)(i := WIdle)\<rparr>)"

inductive mem_reachable :: "JobQueueConfig \<Rightarrow> mem_system \<Rightarrow> bool" for c where
  r_init: "mem_reachable c (init_system c)"
| r_step: "mem_reachable c s \<Longrightarrow> mem_step s t \<Longrightarrow> mem_reachable c t"

fun holds :: "worker_point \<Rightarrow> addr \<Rightarrow> bool" where
  "holds (WGot a) b \<longleftrightarrow> a = b"
| "holds (WRunning a) b \<longleftrightarrow> a = b"
| "holds _ b \<longleftrightarrow> False"

fun running :: "worker_point \<Rightarrow> bool" where
  "running (WRunning a) = True"
| "running _ = False"

definition job_status :: "MemoryJobQueue \<Rightarrow> string \<Rightarrow> JobStatus option" where
  "job_status q jobID = map_option (\<lambda>a. qe_Status (entry q a)) (mq_jobs q jobID)"

subsection \<open>The invariant of the system\<close>

definition workers_wf :: "mem_system \<Rightarrow> bool" where
  "workers_wf s \<longleftrightarrow>
     (\<forall>i a. holds (sys_w s i) a \<longrightarrow> mq_processing (sys_q s) (entry_ID (sys_q s) a) = Some a) \<and>
     (\<forall>i j a. holds (sys_w s i) a \<longrightarrow> holds (sys_w s j) a \<longrightarrow> i = j) \<and>
     (\<forall>x a. mq_processing (sys_q s) x = Some a \<longrightarrow> (\<exists>i. holds (sys_w s i) a)) \<and>
     (\<forall>i a. sys_w s i = WRunning a \<longrightarrow> qe_Status (entry (sys_q s) a) = JobStatusRunning) \<and>
     (\<forall>i a. sys_w s i = WGot a \<longrightarrow>
        qe_Status (entry (sys_q s) a) \<in> {JobStatusPending, JobStatusCancelled}) \<and>
     (\<forall>i. sys_n s \<le> i \<longrightarrow> sys_w s i = WNone)"

definition metrics_wf :: "mem_system \<Rightarrow> bool" where
  "metrics_wf s \<longleftrightarrow>
     jm_startedJobs (mq_metrics (sys_q s)) =
       jm_completedJobs (mq_metrics (sys_q s)) + jm_failedJobs (mq_metrics (sys_q s))
         + card {i. running (sys_w s i)}"

definition sys_inv :: "mem_system \<Rightarrow> bool" where
  "sys_inv s \<longleftrightarrow> mq_wf (sys_q s) \<and> workers_wf s \<and> metrics_wf s"

lemma sys_inv_wf: "sys_inv s \<Longrightarrow> mq_wf (sys_q s)"
  by (simp add: sys_inv_def)

lemma workers_wfD:
  assumes "workers_wf s"
  shows "holds (sys_w s i) a \<Longrightarrow> mq_processing (sys_q s) (entry_ID (sys_q s) a) = Some a"
    and "holds (sys_w s i) a \<Longrightarrow> holds (sys_w s j) a \<Longrightarrow> i = j"
    and "mq_processing (sys_q s) x = Some a \<Longrightarrow> \<exists>i. holds (sys_w s i) a"
    and "sys_w s i = WRunning a \<Longrightarrow> qe_Status (entry (sys_q s) a) = JobStatusRunning"
    and "sys_w s i = WGot a \<Longrightarrow> qe_Status (entry (sys_q s) a) \<in> {JobStatusPending, JobStatusCancelled}"
    and "sys_n s \<le> i \<Longrightarrow> sys_w s i = WNone"
  using assms unfolding workers_wf_def by blast+

lemma metrics_New [simp]:
  "jm_startedJobs (mq_metrics (NewMemoryJobQueue c)) = 0"
  "jm_completedJobs (mq_metrics (NewMemoryJobQueue c)) = 0"
  "jm_failedJobs (mq_metrics (NewMemoryJobQueue c)) = 0"
  by (simp_all add: NewMemoryJobQueue_def newJobQueueMetrics_def Let_def)

lemma sys_inv_init: "sys_inv (init_system c)"
  by (simp add: sys_inv_def init_system_def mq_wf_New workers_wf_def metrics_wf_def)

text \<open>
  A call of a client leaves the entries under way alone, but for cancelling one that is not
  yet marked running.
\<close>

definition client_frame :: "MemoryJobQueue \<Rightarrow> MemoryJobQueue \<Rightarrow> bool" where
  "client_frame q q' \<longleftrightarrow>
     mq_processing q' = mq_processing q \<and>
     (\<forall>x a. mq_processing q x = Some a \<longrightarrow>
        entry_ID q' a = entry_ID q a \<and>
        (qe_Status (entry q' a) = qe_Status (entry q a) \<or>
         qe_Status (entry q a) = JobStatusPending \<and> qe_Status (entry q' a) = JobStatusCancelled)) \<and>
     jm_startedJobs (mq_metrics q') = jm_startedJobs (mq_metrics q) \<and>
     jm_completedJobs (mq_metrics q') = jm_completedJobs (mq_metrics q) \<and>
     jm_failedJobs (mq_metrics q') = jm_failedJobs (mq_metrics q)"

lemma client_frame_refl [simp]: "client_frame q q"
  by (simp add: client_frame_def)

lemma sys_inv_client:
  assumes inv: "sys_inv s" and wf: "mq_wf q'" and fr: "client_frame (sys_q s) q'"
  shows "sys_inv (s\<lparr>sys_q := q'\<rparr>)"
proof -
  have w: "workers_wf s" using inv by (simp add: sys_inv_def)
  note D = workers_wfD [OF w]
  have pr: "mq_processing q' = mq_processing (sys_q s)" using fr by (simp add: client_frame_def)
  have keep: "entry_ID q' a = entry_ID (sys_q s) a \<and>
      (qe_Status (entry q' a) = qe_Status (entry (sys_q s) a) \<or>
       qe_Status (entry (sys_q s) a) = JobStatusPending \<and> qe_Status (entry q' a) = JobStatusCancelled)"
    if "holds (sys_w s i) a" for i a
    using D(1) [OF that] fr unfolding client_frame_def by blast
  have "workers_wf (s\<lparr>sys_q := q'\<rparr>)"
    unfolding workers_wf_def
  proof (intro conjI allI impI)
    fix i a assume "holds (sys_w (s\<lparr>sys_q := q'\<rparr>) i) a"
    then show "mq_processing (sys_q (s\<lparr>sys_q := q'\<rparr>)) (entry_ID (sys_q (s\<lparr>sys_q := q'\<rparr>)) a) = Some a"
      using D(1) [of i a] keep [of i a] pr by simp
  next
    fix i a assume "sys_w (s\<lparr>sys_q := q'\<rparr>) i = WRunning a"
    then show "qe_Status (entry (sys_q (s\<lparr>sys_q := q'\<rparr>)) a) = JobStatusRunning"
      using D(4) [of i a] keep [of i a] by simp
  next
    fix i a assume "sys_w (s\<lparr>sys_q := q'\<rparr>) i = WGot a"
    then show "qe_Status (entry (sys_q (s\<lparr>sys_q := q'\<rparr>)) a) \<in> {JobStatusPending, JobStatusCancelled}"
      using D(5) [of i a] keep [of i a] by auto
  qed (use D pr in auto)
  with inv wf fr show ?thesis
    by (auto simp: sys_inv_def metrics_wf_def client_frame_def)
qed

lemma client_frame_Enqueue:
  assumes "mq_wf q"
  shows "client_frame q (snd (EnqueueWithDelay now job delay q))"
proof -
  have "a < length (mq_store q)" if "mq_processing q x = Some a" for x a
    using mq_wf_jobsD(1) [OF assms mq_wf_processingD(1) [OF assms that]] .
  then show ?thesis
    by (auto simp: EnqueueWithDelay_def client_frame_def split: option.split)
qed

lemma client_frame_Cancel:
  assumes "mq_wf q"
  shows "client_frame q (snd (Cancel now jobID q))"
  using mq_wf_jobsD(1) [OF assms, of jobID]
  by (auto simp: Cancel_def client_frame_def Let_def split: option.split)

lemma client_frame_dead:
  assumes "mq_wf q"
  shows "client_frame q (snd (RequeueDeadLetteredJob now jobID q))"
    and "client_frame q (snd (PurgeDeadLetteredJob jobID q))"
proof -
  have "b \<noteq> a" if "mq_deadLettered q jobID = Some a" "mq_processing q x = Some b" for a b x
    using mq_wf_deadD(1) [OF assms that(1)] mq_wf_processingD(1) [OF assms that(2)]
      mq_wf_jobs_inj [OF assms, of jobID b x] mq_wf_processing_not_dead [OF assms that(1)] that by auto
  moreover have "a < length (mq_store q)" if "mq_deadLettered q jobID = Some a" for a
    using mq_wf_jobsD(1) [OF assms mq_wf_deadD(1) [OF assms that]] .
  ultimately show "client_frame q (snd (RequeueDeadLetteredJob now jobID q))"
    by (auto simp: RequeueDeadLetteredJob_def client_frame_def Let_def split: option.split)
  show "client_frame q (snd (PurgeDeadLetteredJob jobID q))"
    by (simp add: PurgeDeadLetteredJob_def client_frame_def)
qed

lemma client_frame_Close: "client_frame q (Close q)"
  by (simp add: Close_def client_frame_def)

lemmas client_frames = client_frame_Enqueue client_frame_Cancel client_frame_dead client_frame_Close

lemma client_frame_poll: "dequeueJob now q = (None, q') \<Longrightarrow> client_frame q q'"
  by (auto simp: dequeueJob_def client_frame_def split: list.splits if_splits)

subsection \<open>The steps of the workers\<close>

lemma finite_running: "workers_wf s \<Longrightarrow> finite {i. running (sys_w s i)}"
proof -
  assume w: "workers_wf s"
  have "{i. running (sys_w s i)} \<subseteq> {..< sys_n s}"
    using workers_wfD(6) [OF w] by (force simp: not_le [symmetric])
  then show ?thesis by (rule finite_subset) simp
qed

lemma not_running_update:
  "\<not> running x \<Longrightarrow> \<not> running (w i) \<Longrightarrow> {j. running ((w(i := x)) j)} = {j. running (w j)}"
  by auto

lemma sys_inv_idle_update:
  assumes inv: "sys_inv s" and i: "sys_w s i = WIdle"
  shows "sys_inv (s\<lparr>sys_w := (sys_w s)(i := WDone)\<rparr>)"
proof -
  note D = workers_wfD [of s]
  have w: "workers_wf s" using inv by (simp add: sys_inv_def)
  have "sys_n s > i" using D(6) [OF w, of i] i by (cases "sys_n s \<le> i") auto
  moreover have "\<exists>j. holds (((sys_w s)(i := WDone)) j) a"
    if pr: "mq_processing (sys_q s) x = Some a" for x a
  proof -
    obtain j where "holds (sys_w s j) a" using D(3) [OF w pr] by blast
    with i show ?thesis by (intro exI [of _ j]) auto
  qed
  ultimately have "workers_wf (s\<lparr>sys_w := (sys_w s)(i := WDone)\<rparr>)"
    using w i unfolding workers_wf_def by auto
  moreover have "{j. running (((sys_w s)(i := WDone)) j)} = {j. running (sys_w s j)}"
    by (rule not_running_update) (simp_all add: i)
  ultimately show ?thesis using inv by (simp add: sys_inv_def metrics_wf_def)
qed

lemma sys_inv_process:
  assumes inv: "sys_inv s"
  shows "sys_inv (s\<lparr>sys_w := (\<lambda>i. if sys_n s \<le> i \<and> i < sys_n s + k then WIdle else sys_w s i),
    sys_n := sys_n s + k\<rparr>)" (is "sys_inv (s\<lparr>sys_w := ?w, sys_n := _\<rparr>)")
proof -
  have w: "workers_wf s" using inv by (simp add: sys_inv_def)
  note D = workers_wfD [OF w]
  have h: "holds (?w i) a = holds (sys_w s i) a" for i a using D(6) [of i] by simp
  have r: "running (?w i) = running (sys_w s i)" for i using D(6) [of i] by simp
  have e: "?w i = WRunning a \<longleftrightarrow> sys_w s i = WRunning a" "?w i = WGot a \<longleftrightarrow> sys_w s i = WGot a" for i a
    using D(6) [of i] by auto
  have "workers_wf (s\<lparr>sys_w := ?w, sys_n := sys_n s + k\<rparr>)"
    using w unfolding workers_wf_def by (simp add: h e del: if_split)
  with inv show ?thesis unfolding sys_inv_def metrics_wf_def by (simp add: r)
qed

lemma dequeueJob_Some:
  assumes "dequeueJob now q = (Some a, q')"
  obtains rest where "mq_queue q = a # rest"
    and "q' = q\<lparr>mq_queue := rest, mq_processing := (mq_processing q)(entry_ID q a \<mapsto> a)\<rparr>"
  using assms by (auto simp: dequeueJob_def split: list.splits if_splits)

lemma sys_inv_poll:
  assumes inv: "sys_inv s" and i: "sys_w s i = WIdle"
    and dq: "dequeueJob now (sys_q s) = (Some a, q')"
  shows "sys_inv (s\<lparr>sys_q := q', sys_w := (sys_w s)(i := WGot a)\<rparr>)" (is "sys_inv ?s")
proof -
  let ?q = "sys_q s"
  have wf: "mq_wf ?q" and w: "workers_wf s" using inv by (simp_all add: sys_inv_def)
  note D = workers_wfD [OF w]
  obtain rest where qu: "mq_queue ?q = a # rest"
    and q': "q' = ?q\<lparr>mq_queue := rest, mq_processing := (mq_processing ?q)(entry_ID ?q a \<mapsto> a)\<rparr>"
    by (rule dequeueJob_Some [OF dq])
  have a: "a \<in> set (mq_queue ?q)" using qu by simp
  have free: "\<not> holds (sys_w s j) a" for j
    using D(1) [of j a] mq_wf_queued_only(2) [OF wf a] by auto
  have neq: "entry_ID ?q b \<noteq> entry_ID ?q a" if "holds (sys_w s j) b" for j b
    using D(1) [OF that] mq_wf_queued_only(2) [OF wf a] by auto
  have bound: "i < sys_n s" using D(6) [of i] i by (cases "sys_n s \<le> i") auto
  have ex: "\<exists>j. holds (((sys_w s)(i := WGot a)) j) b"
    if pr: "mq_processing q' x = Some b" for x b
  proof (cases "b = a")
    case False
    with pr have "mq_processing ?q x = Some b" by (auto simp: q' split: if_splits)
    then obtain j where "holds (sys_w s j) b" using D(3) by blast
    with i show ?thesis by (intro exI [of _ j]) auto
  qed (auto intro: exI [of _ i])
  have "workers_wf ?s"
    unfolding workers_wf_def
  proof (intro conjI allI impI)
    fix j b assume "holds (sys_w ?s j) b"
    then show "mq_processing (sys_q ?s) (entry_ID (sys_q ?s) b) = Some b"
      using D(1) [of j b] neq [of j b] by (auto simp: q' split: if_splits)
  next
    fix j k b assume "holds (sys_w ?s j) b" "holds (sys_w ?s k) b"
    then show "j = k" using D(2) [of j b k] free by (auto split: if_splits)
  next
    fix j b assume "sys_w ?s j = WGot b"
    then show "qe_Status (entry (sys_q ?s) b) \<in> {JobStatusPending, JobStatusCancelled}"
      using D(5) [of j b] mq_wf_queueD(3) [OF wf a] by (auto simp: q' split: if_splits)
  qed (use D(4,6) ex bound in \<open>auto simp: q' split: if_splits\<close>)
  moreover have "mq_wf q'" using mq_wf_dequeue [OF wf, of now] dq by simp
  moreover have "{j. running (((sys_w s)(i := WGot a)) j)} = {j. running (sys_w s j)}"
    by (rule not_running_update) (simp_all add: i)
  ultimately show ?thesis using inv by (simp add: sys_inv_def metrics_wf_def q')
qed

lemma worker_start_facts:
  assumes "a < length (mq_store q)"
  shows "entry (worker_start now a q) b =
      (if b = a then (entry q a)\<lparr>qe_Status := JobStatusRunning, qe_StartedAt := Some now\<rparr> else entry q b)"
    and "mq_processing (worker_start now a q) = mq_processing q"
    and "mq_jobs (worker_start now a q) = mq_jobs q"
    and "jm_startedJobs (mq_metrics (worker_start now a q)) = jm_startedJobs (mq_metrics q) + 1"
    and "jm_completedJobs (mq_metrics (worker_start now a q)) = jm_completedJobs (mq_metrics q)"
    and "jm_failedJobs (mq_metrics (worker_start now a q)) = jm_failedJobs (mq_metrics q)"
  using assms by (auto simp: worker_start_def)

lemma sys_inv_start:
  assumes inv: "sys_inv s" and i: "sys_w s i = WGot a"
  shows "sys_inv (s\<lparr>sys_q := worker_start now a (sys_q s), sys_w := (sys_w s)(i := WRunning a)\<rparr>)"
    (is "sys_inv ?s")
proof -
  have wf: "mq_wf (sys_q s)" and w: "workers_wf s" using inv by (simp_all add: sys_inv_def)
  note D = workers_wfD [OF w]
  have p: "mq_processing (sys_q s) (entry_ID (sys_q s) a) = Some a" using D(1) [of i a] i by simp
  have al: "a < length (mq_store (sys_q s))"
    by (rule mq_wf_jobsD(1) [OF wf mq_wf_processingD(1) [OF wf p]])
  note f = worker_start_facts [OF al]
  have h: "holds (((sys_w s)(i := WRunning a)) j) b = holds (sys_w s j) b" for j b using i by simp
  have bound: "i < sys_n s" using D(6) [of i] i by (cases "sys_n s \<le> i") auto
  have "workers_wf ?s"
    unfolding workers_wf_def
  proof (intro conjI allI impI)
    fix j b assume "sys_w ?s j = WGot b"
    then have j: "sys_w s j = WGot b" "j \<noteq> i" by (auto split: if_splits)
    then have "b \<noteq> a" using D(2) [of j b i] i by auto
    with D(5) [OF j(1)] show "qe_Status (entry (sys_q ?s) b) \<in> {JobStatusPending, JobStatusCancelled}"
      by (simp add: f)
  next
    fix j b assume "holds (sys_w ?s j) b"
    then show "mq_processing (sys_q ?s) (entry_ID (sys_q ?s) b) = Some b"
      using D(1) [of j b] h [of j b] p by (simp add: f del: fun_upd_apply)
  next
    fix j k b assume "holds (sys_w ?s j) b" "holds (sys_w ?s k) b"
    then show "j = k" using D(2) [of j b k] h by (simp del: fun_upd_apply)
  next
    fix x b assume "mq_processing (sys_q ?s) x = Some b"
    then show "\<exists>j. holds (sys_w ?s j) b" using D(3) [of x b] by (simp add: f h del: fun_upd_apply)
  next
    fix j b assume "sys_w ?s j = WRunning b"
    then show "qe_Status (entry (sys_q ?s) b) = JobStatusRunning"
      using D(4) [of j b] by (auto simp: f split: if_splits)
  next
    fix j assume "sys_n ?s \<le> j"
    then show "sys_w ?s j = WNone" using D(6) [of j] bound by simp
  qed
  moreover have "{j. running (((sys_w s)(i := WRunning a)) j)} = insert i {j. running (sys_w s j)}"
    by auto
  ultimately show ?thesis
    using inv mq_wf_worker_start [OF wf p] finite_running [OF w] i
    by (simp add: sys_inv_def metrics_wf_def f)
qed

lemma worker_finish_metrics:
  assumes "a < length (mq_store q)"
  shows "jm_startedJobs (mq_metrics (worker_finish ovf u dur ft now err a q)) = jm_startedJobs (mq_metrics q)"
    and "jm_completedJobs (mq_metrics (worker_finish ovf u dur ft now err a q))
        + jm_failedJobs (mq_metrics (worker_finish ovf u dur ft now err a q))
      = jm_completedJobs (mq_metrics q) + jm_failedJobs (mq_metrics q) + 1"
  by (auto simp: worker_finish_def observe_retries_def Let_def split: option.split)

lemma sys_inv_finish:
  assumes inv: "sys_inv s" and i: "sys_w s i = WRunning a"
  shows "sys_inv (s\<lparr>sys_q := worker_finish ovf u dur ft now err a (sys_q s), sys_w := (sys_w s)(i := WIdle)\<rparr>)"
    (is "sys_inv ?s")
proof -
  let ?q = "sys_q s" and ?q' = "worker_finish ovf u dur ft now err a (sys_q s)"
  have wf: "mq_wf ?q" and w: "workers_wf s" using inv by (simp_all add: sys_inv_def)
  note D = workers_wfD [OF w]
  have p: "mq_processing ?q (entry_ID ?q a) = Some a" using D(1) [of i a] i by simp
  have al: "a < length (mq_store ?q)"
    by (rule mq_wf_jobsD(1) [OF wf mq_wf_processingD(1) [OF wf p]])
  note f = worker_finish_other [OF al, where ovf = ovf and u = u and dur = dur and finishTime = ft
      and now = now and err = err]
  have only: "b \<noteq> a" if "holds (((sys_w s)(i := WIdle)) j) b" for j b
    using that D(2) [of j a i] i by (auto split: if_splits)
  have ne: "entry_ID ?q b \<noteq> entry_ID ?q a" if "holds (sys_w s j) b" "b \<noteq> a" for j b
    using D(1) [OF that(1)] p that(2) by auto
  have bound: "i < sys_n s" using D(6) [of i] i by (cases "sys_n s \<le> i") auto
  have "workers_wf ?s"
    unfolding workers_wf_def
  proof (intro conjI allI impI)
    fix j b assume "holds (sys_w ?s j) b"
    then have "holds (sys_w s j) b" "b \<noteq> a" using only [of j b] by (auto split: if_splits)
    then show "mq_processing (sys_q ?s) (entry_ID (sys_q ?s) b) = Some b"
      using D(1) [of j b] ne [of j b] by (simp add: f)
  next
    fix x b assume "mq_processing (sys_q ?s) x = Some b"
    then have x: "mq_processing ?q x = Some b" "x \<noteq> entry_ID ?q a" by (auto simp: f split: if_splits)
    then obtain j where j: "holds (sys_w s j) b" using D(3) by blast
    have "b \<noteq> a"
      using x mq_wf_jobs_inj [OF wf mq_wf_processingD(1) [OF wf x(1)]] mq_wf_processingD(1) [OF wf p] by auto
    with j i show "\<exists>j. holds (sys_w ?s j) b" by (intro exI [of _ j]) auto
  next
    fix j b assume "sys_w ?s j = WRunning b"
    then show "qe_Status (entry (sys_q ?s) b) = JobStatusRunning"
      using D(4) [of j b] only [of j b] by (auto simp: f split: if_splits)
  next
    fix j b assume "sys_w ?s j = WGot b"
    then show "qe_Status (entry (sys_q ?s) b) \<in> {JobStatusPending, JobStatusCancelled}"
      using D(5) [of j b] only [of j b] by (auto simp: f split: if_splits)
  qed (use D(2,6) bound in \<open>auto split: if_splits\<close>)
  moreover have "{j. running (sys_w s j)} = insert i {j. running (((sys_w s)(i := WIdle)) j)}"
    using i by auto
  moreover have "finite {j. running (((sys_w s)(i := WIdle)) j)}"
    by (rule finite_subset [OF _ finite_running [OF w]]) auto
  ultimately show ?thesis
    using inv mq_wf_worker_finish [OF wf p] worker_finish_metrics [OF al, of ovf u dur ft now err]
    by (simp add: sys_inv_def metrics_wf_def)
qed

subsection \<open>Every reachable state\<close>

lemma sys_inv_step:
  assumes "mem_step s t" and "sys_inv s"
  shows "sys_inv t"
  using assms
proof (induction rule: mem_step.induct)
  case (s_poll_none s i now q')
  then have "mq_wf (sys_q s)" by (simp add: sys_inv_def)
  with mq_wf_dequeue [of "sys_q s" now] s_poll_none have "mq_wf q'" by simp
  with s_poll_none show ?case by (intro sys_inv_client client_frame_poll) auto
qed (auto intro: sys_inv_client sys_inv_process sys_inv_idle_update sys_inv_poll sys_inv_start
    sys_inv_finish mq_wf_ops client_frames sys_inv_wf)

lemma mem_reachable_inv: "mem_reachable c s \<Longrightarrow> sys_inv s"
  by (induction rule: mem_reachable.induct) (auto intro: sys_inv_init sys_inv_step)

subsection \<open>Terminal jobs\<close>

text \<open>A job that is through: no step of anyone touches its entry any more.\<close>

definition settled :: "mem_system \<Rightarrow> addr \<Rightarrow> bool" where
  "settled s a \<longleftrightarrow>
     qe_Status (entry (sys_q s) a) \<in> {JobStatusCompleted, JobStatusFailed, JobStatusCancelled} \<and>
     (\<forall>i. \<not> holds (sys_w s i) a)"

definition untouched :: "MemoryJobQueue \<Rightarrow> MemoryJobQueue \<Rightarrow> addr \<Rightarrow> bool" where
  "untouched q q' a \<longleftrightarrow>
     entry q' a = entry q a \<and> (\<forall>x. mq_jobs q x = Some a \<longrightarrow> mq_jobs q' x = Some a)"

lemma untouched_client:
  assumes wf: "mq_wf q" and a: "a < length (mq_store q)"
    and st: "qe_Status (entry q a) \<in> {JobStatusCompleted, JobStatusFailed, JobStatusCancelled}"
  shows "untouched q (snd (EnqueueWithDelay now job delay q)) a"
    and "untouched q (snd (Cancel now jobID q)) a"
    and "untouched q (snd (RequeueDeadLetteredJob now jobID q)) a"
    and "untouched q (snd (PurgeDeadLetteredJob jobID q)) a"
    and "untouched q (Close q) a"
    and "untouched q (snd (dequeueJob now q)) a"
proof -
  show "untouched q (snd (EnqueueWithDelay now job delay q)) a"
    using a by (auto simp: untouched_def EnqueueWithDelay_def split: option.split)
  show "untouched q (snd (Cancel now jobID q)) a"
    using mq_wf_jobsD(1) [OF wf, of jobID] st
    by (auto simp: untouched_def Cancel_def Let_def split: option.split)
  have dl: "b < length (mq_store q)" "b \<noteq> a" if "mq_deadLettered q jobID = Some b" for b
    using mq_wf_deadD [OF wf that] mq_wf_jobsD(1) [OF wf, of jobID b] st by auto
  then show "untouched q (snd (RequeueDeadLetteredJob now jobID q)) a"
    by (auto simp: untouched_def RequeueDeadLetteredJob_def Let_def split: option.split)
  have "mq_jobs q jobID \<noteq> Some a" if "mq_deadLettered q jobID \<noteq> None"
    using that dl mq_wf_deadD(1) [OF wf, of jobID] by force
  then show "untouched q (snd (PurgeDeadLetteredJob jobID q)) a"
    by (auto simp: untouched_def PurgeDeadLetteredJob_def)
  show "untouched q (Close q) a" by (simp add: untouched_def Close_def)
  show "untouched q (snd (dequeueJob now q)) a"
    by (auto simp: untouched_def dequeueJob_def split: list.split option.split)
qed

lemma untouched_worker:
  assumes "b < length (mq_store q)" and "b \<noteq> a"
  shows "untouched q (worker_start now b q) a"
    and "untouched q (worker_finish ovf u dur ft now err b q) a"
  using assms by (auto simp: untouched_def worker_start_facts worker_finish_other)

lemma holds_allocated:
  assumes "sys_inv s" and "holds (sys_w s i) a"
  shows "a < length (mq_store (sys_q s))"
proof -
  have "mq_processing (sys_q s) (entry_ID (sys_q s) a) = Some a"
    using assms workers_wfD(1) by (auto simp: sys_inv_def)
  then show ?thesis
    using mq_wf_jobsD(1) [OF sys_inv_wf [OF assms(1)] mq_wf_processingD(1) [OF sys_inv_wf [OF assms(1)]]]
    by blast
qed

lemma settled_step:
  assumes "mem_step s t" and "sys_inv s" and "settled s a" and "a < length (mq_store (sys_q s))"
  shows "untouched (sys_q s) (sys_q t) a \<and> settled t a"
  using assms
proof (induction rule: mem_step.induct)
  case (s_poll_some s i now b q')
  then have "b \<in> set (mq_queue (sys_q s))" by (auto elim: dequeueJob_Some)
  then have "b \<noteq> a" using mq_wf_queueD(3) [OF sys_inv_wf [OF s_poll_some.prems(1)], of b] s_poll_some.prems
    by (auto simp: settled_def)
  moreover have "untouched (sys_q s) q' a"
    using untouched_client(6) [OF sys_inv_wf, of s a now] s_poll_some by (auto simp: settled_def)
  ultimately show ?case using s_poll_some.prems by (auto simp: settled_def untouched_def)
next
  case (s_poll_none s i now q')
  then show ?case
    using untouched_client(6) [OF sys_inv_wf, of s a now] by (auto simp: settled_def untouched_def)
next
  case (s_start s i b now)
  then have h: "holds (sys_w s i) b" by simp
  have "b \<noteq> a" using h s_start.prems unfolding settled_def by metis
  moreover have "b < length (mq_store (sys_q s))" using holds_allocated h s_start.prems by blast
  ultimately show ?case
    using untouched_worker(1) s_start by (auto simp: settled_def untouched_def)
next
  case (s_finish s i b ovf u dur ft now err)
  then have h: "holds (sys_w s i) b" by simp
  have "b \<noteq> a" using h s_finish.prems unfolding settled_def by metis
  moreover have "b < length (mq_store (sys_q s))" using holds_allocated h s_finish.prems by blast
  ultimately show ?case
    using untouched_worker(2) s_finish by (auto simp: settled_def untouched_def)
next
  case (s_process handler_nil s k)
  then have "\<not> holds (sys_w s i) a" for i by (simp add: settled_def)
  with s_process show ?case by (auto simp: settled_def untouched_def)
next
  case (s_exit s i)
  then show ?case by (auto simp: settled_def untouched_def)
qed (use untouched_client [OF sys_inv_wf] in \<open>auto simp: settled_def untouched_def\<close>)

subsection \<open>Polling\<close>

definition ready :: "MemoryJobQueue \<Rightarrow> time \<Rightarrow> addr \<Rightarrow> bool" where
  "ready q now a \<longleftrightarrow> (case qe_NextRetry (entry q a) of None \<Rightarrow> True | Some t \<Rightarrow> t \<le> now)"

text \<open>The polls of one worker at one instant, until one returns a job or \<open>n\<close> were made.\<close>

fun poll_many :: "nat \<Rightarrow> time \<Rightarrow> MemoryJobQueue \<Rightarrow> addr option \<times> MemoryJobQueue" where
  "poll_many 0 now q = (None, q)"
| "poll_many (Suc n) now q =
     (case dequeueJob now q of (None, q') \<Rightarrow> poll_many n now q' | (Some a, q') \<Rightarrow> (Some a, q'))"

lemma ready_updates [simp]:
  "ready (q\<lparr>mq_queue := x\<rparr>) now a = ready q now a"
  by (simp add: ready_def)

lemma poll_many_finds:
  assumes "mq_queue q = as @ b # bs" and "\<forall>a\<in>set as. \<not> ready q now a" and "ready q now b"
  shows "fst (poll_many (Suc (length as)) now q) = Some b"
  using assms
proof (induction as arbitrary: q bs)
  case Nil
  then show ?case by (auto simp: dequeueJob_def ready_def split: option.splits)
next
  case (Cons a as)
  let ?q = "q\<lparr>mq_queue := as @ b # bs @ [a]\<rparr>"
  have "dequeueJob now q = (None, ?q)"
    using Cons.prems by (auto simp: dequeueJob_def ready_def split: option.splits)
  moreover have "fst (poll_many (Suc (length as)) now ?q) = Some b"
    using Cons.prems by (intro Cons.IH) auto
  ultimately show ?case by simp
qed

end
