(* ===== verification/JobQueueSpec.thy ===== *)
theory JobQueueSpec
  imports Jobs
begin

text \<open>
  What the interface \<open>JobQueue\<close> of \<open>job_queue.go\<close> promises to the clients that submit and cancel
  jobs, as an abstract table of statuses (\<open>spec_call\<close>), and the interface itself as a locale:
  the results of the calls and their effect on the status of every job.
\<close>

datatype call = Submit time "Job option" duration | Abort time string

definition do_call ::
  "(time \<Rightarrow> Job option \<Rightarrow> duration \<Rightarrow> 'q \<Rightarrow> queue_error option \<times> 'q) \<Rightarrow>
   (time \<Rightarrow> string \<Rightarrow> 'q \<Rightarrow> queue_error option \<times> 'q) \<Rightarrow> call \<Rightarrow> 'q \<Rightarrow> queue_error option \<times> 'q" where
  "do_call enq can c q =
     (case c of Submit now job d \<Rightarrow> enq now job d q | Abort now i \<Rightarrow> can now i q)"

fun run_calls :: "(call \<Rightarrow> 'q \<Rightarrow> queue_error option \<times> 'q) \<Rightarrow> call list \<Rightarrow> 'q \<Rightarrow> queue_error option list \<times> 'q" where
  "run_calls f [] q = ([], q)"
| "run_calls f (c # cs) q =
     (let (r, q') = f c q; (rs, q'') = run_calls f cs q' in (r # rs, q''))"

text \<open>The abstract table: a status for every known ID.\<close>

definition spec_submit ::
  "bool \<Rightarrow> Job option \<Rightarrow> (string \<rightharpoonup> JobStatus) \<Rightarrow> queue_error option \<times> (string \<rightharpoonup> JobStatus)" where
  "spec_submit cl job m =
     (case job of
        None \<Rightarrow> (Some ErrInvalidJobID, m)
      | Some j \<Rightarrow>
          if job_ID j = [] then (Some ErrInvalidJobID, m)
          else if cl then (Some ErrQueueClosed, m)
          else if m (job_ID j) \<noteq> None then (Some ErrJobAlreadyExists, m)
          else (None, m(job_ID j \<mapsto> JobStatusPending)))"

definition spec_abort ::
  "string \<Rightarrow> (string \<rightharpoonup> JobStatus) \<Rightarrow> queue_error option \<times> (string \<rightharpoonup> JobStatus)" where
  "spec_abort i m =
     (if i = [] then (Some ErrInvalidJobID, m)
      else case m i of
          None \<Rightarrow> (Some ErrJobNotFound, m)
        | Some st \<Rightarrow>
            if st \<noteq> JobStatusPending then (Some ErrNotPending, m)
            else (None, m(i \<mapsto> JobStatusCancelled)))"

definition spec_call ::
  "bool \<Rightarrow> call \<Rightarrow> (string \<rightharpoonup> JobStatus) \<Rightarrow> queue_error option \<times> (string \<rightharpoonup> JobStatus)" where
  "spec_call cl c m =
     (case c of Submit now job d \<Rightarrow> spec_submit cl job m | Abort now i \<Rightarrow> spec_abort i m)"

text \<open>A backend stores jobs in an encoding; \<open>ok\<close> are the jobs it can encode.\<close>

definition call_ok :: "(Job \<Rightarrow> bool) \<Rightarrow> call \<Rightarrow> bool" where
  "call_ok ok c = (case c of Submit now (Some j) d \<Rightarrow> ok j | _ \<Rightarrow> True)"

locale job_queue =
  fixes ok :: "Job \<Rightarrow> bool"
    and inv :: "'q \<Rightarrow> bool"
    and enqueue :: "time \<Rightarrow> Job option \<Rightarrow> duration \<Rightarrow> 'q \<Rightarrow> queue_error option \<times> 'q"
    and cancel :: "time \<Rightarrow> string \<Rightarrow> 'q \<Rightarrow> queue_error option \<times> 'q"
    and status :: "'q \<Rightarrow> string \<rightharpoonup> JobStatus"
    and is_closed :: "'q \<Rightarrow> bool"
  assumes inv_enqueue: "inv q \<Longrightarrow> inv (snd (enqueue now job d q))"
    and inv_cancel: "inv q \<Longrightarrow> inv (snd (cancel now i q))"
    and closed_enqueue: "is_closed (snd (enqueue now job d q)) = is_closed q"
    and closed_cancel: "is_closed (snd (cancel now i q)) = is_closed q"
    and enqueue_spec: "inv q \<Longrightarrow> enqueue now job d q = (r, q') \<Longrightarrow> (\<And>j. job = Some j \<Longrightarrow> ok j) \<Longrightarrow>
      spec_submit (is_closed q) job (status q) = (r, status q')"
    and cancel_spec: "inv q \<Longrightarrow> cancel now i q = (r, q') \<Longrightarrow>
      spec_abort i (status q) = (r, status q')"
begin

lemma call_refines:
  assumes "inv q" and "do_call enqueue cancel c q = (r, q')" and "call_ok ok c"
  shows "spec_call (is_closed q) c (status q) = (r, status q')"
    and "inv q'" and "is_closed q' = is_closed q"
proof -
  show "spec_call (is_closed q) c (status q) = (r, status q')"
  proof (cases c)
    case (Submit now job d)
    have "ok j" if "job = Some j" for j using assms(3) that Submit by (simp add: call_ok_def)
    with enqueue_spec [OF assms(1)] assms(2) Submit show ?thesis by (simp add: do_call_def spec_call_def)
  next
    case (Abort now i)
    with cancel_spec [OF assms(1)] assms(2) show ?thesis by (simp add: do_call_def spec_call_def)
  qed
  have q': "q' = snd (do_call enqueue cancel c q)" using assms(2) by simp
  show "inv q'"
    unfolding q' do_call_def using assms(1) by (simp add: inv_enqueue inv_cancel split: call.split)
  show "is_closed q' = is_closed q"
    unfolding q' do_call_def by (simp add: closed_enqueue closed_cancel split: call.split)
qed

lemma run_refines:
  assumes "inv q" and "run_calls (do_call enqueue cancel) cs q = (rs, q')" and "list_all (call_ok ok) cs"
  shows "run_calls (spec_call (is_closed q)) cs (status q) = (rs, status q') \<and> inv q'"
  using assms
proof (induction cs arbitrary: q rs)
  case (Cons c cs)
  obtain r q1 where c: "do_call enqueue cancel c q = (r, q1)" by fastforce
  obtain rs1 q2 where rest: "run_calls (do_call enqueue cancel) cs q1 = (rs1, q2)" by fastforce
  have "call_ok ok c" using Cons.prems(3) by simp
  note call = call_refines [OF Cons.prems(1) c this]
  have "rs = r # rs1" "q2 = q'" using Cons.prems c rest by (simp_all add: Let_def)
  with Cons.IH [OF call(2)] Cons.prems(3) rest call show ?case by (simp add: Let_def)
qed auto

text \<open>A client that cancels the job it has just submitted succeeds, once.\<close>

lemma submit_abort_abort:
  assumes "inv q" and "enqueue now (Some j) d q = (None, q1)" and "ok j"
  shows "\<exists>q2. cancel t (job_ID j) q1 = (None, q2) \<and> status q2 (job_ID j) = Some JobStatusCancelled
    \<and> fst (cancel t' (job_ID j) q2) = Some ErrNotPending"
proof -
  have s1: "status q1 = (status q)(job_ID j \<mapsto> JobStatusPending)" and id: "job_ID j \<noteq> []"
    using enqueue_spec [OF assms(1,2)] assms(3) by (auto simp: spec_submit_def split: if_splits)
  have i1: "inv q1" using inv_enqueue [OF assms(1), of now "Some j" d] assms(2) by simp
  obtain r q2 where c1: "cancel t (job_ID j) q1 = (r, q2)" by fastforce
  have s2: "r = None" "status q2 = (status q1)(job_ID j \<mapsto> JobStatusCancelled)"
    using cancel_spec [OF i1 c1] s1 id by (auto simp: spec_abort_def)
  have i2: "inv q2" using inv_cancel [OF i1, of t "job_ID j"] c1 by simp
  obtain r' q3 where c2: "cancel t' (job_ID j) q2 = (r', q3)" by fastforce
  have "r' = Some ErrNotPending"
    using cancel_spec [OF i2 c2] s2 id by (auto simp: spec_abort_def)
  with c1 c2 s2 show ?thesis by auto
qed

end

end
