(* ===== verification/MemoryQueueProps.thy ===== *)
theory MemoryQueueProps
  imports MemoryQueueSys JobQueueSpec
begin

text \<open>
  The properties of the in-memory queue: it implements the interface \<open>JobQueue\<close>, its workers
  exclude each other, no job is lost, terminal jobs stay terminal, retries are bounded, the
  metrics balance and a ready job is found.
\<close>

subsection \<open>The interface\<close>

lemma job_status_add_entry:
  assumes "mq_wf q"
  shows "job_status (add_entry e q) = (job_status q)(job_ID (qe_Job e) \<mapsto> qe_Status e)"
proof
  fix x
  show "job_status (add_entry e q) x = ((job_status q)(job_ID (qe_Job e) \<mapsto> qe_Status e)) x"
    using mq_wf_jobsD(1) [OF assms, of x] by (cases "mq_jobs q x") (auto simp: job_status_def)
qed

lemma job_status_metrics [simp]: "job_status (q\<lparr>mq_metrics := m\<rparr>) = job_status q"
  by (simp add: job_status_def fun_eq_iff)

lemma job_status_cancel:
  assumes wf: "mq_wf q" and reg: "mq_jobs q i = Some a"
  shows "job_status (set_entry a (\<lambda>e. e\<lparr>qe_Status := st, qe_FinishedAt := t\<rparr>) (q\<lparr>mq_queue := qs\<rparr>))
    = (job_status q)(i \<mapsto> st)"
proof
  fix x
  show "job_status (set_entry a (\<lambda>e. e\<lparr>qe_Status := st, qe_FinishedAt := t\<rparr>) (q\<lparr>mq_queue := qs\<rparr>)) x
    = ((job_status q)(i \<mapsto> st)) x"
    using mq_wf_jobsD(1) [OF wf reg] mq_wf_jobs_inj [OF wf reg, of x] reg
    by (cases "mq_jobs q x") (auto simp: job_status_def)
qed

interpretation mem: job_queue "\<lambda>_. True" mq_wf EnqueueWithDelay Cancel job_status mq_closed
proof
  fix q now job d and r q'
  assume wf: "mq_wf q" and "EnqueueWithDelay now job d q = (r, q')"
  then show "spec_submit (mq_closed q) job (job_status q) = (r, job_status q')"
    by (auto simp: EnqueueWithDelay_def spec_submit_def job_status_add_entry [OF wf] job_status_def
        split: option.splits if_splits)
next
  fix q now i r q'
  assume wf: "mq_wf q" and "Cancel now i q = (r, q')"
  then show "spec_abort i (job_status q) = (r, job_status q')"
    using job_status_cancel [OF wf, of i]
    by (auto simp: Cancel_def spec_abort_def Let_def split: option.splits if_splits)
      (auto simp: job_status_def)
next
  show "mq_closed (snd (EnqueueWithDelay now job d q)) = mq_closed q" for now job d q
    by (simp add: EnqueueWithDelay_def split: option.split)
  show "mq_closed (snd (Cancel now i q)) = mq_closed q" for now i q
    by (simp add: Cancel_def Let_def split: option.split)
qed (simp_all add: mq_wf_Enqueue mq_wf_Cancel)

text \<open>A run with one job, used at concrete inputs: submitted, taken, marked running, finished.\<close>

definition demo_job :: Job where
  "demo_job =
     \<lparr>job_ID = ''a'', job_Name = ''mail'',
      job_Metadata = \<lparr>md_Description = [], md_Owner = [], md_Timeout = 0, md_Singleton = False,
                      md_RetryCount = 0, md_RetryPolicy = NoRetryPolicy, md_Tags = Map.empty\<rparr>\<rparr>"

definition demo_idle :: mem_system where
  "demo_idle =
     (let q = snd (EnqueueWithDelay 7 (Some demo_job) 0 (NewMemoryJobQueue DefaultJobQueueConfig))
      in \<lparr>sys_q = q, sys_w = (\<lambda>i. if i < 5 then WIdle else WNone), sys_n = 5\<rparr>)"

definition demo_got :: mem_system where
  "demo_got = demo_idle\<lparr>sys_q := snd (dequeueJob 8 (sys_q demo_idle)), sys_w := (sys_w demo_idle)(2 := WGot 0)\<rparr>"

definition demo_run :: mem_system where
  "demo_run = demo_got\<lparr>sys_q := worker_start 9 0 (sys_q demo_got), sys_w := (sys_w demo_got)(2 := WRunning 0)\<rparr>"

definition demo_end :: mem_system where
  "demo_end = demo_run\<lparr>sys_q := worker_finish (\<lambda>_. 0) (Fin 0) 1 10 10 None 0 (sys_q demo_run),
     sys_w := (sys_w demo_run)(2 := WIdle)\<rparr>"

definition demo_cancelled :: mem_system where
  "demo_cancelled = demo_got\<lparr>sys_q := snd (Cancel 9 ''a'' (sys_q demo_got))\<rparr>"

lemmas demo_defs = demo_job_def demo_idle_def demo_got_def demo_run_def demo_end_def
  NewMemoryJobQueue_def DefaultJobQueueConfig_def newJobQueueMetrics_def EnqueueWithDelay_def
  new_entry_def add_entry_def dequeueJob_def entry_def

lemma demo_idle_reachable: "mem_reachable DefaultJobQueueConfig demo_idle"
proof -
  let ?s = "init_system DefaultJobQueueConfig"
  let ?t = "?s\<lparr>sys_q := snd (EnqueueWithDelay 7 (Some demo_job) 0 (sys_q ?s))\<rparr>"
  have "mem_reachable DefaultJobQueueConfig ?t"
    by (rule mem_reachable.r_step [OF mem_reachable.r_init s_enqueue])
  moreover have "Process False (sys_q ?t) = Inr 5"
    by (simp add: Process_def init_system_def NewMemoryJobQueue_def EnqueueWithDelay_def demo_job_def
        DefaultJobQueueConfig_def add_entry_def)
  note s_process [OF this]
  ultimately have "mem_reachable DefaultJobQueueConfig
      (?t\<lparr>sys_w := (\<lambda>i. if sys_n ?t \<le> i \<and> i < sys_n ?t + 5 then WIdle else sys_w ?t i), sys_n := sys_n ?t + 5\<rparr>)"
    by (rule mem_reachable.r_step)
  also have "?t\<lparr>sys_w := (\<lambda>i. if sys_n ?t \<le> i \<and> i < sys_n ?t + 5 then WIdle else sys_w ?t i), sys_n := sys_n ?t + 5\<rparr>
    = demo_idle"
    by (simp add: demo_idle_def init_system_def fun_eq_iff)
  finally show ?thesis .
qed

lemma demo_got_reachable: "mem_reachable DefaultJobQueueConfig demo_got"
proof (rule mem_reachable.r_step [OF demo_idle_reachable])
  have "dequeueJob 8 (sys_q demo_idle) = (Some 0, snd (dequeueJob 8 (sys_q demo_idle)))"
    by (simp add: demo_defs)
  from s_poll_some [OF _ this, of 2] show "mem_step demo_idle demo_got"
    unfolding demo_got_def by (simp add: demo_idle_def)
qed

lemma demo_run_reachable: "mem_reachable DefaultJobQueueConfig demo_run"
  by (rule mem_reachable.r_step [OF demo_got_reachable], unfold demo_run_def, rule s_start)
    (simp add: demo_got_def)

lemma demo_run_end: "mem_step demo_run demo_end"
  unfolding demo_end_def by (rule s_finish) (simp add: demo_run_def)

lemma demo_cancelled_reachable: "mem_reachable DefaultJobQueueConfig demo_cancelled"
  unfolding demo_cancelled_def by (rule mem_reachable.r_step [OF demo_got_reachable s_cancel])

subsection \<open>Properties\<close>

text \<open>
  C1: the queue implements the interface: any sequence of submissions and cancellations, from
  any reachable state, returns what the abstract table of statuses returns and leaves the
  table's statuses, whatever the workers did before.
\<close>

theorem memory_queue_refines_spec:
  assumes "mem_reachable c s"
    and "run_calls (do_call EnqueueWithDelay Cancel) cs (sys_q s) = (rs, q')"
  shows "run_calls (spec_call (mq_closed (sys_q s))) cs (job_status (sys_q s)) = (rs, job_status q')"
  using mem.run_refines [OF sys_inv_wf [OF mem_reachable_inv [OF assms(1)]] assms(2)]
  by (simp add: call_ok_def list_all_iff split: call.split option.split)

theorem memory_queue_refines_spec_witness:
  "\<exists>rs q'. run_calls (do_call EnqueueWithDelay Cancel) [Abort 3 ''a'', Submit 4 None 0] (sys_q demo_idle) = (rs, q')
    \<and> run_calls (spec_call False) [Abort 3 ''a'', Submit 4 None 0] (job_status (sys_q demo_idle)) = (rs, job_status q')"
proof -
  obtain rs q' where r: "run_calls (do_call EnqueueWithDelay Cancel) [Abort 3 ''a'', Submit 4 None 0] (sys_q demo_idle)
    = (rs, q')" by (rule prod.exhaust)
  have "mq_closed (sys_q demo_idle) = False" by (simp add: demo_defs)
  from memory_queue_refines_spec [OF demo_idle_reachable r, unfolded this] r show ?thesis by blast
qed

text \<open>
  C3: workers exclude each other: in every reachable state two workers never work on jobs with
  the same ID, so a job is run by at most one handler at a time.
\<close>

theorem workers_exclusive:
  assumes "mem_reachable c s" and "holds (sys_w s i) a" and "holds (sys_w s j) b"
    and "entry_ID (sys_q s) a = entry_ID (sys_q s) b"
  shows "i = j \<and> a = b"
proof -
  have w: "workers_wf s" using mem_reachable_inv [OF assms(1)] by (simp add: sys_inv_def)
  have "a = b" using workers_wfD(1) [OF w assms(2)] workers_wfD(1) [OF w assms(3)]
    unfolding assms(4) by (metis option.inject)
  with workers_wfD(2) [OF w assms(2), of j] assms(3) show ?thesis by simp
qed

theorem workers_exclusive_witness:
  "{j. \<exists>b. holds (sys_w demo_run j) b \<and> entry_ID (sys_q demo_run) b = ''a''} = {2}"
proof -
  have h: "holds (sys_w demo_run 2) 0" by (simp add: demo_run_def)
  have e: "entry_ID (sys_q demo_run) 0 = ''a''"
    by (simp add: demo_defs worker_start_def set_entry_def)
  have "j = 2" if "holds (sys_w demo_run j) b" "entry_ID (sys_q demo_run) b = ''a''" for j b
    using workers_exclusive [OF demo_run_reachable that(1) h] unfolding that(2) e by blast
  with h e show ?thesis by blast
qed

text \<open>
  C2: no job is lost: in every reachable state a registered job has a status, a pending one
  is in the queue or with a worker, a running one is with a worker that is in its handler or
  about to leave it, and a dead-lettered one is among the dead letters.
\<close>

theorem no_job_lost:
  assumes "mem_reachable c s" and "mq_jobs (sys_q s) jobID = Some a"
  shows "entry_ID (sys_q s) a = jobID \<and>
    (case qe_Status (entry (sys_q s) a) of
       JobStatusUnset \<Rightarrow> False
     | JobStatusPending \<Rightarrow> a \<in> set (mq_queue (sys_q s)) \<or> (\<exists>i. sys_w s i = WGot a)
     | JobStatusRunning \<Rightarrow> (\<exists>i. sys_w s i = WRunning a)
     | JobStatusDeadLettered \<Rightarrow> mq_deadLettered (sys_q s) jobID = Some a
     | _ \<Rightarrow> True)"
proof -
  have inv: "sys_inv s" by (rule mem_reachable_inv [OF assms(1)])
  then have w: "workers_wf s" by (simp add: sys_inv_def)
  note j = mq_wf_jobsD [OF sys_inv_wf [OF inv] assms(2)]
  have held: "\<exists>i. sys_w s i = WGot a \<or> sys_w s i = WRunning a" if "mq_processing (sys_q s) jobID = Some a"
    using workers_wfD(3) [OF w that] by (metis holds.elims(2))
  then show ?thesis
    using j workers_wfD(4,5) [OF w, of _ a]
    by (auto simp: accounted_def split: JobStatus.split) force+
qed

theorem no_job_lost_witness:
  "mq_jobs (sys_q demo_run) ''a'' = Some 0 \<and> (\<exists>i. sys_w demo_run i = WRunning 0)"
proof -
  have m: "mq_jobs (sys_q demo_run) ''a'' = Some 0" and "qe_Status (entry (sys_q demo_run) 0) = JobStatusRunning"
    by (simp_all add: demo_defs worker_start_def set_entry_def)
  with no_job_lost [OF demo_run_reachable m] show ?thesis by simp
qed

text \<open>
  The counters balance: in every reachable state the jobs started are those completed,
  those failed and those that a worker is running.
\<close>

theorem metrics_balance:
  assumes "mem_reachable c s"
  shows "jm_startedJobs (mq_metrics (sys_q s)) =
    jm_completedJobs (mq_metrics (sys_q s)) + jm_failedJobs (mq_metrics (sys_q s)) + card {i. running (sys_w s i)}"
  using mem_reachable_inv [OF assms] by (simp add: sys_inv_def metrics_wf_def)

theorem metrics_balance_witness:
  "1 = jm_completedJobs (mq_metrics (sys_q demo_run)) + jm_failedJobs (mq_metrics (sys_q demo_run))
     + card {i. running (sys_w demo_run i)}"
proof -
  have "jm_startedJobs (mq_metrics (sys_q demo_run)) = 1"
    by (simp add: demo_defs worker_start_def set_entry_def)
  with metrics_balance [OF demo_run_reachable] show ?thesis by simp
qed

text \<open>
  Retries are bounded: in every reachable state the retry count that \<open>Get\<close> reports is at
  most what the job's own retry policy allows.
\<close>

theorem retry_count_bounded:
  assumes "mem_reachable c s" and "Get jobID (sys_q s) = Inr info"
  shows "0 \<le> ji_RetryCount info \<and> ji_RetryCount info \<le> max 0 (rp_MaxRetries (md_RetryPolicy (ji_Metadata info)))"
proof -
  from assms(2) obtain a where a: "mq_jobs (sys_q s) jobID = Some a" "info = entry_info (entry (sys_q s) a)"
    by (auto simp: Get_def split: if_splits option.splits)
  have wf: "mq_wf (sys_q s)" by (rule sys_inv_wf [OF mem_reachable_inv [OF assms(1)]])
  from mq_wf_retries [OF wf mq_wf_jobsD(1) [OF wf a(1)]] show ?thesis
    by (simp add: a(2) entry_info_def retries_bounded_def)
qed

theorem retry_count_bounded_witness:
  "\<exists>info. Get ''a'' (sys_q demo_run) = Inr info \<and> ji_RetryCount info \<le> 0"
proof -
  have "Get ''a'' (sys_q demo_run) = Inr (entry_info (entry (sys_q demo_run) 0))"
    "md_RetryPolicy (job_Metadata (qe_Job (entry (sys_q demo_run) 0))) = NoRetryPolicy"
    by (simp_all add: Get_def demo_defs worker_start_def set_entry_def)
  with retry_count_bounded [OF demo_run_reachable this(1)] show ?thesis
    by (simp add: entry_info_def NoRetryPolicy_def)
qed

lemma settled_steps:
  assumes "mem_step\<^sup>*\<^sup>* s t" and "sys_inv s" and "settled s a" and "mq_jobs (sys_q s) jobID = Some a"
  shows "entry (sys_q t) a = entry (sys_q s) a \<and> mq_jobs (sys_q t) jobID = Some a \<and> settled t a \<and> sys_inv t"
  using assms(1)
proof (induction rule: rtranclp_induct)
  case (step t u)
  then have inv: "sys_inv t" and reg: "mq_jobs (sys_q t) jobID = Some a" by blast+
  have "a < length (mq_store (sys_q t))" by (rule mq_wf_jobsD(1) [OF sys_inv_wf [OF inv] reg])
  from settled_step [OF step.hyps(2) inv _ this] step.IH sys_inv_step [OF step.hyps(2) inv]
  show ?case by (auto simp: untouched_def)
qed (use assms in auto)

text \<open>
  A job that is completed, failed or cancelled and that no worker holds is final: whatever
  clients and workers do afterwards, \<open>Get\<close> reports the same.
\<close>

theorem settled_job_final:
  assumes "mem_reachable c s" and "mq_jobs (sys_q s) jobID = Some a" and "settled s a" and "mem_step\<^sup>*\<^sup>* s t"
  shows "Get jobID (sys_q t) = Get jobID (sys_q s)"
  using settled_steps [OF assms(4) mem_reachable_inv [OF assms(1)] assms(3,2)] assms(2)
  by (simp add: Get_def)

theorem settled_job_final_witness:
  "Get ''a'' (sys_q (demo_end\<lparr>sys_q := snd (Cancel 20 ''a'' (sys_q demo_end))\<rparr>)) = Get ''a'' (sys_q demo_end)"
proof (rule settled_job_final [OF _ _ _ r_into_rtranclp [where r = mem_step], OF _ _ _ s_cancel])
  show "mem_reachable DefaultJobQueueConfig demo_end"
    by (rule mem_reachable.r_step [OF demo_run_reachable demo_run_end])
  show "mq_jobs (sys_q demo_end) ''a'' = Some 0"
    by (simp add: demo_defs worker_start_def worker_finish_def observe_retries_def set_entry_def)
  show "settled demo_end 0"
    by (simp add: settled_def demo_defs worker_start_def worker_finish_def observe_retries_def set_entry_def)
qed

text \<open>
  Polling finds work: if the queue holds a job that is ready at an instant, a worker that
  polls at that instant at most as often as the queue is long takes a job, the first ready
  one; the jobs before it, waiting for their retry time, only move to the back.
\<close>

theorem poll_finds_ready_job:
  assumes "b \<in> set (mq_queue q)" and "ready q now b"
  shows "\<exists>n a. n \<le> length (mq_queue q) \<and> fst (poll_many n now q) = Some a
    \<and> a \<in> set (mq_queue q) \<and> ready q now a"
proof -
  obtain as a bs where q: "mq_queue q = as @ a # bs" "ready q now a" "\<forall>x\<in>set as. \<not> ready q now x"
    using split_list_first_prop [of "mq_queue q" "ready q now"] assms by blast
  then show ?thesis
    by (intro exI [of _ "Suc (length as)"] exI [of _ a]) (simp add: poll_many_finds del: poll_many.simps)
qed

theorem poll_finds_ready_job_witness:
  "\<exists>n a. n \<le> length (mq_queue (sys_q demo_idle)) \<and> fst (poll_many n 8 (sys_q demo_idle)) = Some a"
proof -
  have "0 \<in> set (mq_queue (sys_q demo_idle))" and "ready (sys_q demo_idle) 8 0"
    by (simp_all add: ready_def demo_defs)
  from poll_finds_ready_job [OF this] show ?thesis by blast
qed

text \<open>
  C4: what the end of a run makes of a job, on every branch: success completes it; a failure
  with retries left puts it back at the end of the queue, pending, with the retry counted and
  not before the backoff is over; a failure without retries left moves it to the dead letters
  or, when these are disabled, leaves it failed.  In every case it is no longer under way.
\<close>

theorem worker_finish_outcome:
  fixes ovf u dur finishTime now err a q
  assumes "a < length (mq_store q)"
  defines "q' \<equiv> worker_finish ovf u dur finishTime now err a q"
    and "pol \<equiv> md_RetryPolicy (job_Metadata (qe_Job (entry q a)))" and "n \<equiv> qe_RetryCount (entry q a) + 1"
  shows "mq_processing q' = (mq_processing q)(entry_ID q a := None) \<and>
    (if err = None
     then qe_Status (entry q' a) = JobStatusCompleted \<and> mq_queue q' = mq_queue q \<and> mq_deadLettered q' = mq_deadLettered q
     else qe_Error (entry q' a) = err \<and>
       (if rp_Type pol \<noteq> RetryPolicyTypeNone \<and> n \<le> rp_MaxRetries pol
        then qe_Status (entry q' a) = JobStatusPending \<and> mq_queue q' = mq_queue q @ [a]
          \<and> qe_RetryCount (entry q' a) = n \<and> qe_NextRetry (entry q' a) = Some (now + CalculateBackoff ovf u pol n)
        else if qc_DeadLetterEnabled (mq_config q)
        then qe_Status (entry q' a) = JobStatusDeadLettered \<and> mq_queue q' = mq_queue q
          \<and> mq_deadLettered q' = (mq_deadLettered q)(entry_ID q a \<mapsto> a)
        else qe_Status (entry q' a) = JobStatusFailed \<and> mq_queue q' = mq_queue q \<and> mq_deadLettered q' = mq_deadLettered q))"
  unfolding q'_def pol_def n_def
  by (simp add: worker_finish_facts [OF assms(1)] finish_retries_def finish_buries_def ShouldRetry_def split: option.split)

theorem worker_finish_outcome_witness:
  "mq_deadLettered (worker_finish (\<lambda>_. 0) (Fin 0) 1 10 10 (Some ''boom'') 0 (sys_q demo_run)) ''a'' = Some 0"
proof -
  have a: "0 < length (mq_store (sys_q demo_run))" "entry_ID (sys_q demo_run) 0 = ''a''"
    "rp_MaxRetries (md_RetryPolicy (job_Metadata (qe_Job (entry (sys_q demo_run) 0)))) = 0"
    "qe_RetryCount (entry (sys_q demo_run) 0) = 0" "qc_DeadLetterEnabled (mq_config (sys_q demo_run))"
    by (simp_all add: demo_defs worker_start_def set_entry_def NoRetryPolicy_def)
  from worker_finish_outcome [OF a(1), of "\<lambda>_. 0" "Fin 0" 1 10 10 "Some ''boom''"] a(2-5) show ?thesis by simp
qed

text \<open>
  Cancelling does not always prevent a run: between the instant a worker takes a job and
  the instant it marks it running, \<open>Cancel\<close> succeeds and reports the job cancelled, and yet the
  worker runs it and it ends completed.
\<close>

theorem cancelled_job_can_run:
  "\<exists>s t u. mem_reachable DefaultJobQueueConfig s \<and> Cancel 9 ''a'' (sys_q s) = (None, sys_q t)
     \<and> job_status (sys_q t) ''a'' = Some JobStatusCancelled
     \<and> mem_step\<^sup>*\<^sup>* t u \<and> job_status (sys_q u) ''a'' = Some JobStatusCompleted"
proof -
  let ?r = "demo_cancelled\<lparr>sys_q := worker_start 9 0 (sys_q demo_cancelled), sys_w := (sys_w demo_cancelled)(2 := WRunning 0)\<rparr>"
  let ?u = "?r\<lparr>sys_q := worker_finish (\<lambda>_. 0) (Fin 0) 1 10 10 None 0 (sys_q ?r), sys_w := (sys_w ?r)(2 := WIdle)\<rparr>"
  have "mem_step demo_cancelled ?r" by (rule s_start) (simp add: demo_cancelled_def demo_got_def)
  moreover have "mem_step ?r ?u" by (rule s_finish) simp
  ultimately have steps: "mem_step\<^sup>*\<^sup>* demo_cancelled ?u" by simp
  have "Cancel 9 ''a'' (sys_q demo_got) = (None, sys_q demo_cancelled)"
    "job_status (sys_q demo_cancelled) ''a'' = Some JobStatusCancelled"
    "job_status (sys_q ?u) ''a'' = Some JobStatusCompleted"
    by (simp_all add: demo_cancelled_def demo_defs Cancel_def set_entry_def job_status_def worker_start_def
        worker_finish_def observe_retries_def)
  with demo_got_reachable steps show ?thesis by blast
qed

text \<open>
  The pages of \<open>List\<close>: with a limit and an offset that is less than the number of matches,
  \<open>List\<close> returns the matching registered jobs of that window, each once; an offset at or past the
  number of matches is ignored, so that the first page is returned again instead of none.
\<close>

theorem List_jobs_page:
  fixes q f ids
  assumes "iterates ids (mq_jobs q)" and "0 \<le> jf_Offset f" and "0 < jf_Limit f"
  defines "matching \<equiv> filter (\<lambda>i. case Get i q of Inl _ \<Rightarrow> False
      | Inr info \<Rightarrow> filter_matches f (ji_Status info) (ji_EnqueuedAt info)) ids"
  assumes "mq_jobs q [] = None"
  shows "map Inr (List_jobs ids f q) =
    map (\<lambda>i. Get i q) (take (nat (jf_Limit f))
      (if nat (jf_Offset f) < length matching then drop (nat (jf_Offset f)) matching else matching))"
proof -
  have get: "Get i q = Inr (entry_info (entry q (the (mq_jobs q i))))" if "i \<in> set ids" for i
    using that assms(1,5) by (auto simp: Get_def)
  have m: "matching = filter (\<lambda>i. filter_matches f (qe_Status (entry q (the (mq_jobs q i))))
      (qe_EnqueuedAt (entry q (the (mq_jobs q i))))) ids"
    unfolding matching_def by (rule filter_cong [OF refl]) (simp add: get entry_info_def)
  have sub: "set matching \<subseteq> set ids" by (auto simp: m)
  have "List_jobs ids f q = page f (map (\<lambda>i. entry_info (entry q (the (mq_jobs q i)))) matching)"
    by (simp add: List_jobs_def m filter_map comp_def)
  also have "map Inr \<dots> = map (\<lambda>i. Get i q) (page f matching)"
    using get sub by (auto simp: page_def Let_def take_map drop_map dest!: in_set_takeD in_set_dropD)
  also have "page f matching = take (nat (jf_Limit f))
      (if nat (jf_Offset f) < length matching then drop (nat (jf_Offset f)) matching else matching)"
    using assms(2,3) by (auto simp: page_def Let_def)
  finally show ?thesis .
qed

theorem List_jobs_page_witness:
  "map Inr (List_jobs [''a''] \<lparr>jf_Status = [], jf_StartTime = None, jf_EndTime = None, jf_Limit = 10, jf_Offset = 1\<rparr>
      (sys_q demo_idle)) = [Get ''a'' (sys_q demo_idle)]"
proof -
  have it: "iterates [''a''] (mq_jobs (sys_q demo_idle))" "mq_jobs (sys_q demo_idle) [] = None"
    by (auto simp: iterates_def demo_defs)
  have "\<exists>info. Get ''a'' (sys_q demo_idle) = Inr info" by (simp add: Get_def demo_defs)
  then show ?thesis
    using List_jobs_page [OF it(1) _ _ it(2), of "\<lparr>jf_Status = [], jf_StartTime = None, jf_EndTime = None, jf_Limit = 10, jf_Offset = 1\<rparr>"]
    by (auto simp: filter_matches_def)
qed

end
