(* ===== verification/LeaderElection.thy ===== *)
theory LeaderElection
  imports Jobs
begin

text \<open>
  Package jobs, \<open>leader_election.go\<close>: the in-memory leader elector, the placeholder for a Redis
  one, the local one of \<open>cron_scheduler.go\<close>, and the interface \<open>LeaderElector\<close> as a locale.
  What runs under the mutex is one step.  The loops over a ticker take the instants of their
  ticks; the list ends when the context is done.
\<close>

named_theorems elector_defs

datatype elector_error = ErrNotLeader | ErrNotImplemented | ErrContextDone

subsection \<open>The in-memory elector\<close>

record MemoryLeaderElector =
  ml_leader :: string
  ml_leaseExpiry :: time
  ml_config :: LeaderElectionConfig

definition NewMemoryLeaderElector :: "LeaderElectionConfig \<Rightarrow> MemoryLeaderElector" where
  "NewMemoryLeaderElector config =
     (let config = (if le_LeaseDuration config = 0 then config\<lparr>le_LeaseDuration := 15 * Second\<rparr> else config);
          config = (if le_RenewDeadline config = 0 then config\<lparr>le_RenewDeadline := 10 * Second\<rparr> else config);
          config = (if le_RetryPeriod config = 0 then config\<lparr>le_RetryPeriod := 2 * Second\<rparr> else config)
      in \<lparr>ml_leader = [], ml_leaseExpiry = zero_Time, ml_config = config\<rparr>)"

definition IsLeader :: "time \<Rightarrow> MemoryLeaderElector \<Rightarrow> (elector_error + bool) \<times> MemoryLeaderElector" where
  "IsLeader now m =
     (if ml_leaseExpiry m < now then (Inr False, m\<lparr>ml_leader := []\<rparr>)
      else (Inr (ml_leader m = le_Identity (ml_config m)), m))"

definition tryAcquireLeadership :: "time \<Rightarrow> MemoryLeaderElector \<Rightarrow> bool \<times> MemoryLeaderElector" where
  "tryAcquireLeadership now m =
     (if ml_leader m = [] \<or> ml_leaseExpiry m < now
      then (True, m\<lparr>ml_leader := le_Identity (ml_config m),
                    ml_leaseExpiry := now + le_LeaseDuration (ml_config m)\<rparr>)
      else (ml_leader m = le_Identity (ml_config m), m))"

text \<open>The loop of \<open>RunForLeader\<close>; when it acquired, the renewal goroutine starts.\<close>

fun RunForLeader :: "time list \<Rightarrow> MemoryLeaderElector \<Rightarrow> elector_error option \<times> MemoryLeaderElector" where
  "RunForLeader [] m = (Some ErrContextDone, m)"
| "RunForLeader (now # ticks) m =
     (case tryAcquireLeadership now m of
        (True, m') \<Rightarrow> (None, m')
      | (False, m') \<Rightarrow> RunForLeader ticks m')"

definition ResignLeadership :: "MemoryLeaderElector \<Rightarrow> elector_error option \<times> MemoryLeaderElector" where
  "ResignLeadership m =
     (if ml_leader m = le_Identity (ml_config m) then (None, m\<lparr>ml_leader := []\<rparr>)
      else (Some ErrNotLeader, m))"

text \<open>
  One tick of the renewal: whether the goroutine goes on, and the state; then the whole loop.
\<close>

definition renew_tick :: "time \<Rightarrow> MemoryLeaderElector \<Rightarrow> bool \<times> MemoryLeaderElector" where
  "renew_tick now m =
     (if ml_leader m = le_Identity (ml_config m)
      then (True, m\<lparr>ml_leaseExpiry := now + le_LeaseDuration (ml_config m)\<rparr>)
      else (False, m))"

fun renewLeadership :: "time list \<Rightarrow> MemoryLeaderElector \<Rightarrow> MemoryLeaderElector" where
  "renewLeadership [] m = m"
| "renewLeadership (now # ticks) m =
     (case renew_tick now m of (True, m') \<Rightarrow> renewLeadership ticks m' | (False, m') \<Rightarrow> m')"

subsection \<open>The local and the Redis elector\<close>

record localLeaderElector =
  ll_isLeader :: bool

definition local_IsLeader :: "time \<Rightarrow> localLeaderElector \<Rightarrow> (elector_error + bool) \<times> localLeaderElector" where
  "local_IsLeader now l = (Inr (ll_isLeader l), l)"

definition local_RunForLeader :: "localLeaderElector \<Rightarrow> elector_error option \<times> localLeaderElector" where
  "local_RunForLeader l = (None, l\<lparr>ll_isLeader := True\<rparr>)"

definition local_ResignLeadership :: "localLeaderElector \<Rightarrow> elector_error option \<times> localLeaderElector" where
  "local_ResignLeadership l = (None, l\<lparr>ll_isLeader := False\<rparr>)"

record RedisLeaderElector =
  rl_config :: LeaderElectionConfig

definition NewRedisLeaderElector :: "LeaderElectionConfig \<Rightarrow> RedisLeaderElector" where
  "NewRedisLeaderElector config = \<lparr>rl_config = config\<rparr>"

definition redis_IsLeader :: "time \<Rightarrow> RedisLeaderElector \<Rightarrow> (elector_error + bool) \<times> RedisLeaderElector" where
  "redis_IsLeader now r = (Inl ErrNotImplemented, r)"

definition redis_RunForLeader :: "RedisLeaderElector \<Rightarrow> elector_error option \<times> RedisLeaderElector" where
  "redis_RunForLeader r = (Some ErrNotImplemented, r)"

definition redis_ResignLeadership :: "RedisLeaderElector \<Rightarrow> elector_error option \<times> RedisLeaderElector" where
  "redis_ResignLeadership r = (Some ErrNotImplemented, r)"

lemmas elector_ops [elector_defs] = IsLeader_def tryAcquireLeadership_def ResignLeadership_def renew_tick_def
  local_IsLeader_def local_RunForLeader_def local_ResignLeadership_def
  redis_IsLeader_def redis_RunForLeader_def redis_ResignLeadership_def

subsection \<open>The interface\<close>

text \<open>
  What the scheduler relies on: asking does not change a later answer at the same instant, an
  instance that resigned does not lead, and asking does not make one a leader again.
\<close>

fun ask_all :: "(time \<Rightarrow> 'e \<Rightarrow> (elector_error + bool) \<times> 'e) \<Rightarrow> time list \<Rightarrow> 'e \<Rightarrow> (elector_error + bool) list" where
  "ask_all is_leader [] e = []"
| "ask_all is_leader (t # ts) e = fst (is_leader t e) # ask_all is_leader ts (snd (is_leader t e))"

locale leader_elector =
  fixes inv :: "'e \<Rightarrow> bool"
    and is_leader :: "time \<Rightarrow> 'e \<Rightarrow> (elector_error + bool) \<times> 'e"
    and resign :: "'e \<Rightarrow> elector_error option \<times> 'e"
    and out :: "'e \<Rightarrow> bool" \<comment> \<open>not a leader, until it runs again\<close>
  assumes inv_is_leader: "inv e \<Longrightarrow> inv (snd (is_leader now e))"
    and inv_resign: "inv e \<Longrightarrow> inv (snd (resign e))"
    and is_leader_again: "inv e \<Longrightarrow> fst (is_leader now (snd (is_leader now e))) = fst (is_leader now e)"
    and resign_out: "inv e \<Longrightarrow> resign e = (None, e') \<Longrightarrow> out e'"
    and out_not_leader: "inv e \<Longrightarrow> out e \<Longrightarrow> fst (is_leader now e) \<noteq> Inr True"
    and out_stays: "inv e \<Longrightarrow> out e \<Longrightarrow> out (snd (is_leader now e))"
begin

lemma out_never_leads: "inv e \<Longrightarrow> out e \<Longrightarrow> Inr True \<notin> set (ask_all is_leader ts e)"
proof (induction ts arbitrary: e)
  case (Cons t ts)
  then show ?case using out_not_leader [of e t] inv_is_leader [of e t] out_stays [of e t] by auto
qed simp

lemma resigned_never_leads: "inv e \<Longrightarrow> resign e = (None, e') \<Longrightarrow> Inr True \<notin> set (ask_all is_leader ts e')"
  by (rule out_never_leads) (use inv_resign [of e] resign_out in auto)

end

definition identified :: "MemoryLeaderElector \<Rightarrow> bool" where
  "identified m \<longleftrightarrow> le_Identity (ml_config m) \<noteq> []"

definition vacant :: "MemoryLeaderElector \<Rightarrow> bool" where
  "vacant m \<longleftrightarrow> ml_leader m = []"

interpretation mle: leader_elector identified IsLeader ResignLeadership vacant
  by unfold_locales (auto simp: identified_def vacant_def elector_defs split: if_splits)

interpretation lle: leader_elector "\<lambda>_. True" local_IsLeader local_ResignLeadership "\<lambda>l. \<not> ll_isLeader l"
  by unfold_locales (auto simp: elector_defs)

interpretation rle: leader_elector "\<lambda>_. True" redis_IsLeader redis_ResignLeadership "\<lambda>_. True"
  by unfold_locales (auto simp: elector_defs)

subsection \<open>Properties\<close>

lemma renew_config [simp]: "ml_config (renewLeadership ts m) = ml_config m"
  by (induction ts m rule: renewLeadership.induct) (auto simp: elector_defs split: if_splits)

text \<open>
  The instants of a ticker that leave no gap of more than \<open>d\<close> after \<open>t\<close>.
\<close>

fun gaps_within :: "duration \<Rightarrow> time \<Rightarrow> time list \<Rightarrow> bool" where
  "gaps_within d t [] \<longleftrightarrow> True"
| "gaps_within d t (u # us) \<longleftrightarrow> t \<le> u \<and> u \<le> t + d \<and> gaps_within d u us"

lemma renew_leader:
  assumes "ml_leader m = le_Identity (ml_config m)" and "ml_leaseExpiry m = t + le_LeaseDuration (ml_config m)"
  shows "ml_leader (renewLeadership ts m) = le_Identity (ml_config m)"
    and "ml_leaseExpiry (renewLeadership ts m) = last (t # ts) + le_LeaseDuration (ml_config m)"
  using assms by (induction ts arbitrary: m t) (auto simp: elector_defs)

lemma gaps_within_split:
  assumes "gaps_within d t ts" and "t \<le> now" and "now \<le> last (t # ts) + d"
  shows "\<exists>us vs. ts = us @ vs \<and> last (t # us) \<le> now \<and> now \<le> last (t # us) + d \<and> (vs = [] \<or> now < hd vs)"
  using assms
proof (induction ts arbitrary: t)
  case (Cons u ts)
  show ?case
  proof (cases "now < u")
    case True
    then show ?thesis using Cons.prems by (intro exI [of _ "[]"] exI [of _ "u # ts"]) auto
  next
    case False
    then have "gaps_within d u ts" "u \<le> now" "now \<le> last (u # ts) + d" using Cons.prems by simp_all
    from Cons.IH [OF this] obtain us vs where "ts = us @ vs" "last (u # us) \<le> now" "now \<le> last (u # us) + d" "vs = [] \<or> now < hd vs"
      by blast
    then show ?thesis by (intro exI [of _ "u # us"] exI [of _ vs]) auto
  qed
qed auto

text \<open>
  A leader that renews stays the leader: from the acquisition on, as long as the ticks of
  the renewal leave no gap longer than the lease, \<open>IsLeader\<close> answers yes at every instant up to the end
  of the last lease, whatever ticks have passed by then.
\<close>

theorem renewal_keeps_leadership:
  assumes "tryAcquireLeadership t m = (True, m')" and "ml_leader m = [] \<or> ml_leaseExpiry m < t"
    and "gaps_within (le_LeaseDuration (ml_config m)) t ticks"
    and "t \<le> now" and "now \<le> last (t # ticks) + le_LeaseDuration (ml_config m)"
  shows "\<exists>us vs. ticks = us @ vs \<and> last (t # us) \<le> now \<and> (vs = [] \<or> now < hd vs) \<and>
    fst (IsLeader now (renewLeadership us m')) = Inr True"
proof -
  have m': "ml_leader m' = le_Identity (ml_config m')" "ml_config m' = ml_config m"
    "ml_leaseExpiry m' = t + le_LeaseDuration (ml_config m')"
    using assms(1,2) by (auto simp: tryAcquireLeadership_def)
  obtain us vs where us: "ticks = us @ vs" "last (t # us) \<le> now"
    "now \<le> last (t # us) + le_LeaseDuration (ml_config m)" "vs = [] \<or> now < hd vs"
    using gaps_within_split [OF assms(3,4,5)] by blast
  have "fst (IsLeader now (renewLeadership us m')) = Inr True"
    using renew_leader [OF m'(1,3), of us] us(3) m'(2) by (simp add: IsLeader_def)
  with us show ?thesis by blast
qed

definition demo_elector :: MemoryLeaderElector where
  "demo_elector = NewMemoryLeaderElector ((sc_LeaderElection DefaultSchedulerConfig)\<lparr>le_Identity := ''n1''\<rparr>)"

theorem renewal_keeps_leadership_witness:
  "\<exists>us vs. [5 * Second, 10 * Second] = us @ vs \<and> (vs = [] \<or> 20 * Second < hd vs) \<and>
    fst (IsLeader (20 * Second) (renewLeadership us (snd (tryAcquireLeadership 0 demo_elector)))) = Inr True"
proof -
  have "tryAcquireLeadership 0 demo_elector = (True, snd (tryAcquireLeadership 0 demo_elector))"
    "ml_leader demo_elector = [] \<or> ml_leaseExpiry demo_elector < 0"
    "gaps_within (le_LeaseDuration (ml_config demo_elector)) 0 [5 * Second, 10 * Second]"
    "0 \<le> 20 * Second" "20 * Second \<le> last [0, 5 * Second, 10 * Second] + le_LeaseDuration (ml_config demo_elector)"
    by (simp_all add: demo_elector_def NewMemoryLeaderElector_def DefaultSchedulerConfig_def duration_units
        tryAcquireLeadership_def Let_def)
  from renewal_keeps_leadership [OF this] show ?thesis by blast
qed

text \<open>Questions and ticks of renewal goroutines that are still alive, in any order: the answers.\<close>

datatype elector_event = Ask time | Renew time

fun answers :: "elector_event list \<Rightarrow> MemoryLeaderElector \<Rightarrow> (elector_error + bool) list" where
  "answers [] m = []"
| "answers (Ask t # evs) m = fst (IsLeader t m) # answers evs (snd (IsLeader t m))"
| "answers (Renew t # evs) m = answers evs (snd (renew_tick t m))"

lemma vacant_answers: "identified m \<Longrightarrow> vacant m \<Longrightarrow> Inr True \<notin> set (answers evs m)"
proof (induction evs m rule: answers.induct)
  case (2 t evs m)
  then show ?case
    using mle.out_not_leader [of m t] mle.inv_is_leader [of m t] mle.out_stays [of m t] by auto
qed (auto simp: identified_def vacant_def renew_tick_def)

text \<open>
  Resigning is final until the next run: after a successful \<open>ResignLeadership\<close>, ticks of
  renewal goroutines that are still alive and questions, in any order, never make the instance a
  leader, provided it has a name.
\<close>

theorem resigned_stays_resigned:
  assumes "le_Identity (ml_config m) \<noteq> []" and "ResignLeadership m = (None, m')"
  shows "Inr True \<notin> set (answers evs m')"
  using vacant_answers [of m'] assms mle.inv_resign [of m] mle.resign_out [of m]
  by (auto simp: identified_def)

theorem resigned_stays_resigned_witness:
  "Inr True \<notin> set (answers [Renew 2, Ask 3] (snd (ResignLeadership (snd (tryAcquireLeadership 0 demo_elector)))))"
  by (rule resigned_stays_resigned [of "snd (tryAcquireLeadership 0 demo_elector)"])
    (simp_all add: demo_elector_def NewMemoryLeaderElector_def DefaultSchedulerConfig_def
      tryAcquireLeadership_def ResignLeadership_def Let_def)

end
