(* ===== verification/CronScheduler.thy ===== *)
theory CronScheduler
  imports LeaderElection
begin

text \<open>
  Package jobs, \<open>cron_scheduler.go\<close>: the scheduler.  The cron library is a parameter (\<open>cron_ops\<close>, over
  a state of its own).  Executions are shared by pointer between the goroutine that runs the
  job and the map of executions, so they live in a store.  A run of \<open>executeJob\<close> is two
  steps, before and after \<open>Execute\<close>; other steps may come in between.
\<close>

named_theorems sched_defs

subsection \<open>State\<close>

text \<open>The library: entries get an ID and know the instant they run next.\<close>

record 'c cron_ops =
  cron_AddFunc :: "string \<Rightarrow> Job \<Rightarrow> 'c \<Rightarrow> (string + nat) \<times> 'c"
  cron_Next :: "'c \<Rightarrow> nat \<Rightarrow> time"
  cron_Start :: "'c \<Rightarrow> 'c"
  cron_Stop :: "'c \<Rightarrow> 'c"

record jobEntry =
  je_job :: Job
  je_spec :: string
  je_cronID :: nat
  je_nextRun :: time
  je_lastRun :: "time option"
  je_lastErr :: "string option"
  je_metadata :: JobMetadata

text \<open>The electors of the package, as the dynamic types of the interface value.\<close>

datatype LeaderElector =
    MemoryElector MemoryLeaderElector
  | LocalElector localLeaderElector
  | RedisElector RedisLeaderElector

fun elector_IsLeader :: "time \<Rightarrow> LeaderElector \<Rightarrow> (elector_error + bool) \<times> LeaderElector" where
  "elector_IsLeader now (MemoryElector m) = apsnd MemoryElector (IsLeader now m)"
| "elector_IsLeader now (LocalElector l) = apsnd LocalElector (local_IsLeader now l)"
| "elector_IsLeader now (RedisElector r) = apsnd RedisElector (redis_IsLeader now r)"

fun elector_Resign :: "LeaderElector \<Rightarrow> elector_error option \<times> LeaderElector" where
  "elector_Resign (MemoryElector m) = apsnd MemoryElector (ResignLeadership m)"
| "elector_Resign (LocalElector l) = apsnd LocalElector (local_ResignLeadership l)"
| "elector_Resign (RedisElector r) = apsnd RedisElector (redis_ResignLeadership r)"

record 'c CronScheduler =
  cs_cron :: 'c
  cs_jobs :: "string \<rightharpoonup> jobEntry"
  cs_leaderElector :: LeaderElector
  cs_instanceID :: string
  cs_isLeader :: bool
  cs_executions :: "string \<rightharpoonup> nat"
  cs_store :: "JobExecution list" \<comment> \<open>what the pointers of the map point to\<close>

datatype SchedulerOption = WithLeaderElector LeaderElector | WithInstanceID string

datatype schedule_error =
    ErrAlreadyScheduled string
  | ErrInvalidSpec string string

subsection \<open>Operations\<close>

definition generateInstanceID :: "time \<Rightarrow> string" where
  "generateInstanceID now = ''scheduler-'' @ fmt_d now"

definition generateExecutionID :: "time \<Rightarrow> string" where
  "generateExecutionID now = ''exec-'' @ fmt_d now"

fun apply_options :: "SchedulerOption list \<Rightarrow> LeaderElector option \<times> string \<Rightarrow> LeaderElector option \<times> string" where
  "apply_options [] s = s"
| "apply_options (WithLeaderElector e # opts) (el, i) = apply_options opts (Some e, i)"
| "apply_options (WithInstanceID j # opts) (el, i) = apply_options opts (el, j)"

definition NewCronScheduler :: "'c \<Rightarrow> time \<Rightarrow> SchedulerOption list \<Rightarrow> 'c CronScheduler" where
  "NewCronScheduler cron now opts =
     (let (el, i) = apply_options opts (None, generateInstanceID now)
      in \<lparr>cs_cron = cron, cs_jobs = Map.empty,
          cs_leaderElector = (case el of None \<Rightarrow> LocalElector \<lparr>ll_isLeader = True\<rparr> | Some e \<Rightarrow> e),
          cs_instanceID = i, cs_isLeader = False, cs_executions = Map.empty, cs_store = []\<rparr>)"

definition Schedule ::
  "'c cron_ops \<Rightarrow> string \<Rightarrow> Job \<Rightarrow> 'c CronScheduler \<Rightarrow> schedule_error option \<times> 'c CronScheduler" where
  "Schedule ops spec job s =
     (if cs_jobs s (job_ID job) \<noteq> None then (Some (ErrAlreadyScheduled (job_ID job)), s)
      else case cron_AddFunc ops spec job (cs_cron s) of
          (Inl err, c) \<Rightarrow> (Some (ErrInvalidSpec spec err), s\<lparr>cs_cron := c\<rparr>)
        | (Inr entryID, c) \<Rightarrow>
            (None, s\<lparr>cs_cron := c,
                     cs_jobs := (cs_jobs s)(job_ID job \<mapsto>
                       \<lparr>je_job = job, je_spec = spec, je_cronID = entryID, je_nextRun = cron_Next ops c entryID,
                        je_lastRun = None, je_lastErr = None, je_metadata = job_Metadata job\<rparr>)\<rparr>))"

definition Start :: "'c cron_ops \<Rightarrow> 'c CronScheduler \<Rightarrow> 'c CronScheduler" where
  "Start ops s = s\<lparr>cs_cron := cron_Start ops (cs_cron s)\<rparr>"

text \<open>\<open>Stop\<close> waits for what \<open>cron.Stop\<close> returns or for the caller's context, whichever is first.\<close>

definition Stop :: "'c cron_ops \<Rightarrow> bool \<Rightarrow> 'c CronScheduler \<Rightarrow> elector_error option \<times> 'c CronScheduler" where
  "Stop ops jobs_done s =
     (if jobs_done then None else Some ErrContextDone, s\<lparr>cs_cron := cron_Stop ops (cs_cron s)\<rparr>)"

definition sched_info :: "jobEntry \<Rightarrow> JobInfo" where
  "sched_info e =
     \<lparr>ji_ID = job_ID (je_job e), ji_Name = job_Name (je_job e), ji_Spec = je_spec e,
      ji_NextRun = je_nextRun e, ji_LastRun = je_lastRun e, ji_LastError = je_lastErr e,
      ji_Status = JobStatusUnset, ji_EnqueuedAt = zero_Time, ji_StartedAt = None,
      ji_FinishedAt = None, ji_Error = None, ji_RetryCount = 0, ji_NextRetry = None,
      ji_Metadata = je_metadata e\<rparr>"

definition Jobs_list :: "string list \<Rightarrow> 'c CronScheduler \<Rightarrow> JobInfo list" where
  "Jobs_list ids s = map (\<lambda>i. sched_info (the (cs_jobs s i))) ids"

text \<open>\<open>executeJob\<close> up to the call of \<open>Execute\<close>: the address of the execution, or \<open>None\<close> when the job is skipped.\<close>

definition execute_begin ::
  "time \<Rightarrow> time \<Rightarrow> Job \<Rightarrow> 'c CronScheduler \<Rightarrow> nat option \<times> 'c CronScheduler" where
  "execute_begin nanos now job s =
     (if md_Singleton (job_Metadata job) \<and> \<not> cs_isLeader s then (None, s)
      else
        (let execID = generateExecutionID nanos;
             execution = \<lparr>ex_JobID = job_ID job, ex_ExecutionID = execID, ex_StartTime = now, ex_EndTime = None,
                          ex_Status = JobStatusRunning, ex_Error = None, ex_InstanceID = cs_instanceID s\<rparr>;
             a = length (cs_store s)
         in (Some a, s\<lparr>cs_store := cs_store s @ [execution], cs_executions := (cs_executions s)(execID \<mapsto> a)\<rparr>)))"

definition execute_timeout :: "Job \<Rightarrow> duration option" where
  "execute_timeout job =
     (let timeout = md_Timeout (job_Metadata job) in if 0 < timeout then Some timeout else None)"

text \<open>What follows \<open>Execute\<close>.\<close>

definition execute_end ::
  "'c cron_ops \<Rightarrow> time \<Rightarrow> string option \<Rightarrow> nat \<Rightarrow> Job \<Rightarrow> 'c CronScheduler \<Rightarrow> 'c CronScheduler" where
  "execute_end ops endTime err a job s =
     (let x = cs_store s ! a;
          x = x\<lparr>ex_EndTime := Some endTime\<rparr>;
          x = (case err of Some e \<Rightarrow> x\<lparr>ex_Status := JobStatusFailed, ex_Error := Some e\<rparr>
               | None \<Rightarrow> x\<lparr>ex_Status := JobStatusCompleted\<rparr>);
          s = s\<lparr>cs_store := (cs_store s)[a := x]\<rparr>
      in case cs_jobs s (job_ID job) of
           None \<Rightarrow> s
         | Some e \<Rightarrow>
             s\<lparr>cs_jobs := (cs_jobs s)(job_ID job \<mapsto>
                 e\<lparr>je_lastRun := Some endTime, je_lastErr := err,
                   je_nextRun := cron_Next ops (cs_cron s) (je_cronID e)\<rparr>)\<rparr>)"

text \<open>A tick of \<open>leadershipMonitor\<close>: the answer and the state.\<close>

definition monitor_tick :: "time \<Rightarrow> 'c CronScheduler \<Rightarrow> (elector_error + bool) \<times> 'c CronScheduler" where
  "monitor_tick now s =
     (let (r, el) = elector_IsLeader now (cs_leaderElector s);
          s = s\<lparr>cs_leaderElector := el\<rparr>
      in (r, case r of Inl err \<Rightarrow> s | Inr isLeader \<Rightarrow> s\<lparr>cs_isLeader := isLeader\<rparr>))"

lemmas sched_ops [sched_defs] = Schedule_def Start_def Stop_def execute_begin_def execute_end_def
  monitor_tick_def Let_def

subsection \<open>Interface of the electors\<close>

fun elector_named :: "LeaderElector \<Rightarrow> bool" where
  "elector_named (MemoryElector m) = identified m"
| "elector_named _ = True"

fun elector_out :: "LeaderElector \<Rightarrow> bool" where
  "elector_out (MemoryElector m) = vacant m"
| "elector_out (LocalElector l) = (\<not> ll_isLeader l)"
| "elector_out (RedisElector r) = True"

interpretation any_elector: leader_elector elector_named elector_IsLeader elector_Resign elector_out
proof
  fix e e' :: LeaderElector and now
  assume inv: "elector_named e"
  show "elector_named (snd (elector_IsLeader now e))"
    using inv mle.inv_is_leader by (cases e) auto
  show "elector_named (snd (elector_Resign e))"
    using inv mle.inv_resign by (cases e) auto
  show "fst (elector_IsLeader now (snd (elector_IsLeader now e))) = fst (elector_IsLeader now e)"
    using inv mle.is_leader_again by (cases e) (auto simp: elector_defs)
  show "elector_Resign e = (None, e') \<Longrightarrow> elector_out e'"
    using inv mle.resign_out by (cases e) (auto simp: elector_defs split: if_splits)
  show "elector_out e \<Longrightarrow> fst (elector_IsLeader now e) \<noteq> Inr True"
    using inv mle.out_not_leader by (cases e) (auto simp: elector_defs)
  show "elector_out e \<Longrightarrow> elector_out (snd (elector_IsLeader now e))"
    using inv mle.out_stays by (cases e) (auto simp: elector_defs)
qed

subsection \<open>The running scheduler\<close>

datatype sched_event =
    EvMonitor "elector_error + bool" \<comment> \<open>what the elector answered\<close>
  | EvStart Job nat
  | EvSkip Job
  | EvEnd Job nat "string option"
  | EvOther

record 'c sched_system =
  ss_s :: "'c CronScheduler"
  ss_active :: "(nat \<times> Job) list" \<comment> \<open>the goroutines in \<open>Execute\<close>\<close>

text \<open>
  Any registered job may fire at any instant; the elector is shared with other goroutines,
  which may change it at any time.
\<close>

inductive sched_step :: "'c cron_ops \<Rightarrow> 'c sched_system \<Rightarrow> sched_event \<Rightarrow> 'c sched_system \<Rightarrow> bool" for ops where
  ss_schedule: "sched_step ops x EvOther (x\<lparr>ss_s := snd (Schedule ops spec job (ss_s x))\<rparr>)"
| ss_start: "sched_step ops x EvOther (x\<lparr>ss_s := Start ops (ss_s x)\<rparr>)"
| ss_stop: "sched_step ops x EvOther (x\<lparr>ss_s := snd (Stop ops dn (ss_s x))\<rparr>)"
| ss_elector: "sched_step ops x EvOther (x\<lparr>ss_s := (ss_s x)\<lparr>cs_leaderElector := el\<rparr>\<rparr>)"
| ss_monitor: "monitor_tick now (ss_s x) = (r, s') \<Longrightarrow> sched_step ops x (EvMonitor r) (x\<lparr>ss_s := s'\<rparr>)"
| ss_skip: "cs_jobs (ss_s x) (job_ID job) = Some e \<Longrightarrow> je_job e = job \<Longrightarrow>
    execute_begin nanos now job (ss_s x) = (None, s') \<Longrightarrow>
    sched_step ops x (EvSkip job) (x\<lparr>ss_s := s'\<rparr>)"
| ss_fire: "cs_jobs (ss_s x) (job_ID job) = Some e \<Longrightarrow> je_job e = job \<Longrightarrow>
    execute_begin nanos now job (ss_s x) = (Some a, s') \<Longrightarrow>
    sched_step ops x (EvStart job a) (x\<lparr>ss_s := s', ss_active := (a, job) # ss_active x\<rparr>)"
| ss_end: "(a, job) \<in> set (ss_active x) \<Longrightarrow>
    sched_step ops x (EvEnd job a err)
      (x\<lparr>ss_s := execute_end ops endTime err a job (ss_s x), ss_active := removeAll (a, job) (ss_active x)\<rparr>)"

inductive sched_run :: "'c cron_ops \<Rightarrow> 'c CronScheduler \<Rightarrow> sched_event list \<Rightarrow> 'c sched_system \<Rightarrow> bool" for ops s where
  sr_nil: "sched_run ops s [] \<lparr>ss_s = s, ss_active = []\<rparr>"
| sr_snoc: "sched_run ops s evs x \<Longrightarrow> sched_step ops x ev y \<Longrightarrow> sched_run ops s (evs @ [ev]) y"

inductive_cases sched_run_snocE: "sched_run ops s (evs @ [ev]) y"

text \<open>The last answer of the elector that was not an error; before the first one, no.\<close>

definition heed :: "bool \<Rightarrow> sched_event \<Rightarrow> bool" where
  "heed b ev = (case ev of EvMonitor (Inr c) \<Rightarrow> c | _ \<Rightarrow> b)"

definition last_answer :: "sched_event list \<Rightarrow> bool" where
  "last_answer evs = foldl heed False evs"

lemma last_answer_simps [simp]:
  "last_answer [] = False"
  "last_answer (evs @ [ev]) = heed (last_answer evs) ev"
  by (simp_all add: last_answer_def)

subsection \<open>What every run keeps\<close>

definition exec_ended :: "JobExecution \<Rightarrow> bool" where
  "exec_ended ex \<longleftrightarrow> ex_EndTime ex \<noteq> None \<and>
     (case ex_Error ex of None \<Rightarrow> ex_Status ex = JobStatusCompleted | Some _ \<Rightarrow> ex_Status ex = JobStatusFailed)"

definition exec_open :: "Job \<Rightarrow> JobExecution \<Rightarrow> bool" where
  "exec_open job ex \<longleftrightarrow> ex_JobID ex = job_ID job \<and> ex_EndTime ex = None \<and> ex_Error ex = None
     \<and> ex_Status ex = JobStatusRunning"

definition sched_wf :: "'c sched_system \<Rightarrow> bool" where
  "sched_wf x \<longleftrightarrow>
     (\<forall>i e. cs_jobs (ss_s x) i = Some e \<longrightarrow> job_ID (je_job e) = i) \<and>
     distinct (map fst (ss_active x)) \<and>
     (\<forall>(a, job)\<in>set (ss_active x). a < length (cs_store (ss_s x)) \<and> exec_open job (cs_store (ss_s x) ! a)) \<and>
     (\<forall>a<length (cs_store (ss_s x)). a \<notin> fst ` set (ss_active x) \<longrightarrow> exec_ended (cs_store (ss_s x) ! a)) \<and>
     (\<forall>ex\<in>set (cs_store (ss_s x)). ex_InstanceID ex = cs_instanceID (ss_s x))"

lemma sched_wfI:
  assumes "\<And>i e. cs_jobs (ss_s x) i = Some e \<Longrightarrow> job_ID (je_job e) = i"
    and "distinct (map fst (ss_active x))"
    and "\<And>a job. (a, job) \<in> set (ss_active x) \<Longrightarrow>
      a < length (cs_store (ss_s x)) \<and> exec_open job (cs_store (ss_s x) ! a)"
    and "\<And>a. a < length (cs_store (ss_s x)) \<Longrightarrow> a \<notin> fst ` set (ss_active x) \<Longrightarrow> exec_ended (cs_store (ss_s x) ! a)"
    and "\<And>a. a < length (cs_store (ss_s x)) \<Longrightarrow> ex_InstanceID (cs_store (ss_s x) ! a) = cs_instanceID (ss_s x)"
  shows "sched_wf x"
  using assms unfolding sched_wf_def by (auto simp: in_set_conv_nth)

lemma sched_wfD:
  assumes "sched_wf x"
  shows "cs_jobs (ss_s x) i = Some e \<Longrightarrow> job_ID (je_job e) = i"
    and "distinct (map fst (ss_active x))"
    and "(a, job) \<in> set (ss_active x) \<Longrightarrow> a < length (cs_store (ss_s x))"
    and "(a, job) \<in> set (ss_active x) \<Longrightarrow> exec_open job (cs_store (ss_s x) ! a)"
    and "a < length (cs_store (ss_s x)) \<Longrightarrow> a \<notin> fst ` set (ss_active x) \<Longrightarrow> exec_ended (cs_store (ss_s x) ! a)"
    and "a < length (cs_store (ss_s x)) \<Longrightarrow> ex_InstanceID (cs_store (ss_s x) ! a) = cs_instanceID (ss_s x)"
  using assms unfolding sched_wf_def by auto

text \<open>A step that leaves the executions alone.\<close>

lemma sched_wf_frame:
  assumes "sched_wf x" and "ss_active y = ss_active x" and "cs_store (ss_s y) = cs_store (ss_s x)"
    and "cs_instanceID (ss_s y) = cs_instanceID (ss_s x)"
    and "\<And>i e. cs_jobs (ss_s y) i = Some e \<Longrightarrow> cs_jobs (ss_s x) i = Some e \<or> job_ID (je_job e) = i"
  shows "sched_wf y"
proof -
  have "job_ID (je_job e) = i" if "cs_jobs (ss_s y) i = Some e" for i e
    using assms(5) [OF that] sched_wfD(1) [OF assms(1)] by blast
  then show ?thesis using assms(1) unfolding sched_wf_def assms(2-4) by blast
qed

lemma Schedule_frame [simp]:
  "cs_store (snd (Schedule ops spec job s)) = cs_store s"
  "cs_instanceID (snd (Schedule ops spec job s)) = cs_instanceID s"
  "cs_isLeader (snd (Schedule ops spec job s)) = cs_isLeader s"
  by (auto simp: Schedule_def split: prod.split sum.split)

lemma monitor_frame:
  assumes "monitor_tick now s = (r, s')"
  shows "cs_store s' = cs_store s" and "cs_instanceID s' = cs_instanceID s" and "cs_jobs s' = cs_jobs s"
    and "cs_isLeader s' = heed (cs_isLeader s) (EvMonitor r)"
  using assms by (auto simp: monitor_tick_def heed_def Let_def split: prod.splits sum.splits)

lemma execute_end_frame:
  assumes "a < length (cs_store s)"
  shows "cs_instanceID (execute_end ops t err a job s) = cs_instanceID s"
    and "cs_isLeader (execute_end ops t err a job s) = cs_isLeader s"
    and "length (cs_store (execute_end ops t err a job s)) = length (cs_store s)"
    and "b \<noteq> a \<Longrightarrow> cs_store (execute_end ops t err a job s) ! b = cs_store s ! b"
    and "exec_open job' (cs_store s ! a) \<Longrightarrow> exec_ended (cs_store (execute_end ops t err a job s) ! a)"
    and "ex_InstanceID (cs_store (execute_end ops t err a job s) ! a) = ex_InstanceID (cs_store s ! a)"
  using assms by (auto simp: execute_end_def Let_def exec_ended_def exec_open_def split: option.split)

lemma execute_end_jobs:
  "cs_jobs (execute_end ops t err a job s) i = Some e \<Longrightarrow>
   \<exists>e'. cs_jobs s i = Some e' \<and> je_job e = je_job e'"
  by (auto simp: execute_end_def Let_def split: option.splits if_splits)

lemma execute_begin_Some:
  assumes "execute_begin nanos now job s = (Some a, s')"
  shows "a = length (cs_store s)" and "cs_jobs s' = cs_jobs s" and "cs_instanceID s' = cs_instanceID s"
    and "cs_isLeader s' = cs_isLeader s" and "\<exists>ex. cs_store s' = cs_store s @ [ex] \<and> exec_open job ex \<and> ex_InstanceID ex = cs_instanceID s"
    and "md_Singleton (job_Metadata job) \<Longrightarrow> cs_isLeader s"
  using assms by (auto simp: execute_begin_def Let_def exec_open_def split: if_splits)

lemma execute_begin_None: "execute_begin nanos now job s = (None, s') \<Longrightarrow> s' = s \<and> md_Singleton (job_Metadata job) \<and> \<not> cs_isLeader s"
  by (auto simp: execute_begin_def Let_def split: if_splits)

lemma sched_wf_fire:
  assumes wf: "sched_wf x" and b: "execute_begin nanos now job (ss_s x) = (Some a, s')"
  shows "sched_wf (x\<lparr>ss_s := s', ss_active := (a, job) # ss_active x\<rparr>)"
proof -
  note B = execute_begin_Some [OF b]
  obtain ex where ex: "cs_store s' = cs_store (ss_s x) @ [ex]" "exec_open job ex" "ex_InstanceID ex = cs_instanceID (ss_s x)"
    using B(5) by blast
  have new: "a \<notin> fst ` set (ss_active x)" using sched_wfD(3) [OF wf] B(1) by force
  show ?thesis
  proof (rule sched_wfI)
    fix i e
    assume "cs_jobs (ss_s (x\<lparr>ss_s := s', ss_active := (a, job) # ss_active x\<rparr>)) i = Some e"
    then show "job_ID (je_job e) = i" using sched_wfD(1) [OF wf] B(2) by simp
  next
    fix c k
    assume "(c, k) \<in> set (ss_active (x\<lparr>ss_s := s', ss_active := (a, job) # ss_active x\<rparr>))"
    then show "c < length (cs_store (ss_s (x\<lparr>ss_s := s', ss_active := (a, job) # ss_active x\<rparr>)))
        \<and> exec_open k (cs_store (ss_s (x\<lparr>ss_s := s', ss_active := (a, job) # ss_active x\<rparr>)) ! c)"
      using sched_wfD(3,4) [OF wf, of c k] ex B(1) by (auto simp: nth_append)
  qed (use sched_wfD(2,5,6) [OF wf] new ex B(1,3) in \<open>auto simp: nth_append less_Suc_eq\<close>)
qed

lemma sched_wf_end:
  assumes wf: "sched_wf x" and a: "(a, job) \<in> set (ss_active x)"
  shows "sched_wf (x\<lparr>ss_s := execute_end ops t err a job (ss_s x), ss_active := removeAll (a, job) (ss_active x)\<rparr>)"
    (is "sched_wf ?y")
proof -
  note f = execute_end_frame [OF sched_wfD(3) [OF wf a], where ops = ops and t = t and err = err and job = job]
  have d: "distinct (map fst (ss_active x))" by (rule sched_wfD(2) [OF wf])
  have uniq: "k = job" if "(a, k) \<in> set (ss_active x)" for k
    using eq_key_imp_eq_value [OF d that a] .
  show ?thesis
  proof (rule sched_wfI)
    show "distinct (map fst (ss_active ?y))"
      using d by (auto simp: distinct_map removeAll_filter_not_eq intro: inj_on_subset)
  next
    fix i e assume "cs_jobs (ss_s ?y) i = Some e"
    then show "job_ID (je_job e) = i" using execute_end_jobs sched_wfD(1) [OF wf] by fastforce
  next
    fix c k assume "(c, k) \<in> set (ss_active ?y)"
    then have ck: "(c, k) \<in> set (ss_active x)" "c \<noteq> a" using uniq by auto
    then show "c < length (cs_store (ss_s ?y)) \<and> exec_open k (cs_store (ss_s ?y) ! c)"
      using sched_wfD(3,4) [OF wf ck(1)] f(3,4) by simp
  next
    fix c assume c: "c < length (cs_store (ss_s ?y))" "c \<notin> fst ` set (ss_active ?y)"
    show "exec_ended (cs_store (ss_s ?y) ! c)"
    proof (cases "c = a")
      case True
      then show ?thesis using f(5) [OF sched_wfD(4) [OF wf a]] by simp
    next
      case False
      then have "c \<notin> fst ` set (ss_active x)" using c(2) by force
      with False show ?thesis using sched_wfD(5) [OF wf, of c] c(1) f(3,4) by simp
    qed
  next
    fix c assume "c < length (cs_store (ss_s ?y))"
    then show "ex_InstanceID (cs_store (ss_s ?y) ! c) = cs_instanceID (ss_s ?y)"
      using sched_wfD(6) [OF wf, of c] f(1,3,4,6) by (cases "c = a") auto
  qed
qed

lemma sched_wf_step:
  assumes "sched_step ops x ev y" and "sched_wf x"
  shows "sched_wf y"
  using assms
proof (induction rule: sched_step.induct)
  case (ss_schedule x spec job)
  then show ?case
    by (rule sched_wf_frame) (auto simp: Schedule_def split: prod.splits sum.splits if_splits)
next
  case (ss_monitor now x r s')
  show ?case by (rule sched_wf_frame [OF ss_monitor.prems]) (simp_all add: monitor_frame [OF ss_monitor.hyps])
next
  case (ss_skip x job e nanos now s')
  then show ?case using execute_begin_None [of nanos now job "ss_s x" s'] by simp
next
  case (ss_start x)
  then show ?case by (rule sched_wf_frame) (simp_all add: Start_def)
next
  case (ss_stop x dn)
  then show ?case by (rule sched_wf_frame) (simp_all add: Stop_def)
next
  case (ss_elector x el)
  then show ?case by (rule sched_wf_frame) simp_all
qed (simp_all add: sched_wf_fire sched_wf_end)

lemma sched_step_leader:
  assumes "sched_step ops x ev y" and "sched_wf x"
  shows "cs_isLeader (ss_s y) = heed (cs_isLeader (ss_s x)) ev \<and> cs_instanceID (ss_s y) = cs_instanceID (ss_s x)"
  using assms
proof (induction rule: sched_step.induct)
  case (ss_end a job x err t)
  note execute_end_frame(1,2) [OF sched_wfD(3) [OF ss_end.prems ss_end.hyps]]
  then show ?case by (simp add: heed_def)
qed (auto simp: heed_def Start_def Stop_def monitor_frame execute_begin_Some dest: execute_begin_None)

lemma sched_run_inv:
  assumes "sched_run ops (NewCronScheduler c now opts) evs x"
  shows "sched_wf x \<and> cs_isLeader (ss_s x) = last_answer evs
    \<and> cs_instanceID (ss_s x) = cs_instanceID (NewCronScheduler c now opts)"
  using assms
proof (induction rule: sched_run.induct)
  case sr_nil
  show ?case by (simp add: sched_wf_def NewCronScheduler_def split: prod.split)
next
  case (sr_snoc evs x ev y)
  then show ?case using sched_wf_step sched_step_leader by fastforce
qed

lemma sched_run_split:
  "sched_run ops s (evs @ ev # evs') y \<Longrightarrow>
   \<exists>x x'. sched_run ops s evs x \<and> sched_step ops x ev x'"
proof (induction evs' arbitrary: y rule: rev_induct)
  case Nil
  from Nil.prems show ?case by (rule sched_run_snocE) blast
next
  case (snoc e evs')
  then have "sched_run ops s ((evs @ ev # evs') @ [e]) y" by simp
  then show ?case by (rule sched_run_snocE) (rule snoc.IH)
qed

text \<open>A cron library with one tick a minute, and a run, used at concrete inputs.\<close>

definition demo_cron :: "nat cron_ops" where
  "demo_cron =
     \<lparr>cron_AddFunc = (\<lambda>spec job c. if spec = [] then (Inl ''empty spec string'', c) else (Inr (Suc c), Suc c)),
      cron_Next = (\<lambda>c i. 60 * Second), cron_Start = (\<lambda>c. c), cron_Stop = (\<lambda>c. c)\<rparr>"

definition single_job :: Job where
  "single_job =
     \<lparr>job_ID = ''b'', job_Name = ''report'',
      job_Metadata = \<lparr>md_Description = [], md_Owner = [], md_Timeout = 0, md_Singleton = True,
                      md_RetryCount = 0, md_RetryPolicy = NoRetryPolicy, md_Tags = Map.empty\<rparr>\<rparr>"

abbreviation demo_new :: "nat CronScheduler" where
  "demo_new \<equiv> NewCronScheduler 0 7 []"

lemma demo_sched_run:
  "\<exists>x. sched_run demo_cron demo_new [EvOther, EvMonitor (Inr True), EvStart single_job 0] x
    \<and> ss_active x = [(0, single_job)] \<and> length (cs_store (ss_s x)) = 1"
proof -
  define x0 where "x0 = \<lparr>ss_s = demo_new, ss_active = []\<rparr>"
  define x1 where "x1 = x0\<lparr>ss_s := snd (Schedule demo_cron ''@every 1m'' single_job (ss_s x0))\<rparr>"
  define x2 where "x2 = x1\<lparr>ss_s := snd (monitor_tick 9 (ss_s x1))\<rparr>"
  define x3 where "x3 = x2\<lparr>ss_s := snd (execute_begin 9 9 single_job (ss_s x2)), ss_active := [(0, single_job)]\<rparr>"
  have "sched_run demo_cron demo_new [] x0" unfolding x0_def by (rule sr_nil)
  moreover have "sched_step demo_cron x0 EvOther x1" unfolding x1_def by (rule ss_schedule)
  moreover have "sched_step demo_cron x1 (EvMonitor (Inr True)) x2"
    unfolding x2_def
    by (rule ss_monitor [where now = 9])
      (simp add: x1_def x0_def NewCronScheduler_def sched_defs elector_defs demo_cron_def)
  moreover have "sched_step demo_cron x2 (EvStart single_job 0) x3"
  proof -
    have a: "cs_jobs (ss_s x2) (job_ID single_job) = Some \<lparr>je_job = single_job, je_spec = ''@every 1m'', je_cronID = 1,
        je_nextRun = 60 * Second, je_lastRun = None, je_lastErr = None, je_metadata = job_Metadata single_job\<rparr>"
      "execute_begin 9 9 single_job (ss_s x2) = (Some 0, snd (execute_begin 9 9 single_job (ss_s x2)))" "ss_active x2 = []"
      by (simp_all add: x2_def x1_def x0_def NewCronScheduler_def sched_defs elector_defs demo_cron_def)
    from ss_fire [OF a(1) _ a(2), of demo_cron] show ?thesis unfolding x3_def by (simp add: a(3))
  qed
  ultimately have "sched_run demo_cron demo_new ((([] @ [EvOther]) @ [EvMonitor (Inr True)]) @ [EvStart single_job 0]) x3"
    by (blast intro: sr_snoc)
  moreover have "length (cs_store (ss_s x3)) = 1"
    by (simp add: x3_def x2_def x1_def x0_def NewCronScheduler_def sched_defs elector_defs demo_cron_def single_job_def)
  ultimately show ?thesis by (intro exI [of _ x3]) (simp add: x3_def)
qed

subsection \<open>Properties\<close>

text \<open>
  C15: a singleton job runs only on a leader: in every run of a scheduler, with any cron
  library, any interleaving and any behaviour of the elector, an execution of a singleton job
  starts only when the last answer of the elector that was not an error was yes; before the first
  answer none starts, also when no elector was configured.
\<close>

theorem singleton_only_on_leader:
  assumes "sched_run ops (NewCronScheduler c now opts) (evs @ EvStart job a # evs') y"
    and "md_Singleton (job_Metadata job)"
  shows "last_answer evs"
proof -
  obtain x x' where r: "sched_run ops (NewCronScheduler c now opts) evs x" "sched_step ops x (EvStart job a) x'"
    using sched_run_split [OF assms(1)] by blast
  from r(2) have "cs_isLeader (ss_s x)" using assms(2) by cases (auto dest: execute_begin_Some(6))
  with sched_run_inv [OF r(1)] show ?thesis by simp
qed

theorem singleton_only_on_leader_witness: "last_answer [EvOther, EvMonitor (Inr True)]"
proof -
  obtain x where "sched_run demo_cron demo_new ([EvOther, EvMonitor (Inr True)] @ EvStart single_job 0 # []) x"
    using demo_sched_run by auto
  then show ?thesis by (rule singleton_only_on_leader) (simp add: single_job_def)
qed

text \<open>
  The record of an execution is right in every run: the executions under way are exactly
  those recorded running, for the job that runs; every other one has an end and is recorded
  completed or, with its error, failed; all carry the instance's ID.
\<close>

theorem execution_records:
  assumes "sched_run ops (NewCronScheduler c now opts) evs x" and "a < length (cs_store (ss_s x))"
  shows "ex_InstanceID (cs_store (ss_s x) ! a) = cs_instanceID (NewCronScheduler c now opts) \<and>
    (ex_Status (cs_store (ss_s x) ! a) = JobStatusRunning \<longleftrightarrow> (\<exists>job. (a, job) \<in> set (ss_active x))) \<and>
    (ex_Status (cs_store (ss_s x) ! a) = JobStatusRunning \<or>
       ex_EndTime (cs_store (ss_s x) ! a) \<noteq> None \<and>
       ex_Status (cs_store (ss_s x) ! a) =
         (if ex_Error (cs_store (ss_s x) ! a) = None then JobStatusCompleted else JobStatusFailed))"
proof -
  have wf: "sched_wf x" and i: "cs_instanceID (ss_s x) = cs_instanceID (NewCronScheduler c now opts)"
    using sched_run_inv [OF assms(1)] by simp_all
  show ?thesis
  proof (cases "a \<in> fst ` set (ss_active x)")
    case True
    then obtain job where j: "(a, job) \<in> set (ss_active x)" by force
    from sched_wfD(4) [OF wf j] sched_wfD(6) [OF wf assms(2)] i j show ?thesis by (auto simp: exec_open_def)
  next
    case False
    then have "(a, job) \<notin> set (ss_active x)" for job by force
    with sched_wfD(5) [OF wf assms(2) False] sched_wfD(6) [OF wf assms(2)] i show ?thesis
      by (auto simp: exec_ended_def split: option.splits)
  qed
qed

theorem execution_records_witness:
  "\<exists>x. sched_run demo_cron demo_new [EvOther, EvMonitor (Inr True), EvStart single_job 0] x
    \<and> ex_Status (cs_store (ss_s x) ! 0) = JobStatusRunning"
proof -
  obtain x where x: "sched_run demo_cron demo_new [EvOther, EvMonitor (Inr True), EvStart single_job 0] x"
    "ss_active x = [(0, single_job)]" "length (cs_store (ss_s x)) = 1"
    using demo_sched_run by blast
  have "0 < length (cs_store (ss_s x))" using x(3) by simp
  from execution_records [OF x(1) this] x(1,2) show ?thesis by auto
qed

text \<open>
  An instance that resigned stops running singleton jobs: once \<open>ResignLeadership\<close> of the
  configured elector succeeded (an in-memory one having a name), the next tick of the monitor
  that gets an answer makes every later firing of a singleton job a skip.
\<close>

theorem resigned_skips_singletons:
  assumes "elector_named (cs_leaderElector s)" and "elector_Resign (cs_leaderElector s) = (None, el)"
    and "monitor_tick now (s\<lparr>cs_leaderElector := el\<rparr>) = (Inr b, s')" and "md_Singleton (job_Metadata job)"
  shows "execute_begin nanos t job s' = (None, s')"
proof -
  have n: "elector_named el" using any_elector.inv_resign [OF assms(1)] assms(2) by simp
  have "fst (elector_IsLeader now el) \<noteq> Inr True"
    by (rule any_elector.out_not_leader [OF n any_elector.resign_out [OF assms(1,2)]])
  then have "\<not> cs_isLeader s'"
    using assms(3) by (auto simp: monitor_tick_def Let_def split: prod.splits)
  with assms(4) show ?thesis by (simp add: execute_begin_def)
qed

theorem resigned_skips_singletons_witness:
  "execute_begin 9 9 single_job
     (snd (monitor_tick 8 (demo_new\<lparr>cs_leaderElector := snd (elector_Resign (cs_leaderElector demo_new))\<rparr>)))
   = (None, snd (monitor_tick 8 (demo_new\<lparr>cs_leaderElector := snd (elector_Resign (cs_leaderElector demo_new))\<rparr>)))"
  by (rule resigned_skips_singletons [of demo_new "snd (elector_Resign (cs_leaderElector demo_new))" 8 False])
    (simp_all add: NewCronScheduler_def elector_defs sched_defs single_job_def)

end
