(* ===== verification/CoreService.thy ===== *)
theory CoreService
  imports Prelude
begin

text \<open>
  Package core: health checks (\<open>health.go\<close>) and the life cycle of a service (\<open>service.go\<close>).  Checks
  and hooks are functions of the application: they act on a world \<open>'w\<close> the model does not look
  into and return an error or nil.  The channel of signals has its buffer of one and its
  closed flag; sending to a closed channel and closing it again panic.
\<close>

named_theorems core_defs

type_synonym 'w action = "'w \<Rightarrow> string option \<times> 'w"

subsection \<open>Health checks\<close>

datatype HealthStatus = StatusUnknown | StatusUp | StatusDown | StatusStarting

record HealthResult =
  hr_Status :: HealthStatus
  hr_Message :: string
  hr_Timestamp :: time
  hr_Error :: string

record 'w HealthChecker =
  hc_checks :: "string \<rightharpoonup> 'w action"

definition NewHealthChecker :: "'w HealthChecker" where
  "NewHealthChecker = \<lparr>hc_checks = Map.empty\<rparr>"

definition AddCheck :: "string \<Rightarrow> 'w action \<Rightarrow> 'w HealthChecker \<Rightarrow> 'w HealthChecker" where
  "AddCheck name check h = h\<lparr>hc_checks := (hc_checks h)(name \<mapsto> check)\<rparr>"

definition RemoveCheck :: "string \<Rightarrow> 'w HealthChecker \<Rightarrow> 'w HealthChecker" where
  "RemoveCheck name h = h\<lparr>hc_checks := (hc_checks h)(name := None)\<rparr>"

definition check_result :: "time \<Rightarrow> string option \<Rightarrow> HealthResult" where
  "check_result now err =
     (case err of
        Some e \<Rightarrow> \<lparr>hr_Status = StatusDown, hr_Message = ''Health check failed: '' @ e, hr_Timestamp = now, hr_Error = e\<rparr>
      | None \<Rightarrow> \<lparr>hr_Status = StatusUp, hr_Message = ''Health check passed'', hr_Timestamp = now, hr_Error = []\<rparr>)"

text \<open>
  The loop of \<open>RunChecks\<close> over the copied map, in the order \<open>names\<close>, with the instants \<open>ts\<close>.
\<close>

fun run_checks ::
  "(string \<Rightarrow> time) \<Rightarrow> string list \<Rightarrow> (string \<rightharpoonup> 'w action) \<Rightarrow> (string \<rightharpoonup> HealthResult) \<Rightarrow> 'w \<Rightarrow>
   (string \<rightharpoonup> HealthResult) \<times> 'w" where
  "run_checks ts [] checks results w = (results, w)"
| "run_checks ts (n # names) checks results w =
     (let (err, w') = the (checks n) w
      in run_checks ts names checks (results(n \<mapsto> check_result (ts n) err)) w')"

definition RunChecks ::
  "(string \<Rightarrow> time) \<Rightarrow> string list \<Rightarrow> 'w HealthChecker \<Rightarrow> 'w \<Rightarrow> (string \<rightharpoonup> HealthResult) \<times> 'w" where
  "RunChecks ts names h w = run_checks ts names (hc_checks h) Map.empty w"

text \<open>The results are ranged over again, in the order \<open>order\<close>.\<close>

definition IsHealthy ::
  "(string \<Rightarrow> time) \<Rightarrow> string list \<Rightarrow> string list \<Rightarrow> 'w HealthChecker \<Rightarrow> 'w \<Rightarrow> bool \<times> 'w" where
  "IsHealthy ts names order h w =
     (let (results, w) = RunChecks ts names h w
      in (list_all (\<lambda>n. hr_Status (the (results n)) = StatusUp) order, w))"

definition HealthSummary ::
  "(string \<Rightarrow> time) \<Rightarrow> time \<Rightarrow> string list \<Rightarrow> string list \<Rightarrow> 'w HealthChecker \<Rightarrow> 'w \<Rightarrow> HealthResult \<times> 'w" where
  "HealthSummary ts now names order h w =
     (let (results, w) = RunChecks ts names h w
      in (if order = [] then
            \<lparr>hr_Status = StatusUnknown, hr_Message = ''No health checks registered'', hr_Timestamp = now, hr_Error = []\<rparr>
          else if list_ex (\<lambda>n. hr_Status (the (results n)) = StatusDown) order then
            \<lparr>hr_Status = StatusDown, hr_Message = ''One or more health checks failed'', hr_Timestamp = now, hr_Error = []\<rparr>
          else
            \<lparr>hr_Status = StatusUp, hr_Message = ''All health checks passed'', hr_Timestamp = now, hr_Error = []\<rparr>, w))"

subsection \<open>The service\<close>

record ServiceMetadata =
  sm_Name :: string
  sm_Version :: string
  sm_Instance :: string
  sm_BuildHash :: string
  sm_StartTime :: time

record 'w Dependency =
  dep_Name :: string
  dep_HealthCheck :: "'w action"

datatype os_signal = SIGTERM | SIGINT

record 'w Service =
  sv_metadata :: ServiceMetadata
  sv_dependencies :: "'w Dependency list"
  sv_shutdownHooks :: "'w action list"
  sv_startupHooks :: "'w action list"
  sv_healthChecker :: "'w HealthChecker"
  sv_shutdown_buf :: "os_signal list" \<comment> \<open>the channel: its buffer, of capacity 1\<close>
  sv_shutdown_closed :: bool
  sv_notified :: bool \<comment> \<open>signals are relayed to the channel\<close>
  sv_started :: bool
  sv_shutdownTimeout :: duration
  sv_readyToServe :: bool

datatype service_error =
    ErrAlreadyStarted string
  | ErrDependency string string
  | ErrStartupHook string
  | ErrShutdownHook string
  | ErrStart service_error
  | ErrShutdown service_error

datatype 'a outcome = Returns 'a | Panics | Blocks

definition DefaultShutdownTimeout :: duration where
  "DefaultShutdownTimeout = 30 * Second"

definition NewService :: "time \<Rightarrow> ServiceMetadata \<Rightarrow> 'w Service" where
  "NewService now metadata =
     \<lparr>sv_metadata = metadata\<lparr>sm_StartTime := now\<rparr>, sv_dependencies = [], sv_shutdownHooks = [],
      sv_startupHooks = [], sv_healthChecker = NewHealthChecker, sv_shutdown_buf = [],
      sv_shutdown_closed = False, sv_notified = False, sv_started = False,
      sv_shutdownTimeout = DefaultShutdownTimeout, sv_readyToServe = False\<rparr>"

definition WithShutdownTimeout :: "duration \<Rightarrow> 'w Service \<Rightarrow> 'w Service" where
  "WithShutdownTimeout timeout s = s\<lparr>sv_shutdownTimeout := timeout\<rparr>"

definition AddDependency :: "'w Dependency \<Rightarrow> 'w Service \<Rightarrow> 'w Service" where
  "AddDependency dep s =
     s\<lparr>sv_dependencies := sv_dependencies s @ [dep],
       sv_healthChecker := AddCheck (dep_Name dep) (dep_HealthCheck dep) (sv_healthChecker s)\<rparr>"

definition RegisterShutdownHook :: "'w action \<Rightarrow> 'w Service \<Rightarrow> 'w Service" where
  "RegisterShutdownHook hook s = s\<lparr>sv_shutdownHooks := sv_shutdownHooks s @ [hook]\<rparr>"

definition RegisterStartupHook :: "'w action \<Rightarrow> 'w Service \<Rightarrow> 'w Service" where
  "RegisterStartupHook hook s = s\<lparr>sv_startupHooks := sv_startupHooks s @ [hook]\<rparr>"

definition SetReadyToServe :: "bool \<Rightarrow> 'w Service \<Rightarrow> 'w Service" where
  "SetReadyToServe ready s = s\<lparr>sv_readyToServe := ready\<rparr>"

fun first_failing :: "(string \<rightharpoonup> HealthResult) \<Rightarrow> string list \<Rightarrow> service_error option" where
  "first_failing results [] = None"
| "first_failing results (n # ns) =
     (if hr_Status (the (results n)) \<noteq> StatusUp then Some (ErrDependency n (hr_Error (the (results n))))
      else first_failing results ns)"

definition ValidateDependencies ::
  "(string \<Rightarrow> time) \<Rightarrow> string list \<Rightarrow> string list \<Rightarrow> 'w Service \<Rightarrow> 'w \<Rightarrow> service_error option \<times> 'w" where
  "ValidateDependencies ts names order s w =
     (let (results, w) = RunChecks ts names (sv_healthChecker s) w in (first_failing results order, w))"

fun run_hooks :: "'w action list \<Rightarrow> 'w \<Rightarrow> string option \<times> 'w" where
  "run_hooks [] w = (None, w)"
| "run_hooks (hook # hooks) w =
     (case hook w of (Some err, w') \<Rightarrow> (Some err, w') | (None, w') \<Rightarrow> run_hooks hooks w')"

text \<open>
  \<open>Start\<close> looks at \<open>started\<close> under the mutex, then works without it (the hooks are copied), then
  sets the flags under the mutex again: three steps, and their composition.
\<close>

definition start_work ::
  "(string \<Rightarrow> time) \<Rightarrow> string list \<Rightarrow> string list \<Rightarrow> 'w Service \<Rightarrow> 'w \<Rightarrow> service_error option \<times> 'w" where
  "start_work ts names order s w =
     (case ValidateDependencies ts names order s w of
        (Some err, w) \<Rightarrow> (Some err, w)
      | (None, w) \<Rightarrow> apfst (map_option ErrStartupHook) (run_hooks (sv_startupHooks s) w))"

definition start_commit :: "'w Service \<Rightarrow> 'w Service" where
  "start_commit s = s\<lparr>sv_started := True, sv_readyToServe := True, sv_notified := True\<rparr>"

definition Service_Start ::
  "(string \<Rightarrow> time) \<Rightarrow> string list \<Rightarrow> string list \<Rightarrow> 'w Service \<Rightarrow> 'w \<Rightarrow> service_error option \<times> 'w Service \<times> 'w" where
  "Service_Start ts names order s w =
     (if sv_started s then (Some (ErrAlreadyStarted (sm_Name (sv_metadata s))), s, w)
      else case start_work ts names order s w of
          (Some err, w') \<Rightarrow> (Some err, s, w')
        | (None, w') \<Rightarrow> (None, start_commit s, w'))"

text \<open>The loop \<open>for i := len(hooks) - 1; i >= 0; i--\<close>: \<open>n\<close> is \<open>i + 1\<close>.\<close>

fun shutdown_loop :: "'w action list \<Rightarrow> nat \<Rightarrow> 'w \<Rightarrow> string option \<times> 'w" where
  "shutdown_loop hooks 0 w = (None, w)"
| "shutdown_loop hooks (Suc i) w =
     (case (hooks ! i) w of (Some err, w') \<Rightarrow> (Some err, w') | (None, w') \<Rightarrow> shutdown_loop hooks i w')"

definition Service_Shutdown ::
  "'w Service \<Rightarrow> 'w \<Rightarrow> service_error option outcome \<times> 'w Service \<times> 'w" where
  "Service_Shutdown s w =
     (if \<not> sv_started s then (Returns None, s, w)
      else
        (let s = s\<lparr>sv_started := False\<rparr>
         in case shutdown_loop (sv_shutdownHooks s) (length (sv_shutdownHooks s)) w of
              (Some err, w') \<Rightarrow> (Returns (Some (ErrShutdownHook err)), s, w')
            | (None, w') \<Rightarrow>
                (let s = s\<lparr>sv_notified := False\<rparr>
                 in if sv_shutdown_closed s then (Panics, s, w')
                    else (Returns None, s\<lparr>sv_shutdown_closed := True\<rparr>, w'))))"

definition Trigger :: "os_signal option \<Rightarrow> 'w Service \<Rightarrow> unit outcome \<times> 'w Service" where
  "Trigger sig s =
     (let sig = (case sig of None \<Rightarrow> SIGTERM | Some x \<Rightarrow> x)
      in if sv_shutdown_closed s then (Panics, s)
         else if sv_shutdown_buf s \<noteq> [] then (Blocks, s)
         else (Returns (), s\<lparr>sv_shutdown_buf := [sig]\<rparr>))"

text \<open>A receive on the channel; \<open>None\<close> is the nil a closed and drained channel delivers.\<close>

definition receive_signal :: "'w Service \<Rightarrow> os_signal option outcome \<times> 'w Service" where
  "receive_signal s =
     (case sv_shutdown_buf s of
        sig # rest \<Rightarrow> (Returns (Some sig), s\<lparr>sv_shutdown_buf := rest\<rparr>)
      | [] \<Rightarrow> if sv_shutdown_closed s then (Returns None, s) else (Blocks, s))"

text \<open>\<open>Run\<close>: \<open>env\<close> is what the rest of the program does to the service and the world while it waits.\<close>

definition Run ::
  "(string \<Rightarrow> time) \<Rightarrow> string list \<Rightarrow> string list \<Rightarrow> ('w Service \<Rightarrow> 'w \<Rightarrow> 'w Service \<times> 'w) \<Rightarrow>
   'w Service \<Rightarrow> 'w \<Rightarrow> service_error option outcome \<times> 'w Service \<times> 'w" where
  "Run ts names order env s w =
     (case Service_Start ts names order s w of
        (Some err, s, w) \<Rightarrow> (Returns (Some (ErrStart err)), s, w)
      | (None, s, w) \<Rightarrow>
          (let (s, w) = env s w
           in case receive_signal s of
                (Returns sig, s) \<Rightarrow>
                  (case Service_Shutdown s w of
                     (Returns (Some err), s, w) \<Rightarrow> (Returns (Some (ErrShutdown err)), s, w)
                   | (r, s, w) \<Rightarrow> (r, s, w))
              | (_, s) \<Rightarrow> (Blocks, s, w)))"

definition RunWithTimeout ::
  "(string \<Rightarrow> time) \<Rightarrow> string list \<Rightarrow> string list \<Rightarrow> ('w Service \<Rightarrow> 'w \<Rightarrow> 'w Service \<times> 'w) \<Rightarrow> duration \<Rightarrow>
   'w Service \<Rightarrow> 'w \<Rightarrow> service_error option outcome \<times> 'w Service \<times> 'w" where
  "RunWithTimeout ts names order env shutdownTimeout s w =
     Run ts names order env (WithShutdownTimeout shutdownTimeout s) w"

lemmas core_ops [core_defs] = Service_Start_def Service_Shutdown_def start_work_def start_commit_def
  ValidateDependencies_def RunChecks_def IsHealthy_def HealthSummary_def

subsection \<open>Lemmas\<close>

lemma shutdown_loop_rev: "n \<le> length hooks \<Longrightarrow> shutdown_loop hooks n w = run_hooks (rev (take n hooks)) w"
  by (induction n arbitrary: w) (auto simp: take_Suc_conv_app_nth split: prod.split option.split)

definition read_only :: "'w action \<Rightarrow> bool" where
  "read_only check \<longleftrightarrow> (\<forall>w. snd (check w) = w)"

definition checks_read_only :: "'w HealthChecker \<Rightarrow> bool" where
  "checks_read_only h \<longleftrightarrow> (\<forall>check\<in>ran (hc_checks h). read_only check)"

lemma run_checks_read_only:
  assumes "\<forall>n\<in>set names. \<exists>c. checks n = Some c \<and> read_only c" and "distinct names"
  shows "run_checks ts names checks results w =
    (\<lambda>n. if n \<in> set names then Some (check_result (ts n) (fst (the (checks n) w))) else results n, w)"
  using assms
proof (induction names arbitrary: results)
  case (Cons n names)
  then have "snd (the (checks n) w) = w" by (auto simp: read_only_def)
  then have n: "the (checks n) w = (fst (the (checks n) w), w)" by (metis prod.collapse)
  show ?case
    using Cons by (subst run_checks.simps, subst n) (auto simp: fun_eq_iff)
qed simp

lemma RunChecks_read_only:
  assumes "checks_read_only h" and "iterates names (hc_checks h)"
  shows "RunChecks ts names h w =
    (\<lambda>n. map_option (\<lambda>c. check_result (ts n) (fst (c w))) (hc_checks h n), w)"
proof -
  have "\<forall>n\<in>set names. \<exists>c. hc_checks h n = Some c \<and> read_only c"
    using assms by (auto simp: iterates_def checks_read_only_def ran_def)
  moreover have "distinct names" using assms by (simp add: iterates_def)
  ultimately show ?thesis
    using assms(2) by (auto simp: RunChecks_def run_checks_read_only fun_eq_iff iterates_def dom_def
        split: option.split)
qed

lemma check_result_status [simp]:
  "hr_Status (check_result t e) = StatusUp \<longleftrightarrow> e = None"
  "hr_Status (check_result t e) = StatusDown \<longleftrightarrow> e \<noteq> None"
  by (auto simp: check_result_def split: option.split)

lemma first_failing_None: "first_failing results ns = None \<longleftrightarrow> (\<forall>n\<in>set ns. hr_Status (the (results n)) = StatusUp)"
  by (induction ns) auto

definition all_pass :: "'w HealthChecker \<Rightarrow> 'w \<Rightarrow> bool" where
  "all_pass h w \<longleftrightarrow> (\<forall>n c. hc_checks h n = Some c \<longrightarrow> fst (c w) = None)"

lemma all_pass_iff: "all_pass h w \<longleftrightarrow> (\<forall>n\<in>dom (hc_checks h). fst (the (hc_checks h n) w) = None)"
  by (auto simp: all_pass_def Ball_def dom_def)

lemma the_map_option: "n \<in> dom m \<Longrightarrow> the (map_option f (m n)) = f (the (m n))"
  by auto

subsection \<open>Properties\<close>

text \<open>
  The health of a service does not depend on the order in which the maps are ranged over:
  for checks that only look, the service is healthy exactly when every registered check passes, and
  the summary is UP, DOWN or, without checks, UNKNOWN accordingly.
\<close>

theorem health_summary_correct:
  assumes "checks_read_only h" and "iterates names (hc_checks h)" and "iterates order (hc_checks h)"
  shows "IsHealthy ts names order h w = (all_pass h w, w) \<and>
    hr_Status (fst (HealthSummary ts now names order h w)) =
      (if hc_checks h = Map.empty then StatusUnknown else if all_pass h w then StatusUp else StatusDown)"
proof -
  note r = RunChecks_read_only [OF assms(1,2), of ts w]
  have o: "set order = dom (hc_checks h)" using assms(3) by (simp add: iterates_def)
  have e: "order = [] \<longleftrightarrow> hc_checks h = Map.empty"
    using o by (metis dom_eq_empty_conv list.set(1) set_empty)
  have "fst (IsHealthy ts names order h w) = all_pass h w" and "snd (IsHealthy ts names order h w) = w"
    by (simp_all add: IsHealthy_def r list_all_iff the_map_option o all_pass_iff)
  moreover have "hr_Status (fst (HealthSummary ts now names order h w)) =
      (if hc_checks h = Map.empty then StatusUnknown else if all_pass h w then StatusUp else StatusDown)"
    unfolding all_pass_iff by (simp add: HealthSummary_def r e list_ex_iff the_map_option o)
  ultimately show ?thesis by (simp add: prod_eq_iff)
qed

definition demo_checker :: "nat HealthChecker" where
  "demo_checker = AddCheck ''db'' (\<lambda>w. (if w = 0 then Some ''down'' else None, w)) (AddCheck ''mq'' (\<lambda>w. (None, w)) NewHealthChecker)"

theorem health_summary_correct_witness:
  "IsHealthy (\<lambda>_. 0) [''db'', ''mq''] [''mq'', ''db''] demo_checker 1 = (True, 1) \<and>
   IsHealthy (\<lambda>_. 0) [''db'', ''mq''] [''mq'', ''db''] demo_checker 0 = (False, 0)"
proof -
  have c: "checks_read_only demo_checker"
    by (auto simp: checks_read_only_def demo_checker_def AddCheck_def NewHealthChecker_def read_only_def ran_def)
  have i: "iterates [''db'', ''mq''] (hc_checks demo_checker)" "iterates [''mq'', ''db''] (hc_checks demo_checker)"
    by (auto simp: iterates_def demo_checker_def AddCheck_def NewHealthChecker_def)
  have "all_pass demo_checker 1" "\<not> all_pass demo_checker 0"
    by (simp_all add: all_pass_iff demo_checker_def AddCheck_def NewHealthChecker_def)
  then show ?thesis
    using health_summary_correct [OF c i, of "\<lambda>_. 0" 1 0] health_summary_correct [OF c i, of "\<lambda>_. 0" 0 0]
    by metis
qed

text \<open>
  C14: starting a service: \<open>Start\<close> succeeds exactly when the service is not started, every
  check passes and every startup hook succeeds; only then is it marked started and ready and
  are signals relayed, otherwise it is left as it was.  No hook runs unless all checks passed.
\<close>

theorem Start_correct:
  assumes "checks_read_only (sv_healthChecker s)" and "iterates names (hc_checks (sv_healthChecker s))"
    and "iterates order (hc_checks (sv_healthChecker s))"
    and "Service_Start ts names order s w = (r, s', w')"
  shows "(r = None \<longleftrightarrow> \<not> sv_started s \<and> all_pass (sv_healthChecker s) w
      \<and> fst (run_hooks (sv_startupHooks s) w) = None) \<and>
    s' = (if r = None then s\<lparr>sv_started := True, sv_readyToServe := True, sv_notified := True\<rparr> else s) \<and>
    w' = (if \<not> sv_started s \<and> all_pass (sv_healthChecker s) w then snd (run_hooks (sv_startupHooks s) w) else w)"
proof -
  note r = RunChecks_read_only [OF assms(1,2), of ts w]
  have o: "set order = dom (hc_checks (sv_healthChecker s))" using assms(3) by (simp add: iterates_def)
  have "fst (ValidateDependencies ts names order s w) = None \<longleftrightarrow> all_pass (sv_healthChecker s) w"
    by (simp add: ValidateDependencies_def r first_failing_None o all_pass_iff the_map_option cong: ball_cong)
  moreover have "snd (ValidateDependencies ts names order s w) = w"
    by (simp add: ValidateDependencies_def r)
  ultimately show ?thesis
    using assms(4)
    by (cases "run_hooks (sv_startupHooks s) w"; cases "ValidateDependencies ts names order s w")
      (auto simp: Service_Start_def start_work_def start_commit_def split: if_splits option.splits prod.splits)
qed

definition demo_service :: "nat Service" where
  "demo_service =
     RegisterShutdownHook (\<lambda>w. (None, w * 10)) (RegisterShutdownHook (\<lambda>w. (None, w + 1))
       (RegisterStartupHook (\<lambda>w. (None, Suc w))
         (NewService 0 \<lparr>sm_Name = ''svc'', sm_Version = ''1.0.0'', sm_Instance = ''i'', sm_BuildHash = ''h'', sm_StartTime = 0\<rparr>)))"

theorem Start_correct_witness:
  "\<exists>s'. Service_Start (\<lambda>_. 0) [] [] demo_service 1 = (None, s', 2) \<and> sv_started s' \<and> sv_readyToServe s'"
proof -
  obtain r s' w' where e: "Service_Start (\<lambda>_. 0) [] [] demo_service 1 = (r, s', w')"
    by (metis prod_cases3)
  have c: "checks_read_only (sv_healthChecker demo_service)" "iterates [] (hc_checks (sv_healthChecker demo_service))"
    "all_pass (sv_healthChecker demo_service) 1" "\<not> sv_started demo_service"
    "run_hooks (sv_startupHooks demo_service) 1 = (None, 2)"
    by (auto simp: demo_service_def RegisterShutdownHook_def RegisterStartupHook_def NewService_def NewHealthChecker_def
        checks_read_only_def iterates_def all_pass_def)
  from Start_correct [OF c(1,2,2) e] c e show ?thesis by auto
qed

text \<open>
  Shutting down: a started service runs its shutdown hooks in the reverse of the order
  of registration, up to the first that fails, whose error is returned; and only once: whatever
  happened, a second \<open>Shutdown\<close> returns nil at once, without running the hooks that remained.
\<close>

theorem Shutdown_reverse_once:
  assumes "sv_started s" and "\<not> sv_shutdown_closed s"
    and "Service_Shutdown s w = (r, s', w')"
  shows "r = Returns (map_option ErrShutdownHook (fst (run_hooks (rev (sv_shutdownHooks s)) w))) \<and>
    w' = snd (run_hooks (rev (sv_shutdownHooks s)) w) \<and> \<not> sv_started s' \<and>
    Service_Shutdown s' w' = (Returns None, s', w')"
  using assms shutdown_loop_rev [of "length (sv_shutdownHooks s)" "sv_shutdownHooks s" w]
  by (auto simp: Service_Shutdown_def Let_def split: prod.splits option.splits if_splits)

theorem Shutdown_reverse_once_witness:
  "fst (Service_Shutdown (start_commit demo_service) 4) = Returns None
    \<and> snd (snd (Service_Shutdown (start_commit demo_service) 4)) = 41"
proof -
  obtain r s' w' where e: "Service_Shutdown (start_commit demo_service) 4 = (r, s', w')"
    by (metis prod_cases3)
  have c: "sv_started (start_commit demo_service)" "\<not> sv_shutdown_closed (start_commit demo_service)"
    "run_hooks (rev (sv_shutdownHooks (start_commit demo_service))) 4 = (None, 41)"
    by (simp_all add: demo_service_def RegisterShutdownHook_def RegisterStartupHook_def NewService_def start_commit_def)
  from Shutdown_reverse_once [OF c(1,2) e] c(3) e show ?thesis by simp
qed

text \<open>
  A service cannot be used again after a graceful shutdown: it still reports ready to
  serve, it can be started again, and the next \<open>Shutdown\<close> panics because the channel is closed a second time.
\<close>

theorem restart_panics:
  fixes now metadata ts and s0 s1 s2 s3 :: "'w Service" and w :: 'w
  defines "s0 \<equiv> NewService now metadata"
    and "s1 \<equiv> fst (snd (Service_Start ts [] [] s0 w))"
    and "s2 \<equiv> fst (snd (Service_Shutdown s1 w))"
    and "s3 \<equiv> fst (snd (Service_Start ts [] [] s2 w))"
  shows "fst (Service_Shutdown s1 w) = Returns None \<and> sv_readyToServe s2 \<and> \<not> sv_started s2
    \<and> fst (Service_Start ts [] [] s2 w) = None \<and> fst (Service_Shutdown s3 w) = Panics"
  by (simp add: s3_def s2_def s1_def s0_def NewService_def NewHealthChecker_def core_defs Let_def)

end
