(* ===== verification/Outbox.thy ===== *)
theory Outbox
  imports Messaging Float64
begin

text \<open>
  Package messaging, the outbox: its messages and the interface of its store (\<open>outbox.go\<close>), the
  helpers (\<open>outbox_helper.go\<close>) and the relay that publishes what the store holds (\<open>relay.go\<close>).  An
  interface value is the record of its methods, over a state of its own.  \<open>math.Pow\<close>, whose rounding Go
  does not specify, is an argument (\<open>pow\<close>), as is what a conversion of a float64 that does not
  fit an int64 delivers (\<open>ovf\<close>).
\<close>

named_theorems outbox_defs

subsection \<open>Messages and interfaces\<close>

record OutboxMessage =
  om_ID :: string
  om_Topic :: string
  om_Payload :: string
  om_Headers :: headers
  om_CreatedAt :: time
  om_ProcessedAt :: "time option"
  om_RetryCount :: int
  om_Error :: string

definition NewOutboxMessage :: "time \<Rightarrow> string \<Rightarrow> string \<Rightarrow> string \<Rightarrow> headers option \<Rightarrow> OutboxMessage" where
  "NewOutboxMessage now i topic payload h =
     \<lparr>om_ID = i, om_Topic = topic, om_Payload = payload,
      om_Headers = (case h of None \<Rightarrow> Map.empty | Some h \<Rightarrow> h), om_CreatedAt = now,
      om_ProcessedAt = None, om_RetryCount = 0, om_Error = []\<rparr>"

definition ToMessage :: "OutboxMessage \<Rightarrow> Message" where
  "ToMessage m = NewMessage (om_ID m) (om_Payload m) (Some (om_Headers m))"

record 's OutboxStore =
  os_SaveMessage :: "OutboxMessage \<Rightarrow> 's \<Rightarrow> string option \<times> 's"
  os_GetPendingMessages :: "int \<Rightarrow> 's \<Rightarrow> (string + OutboxMessage list) \<times> 's"
  os_MarkProcessed :: "time \<Rightarrow> string \<Rightarrow> 's \<Rightarrow> string option \<times> 's"
  os_MarkFailed :: "string \<Rightarrow> string \<Rightarrow> 's \<Rightarrow> string option \<times> 's"

record 'b Broker =
  br_Publish :: "string \<Rightarrow> Message \<Rightarrow> 'b \<Rightarrow> string option \<times> 'b"

subsection \<open>Helpers\<close>

text \<open>The message \<open>SaveMessageToOutbox\<close> builds leaves \<open>CreatedAt\<close> at its zero value.\<close>

definition SaveMessageToOutbox ::
  "'s OutboxStore \<Rightarrow> string \<Rightarrow> Message \<Rightarrow> 's \<Rightarrow> string option \<times> 's" where
  "SaveMessageToOutbox store topic message tx =
     os_SaveMessage store
       \<lparr>om_ID = ms_id message, om_Topic = topic, om_Payload = ms_body message, om_Headers = ms_headers message,
        om_CreatedAt = zero_Time, om_ProcessedAt = None, om_RetryCount = 0, om_Error = []\<rparr> tx"

text \<open>The UUID and the instant are arguments.\<close>

definition SaveToOutbox ::
  "'s OutboxStore \<Rightarrow> string \<Rightarrow> time \<Rightarrow> string \<Rightarrow> string \<Rightarrow> headers option \<Rightarrow> 's \<Rightarrow> string option \<times> 's" where
  "SaveToOutbox store uuid now topic payload h tx =
     os_SaveMessage store (NewOutboxMessage now uuid topic payload h) tx"

fun publish_each ::
  "'s OutboxStore \<Rightarrow> 'b Broker \<Rightarrow> (string \<Rightarrow> time) \<Rightarrow> OutboxMessage list \<Rightarrow> 's \<times> 'b \<Rightarrow> 's \<times> 'b" where
  "publish_each store broker clock [] (s, b) = (s, b)"
| "publish_each store broker clock (msg # msgs) (s, b) =
     (case br_Publish broker (om_Topic msg) (ToMessage msg) b of
        (Some err, b') \<Rightarrow>
          publish_each store broker clock msgs (snd (os_MarkFailed store (om_ID msg) err s), b')
      | (None, b') \<Rightarrow>
          publish_each store broker clock msgs (snd (os_MarkProcessed store (clock (om_ID msg)) (om_ID msg) s), b'))"

definition PublishFromOutbox ::
  "'s OutboxStore \<Rightarrow> 'b Broker \<Rightarrow> (string \<Rightarrow> time) \<Rightarrow> int \<Rightarrow> 's \<times> 'b \<Rightarrow> string option \<times> 's \<times> 'b" where
  "PublishFromOutbox store broker clock batchSize sb =
     (case os_GetPendingMessages store batchSize (fst sb) of
        (Inl err, s) \<Rightarrow> (Some (''failed to get pending messages: '' @ err), s, snd sb)
      | (Inr messages, s) \<Rightarrow> (None, publish_each store broker clock messages (s, snd sb)))"

subsection \<open>The relay\<close>

record RelayConfig =
  rc_BatchSize :: int
  rc_PollInterval :: duration
  rc_MaxRetries :: int
  rc_InitialBackoff :: duration
  rc_MaxBackoff :: duration
  rc_BackoffFactor :: float64

definition DefaultRelayConfig :: RelayConfig where
  "DefaultRelayConfig =
     \<lparr>rc_BatchSize = 100, rc_PollInterval = Second * 5, rc_MaxRetries = 10, rc_InitialBackoff = Second * 1,
      rc_MaxBackoff = Hour * 1, rc_BackoffFactor = Fin 2\<rparr>"

record relay_metrics =
  rm_errors :: nat
  rm_dropped :: nat
  rm_publish_failures :: nat
  rm_processed :: nat
  rm_failed :: nat
  rm_batch_size :: nat

text \<open>What became of a message in a batch, as the relay logs it.\<close>

datatype relay_event =
    RDropped string
  | RWaiting string
  | RFailed string string
  | RPublished string
  | RUnmarked string \<comment> \<open>published, but the store could not mark it\<close>

definition calculateBackoff ::
  "(float64 \<Rightarrow> float64 \<Rightarrow> float64) \<Rightarrow> (float64 \<Rightarrow> int) \<Rightarrow> RelayConfig \<Rightarrow> int \<Rightarrow> duration" where
  "calculateBackoff pow ovf config retryCount =
     (let backoffSeconds = f64_mul (f64_of_int (rc_InitialBackoff config))
                             (pow (rc_BackoffFactor config) (f64_of_int (retryCount - 1)));
          backoff = f64_to_int64 ovf backoffSeconds
      in if rc_MaxBackoff config < backoff then rc_MaxBackoff config else backoff)"

text \<open>Whether a message that failed before has to wait; the negation of a duration is an int64 one.\<close>

definition in_backoff ::
  "(float64 \<Rightarrow> float64 \<Rightarrow> float64) \<Rightarrow> (float64 \<Rightarrow> int) \<Rightarrow> RelayConfig \<Rightarrow> time \<Rightarrow> OutboxMessage \<Rightarrow> bool" where
  "in_backoff pow ovf config now msg \<longleftrightarrow>
     0 < om_RetryCount msg \<and>
     (let backoffDuration = calculateBackoff pow ovf config (om_RetryCount msg);
          retryAfter = now + wrap64 (- backoffDuration)
      in retryAfter < om_CreatedAt msg)"

definition exceeded :: "RelayConfig \<Rightarrow> OutboxMessage \<Rightarrow> bool" where
  "exceeded config msg \<longleftrightarrow> rc_MaxRetries config \<le> om_RetryCount msg \<and> 0 < rc_MaxRetries config"

text \<open>The body of the loop of \<open>processBatch\<close>; \<open>clock\<close> gives the instants of the relay, \<open>mclock\<close> those of the store.\<close>

definition process_message ::
  "'s OutboxStore \<Rightarrow> 'b Broker \<Rightarrow> (OutboxMessage \<Rightarrow> bool) \<Rightarrow> RelayConfig \<Rightarrow> (string \<Rightarrow> time) \<Rightarrow>
   OutboxMessage \<Rightarrow> 's \<times> 'b \<times> relay_metrics \<Rightarrow> relay_event \<times> 's \<times> 'b \<times> relay_metrics" where
  "process_message store broker waits config mclock msg st =
     (case st of (s, b, m) \<Rightarrow>
        if exceeded config msg then
          (RDropped (om_ID msg), snd (os_MarkProcessed store (mclock (om_ID msg)) (om_ID msg) s), b,
           m\<lparr>rm_dropped := rm_dropped m + 1\<rparr>)
        else if waits msg then (RWaiting (om_ID msg), s, b, m)
        else
          (case br_Publish broker (om_Topic msg) (ToMessage msg) b of
             (Some err, b') \<Rightarrow>
               (RFailed (om_ID msg) err, snd (os_MarkFailed store (om_ID msg) err s), b',
                m\<lparr>rm_publish_failures := rm_publish_failures m + 1, rm_failed := rm_failed m + 1\<rparr>)
           | (None, b') \<Rightarrow>
               (case os_MarkProcessed store (mclock (om_ID msg)) (om_ID msg) s of
                  (Some e, s') \<Rightarrow> (RUnmarked (om_ID msg), s', b', m\<lparr>rm_errors := rm_errors m + 1\<rparr>)
                | (None, s') \<Rightarrow> (RPublished (om_ID msg), s', b', m\<lparr>rm_processed := rm_processed m + 1\<rparr>))))"

fun process_messages ::
  "'s OutboxStore \<Rightarrow> 'b Broker \<Rightarrow> (OutboxMessage \<Rightarrow> bool) \<Rightarrow> RelayConfig \<Rightarrow> (string \<Rightarrow> time) \<Rightarrow>
   OutboxMessage list \<Rightarrow> 's \<times> 'b \<times> relay_metrics \<Rightarrow> relay_event list \<times> 's \<times> 'b \<times> relay_metrics" where
  "process_messages store broker waits config mclock [] st = ([], st)"
| "process_messages store broker waits config mclock (msg # msgs) st =
     (let (ev, st') = process_message store broker waits config mclock msg st;
          (evs, st'') = process_messages store broker waits config mclock msgs st'
      in (ev # evs, st''))"

definition processBatch ::
  "'s OutboxStore \<Rightarrow> 'b Broker \<Rightarrow> (float64 \<Rightarrow> float64 \<Rightarrow> float64) \<Rightarrow> (float64 \<Rightarrow> int) \<Rightarrow> RelayConfig \<Rightarrow>
   (string \<Rightarrow> time) \<Rightarrow> (string \<Rightarrow> time) \<Rightarrow> 's \<times> 'b \<times> relay_metrics \<Rightarrow>
   relay_event list \<times> 's \<times> 'b \<times> relay_metrics" where
  "processBatch store broker pow ovf config clock mclock st =
     (case st of (s, b, m) \<Rightarrow>
        case os_GetPendingMessages store (rc_BatchSize config) s of
          (Inl err, s') \<Rightarrow> ([], s', b, m\<lparr>rm_errors := rm_errors m + 1\<rparr>)
        | (Inr messages, s') \<Rightarrow>
            if messages = [] then ([], s', b, m)
            else
              (let (evs, s'', b', m') = process_messages store broker
                     (\<lambda>msg. in_backoff pow ovf config (clock (om_ID msg)) msg) config mclock messages (s', b, m)
               in (evs, s'', b', m'\<lparr>rm_batch_size := length messages\<rparr>)))"

subsection \<open>Batches call by call\<close>

text \<open>
  The relay and the helper hold no lock: between two of their calls of store and broker anything may happen.  Where one of them stands in its batch,
  with the messages it has fetched and not looked at yet; the relay also keeps the length of its batch.
\<close>

datatype caller = Relay nat | Helper

datatype batch_point =
    AtRest
  | AtMessage caller "OutboxMessage list" \<comment> \<open>the head of the loop\<close>
  | AtDrop caller OutboxMessage "OutboxMessage list" \<comment> \<open>the limit of retries is exceeded\<close>
  | AtPublish caller OutboxMessage "OutboxMessage list"
  | AtFailed caller OutboxMessage string "OutboxMessage list" \<comment> \<open>with the error of the broker\<close>
  | AtPublished caller OutboxMessage "OutboxMessage list"

definition relay_fetch :: "'s OutboxStore \<Rightarrow> RelayConfig \<Rightarrow> 's \<times> 'b \<times> relay_metrics \<Rightarrow> batch_point \<times> 's \<times> 'b \<times> relay_metrics" where
  "relay_fetch store config st =
     (case st of (s, b, m) \<Rightarrow>
        case os_GetPendingMessages store (rc_BatchSize config) s of
          (Inl err, s') \<Rightarrow> (AtRest, s', b, m\<lparr>rm_errors := rm_errors m + 1\<rparr>)
        | (Inr messages, s') \<Rightarrow> (if messages = [] then AtRest else AtMessage (Relay (length messages)) messages, s', b, m))"

definition helper_fetch :: "'s OutboxStore \<Rightarrow> int \<Rightarrow> 's \<times> 'b \<times> relay_metrics \<Rightarrow> batch_point \<times> 's \<times> 'b \<times> relay_metrics" where
  "helper_fetch store batchSize st =
     (case st of (s, b, m) \<Rightarrow>
        case os_GetPendingMessages store batchSize s of
          (Inl err, s') \<Rightarrow> (AtRest, s', b, m)
        | (Inr messages, s') \<Rightarrow> (AtMessage Helper messages, s', b, m))"

text \<open>
  One call, or one decision, of a batch; only the relay counts what happens.  It adds up the messages processed and failed and writes these two counters at the end
  of its batch; here they are written as they come, which is the same once the batch is over.
\<close>

fun counts :: "caller \<Rightarrow> (relay_metrics \<Rightarrow> relay_metrics) \<Rightarrow> relay_metrics \<Rightarrow> relay_metrics" where
  "counts (Relay n) f m = f m"
| "counts Helper f m = m"

fun batch_step ::
  "'s OutboxStore \<Rightarrow> 'b Broker \<Rightarrow> (float64 \<Rightarrow> float64 \<Rightarrow> float64) \<Rightarrow> (float64 \<Rightarrow> int) \<Rightarrow> RelayConfig \<Rightarrow> time \<Rightarrow>
   batch_point \<Rightarrow> 's \<times> 'b \<times> relay_metrics \<Rightarrow> batch_point \<times> 's \<times> 'b \<times> relay_metrics" where
  "batch_step store broker pow ovf config now AtRest st = (AtRest, st)"
| "batch_step store broker pow ovf config now (AtMessage (Relay n) []) (s, b, m) = (AtRest, s, b, m\<lparr>rm_batch_size := n\<rparr>)"
| "batch_step store broker pow ovf config now (AtMessage Helper []) st = (AtRest, st)"
| "batch_step store broker pow ovf config now (AtMessage Helper (msg # msgs)) st = (AtPublish Helper msg msgs, st)"
| "batch_step store broker pow ovf config now (AtMessage (Relay n) (msg # msgs)) st =
     (if exceeded config msg then AtDrop (Relay n) msg msgs
      else if in_backoff pow ovf config now msg then AtMessage (Relay n) msgs
      else AtPublish (Relay n) msg msgs, st)"
| "batch_step store broker pow ovf config now (AtDrop c msg msgs) (s, b, m) =
     (AtMessage c msgs, snd (os_MarkProcessed store now (om_ID msg) s), b, counts c (\<lambda>m. m\<lparr>rm_dropped := rm_dropped m + 1\<rparr>) m)"
| "batch_step store broker pow ovf config now (AtPublish c msg msgs) (s, b, m) =
     (case br_Publish broker (om_Topic msg) (ToMessage msg) b of
        (Some err, b') \<Rightarrow> (AtFailed c msg err msgs, s, b', m)
      | (None, b') \<Rightarrow> (AtPublished c msg msgs, s, b', m))"
| "batch_step store broker pow ovf config now (AtFailed c msg err msgs) (s, b, m) =
     (AtMessage c msgs, snd (os_MarkFailed store (om_ID msg) err s), b,
      counts c (\<lambda>m. m\<lparr>rm_publish_failures := rm_publish_failures m + 1, rm_failed := rm_failed m + 1\<rparr>) m)"
| "batch_step store broker pow ovf config now (AtPublished c msg msgs) (s, b, m) =
     (case os_MarkProcessed store now (om_ID msg) s of
        (Some e, s') \<Rightarrow> (AtMessage c msgs, s', b, counts c (\<lambda>m. m\<lparr>rm_errors := rm_errors m + 1\<rparr>) m)
      | (None, s') \<Rightarrow> (AtMessage c msgs, s', b, counts c (\<lambda>m. m\<lparr>rm_processed := rm_processed m + 1\<rparr>) m))"

subsection \<open>Starting and stopping\<close>

text \<open>\<open>Start\<close> and \<open>Stop\<close>: \<open>or_loops\<close> counts the goroutines of \<open>processLoop\<close> that were started.\<close>

record OutboxRelay =
  or_config :: RelayConfig
  or_stopped :: bool
  or_stopCh_closed :: bool
  or_loops :: nat

definition NewOutboxRelay :: "RelayConfig \<Rightarrow> OutboxRelay" where
  "NewOutboxRelay config = \<lparr>or_config = config, or_stopped = False, or_stopCh_closed = False, or_loops = 0\<rparr>"

datatype relay_error = ErrRelayStopped | ErrStopTimeout

definition Relay_Start :: "OutboxRelay \<Rightarrow> relay_error option \<times> OutboxRelay" where
  "Relay_Start r =
     (if or_stopped r then (Some ErrRelayStopped, r) else (None, r\<lparr>or_loops := or_loops r + 1\<rparr>))"

definition Relay_Stop :: "bool \<Rightarrow> OutboxRelay \<Rightarrow> relay_error option \<times> OutboxRelay" where
  "Relay_Stop finished r =
     (if or_stopped r then (None, r)
      else (if finished then None else Some ErrStopTimeout, r\<lparr>or_stopped := True, or_stopCh_closed := True\<rparr>))"

text \<open>
  \<open>processLoop\<close>: a batch at once, then one per tick; the list of environments (clocks) ends when the
  relay is stopped or its context is done.
\<close>

fun processLoop ::
  "((string \<Rightarrow> time) \<times> (string \<Rightarrow> time) \<Rightarrow> 'x \<Rightarrow> relay_event list \<times> 'x) \<Rightarrow>
   (string \<Rightarrow> time) \<times> (string \<Rightarrow> time) \<Rightarrow> ((string \<Rightarrow> time) \<times> (string \<Rightarrow> time)) list \<Rightarrow> 'x \<Rightarrow> relay_event list list \<times> 'x" where
  "processLoop batch now [] st = (let (evs, st') = batch now st in ([evs], st'))"
| "processLoop batch now (tick # ticks) st =
     (let (evs, st') = batch now st; (evss, st'') = processLoop batch tick ticks st' in (evs # evss, st''))"

end
