(* ===== verification/OutboxRelayInv.thy ===== *)
theory OutboxRelayInv
  imports Outbox
begin

text \<open>
  The interface \<open>OutboxStore\<close> as a locale, and what the relay makes of any store that keeps it: no
  message is lost and none is marked processed that was not published, unless its retries are used
  up.
\<close>

definition mark_row :: "time \<Rightarrow> OutboxMessage \<Rightarrow> OutboxMessage" where
  "mark_row t m = m\<lparr>om_ProcessedAt := Some t, om_Error := []\<rparr>"

definition fail_row :: "string \<Rightarrow> OutboxMessage \<Rightarrow> OutboxMessage" where
  "fail_row e m = m\<lparr>om_RetryCount := om_RetryCount m + 1, om_Error := e\<rparr>"

definition fresh_row :: "OutboxMessage \<Rightarrow> OutboxMessage" where
  "fresh_row m = m\<lparr>om_ProcessedAt := None, om_RetryCount := 0, om_Error := []\<rparr>"

lemmas row_defs = mark_row_def fail_row_def fresh_row_def

text \<open>A broker that also keeps what it published.\<close>

definition logged :: "'b Broker \<Rightarrow> ('b \<times> (string \<times> Message) list) Broker" where
  "logged broker =
     \<lparr>br_Publish = (\<lambda>topic msg (b, lg).
        case br_Publish broker topic msg b of
          (None, b') \<Rightarrow> (None, b', lg @ [(topic, msg)])
        | (Some e, b') \<Rightarrow> (Some e, b', lg))\<rparr>"

text \<open>Every message marked processed was published or has used up its retries.\<close>

definition delivered :: "RelayConfig \<Rightarrow> (string \<times> Message) list \<Rightarrow> (string \<rightharpoonup> OutboxMessage) \<Rightarrow> bool" where
  "delivered config lg R \<longleftrightarrow>
     (\<forall>i m. R i = Some m \<longrightarrow> om_ProcessedAt m \<noteq> None \<longrightarrow>
        (om_Topic m, ToMessage m) \<in> set lg \<or> exceeded config m)"

text \<open>What stays of every row.\<close>

definition same_content :: "OutboxMessage \<Rightarrow> OutboxMessage \<Rightarrow> bool" where
  "same_content m m' \<longleftrightarrow>
     om_ID m' = om_ID m \<and> om_Topic m' = om_Topic m \<and> om_Payload m' = om_Payload m \<and>
     om_Headers m' = om_Headers m \<and> om_CreatedAt m' = om_CreatedAt m \<and> om_RetryCount m \<le> om_RetryCount m'"

definition kept :: "(string \<rightharpoonup> OutboxMessage) \<Rightarrow> (string \<rightharpoonup> OutboxMessage) \<Rightarrow> bool" where
  "kept R R' \<longleftrightarrow> (\<forall>i m. R i = Some m \<longrightarrow> (\<exists>m'. R' i = Some m' \<and> same_content m m'))"

lemma same_content_trans: "same_content m m' \<Longrightarrow> same_content m' m'' \<Longrightarrow> same_content m m''"
  by (simp add: same_content_def)

lemma kept_refl [simp]: "kept R R"
  by (simp add: kept_def same_content_def)

lemma kept_trans: "kept R S \<Longrightarrow> kept S T \<Longrightarrow> kept R T"
  by (fastforce simp: kept_def same_content_def)

lemma kept_update: "R i = Some m \<Longrightarrow> same_content m m' \<Longrightarrow> kept R (R(i \<mapsto> m'))"
  by (auto simp: kept_def same_content_def)

lemma same_content_row [simp]: "same_content m (mark_row t m)" "same_content m (fail_row e m)"
  by (simp_all add: same_content_def row_defs)

lemma delivered_log: "delivered config lg R \<Longrightarrow> delivered config (lg @ lg') R"
  by (auto simp: delivered_def)

lemma delivered_fail: "delivered config lg R \<Longrightarrow> R i = Some m \<Longrightarrow> delivered config lg (R(i \<mapsto> fail_row e m))"
  by (fastforce simp: delivered_def row_defs ToMessage_def exceeded_def)

lemma delivered_mark:
  "delivered config lg R \<Longrightarrow> R i = Some m \<Longrightarrow> (om_Topic m, ToMessage m) \<in> set lg \<or> exceeded config m \<Longrightarrow>
   delivered config lg (R(i \<mapsto> mark_row t m))"
  by (auto simp: delivered_def row_defs ToMessage_def exceeded_def)

lemma delivered_fresh: "delivered config lg R \<Longrightarrow> delivered config lg (R(i \<mapsto> fresh_row m))"
  by (auto simp: delivered_def row_defs)

text \<open>
  What a process in the middle of its batch knows of its messages: the table has them with at least as many failures; what it is about to mark was published
  or has used up its retries.
\<close>

fun in_hand :: "batch_point \<Rightarrow> OutboxMessage list" where
  "in_hand AtRest = []"
| "in_hand (AtMessage c msgs) = msgs"
| "in_hand (AtDrop c msg msgs) = msg # msgs"
| "in_hand (AtPublish c msg msgs) = msg # msgs"
| "in_hand (AtFailed c msg err msgs) = msg # msgs"
| "in_hand (AtPublished c msg msgs) = msg # msgs"

fun justified :: "RelayConfig \<Rightarrow> (string \<times> Message) list \<Rightarrow> batch_point \<Rightarrow> bool" where
  "justified config lg (AtDrop c msg msgs) = exceeded config msg"
| "justified config lg (AtPublished c msg msgs) = ((om_Topic msg, ToMessage msg) \<in> set lg)"
| "justified config lg p = True"

definition point_ok :: "RelayConfig \<Rightarrow> (string \<times> Message) list \<Rightarrow> (string \<rightharpoonup> OutboxMessage) \<Rightarrow> batch_point \<Rightarrow> bool" where
  "point_ok config lg R p \<longleftrightarrow> justified config lg p \<and> (\<forall>msg\<in>set (in_hand p). \<exists>m. R (om_ID msg) = Some m \<and> same_content msg m)"

lemma point_ok_rest [simp]: "point_ok config lg R AtRest"
  by (simp add: point_ok_def)

lemma justified_mono: "justified config lg p \<Longrightarrow> set lg \<subseteq> set lg' \<Longrightarrow> justified config lg' p"
  by (cases p) auto

lemma point_ok_mono: "point_ok config lg R p \<Longrightarrow> set lg \<subseteq> set lg' \<Longrightarrow> kept R R' \<Longrightarrow> point_ok config lg' R' p"
  unfolding point_ok_def kept_def by (blast intro: justified_mono same_content_trans)

lemma same_content_delivered:
  "same_content msg m \<Longrightarrow> (om_Topic m, ToMessage m) = (om_Topic msg, ToMessage msg)"
  "same_content msg m \<Longrightarrow> exceeded config msg \<Longrightarrow> exceeded config m"
  by (auto simp: same_content_def ToMessage_def exceeded_def)

subsection \<open>The interface\<close>

locale outbox_store =
  fixes store :: "'s OutboxStore" and inv :: "'s \<Rightarrow> bool" and rows :: "'s \<Rightarrow> string \<rightharpoonup> OutboxMessage"
  assumes save_ok: "inv s \<Longrightarrow> os_SaveMessage store m s = (None, s') \<Longrightarrow>
      inv s' \<and> rows s (om_ID m) = None \<and> rows s' = (rows s)(om_ID m \<mapsto> fresh_row m)"
    and save_error: "inv s \<Longrightarrow> os_SaveMessage store m s = (Some e, s') \<Longrightarrow> inv s' \<and> rows s' = rows s"
    and pending_ok: "inv s \<Longrightarrow> os_GetPendingMessages store n s = (Inr ms, s') \<Longrightarrow>
      inv s' \<and> rows s' = rows s \<and> distinct (map om_ID ms) \<and>
      (\<forall>m\<in>set ms. rows s (om_ID m) = Some m \<and> om_ProcessedAt m = None)"
    and pending_error: "inv s \<Longrightarrow> os_GetPendingMessages store n s = (Inl e, s') \<Longrightarrow> inv s' \<and> rows s' = rows s"
    and processed_ok: "inv s \<Longrightarrow> rows s i = Some m \<Longrightarrow> os_MarkProcessed store t i s = (None, s') \<Longrightarrow>
      inv s' \<and> rows s' = (rows s)(i \<mapsto> mark_row t m)"
    and processed_error: "inv s \<Longrightarrow> os_MarkProcessed store t i s = (Some e, s') \<Longrightarrow> inv s' \<and> rows s' = rows s"
    and failed_ok: "inv s \<Longrightarrow> rows s i = Some m \<Longrightarrow> os_MarkFailed store i err s = (None, s') \<Longrightarrow>
      inv s' \<and> rows s' = (rows s)(i \<mapsto> fail_row err m)"
    and failed_error: "inv s \<Longrightarrow> os_MarkFailed store i err s = (Some e, s') \<Longrightarrow> inv s' \<and> rows s' = rows s"
begin

text \<open>Each of the two ways to mark changes at most the row it names, and in one way.\<close>

lemma mark_cases:
  assumes "inv s" and "rows s i = Some m" and "os_MarkProcessed store t i s = (r, s')"
  shows "inv s' \<and> (rows s' = rows s \<or> rows s' = (rows s)(i \<mapsto> mark_row t m))"
  using assms processed_ok processed_error by (cases r) blast+

lemma fail_cases:
  assumes "inv s" and "rows s i = Some m" and "os_MarkFailed store i err s = (r, s')"
  shows "inv s' \<and> (rows s' = rows s \<or> rows s' = (rows s)(i \<mapsto> fail_row err m))"
  using assms failed_ok failed_error by (cases r) blast+

text \<open>What one call of a process does: the table keeps its rows, and the marks on them are justified.\<close>

definition good :: "RelayConfig \<Rightarrow> 's \<Rightarrow> (string \<times> Message) list \<Rightarrow> 's \<Rightarrow> (string \<times> Message) list \<Rightarrow> bool" where
  "good config s lg s' lg' \<longleftrightarrow> inv s' \<and> delivered config lg' (rows s') \<and> kept (rows s) (rows s') \<and> set lg \<subseteq> set lg'"

lemma mark_good:
  assumes "inv s" and "delivered config lg (rows s)" and "rows s i = Some m"
    and "(om_Topic m, ToMessage m) \<in> set lg \<or> exceeded config m"
    and "os_MarkProcessed store t i s = (r, s')"
  shows "good config s lg s' lg"
  using mark_cases [OF assms(1,3,5)] delivered_mark [OF assms(2,3,4)] assms(2) kept_update [of "rows s" i m]
  using assms(3) by (auto simp: good_def)

lemma fail_good:
  assumes "inv s" and "delivered config lg (rows s)" and "rows s i = Some m"
    and "os_MarkFailed store i err s = (r, s')"
  shows "good config s lg s' lg"
  using fail_cases [OF assms(1,3,4)] delivered_fail [OF assms(2,3)] assms(2) kept_update [of "rows s" i m]
  using assms(3) by (auto simp: good_def)

lemma batch_step_good:
  assumes inv: "inv s" and d: "delivered config lg (rows s)" and p: "point_ok config lg (rows s) p"
    and step: "batch_step store (logged broker) pow ovf config now p (s, (b, lg), m) = (p', s', (b', lg'), m')"
  shows "good config s lg s' lg' \<and> point_ok config lg' (rows s') p'"
proof -
  have idle: "good config s lg s lg" using inv d by (simp add: good_def)
  have sub: "point_ok config lg' (rows s') p'" if "good config s lg s' lg'" "justified config lg' p'" "set (in_hand p') \<subseteq> set (in_hand p)"
  proof -
    have "\<forall>msg\<in>set (in_hand p'). \<exists>m. rows s (om_ID msg) = Some m \<and> same_content msg m"
      using p that(3) by (auto simp: point_ok_def)
    then have "\<forall>msg\<in>set (in_hand p'). \<exists>m. rows s' (om_ID msg) = Some m \<and> same_content msg m"
      using that(1) unfolding good_def kept_def by (blast intro: same_content_trans)
    with that(2) show ?thesis by (simp add: point_ok_def)
  qed
  show ?thesis
  proof (cases p)
    case AtRest
    then show ?thesis using step idle sub by simp
  next
    case (AtMessage c msgs)
    then have "s' = s \<and> lg' = lg \<and> justified config lg' p' \<and> set (in_hand p') \<subseteq> set (in_hand p)"
      using step by (cases c; cases msgs) (auto split: if_splits)
    then show ?thesis using idle sub by blast
  next
    case (AtDrop c msg msgs)
    then obtain row where row: "rows s (om_ID msg) = Some row" "same_content msg row" "exceeded config msg"
      using p by (auto simp: point_ok_def)
    then have "good config s lg (snd (os_MarkProcessed store now (om_ID msg) s)) lg"
      using mark_good [OF inv d row(1)] same_content_delivered(2) [OF row(2)] by (metis prod.collapse)
    then show ?thesis using step AtDrop sub by (auto simp: subset_insertI)
  next
    case (AtPublish c msg msgs)
    then have "s' = s \<and> set lg \<subseteq> set lg' \<and> (\<exists>x. lg' = lg @ x) \<and> justified config lg' p' \<and> set (in_hand p') \<subseteq> set (in_hand p)"
      using step by (auto simp: logged_def split: prod.splits option.splits)
    then show ?thesis using inv d sub delivered_log by (auto simp: good_def)
  next
    case (AtFailed c msg err msgs)
    then obtain row where "rows s (om_ID msg) = Some row" using p by (auto simp: point_ok_def)
    then have "good config s lg (snd (os_MarkFailed store (om_ID msg) err s)) lg"
      using fail_good [OF inv d] by (metis prod.collapse)
    then show ?thesis using step AtFailed sub by (auto simp: subset_insertI)
  next
    case (AtPublished c msg msgs)
    then obtain row where row: "rows s (om_ID msg) = Some row" "same_content msg row" "(om_Topic msg, ToMessage msg) \<in> set lg"
      using p by (auto simp: point_ok_def)
    then have "(om_Topic row, ToMessage row) \<in> set lg" using same_content_delivered(1) by metis
    then have "good config s lg (snd (os_MarkProcessed store now (om_ID msg) s)) lg"
      using mark_good [OF inv d row(1)] by (metis prod.collapse)
    then show ?thesis using step AtPublished sub by (auto simp: subset_insertI split: prod.splits option.splits)
  qed
qed

lemma fetched_ok:
  assumes inv: "inv s" and d: "delivered config lg (rows s)" and g: "os_GetPendingMessages store n s = (r, s')"
  shows "good config s lg s' lg" and "r = Inr ms \<Longrightarrow> point_ok config lg (rows s') (AtMessage c ms)"
proof -
  have "inv s' \<and> rows s' = rows s" using pending_ok [OF inv] pending_error [OF inv] g by (cases r) blast+
  then show "good config s lg s' lg" using d by (simp add: good_def)
next
  assume "r = Inr ms"
  then show "point_ok config lg (rows s') (AtMessage c ms)"
    using pending_ok [OF inv] g by (auto simp: point_ok_def same_content_def)
qed

lemma relay_fetch_good:
  assumes "inv s" and "delivered config lg (rows s)" and "relay_fetch store config (s, (b, lg), m) = (p, s', (b', lg'), m')"
  shows "good config s lg s' lg' \<and> point_ok config lg' (rows s') p"
proof -
  obtain r s1 where g: "os_GetPendingMessages store (rc_BatchSize config) s = (r, s1)" by fastforce
  with fetched_ok [OF assms(1,2) g] assms(3) show ?thesis
    by (auto simp: relay_fetch_def point_ok_rest split: sum.splits if_splits)
qed

lemma helper_fetch_good:
  assumes "inv s" and "delivered config lg (rows s)" and "helper_fetch store n (s, (b, lg), m) = (p, s', (b', lg'), m')"
  shows "good config s lg s' lg' \<and> point_ok config lg' (rows s') p"
proof -
  obtain r s1 where g: "os_GetPendingMessages store n s = (r, s1)" by fastforce
  with fetched_ok [OF assms(1,2) g] assms(3) show ?thesis
    by (auto simp: helper_fetch_def point_ok_rest split: sum.splits)
qed

end

subsection \<open>The store, the relay and the applications together\<close>

text \<open>
  Applications save messages while any number of processes, relays and callers of the helper, work on batches of their own.  A step is one call of the
  store or the broker by one of them, at any time; a process may also stop in the middle of its batch.
\<close>

type_synonym ('s, 'b) outbox_system = "('s \<times> ('b \<times> (string \<times> Message) list) \<times> relay_metrics) \<times> (nat \<Rightarrow> batch_point)"

inductive outbox_step ::
  "'s OutboxStore \<Rightarrow> ('b \<times> (string \<times> Message) list) Broker \<Rightarrow> (float64 \<Rightarrow> float64 \<Rightarrow> float64) \<Rightarrow> (float64 \<Rightarrow> int) \<Rightarrow> RelayConfig \<Rightarrow>
   ('s, 'b) outbox_system \<Rightarrow> ('s, 'b) outbox_system \<Rightarrow> bool"
  for store broker pow ovf config where
  ob_save: "os_SaveMessage store msg s = (r, s') \<Longrightarrow> outbox_step store broker pow ovf config ((s, b, m), ps) ((s', b, m), ps)"
| ob_relay: "ps i = AtRest \<Longrightarrow> relay_fetch store config st = (p, st') \<Longrightarrow>
    outbox_step store broker pow ovf config (st, ps) (st', ps(i := p))"
| ob_helper: "ps i = AtRest \<Longrightarrow> helper_fetch store n st = (p, st') \<Longrightarrow>
    outbox_step store broker pow ovf config (st, ps) (st', ps(i := p))"
| ob_call: "batch_step store broker pow ovf config now (ps i) st = (p, st') \<Longrightarrow>
    outbox_step store broker pow ovf config (st, ps) (st', ps(i := p))"
| ob_stop: "outbox_step store broker pow ovf config (st, ps) (st, ps(i := AtRest))"

subsection \<open>Undisturbed batches\<close>

text \<open>A batch during which no other process takes a step is \<open>processBatch\<close>, or \<open>PublishFromOutbox\<close> for the helper.\<close>

lemma call_then:
  assumes "batch_step store broker pow ovf config now p st = (p', st')"
    and "(outbox_step store broker pow ovf config)\<^sup>*\<^sup>* (st', ps(i := p')) y"
  shows "(outbox_step store broker pow ovf config)\<^sup>*\<^sup>* (st, ps(i := p)) y"
proof -
  have "outbox_step store broker pow ovf config (st, ps(i := p)) (st', ps(i := p'))"
    using ob_call [of store broker pow ovf config now "ps(i := p)" i st p' st'] assms(1) by simp
  with assms(2) show ?thesis by (rule converse_rtranclp_into_rtranclp [rotated])
qed

lemmas last_call = call_then [OF _ rtranclp.rtrancl_refl]

lemma process_message_steps:
  assumes "process_message store broker (\<lambda>msg. in_backoff pow ovf config (clock (om_ID msg)) msg) config mclock msg (s, b, m) = (ev, st')"
  shows "(outbox_step store broker pow ovf config)\<^sup>*\<^sup>* ((s, b, m), ps(i := AtMessage (Relay n) (msg # msgs))) (st', ps(i := AtMessage (Relay n) msgs))"
proof -
  let ?step = "batch_step store broker pow ovf config" and ?now = "clock (om_ID msg)" and ?done = "AtMessage (Relay n) msgs"
  consider (drop) "exceeded config msg" | (wait) "\<not> exceeded config msg" "in_backoff pow ovf config ?now msg"
    | (publish) "\<not> exceeded config msg" "\<not> in_backoff pow ovf config ?now msg" by blast
  then show ?thesis
  proof cases
    case drop
    then have 1: "?step ?now (AtMessage (Relay n) (msg # msgs)) (s, b, m) = (AtDrop (Relay n) msg msgs, s, b, m)"
      and 2: "?step (mclock (om_ID msg)) (AtDrop (Relay n) msg msgs) (s, b, m) = (?done, st')"
      using assms by (simp_all add: process_message_def)
    show ?thesis by (rule call_then [OF 1 last_call [OF 2]])
  next
    case wait
    then have "?step ?now (AtMessage (Relay n) (msg # msgs)) (s, b, m) = (?done, st')" using assms by (simp add: process_message_def)
    then show ?thesis by (rule last_call)
  next
    case publish
    then have 1: "?step ?now (AtMessage (Relay n) (msg # msgs)) (s, b, m) = (AtPublish (Relay n) msg msgs, s, b, m)" by simp
    obtain r b' where br: "br_Publish broker (om_Topic msg) (ToMessage msg) b = (r, b')" by (metis prod.collapse)
    let ?p = "case r of Some err \<Rightarrow> AtFailed (Relay n) msg err msgs | None \<Rightarrow> AtPublished (Relay n) msg msgs"
    have 2: "?step ?now (AtPublish (Relay n) msg msgs) (s, b, m) = (?p, s, b', m)" using br by (simp split: option.split)
    have 3: "?step (mclock (om_ID msg)) ?p (s, b', m) = (?done, st')"
      using assms br publish by (auto simp: process_message_def split: option.splits prod.splits)
    show ?thesis by (rule call_then [OF 1 call_then [OF 2 last_call [OF 3]]])
  qed
qed

lemma process_messages_steps:
  assumes "process_messages store broker (\<lambda>msg. in_backoff pow ovf config (clock (om_ID msg)) msg) config mclock msgs st = (evs, st')"
  shows "(outbox_step store broker pow ovf config)\<^sup>*\<^sup>* (st, ps(i := AtMessage (Relay n) msgs)) (st', ps(i := AtMessage (Relay n) []))"
  using assms
proof (induction msgs arbitrary: st evs)
  case (Cons msg msgs)
  obtain s b m where st: "st = (s, b, m)" by (metis prod_cases3)
  from Cons.prems obtain ev st1 evs1
    where 1: "process_message store broker (\<lambda>msg. in_backoff pow ovf config (clock (om_ID msg)) msg) config mclock msg st = (ev, st1)"
      "process_messages store broker (\<lambda>msg. in_backoff pow ovf config (clock (om_ID msg)) msg) config mclock msgs st1 = (evs1, st')"
    by (auto simp: Let_def split: prod.splits)
  from process_message_steps [OF 1(1) [unfolded st], folded st] Cons.IH [OF 1(2)] show ?case by (rule rtranclp_trans)
qed simp

lemma processBatch_steps:
  assumes "processBatch store broker pow ovf config clock mclock st = (evs, st')" and "ps i = AtRest"
  shows "(outbox_step store broker pow ovf config)\<^sup>*\<^sup>* (st, ps) (st', ps)"
proof -
  obtain s b m where st: "st = (s, b, m)" by (metis prod_cases3)
  obtain r s1 where g: "os_GetPendingMessages store (rc_BatchSize config) s = (r, s1)" by fastforce
  have rest: "ps(i := AtRest) = ps" using assms(2) by auto
  note fetch = ob_relay [where ps = ps and i = i, OF assms(2), of store config st]
  show ?thesis
  proof (cases "\<exists>messages. r = Inr messages \<and> messages \<noteq> []")
    case False
    then have "relay_fetch store config st = (AtRest, st')"
      using assms(1) g by (cases r) (auto simp: processBatch_def relay_fetch_def st)
    then show ?thesis using fetch rest by fastforce
  next
    case True
    then obtain messages where r: "r = Inr messages" "messages \<noteq> []" by blast
    obtain evs2 s2 b2 m2 where p: "process_messages store broker (\<lambda>msg. in_backoff pow ovf config (clock (om_ID msg)) msg) config mclock
        messages (s1, b, m) = (evs2, s2, b2, m2)" by (meson prod_cases4)
    then have st': "st' = (s2, b2, m2\<lparr>rm_batch_size := length messages\<rparr>)" using assms(1) g r by (auto simp: processBatch_def st)
    have "outbox_step store broker pow ovf config (st, ps) ((s1, b, m), ps(i := AtMessage (Relay (length messages)) messages))"
      by (rule fetch) (simp add: relay_fetch_def st g r)
    moreover have "(outbox_step store broker pow ovf config)\<^sup>*\<^sup>* ((s2, b2, m2), ps(i := AtMessage (Relay (length messages)) [])) (st', ps)"
      by (rule call_then [OF batch_step.simps(2)]) (simp add: st' rest)
    ultimately show ?thesis
      by (rule converse_rtranclp_into_rtranclp [OF _ rtranclp_trans [OF process_messages_steps [OF p]]])
  qed
qed

lemma publish_each_steps:
  assumes "publish_each store broker clock msgs (s, b) = (s', b')"
  shows "(outbox_step store broker pow ovf config)\<^sup>*\<^sup>* ((s, b, m), ps(i := AtMessage Helper msgs)) ((s', b', m), ps(i := AtRest))"
  using assms
proof (induction msgs arbitrary: s b)
  case Nil
  then have "s' = s" "b' = b" by simp_all
  then show ?case by (simp only: last_call [OF batch_step.simps(3)])
next
  case (Cons msg msgs)
  let ?step = "batch_step store broker pow ovf config (clock (om_ID msg))"
  obtain r b1 where br: "br_Publish broker (om_Topic msg) (ToMessage msg) b = (r, b1)" by (metis prod.collapse)
  let ?p = "case r of Some err \<Rightarrow> AtFailed Helper msg err msgs | None \<Rightarrow> AtPublished Helper msg msgs"
    and ?s = "case r of Some err \<Rightarrow> snd (os_MarkFailed store (om_ID msg) err s)
      | None \<Rightarrow> snd (os_MarkProcessed store (clock (om_ID msg)) (om_ID msg) s)"
  have 1: "?step (AtPublish Helper msg msgs) (s, b, m) = (?p, s, b1, m)" using br by (simp split: option.split)
  have 2: "?step ?p (s, b1, m) = (AtMessage Helper msgs, ?s, b1, m)" by (auto split: option.splits prod.splits)
  have "publish_each store broker clock msgs (?s, b1) = (s', b')" using Cons.prems br by (auto split: option.splits)
  from call_then [OF batch_step.simps(4) call_then [OF 1 call_then [OF 2 Cons.IH [OF this]]]] show ?case .
qed

lemma PublishFromOutbox_steps:
  assumes "PublishFromOutbox store broker clock n (s, b) = (r, s', b')" and "ps i = AtRest"
  shows "(outbox_step store broker pow ovf config)\<^sup>*\<^sup>* ((s, b, m), ps) ((s', b', m), ps)"
proof -
  obtain g s1 where g: "os_GetPendingMessages store n s = (g, s1)" by fastforce
  have rest: "ps(i := AtRest) = ps" using assms(2) by auto
  note fetch = ob_helper [where ps = ps and i = i, OF assms(2), of store n "(s, b, m)"]
  show ?thesis
  proof (cases g)
    case (Inl e)
    then have "helper_fetch store n (s, b, m) = (AtRest, s', b', m)"
      using assms(1) g by (auto simp: PublishFromOutbox_def helper_fetch_def)
    then show ?thesis using fetch rest by fastforce
  next
    case (Inr messages)
    then have "helper_fetch store n (s, b, m) = (AtMessage Helper messages, s1, b, m)"
      and "publish_each store broker clock messages (s1, b) = (s', b')"
      using assms(1) g by (auto simp: PublishFromOutbox_def helper_fetch_def)
    then show ?thesis
      using converse_rtranclp_into_rtranclp [OF fetch publish_each_steps] rest by (simp only:)
  qed
qed

subsection \<open>The invariant\<close>

context outbox_store
begin

lemma outbox_step_good:
  assumes "outbox_step store (logged broker) pow ovf config ((s, (b, lg), m), ps) ((s', (b', lg'), m'), ps')"
    and "inv s" and "delivered config lg (rows s)" and "\<forall>i. point_ok config lg (rows s) (ps i)"
  shows "inv s' \<and> delivered config lg' (rows s') \<and> kept (rows s) (rows s') \<and> (\<forall>i. point_ok config lg' (rows s') (ps' i))"
proof -
  have all: ?thesis if "good config s lg s' lg'" "point_ok config lg' (rows s') p" "ps' = ps(i := p)" for i p
  proof (intro conjI allI)
    fix j
    show "point_ok config lg' (rows s') (ps' j)"
      using that assms(4) point_ok_mono [of config lg "rows s" "ps j" lg' "rows s'"] by (cases "j = i") (simp_all add: good_def)
  qed (use that(1) in \<open>simp_all add: good_def\<close>)
  from assms(1) show ?thesis
  proof (cases rule: outbox_step.cases)
    case (ob_save msg r)
    have "inv s' \<and> delivered config lg (rows s') \<and> kept (rows s) (rows s')"
    proof (cases r)
      case None
      with save_ok [OF assms(2)] ob_save
      have s: "inv s'" "rows s (om_ID msg) = None" "rows s' = (rows s)(om_ID msg \<mapsto> fresh_row msg)" by blast+
      then have "kept (rows s) (rows s')" by (auto simp: kept_def same_content_def)
      then show ?thesis using s assms(3) delivered_fresh by auto
    next
      case (Some e)
      with save_error [OF assms(2)] ob_save assms(3) show ?thesis by auto
    qed
    then have "good config s lg s' lg'" using ob_save by (simp add: good_def)
    moreover from this have "point_ok config lg' (rows s') (ps 0)"
      using point_ok_mono [of config lg "rows s" "ps 0"] assms(4) by (simp add: good_def)
    moreover have "ps' = ps(0 := ps 0)" using ob_save by simp
    ultimately show ?thesis by (rule all)
  next
    case (ob_relay i p)
    with relay_fetch_good [OF assms(2,3) ob_relay(3)] show ?thesis by (intro all) auto
  next
    case (ob_helper i n p)
    with helper_fetch_good [OF assms(2,3) ob_helper(3)] show ?thesis by (intro all) auto
  next
    case (ob_call now i p)
    with batch_step_good [OF assms(2,3) spec [OF assms(4)] ob_call(2)] show ?thesis by (intro all) auto
  next
    case (ob_stop i)
    with all [of AtRest i] assms(2,3) show ?thesis by (simp add: good_def point_ok_rest)
  qed
qed

lemma outbox_steps_good:
  assumes "(outbox_step store (logged broker) pow ovf config)\<^sup>*\<^sup>* x y"
    and "inv (fst (fst x))" and "delivered config (snd (fst (snd (fst x)))) (rows (fst (fst x)))"
    and "\<forall>i. point_ok config (snd (fst (snd (fst x)))) (rows (fst (fst x))) (snd x i)"
  shows "inv (fst (fst y)) \<and> delivered config (snd (fst (snd (fst y)))) (rows (fst (fst y))) \<and> kept (rows (fst (fst x))) (rows (fst (fst y))) \<and>
    (\<forall>i. point_ok config (snd (fst (snd (fst y)))) (rows (fst (fst y))) (snd y i))"
  using assms(1)
proof (induction rule: rtranclp_induct)
  case (step y z)
  obtain s b lg m ps where y: "y = ((s, (b, lg), m), ps)" by (metis prod.collapse)
  obtain s' b' lg' m' ps' where z: "z = ((s', (b', lg'), m'), ps')" by (metis prod.collapse)
  have "inv s' \<and> delivered config lg' (rows s') \<and> kept (rows s) (rows s') \<and> (\<forall>i. point_ok config lg' (rows s') (ps' i))"
    using step.IH step.hyps(2) unfolding y z by (intro outbox_step_good) auto
  then show ?case using step.IH unfolding y z by (auto intro: kept_trans)
qed (use assms in simp)

end

end
