(* ===== verification/Database.thy ===== *)
theory Database
  imports Prelude
begin

text \<open>
  Package data, \<open>database.go\<close> and \<open>postgres.go\<close>: the configuration of a PostgreSQL connection and
  transactions.  The pool of the driver is a parameter (\<open>pg_pool\<close>, over the state \<open>'d\<close> of the database); a
  transaction works on a state of its own.  What PostgreSQL documents of the three calls is the
  locale \<open>transactional\<close>.
\<close>

subsection \<open>Configuration\<close>

record PostgresConfig =
  pc_Host :: string
  pc_Port :: int
  pc_Username :: string
  pc_Password :: string
  pc_Database :: string
  pc_SSLMode :: string
  pc_MaxConnections :: int
  pc_ConnTimeout :: duration
  pc_MaxIdleTime :: duration
  pc_MaxLifetime :: duration
  pc_HealthCheckFreq :: duration

definition pg_defaults :: "PostgresConfig \<Rightarrow> PostgresConfig" where
  "pg_defaults cfg =
     (let cfg = (if pc_MaxConnections cfg \<le> 0 then cfg\<lparr>pc_MaxConnections := 10\<rparr> else cfg);
          cfg = (if pc_ConnTimeout cfg \<le> 0 then cfg\<lparr>pc_ConnTimeout := 5 * Second\<rparr> else cfg);
          cfg = (if pc_MaxIdleTime cfg \<le> 0 then cfg\<lparr>pc_MaxIdleTime := 5 * Minute\<rparr> else cfg);
          cfg = (if pc_MaxLifetime cfg \<le> 0 then cfg\<lparr>pc_MaxLifetime := 30 * Minute\<rparr> else cfg);
          cfg = (if pc_HealthCheckFreq cfg \<le> 0 then cfg\<lparr>pc_HealthCheckFreq := 1 * Minute\<rparr> else cfg)
      in if pc_SSLMode cfg = [] then cfg\<lparr>pc_SSLMode := ''disable''\<rparr> else cfg)"

definition pg_connString :: "PostgresConfig \<Rightarrow> string" where
  "pg_connString cfg =
     ''postgres://'' @ pc_Username cfg @ '':'' @ pc_Password cfg @ ''@'' @ pc_Host cfg @ '':'' @
     fmt_d (pc_Port cfg) @ ''/'' @ pc_Database cfg @ ''?sslmode='' @ pc_SSLMode cfg"

datatype pg_error =
    ErrParseConfig string
  | ErrCreatePool string
  | ErrConnect string
  | ErrBegin string
  | ErrCommit string
  | ErrLastInsertId

text \<open>
  \<open>NewPostgresDB\<close>: parsing the string, creating the pool and the ping are calls of the driver.
\<close>

definition NewPostgresDB ::
  "(string \<Rightarrow> string option) \<Rightarrow> (PostgresConfig \<Rightarrow> string + 'p) \<Rightarrow> ('p \<Rightarrow> string option) \<Rightarrow> PostgresConfig \<Rightarrow>
   pg_error + 'p \<times> PostgresConfig" where
  "NewPostgresDB parse create ping cfg =
     (let cfg = pg_defaults cfg
      in case parse (pg_connString cfg) of
           Some e \<Rightarrow> Inl (ErrParseConfig e)
         | None \<Rightarrow>
             (case create cfg of
                Inl e \<Rightarrow> Inl (ErrCreatePool e)
              | Inr pool \<Rightarrow>
                  (case ping pool of Some e \<Rightarrow> Inl (ErrConnect e) | None \<Rightarrow> Inr (pool, cfg))))"

definition LastInsertId :: "pg_error + int" where
  "LastInsertId = Inl ErrLastInsertId"

subsection \<open>Transactions\<close>

record 'd pg_pool =
  pool_Begin :: "'d \<Rightarrow> string + 'd" \<comment> \<open>the state the transaction starts from\<close>
  tx_Commit :: "'d \<Rightarrow> 'd \<Rightarrow> string option \<times> 'd"
  tx_Rollback :: "'d \<Rightarrow> 'd \<Rightarrow> string option \<times> 'd"

datatype 'e tx_error =
    TxBegin string
  | TxFn 'e
  | TxRollback 'e string
  | TxCommit string

text \<open>
  \<open>fn\<close> works on the state of the transaction; the database changes when it is committed.
\<close>

definition Transaction ::
  "'d pg_pool \<Rightarrow> ('d \<Rightarrow> 'e option \<times> 'd) \<Rightarrow> 'd \<Rightarrow> 'e tx_error option \<times> 'd" where
  "Transaction pool fn db =
     (case pool_Begin pool db of
        Inl e \<Rightarrow> (Some (TxBegin e), db)
      | Inr tx \<Rightarrow>
          (case fn tx of
             (Some err, tx') \<Rightarrow>
               (case tx_Rollback pool tx' db of
                  (Some rbErr, db') \<Rightarrow> (Some (TxRollback err rbErr), db')
                | (None, db') \<Rightarrow> (Some (TxFn err), db'))
           | (None, tx') \<Rightarrow>
               (case tx_Commit pool tx' db of
                  (Some e, db') \<Rightarrow> (Some (TxCommit e), db')
                | (None, db') \<Rightarrow> (None, db'))))"

locale transactional =
  fixes pool :: "'d pg_pool"
  assumes begin_snapshot: "pool_Begin pool db = Inr tx \<Longrightarrow> tx = db"
    and commit_installs: "tx_Commit pool tx db = (None, db') \<Longrightarrow> db' = tx"
    and commit_fails: "tx_Commit pool tx db = (Some e, db') \<Longrightarrow> db' = db"
    and rollback_discards: "tx_Rollback pool tx db = (r, db') \<Longrightarrow> db' = db"
begin

lemma transaction_atomic:
  assumes "Transaction pool fn db = (r, db')"
  shows "case r of None \<Rightarrow> fn db = (None, db') | Some _ \<Rightarrow> db' = db"
  using assms
  by (auto simp: Transaction_def split: sum.splits prod.splits option.splits
      dest!: begin_snapshot commit_installs commit_fails rollback_discards)

lemma transaction_error:
  assumes "Transaction pool fn db = (Some (TxFn e), db')"
  shows "\<exists>tx'. fn db = (Some e, tx')"
  using assms
  by (auto simp: Transaction_def split: sum.splits prod.splits option.splits dest!: begin_snapshot)

end

text \<open>A pool whose calls succeed, unless told otherwise.\<close>

definition plain_pool :: "string option \<Rightarrow> string option \<Rightarrow> string option \<Rightarrow> 'd pg_pool" where
  "plain_pool be ce re =
     \<lparr>pool_Begin = (\<lambda>db. case be of None \<Rightarrow> Inr db | Some e \<Rightarrow> Inl e),
      tx_Commit = (\<lambda>tx db. case ce of None \<Rightarrow> (None, tx) | Some e \<Rightarrow> (Some e, db)),
      tx_Rollback = (\<lambda>tx db. (re, db))\<rparr>"

interpretation plain: transactional "plain_pool be ce re" for be ce re
  by unfold_locales (auto simp: plain_pool_def split: option.splits)

text \<open>
  A transaction is all or nothing: with a driver that keeps what PostgreSQL documents, it
  returns nil only if the function did and then the database is what the function made of it;
  on any error, also of the commit or the rollback, the database is unchanged.
\<close>

theorem Transaction_atomic:
  assumes "transactional pool" and "Transaction pool fn db = (r, db')"
  shows "(r = None \<and> fn db = (None, db')) \<or> (r \<noteq> None \<and> db' = db)"
  using transactional.transaction_atomic [OF assms] by (cases r) auto

theorem Transaction_atomic_witness:
  "snd (Transaction (plain_pool None (Some ''conn closed'') None) (\<lambda>n. (None :: string option, n + 1)) (5::nat)) = 5"
proof -
  let ?p = "plain_pool None (Some ''conn closed'') None" and ?f = "\<lambda>n. (None :: string option, n + (1::nat))"
  have t: "Transaction ?p ?f 5 = (Some (TxCommit ''conn closed''), 5)"
    by (simp add: Transaction_def plain_pool_def)
  from Transaction_atomic [OF plain.transactional_axioms t] t show ?thesis by auto
qed

end
