(* ===== verification/OutboxPostgres.thy ===== *)
theory OutboxPostgres
  imports OutboxRelayInv Database
begin

text \<open>
  Package messaging, \<open>outbox_postgres.go\<close>: the outbox kept in a PostgreSQL table.  The SQL statements of the
  source are written out over the list of rows; a row that the text does not order comes in the
  order of the list.  Every statement may fail: the errors of the server to come are part of the
  state (\<open>pg_faults\<close>).  How the driver scans a nullable text column into a string is an argument
  (\<open>scan\<close>, \<open>None\<close> being NULL).
\<close>

record outbox_row =
  ob_id :: string
  ob_topic :: string
  ob_payload :: string
  ob_headers :: headers
  ob_created_at :: time
  ob_processed_at :: "time option"
  ob_retry_count :: int
  ob_error :: "string option"

record 'd pg_state =
  pg_app :: 'd \<comment> \<open>the tables of the application\<close>
  pg_outbox :: "outbox_row list option" \<comment> \<open>\<open>None\<close> until the table is created\<close>
  pg_faults :: "string option list"

subsection \<open>Statements\<close>

definition next_fault :: "'d pg_state \<Rightarrow> string option \<times> 'd pg_state" where
  "next_fault s = (case pg_faults s of [] \<Rightarrow> (None, s) | f # fs \<Rightarrow> (f, s\<lparr>pg_faults := fs\<rparr>))"

definition no_table :: string where
  "no_table = ''relation outbox_messages does not exist''"

text \<open>A statement that changes the table, or fails.\<close>

definition sql_exec ::
  "(outbox_row list \<Rightarrow> string + outbox_row list) \<Rightarrow> 'd pg_state \<Rightarrow> string option \<times> 'd pg_state" where
  "sql_exec f s =
     (case next_fault s of
        (Some e, s') \<Rightarrow> (Some e, s')
      | (None, s') \<Rightarrow>
          (case pg_outbox s' of
             None \<Rightarrow> (Some no_table, s')
           | Some t \<Rightarrow> (case f t of Inl e \<Rightarrow> (Some e, s') | Inr t' \<Rightarrow> (None, s'\<lparr>pg_outbox := Some t'\<rparr>))))"

definition sql_insert :: "outbox_row \<Rightarrow> outbox_row list \<Rightarrow> string + outbox_row list" where
  "sql_insert r t = (if \<exists>x\<in>set t. ob_id x = ob_id r then Inl ''duplicate key value'' else Inr (t @ [r]))"

definition sql_update :: "string \<Rightarrow> (outbox_row \<Rightarrow> outbox_row) \<Rightarrow> outbox_row list \<Rightarrow> outbox_row list" where
  "sql_update i f t = map (\<lambda>r. if ob_id r = i then f r else r) t"

definition sql_select_pending :: "int \<Rightarrow> 'd pg_state \<Rightarrow> (string + outbox_row list) \<times> 'd pg_state" where
  "sql_select_pending limit s =
     (case next_fault s of
        (Some e, s') \<Rightarrow> (Inl e, s')
      | (None, s') \<Rightarrow>
          (case pg_outbox s' of
             None \<Rightarrow> (Inl no_table, s')
           | Some t \<Rightarrow>
               if limit < 0 then (Inl ''LIMIT must not be negative'', s')
               else (Inr (take (nat limit) (sort_key ob_created_at (filter (\<lambda>r. ob_processed_at r = None) t))), s')))"

definition wrap_error :: "string \<Rightarrow> string option \<times> 'a \<Rightarrow> string option \<times> 'a" where
  "wrap_error msg = apfst (map_option (\<lambda>e. msg @ '': '' @ e))"

subsection \<open>Operations\<close>

definition CreateOutboxTable :: "'d pg_state \<Rightarrow> string option \<times> 'd pg_state" where
  "CreateOutboxTable s =
     wrap_error ''failed to create outbox table''
       (case next_fault s of
          (Some e, s') \<Rightarrow> (Some e, s')
        | (None, s') \<Rightarrow> (None, case pg_outbox s' of None \<Rightarrow> s'\<lparr>pg_outbox := Some []\<rparr> | Some t \<Rightarrow> s'))"

definition SaveMessage :: "OutboxMessage \<Rightarrow> 'd pg_state \<Rightarrow> string option \<times> 'd pg_state" where
  "SaveMessage m tx =
     wrap_error ''failed to save message to outbox''
       (sql_exec (sql_insert
          \<lparr>ob_id = om_ID m, ob_topic = om_Topic m, ob_payload = om_Payload m, ob_headers = om_Headers m,
           ob_created_at = om_CreatedAt m, ob_processed_at = None, ob_retry_count = 0, ob_error = None\<rparr>) tx)"

definition scan_row :: "(string option \<Rightarrow> string + string) \<Rightarrow> outbox_row \<Rightarrow> string + OutboxMessage" where
  "scan_row scan r =
     (case scan (ob_error r) of
        Inl e \<Rightarrow> Inl (''failed to scan outbox message: '' @ e)
      | Inr err \<Rightarrow>
          Inr \<lparr>om_ID = ob_id r, om_Topic = ob_topic r, om_Payload = ob_payload r, om_Headers = ob_headers r,
               om_CreatedAt = ob_created_at r, om_ProcessedAt = ob_processed_at r,
               om_RetryCount = ob_retry_count r, om_Error = err\<rparr>)"

fun scan_rows :: "(string option \<Rightarrow> string + string) \<Rightarrow> outbox_row list \<Rightarrow> string + OutboxMessage list" where
  "scan_rows scan [] = Inr []"
| "scan_rows scan (r # rs) =
     (case scan_row scan r of
        Inl e \<Rightarrow> Inl e
      | Inr m \<Rightarrow> (case scan_rows scan rs of Inl e \<Rightarrow> Inl e | Inr ms \<Rightarrow> Inr (m # ms)))"

definition GetPendingMessages ::
  "(string option \<Rightarrow> string + string) \<Rightarrow> int \<Rightarrow> 'd pg_state \<Rightarrow> (string + OutboxMessage list) \<times> 'd pg_state" where
  "GetPendingMessages scan limit s =
     (case sql_select_pending limit s of
        (Inl e, s') \<Rightarrow> (Inl (''failed to query pending messages: '' @ e), s')
      | (Inr rs, s') \<Rightarrow> (scan_rows scan rs, s'))"

definition MarkProcessed :: "time \<Rightarrow> string \<Rightarrow> 'd pg_state \<Rightarrow> string option \<times> 'd pg_state" where
  "MarkProcessed now messageID s =
     wrap_error ''failed to mark message as processed''
       (sql_exec (\<lambda>t. Inr (sql_update messageID (\<lambda>r. r\<lparr>ob_processed_at := Some now, ob_error := None\<rparr>) t)) s)"

text \<open>The column \<open>retry_count\<close> is a 32-bit integer: PostgreSQL reports an overflow.\<close>

definition MarkFailed :: "string \<Rightarrow> string \<Rightarrow> 'd pg_state \<Rightarrow> string option \<times> 'd pg_state" where
  "MarkFailed messageID errorMessage s =
     wrap_error ''failed to mark message as failed''
       (sql_exec (\<lambda>t. if \<exists>r\<in>set t. ob_id r = messageID \<and> 2147483647 \<le> ob_retry_count r then Inl ''integer out of range''
                      else Inr (sql_update messageID
                        (\<lambda>r. r\<lparr>ob_retry_count := ob_retry_count r + 1, ob_error := Some errorMessage\<rparr>) t)) s)"

definition pg_store :: "(string option \<Rightarrow> string + string) \<Rightarrow> 'd pg_state OutboxStore" where
  "pg_store scan =
     \<lparr>os_SaveMessage = SaveMessage, os_GetPendingMessages = GetPendingMessages scan,
      os_MarkProcessed = MarkProcessed, os_MarkFailed = MarkFailed\<rparr>"

subsection \<open>The table as the interface sees it\<close>

definition row_message :: "outbox_row \<Rightarrow> OutboxMessage" where
  "row_message r =
     \<lparr>om_ID = ob_id r, om_Topic = ob_topic r, om_Payload = ob_payload r, om_Headers = ob_headers r,
      om_CreatedAt = ob_created_at r, om_ProcessedAt = ob_processed_at r, om_RetryCount = ob_retry_count r,
      om_Error = (case ob_error r of None \<Rightarrow> [] | Some e \<Rightarrow> e)\<rparr>"

definition table_rows :: "outbox_row list \<Rightarrow> string \<rightharpoonup> OutboxMessage" where
  "table_rows t = map_of (map (\<lambda>r. (ob_id r, row_message r)) t)"

definition pg_rows :: "'d pg_state \<Rightarrow> string \<rightharpoonup> OutboxMessage" where
  "pg_rows s = (case pg_outbox s of None \<Rightarrow> Map.empty | Some t \<Rightarrow> table_rows t)"

definition pg_inv :: "'d pg_state \<Rightarrow> bool" where
  "pg_inv s \<longleftrightarrow> (case pg_outbox s of None \<Rightarrow> True | Some t \<Rightarrow> distinct (map ob_id t))"

text \<open>
  What the driver may do with a text column: a text is delivered as it is, NULL not as
  anything but the empty string.
\<close>

definition scan_ok :: "(string option \<Rightarrow> string + string) \<Rightarrow> bool" where
  "scan_ok scan \<longleftrightarrow> (\<forall>t. scan (Some t) = Inr t) \<and> (\<forall>v. scan None = Inr v \<longrightarrow> v = [])"

lemma next_fault_state [simp]:
  "next_fault s = (f, s') \<Longrightarrow> pg_outbox s' = pg_outbox s \<and> pg_app s' = pg_app s"
  by (auto simp: next_fault_def split: list.splits)

lemma pg_cong: "pg_outbox s' = pg_outbox s \<Longrightarrow> pg_rows s' = pg_rows s \<and> pg_inv s' = pg_inv s"
  by (simp add: pg_rows_def pg_inv_def)

lemma table_rows_iff:
  "distinct (map ob_id t) \<Longrightarrow> table_rows t i = Some m \<longleftrightarrow> (\<exists>r\<in>set t. ob_id r = i \<and> m = row_message r)"
  by (auto simp: table_rows_def map_of_eq_Some_iff comp_def)

lemma table_rows_None: "table_rows t i = None \<longleftrightarrow> i \<notin> ob_id ` set t"
  by (force simp: table_rows_def map_of_eq_None_iff)

lemma sql_exec_error:
  "sql_exec f s = (Some e, s') \<Longrightarrow> pg_outbox s' = pg_outbox s"
  by (auto simp: sql_exec_def split: prod.splits option.splits sum.splits)

lemma sql_exec_ok:
  "sql_exec f s = (None, s') \<Longrightarrow> \<exists>t t'. pg_outbox s = Some t \<and> f t = Inr t' \<and> pg_outbox s' = Some t'"
  by (auto simp: sql_exec_def split: prod.splits option.splits sum.splits)

lemma wrap_error_iff [simp]:
  "wrap_error msg x = (None, s') \<longleftrightarrow> x = (None, s')"
  "wrap_error msg x = (Some e, s') \<longleftrightarrow> (\<exists>e'. x = (Some e', s') \<and> e = msg @ '': '' @ e')"
  by (cases x; auto simp: wrap_error_def)+

lemma sql_update_ids [simp]:
  "(\<And>r. ob_id (f r) = ob_id r) \<Longrightarrow> map ob_id (sql_update i f t) = map ob_id t"
  by (simp add: sql_update_def)

lemma table_rows_update:
  assumes "\<And>r. ob_id (f r) = ob_id r" and "\<And>r. row_message (f r) = g (row_message r)"
    and "table_rows t i = Some m"
  shows "table_rows (sql_update i f t) = (table_rows t)(i \<mapsto> g m)"
  using assms(3)
proof (induction t)
  case (Cons r t)
  have "table_rows (sql_update i f t) x = table_rows t x" if "x \<noteq> i" for x
    using that assms(1) by (induction t) (auto simp: table_rows_def sql_update_def)
  then show ?case
    using Cons assms(1,2) by (cases "ob_id r = i") (auto simp: table_rows_def sql_update_def fun_eq_iff)
qed (simp add: table_rows_def)

lemma scan_rows_Inr:
  assumes "scan_ok scan" and "scan_rows scan rs = Inr ms"
  shows "ms = map row_message rs"
  using assms(2)
proof (induction rs arbitrary: ms)
  case (Cons r rs)
  obtain m ms' where m: "scan_row scan r = Inr m" "scan_rows scan rs = Inr ms'" "ms = m # ms'"
    using Cons.prems by (auto split: sum.splits)
  have "m = row_message r"
    using m(1) assms(1) by (cases "ob_error r") (auto simp: scan_row_def row_message_def scan_ok_def split: sum.splits)
  with m Cons.IH show ?case by simp
qed simp

lemma sql_select_Inr:
  assumes "sql_select_pending n s = (Inr rs, s')" and "pg_inv s"
  shows "\<exists>t. pg_outbox s = Some t \<and> pg_outbox s' = Some t \<and> distinct (map ob_id rs) \<and>
    (\<forall>r\<in>set rs. r \<in> set t \<and> ob_processed_at r = None)"
proof -
  obtain t where t: "pg_outbox s = Some t" "pg_outbox s' = Some t"
    "rs = take (nat n) (sort_key ob_created_at (filter (\<lambda>r. ob_processed_at r = None) t))"
    using assms(1) by (auto simp: sql_select_pending_def split: prod.splits option.splits if_splits)
  have "distinct (map ob_id (sort_key ob_created_at (filter (\<lambda>r. ob_processed_at r = None) t)))"
    using assms(2) t(1) by (simp add: pg_inv_def distinct_map inj_on_def)
  then have "distinct (map ob_id rs)" unfolding t(3) by (simp add: take_map [symmetric])
  with t show ?thesis by (auto dest!: in_set_takeD)
qed

lemma GetPending_ok:
  assumes ok: "scan_ok scan" and inv: "pg_inv s" and g: "GetPendingMessages scan n s = (Inr ms, s')"
  shows "pg_outbox s' = pg_outbox s \<and> distinct (map om_ID ms) \<and>
    (\<forall>m\<in>set ms. pg_rows s (om_ID m) = Some m \<and> om_ProcessedAt m = None)"
proof -
  obtain rs where rs: "sql_select_pending n s = (Inr rs, s')" "scan_rows scan rs = Inr ms"
    using g by (auto simp: GetPendingMessages_def split: prod.splits sum.splits)
  obtain t where t: "pg_outbox s = Some t" "pg_outbox s' = Some t" "distinct (map ob_id rs)"
    "\<forall>r\<in>set rs. r \<in> set t \<and> ob_processed_at r = None"
    using sql_select_Inr [OF rs(1) inv] by blast
  have ms: "ms = map row_message rs" by (rule scan_rows_Inr [OF ok rs(2)])
  have "distinct (map ob_id t)" using inv t(1) by (simp add: pg_inv_def)
  then have "\<forall>m\<in>set ms. pg_rows s (om_ID m) = Some m \<and> om_ProcessedAt m = None"
    using t by (auto simp: ms pg_rows_def table_rows_iff) (auto simp: row_message_def)
  moreover have "map om_ID ms = map ob_id rs" by (simp add: ms row_message_def)
  ultimately show ?thesis using t by simp
qed

lemma GetPending_error: "GetPendingMessages scan n s = (Inl e, s') \<Longrightarrow> pg_outbox s' = pg_outbox s"
  by (auto simp: GetPendingMessages_def sql_select_pending_def split: prod.splits sum.splits option.splits if_splits)

lemma pg_store_laws:
  assumes "scan_ok scan"
  shows "outbox_store (pg_store scan) pg_inv pg_rows"
proof
  fix s s' :: "'d pg_state" and m :: OutboxMessage
  assume inv: "pg_inv s" and "os_SaveMessage (pg_store scan) m s = (None, s')"
  then obtain t t' where t: "pg_outbox s = Some t" "pg_outbox s' = Some t'"
    and ins: "sql_insert \<lparr>ob_id = om_ID m, ob_topic = om_Topic m, ob_payload = om_Payload m, ob_headers = om_Headers m,
           ob_created_at = om_CreatedAt m, ob_processed_at = None, ob_retry_count = 0, ob_error = None\<rparr> t = Inr t'"
    by (auto simp: pg_store_def SaveMessage_def dest!: sql_exec_ok)
  have new: "om_ID m \<notin> ob_id ` set t" using ins by (auto simp: sql_insert_def split: if_splits)
  then have "table_rows t (om_ID m) = None" by (simp add: table_rows_None)
  moreover have "table_rows t' = (table_rows t)(om_ID m \<mapsto> fresh_row m)"
    using ins calculation by (auto simp: sql_insert_def table_rows_def row_message_def fresh_row_def fun_eq_iff
        map_add_def split: if_splits option.split)
  moreover have "distinct (map ob_id t')"
    using ins new inv t by (auto simp: sql_insert_def pg_inv_def split: if_splits)
  ultimately show "pg_inv s' \<and> pg_rows s (om_ID m) = None \<and> pg_rows s' = (pg_rows s)(om_ID m \<mapsto> fresh_row m)"
    using t by (simp add: pg_inv_def pg_rows_def)
next
  fix s s' :: "'d pg_state" and i and m :: OutboxMessage and t
  assume inv: "pg_inv s" and row: "pg_rows s i = Some m" and "os_MarkProcessed (pg_store scan) t i s = (None, s')"
  then obtain tb where tb: "pg_outbox s = Some tb"
    "pg_outbox s' = Some (sql_update i (\<lambda>r. r\<lparr>ob_processed_at := Some t, ob_error := None\<rparr>) tb)"
    by (auto simp: pg_store_def MarkProcessed_def dest!: sql_exec_ok)
  have "table_rows (sql_update i (\<lambda>r. r\<lparr>ob_processed_at := Some t, ob_error := None\<rparr>) tb) = (table_rows tb)(i \<mapsto> mark_row t m)"
    using row tb(1) by (intro table_rows_update) (auto simp: row_message_def mark_row_def pg_rows_def)
  then show "pg_inv s' \<and> pg_rows s' = (pg_rows s)(i \<mapsto> mark_row t m)"
    using inv tb by (simp add: pg_inv_def pg_rows_def)
next
  fix s s' :: "'d pg_state" and i and m :: OutboxMessage and err
  assume inv: "pg_inv s" and row: "pg_rows s i = Some m" and "os_MarkFailed (pg_store scan) i err s = (None, s')"
  then obtain tb where tb: "pg_outbox s = Some tb"
    "pg_outbox s' = Some (sql_update i (\<lambda>r. r\<lparr>ob_retry_count := ob_retry_count r + 1, ob_error := Some err\<rparr>) tb)"
    by (auto simp: pg_store_def MarkFailed_def dest!: sql_exec_ok split: if_splits)
  have "table_rows (sql_update i (\<lambda>r. r\<lparr>ob_retry_count := ob_retry_count r + 1, ob_error := Some err\<rparr>) tb)
      = (table_rows tb)(i \<mapsto> fail_row err m)"
    using row tb(1) by (intro table_rows_update) (auto simp: row_message_def fail_row_def pg_rows_def)
  then show "pg_inv s' \<and> pg_rows s' = (pg_rows s)(i \<mapsto> fail_row err m)"
    using inv tb by (simp add: pg_inv_def pg_rows_def)
next
  fix s s' :: "'d pg_state" and ms n
  assume inv: "pg_inv s" and "os_GetPendingMessages (pg_store scan) n s = (Inr ms, s')"
  then have "GetPendingMessages scan n s = (Inr ms, s')" by (simp add: pg_store_def)
  note g = GetPending_ok [OF assms inv this]
  with pg_cong [of s' s] inv show "pg_inv s' \<and> pg_rows s' = pg_rows s \<and> distinct (map om_ID ms) \<and>
      (\<forall>m\<in>set ms. pg_rows s (om_ID m) = Some m \<and> om_ProcessedAt m = None)" by simp
qed (auto simp: pg_store_def SaveMessage_def MarkProcessed_def MarkFailed_def
    dest!: sql_exec_error GetPending_error pg_cong)

text \<open>What the driver documents of a NULL: it cannot be scanned into a string.\<close>

definition pgx_scan :: "string option \<Rightarrow> string + string" where
  "pgx_scan c = (case c of None \<Rightarrow> Inl ''cannot scan NULL into *string'' | Some t \<Rightarrow> Inr t)"

lemma pgx_scan_ok: "scan_ok pgx_scan"
  by (simp add: scan_ok_def pgx_scan_def)

interpretation pg: outbox_store "pg_store pgx_scan" pg_inv pg_rows
  by (rule pg_store_laws [OF pgx_scan_ok])

definition empty_metrics :: relay_metrics where
  "empty_metrics = \<lparr>rm_errors = 0, rm_dropped = 0, rm_publish_failures = 0, rm_processed = 0, rm_failed = 0, rm_batch_size = 0\<rparr>"

definition empty_db :: "'d \<Rightarrow> string option list \<Rightarrow> 'd pg_state" where
  "empty_db app faults = \<lparr>pg_app = app, pg_outbox = Some [], pg_faults = faults\<rparr>"

text \<open>A run at concrete inputs: a message is saved, then a batch publishes it.\<close>

definition lenient_scan :: "string option \<Rightarrow> string + string" where
  "lenient_scan c = Inr (case c of None \<Rightarrow> [] | Some t \<Rightarrow> t)"

definition demo_msg :: OutboxMessage where
  "demo_msg = NewOutboxMessage 5 ''m1'' ''orders'' ''created'' None"

definition demo_broker :: "unit Broker" where
  "demo_broker = \<lparr>br_Publish = (\<lambda>t m b. (None, b))\<rparr>"

definition demo_saved :: "unit pg_state" where
  "demo_saved = snd (SaveMessage demo_msg (empty_db () []))"

definition demo_batch ::
  "(string option \<Rightarrow> string + string) \<Rightarrow> relay_event list \<times> unit pg_state \<times> (unit \<times> (string \<times> Message) list) \<times> relay_metrics" where
  "demo_batch scan = processBatch (pg_store scan) (logged demo_broker) (\<lambda>x y. Fin 1) (\<lambda>_. 0) DefaultRelayConfig (\<lambda>_. 9) (\<lambda>_. 9)
     (demo_saved, ((), []), empty_metrics)"

lemmas demo_outbox = demo_msg_def demo_broker_def demo_saved_def demo_batch_def lenient_scan_def
  NewOutboxMessage_def empty_db_def SaveMessage_def sql_exec_def next_fault_def sql_insert_def wrap_error_def
  pg_store_def processBatch_def DefaultRelayConfig_def GetPendingMessages_def sql_select_pending_def
  process_message_def exceeded_def in_backoff_def logged_def MarkProcessed_def sql_update_def scan_row_def

lemma lenient_scan_ok: "scan_ok lenient_scan"
  by (simp add: scan_ok_def lenient_scan_def)

lemma demo_steps:
  "(outbox_step (pg_store lenient_scan) (logged demo_broker) (\<lambda>x y. Fin 1) (\<lambda>_. 0) DefaultRelayConfig)\<^sup>*\<^sup>*
     ((empty_db () [], ((), []), empty_metrics), \<lambda>_. AtRest) ((demo_saved, ((), []), empty_metrics), \<lambda>_. AtRest)"
  "(outbox_step (pg_store lenient_scan) (logged demo_broker) (\<lambda>x y. Fin 1) (\<lambda>_. 0) DefaultRelayConfig)\<^sup>*\<^sup>*
     ((demo_saved, ((), []), empty_metrics), \<lambda>_. AtRest) (snd (demo_batch lenient_scan), \<lambda>_. AtRest)"
proof -
  have "os_SaveMessage (pg_store lenient_scan) demo_msg (empty_db () []) = (None, demo_saved)"
    by (simp add: demo_outbox)
  then have "outbox_step (pg_store lenient_scan) (logged demo_broker) (\<lambda>x y. Fin 1) (\<lambda>_. 0) DefaultRelayConfig
     ((empty_db () [], ((), []), empty_metrics), \<lambda>_. AtRest) ((demo_saved, ((), []), empty_metrics), \<lambda>_. AtRest)" by (rule ob_save)
  then show "(outbox_step (pg_store lenient_scan) (logged demo_broker) (\<lambda>x y. Fin 1) (\<lambda>_. 0) DefaultRelayConfig)\<^sup>*\<^sup>*
     ((empty_db () [], ((), []), empty_metrics), \<lambda>_. AtRest) ((demo_saved, ((), []), empty_metrics), \<lambda>_. AtRest)" by (rule r_into_rtranclp)
  show "(outbox_step (pg_store lenient_scan) (logged demo_broker) (\<lambda>x y. Fin 1) (\<lambda>_. 0) DefaultRelayConfig)\<^sup>*\<^sup>*
     ((demo_saved, ((), []), empty_metrics), \<lambda>_. AtRest) (snd (demo_batch lenient_scan), \<lambda>_. AtRest)"
    unfolding demo_batch_def by (rule processBatch_steps [OF surjective_pairing]) simp
qed

lemma demo_batch_eq:
  "demo_batch lenient_scan =
    ([RPublished ''m1''],
     \<lparr>pg_app = (), pg_outbox = Some [\<lparr>ob_id = ''m1'', ob_topic = ''orders'', ob_payload = ''created'', ob_headers = Map.empty,
        ob_created_at = 5, ob_processed_at = Some 9, ob_retry_count = 0, ob_error = None\<rparr>], pg_faults = []\<rparr>,
     ((), [(''orders'', ToMessage demo_msg)]),
     empty_metrics\<lparr>rm_processed := 1, rm_batch_size := 1\<rparr>)"
  by (simp add: demo_outbox empty_metrics_def ToMessage_def)

subsection \<open>Properties\<close>

lemma pg_start_good:
  "pg_inv (empty_db app faults)" "delivered config [] (pg_rows (empty_db app faults))"
  by (simp_all add: pg_inv_def empty_db_def delivered_def pg_rows_def table_rows_def)

text \<open>
  C5: the outbox delivers at least once: however applications that save messages, any number of relays and calls of the helper interleave - call by call,
  within their batches too, and also when one of them stops in the middle -, whatever fails in the database and in the broker, a message is marked
  processed only after the broker accepted it with its topic, payload and headers, or when it has failed as often as the configured maximum.
\<close>

theorem outbox_at_least_once:
  assumes "scan_ok scan"
    and "(outbox_step (pg_store scan) (logged broker) pow ovf config)\<^sup>*\<^sup>*
      ((empty_db app faults, (b0, []), empty_metrics), \<lambda>_. AtRest) ((s, (b, lg), m), ps)"
    and "pg_rows s i = Some msg" and "om_ProcessedAt msg \<noteq> None"
  shows "(om_Topic msg, ToMessage msg) \<in> set lg \<or> 0 < rc_MaxRetries config \<and> rc_MaxRetries config \<le> om_RetryCount msg"
proof -
  have "delivered config lg (pg_rows s)"
    using outbox_store.outbox_steps_good [OF pg_store_laws [OF assms(1)] assms(2)] by (simp add: pg_start_good)
  then show ?thesis using assms(3,4) by (auto simp: delivered_def exceeded_def)
qed

theorem outbox_at_least_once_witness:
  "(''orders'', ToMessage demo_msg) \<in> set (snd (fst (snd (snd (demo_batch lenient_scan)))))"
proof -
  let ?r = "demo_msg\<lparr>om_ProcessedAt := Some 9\<rparr>"
  obtain s b m where e: "snd (demo_batch lenient_scan) = (s, (b, [(''orders'', ToMessage demo_msg)]), m)"
    "pg_rows s ''m1'' = Some ?r"
    by (simp add: demo_batch_eq pg_rows_def table_rows_def row_message_def demo_msg_def NewOutboxMessage_def)
  have p: "om_ProcessedAt ?r \<noteq> None" by simp
  have "(om_Topic ?r, ToMessage ?r) \<in> set [(''orders'', ToMessage demo_msg)] \<or>
      0 < rc_MaxRetries DefaultRelayConfig \<and> rc_MaxRetries DefaultRelayConfig \<le> om_RetryCount ?r"
    using outbox_at_least_once [OF lenient_scan_ok _ e(2) p] rtranclp_trans [OF demo_steps] e(1) by metis
  then show ?thesis
    by (simp add: e(1) demo_msg_def NewOutboxMessage_def DefaultRelayConfig_def ToMessage_def)
qed

text \<open>
  C7: no message of the outbox is lost or changed: whatever happens after it was saved, a
  message stays in the table with its topic, payload, headers and creation time, and its retry
  count never decreases.
\<close>

theorem outbox_keeps_messages:
  assumes "scan_ok scan"
    and "(outbox_step (pg_store scan) (logged broker) pow ovf config)\<^sup>*\<^sup>* ((empty_db app faults, (b0, []), empty_metrics), \<lambda>_. AtRest) x"
    and "(outbox_step (pg_store scan) (logged broker) pow ovf config)\<^sup>*\<^sup>* x y"
    and "pg_rows (fst (fst x)) i = Some msg"
  shows "\<exists>msg'. pg_rows (fst (fst y)) i = Some msg' \<and> om_Topic msg' = om_Topic msg \<and> ToMessage msg' = ToMessage msg
    \<and> om_CreatedAt msg' = om_CreatedAt msg \<and> om_RetryCount msg \<le> om_RetryCount msg'"
proof -
  note steps = outbox_store.outbox_steps_good [OF pg_store_laws [OF assms(1)]]
  have "pg_inv (fst (fst x)) \<and> delivered config (snd (fst (snd (fst x)))) (pg_rows (fst (fst x))) \<and>
      (\<forall>i. point_ok config (snd (fst (snd (fst x)))) (pg_rows (fst (fst x))) (snd x i))"
    using steps [OF assms(2)] by (simp add: pg_start_good)
  with steps [OF assms(3)] have "kept (pg_rows (fst (fst x))) (pg_rows (fst (fst y)))" by blast
  then obtain msg' where "pg_rows (fst (fst y)) i = Some msg'" "same_content msg msg'"
    using assms(4) by (auto simp: kept_def)
  then show ?thesis by (auto simp: same_content_def ToMessage_def)
qed

theorem outbox_keeps_messages_witness:
  "\<exists>msg'. pg_rows (fst (snd (demo_batch lenient_scan))) ''m1'' = Some msg' \<and> om_Topic msg' = ''orders''"
proof -
  have "pg_rows demo_saved ''m1'' = Some demo_msg"
    by (simp add: demo_outbox pg_rows_def table_rows_def row_message_def)
  with outbox_keeps_messages [OF lenient_scan_ok demo_steps(1) demo_steps(2), of "''m1''" demo_msg]
  show ?thesis by (auto simp: demo_msg_def NewOutboxMessage_def)
qed

lemma scan_rows_null:
  "r \<in> set rs \<Longrightarrow> ob_error r = None \<Longrightarrow> scan None = Inl e \<Longrightarrow> \<exists>e'. scan_rows scan rs = Inl e'"
proof (induction rs)
  case (Cons x xs)
  show ?case
  proof (cases "r = x")
    case True
    then show ?thesis using Cons.prems by (simp add: scan_row_def)
  next
    case False
    then obtain e' where "scan_rows scan xs = Inl e'" using Cons by auto
    then show ?thesis by (cases "scan_row scan x") auto
  qed
qed simp

text \<open>
  C8: with a driver that cannot scan a NULL into a string, as pgx documents, a message that
  was never tried blocks the outbox: its column \<open>error\<close> is NULL, so every batch whose rows - the oldest pending ones, as many as the batch size allows -
  contain it fails before anything is published, and leaves the table as it is, so that this lasts.
\<close>

theorem fresh_message_blocks_outbox:
  assumes "scan None = Inl e" and "pg_outbox s = Some t" and "ob_error r = None"
    and "r \<in> set (take (nat (rc_BatchSize config)) (sort_key ob_created_at (filter (\<lambda>r. ob_processed_at r = None) t)))"
    and "processBatch (pg_store scan) broker pow ovf config clock mclock (s, b, m) = (evs, s', b', m')"
  shows "evs = [] \<and> b' = b \<and> pg_outbox s' = pg_outbox s \<and> m' = m\<lparr>rm_errors := rm_errors m + 1\<rparr>"
proof -
  have "\<not> rc_BatchSize config < 0" using assms(4) by (cases "rc_BatchSize config < 0") auto
  then obtain e'' s'' where g: "GetPendingMessages scan (rc_BatchSize config) s = (Inl e'', s'')"
    using assms(2) scan_rows_null [where scan = scan, OF assms(4,3,1)]
    by (cases "next_fault s"; cases "fst (next_fault s)")
      (auto simp: GetPendingMessages_def sql_select_pending_def)
  then show ?thesis
    using assms(5) GetPending_error [OF g] by (auto simp: processBatch_def pg_store_def)
qed

theorem fresh_message_blocks_outbox_witness:
  "fst (demo_batch pgx_scan) = [] \<and> pg_outbox (fst (snd (demo_batch pgx_scan))) = pg_outbox demo_saved"
proof -
  let ?r = "\<lparr>ob_id = ''m1'', ob_topic = ''orders'', ob_payload = ''created'', ob_headers = Map.empty, ob_created_at = 5,
    ob_processed_at = None, ob_retry_count = 0, ob_error = None\<rparr>"
  obtain evs s' b' m' where d: "demo_batch pgx_scan = (evs, s', b', m')" by (metis prod.collapse)
  have "pgx_scan None = Inl ''cannot scan NULL into *string''" by (simp add: pgx_scan_def)
  moreover have o: "pg_outbox demo_saved = Some [?r]" by (simp add: demo_outbox)
  moreover have "?r \<in> set (take (nat (rc_BatchSize DefaultRelayConfig)) (sort_key ob_created_at (filter (\<lambda>r. ob_processed_at r = None) [?r])))"
    by (simp add: DefaultRelayConfig_def)
  ultimately have "evs = [] \<and> b' = ((), []) \<and> pg_outbox s' = pg_outbox demo_saved"
    using fresh_message_blocks_outbox [where r = ?r and t = "[?r]", OF _ _ _ _ d [unfolded demo_batch_def]] by simp
  then show ?thesis by (simp add: d)
qed

text \<open>
  A business change and the message that announces it, in one transaction.
\<close>

definition change_and_save ::
  "('d \<Rightarrow> string option \<times> 'd) \<Rightarrow> string \<Rightarrow> Message \<Rightarrow> 'd pg_state \<Rightarrow> string option \<times> 'd pg_state" where
  "change_and_save change topic message tx =
     (case change (pg_app tx) of
        (Some err, app) \<Rightarrow> (Some err, tx\<lparr>pg_app := app\<rparr>)
      | (None, app) \<Rightarrow> SaveMessageToOutbox (pg_store pgx_scan) topic message (tx\<lparr>pg_app := app\<rparr>))"

text \<open>
  C6: the outbox is transactional: when an application changes its data and saves a message
  with \<open>SaveMessageToOutbox\<close> in one transaction, either both are committed, and the message is then
  pending in the outbox, or neither is, whatever fails.
\<close>

theorem outbox_transactional:
  assumes "transactional pool" and "pg_inv db"
    and "Transaction pool (change_and_save change topic message) db = (r, db')"
  shows "(r = None \<and> change (pg_app db) = (None, pg_app db') \<and>
      (\<exists>m. pg_rows db' = (pg_rows db)(ms_id message \<mapsto> m) \<and> pg_rows db (ms_id message) = None \<and>
        om_Topic m = topic \<and> om_ProcessedAt m = None \<and> ToMessage m = message)) \<or>
    (r \<noteq> None \<and> db' = db)"
proof (cases r)
  case (Some e)
  with transactional.transaction_atomic [OF assms(1,3)] show ?thesis by simp
next
  case None
  with transactional.transaction_atomic [OF assms(1,3)] have fn: "change_and_save change topic message db = (None, db')" by simp
  then obtain app where app: "change (pg_app db) = (None, app)"
    "SaveMessageToOutbox (pg_store pgx_scan) topic message (db\<lparr>pg_app := app\<rparr>) = (None, db')"
    by (auto simp: change_and_save_def split: prod.splits option.splits)
  have same: "pg_inv (db\<lparr>pg_app := app\<rparr>)" "pg_rows (db\<lparr>pg_app := app\<rparr>) = pg_rows db"
    using assms(2) by (simp_all add: pg_inv_def pg_rows_def)
  have "pg_app db' = app"
    using app(2) by (auto simp: SaveMessageToOutbox_def pg_store_def SaveMessage_def sql_exec_def
        split: prod.splits option.splits sum.splits)
  moreover note pg.save_ok [OF same(1) app(2) [unfolded SaveMessageToOutbox_def], unfolded same(2)]
  ultimately show ?thesis
    using None app(1) by (auto simp: fresh_row_def ToMessage_def NewMessage_def)
qed

theorem outbox_transactional_witness:
  "\<exists>m. pg_rows (snd (Transaction (plain_pool None None None)
      (change_and_save (\<lambda>n. (None, n + 1)) ''orders'' (NewMessage ''m2'' ''paid'' None)) (empty_db (0::int) []))) ''m2'' = Some m
    \<and> om_Topic m = ''orders''"
proof -
  let ?t = "Transaction (plain_pool None None None)
      (change_and_save (\<lambda>n. (None, n + 1)) ''orders'' (NewMessage ''m2'' ''paid'' None)) (empty_db (0::int) [])"
  have i: "pg_inv (empty_db (0::int) [])" by (simp add: pg_inv_def empty_db_def)
  have "fst ?t = None"
    by (simp add: Transaction_def plain_pool_def change_and_save_def SaveMessageToOutbox_def demo_outbox)
  then show ?thesis
    using outbox_transactional [OF plain.transactional_axioms i surjective_pairing, of None None None "\<lambda>n. (None, n + 1)" "''orders''"
        "NewMessage ''m2'' ''paid'' None"]
    by (auto simp: NewMessage_def)
qed

end
