(* ===== verification/RelayBackoff.thy ===== *)
theory RelayBackoff
  imports Outbox
begin

text \<open>
  The backoff of the outbox relay (\<open>calculateBackoff\<close> and its use in \<open>processBatch\<close> of \<open>relay.go\<close>).
\<close>

lemma wrap64_id: "- (2 ^ 63) \<le> i \<Longrightarrow> i < 2 ^ 63 \<Longrightarrow> wrap64 i = i"
  by (simp add: wrap64_def)

lemma f64_to_int64_of_int: "0 \<le> i \<Longrightarrow> i < 2 ^ 63 \<Longrightarrow> f64_to_int64 ovf (Fin (of_int i)) = i"
  by (simp add: f64_to_int64_def)

lemma calculateBackoff_exact:
  assumes "rc_BackoffFactor config = Fin (of_int f)" and "1 \<le> f" and "1 \<le> n" and "n \<le> 2 ^ 53"
    and "pow (Fin (of_int f)) (Fin (of_int (n - 1))) = Fin (of_int (f ^ nat (n - 1)))"
    and "1 \<le> rc_InitialBackoff config" and "rc_InitialBackoff config * f ^ nat (n - 1) < 2 ^ 53"
  shows "calculateBackoff pow ovf config n = min (rc_InitialBackoff config * f ^ nat (n - 1)) (rc_MaxBackoff config)"
proof -
  let ?p = "f ^ nat (n - 1)" and ?i = "rc_InitialBackoff config"
  have p: "1 \<le> ?p" using assms(2) by simp
  have "?i * 1 \<le> ?i * ?p" using p assms(6) by (intro mult_left_mono) auto
  then have i: "?i < 2 ^ 53" using assms(7) by linarith
  have pos: "0 \<le> ?i * ?p" using p assms(6) by simp
  have "f64_mul (f64_of_int ?i) (Fin (of_int ?p)) = f64_of_int (?i * ?p)"
    using i assms(6) f64_of_int_exact [of ?i] by (simp add: f64_of_int_def)
  also have "\<dots> = Fin (of_int (?i * ?p))" using pos assms(7) by (rule f64_of_int_exact)
  finally have m: "f64_mul (f64_of_int ?i) (Fin (of_int ?p)) = Fin (of_int (?i * ?p))" .
  have "f64_of_int (n - 1) = Fin (of_int (n - 1))" using assms(3,4) by (intro f64_of_int_exact) auto
  then have "calculateBackoff pow ovf config n =
      (if rc_MaxBackoff config < ?i * ?p then rc_MaxBackoff config else ?i * ?p)"
    using pos assms(7) f64_to_int64_of_int [of "?i * ?p" ovf]
    by (simp only: calculateBackoff_def assms(1,5) m Let_def) simp
  then show ?thesis by (simp add: min_def)
qed

definition demo_retry :: OutboxMessage where
  "demo_retry = (NewOutboxMessage 5 ''m1'' ''orders'' ''created'' None)\<lparr>om_RetryCount := 3\<rparr>"

definition pow2_only :: "float64 \<Rightarrow> float64 \<Rightarrow> float64" where
  "pow2_only x y = (case y of Fin e \<Rightarrow> Fin (2 ^ nat \<lfloor>e\<rfloor>) | _ \<Rightarrow> NaN)"

text \<open>
  When a failed message is tried again: with an integral factor whose power \<open>math.Pow\<close> delivers
  exactly, and no overflow, a message that failed \<open>n\<close> times waits until its creation time plus
  the initial backoff times the factor to the power \<open>n - 1\<close>, cut off at the maximum.  The wait is
  counted from the creation, not from the last attempt.
\<close>

theorem relay_retry_time:
  assumes "rc_BackoffFactor config = Fin (of_int f)" and "1 \<le> f" and "om_RetryCount msg = n" and "1 \<le> n" and "n \<le> 2 ^ 53"
    and "pow (Fin (of_int f)) (Fin (of_int (n - 1))) = Fin (of_int (f ^ nat (n - 1)))"
    and "1 \<le> rc_InitialBackoff config" and "rc_InitialBackoff config * f ^ nat (n - 1) < 2 ^ 53"
    and "0 \<le> rc_MaxBackoff config"
  shows "in_backoff pow ovf config now msg \<longleftrightarrow>
    now < om_CreatedAt msg + min (rc_InitialBackoff config * f ^ nat (n - 1)) (rc_MaxBackoff config)"
proof -
  let ?b = "min (rc_InitialBackoff config * f ^ nat (n - 1)) (rc_MaxBackoff config)"
  have "calculateBackoff pow ovf config n = ?b"
    using assms by (intro calculateBackoff_exact) auto
  moreover have "0 \<le> rc_InitialBackoff config * f ^ nat (n - 1)" using assms(2,7) by simp
  then have "wrap64 (- ?b) = - ?b" using assms(8,9) by (intro wrap64_id) auto
  ultimately show ?thesis using assms(3,4) by (auto simp: in_backoff_def Let_def)
qed

theorem relay_retry_time_witness:
  "in_backoff pow2_only (\<lambda>_. 0) DefaultRelayConfig 7 demo_retry \<and>
   \<not> in_backoff pow2_only (\<lambda>_. 0) DefaultRelayConfig (5 + 4 * Second) demo_retry"
proof -
  have p: "pow2_only (Fin (of_int 2)) (Fin (of_int (3 - 1))) = Fin (of_int (2 ^ nat (3 - 1)))"
    by (simp add: pow2_only_def)
  have "in_backoff pow2_only (\<lambda>_. 0) DefaultRelayConfig now demo_retry \<longleftrightarrow>
      now < om_CreatedAt demo_retry + min (rc_InitialBackoff DefaultRelayConfig * 2 ^ nat (3 - 1)) (rc_MaxBackoff DefaultRelayConfig)" for now
    using p by (intro relay_retry_time) (simp_all add: DefaultRelayConfig_def demo_retry_def duration_units)
  then show ?thesis by (simp add: DefaultRelayConfig_def demo_retry_def NewOutboxMessage_def duration_units)
qed

text \<open>
  Without a limit on the retries the backoff overflows: with the default backoff, after 40
  failures the product exceeds an int64 and, where the conversion then delivers the least int64 (as on
  amd64), neither the cut-off nor the negation help: the message waits for 292 years.
\<close>

theorem relay_backoff_overflow:
  assumes "pow (Fin 2) (Fin 39) = Fin (2 ^ 39)" and "\<forall>x. ovf x = - (2 ^ 63)"
    and "om_RetryCount msg = 40" and "now < om_CreatedAt msg + 2 ^ 63"
  shows "\<not> exceeded (DefaultRelayConfig\<lparr>rc_MaxRetries := 0\<rparr>) msg \<and>
    in_backoff pow ovf (DefaultRelayConfig\<lparr>rc_MaxRetries := 0\<rparr>) now msg"
proof -
  let ?c = "DefaultRelayConfig\<lparr>rc_MaxRetries := 0\<rparr>"
  have n: "f64_of_int (40 - 1) = Fin 39" using f64_of_int_exact [of 39] by simp
  have s: "f64_of_int (Second * 1) = Fin 1000000000" using f64_of_int_exact [of 1000000000] by (simp add: duration_units)
  have e: "(1000000000 :: rat) * 2 ^ 39 = of_int 1953125 * pow2 48" by (simp add: pow2_def)
  have "rnd (1000000000 * 2 ^ 39) = (1000000000 :: rat) * 2 ^ 39"
    unfolding e by (rule rnd_exact) simp_all
  then have "f64_mul (Fin 1000000000) (Fin (2 ^ 39)) = Fin (1000000000 * 2 ^ 39)"
    by (simp add: f64_round_def)
  moreover have "f64_to_int64 ovf (Fin (1000000000 * 2 ^ 39)) = - (2 ^ 63)"
    by (simp add: f64_to_int64_def Let_def assms(2))
  ultimately have "calculateBackoff pow ovf ?c 40 = - (2 ^ 63)"
    using assms(1) s n by (simp add: calculateBackoff_def DefaultRelayConfig_def Let_def duration_units)
  moreover have "wrap64 (- (- (2 ^ 63))) = - (2 ^ 63)" by (simp add: wrap64_def)
  ultimately have "in_backoff pow ovf ?c now msg"
    using assms(3,4) by (simp add: in_backoff_def)
  then show ?thesis by (simp add: exceeded_def)
qed

theorem relay_backoff_overflow_witness:
  "in_backoff (\<lambda>x y. if y = Fin 39 then Fin (2 ^ 39) else NaN) (\<lambda>_. - (2 ^ 63)) (DefaultRelayConfig\<lparr>rc_MaxRetries := 0\<rparr>)
     (7 + 24 * Hour) (demo_retry\<lparr>om_RetryCount := 40\<rparr>)"
  using relay_backoff_overflow [of "\<lambda>x y. if y = Fin 39 then Fin (2 ^ 39) else NaN" "\<lambda>_. - (2 ^ 63)" "demo_retry\<lparr>om_RetryCount := 40\<rparr>" "7 + 24 * Hour"]
  by (simp add: demo_retry_def NewOutboxMessage_def duration_units)

end
