(* ===== verification/PolicyEvaluator.thy ===== *)
theory PolicyEvaluator
  imports Complex_Main Prelude
begin

text \<open>
  Package security: the data of authorization (\<open>authorization.go\<close>), the local policy evaluator
  (\<open>local_policy_evaluator.go\<close>) and the one that asks an OPA server (\<open>opa_evaluator.go\<close>).  A value of type
  \<open>interface{}\<close> is a \<open>gval\<close>; comparing two slices or two maps with \<open>==\<close> panics.  The order in
  which a map of conditions is ranged over is an argument.
\<close>

named_theorems policy_defs

subsection \<open>Values and outcomes\<close>

datatype gval =
    VNil
  | VBool bool
  | VNum rat
  | VStr string
  | VList "gval list"
  | VStrs "string list"
  | VMap "string \<rightharpoonup> gval"

datatype 'a go = GoOk 'a | GoErr string | GoPanic

text \<open>The operator \<open>==\<close> on two interface values; \<open>None\<close> is a panic.\<close>

fun iface_eq :: "gval \<Rightarrow> gval \<Rightarrow> bool option" where
  "iface_eq (VList _) (VList _) = None"
| "iface_eq (VStrs _) (VStrs _) = None"
| "iface_eq (VMap _) (VMap _) = None"
| "iface_eq VNil VNil = Some True"
| "iface_eq (VBool a) (VBool b) = Some (a = b)"
| "iface_eq (VNum a) (VNum b) = Some (a = b)"
| "iface_eq (VStr a) (VStr b) = Some (a = b)"
| "iface_eq _ _ = Some False"

subsection \<open>Requests and policies\<close>

record Subject =
  su_ID :: string
  su_Roles :: "string list"
  su_Permissions :: "string list"
  su_Attributes :: "string \<rightharpoonup> gval"

record Resource =
  re_Type :: string
  re_ID :: string
  re_Attributes :: "string \<rightharpoonup> gval"

record AuthorizationRequest =
  rq_Subject :: Subject
  rq_Resource :: Resource
  rq_Action :: string
  rq_Context :: "string \<rightharpoonup> gval"

record AuthorizationResponse =
  rs_Allowed :: bool
  rs_Reason :: string
  rs_Obligations :: "string \<rightharpoonup> gval"

record PolicyRule =
  pr_Name :: string
  pr_Description :: string
  pr_Effect :: string
  pr_Subjects :: "string list"
  pr_Resources :: "string list"
  pr_Actions :: "string list"
  pr_Conditions :: "string \<rightharpoonup> gval"

record Policy =
  po_Name :: string
  po_Description :: string
  po_Rules :: "PolicyRule list"
  po_DefaultAction :: string

record LocalPolicyEvaluator =
  lp_policyPath :: string
  lp_policies :: "string \<rightharpoonup> Policy"

subsection \<open>Patterns and conditions\<close>

definition matchesPattern :: "string \<Rightarrow> string \<Rightarrow> bool" where
  "matchesPattern s pattern =
     (if pattern = ''*'' then True
      else if s = pattern then True
      else if strings_HasSuffix pattern ''*'' then strings_HasPrefix s (strings_TrimSuffix pattern ''*'')
      else if strings_HasPrefix pattern ''*'' then strings_HasSuffix s (strings_TrimPrefix pattern ''*'')
      else False)"

fun joinRoles :: "string list \<Rightarrow> string" where
  "joinRoles [] = []"
| "joinRoles [r] = r"
| "joinRoles (r # r' # rs) = r @ '' '' @ joinRoles (r' # rs)"

definition evaluateSubjectCondition :: "string list \<Rightarrow> gval \<Rightarrow> Subject \<Rightarrow> bool option" where
  "evaluateSubjectCondition path value subject =
     (case path of
        [] \<Rightarrow> Some False
      | p # ps \<Rightarrow>
          if p = ''id'' then Some (VStr (su_ID subject) = value)
          else if p = ''roles'' then Some (list_ex (\<lambda>r. VStr r = value) (su_Roles subject))
          else if p = ''permissions'' then Some (list_ex (\<lambda>r. VStr r = value) (su_Permissions subject))
          else if p = ''attributes'' then
            (case ps of
               [] \<Rightarrow> Some False
             | a # _ \<Rightarrow> (case su_Attributes subject a of None \<Rightarrow> Some False | Some v \<Rightarrow> iface_eq v value))
          else Some False)"

definition evaluateResourceCondition :: "string list \<Rightarrow> gval \<Rightarrow> Resource \<Rightarrow> bool option" where
  "evaluateResourceCondition path value resource =
     (case path of
        [] \<Rightarrow> Some False
      | p # ps \<Rightarrow>
          if p = ''type'' then Some (VStr (re_Type resource) = value)
          else if p = ''id'' then Some (VStr (re_ID resource) = value)
          else if p = ''attributes'' then
            (case ps of
               [] \<Rightarrow> Some False
             | a # _ \<Rightarrow> (case re_Attributes resource a of None \<Rightarrow> Some False | Some v \<Rightarrow> iface_eq v value))
          else Some False)"

fun evaluateContextCondition :: "string list \<Rightarrow> gval \<Rightarrow> (string \<rightharpoonup> gval) \<Rightarrow> bool option" where
  "evaluateContextCondition [] value context = Some False"
| "evaluateContextCondition (p # ps) value context =
     (case context p of
        None \<Rightarrow> Some False
      | Some v \<Rightarrow>
          if ps = [] then iface_eq v value
          else (case v of VMap m \<Rightarrow> evaluateContextCondition ps value m | _ \<Rightarrow> Some False))"

text \<open>One turn of the loop of \<open>evaluateConditions\<close>: \<open>Some True\<close> goes on.\<close>

definition evaluate_condition :: "string \<Rightarrow> gval \<Rightarrow> AuthorizationRequest \<Rightarrow> bool option" where
  "evaluate_condition key value req =
     (let parts = strings_Split key ''.''
      in if length parts < 2 then Some True
         else if hd parts = ''subject'' then evaluateSubjectCondition (tl parts) value (rq_Subject req)
         else if hd parts = ''resource'' then evaluateResourceCondition (tl parts) value (rq_Resource req)
         else if hd parts = ''context'' then evaluateContextCondition (tl parts) value (rq_Context req)
         else Some True)"

fun evaluateConditions :: "string list \<Rightarrow> (string \<rightharpoonup> gval) \<Rightarrow> AuthorizationRequest \<Rightarrow> bool option" where
  "evaluateConditions [] conditions req = Some True"
| "evaluateConditions (key # keys) conditions req =
     (case evaluate_condition key (the (conditions key)) req of
        None \<Rightarrow> None
      | Some False \<Rightarrow> Some False
      | Some True \<Rightarrow> evaluateConditions keys conditions req)"

subsection \<open>Evaluation\<close>

text \<open>The body of the loop over the rules: whether the rule matches.\<close>

definition rule_matches :: "string list \<Rightarrow> PolicyRule \<Rightarrow> AuthorizationRequest \<Rightarrow> bool option" where
  "rule_matches order rule req =
     (let subjectMatches = list_ex (\<lambda>p. matchesPattern (su_ID (rq_Subject req)) p \<or>
             matchesPattern (''role:'' @ joinRoles (su_Roles (rq_Subject req))) p) (pr_Subjects rule);
          resourceStr = re_Type (rq_Resource req) @ '':'' @ re_ID (rq_Resource req);
          resourceMatches = list_ex (matchesPattern resourceStr) (pr_Resources rule);
          actionMatches = list_ex (matchesPattern (rq_Action req)) (pr_Actions rule)
      in if \<not> subjectMatches \<and> pr_Subjects rule \<noteq> [] then Some False
         else if \<not> resourceMatches \<and> pr_Resources rule \<noteq> [] then Some False
         else if \<not> actionMatches \<and> pr_Actions rule \<noteq> [] then Some False
         else evaluateConditions order (pr_Conditions rule) req)"

abbreviation response :: "bool \<Rightarrow> string \<Rightarrow> AuthorizationResponse" where
  "response allowed reason \<equiv> \<lparr>rs_Allowed = allowed, rs_Reason = reason, rs_Obligations = Map.empty\<rparr>"

fun evaluate_rules ::
  "(PolicyRule \<Rightarrow> string list) \<Rightarrow> PolicyRule list \<Rightarrow> string \<Rightarrow> AuthorizationRequest \<Rightarrow> AuthorizationResponse go" where
  "evaluate_rules order [] defaultAction req = GoOk (response (defaultAction = ''allow'') ''Default action'')"
| "evaluate_rules order (rule # rules) defaultAction req =
     (case rule_matches (order rule) rule req of
        None \<Rightarrow> GoPanic
      | Some True \<Rightarrow> GoOk (response (pr_Effect rule = ''allow'') (pr_Name rule))
      | Some False \<Rightarrow> evaluate_rules order rules defaultAction req)"

definition find_policy :: "LocalPolicyEvaluator \<Rightarrow> string \<Rightarrow> Policy option" where
  "find_policy e resourceType =
     (case lp_policies e resourceType of Some p \<Rightarrow> Some p | None \<Rightarrow> lp_policies e ''default'')"

definition Local_Evaluate ::
  "(PolicyRule \<Rightarrow> string list) \<Rightarrow> LocalPolicyEvaluator \<Rightarrow> AuthorizationRequest \<Rightarrow> AuthorizationResponse go" where
  "Local_Evaluate order e req =
     (case find_policy e (re_Type (rq_Resource req)) of
        None \<Rightarrow> GoOk (response False ''No applicable policy found'')
      | Some policy \<Rightarrow> evaluate_rules order (po_Rules policy) (po_DefaultAction policy) req)"

text \<open>
  \<open>LoadPolicies\<close>: what \<open>filepath.Walk\<close> visits, in its order.  A file holds the outcome of reading and
  of parsing it; an error of the walk itself ends it.
\<close>

datatype walked =
    WalkError string
  | WalkDir
  | WalkFile string "string + (string + Policy)"

fun load_walk :: "walked list \<Rightarrow> (string \<rightharpoonup> Policy) \<Rightarrow> string option \<times> (string \<rightharpoonup> Policy)" where
  "load_walk [] ps = (None, ps)"
| "load_walk (WalkError e # ws) ps = (Some e, ps)"
| "load_walk (WalkDir # ws) ps = load_walk ws ps"
| "load_walk (WalkFile name content # ws) ps =
     load_walk ws
       (if \<not> strings_HasSuffix name ''.json'' then ps
        else case content of
            Inr (Inr policy) \<Rightarrow> ps(po_Name policy \<mapsto> policy)
          | _ \<Rightarrow> ps)"

definition LoadPolicies ::
  "bool \<Rightarrow> walked list \<Rightarrow> LocalPolicyEvaluator \<Rightarrow> string option \<times> LocalPolicyEvaluator" where
  "LoadPolicies path_exists ws e =
     (let e = e\<lparr>lp_policies := Map.empty\<rparr>
      in if \<not> path_exists then (Some (''policy path does not exist: '' @ lp_policyPath e), e)
         else let (err, ps) = load_walk ws Map.empty in (err, e\<lparr>lp_policies := ps\<rparr>))"

definition NewLocalPolicyEvaluator :: "bool \<Rightarrow> walked list \<Rightarrow> string \<Rightarrow> LocalPolicyEvaluator" where
  "NewLocalPolicyEvaluator path_exists ws policyPath =
     (let e = \<lparr>lp_policyPath = policyPath, lp_policies = Map.empty\<rparr>
      in if policyPath \<noteq> [] then snd (LoadPolicies path_exists ws e) else e)"

subsection \<open>The OPA evaluator\<close>

text \<open>What the server answered: a failure, or a status and the decoded result.\<close>

datatype opa_answer =
    OpaFailed string
  | OpaStatus int "string + (string \<rightharpoonup> gval)"

definition opa_input :: "AuthorizationRequest \<Rightarrow> gval" where
  "opa_input req =
     VMap [''subject'' \<mapsto> VMap [''id'' \<mapsto> VStr (su_ID (rq_Subject req)), ''roles'' \<mapsto> VStrs (su_Roles (rq_Subject req)),
                                ''permissions'' \<mapsto> VStrs (su_Permissions (rq_Subject req)),
                                ''attributes'' \<mapsto> VMap (su_Attributes (rq_Subject req))],
           ''resource'' \<mapsto> VMap [''type'' \<mapsto> VStr (re_Type (rq_Resource req)), ''id'' \<mapsto> VStr (re_ID (rq_Resource req)),
                                 ''attributes'' \<mapsto> VMap (re_Attributes (rq_Resource req))],
           ''action'' \<mapsto> VStr (rq_Action req), ''context'' \<mapsto> VMap (rq_Context req)]"

definition OPA_Evaluate :: "(gval \<Rightarrow> opa_answer) \<Rightarrow> AuthorizationRequest \<Rightarrow> AuthorizationResponse go" where
  "OPA_Evaluate server req =
     (case server (opa_input req) of
        OpaFailed e \<Rightarrow> GoErr (''failed to send request to OPA: '' @ e)
      | OpaStatus code body \<Rightarrow>
          if code \<noteq> 200 then GoErr (''OPA returned non-OK status: '' @ fmt_d code)
          else case body of
              Inl e \<Rightarrow> GoErr (''failed to decode OPA response: '' @ e)
            | Inr result \<Rightarrow>
                GoOk \<lparr>rs_Allowed = (case result ''allow'' of Some (VBool b) \<Rightarrow> b | _ \<Rightarrow> False),
                      rs_Reason = (case result ''reason'' of Some (VStr r) \<Rightarrow> r | _ \<Rightarrow> ''Default deny''),
                      rs_Obligations = (case result ''obligations'' of Some (VMap m) \<Rightarrow> m | _ \<Rightarrow> Map.empty)\<rparr>)"

subsection \<open>What a pattern, a rule and a policy mean\<close>

definition glob :: "string \<Rightarrow> string \<Rightarrow> bool" where
  "glob s p \<longleftrightarrow> s = p \<or> (\<exists>x y. p = x @ ''*'' \<and> s = x @ y) \<or>
     ((\<nexists>x. p = x @ ''*'') \<and> (\<exists>x y. p = ''*'' @ x \<and> s = y @ x))"

lemma matchesPattern_glob: "matchesPattern s p \<longleftrightarrow> glob s p"
proof -
  consider (suffix) x where "p = x @ ''*''" | (prefix) x where "p = ''*'' @ x" "\<nexists>y. p = y @ ''*''"
    | (plain) "\<nexists>x. p = x @ ''*''" "\<nexists>x. p = ''*'' @ x"
    by blast
  then show ?thesis
  proof cases
    case suffix
    then show ?thesis by (auto simp: matchesPattern_def glob_def go_strings)
  next
    case prefix
    then have "p \<noteq> ''*''" by force
    moreover have "strings_TrimPrefix p ''*'' = x" unfolding prefix(1) by (rule TrimPrefix_append)
    ultimately show ?thesis using prefix by (auto simp: matchesPattern_def glob_def go_strings)
  next
    case plain
    then show ?thesis by (auto simp: matchesPattern_def glob_def go_strings)
  qed
qed

text \<open>A value that \<open>==\<close> compares without panic.\<close>

fun comparable :: "gval \<Rightarrow> bool" where
  "comparable (VList _) = False"
| "comparable (VStrs _) = False"
| "comparable (VMap _) = False"
| "comparable _ = True"

lemma iface_eq_comparable: "comparable v \<Longrightarrow> iface_eq u v = Some (u = v)"
  by (cases v; cases u) auto

lemma context_condition_total: "comparable v \<Longrightarrow> evaluateContextCondition ps v c \<noteq> None"
  by (induction ps v c rule: evaluateContextCondition.induct) (auto simp: iface_eq_comparable split: option.split gval.split)

lemma subject_condition_total: "comparable v \<Longrightarrow> evaluateSubjectCondition ps v sub \<noteq> None"
  by (simp add: evaluateSubjectCondition_def iface_eq_comparable del: not_None_eq split: list.split option.split)

lemma resource_condition_total: "comparable v \<Longrightarrow> evaluateResourceCondition ps v r \<noteq> None"
  by (simp add: evaluateResourceCondition_def iface_eq_comparable del: not_None_eq split: list.split option.split)

lemma condition_total: "comparable v \<Longrightarrow> evaluate_condition k v req \<noteq> None"
  unfolding evaluate_condition_def Let_def
  by (simp add: subject_condition_total resource_condition_total context_condition_total del: not_None_eq)

lemma evaluateConditions_all:
  assumes "\<And>k. k \<in> set ks \<Longrightarrow> comparable (the (cs k))"
  shows "evaluateConditions ks cs req = Some (\<forall>k\<in>set ks. evaluate_condition k (the (cs k)) req = Some True)"
  using assms
proof (induction ks)
  case (Cons k ks)
  then obtain b where b: "evaluate_condition k (the (cs k)) req = Some b"
    using condition_total [of "the (cs k)" k req] by auto
  with Cons show ?case by (cases b) auto
qed simp

text \<open>A rule applies when each of its lists is empty or has a pattern that matches and every condition holds.\<close>

definition rule_applies :: "PolicyRule \<Rightarrow> AuthorizationRequest \<Rightarrow> bool" where
  "rule_applies r req \<longleftrightarrow>
     (pr_Subjects r = [] \<or> (\<exists>p\<in>set (pr_Subjects r). glob (su_ID (rq_Subject req)) p \<or>
        glob (''role:'' @ strings_Join (su_Roles (rq_Subject req)) '' '') p)) \<and>
     (pr_Resources r = [] \<or> (\<exists>p\<in>set (pr_Resources r). glob (re_Type (rq_Resource req) @ '':'' @ re_ID (rq_Resource req)) p)) \<and>
     (pr_Actions r = [] \<or> (\<exists>p\<in>set (pr_Actions r). glob (rq_Action req) p)) \<and>
     (\<forall>k v. pr_Conditions r k = Some v \<longrightarrow> evaluate_condition k v req = Some True)"

definition conditions_ok :: "(PolicyRule \<Rightarrow> string list) \<Rightarrow> PolicyRule \<Rightarrow> bool" where
  "conditions_ok order r \<longleftrightarrow>
     iterates (order r) (pr_Conditions r) \<and> (\<forall>v\<in>ran (pr_Conditions r). comparable v)"

lemma joinRoles_Join: "joinRoles rs = strings_Join rs '' ''"
  by (induction rs rule: joinRoles.induct) (auto simp: strings_Join_Cons)

lemma rule_matches_applies:
  assumes "conditions_ok order r"
  shows "rule_matches (order r) r req = Some (rule_applies r req)"
proof -
  have i: "\<And>k. k \<in> set (order r) \<longleftrightarrow> (\<exists>v. pr_Conditions r k = Some v)"
    using assms by (simp add: conditions_ok_def)
  have "comparable (the (pr_Conditions r k))" if "k \<in> set (order r)" for k
    using that assms i by (auto simp: conditions_ok_def ran_def)
  then have e: "evaluateConditions (order r) (pr_Conditions r) req =
      Some (\<forall>k\<in>set (order r). evaluate_condition k (the (pr_Conditions r k)) req = Some True)"
    by (rule evaluateConditions_all)
  have "(\<forall>k\<in>set (order r). evaluate_condition k (the (pr_Conditions r k)) req = Some True) \<longleftrightarrow>
      (\<forall>k v. pr_Conditions r k = Some v \<longrightarrow> evaluate_condition k v req = Some True)"
    using i by force
  with e show ?thesis
    by (auto simp: rule_matches_def rule_applies_def Let_def list_ex_iff matchesPattern_glob joinRoles_Join)
qed

definition policy_decision :: "Policy option \<Rightarrow> AuthorizationRequest \<Rightarrow> bool \<times> string" where
  "policy_decision p req =
     (case p of
        None \<Rightarrow> (False, ''No applicable policy found'')
      | Some p \<Rightarrow>
          (case List.find (\<lambda>r. rule_applies r req) (po_Rules p) of
             None \<Rightarrow> (po_DefaultAction p = ''allow'', ''Default action'')
           | Some r \<Rightarrow> (pr_Effect r = ''allow'', pr_Name r)))"

lemma evaluate_rules_find:
  assumes "\<forall>r\<in>set rs. conditions_ok order r"
  shows "evaluate_rules order rs d req =
    GoOk (case List.find (\<lambda>r. rule_applies r req) rs of
        None \<Rightarrow> response (d = ''allow'') ''Default action''
      | Some r \<Rightarrow> response (pr_Effect r = ''allow'') (pr_Name r))"
  using assms by (induction rs) (auto simp: rule_matches_applies split: bool.split)

text \<open>Rules and requests used at concrete inputs.\<close>

definition admin_rule :: PolicyRule where
  "admin_rule =
     \<lparr>pr_Name = ''admins'', pr_Description = [], pr_Effect = ''allow'', pr_Subjects = [''role:admin''],
      pr_Resources = [''doc:*''], pr_Actions = [], pr_Conditions = Map.empty\<rparr>"

definition doc_policies :: LocalPolicyEvaluator where
  "doc_policies =
     \<lparr>lp_policyPath = ''p'', lp_policies = [''doc'' \<mapsto> \<lparr>po_Name = ''doc'', po_Description = [], po_Rules = [admin_rule],
        po_DefaultAction = ''deny''\<rparr>]\<rparr>"

definition doc_request :: "string list \<Rightarrow> AuthorizationRequest" where
  "doc_request roles =
     \<lparr>rq_Subject = \<lparr>su_ID = ''u'', su_Roles = roles, su_Permissions = [], su_Attributes = Map.empty\<rparr>,
      rq_Resource = \<lparr>re_Type = ''doc'', re_ID = ''7'', re_Attributes = Map.empty\<rparr>,
      rq_Action = ''read'', rq_Context = Map.empty\<rparr>"

subsection \<open>Properties\<close>

text \<open>
  The local evaluator decides by the first rule that applies: with conditions on
  comparable values, and whatever the order in which the conditions are ranged over, it returns the
  effect of the first rule of the policy of the resource's type (or of the default policy)
  that applies, else the policy's default action, and it denies when there is no policy.
\<close>

theorem Local_Evaluate_first_match:
  assumes "\<forall>p r. find_policy e (re_Type (rq_Resource req)) = Some p \<longrightarrow> r \<in> set (po_Rules p) \<longrightarrow> conditions_ok order r"
  shows "\<exists>resp. Local_Evaluate order e req = GoOk resp \<and>
    (rs_Allowed resp, rs_Reason resp) = policy_decision (find_policy e (re_Type (rq_Resource req))) req"
proof (cases "find_policy e (re_Type (rq_Resource req))")
  case None
  then show ?thesis by (simp add: Local_Evaluate_def policy_decision_def)
next
  case (Some p)
  then have "\<forall>r\<in>set (po_Rules p). conditions_ok order r" using assms by simp
  from evaluate_rules_find [OF this] Some show ?thesis
    by (auto simp: Local_Evaluate_def policy_decision_def split: option.split)
qed

theorem Local_Evaluate_first_match_witness:
  "\<exists>resp. Local_Evaluate (\<lambda>_. []) doc_policies (doc_request [''admin'']) = GoOk resp \<and> rs_Allowed resp"
proof -
  have "\<exists>resp. Local_Evaluate (\<lambda>_. []) doc_policies (doc_request [''admin'']) = GoOk resp \<and>
    (rs_Allowed resp, rs_Reason resp) =
      policy_decision (find_policy doc_policies (re_Type (rq_Resource (doc_request [''admin''])))) (doc_request [''admin''])"
    by (rule Local_Evaluate_first_match)
      (auto simp: doc_policies_def doc_request_def find_policy_def admin_rule_def conditions_ok_def)
  moreover have "rule_applies admin_rule (doc_request [''admin''])"
    by (simp add: rule_applies_def admin_rule_def doc_request_def glob_def)
  then have "policy_decision (find_policy doc_policies (re_Type (rq_Resource (doc_request [''admin''])))) (doc_request [''admin'']) = (True, ''admins'')"
    by (simp add: policy_decision_def find_policy_def doc_policies_def doc_request_def) (simp add: admin_rule_def)
  ultimately show ?thesis by auto
qed

text \<open>
  A pattern for a role only matches subjects with that role alone: the evaluator compares it with
  all roles of the subject joined by spaces, so a subject that gains a second role loses what the
  rule for its first role allowed, and a subject without roles is matched by the pattern \<open>role:*\<close>.
\<close>

theorem second_role_loses_access:
  "Local_Evaluate (\<lambda>_. []) doc_policies (doc_request [''admin'']) = GoOk (response True ''admins'') \<and>
   Local_Evaluate (\<lambda>_. []) doc_policies (doc_request [''auditor'', ''admin'']) = GoOk (response False ''Default action'') \<and>
   matchesPattern (''role:'' @ joinRoles (su_Roles (rq_Subject (doc_request [])))) ''role:*''"
  by (simp add: Local_Evaluate_def find_policy_def doc_policies_def doc_request_def admin_rule_def rule_matches_def
      matchesPattern_def strings_HasSuffix_def strings_HasPrefix_def strings_TrimSuffix_def Let_def)

text \<open>
  A condition the evaluator does not understand is taken as met: a key without a dot or
  with a first part other than subject, resource and context never keeps a rule from matching.
\<close>

theorem unknown_condition_ignored:
  assumes "hd (strings_Split key ''.'') \<notin> {''subject'', ''resource'', ''context''} \<or> length (strings_Split key ''.'') < 2"
  shows "evaluateConditions (ks @ key # ks') conditions req = evaluateConditions (ks @ ks') conditions req"
proof -
  have "evaluate_condition key v req = Some True" for v using assms by (auto simp: evaluate_condition_def Let_def)
  then show ?thesis by (induction ks) (auto split: option.split bool.split)
qed

theorem unknown_condition_ignored_witness:
  "evaluateConditions ([] @ ''env.ip'' # []) [''env.ip'' \<mapsto> VStr ''10.0.0.1''] (doc_request []) = Some True"
  using unknown_condition_ignored [of "''env.ip''" "[]" "[]" "[''env.ip'' \<mapsto> VStr ''10.0.0.1'']" "doc_request []"]
  by (simp add: strings_Split.simps strings_HasPrefix_def)

end
