(* ===== verification/Authentication.thy ===== *)
theory Authentication
  imports PolicyEvaluator Float64
begin

text \<open>
  Package security: the cache of signing keys (\<open>jwks_client.go\<close>) and JWT authentication with its HTTP
  middleware (\<open>auth.go\<close>).  The JWT library, the parser of certificates and the HTTP transport are
  arguments; a key is a value of the type \<open>'k\<close>.  A middleware answers with an HTTP error or
  calls the next handler with a request (\<open>Next\<close>).
\<close>

named_theorems auth_defs

subsection \<open>Claims, contexts and requests\<close>

datatype auth_error =
    ErrNoToken
  | ErrInvalidToken
  | ErrTokenExpired
  | ErrInvalidClaims
  | ErrInvalidAudience
  | ErrInvalidIssuer
  | ErrJWKSFetchFailed string
  | ErrKeyNotFound
  | ErrUnsupportedMethod
  | ErrEndpointRequired
  | ErrInitialJWKS auth_error
  | ErrRefresh auth_error
  | ErrCreateClient auth_error
  | ErrValidation "auth_error option" \<comment> \<open>an error of the library, with the error of the key function it wraps\<close>
  | ErrTokenLookup string
  | ErrTokenSource string

record Claims =
  cl_Subject :: string
  cl_Issuer :: string
  cl_Audience :: "string list"
  cl_ExpiresAt :: time
  cl_NotBefore :: time
  cl_IssuedAt :: time
  cl_ID :: string
  cl_Custom :: "string \<rightharpoonup> gval"

record auth_context =
  cx_claims :: "Claims option"
  cx_roles :: "string list option"
  cx_permissions :: "string list option"
  cx_values :: "string \<rightharpoonup> gval" \<comment> \<open>single claims, under the keys of \<open>ClaimContextKey\<close>\<close>

record http_request =
  ht_Method :: string
  ht_Path :: string
  ht_Header :: "string \<Rightarrow> string" \<comment> \<open>the empty string when absent\<close>
  ht_Query :: "string \<Rightarrow> string"
  ht_Cookie :: "string \<rightharpoonup> string"
  ht_Context :: auth_context

datatype http_out = HttpError int string | Next http_request

definition ClaimContextKey :: "string \<Rightarrow> string" where
  "ClaimContextKey claim = ''auth_claim_'' @ claim"

definition ParseScopeString :: "string \<Rightarrow> string \<Rightarrow> bool" where
  "ParseScopeString scope s \<longleftrightarrow> s \<noteq> [] \<and> s \<in> set (strings_Split scope '' '')"

definition Claims_Valid :: "time \<Rightarrow> Claims \<Rightarrow> auth_error option" where
  "Claims_Valid now c =
     (if cl_ExpiresAt c \<noteq> zero_Time \<and> cl_ExpiresAt c < now then Some ErrTokenExpired
      else if cl_NotBefore c \<noteq> zero_Time \<and> now < cl_NotBefore c then Some ErrInvalidToken
      else None)"

definition GetClaimsFromContext :: "auth_context \<Rightarrow> Claims option" where
  "GetClaimsFromContext ctx = cx_claims ctx"

record AuthConfig =
  ac_JWKSEndpoint :: string
  ac_Issuer :: string
  ac_Audience :: "string list"
  ac_RefreshInterval :: duration
  ac_TokenLookup :: string
  ac_AuthScheme :: string
  ac_BypassPaths :: "string list"

definition DefaultAuthConfig :: AuthConfig where
  "DefaultAuthConfig =
     \<lparr>ac_JWKSEndpoint = [], ac_Issuer = [], ac_Audience = [], ac_RefreshInterval = 1 * Hour,
      ac_TokenLookup = ''header:Authorization'', ac_AuthScheme = ''Bearer'',
      ac_BypassPaths = [''/health'', ''/metrics'']\<rparr>"

subsection \<open>Keys\<close>

record JWK =
  jk_Kid :: string
  jk_Kty :: string
  jk_Use :: string
  jk_N :: string
  jk_E :: string
  jk_X5c :: "string list"

text \<open>The answer of the endpoint: a failure, or a status and the parsed key set.\<close>

datatype jwks_answer =
    JwksFailed string
  | JwksStatus int "string + JWK list"

record 'k JWKSClient =
  jc_endpoint :: string
  jc_keys :: "string \<rightharpoonup> 'k"
  jc_lastRefresh :: time
  jc_ticker :: "duration option"
  jc_stopped :: bool

text \<open>The standard base64 alphabet and decoder; line breaks are skipped.\<close>

definition b64_value :: "char \<Rightarrow> int option" where
  "b64_value c =
     (let n = int (of_char c :: nat)
      in if 65 \<le> n \<and> n \<le> 90 then Some (n - 65)
         else if 97 \<le> n \<and> n \<le> 122 then Some (n - 71)
         else if 48 \<le> n \<and> n \<le> 57 then Some (n + 4)
         else if n = 43 then Some 62 else if n = 47 then Some 63 else None)"

fun b64_groups :: "string \<Rightarrow> int list option" where
  "b64_groups [] = Some []"
| "b64_groups [a, b, c, d] =
     (case (b64_value a, b64_value b) of
        (Some x, Some y) \<Rightarrow>
          (if c = CHR ''='' \<and> d = CHR ''='' then Some [x * 4 + y div 16]
           else case b64_value c of
               None \<Rightarrow> None
             | Some z \<Rightarrow>
                 if d = CHR ''='' then Some [x * 4 + y div 16, y mod 16 * 16 + z div 4]
                 else (case b64_value d of
                         None \<Rightarrow> None
                       | Some w \<Rightarrow> Some [x * 4 + y div 16, y mod 16 * 16 + z div 4, z mod 4 * 64 + w]))
      | _ \<Rightarrow> None)"
| "b64_groups (a # b # c # d # rest) =
     (case (b64_value a, b64_value b, b64_value c, b64_value d) of
        (Some x, Some y, Some z, Some w) \<Rightarrow>
          map_option (\<lambda>bs. [x * 4 + y div 16, y mod 16 * 16 + z div 4, z mod 4 * 64 + w] @ bs) (b64_groups rest)
      | _ \<Rightarrow> None)"
| "b64_groups _ = None"

definition decodeBase64URLSegment :: "string \<Rightarrow> int list option" where
  "decodeBase64URLSegment seg =
     (let seg = (if length seg mod 4 = 2 then seg @ ''=='' else if length seg mod 4 = 3 then seg @ ''='' else seg);
          seg = map (\<lambda>c. if c = CHR ''-'' then CHR ''+'' else c) seg;
          seg = map (\<lambda>c. if c = CHR ''_'' then CHR ''/'' else c) seg
      in b64_groups (filter (\<lambda>c. c \<noteq> CHR 0x0A \<and> c \<noteq> CHR 0x0D) seg))"

text \<open>The modulus is a big integer, the exponent an int built with \<open>exponent<<8 + int(e[i])\<close>.\<close>

definition parseRSAPublicKeyFromJWK :: "string \<Rightarrow> string \<Rightarrow> string + int \<times> int" where
  "parseRSAPublicKeyFromJWK nStr eStr =
     (case decodeBase64URLSegment nStr of
        None \<Rightarrow> Inl ''failed to decode modulus''
      | Some n \<Rightarrow>
          (case decodeBase64URLSegment eStr of
             None \<Rightarrow> Inl ''failed to decode exponent''
           | Some e \<Rightarrow> Inr (foldl (\<lambda>a b. a * 256 + b) 0 n, foldl (\<lambda>a b. wrap64 (wrap64 (a * 256) + b)) 0 e)))"

text \<open>\<open>parse_pem\<close> parses a certificate, \<open>rsa_key\<close> makes a key of modulus and exponent.\<close>

definition process_key ::
  "(string \<Rightarrow> string + 'k) \<Rightarrow> (int \<times> int \<Rightarrow> 'k) \<Rightarrow> JWK \<Rightarrow> 'k option" where
  "process_key parse_pem rsa_key key =
     (if jk_Use key \<noteq> ''sig'' then None
      else if jk_Kty key = ''RSA'' then
        (case jk_X5c key of
           cert # _ \<Rightarrow>
             (case parse_pem (''-----BEGIN CERTIFICATE-----'' @ [CHR 0x0A] @ cert @ [CHR 0x0A] @ ''-----END CERTIFICATE-----'') of
                Inl e \<Rightarrow> None | Inr k \<Rightarrow> Some k)
         | [] \<Rightarrow>
             if jk_N key \<noteq> [] \<and> jk_E key \<noteq> [] then
               (case parseRSAPublicKeyFromJWK (jk_N key) (jk_E key) of Inl e \<Rightarrow> None | Inr ne \<Rightarrow> Some (rsa_key ne))
             else None)
      else None)"

definition process_keys ::
  "(string \<Rightarrow> string + 'k) \<Rightarrow> (int \<times> int \<Rightarrow> 'k) \<Rightarrow> JWK list \<Rightarrow> string \<rightharpoonup> 'k" where
  "process_keys parse_pem rsa_key keys =
     foldl (\<lambda>m key. case process_key parse_pem rsa_key key of None \<Rightarrow> m | Some k \<Rightarrow> m(jk_Kid key \<mapsto> k)) Map.empty keys"

definition refreshKeys ::
  "(string \<Rightarrow> string + 'k) \<Rightarrow> (int \<times> int \<Rightarrow> 'k) \<Rightarrow> jwks_answer \<Rightarrow> time \<Rightarrow> 'k JWKSClient \<Rightarrow> auth_error option \<times> 'k JWKSClient" where
  "refreshKeys parse_pem rsa_key answer now c =
     (case answer of
        JwksFailed e \<Rightarrow> (Some (ErrJWKSFetchFailed e), c)
      | JwksStatus code body \<Rightarrow>
          if code \<noteq> 200 then (Some (ErrJWKSFetchFailed (''unexpected status code '' @ fmt_d code)), c)
          else case body of
              Inl e \<Rightarrow> (Some (ErrJWKSFetchFailed (''failed to parse JWKS: '' @ e)), c)
            | Inr keys \<Rightarrow> (None, c\<lparr>jc_keys := process_keys parse_pem rsa_key keys, jc_lastRefresh := now\<rparr>))"

definition NewJWKSClient ::
  "(string \<Rightarrow> string + 'k) \<Rightarrow> (int \<times> int \<Rightarrow> 'k) \<Rightarrow> jwks_answer \<Rightarrow> time \<Rightarrow> string \<Rightarrow> duration \<Rightarrow> auth_error + 'k JWKSClient" where
  "NewJWKSClient parse_pem rsa_key answer now endpoint interval =
     (if endpoint = [] then Inl ErrEndpointRequired
      else
        (case refreshKeys parse_pem rsa_key answer now
                \<lparr>jc_endpoint = endpoint, jc_keys = Map.empty, jc_lastRefresh = zero_Time,
                 jc_ticker = (if 0 < interval then Some interval else None), jc_stopped = False\<rparr> of
           (Some e, c) \<Rightarrow> Inl (ErrInitialJWKS e)
         | (None, c) \<Rightarrow> Inr c))"

definition GetKey :: "string \<Rightarrow> 'k JWKSClient \<Rightarrow> auth_error + 'k" where
  "GetKey kid c = (case jc_keys c kid of None \<Rightarrow> Inl ErrKeyNotFound | Some k \<Rightarrow> Inr k)"

text \<open>Closing a closed channel panics, so a client with a ticker can be stopped once.\<close>

definition JWKS_Stop :: "'k JWKSClient \<Rightarrow> 'k JWKSClient go" where
  "JWKS_Stop c =
     (if jc_ticker c \<noteq> None then (if jc_stopped c then GoPanic else GoOk (c\<lparr>jc_stopped := True\<rparr>)) else GoOk c)"

definition ForceRefresh ::
  "(string \<Rightarrow> string + 'k) \<Rightarrow> (int \<times> int \<Rightarrow> 'k) \<Rightarrow> jwks_answer \<Rightarrow> time \<Rightarrow> 'k JWKSClient \<Rightarrow> auth_error option \<times> 'k JWKSClient" where
  "ForceRefresh parse_pem rsa_key answer now c = refreshKeys parse_pem rsa_key answer now c"

definition LastRefresh :: "'k JWKSClient \<Rightarrow> time" where
  "LastRefresh c = jc_lastRefresh c"

definition KeyCount :: "'k JWKSClient \<Rightarrow> nat" where
  "KeyCount c = card (dom (jc_keys c))"

text \<open>The ticks the background goroutine receives before it is stopped, each with the answer of the endpoint.\<close>

fun startKeyRefresher ::
  "(string \<Rightarrow> string + 'k) \<Rightarrow> (int \<times> int \<Rightarrow> 'k) \<Rightarrow> (time \<times> jwks_answer) list \<Rightarrow> 'k JWKSClient \<Rightarrow> 'k JWKSClient" where
  "startKeyRefresher parse_pem rsa_key [] c = c"
| "startKeyRefresher parse_pem rsa_key ((now, answer) # ticks) c =
     startKeyRefresher parse_pem rsa_key ticks (snd (refreshKeys parse_pem rsa_key answer now c))"

record 'k JWTAuthenticator =
  ja_config :: AuthConfig
  ja_jwksClient :: "'k JWKSClient"

definition NewJWTAuthenticator ::
  "(string \<Rightarrow> string + 'k) \<Rightarrow> (int \<times> int \<Rightarrow> 'k) \<Rightarrow> jwks_answer \<Rightarrow> time \<Rightarrow> AuthConfig \<Rightarrow> auth_error + 'k JWTAuthenticator" where
  "NewJWTAuthenticator parse_pem rsa_key answer now config =
     (if ac_JWKSEndpoint config = [] then Inl ErrEndpointRequired
      else case NewJWKSClient parse_pem rsa_key answer now (ac_JWKSEndpoint config) (ac_RefreshInterval config) of
          Inl e \<Rightarrow> Inl (ErrCreateClient e)
        | Inr c \<Rightarrow> Inr \<lparr>ja_config = config, ja_jwksClient = c\<rparr>)"

subsection \<open>Tokens\<close>

record jwt_header =
  jh_RSA :: bool \<comment> \<open>the method is one of the RSA family\<close>
  jh_kid :: "gval option"

record jwt_token =
  tk_Valid :: bool
  tk_Claims :: "(string \<rightharpoonup> gval) option" \<comment> \<open>\<open>None\<close> when the claims are not a map\<close>

type_synonym 'k jwt_parser = "string \<Rightarrow> (jwt_header \<Rightarrow> auth_error + 'k) \<Rightarrow> auth_error option + jwt_token"

definition keyfunc :: "'k JWKSClient \<Rightarrow> jwt_header \<Rightarrow> auth_error + 'k" where
  "keyfunc c hdr =
     (if \<not> jh_RSA hdr then Inl ErrUnsupportedMethod
      else case jh_kid hdr of Some (VStr kid) \<Rightarrow> GetKey kid c | _ \<Rightarrow> Inl ErrKeyNotFound)"

definition claim_string :: "(string \<rightharpoonup> gval) \<Rightarrow> string \<Rightarrow> string" where
  "claim_string m k = (case m k of Some (VStr s) \<Rightarrow> s | _ \<Rightarrow> [])"

definition claim_time :: "(float64 \<Rightarrow> int) \<Rightarrow> (string \<rightharpoonup> gval) \<Rightarrow> string \<Rightarrow> time" where
  "claim_time ovf m k = (case m k of Some (VNum r) \<Rightarrow> f64_to_int64 ovf (Fin r) * Second | _ \<Rightarrow> zero_Time)"

definition extract_claims :: "(float64 \<Rightarrow> int) \<Rightarrow> (string \<rightharpoonup> gval) \<Rightarrow> Claims" where
  "extract_claims ovf m =
     \<lparr>cl_Subject = claim_string m ''sub'', cl_Issuer = claim_string m ''iss'',
      cl_Audience = (case m ''aud'' of
          Some (VList vs) \<Rightarrow> map (\<lambda>v. case v of VStr s \<Rightarrow> s | _ \<Rightarrow> []) vs
        | Some (VStr s) \<Rightarrow> [s]
        | _ \<Rightarrow> []),
      cl_ExpiresAt = claim_time ovf m ''exp'', cl_NotBefore = claim_time ovf m ''nbf'',
      cl_IssuedAt = claim_time ovf m ''iat'', cl_ID = claim_string m ''jti'',
      cl_Custom = m |` (- {''sub'', ''iss'', ''aud'', ''exp'', ''nbf'', ''iat'', ''jti''})\<rparr>"

definition check_claims :: "AuthConfig \<Rightarrow> Claims \<Rightarrow> auth_error + Claims" where
  "check_claims config claims =
     (if ac_Issuer config \<noteq> [] \<and> cl_Issuer claims \<noteq> ac_Issuer config then Inl ErrInvalidIssuer
      else if ac_Audience config \<noteq> [] \<and>
        \<not> list_ex (\<lambda>a. list_ex (\<lambda>b. a = b) (ac_Audience config)) (cl_Audience claims) then Inl ErrInvalidAudience
      else Inr claims)"

definition accept_token :: "(float64 \<Rightarrow> int) \<Rightarrow> AuthConfig \<Rightarrow> jwt_token \<Rightarrow> auth_error + Claims" where
  "accept_token ovf config token =
     (if \<not> tk_Valid token then Inl ErrInvalidToken
      else case tk_Claims token of
          None \<Rightarrow> Inl ErrInvalidClaims
        | Some m \<Rightarrow> check_claims config (extract_claims ovf m))"

text \<open>\<open>refresh\<close> is a call of \<open>ForceRefresh\<close>.\<close>

definition ValidateToken ::
  "'k jwt_parser \<Rightarrow> ('k JWKSClient \<Rightarrow> auth_error option \<times> 'k JWKSClient) \<Rightarrow> (float64 \<Rightarrow> int) \<Rightarrow> AuthConfig \<Rightarrow>
   string \<Rightarrow> 'k JWKSClient \<Rightarrow> (auth_error + Claims) \<times> 'k JWKSClient" where
  "ValidateToken parse refresh ovf config tokenString c =
     (case parse tokenString (keyfunc c) of
        Inr token \<Rightarrow> (accept_token ovf config token, c)
      | Inl cause \<Rightarrow>
          if cause = Some ErrKeyNotFound then
            (case refresh c of
               (Some e, c') \<Rightarrow> (Inl (ErrRefresh e), c')
             | (None, c') \<Rightarrow>
                 (case parse tokenString (keyfunc c') of
                    Inl cause' \<Rightarrow> (Inl (ErrValidation cause'), c')
                  | Inr token \<Rightarrow> (accept_token ovf config token, c')))
          else (Inl (ErrValidation cause), c))"

definition extractToken :: "AuthConfig \<Rightarrow> http_request \<Rightarrow> auth_error + string" where
  "extractToken config r =
     (case strings_Split (ac_TokenLookup config) '':'' of
        [source, name] \<Rightarrow>
          if source = ''header'' then
            (let authHeader = ht_Header r name
             in if authHeader = [] then Inl ErrNoToken
                else if ac_AuthScheme config \<noteq> [] then
                  (if \<not> strings_HasPrefix authHeader (ac_AuthScheme config) then Inl ErrInvalidToken
                   else Inr (strings_TrimPrefix authHeader (ac_AuthScheme config @ '' '')))
                else Inr authHeader)
          else if source = ''query'' then
            (let token = ht_Query r name in if token = [] then Inl ErrNoToken else Inr token)
          else if source = ''cookie'' then
            (case ht_Cookie r name of None \<Rightarrow> Inl ErrNoToken | Some v \<Rightarrow> Inr v)
          else Inl (ErrTokenSource source)
      | _ \<Rightarrow> Inl (ErrTokenLookup (ac_TokenLookup config)))"

subsection \<open>Middleware\<close>

definition Middleware ::
  "(string \<Rightarrow> 'c \<Rightarrow> (auth_error + Claims) \<times> 'c) \<Rightarrow> AuthConfig \<Rightarrow> http_request \<Rightarrow> 'c \<Rightarrow> http_out \<times> 'c" where
  "Middleware validate config r c =
     (case extractToken config r of
        Inl e \<Rightarrow> (HttpError 401 ''Unauthorized'', c)
      | Inr tokenString \<Rightarrow>
          (case validate tokenString c of
             (Inl e, c') \<Rightarrow> (HttpError 401 ''Unauthorized'', c')
           | (Inr claims, c') \<Rightarrow> (Next (r\<lparr>ht_Context := (ht_Context r)\<lparr>cx_claims := Some claims\<rparr>\<rparr>), c')))"

definition WithBypass ::
  "(string \<Rightarrow> 'c \<Rightarrow> (auth_error + Claims) \<times> 'c) \<Rightarrow> AuthConfig \<Rightarrow> string list \<Rightarrow> http_request \<Rightarrow> 'c \<Rightarrow> http_out \<times> 'c" where
  "WithBypass validate config paths r c =
     (if list_ex (\<lambda>path. strings_HasPrefix (ht_Path r) path) paths then (Next r, c)
      else Middleware validate config r c)"

definition RequireScope :: "string \<Rightarrow> http_request \<Rightarrow> http_out" where
  "RequireScope scope r =
     (case GetClaimsFromContext (ht_Context r) of
        None \<Rightarrow> HttpError 401 ''Unauthorized''
      | Some claims \<Rightarrow>
          (case cl_Custom claims ''scope'' of
             Some (VStr scopes) \<Rightarrow>
               if scope \<in> set (strings_Split scopes '' '') then Next r else HttpError 403 ''Forbidden''
           | _ \<Rightarrow> HttpError 403 ''Forbidden''))"

end
