(* ===== verification/Authorization.thy ===== *)
theory Authorization
  imports Authentication
begin

text \<open>
  Package security: role-based authorization and its middleware for HTTP (\<open>authorization.go\<close>) and gRPC
  (\<open>grpc_authorization.go\<close>).  The interface \<open>Authorizer\<close> is the record of its methods; a middleware
  may panic when the evaluation of a policy does.
\<close>

named_theorems authz_defs

record AuthorizationConfig =
  az_Enabled :: bool
  az_DefaultPolicy :: string
  az_OPAEndpoint :: string
  az_PolicyPath :: string
  az_RoleMappingClaim :: string
  az_PermissionMappingClaim :: string

definition DefaultAuthorizationConfig :: AuthorizationConfig where
  "DefaultAuthorizationConfig =
     \<lparr>az_Enabled = False, az_DefaultPolicy = ''deny'', az_OPAEndpoint = [], az_PolicyPath = [],
      az_RoleMappingClaim = ''roles'', az_PermissionMappingClaim = ''permissions''\<rparr>"

datatype authz_error = ErrUnauthorized

text \<open>The dynamic types of the interface \<open>PolicyEvaluator\<close>.\<close>

datatype Evaluator = LocalEvaluator LocalPolicyEvaluator | OPAEvaluator string

fun Evaluate ::
  "(PolicyRule \<Rightarrow> string list) \<Rightarrow> (string \<Rightarrow> gval \<Rightarrow> opa_answer) \<Rightarrow> Evaluator \<Rightarrow> AuthorizationRequest \<Rightarrow> AuthorizationResponse go" where
  "Evaluate order server (LocalEvaluator e) req = Local_Evaluate order e req"
| "Evaluate order server (OPAEvaluator endpoint) req = OPA_Evaluate (server endpoint) req"

record RBACAuthorizer =
  ra_config :: AuthorizationConfig
  ra_evaluator :: Evaluator
  ra_roleMap :: "string \<rightharpoonup> string list"

definition NewRBACAuthorizer :: "bool \<Rightarrow> walked list \<Rightarrow> AuthorizationConfig \<Rightarrow> RBACAuthorizer" where
  "NewRBACAuthorizer path_exists ws config =
     \<lparr>ra_config = config,
      ra_evaluator = (if az_OPAEndpoint config \<noteq> [] then OPAEvaluator (az_OPAEndpoint config)
                      else LocalEvaluator (NewLocalPolicyEvaluator path_exists ws (az_PolicyPath config))),
      ra_roleMap = Map.empty\<rparr>"

definition Authorize ::
  "(PolicyRule \<Rightarrow> string list) \<Rightarrow> (string \<Rightarrow> gval \<Rightarrow> opa_answer) \<Rightarrow> RBACAuthorizer \<Rightarrow> AuthorizationRequest \<Rightarrow> AuthorizationResponse go" where
  "Authorize order server a req = Evaluate order server (ra_evaluator a) req"

definition GetRoles :: "auth_context \<Rightarrow> string list option" where
  "GetRoles ctx = cx_roles ctx"

definition GetPermissions :: "auth_context \<Rightarrow> string list option" where
  "GetPermissions ctx = cx_permissions ctx"

definition HasRole :: "auth_context \<Rightarrow> string \<Rightarrow> authz_error + bool" where
  "HasRole ctx role = (case GetRoles ctx of None \<Rightarrow> Inl ErrUnauthorized | Some roles \<Rightarrow> Inr (list_ex (\<lambda>r. r = role) roles))"

definition HasPermission :: "RBACAuthorizer \<Rightarrow> auth_context \<Rightarrow> string \<Rightarrow> authz_error + bool" where
  "HasPermission a ctx permission =
     (if (case GetPermissions ctx of None \<Rightarrow> False | Some permissions \<Rightarrow> list_ex (\<lambda>p. p = permission) permissions)
      then Inr True
      else case GetRoles ctx of
          None \<Rightarrow> Inl ErrUnauthorized
        | Some roles \<Rightarrow>
            Inr (list_ex (\<lambda>role. case ra_roleMap a role of
                   None \<Rightarrow> False | Some perms \<Rightarrow> list_ex (\<lambda>p. p = permission) perms) roles))"

fun add_missing :: "string list \<Rightarrow> string list \<Rightarrow> string list" where
  "add_missing existing [] = existing"
| "add_missing existing (p # ps) =
     add_missing (if list_ex (\<lambda>ep. ep = p) existing then existing else existing @ [p]) ps"

definition AddRolePermissions :: "string \<Rightarrow> string list \<Rightarrow> RBACAuthorizer \<Rightarrow> RBACAuthorizer" where
  "AddRolePermissions role permissions a =
     (let existingPerms = (case ra_roleMap a role of None \<Rightarrow> [] | Some ps \<Rightarrow> ps)
      in a\<lparr>ra_roleMap := (ra_roleMap a)(role \<mapsto> add_missing existingPerms permissions)\<rparr>)"

definition RemoveRolePermissions :: "string \<Rightarrow> string list \<Rightarrow> RBACAuthorizer \<Rightarrow> RBACAuthorizer" where
  "RemoveRolePermissions role permissions a =
     (case ra_roleMap a role of
        None \<Rightarrow> a
      | Some existingPerms \<Rightarrow>
          a\<lparr>ra_roleMap := (ra_roleMap a)(role \<mapsto> filter (\<lambda>p. p \<notin> set permissions) existingPerms)\<rparr>)"

definition GetRolePermissions :: "string \<Rightarrow> RBACAuthorizer \<Rightarrow> string list" where
  "GetRolePermissions role a = (case ra_roleMap a role of None \<Rightarrow> [] | Some perms \<Rightarrow> perms)"

text \<open>The values of a claim as \<open>ExtractRolesAndPermissions\<close> reads roles and permissions alike.\<close>

definition claim_values :: "gval \<Rightarrow> string list" where
  "claim_values v =
     (case v of
        VList vs \<Rightarrow> concat (map (\<lambda>v. case v of VStr s \<Rightarrow> [s] | _ \<Rightarrow> []) vs)
      | VStrs ss \<Rightarrow> ss
      | VStr s \<Rightarrow> filter (\<lambda>r. r \<noteq> []) (strings_Split s '' '')
      | _ \<Rightarrow> [])"

definition claim_list :: "Claims \<Rightarrow> string \<Rightarrow> string list" where
  "claim_list claims name =
     (if name = [] then []
      else case cl_Custom claims name of None \<Rightarrow> [] | Some v \<Rightarrow> claim_values v)"

definition ExtractRolesAndPermissions :: "auth_context \<Rightarrow> string \<Rightarrow> string \<Rightarrow> string list \<times> string list" where
  "ExtractRolesAndPermissions ctx roleClaim permissionClaim =
     (case GetClaimsFromContext ctx of
        None \<Rightarrow> ([], [])
      | Some claims \<Rightarrow> (claim_list claims roleClaim, claim_list claims permissionClaim))"

definition enrich_context :: "string \<Rightarrow> string \<Rightarrow> auth_context \<Rightarrow> auth_context" where
  "enrich_context roleClaim permissionClaim ctx =
     (let (roles, permissions) = ExtractRolesAndPermissions ctx roleClaim permissionClaim;
          ctx = (if roles \<noteq> [] then ctx\<lparr>cx_roles := Some roles\<rparr> else ctx)
      in if permissions \<noteq> [] then ctx\<lparr>cx_permissions := Some permissions\<rparr> else ctx)"

subsection \<open>The interface and the middleware\<close>

record Authorizer =
  au_Authorize :: "AuthorizationRequest \<Rightarrow> AuthorizationResponse go"
  au_HasRole :: "auth_context \<Rightarrow> string \<Rightarrow> authz_error + bool"
  au_HasPermission :: "auth_context \<Rightarrow> string \<Rightarrow> authz_error + bool"
  au_GetRoles :: "auth_context \<Rightarrow> string list option"
  au_GetPermissions :: "auth_context \<Rightarrow> string list option"

definition rbac ::
  "(PolicyRule \<Rightarrow> string list) \<Rightarrow> (string \<Rightarrow> gval \<Rightarrow> opa_answer) \<Rightarrow> RBACAuthorizer \<Rightarrow> Authorizer" where
  "rbac order server a =
     \<lparr>au_Authorize = Authorize order server a, au_HasRole = HasRole, au_HasPermission = HasPermission a,
      au_GetRoles = GetRoles, au_GetPermissions = GetPermissions\<rparr>"

definition make_subject :: "Authorizer \<Rightarrow> auth_context \<Rightarrow> Claims \<Rightarrow> Subject" where
  "make_subject authorizer ctx claims =
     \<lparr>su_ID = cl_Subject claims,
      su_Roles = (case au_GetRoles authorizer ctx of None \<Rightarrow> [] | Some rs \<Rightarrow> rs),
      su_Permissions = (case au_GetPermissions authorizer ctx of None \<Rightarrow> [] | Some ps \<Rightarrow> ps),
      su_Attributes = cl_Custom claims\<rparr>"

definition http_request_of :: "Authorizer \<Rightarrow> string \<Rightarrow> string \<Rightarrow> http_request \<Rightarrow> Claims \<Rightarrow> AuthorizationRequest" where
  "http_request_of authorizer resourceType action r claims =
     (let attrs = [''method'' \<mapsto> VStr (ht_Method r), ''path'' \<mapsto> VStr (ht_Path r)]
      in \<lparr>rq_Subject = make_subject authorizer (ht_Context r) claims,
          rq_Resource = \<lparr>re_Type = resourceType, re_ID = ht_Path r, re_Attributes = attrs\<rparr>,
          rq_Action = action, rq_Context = attrs\<rparr>)"

definition AuthorizationMiddleware :: "Authorizer \<Rightarrow> string \<Rightarrow> string \<Rightarrow> http_request \<Rightarrow> http_out go" where
  "AuthorizationMiddleware authorizer resourceType action r =
     (case GetClaimsFromContext (ht_Context r) of
        None \<Rightarrow> GoOk (HttpError 401 ''Unauthorized'')
      | Some claims \<Rightarrow>
          (case au_Authorize authorizer (http_request_of authorizer resourceType action r claims) of
             GoPanic \<Rightarrow> GoPanic
           | GoErr e \<Rightarrow> GoOk (HttpError 500 ''Authorization error'')
           | GoOk resp \<Rightarrow> if \<not> rs_Allowed resp then GoOk (HttpError 403 ''Forbidden'') else GoOk (Next r)))"

definition RequireRoleMiddleware :: "Authorizer \<Rightarrow> string \<Rightarrow> http_request \<Rightarrow> http_out" where
  "RequireRoleMiddleware authorizer role r =
     (case au_HasRole authorizer (ht_Context r) role of
        Inl e \<Rightarrow> HttpError 401 ''Unauthorized''
      | Inr hasRole \<Rightarrow> if \<not> hasRole then HttpError 403 ''Forbidden'' else Next r)"

definition RequirePermissionMiddleware :: "Authorizer \<Rightarrow> string \<Rightarrow> http_request \<Rightarrow> http_out" where
  "RequirePermissionMiddleware authorizer permission r =
     (case au_HasPermission authorizer (ht_Context r) permission of
        Inl e \<Rightarrow> HttpError 401 ''Unauthorized''
      | Inr hasPermission \<Rightarrow> if \<not> hasPermission then HttpError 403 ''Forbidden'' else Next r)"

definition RolesAndPermissionsMiddleware :: "string \<Rightarrow> string \<Rightarrow> http_request \<Rightarrow> http_out" where
  "RolesAndPermissionsMiddleware roleClaim permissionClaim r =
     Next (r\<lparr>ht_Context := enrich_context roleClaim permissionClaim (ht_Context r)\<rparr>)"

text \<open>Two middlewares in a row.\<close>

fun and_then :: "http_out \<Rightarrow> (http_request \<Rightarrow> http_out) \<Rightarrow> http_out" where
  "and_then (Next r) f = f r"
| "and_then (HttpError c m) f = HttpError c m"

subsection \<open>gRPC interceptors\<close>

datatype grpc_code = Unauthenticated | Internal | PermissionDenied

datatype grpc_out = GrpcError grpc_code string | Handle auth_context

definition grpc_request_of :: "Authorizer \<Rightarrow> string \<Rightarrow> string \<Rightarrow> string \<Rightarrow> auth_context \<Rightarrow> Claims \<Rightarrow> AuthorizationRequest" where
  "grpc_request_of authorizer resourceType action fullMethod ctx claims =
     (let attrs = [''method'' \<mapsto> VStr fullMethod]
      in \<lparr>rq_Subject = make_subject authorizer ctx claims,
          rq_Resource = \<lparr>re_Type = resourceType, re_ID = fullMethod, re_Attributes = attrs\<rparr>,
          rq_Action = action, rq_Context = attrs\<rparr>)"

definition AuthorizationUnaryServerInterceptor ::
  "Authorizer \<Rightarrow> string \<Rightarrow> string \<Rightarrow> string \<Rightarrow> auth_context \<Rightarrow> grpc_out go" where
  "AuthorizationUnaryServerInterceptor authorizer resourceType action fullMethod ctx =
     (case GetClaimsFromContext ctx of
        None \<Rightarrow> GoOk (GrpcError Unauthenticated ''No authentication claims found'')
      | Some claims \<Rightarrow>
          (case au_Authorize authorizer (grpc_request_of authorizer resourceType action fullMethod ctx claims) of
             GoPanic \<Rightarrow> GoPanic
           | GoErr e \<Rightarrow> GoOk (GrpcError Internal (''Authorization error: '' @ e))
           | GoOk resp \<Rightarrow>
               if \<not> rs_Allowed resp then GoOk (GrpcError PermissionDenied (''Forbidden: '' @ rs_Reason resp))
               else GoOk (Handle ctx)))"

definition AuthorizationStreamServerInterceptor ::
  "Authorizer \<Rightarrow> string \<Rightarrow> string \<Rightarrow> string \<Rightarrow> auth_context \<Rightarrow> grpc_out go" where
  "AuthorizationStreamServerInterceptor authorizer resourceType action fullMethod ctx =
     (case GetClaimsFromContext ctx of
        None \<Rightarrow> GoOk (GrpcError Unauthenticated ''No authentication claims found'')
      | Some claims \<Rightarrow>
          (case au_Authorize authorizer (grpc_request_of authorizer resourceType action fullMethod ctx claims) of
             GoPanic \<Rightarrow> GoPanic
           | GoErr e \<Rightarrow> GoOk (GrpcError Internal (''Authorization error: '' @ e))
           | GoOk resp \<Rightarrow>
               if \<not> rs_Allowed resp then GoOk (GrpcError PermissionDenied (''Forbidden: '' @ rs_Reason resp))
               else GoOk (Handle ctx)))"

text \<open>The unary and the stream interceptor that require a role, or a permission, have the same body.\<close>

definition RequireRoleInterceptor :: "Authorizer \<Rightarrow> string \<Rightarrow> auth_context \<Rightarrow> grpc_out" where
  "RequireRoleInterceptor authorizer role ctx =
     (case au_HasRole authorizer ctx role of
        Inl e \<Rightarrow> GrpcError Unauthenticated ''Authentication error: unauthorized''
      | Inr hasRole \<Rightarrow> if \<not> hasRole then GrpcError PermissionDenied (''Missing required role: '' @ role) else Handle ctx)"

definition RequirePermissionInterceptor :: "Authorizer \<Rightarrow> string \<Rightarrow> auth_context \<Rightarrow> grpc_out" where
  "RequirePermissionInterceptor authorizer permission ctx =
     (case au_HasPermission authorizer ctx permission of
        Inl e \<Rightarrow> GrpcError Unauthenticated ''Authentication error: unauthorized''
      | Inr hasPermission \<Rightarrow>
          if \<not> hasPermission then GrpcError PermissionDenied (''Missing required permission: '' @ permission) else Handle ctx)"

definition RolesAndPermissionsInterceptor :: "string \<Rightarrow> string \<Rightarrow> auth_context \<Rightarrow> grpc_out" where
  "RolesAndPermissionsInterceptor roleClaim permissionClaim ctx = Handle (enrich_context roleClaim permissionClaim ctx)"

end
