(* ===== verification/SecurityProps.thy ===== *)
theory SecurityProps
  imports Authorization
begin

text \<open>
  The properties of package security: tokens are accepted only when a current key of the key set
  signed them for the configured issuer and audience, requests pass the middleware only when the policy
  allows them, and roles and permissions mean what they say.
\<close>

subsection \<open>The interface of an authorizer\<close>

locale authorizer =
  fixes au :: Authorizer and allows :: "AuthorizationRequest \<Rightarrow> bool" and grants :: "auth_context \<Rightarrow> string \<Rightarrow> bool"
  assumes authorize_iff: "(\<exists>resp. au_Authorize au req = GoOk resp \<and> rs_Allowed resp) \<longleftrightarrow> allows req"
    and has_role_iff: "au_HasRole au ctx role = Inr True \<longleftrightarrow> (\<exists>rs. au_GetRoles au ctx = Some rs \<and> role \<in> set rs)"
    and has_permission_iff: "au_HasPermission au ctx p = Inr True \<longleftrightarrow> grants ctx p"
begin

lemma http_authorized_iff:
  "AuthorizationMiddleware au rt action r = GoOk (Next r') \<longleftrightarrow>
   r' = r \<and> (\<exists>claims. GetClaimsFromContext (ht_Context r) = Some claims \<and> allows (http_request_of au rt action r claims))"
  by (auto simp: AuthorizationMiddleware_def authorize_iff [symmetric] split: option.splits go.splits if_splits)

lemma grpc_authorized_iff:
  "AuthorizationUnaryServerInterceptor au rt action m ctx = GoOk (Handle ctx') \<longleftrightarrow>
   ctx' = ctx \<and> (\<exists>claims. GetClaimsFromContext ctx = Some claims \<and> allows (grpc_request_of au rt action m ctx claims))"
  by (auto simp: AuthorizationUnaryServerInterceptor_def authorize_iff [symmetric] split: option.splits go.splits if_splits)

lemma require_role_iff:
  "RequireRoleMiddleware au role r = Next r' \<longleftrightarrow>
   r' = r \<and> (\<exists>rs. au_GetRoles au (ht_Context r) = Some rs \<and> role \<in> set rs)"
  by (auto simp: RequireRoleMiddleware_def has_role_iff [symmetric] split: sum.splits if_splits)

lemma require_permission_iff:
  "RequirePermissionMiddleware au p r = Next r' \<longleftrightarrow> r' = r \<and> grants (ht_Context r) p"
  by (auto simp: RequirePermissionMiddleware_def has_permission_iff [symmetric] split: sum.splits if_splits)

end

definition rbac_allows ::
  "(PolicyRule \<Rightarrow> string list) \<Rightarrow> (string \<Rightarrow> gval \<Rightarrow> opa_answer) \<Rightarrow> RBACAuthorizer \<Rightarrow> AuthorizationRequest \<Rightarrow> bool" where
  "rbac_allows order server a req \<longleftrightarrow> (\<exists>resp. Evaluate order server (ra_evaluator a) req = GoOk resp \<and> rs_Allowed resp)"

definition rbac_grants :: "RBACAuthorizer \<Rightarrow> auth_context \<Rightarrow> string \<Rightarrow> bool" where
  "rbac_grants a ctx p \<longleftrightarrow>
     (\<exists>ps. cx_permissions ctx = Some ps \<and> p \<in> set ps) \<or>
     (\<exists>rs role. cx_roles ctx = Some rs \<and> role \<in> set rs \<and> p \<in> set (GetRolePermissions role a))"

lemma role_has_permission:
  "(case ra_roleMap a role of None \<Rightarrow> False | Some perms \<Rightarrow> list_ex (\<lambda>p. p = permission) perms) \<longleftrightarrow>
   permission \<in> set (GetRolePermissions role a)"
  by (auto simp: GetRolePermissions_def list_ex_iff split: option.split)

interpretation rb: authorizer "rbac order server a" "rbac_allows order server a" "rbac_grants a" for order server a
proof
  show "(\<exists>resp. au_Authorize (rbac order server a) req = GoOk resp \<and> rs_Allowed resp) \<longleftrightarrow> rbac_allows order server a req" for req
    by (simp add: rbac_def Authorize_def rbac_allows_def)
  show "au_HasRole (rbac order server a) ctx role = Inr True \<longleftrightarrow>
      (\<exists>rs. au_GetRoles (rbac order server a) ctx = Some rs \<and> role \<in> set rs)" for ctx role
    by (auto simp: rbac_def HasRole_def list_ex_iff split: option.split)
  show "au_HasPermission (rbac order server a) ctx p = Inr True \<longleftrightarrow> rbac_grants a ctx p" for ctx p
    by (cases "cx_roles ctx"; cases "cx_permissions ctx")
      (auto simp: rbac_def HasPermission_def rbac_grants_def GetRoles_def GetPermissions_def role_has_permission
        list_ex_iff split: if_splits)
qed

subsection \<open>Authorization\<close>

text \<open>
  C16: a request passes the authorization middleware only, and always, when it carries claims
  and the policy for the resource type allows what it asks, for the subject, roles and
  permissions of its context; the gRPC interceptors decide likewise.
\<close>

theorem authorization_iff_policy:
  assumes "ra_evaluator a = LocalEvaluator e"
    and "\<forall>p r. find_policy e rt = Some p \<longrightarrow> r \<in> set (po_Rules p) \<longrightarrow> conditions_ok order r"
  shows "(AuthorizationMiddleware (rbac order server a) rt action r = GoOk (Next r') \<longleftrightarrow>
      r' = r \<and> (\<exists>claims. cx_claims (ht_Context r) = Some claims \<and>
        fst (policy_decision (find_policy e rt) (http_request_of (rbac order server a) rt action r claims)))) \<and>
    (AuthorizationUnaryServerInterceptor (rbac order server a) rt action m ctx = GoOk (Handle ctx') \<longleftrightarrow>
      ctx' = ctx \<and> (\<exists>claims. cx_claims ctx = Some claims \<and>
        fst (policy_decision (find_policy e rt) (grpc_request_of (rbac order server a) rt action m ctx claims)))) \<and>
    AuthorizationStreamServerInterceptor (rbac order server a) rt action m ctx =
      AuthorizationUnaryServerInterceptor (rbac order server a) rt action m ctx"
proof -
  have dec: "rbac_allows order server a req = fst (policy_decision (find_policy e rt) req)"
    if "re_Type (rq_Resource req) = rt" for req
  proof (cases "find_policy e rt")
    case None
    then show ?thesis using that assms(1) by (simp add: rbac_allows_def Local_Evaluate_def policy_decision_def)
  next
    case (Some p)
    then have "\<forall>r\<in>set (po_Rules p). conditions_ok order r" using assms(2) by simp
    from evaluate_rules_find [OF this] Some that assms(1) show ?thesis
      by (auto simp: rbac_allows_def Local_Evaluate_def policy_decision_def split: option.split)
  qed
  have "rbac_allows order server a (http_request_of (rbac order server a) rt action r claims) =
      fst (policy_decision (find_policy e rt) (http_request_of (rbac order server a) rt action r claims))" for claims
    by (rule dec) (simp add: http_request_of_def Let_def)
  moreover have "rbac_allows order server a (grpc_request_of (rbac order server a) rt action m ctx claims) =
      fst (policy_decision (find_policy e rt) (grpc_request_of (rbac order server a) rt action m ctx claims))" for claims
    by (rule dec) (simp add: grpc_request_of_def Let_def)
  moreover have "AuthorizationStreamServerInterceptor (rbac order server a) rt action m ctx =
      AuthorizationUnaryServerInterceptor (rbac order server a) rt action m ctx"
    by (simp add: AuthorizationStreamServerInterceptor_def AuthorizationUnaryServerInterceptor_def)
  ultimately show ?thesis
    by (simp add: rb.http_authorized_iff rb.grpc_authorized_iff GetClaimsFromContext_def)
qed

definition demo_claims :: Claims where
  "demo_claims = extract_claims (\<lambda>_. 0) [''sub'' \<mapsto> VStr ''u'', ''roles'' \<mapsto> VStr ''admin'']"

definition demo_http :: http_request where
  "demo_http =
     \<lparr>ht_Method = ''GET'', ht_Path = ''/7'', ht_Header = (\<lambda>_. []), ht_Query = (\<lambda>_. []), ht_Cookie = Map.empty,
      ht_Context = \<lparr>cx_claims = Some demo_claims, cx_roles = None, cx_permissions = None, cx_values = Map.empty\<rparr>\<rparr>"

definition demo_rbac :: RBACAuthorizer where
  "demo_rbac = \<lparr>ra_config = DefaultAuthorizationConfig, ra_evaluator = LocalEvaluator doc_policies, ra_roleMap = Map.empty\<rparr>"

theorem authorization_iff_policy_witness:
  "AuthorizationMiddleware (rbac (\<lambda>_. []) (\<lambda>_ _. OpaFailed []) demo_rbac) ''doc'' ''read'' demo_http \<noteq> GoOk (Next demo_http)"
proof -
  have e: "ra_evaluator demo_rbac = LocalEvaluator doc_policies" by (simp add: demo_rbac_def)
  have c: "\<forall>p r. find_policy doc_policies ''doc'' = Some p \<longrightarrow> r \<in> set (po_Rules p) \<longrightarrow> conditions_ok (\<lambda>_. []) r"
    by (auto simp: doc_policies_def find_policy_def admin_rule_def conditions_ok_def)
  have "\<not> rule_applies admin_rule (http_request_of (rbac (\<lambda>_. []) (\<lambda>_ _. OpaFailed []) demo_rbac) ''doc'' ''read'' demo_http demo_claims)"
    by (simp add: rule_applies_def admin_rule_def http_request_of_def demo_http_def rbac_def make_subject_def GetRoles_def
        demo_claims_def extract_claims_def claim_string_def glob_def Let_def)
  then have "\<not> fst (policy_decision (find_policy doc_policies ''doc'')
      (http_request_of (rbac (\<lambda>_. []) (\<lambda>_ _. OpaFailed []) demo_rbac) ''doc'' ''read'' demo_http demo_claims))"
    by (simp add: policy_decision_def find_policy_def doc_policies_def)
  with authorization_iff_policy [OF e c, of "\<lambda>_ _. OpaFailed []" "''read''" demo_http demo_http] show ?thesis
    by (auto simp: demo_http_def)
qed

subsection \<open>Roles and permissions\<close>

datatype role_op = AddOp string "string list" | RemoveOp string "string list"

fun role_step :: "role_op \<Rightarrow> RBACAuthorizer \<Rightarrow> RBACAuthorizer" where
  "role_step (AddOp r ps) a = AddRolePermissions r ps a"
| "role_step (RemoveOp r ps) a = RemoveRolePermissions r ps a"

text \<open>The table of permissions as sets.\<close>

fun spec_step :: "role_op \<Rightarrow> (string \<Rightarrow> string set) \<Rightarrow> string \<Rightarrow> string set" where
  "spec_step (AddOp r ps) R = R(r := R r \<union> set ps)"
| "spec_step (RemoveOp r ps) R = R(r := R r - set ps)"

lemma add_missing_facts:
  "set (add_missing xs ps) = set xs \<union> set ps"
  "distinct xs \<Longrightarrow> distinct (add_missing xs ps)"
  by (induction xs ps rule: add_missing.induct) (auto simp: list_ex_iff)

definition role_sets :: "RBACAuthorizer \<Rightarrow> string \<Rightarrow> string set" where
  "role_sets a r = set (GetRolePermissions r a)"

definition roles_distinct :: "RBACAuthorizer \<Rightarrow> bool" where
  "roles_distinct a \<longleftrightarrow> (\<forall>r. distinct (GetRolePermissions r a))"

lemma role_step_sets: "role_sets (role_step op a) = spec_step op (role_sets a)"
  by (cases op) (auto simp: role_sets_def GetRolePermissions_def AddRolePermissions_def RemoveRolePermissions_def
      add_missing_facts fun_eq_iff Let_def split: option.splits)

lemma role_step_distinct: "roles_distinct a \<Longrightarrow> roles_distinct (role_step op a)"
  by (cases op) (auto simp: roles_distinct_def GetRolePermissions_def AddRolePermissions_def RemoveRolePermissions_def
      add_missing_facts Let_def split: option.splits)

lemma role_steps:
  "role_sets (fold role_step ops a) = fold spec_step ops (role_sets a)"
  "roles_distinct a \<Longrightarrow> roles_distinct (fold role_step ops a)"
  by (induction ops arbitrary: a) (simp_all add: role_step_sets role_step_distinct)

text \<open>
  Permissions are what was granted: after any sequence of additions and removals the
  permissions of a role are, without duplicates, those of the table of sets, and
  \<open>HasPermission\<close> answers yes exactly when the context holds the permission itself or a role that has it.
\<close>

theorem permissions_correct:
  fixes ops config path_exists ws a
  defines "a \<equiv> fold role_step ops (NewRBACAuthorizer path_exists ws config)"
    and "R \<equiv> fold spec_step ops (\<lambda>_. {})"
  shows "set (GetRolePermissions role a) = R role \<and> distinct (GetRolePermissions role a) \<and>
    (HasPermission a ctx p = Inr True \<longleftrightarrow>
      (\<exists>ps. cx_permissions ctx = Some ps \<and> p \<in> set ps) \<or>
      (\<exists>rs role. cx_roles ctx = Some rs \<and> role \<in> set rs \<and> p \<in> R role))"
proof -
  have new: "role_sets (NewRBACAuthorizer path_exists ws config) = (\<lambda>_. {})" "roles_distinct (NewRBACAuthorizer path_exists ws config)"
    by (simp_all add: role_sets_def roles_distinct_def GetRolePermissions_def NewRBACAuthorizer_def fun_eq_iff)
  have sets: "set (GetRolePermissions role a) = R role" for role
    using role_steps(1) [of ops "NewRBACAuthorizer path_exists ws config"] new(1)
    by (simp add: a_def R_def role_sets_def fun_eq_iff)
  moreover have "distinct (GetRolePermissions role a)"
    using role_steps(2) [OF new(2), of ops] by (simp add: a_def roles_distinct_def)
  moreover have "HasPermission a ctx p = Inr True \<longleftrightarrow> rbac_grants a ctx p"
    using rb.has_permission_iff [of "\<lambda>_. []" "\<lambda>_ _. OpaFailed []" a ctx p] by (simp add: rbac_def)
  ultimately show ?thesis by (simp add: rbac_grants_def)
qed

text \<open>
  The role middleware end to end: after \<open>RolesAndPermissionsMiddleware\<close> a request of a
  subject passes \<open>RequireRoleMiddleware\<close> exactly when the role claim of its token holds the role; without claims or
  with an empty role claim it is answered 401, with other roles only 403.
\<close>

theorem role_middleware:
  fixes r roleClaim
  assumes "cx_roles (ht_Context r) = None"
  defines "roles \<equiv> (case cx_claims (ht_Context r) of None \<Rightarrow> [] | Some claims \<Rightarrow> claim_list claims roleClaim)"
  shows "(case and_then (RolesAndPermissionsMiddleware roleClaim permClaim r) (RequireRoleMiddleware (rbac order server a) role) of
      Next r' \<Rightarrow> role \<in> set roles
    | HttpError code msg \<Rightarrow> role \<notin> set roles \<and> code = (if roles = [] then 401 else 403))"
  using assms(1)
  by (cases "cx_claims (ht_Context r)")
    (auto simp: roles_def RolesAndPermissionsMiddleware_def RequireRoleMiddleware_def enrich_context_def
      ExtractRolesAndPermissions_def GetClaimsFromContext_def rbac_def HasRole_def GetRoles_def list_ex_iff Let_def)

theorem role_middleware_witness:
  "\<exists>r'. and_then (RolesAndPermissionsMiddleware ''roles'' [] demo_http)
      (RequireRoleMiddleware (rbac (\<lambda>_. []) (\<lambda>_ _. OpaFailed []) demo_rbac) ''admin'') = Next r'"
proof -
  let ?o = "and_then (RolesAndPermissionsMiddleware ''roles'' [] demo_http)
      (RequireRoleMiddleware (rbac (\<lambda>_. []) (\<lambda>_ _. OpaFailed []) demo_rbac) ''admin'')"
  have n: "cx_roles (ht_Context demo_http) = None" by (simp add: demo_http_def)
  have "''admin'' \<in> set (case cx_claims (ht_Context demo_http) of None \<Rightarrow> [] | Some claims \<Rightarrow> claim_list claims ''roles'')"
    by (simp add: demo_http_def demo_claims_def extract_claims_def claim_list_def claim_values_def restrict_map_def
        strings_Split.simps strings_HasPrefix_def)
  with role_middleware [OF n, where roleClaim = "''roles''" and permClaim = "[]" and order = "\<lambda>_. []"
      and server = "\<lambda>_ _. OpaFailed []" and a = demo_rbac and role = "''admin''"]
  show ?thesis by (cases ?o) auto
qed

subsection \<open>Authentication\<close>

text \<open>
  What the JWT library documents: a token is returned only if the key function delivered a
  key for its header and the signature verifies with it.
\<close>

definition parser_sound :: "'k jwt_parser \<Rightarrow> (string \<Rightarrow> jwt_header \<Rightarrow> 'k \<Rightarrow> jwt_token \<Rightarrow> bool) \<Rightarrow> bool" where
  "parser_sound parse verified \<longleftrightarrow>
     (\<forall>ts kf token. parse ts kf = Inr token \<longrightarrow> (\<exists>hdr k. kf hdr = Inr k \<and> verified ts hdr k token))"

lemma keyfunc_Inr: "keyfunc c hdr = Inr k \<longleftrightarrow> jh_RSA hdr \<and> (\<exists>kid. jh_kid hdr = Some (VStr kid) \<and> jc_keys c kid = Some k)"
  by (auto simp: keyfunc_def GetKey_def split: option.splits gval.splits)

lemma accept_token_Inr:
  "accept_token ovf config token = Inr claims \<longleftrightarrow>
   tk_Valid token \<and> (\<exists>m. tk_Claims token = Some m \<and> claims = extract_claims ovf m) \<and>
   (ac_Issuer config \<noteq> [] \<longrightarrow> cl_Issuer claims = ac_Issuer config) \<and>
   (ac_Audience config \<noteq> [] \<longrightarrow> set (cl_Audience claims) \<inter> set (ac_Audience config) \<noteq> {})"
  by (auto simp: accept_token_def check_claims_def list_ex_iff split: option.splits if_splits)

text \<open>
  C17: tokens are accepted only when genuine: \<open>ValidateToken\<close> returns claims only for a token whose
  signature verifies, with an RSA method, under the key that the key set, refreshed at most once, holds
  for the key ID of its header; the claims are those of the token, and issuer and audience are
  the configured ones.
\<close>

theorem ValidateToken_sound:
  assumes "parser_sound parse verified"
    and "ValidateToken parse refresh ovf config ts c = (Inr claims, c')"
  shows "(c' = c \<or> refresh c = (None, c')) \<and>
    (\<exists>hdr kid k token m. verified ts hdr k token \<and> jh_RSA hdr \<and> jh_kid hdr = Some (VStr kid) \<and> jc_keys c' kid = Some k
       \<and> tk_Valid token \<and> tk_Claims token = Some m \<and> claims = extract_claims ovf m) \<and>
    (ac_Issuer config = [] \<or> cl_Issuer claims = ac_Issuer config) \<and>
    (ac_Audience config = [] \<or> set (cl_Audience claims) \<inter> set (ac_Audience config) \<noteq> {})"
proof -
  obtain token where t: "parse ts (keyfunc c') = Inr token" "accept_token ovf config token = Inr claims" "c' = c \<or> refresh c = (None, c')"
    using assms(2) by (auto simp: ValidateToken_def split: sum.splits if_splits prod.splits option.splits)
  obtain hdr k where h: "keyfunc c' hdr = Inr k" "verified ts hdr k token"
    using assms(1) t(1) unfolding parser_sound_def by blast
  from t h show ?thesis unfolding keyfunc_Inr accept_token_Inr by metis
qed

definition demo_parse :: "unit jwt_parser" where
  "demo_parse ts kf =
     (case kf \<lparr>jh_RSA = True, jh_kid = Some (VStr ''k1'')\<rparr> of
        Inl e \<Rightarrow> Inl (Some e)
      | Inr k \<Rightarrow> Inr \<lparr>tk_Valid = True, tk_Claims = Some [''sub'' \<mapsto> VStr ts, ''iss'' \<mapsto> VStr ''idp'']\<rparr>)"

theorem ValidateToken_sound_witness:
  "cl_Issuer (extract_claims (\<lambda>_. 0) [''sub'' \<mapsto> VStr ''t'', ''iss'' \<mapsto> VStr ''idp'']) = ''idp''"
proof -
  let ?c = "\<lparr>jc_endpoint = ''e'', jc_keys = [''k1'' \<mapsto> ()], jc_lastRefresh = 0, jc_ticker = None, jc_stopped = False\<rparr>"
  let ?cl = "extract_claims (\<lambda>_. 0) [''sub'' \<mapsto> VStr ''t'', ''iss'' \<mapsto> VStr ''idp'']"
  have s: "parser_sound demo_parse (\<lambda>ts hdr k token. True)"
    by (auto simp: parser_sound_def demo_parse_def split: sum.splits)
  have v: "ValidateToken demo_parse (\<lambda>c. (None, c)) (\<lambda>_. 0) (DefaultAuthConfig\<lparr>ac_Issuer := ''idp''\<rparr>) ''t'' ?c = (Inr ?cl, ?c)"
    by (simp add: ValidateToken_def demo_parse_def keyfunc_def GetKey_def accept_token_def check_claims_def DefaultAuthConfig_def
        extract_claims_def claim_string_def)
  from ValidateToken_sound [OF s v] show ?thesis by (simp add: DefaultAuthConfig_def)
qed

text \<open>
  The authentication middleware fails closed: with a list of paths to bypass, a request
  reaches the next handler only if its path starts with one of them, unchanged, or if its token
  was accepted, with exactly the accepted claims in its context; every other request is
  answered 401.  A bypass is a prefix of the path, not a path.
\<close>

theorem bypass_or_authenticated:
  "case WithBypass validate config paths r c of
     (Next r', c') \<Rightarrow>
       (\<exists>p rest. p \<in> set paths \<and> ht_Path r = p @ rest) \<and> r' = r \<or>
       (\<exists>t claims. extractToken config r = Inr t \<and> validate t c = (Inr claims, c') \<and>
          r' = r\<lparr>ht_Context := (ht_Context r)\<lparr>cx_claims := Some claims\<rparr>\<rparr>)
   | (HttpError code msg, c') \<Rightarrow> code = 401 \<and> \<not> (\<exists>p rest. p \<in> set paths \<and> ht_Path r = p @ rest)"
  by (auto simp: WithBypass_def Middleware_def list_ex_iff HasPrefix_iff split: sum.splits prod.splits)

end
