(* ===== verification/GoFmt.thy ===== *)
theory GoFmt
  imports Float64 Prelude
begin

text \<open>
  What the sources use of Go's packages \<open>strconv\<close>, \<open>fmt\<close> (scanning of numbers) and \<open>strings\<close> to read numbers
  and keys from text.  Case is mapped for ASCII letters.
\<close>

subsection \<open>Characters\<close>

definition code :: "char \<Rightarrow> int" where
  "code c = int (of_char c)"

definition is_digit :: "char \<Rightarrow> bool" where
  "is_digit c \<longleftrightarrow> 48 \<le> (of_char c :: nat) \<and> (of_char c :: nat) \<le> 57"

definition lower_char :: "char \<Rightarrow> char" where
  "lower_char c = (if 65 \<le> code c \<and> code c \<le> 90 then char_of (nat (code c + 32)) else c)"

definition strings_ToLower :: "string \<Rightarrow> string" where
  "strings_ToLower s = map lower_char s"

definition strings_EqualFold :: "string \<Rightarrow> string \<Rightarrow> bool" where
  "strings_EqualFold s t \<longleftrightarrow> strings_ToLower s = strings_ToLower t"

definition strings_Contains :: "string \<Rightarrow> string \<Rightarrow> bool" where
  "strings_Contains s sub \<longleftrightarrow> strings_Index s sub \<noteq> None"

definition strings_Replace1 :: "char \<Rightarrow> char \<Rightarrow> string \<Rightarrow> string" where
  "strings_Replace1 a b s = map (\<lambda>c. if c = a then b else c) s"

subsection \<open>Integers\<close>

definition digits_value :: "string \<Rightarrow> int" where
  "digits_value ds = foldl (\<lambda>n c. n * 10 + (code c - 48)) 0 ds"

definition has_sign :: "string \<Rightarrow> bool" where
  "has_sign s \<longleftrightarrow> s \<noteq> [] \<and> hd s \<in> {CHR ''+'', CHR ''-''}"

definition signed :: "string \<Rightarrow> int \<Rightarrow> int" where
  "signed s n = (if s \<noteq> [] \<and> hd s = CHR ''-'' then - n else n)"

definition int64_range :: "int \<Rightarrow> bool" where
  "int64_range n \<longleftrightarrow> - (2 ^ 63) \<le> n \<and> n < 2 ^ 63"

definition strconv_ParseInt :: "string \<Rightarrow> int option" where
  "strconv_ParseInt s =
     (let ds = (if has_sign s then tl s else s);
          n = signed s (digits_value ds)
      in if ds \<noteq> [] \<and> list_all is_digit ds \<and> int64_range n then Some n else None)"

definition strconv_Atoi :: "string \<Rightarrow> int option" where
  "strconv_Atoi s = strconv_ParseInt s"

definition strconv_ParseUint :: "string \<Rightarrow> int option" where
  "strconv_ParseUint s =
     (if s \<noteq> [] \<and> list_all is_digit s \<and> digits_value s < 2 ^ 64 then Some (digits_value s) else None)"

definition strconv_ParseBool :: "string \<Rightarrow> bool option" where
  "strconv_ParseBool s =
     (if s \<in> {''1'', ''t'', ''T'', ''TRUE'', ''true'', ''True''} then Some True
      else if s \<in> {''0'', ''f'', ''F'', ''FALSE'', ''false'', ''False''} then Some False
      else None)"

text \<open>
  \<open>fmt.Sscanf\<close> with the verb \<open>%d\<close> into an int64: blanks are skipped, then a sign and the longest run of
  digits is read; what follows is ignored.
\<close>

definition skip_blanks :: "string \<Rightarrow> string" where
  "skip_blanks s = dropWhile (\<lambda>c. is_space c \<and> c \<noteq> CHR 0x0A) s"

definition sscanf_d :: "string \<Rightarrow> int option" where
  "sscanf_d s =
     (let s = skip_blanks s;
          ds = takeWhile is_digit (if has_sign s then tl s else s);
          n = signed s (digits_value ds)
      in if ds = [] \<or> \<not> int64_range n then None else Some n)"

subsection \<open>Floating-point numbers\<close>

definition hex_value :: "char \<Rightarrow> int option" where
  "hex_value c =
     (if is_digit c then Some (code c - 48)
      else let n = code (lower_char c) in if 97 \<le> n \<and> n \<le> 102 then Some (n - 87) else None)"

definition base_digit :: "bool \<Rightarrow> char \<Rightarrow> bool" where
  "base_digit hex c = (if hex then hex_value c \<noteq> None else is_digit c)"

text \<open>An underscore must stand between digits; a base prefix counts as a digit.\<close>

fun underscores_between :: "bool \<Rightarrow> char \<Rightarrow> string \<Rightarrow> bool" where
  "underscores_between hex saw [] = (saw \<noteq> CHR ''_'')"
| "underscores_between hex saw (c # s) =
     (if base_digit hex c then underscores_between hex (CHR ''0'') s
      else if c = CHR ''_'' then saw = CHR ''0'' \<and> underscores_between hex (CHR ''_'') s
      else saw \<noteq> CHR ''_'' \<and> underscores_between hex (CHR ''!'') s)"

definition hex_prefix :: "string \<Rightarrow> bool" where
  "hex_prefix s \<longleftrightarrow> (case s of a # b # c # _ \<Rightarrow> a = CHR ''0'' \<and> lower_char b = CHR ''x'' | _ \<Rightarrow> False)"

definition mantissa_value :: "bool \<Rightarrow> string \<Rightarrow> int" where
  "mantissa_value hex ds = foldl (\<lambda>n c. n * (if hex then 16 else 10) + the (hex_value c)) 0 ds"

definition rat_pow :: "rat \<Rightarrow> int \<Rightarrow> rat" where
  "rat_pow b e = (if 0 \<le> e then b ^ nat e else 1 / b ^ nat (- e))"

text \<open>
  The number a text without sign, special name and base prefix denotes: the digits before and after the point, then the
  exponent, mandatory for hexadecimal digits.
\<close>

definition read_number :: "bool \<Rightarrow> string \<Rightarrow> rat option" where
  "read_number hex s =
     (let whole = takeWhile (\<lambda>c. base_digit hex c \<or> c = CHR ''_'') s;
          s = drop (length whole) s;
          point = (s \<noteq> [] \<and> hd s = CHR ''.'');
          s = (if point then tl s else s);
          frac = (if point then takeWhile (\<lambda>c. base_digit hex c \<or> c = CHR ''_'') s else []);
          s = drop (length frac) s;
          ds = filter (base_digit hex) (whole @ frac);
          places = int (length (filter (base_digit hex) frac));
          m = of_int (mantissa_value hex ds) :: rat
      in if ds = [] then None
         else case s of
             [] \<Rightarrow> if hex then None else Some (m * rat_pow 10 (- places))
           | c # s \<Rightarrow>
               (let es = (if has_sign s then tl s else s);
                    e = signed s (digits_value (filter is_digit es))
                in if lower_char c = (if hex then CHR ''p'' else CHR ''e'') \<and> es \<noteq> [] \<and> is_digit (hd es) \<and>
                      list_all (\<lambda>c. is_digit c \<or> c = CHR ''_'') es
                   then Some (if hex then m * rat_pow 2 (e - 4 * places) else m * rat_pow 10 (e - places))
                   else None))"

fun f64_fin :: "float64 \<Rightarrow> float64 option" where
  "f64_fin (Fin r) = Some (Fin r)"
| "f64_fin _ = None"

definition strconv_ParseFloat :: "string \<Rightarrow> float64 option" where
  "strconv_ParseFloat s =
     (let neg = (s \<noteq> [] \<and> hd s = CHR ''-'');
          t = (if has_sign s then tl s else s);
          hex = hex_prefix t
      in if strings_ToLower t \<in> {''inf'', ''infinity''} then Some (f64_inf neg)
         else if strings_ToLower s = ''nan'' then Some NaN
         else if CHR ''_'' \<in> set t \<and> \<not> underscores_between hex (if hex then CHR ''0'' else CHR ''^'') (if hex then drop 2 t else t) then None
         else case read_number hex (if hex then drop 2 t else t) of
             None \<Rightarrow> None
           | Some r \<Rightarrow> f64_fin (f64_round (if neg then - r else r)))"

text \<open>The longest text \<open>fmt\<close> takes for a floating-point number.\<close>

definition float_rest :: "string \<Rightarrow> string" where
  "float_rest s =
     (let hex = (case s of a # b # _ \<Rightarrow> a = CHR ''0'' \<and> b \<in> {CHR ''x'', CHR ''X''} | _ \<Rightarrow> False);
          pre = (if hex then take 2 s else []);
          s = drop (length pre) s;
          ok = (\<lambda>c. base_digit hex c \<or> c = CHR ''_'');
          whole = takeWhile ok s;
          s = drop (length whole) s;
          point = (s \<noteq> [] \<and> hd s = CHR ''.'');
          s = (if point then tl s else s);
          frac = (if point then takeWhile ok s else []);
          s = drop (length frac) s;
          tok = pre @ whole @ (if point then [CHR ''.''] else []) @ frac
      in case s of
           [] \<Rightarrow> tok
         | c # s \<Rightarrow>
             if c \<in> (if hex then {CHR ''p'', CHR ''P''} else {CHR ''e'', CHR ''E'', CHR ''p'', CHR ''P''}) then
               (let sg = (if has_sign s then [hd s] else [])
                in tok @ [c] @ sg @ takeWhile (\<lambda>c. is_digit c \<or> c = CHR ''_'') (drop (length sg) s))
             else tok)"

text \<open>The letters of a name that the text starts with, up to the first that differs.\<close>

fun name_prefix :: "string \<Rightarrow> string \<Rightarrow> string" where
  "name_prefix (n # ns) (c # s) = (if lower_char c = n then c # name_prefix ns s else [])"
| "name_prefix _ _ = []"

definition float_token :: "string \<Rightarrow> string" where
  "float_token s =
     (let nan = name_prefix ''nan'' s;
          s = drop (length nan) s;
          sg = (if has_sign s then [hd s] else []);
          s = drop (length sg) s;
          inf = name_prefix ''inf'' s
      in if length nan = 3 then nan
         else if length inf = 3 then nan @ sg @ inf
         else nan @ sg @ inf @ float_rest (drop (length inf) s))"

text \<open>\<open>fmt.Sscanf\<close> with the verb \<open>%f\<close>; a decimal mantissa may have a binary exponent.\<close>

definition sscanf_f :: "string \<Rightarrow> float64 option" where
  "sscanf_f s =
     (let tok = float_token (skip_blanks s)
      in if CHR ''p'' \<in> set tok \<and> \<not> list_ex (\<lambda>c. c \<in> {CHR ''x'', CHR ''X''}) tok then
           (let m = takeWhile (\<lambda>c. c \<noteq> CHR ''p'') tok
            in case (strconv_ParseFloat m, strconv_Atoi (drop (length m + 1) tok)) of
                 (Some (Fin r), Some e) \<Rightarrow> Some (f64_round (r * rat_pow 2 e))
               | (Some x, Some e) \<Rightarrow> Some x
               | _ \<Rightarrow> None)
         else strconv_ParseFloat tok)"

subsection \<open>Facts\<close>

text \<open>Every text that starts with \<open>inf\<close> scans as infinity, whatever follows.\<close>

lemma sscanf_f_inf: "sscanf_f (''inf'' @ s) = Some PInf"
  by (simp add: sscanf_f_def skip_blanks_def is_space_def float_token_def has_sign_def lower_char_def code_def
      strconv_ParseFloat_def strings_ToLower_def f64_inf_def hex_prefix_def)

lemma sscanf_d_inf: "sscanf_d (''inf'' @ s) = None"
  by (simp add: sscanf_d_def skip_blanks_def is_space_def has_sign_def is_digit_def)

text \<open>A number followed by anything but a digit scans as the number.\<close>

lemma sscanf_d_prefix:
  assumes "ds \<noteq> []" and "list_all is_digit ds" and "r = [] \<or> \<not> is_digit (hd r)" and "digits_value ds < 2 ^ 63" and "0 \<le> digits_value ds"
  shows "sscanf_d (ds @ r) = Some (digits_value ds)"
proof -
  obtain d ds' where ds: "ds = d # ds'" "is_digit d" using assms(1,2) by (cases ds) auto
  have d: "\<not> is_space d" "d \<noteq> CHR ''+''" "d \<noteq> CHR ''-''" using ds(2) by (auto simp: is_space_def is_digit_def)
  have "takeWhile is_digit (ds @ r) = ds" using assms(2,3) by (cases r) (auto simp: takeWhile_append list_all_iff)
  then show ?thesis using ds d assms(4,5)
    by (simp add: sscanf_d_def skip_blanks_def has_sign_def signed_def int64_range_def)
qed

end
