(* ===== verification/Migrations.thy ===== *)
theory Migrations
  imports Database GoFmt
begin

text \<open>
  Package data, \<open>migration.go\<close>: the migration runner.  The database is the state \<open>'d\<close> of the
  application's schema and the table of applied migrations.  Running the SQL of a migration is an
  argument (\<open>run_sql\<close>), as is the pool whose transactions it runs in; the errors of the other
  statements are arguments too (\<open>rec_err\<close>: of the statement that records a version or removes its
  record).
\<close>

subsection \<open>State\<close>

record Migration =
  mg_Version :: int
  mg_Description :: string
  mg_UpSQL :: string
  mg_DownSQL :: string

record MigrationStatus =
  st_Version :: int
  st_Description :: string
  st_AppliedAt :: time

record 'd mig_db =
  md_app :: 'd
  md_table :: "MigrationStatus list option" \<comment> \<open>\<open>schema_migrations\<close>\<close>

record PostgresMigrationRunner =
  mr_migrations :: "Migration list"

datatype mig_error =
    ErrCreateMigrationsTable string
  | ErrQueryApplied string
  | ErrApplyMigration int string
  | ErrRecordMigration int string
  | ErrRollbackMigration int string
  | ErrRemoveRecord int string
  | ErrMigrationTx "mig_error tx_error"
  | ErrVersionNotPositive
  | ErrNoDescription
  | ErrNoUpSQL
  | ErrNoDownSQL
  | ErrDuplicateVersion int
  | ErrFilename string
  | ErrFileVersion string
  | ErrNoDownSection string
  | ErrReadFile string string
  | ErrWalk string

subsection \<open>The runner\<close>

definition NewPostgresMigrationRunner :: PostgresMigrationRunner where
  "NewPostgresMigrationRunner = \<lparr>mr_migrations = []\<rparr>"

definition Initialize :: "string option \<Rightarrow> 'd mig_db \<Rightarrow> mig_error option \<times> 'd mig_db" where
  "Initialize err db =
     (case err of
        Some e \<Rightarrow> (Some (ErrCreateMigrationsTable e), db)
      | None \<Rightarrow> (None, if md_table db = None then db\<lparr>md_table := Some []\<rparr> else db))"

definition getAppliedVersions :: "string option \<Rightarrow> 'd mig_db \<Rightarrow> mig_error + int set" where
  "getAppliedVersions err db =
     (case err of
        Some e \<Rightarrow> Inl (ErrQueryApplied e)
      | None \<Rightarrow>
          (case md_table db of
             None \<Rightarrow> Inl (ErrQueryApplied ''relation schema_migrations does not exist'')
           | Some t \<Rightarrow> Inr (st_Version ` set t)))"

text \<open>The functions run in a transaction; the key of the table is unique.\<close>

definition apply_tx ::
  "(string \<Rightarrow> 'd \<Rightarrow> string + 'd) \<Rightarrow> (int \<Rightarrow> string option) \<Rightarrow> time \<Rightarrow> Migration \<Rightarrow> 'd mig_db \<Rightarrow>
   mig_error option \<times> 'd mig_db" where
  "apply_tx run_sql rec_err now m tx =
     (case run_sql (mg_UpSQL m) (md_app tx) of
        Inl e \<Rightarrow> (Some (ErrApplyMigration (mg_Version m) e), tx)
      | Inr app \<Rightarrow>
          (case (rec_err (mg_Version m), md_table tx) of
             (Some e, _) \<Rightarrow> (Some (ErrRecordMigration (mg_Version m) e), tx\<lparr>md_app := app\<rparr>)
           | (None, None) \<Rightarrow>
               (Some (ErrRecordMigration (mg_Version m) ''relation schema_migrations does not exist''), tx\<lparr>md_app := app\<rparr>)
           | (None, Some t) \<Rightarrow>
               if mg_Version m \<in> st_Version ` set t
               then (Some (ErrRecordMigration (mg_Version m) ''duplicate key value''), tx\<lparr>md_app := app\<rparr>)
               else (None, \<lparr>md_app = app,
                            md_table = Some (t @ [\<lparr>st_Version = mg_Version m, st_Description = mg_Description m, st_AppliedAt = now\<rparr>])\<rparr>)))"

definition rollback_tx ::
  "(string \<Rightarrow> 'd \<Rightarrow> string + 'd) \<Rightarrow> (int \<Rightarrow> string option) \<Rightarrow> Migration \<Rightarrow> 'd mig_db \<Rightarrow>
   mig_error option \<times> 'd mig_db" where
  "rollback_tx run_sql rec_err m tx =
     (case run_sql (mg_DownSQL m) (md_app tx) of
        Inl e \<Rightarrow> (Some (ErrRollbackMigration (mg_Version m) e), tx)
      | Inr app \<Rightarrow>
          (case (rec_err (mg_Version m), md_table tx) of
             (Some e, _) \<Rightarrow> (Some (ErrRemoveRecord (mg_Version m) e), tx\<lparr>md_app := app\<rparr>)
           | (None, None) \<Rightarrow>
               (Some (ErrRemoveRecord (mg_Version m) ''relation schema_migrations does not exist''), tx\<lparr>md_app := app\<rparr>)
           | (None, Some t) \<Rightarrow>
               (None, \<lparr>md_app = app, md_table = Some (filter (\<lambda>s. st_Version s \<noteq> mg_Version m) t)\<rparr>)))"

fun apply_loop ::
  "'d mig_db pg_pool \<Rightarrow> (string \<Rightarrow> 'd \<Rightarrow> string + 'd) \<Rightarrow> (int \<Rightarrow> string option) \<Rightarrow> time \<Rightarrow> int set \<Rightarrow> int \<Rightarrow>
   Migration list \<Rightarrow> 'd mig_db \<Rightarrow> mig_error option \<times> 'd mig_db" where
  "apply_loop pool run_sql rec_err now applied version [] db = (None, db)"
| "apply_loop pool run_sql rec_err now applied version (m # ms) db =
     (if mg_Version m \<in> applied then apply_loop pool run_sql rec_err now applied version ms db
      else if 0 < version \<and> version < mg_Version m then apply_loop pool run_sql rec_err now applied version ms db
      else case Transaction pool (apply_tx run_sql rec_err now m) db of
          (Some e, db') \<Rightarrow> (Some (ErrMigrationTx e), db')
        | (None, db') \<Rightarrow> apply_loop pool run_sql rec_err now applied version ms db')"

fun rollback_loop ::
  "'d mig_db pg_pool \<Rightarrow> (string \<Rightarrow> 'd \<Rightarrow> string + 'd) \<Rightarrow> (int \<Rightarrow> string option) \<Rightarrow> int set \<Rightarrow> int \<Rightarrow>
   Migration list \<Rightarrow> 'd mig_db \<Rightarrow> mig_error option \<times> 'd mig_db" where
  "rollback_loop pool run_sql rec_err applied version [] db = (None, db)"
| "rollback_loop pool run_sql rec_err applied version (m # ms) db =
     (if mg_Version m \<notin> applied then rollback_loop pool run_sql rec_err applied version ms db
      else if mg_Version m \<le> version then rollback_loop pool run_sql rec_err applied version ms db
      else case Transaction pool (rollback_tx run_sql rec_err m) db of
          (Some e, db') \<Rightarrow> (Some (ErrMigrationTx e), db')
        | (None, db') \<Rightarrow> rollback_loop pool run_sql rec_err applied version ms db')"

text \<open>
  The versions of a runner are distinct, so that every sorting algorithm gives the same list.
\<close>

definition Apply ::
  "'d mig_db pg_pool \<Rightarrow> (string \<Rightarrow> 'd \<Rightarrow> string + 'd) \<Rightarrow> (int \<Rightarrow> string option) \<Rightarrow> string option \<Rightarrow> string option \<Rightarrow> time \<Rightarrow> int \<Rightarrow>
   PostgresMigrationRunner \<Rightarrow> 'd mig_db \<Rightarrow> mig_error option \<times> PostgresMigrationRunner \<times> 'd mig_db" where
  "Apply pool run_sql rec_err init_err query_err now version r db =
     (case Initialize init_err db of
        (Some e, db) \<Rightarrow> (Some e, r, db)
      | (None, db) \<Rightarrow>
          (case getAppliedVersions query_err db of
             Inl e \<Rightarrow> (Some e, r, db)
           | Inr applied \<Rightarrow>
               (let r = r\<lparr>mr_migrations := sort_key mg_Version (mr_migrations r)\<rparr>;
                    (err, db) = apply_loop pool run_sql rec_err now applied version (mr_migrations r) db
                in (err, r, db))))"

definition rollback_target :: "int set \<Rightarrow> int \<Rightarrow> int" where
  "rollback_target applied version = (if version = 0 then Max (insert 0 applied) - 1 else version)"

definition Rollback ::
  "'d mig_db pg_pool \<Rightarrow> (string \<Rightarrow> 'd \<Rightarrow> string + 'd) \<Rightarrow> (int \<Rightarrow> string option) \<Rightarrow> string option \<Rightarrow> string option \<Rightarrow> int \<Rightarrow>
   PostgresMigrationRunner \<Rightarrow> 'd mig_db \<Rightarrow> mig_error option \<times> PostgresMigrationRunner \<times> 'd mig_db" where
  "Rollback pool run_sql rec_err init_err query_err version r db =
     (case Initialize init_err db of
        (Some e, db) \<Rightarrow> (Some e, r, db)
      | (None, db) \<Rightarrow>
          (case getAppliedVersions query_err db of
             Inl e \<Rightarrow> (Some e, r, db)
           | Inr applied \<Rightarrow>
               (let r = r\<lparr>mr_migrations := rev (sort_key mg_Version (mr_migrations r))\<rparr>;
                    (err, db) = rollback_loop pool run_sql rec_err applied (rollback_target applied version) (mr_migrations r) db
                in (err, r, db))))"

definition Status ::
  "string option \<Rightarrow> string option \<Rightarrow> 'd mig_db \<Rightarrow> (mig_error + MigrationStatus list) \<times> 'd mig_db" where
  "Status init_err query_err db =
     (case Initialize init_err db of
        (Some e, db) \<Rightarrow> (Inl e, db)
      | (None, db) \<Rightarrow>
          (case query_err of
             Some e \<Rightarrow> (Inl (ErrQueryApplied e), db)
           | None \<Rightarrow> (Inr (case md_table db of None \<Rightarrow> [] | Some t \<Rightarrow> sort_key st_Version t), db)))"

definition AddMigration :: "Migration \<Rightarrow> PostgresMigrationRunner \<Rightarrow> mig_error option \<times> PostgresMigrationRunner" where
  "AddMigration m r =
     (if mg_Version m \<le> 0 then (Some ErrVersionNotPositive, r)
      else if mg_Description m = [] then (Some ErrNoDescription, r)
      else if mg_UpSQL m = [] then (Some ErrNoUpSQL, r)
      else if mg_DownSQL m = [] then (Some ErrNoDownSQL, r)
      else if list_ex (\<lambda>x. mg_Version x = mg_Version m) (mr_migrations r) then (Some (ErrDuplicateVersion (mg_Version m)), r)
      else (None, r\<lparr>mr_migrations := mr_migrations r @ [m]\<rparr>))"

subsection \<open>Files\<close>

definition parseMigrationContent ::
  "string \<Rightarrow> string \<Rightarrow> PostgresMigrationRunner \<Rightarrow> mig_error option \<times> PostgresMigrationRunner" where
  "parseMigrationContent filename content r =
     (case strings_SplitN2 filename ''__'' of
        [v, d] \<Rightarrow>
          (case sscanf_d (strings_TrimPrefix v ''V'') of
             None \<Rightarrow> (Some (ErrFileVersion filename), r)
           | Some version \<Rightarrow>
               (case strings_Split content ''-- DOWN'' of
                  [up, down] \<Rightarrow>
                    AddMigration \<lparr>mg_Version = version, mg_Description = strings_TrimSuffix d ''.sql'',
                                  mg_UpSQL = strings_TrimSpace up, mg_DownSQL = strings_TrimSpace down\<rparr> r
                | _ \<Rightarrow> (Some (ErrNoDownSection filename), r)))
      | _ \<Rightarrow> (Some (ErrFilename filename), r))"

text \<open>
  What a walk over the directory visits, in its order: an error of the walk, a directory below the
  root (not descended into), or the root or a file, with its path, its base name and the outcome of
  reading it.
\<close>

datatype mig_entry =
    MigWalkError string
  | MigDir
  | MigFile string string "string + string"

fun load_entries :: "mig_entry list \<Rightarrow> PostgresMigrationRunner \<Rightarrow> mig_error option \<times> PostgresMigrationRunner" where
  "load_entries [] r = (None, r)"
| "load_entries (MigWalkError e # es) r = (Some (ErrWalk e), r)"
| "load_entries (MigDir # es) r = load_entries es r"
| "load_entries (MigFile path base content # es) r =
     (if \<not> strings_HasSuffix path ''.sql'' then load_entries es r
      else case content of
          Inl e \<Rightarrow> (Some (ErrReadFile path e), r)
        | Inr c \<Rightarrow>
            (case parseMigrationContent base c r of
               (Some e, r') \<Rightarrow> (Some e, r')
             | (None, r') \<Rightarrow> load_entries es r'))"

definition LoadMigrations :: "mig_entry list \<Rightarrow> PostgresMigrationRunner \<Rightarrow> mig_error option \<times> PostgresMigrationRunner" where
  "LoadMigrations walk r = load_entries walk r"

definition LoadMigrationsFS :: "mig_entry list \<Rightarrow> PostgresMigrationRunner \<Rightarrow> mig_error option \<times> PostgresMigrationRunner" where
  "LoadMigrationsFS walk r = load_entries walk r"

subsection \<open>Well-formed runners\<close>

definition runner_wf :: "PostgresMigrationRunner \<Rightarrow> bool" where
  "runner_wf r \<longleftrightarrow> distinct (map mg_Version (mr_migrations r)) \<and> (\<forall>m\<in>set (mr_migrations r). 0 < mg_Version m)"

lemma runner_wf_New: "runner_wf NewPostgresMigrationRunner"
  by (simp add: runner_wf_def NewPostgresMigrationRunner_def)

lemma runner_wf_Add: "runner_wf r \<Longrightarrow> runner_wf (snd (AddMigration m r))"
  by (auto simp: runner_wf_def AddMigration_def list_ex_iff)

lemma runner_wf_parse: "runner_wf r \<Longrightarrow> runner_wf (snd (parseMigrationContent f c r))"
  by (simp add: parseMigrationContent_def runner_wf_Add split: list.split option.split)

lemma runner_wf_load: "runner_wf r \<Longrightarrow> runner_wf (snd (load_entries es r))"
proof (induction es r rule: load_entries.induct)
  case (4 path base content es r)
  have p: "runner_wf r'" if "parseMigrationContent base c r = (e, r')" for c e r'
    using runner_wf_parse [OF "4.prems", of base c] that by simp
  show ?case
  proof (cases "\<exists>c r'. content = Inr c \<and> strings_HasSuffix path ''.sql'' \<and> parseMigrationContent base c r = (None, r')")
    case True
    then obtain c r' where "content = Inr c" "strings_HasSuffix path ''.sql''" "parseMigrationContent base c r = (None, r')"
      by blast
    with "4.IH" p show ?thesis by simp
  next
    case False
    then show ?thesis using "4.IH"(1) "4.prems" p by (cases content) (auto split: prod.split option.split)
  qed
qed auto

subsection \<open>What the loops do\<close>

fun run_ups :: "(string \<Rightarrow> 'd \<Rightarrow> string + 'd) \<Rightarrow> Migration list \<Rightarrow> 'd \<Rightarrow> string + 'd" where
  "run_ups run_sql [] d = Inr d"
| "run_ups run_sql (m # ms) d = (case run_sql (mg_UpSQL m) d of Inl e \<Rightarrow> Inl e | Inr d' \<Rightarrow> run_ups run_sql ms d')"

fun run_downs :: "(string \<Rightarrow> 'd \<Rightarrow> string + 'd) \<Rightarrow> Migration list \<Rightarrow> 'd \<Rightarrow> string + 'd" where
  "run_downs run_sql [] d = Inr d"
| "run_downs run_sql (m # ms) d = (case run_sql (mg_DownSQL m) d of Inl e \<Rightarrow> Inl e | Inr d' \<Rightarrow> run_downs run_sql ms d')"

definition applied :: "'d mig_db \<Rightarrow> int set" where
  "applied db = (case md_table db of None \<Rightarrow> {} | Some t \<Rightarrow> st_Version ` set t)"

definition to_apply :: "int set \<Rightarrow> int \<Rightarrow> Migration list \<Rightarrow> Migration list" where
  "to_apply A version ms = filter (\<lambda>m. mg_Version m \<notin> A \<and> (0 < version \<longrightarrow> mg_Version m \<le> version)) ms"

definition to_rollback :: "int set \<Rightarrow> int \<Rightarrow> Migration list \<Rightarrow> Migration list" where
  "to_rollback A version ms = filter (\<lambda>m. mg_Version m \<in> A \<and> version < mg_Version m) ms"

lemma apply_tx_None:
  assumes "apply_tx run_sql rec_err now m db = (None, db')"
  shows "run_sql (mg_UpSQL m) (md_app db) = Inr (md_app db')" and "applied db' = insert (mg_Version m) (applied db)"
    and "md_table db' \<noteq> None"
  using assms by (auto simp: apply_tx_def applied_def split: sum.splits option.splits if_splits)

lemma rollback_tx_None:
  assumes "rollback_tx run_sql rec_err m db = (None, db')"
  shows "run_sql (mg_DownSQL m) (md_app db) = Inr (md_app db')" and "applied db' = applied db - {mg_Version m}"
proof -
  obtain t where t: "md_table db = Some t" "run_sql (mg_DownSQL m) (md_app db) = Inr (md_app db')"
    "md_table db' = Some (filter (\<lambda>s. st_Version s \<noteq> mg_Version m) t)"
    using assms by (auto simp: rollback_tx_def split: sum.splits option.splits)
  show "run_sql (mg_DownSQL m) (md_app db) = Inr (md_app db')" by (rule t(2))
  show "applied db' = applied db - {mg_Version m}" unfolding applied_def t(1,3) by auto
qed

lemma apply_loop_prefix:
  assumes pool: "transactional pool"
    and "apply_loop pool run_sql rec_err now A version ms db = (r, db')"
  shows "\<exists>k \<le> length (to_apply A version ms).
    (r = None \<longleftrightarrow> k = length (to_apply A version ms)) \<and>
    run_ups run_sql (take k (to_apply A version ms)) (md_app db) = Inr (md_app db') \<and>
    applied db' = applied db \<union> mg_Version ` set (take k (to_apply A version ms))"
  using assms(2)
proof (induction ms arbitrary: db)
  case Nil
  then show ?case by (simp add: to_apply_def)
next
  case (Cons m ms)
  show ?case
  proof (cases "mg_Version m \<notin> A \<and> (0 < version \<longrightarrow> mg_Version m \<le> version)")
    case False
    then show ?thesis using Cons by (auto simp: to_apply_def split: if_splits)
  next
    case True
    then have ta: "to_apply A version (m # ms) = m # to_apply A version ms" by (simp add: to_apply_def)
    obtain r1 db1 where t: "Transaction pool (apply_tx run_sql rec_err now m) db = (r1, db1)" by fastforce
    note at = transactional.transaction_atomic [OF pool t]
    show ?thesis
    proof (cases r1)
      case (Some e)
      then have "r \<noteq> None" "db' = db" using Cons.prems True t at by auto
      then show ?thesis unfolding ta by (intro exI [of _ 0]) auto
    next
      case None
      then have tx: "apply_tx run_sql rec_err now m db = (None, db1)" using at by simp
      have "apply_loop pool run_sql rec_err now A version ms db1 = (r, db')" using Cons.prems True t None by auto
      from Cons.IH [OF this] obtain k where k: "k \<le> length (to_apply A version ms)"
        "r = None \<longleftrightarrow> k = length (to_apply A version ms)"
        "run_ups run_sql (take k (to_apply A version ms)) (md_app db1) = Inr (md_app db')"
        "applied db' = applied db1 \<union> mg_Version ` set (take k (to_apply A version ms))" by blast
      with apply_tx_None [OF tx] show ?thesis unfolding ta by (intro exI [of _ "Suc k"]) auto
    qed
  qed
qed

lemma rollback_loop_prefix:
  assumes pool: "transactional pool"
    and "rollback_loop pool run_sql rec_err A version ms db = (r, db')"
  shows "\<exists>k \<le> length (to_rollback A version ms).
    (r = None \<longleftrightarrow> k = length (to_rollback A version ms)) \<and>
    run_downs run_sql (take k (to_rollback A version ms)) (md_app db) = Inr (md_app db') \<and>
    applied db' = applied db - mg_Version ` set (take k (to_rollback A version ms))"
  using assms(2)
proof (induction ms arbitrary: db)
  case Nil
  then show ?case by (simp add: to_rollback_def)
next
  case (Cons m ms)
  show ?case
  proof (cases "mg_Version m \<in> A \<and> version < mg_Version m")
    case False
    then show ?thesis using Cons by (auto simp: to_rollback_def split: if_splits)
  next
    case True
    then have ta: "to_rollback A version (m # ms) = m # to_rollback A version ms" by (simp add: to_rollback_def)
    obtain r1 db1 where t: "Transaction pool (rollback_tx run_sql rec_err m) db = (r1, db1)" by fastforce
    note at = transactional.transaction_atomic [OF pool t]
    show ?thesis
    proof (cases r1)
      case (Some e)
      then have "r \<noteq> None" "db' = db" using Cons.prems True t at by auto
      then show ?thesis unfolding ta by (intro exI [of _ 0]) auto
    next
      case None
      then have tx: "rollback_tx run_sql rec_err m db = (None, db1)" using at by simp
      have "rollback_loop pool run_sql rec_err A version ms db1 = (r, db')" using Cons.prems True t None by auto
      from Cons.IH [OF this] obtain k where k: "k \<le> length (to_rollback A version ms)"
        "r = None \<longleftrightarrow> k = length (to_rollback A version ms)"
        "run_downs run_sql (take k (to_rollback A version ms)) (md_app db1) = Inr (md_app db')"
        "applied db' = applied db1 - mg_Version ` set (take k (to_rollback A version ms))" by blast
      with rollback_tx_None [OF tx] show ?thesis unfolding ta by (intro exI [of _ "Suc k"]) auto
    qed
  qed
qed

subsection \<open>The operations\<close>

definition ensured :: "'d mig_db \<Rightarrow> 'd mig_db" where
  "ensured db = (if md_table db = None then db\<lparr>md_table := Some []\<rparr> else db)"

lemma ensured [simp]: "md_app (ensured db) = md_app db" "applied (ensured db) = applied db"
  by (auto simp: ensured_def applied_def)

lemma Initialize_ok: "Initialize None db = (None, ensured db)"
  by (simp add: Initialize_def ensured_def)

lemma getAppliedVersions_ok: "getAppliedVersions None (ensured db) = Inr (applied db)"
  by (auto simp: getAppliedVersions_def ensured_def applied_def)

lemma Apply_loop:
  assumes "Apply pool run_sql rec_err None None now version r db = (err, r', db')"
  shows "r' = r\<lparr>mr_migrations := sort_key mg_Version (mr_migrations r)\<rparr>"
    and "apply_loop pool run_sql rec_err now (applied db) version (sort_key mg_Version (mr_migrations r)) (ensured db) = (err, db')"
  using assms by (auto simp: Apply_def Initialize_ok getAppliedVersions_ok Let_def split: prod.splits)

lemma Rollback_loop:
  assumes "Rollback pool run_sql rec_err None None version r db = (err, r', db')"
  shows "rollback_loop pool run_sql rec_err (applied db) (rollback_target (applied db) version)
       (rev (sort_key mg_Version (mr_migrations r))) (ensured db) = (err, db')"
  using assms by (auto simp: Rollback_def Initialize_ok getAppliedVersions_ok Let_def split: prod.splits)


lemma filter_eq_single: "distinct xs \<Longrightarrow> m \<in> set xs \<Longrightarrow> filter (\<lambda>x. x = m) xs = [m]"
  by (induction xs) (auto simp: filter_empty_conv)

lemma sorted_distinct_versions:
  assumes "runner_wf r"
  shows "sorted_wrt (<) (map mg_Version (sort_key mg_Version (mr_migrations r)))"
proof -
  have "distinct (map mg_Version (sort_key mg_Version (mr_migrations r)))"
    using assms by (metis distinct_map distinct_sort runner_wf_def set_sort)
  then show ?thesis using strict_sorted_iff sorted_sort_key by blast
qed

lemma sorted_to_apply:
  assumes "runner_wf r"
  shows "sorted_wrt (<) (map mg_Version (to_apply A version (sort_key mg_Version (mr_migrations r))))"
  using sorted_distinct_versions [OF assms] unfolding to_apply_def sorted_wrt_map by (rule sorted_wrt_filter)



subsection \<open>Two migrations\<close>

definition m_users :: Migration where
  "m_users = \<lparr>mg_Version = 1, mg_Description = ''users'', mg_UpSQL = ''+u'', mg_DownSQL = ''-u''\<rparr>"

definition m_roles :: Migration where
  "m_roles = \<lparr>mg_Version = 2, mg_Description = ''roles'', mg_UpSQL = ''+r'', mg_DownSQL = ''-r''\<rparr>"

definition two_runner :: PostgresMigrationRunner where
  "two_runner = \<lparr>mr_migrations = [m_roles, m_users]\<rparr>"

text \<open>A server that counts the statements it ran; statements that begin with a minus count back.\<close>

definition count_sql :: "string \<Rightarrow> int \<Rightarrow> string + int" where
  "count_sql sql n = Inr (if hd sql = CHR ''-'' then n - 1 else n + 1)"

definition fresh_db :: "int mig_db" where
  "fresh_db = \<lparr>md_app = 0, md_table = None\<rparr>"

definition row_of :: "Migration \<Rightarrow> MigrationStatus" where
  "row_of m = \<lparr>st_Version = mg_Version m, st_Description = mg_Description m, st_AppliedAt = 7\<rparr>"

definition full_db :: "int mig_db" where
  "full_db = \<lparr>md_app = 2, md_table = Some [row_of m_users, row_of m_roles]\<rparr>"

lemmas two_defs = m_users_def m_roles_def two_runner_def count_sql_def fresh_db_def full_db_def row_of_def

abbreviation "two_pool \<equiv> plain_pool None None None"

lemma two_runner_wf: "runner_wf two_runner" by (simp add: runner_wf_def two_defs)

lemma two_pool_ok: "transactional (two_pool :: int mig_db pg_pool)" by (rule plain.transactional_axioms)

lemma two_Apply_broken:
  "Apply two_pool count_sql ((\<lambda>_. None)(2 \<mapsto> ''timeout'')) None None 7 0 two_runner fresh_db =
     (Some (ErrMigrationTx (TxFn (ErrRecordMigration 2 ''timeout''))), two_runner\<lparr>mr_migrations := [m_users, m_roles]\<rparr>,
      \<lparr>md_app = 1, md_table = Some [row_of m_users]\<rparr>)"
  by (simp add: Apply_def Initialize_def getAppliedVersions_def Transaction_def plain_pool_def apply_tx_def two_defs)


lemma two_Rollback:
  "Rollback two_pool count_sql (\<lambda>_. None) None None 0 two_runner full_db =
     (None, two_runner\<lparr>mr_migrations := [m_roles, m_users]\<rparr>, \<lparr>md_app = 1, md_table = Some [row_of m_users]\<rparr>)"
  by (simp add: Rollback_def Initialize_def getAppliedVersions_def Transaction_def plain_pool_def rollback_tx_def
      rollback_target_def two_defs)



subsection \<open>Apply and Rollback\<close>

text \<open>
  C25: Whatever fails on the way, Apply leaves the database where an initial part of the pending
  migrations, in strictly ascending order of versions, has been run: the schema is the result of
  exactly their UpSQL and the table records exactly their versions in addition.  It returns nil just
  when all of them are applied.
\<close>

theorem Apply_ascending_prefix:
  assumes "transactional pool" and "runner_wf r"
    and "Apply pool run_sql rec_err None None now version r db = (err, r', db')"
  shows "\<exists>done todo. done @ todo = to_apply (applied db) version (sort_key mg_Version (mr_migrations r)) \<and>
    sorted_wrt (<) (map mg_Version (done @ todo)) \<and>
    run_ups run_sql done (md_app db) = Inr (md_app db') \<and>
    applied db' = applied db \<union> mg_Version ` set done \<and>
    (err = None \<longleftrightarrow> todo = [])"
proof -
  let ?P = "to_apply (applied db) version (sort_key mg_Version (mr_migrations r))"
  from apply_loop_prefix [OF assms(1) Apply_loop(2) [OF assms(3)]] obtain k where k: "k \<le> length ?P" "err = None \<longleftrightarrow> k = length ?P"
    "run_ups run_sql (take k ?P) (md_app db) = Inr (md_app db')"
    "applied db' = applied db \<union> mg_Version ` set (take k ?P)" by auto
  then show ?thesis
    by (intro exI [of _ "take k ?P"] exI [of _ "drop k ?P"]) (auto simp: sorted_to_apply [OF assms(2)])
qed

theorem Apply_ascending_prefix_witness:
  "\<exists>done todo. done @ todo = to_apply (applied fresh_db) 0 (sort_key mg_Version (mr_migrations two_runner)) \<and>
    sorted_wrt (<) (map mg_Version (done @ todo)) \<and>
    run_ups count_sql done (md_app fresh_db) = Inr 1 \<and> applied fresh_db \<union> mg_Version ` set done = {1} \<and> todo \<noteq> []"
proof -
  have a: "applied (\<lparr>md_app = 1, md_table = Some [row_of m_users]\<rparr> :: int mig_db) = {1}" by (simp add: applied_def two_defs)
  from Apply_ascending_prefix [OF two_pool_ok two_runner_wf two_Apply_broken, unfolded a]
  obtain d t where "d @ t = to_apply (applied fresh_db) 0 (sort_key mg_Version (mr_migrations two_runner))"
    and "sorted_wrt (<) (map mg_Version (d @ t))" and "run_ups count_sql d (md_app fresh_db) = Inr (1 :: int)"
    and "{1} = applied fresh_db \<union> mg_Version ` set d"
    and "(Some (ErrMigrationTx (TxFn (ErrRecordMigration 2 ''timeout''))) = None) = (t = [])"
    unfolding mig_db.simps by (elim exE conjE)
  then show ?thesis by (intro exI [of _ d] exI [of _ t] conjI) simp_all
qed

text \<open>With version 0, just the last applied migration is to be rolled back.\<close>

lemma to_rollback_last:
  assumes wf: "runner_wf r" and fin: "finite A"
    and m: "m \<in> set (mr_migrations r)" "mg_Version m = Max A" "mg_Version m \<in> A"
  shows "to_rollback A (rollback_target A 0) (rev (sort_key mg_Version (mr_migrations r))) = [m]"
proof -
  let ?ms = "rev (sort_key mg_Version (mr_migrations r))" and ?v = "rollback_target A 0"
  have pos: "0 < mg_Version m" using wf m(1) by (simp add: runner_wf_def)
  have "Max (insert 0 A) = mg_Version m" using fin m pos by (subst Max_insert) auto
  then have v: "?v = mg_Version m - 1" by (simp add: rollback_target_def)
  have inj: "x = m" if "x \<in> set (mr_migrations r)" "mg_Version x = mg_Version m" for x
    using wf m(1) that by (auto simp: runner_wf_def distinct_map inj_on_def)
  have eq: "(mg_Version x \<in> A \<and> ?v < mg_Version x) = (x = m)" if "x \<in> set (mr_migrations r)" for x
    using Max_ge [OF fin, of "mg_Version x"] inj [OF that] m unfolding v by fastforce
  have "distinct (mr_migrations r)" using wf by (simp add: runner_wf_def distinct_map)
  then have "filter (\<lambda>x. x = m) ?ms = [m]" using m(1) by (intro filter_eq_single) simp_all
  moreover have "to_rollback A ?v ?ms = filter (\<lambda>x. x = m) ?ms"
    unfolding to_rollback_def by (rule filter_cong) (simp_all add: eq)
  ultimately show ?thesis by simp
qed

text \<open>
  With version 0, Rollback rolls back the last applied migration and no other: when it returns nil
  and that migration is loaded, the schema is the result of its DownSQL alone and only its version is
  gone from the table.
\<close>

theorem Rollback_last_only:
  assumes "transactional pool" and "runner_wf r" and "finite (applied db)"
    and "m \<in> set (mr_migrations r)" and "mg_Version m = Max (applied db)" and "mg_Version m \<in> applied db"
    and "Rollback pool run_sql rec_err None None 0 r db = (None, r', db')"
  shows "run_sql (mg_DownSQL m) (md_app db) = Inr (md_app db') \<and> applied db' = applied db - {mg_Version m}"
  using rollback_loop_prefix [OF assms(1) Rollback_loop [OF assms(7)]]
  unfolding to_rollback_last [OF assms(2-6)] by (auto split: sum.splits)

theorem Rollback_last_only_witness:
  "count_sql (mg_DownSQL m_roles) (md_app full_db) = Inr 1 \<and>
   applied (\<lparr>md_app = 1, md_table = Some [row_of m_users]\<rparr> :: int mig_db) = applied full_db - {2}"
proof -
  have a: "applied full_db = {1, 2}" by (auto simp: applied_def two_defs)
  have "m_roles \<in> set (mr_migrations two_runner)" "mg_Version m_roles = Max (applied full_db)"
    "mg_Version m_roles \<in> applied full_db" "finite (applied full_db)" "mg_Version m_roles = 2"
    unfolding a by (simp_all add: two_defs)
  with Rollback_last_only [OF two_pool_ok two_runner_wf _ _ _ _ two_Rollback] show ?thesis by simp
qed






end
