(* ===== verification/PostgresQueue.thy ===== *)
theory PostgresQueue
  imports JobQueueSpec
begin

text \<open>
  Package jobs, \<open>job_queue_postgres.go\<close>: the job queue in a PostgreSQL table.  The table is a list of rows
  with a unique key, shared by every process that uses it.  The error of a statement is an argument, as are the
  order in which the server returns rows with equal keys (\<open>order\<close>) and the JSON encoding of a job, which is that of
  the application's type.  The metadata column holds the document; \<open>None\<close> is one that does not
  decode into a \<open>JobMetadata\<close>.
\<close>

subsection \<open>Data\<close>

record job_row =
  jr_job_id :: string
  jr_job_name :: string
  jr_job_data :: string
  jr_status :: JobStatus
  jr_enqueued_at :: time
  jr_started_at :: "time option"
  jr_finished_at :: "time option"
  jr_error :: "string option"
  jr_retry_count :: int
  jr_next_retry :: "time option"
  jr_metadata :: "JobMetadata option"
  jr_updated_at :: time

record PostgresJobQueue =
  pq_config :: JobQueueConfig
  pq_tableName :: string
  pq_workers :: int
  pq_closed :: bool

record serializedJob =
  sj_id :: string
  sj_name :: string
  sj_data :: string
  sj_metadata :: JobMetadata

datatype new_queue_error =
    ErrConfigType
  | ErrRedisAddress
  | ErrParseConfig string
  | ErrPool string
  | ErrCreateTable string

definition serialized_Execute :: "serializedJob \<Rightarrow> string option" where
  "serialized_Execute j = Some ''serialized job cannot be executed directly''"

text \<open>\<open>json.Marshal\<close> of the metadata fails on the floats that JSON does not have.\<close>

fun json_float :: "float64 \<Rightarrow> bool" where
  "json_float (Fin r) = True"
| "json_float _ = False"

definition metadata_encodes :: "JobMetadata \<Rightarrow> bool" where
  "metadata_encodes md \<longleftrightarrow>
     json_float (rp_Multiplier (md_RetryPolicy md)) \<and> json_float (rp_RandomizationFactor (md_RetryPolicy md))"

subsection \<open>Statements\<close>

definition sql_find :: "string \<Rightarrow> job_row list \<Rightarrow> job_row option" where
  "sql_find i t = find (\<lambda>r. jr_job_id r = i) t"

definition sql_update :: "string \<Rightarrow> (job_row \<Rightarrow> job_row) \<Rightarrow> job_row list \<Rightarrow> job_row list" where
  "sql_update i f t = map (\<lambda>r. if jr_job_id r = i then f r else r) t"

definition ensureTableExists :: "string option \<Rightarrow> job_row list option \<Rightarrow> string option \<times> job_row list option" where
  "ensureTableExists err tbl =
     (case err of
        Some e \<Rightarrow> (Some e, tbl)
      | None \<Rightarrow> (None, case tbl of None \<Rightarrow> Some [] | Some t \<Rightarrow> Some t))"

definition NewPostgresJobQueue ::
  "string option \<Rightarrow> string option \<Rightarrow> string option \<Rightarrow> JobQueueConfig \<Rightarrow> job_row list option \<Rightarrow>
   (new_queue_error + PostgresJobQueue) \<times> job_row list option" where
  "NewPostgresJobQueue parse_err pool_err table_err config tbl =
     (if qc_Type config \<noteq> ''postgres'' then (Inl ErrConfigType, tbl)
      else
        (let config = (if qc_WorkerCount config \<le> 0 then config\<lparr>qc_WorkerCount := 5\<rparr> else config);
             config = (if qc_PollInterval config \<le> 0 then config\<lparr>qc_PollInterval := 5 * Second\<rparr> else config);
             config = (if qc_Postgres_TableName config = [] then config\<lparr>qc_Postgres_TableName := ''job_queue''\<rparr> else config)
         in case (parse_err, pool_err) of
              (Some e, _) \<Rightarrow> (Inl (ErrParseConfig e), tbl)
            | (None, Some e) \<Rightarrow> (Inl (ErrPool e), tbl)
            | (None, None) \<Rightarrow>
                (case ensureTableExists table_err tbl of
                   (Some e, tbl) \<Rightarrow> (Inl (ErrCreateTable e), tbl)
                 | (None, tbl) \<Rightarrow>
                     (Inr \<lparr>pq_config = config, pq_tableName = qc_Postgres_TableName config,
                           pq_workers = qc_WorkerCount config, pq_closed = False\<rparr>, tbl))))"

subsection \<open>Operations\<close>

definition new_row :: "time \<Rightarrow> Job \<Rightarrow> string \<Rightarrow> duration \<Rightarrow> job_row" where
  "new_row now j data delay =
     \<lparr>jr_job_id = job_ID j, jr_job_name = job_Name j, jr_job_data = data, jr_status = JobStatusPending,
      jr_enqueued_at = now, jr_started_at = None, jr_finished_at = None, jr_error = None, jr_retry_count = 0,
      jr_next_retry = (if 0 < delay then Some (now + delay) else None),
      jr_metadata = Some (job_Metadata j), jr_updated_at = now\<rparr>"

definition pgq_EnqueueWithDelay ::
  "(Job \<Rightarrow> string + string) \<Rightarrow> string option \<Rightarrow> string option \<Rightarrow> time \<Rightarrow> Job option \<Rightarrow> duration \<Rightarrow>
   PostgresJobQueue \<times> job_row list \<Rightarrow> queue_error option \<times> PostgresJobQueue \<times> job_row list" where
  "pgq_EnqueueWithDelay marshal check_err insert_err now job delay qt =
     (case qt of (q, t) \<Rightarrow>
       (case job of
          None \<Rightarrow> (Some ErrInvalidJobID, q, t)
        | Some j \<Rightarrow>
            if job_ID j = [] then (Some ErrInvalidJobID, q, t)
            else if pq_closed q then (Some ErrQueueClosed, q, t)
            else case check_err of
                Some e \<Rightarrow> (Some (ErrStore (''failed to check if job exists: '' @ e)), q, t)
              | None \<Rightarrow>
                  if sql_find (job_ID j) t \<noteq> None then (Some ErrJobAlreadyExists, q, t)
                  else case marshal j of
                      Inl e \<Rightarrow> (Some (ErrStore (''failed to serialize job: '' @ e)), q, t)
                    | Inr data \<Rightarrow>
                        if \<not> metadata_encodes (job_Metadata j)
                        then (Some (ErrStore ''failed to serialize job metadata''), q, t)
                        else case insert_err of
                            Some e \<Rightarrow> (Some (ErrStore (''failed to enqueue job: '' @ e)), q, t)
                          | None \<Rightarrow> (None, q, t @ [new_row now j data delay])))"

definition pgq_Enqueue ::
  "(Job \<Rightarrow> string + string) \<Rightarrow> string option \<Rightarrow> string option \<Rightarrow> time \<Rightarrow> Job option \<Rightarrow>
   PostgresJobQueue \<times> job_row list \<Rightarrow> queue_error option \<times> PostgresJobQueue \<times> job_row list" where
  "pgq_Enqueue marshal check_err insert_err now job qt = pgq_EnqueueWithDelay marshal check_err insert_err now job 0 qt"

definition pgq_Process :: "bool \<Rightarrow> PostgresJobQueue \<Rightarrow> queue_error + nat" where
  "pgq_Process handler_nil q =
     (if handler_nil then Inl ErrNilHandler
      else if pq_closed q then Inl ErrQueueClosed
      else Inr (nat (pq_workers q)))"

definition row_ready :: "time \<Rightarrow> job_row \<Rightarrow> bool" where
  "row_ready now r \<longleftrightarrow>
     jr_status r = JobStatusPending \<and> (case jr_next_retry r of None \<Rightarrow> True | Some n \<Rightarrow> n \<le> now)"

text \<open>One statement: the inner select locks the row it returns.\<close>

definition pgq_dequeueJob ::
  "(job_row list \<Rightarrow> job_row list) \<Rightarrow> string option \<Rightarrow> time \<Rightarrow> job_row list \<Rightarrow> (queue_error + string) \<times> job_row list" where
  "pgq_dequeueJob order err now t =
     (case err of
        Some e \<Rightarrow> (Inl (ErrStore e), t)
      | None \<Rightarrow>
          (case order (filter (row_ready now) t) of
             [] \<Rightarrow> (Inr [], t)
           | r # _ \<Rightarrow>
               (Inr (jr_job_id r),
                sql_update (jr_job_id r)
                  (\<lambda>r. r\<lparr>jr_status := JobStatusRunning, jr_started_at := Some now, jr_updated_at := now\<rparr>) t)))"

definition pgq_markJobCompleted :: "string option \<Rightarrow> time \<Rightarrow> string \<Rightarrow> job_row list \<Rightarrow> job_row list" where
  "pgq_markJobCompleted err now i t =
     (case err of
        Some e \<Rightarrow> t
      | None \<Rightarrow> sql_update i (\<lambda>r. r\<lparr>jr_status := JobStatusCompleted, jr_finished_at := Some now, jr_updated_at := now\<rparr>) t)"

definition pgq_markJobFailed :: "string option \<Rightarrow> time \<Rightarrow> string \<Rightarrow> string \<Rightarrow> job_row list \<Rightarrow> job_row list" where
  "pgq_markJobFailed err now i msg t =
     (case err of
        Some e \<Rightarrow> t
      | None \<Rightarrow>
          sql_update i (\<lambda>r. r\<lparr>jr_status := JobStatusFailed, jr_error := Some msg, jr_finished_at := Some now,
                               jr_updated_at := now\<rparr>) t)"

text \<open>The errors of the statements that processing a job runs.\<close>

record process_errs =
  pe_load :: "string option"
  pe_select :: "string option"
  pe_retry :: "string option"
  pe_mark :: "string option"

definition effective_policy :: "JobQueueConfig \<Rightarrow> JobMetadata \<Rightarrow> RetryPolicy" where
  "effective_policy config md =
     (if rp_MaxRetries (md_RetryPolicy md) = 0 then qc_RetryPolicy config else md_RetryPolicy md)"

definition pgq_handleJobFailure ::
  "(float64 \<Rightarrow> int) \<Rightarrow> float64 \<Rightarrow> JobQueueConfig \<Rightarrow> process_errs \<Rightarrow> time \<Rightarrow> string \<Rightarrow> string \<Rightarrow> job_row list \<Rightarrow> job_row list" where
  "pgq_handleJobFailure ovf u config es now i msg t =
     (case (pe_select es, sql_find i t) of
        (None, Some r) \<Rightarrow>
          (case jr_metadata r of
             None \<Rightarrow> pgq_markJobFailed (pe_mark es) now i msg t
           | Some md \<Rightarrow>
               (let retryCount = jr_retry_count r + 1;
                    retryPolicy = effective_policy config md
                in if retryCount \<le> rp_MaxRetries retryPolicy then
                     (let nextRetry = now + CalculateBackoff ovf u retryPolicy retryCount
                      in case pe_retry es of
                           None \<Rightarrow>
                             sql_update i (\<lambda>r. r\<lparr>jr_status := JobStatusPending, jr_error := Some msg,
                               jr_retry_count := retryCount, jr_next_retry := Some nextRetry, jr_updated_at := now\<rparr>) t
                         | Some e \<Rightarrow> pgq_markJobFailed (pe_mark es) now i msg t)
                   else pgq_markJobFailed (pe_mark es) now i msg t))
      | _ \<Rightarrow> pgq_markJobFailed (pe_mark es) now i msg t)"

text \<open>
  The handler gets the timeout of its context and the job, and returns its error.  The statements before and after it run
  at different times, with other processes in between: \<open>t\<close> is the table when the job is loaded, \<open>t'\<close> when the
  handler has returned.
\<close>

definition pgq_processJob ::
  "(float64 \<Rightarrow> int) \<Rightarrow> float64 \<Rightarrow> JobQueueConfig \<Rightarrow> process_errs \<Rightarrow> (duration option \<Rightarrow> serializedJob \<Rightarrow> string option) \<Rightarrow>
   time \<Rightarrow> string \<Rightarrow> job_row list \<Rightarrow> job_row list \<Rightarrow> job_row list" where
  "pgq_processJob ovf u config es handler now i t t' =
     (case (pe_load es, sql_find i t) of
        (None, Some r) \<Rightarrow>
          (case jr_metadata r of
             None \<Rightarrow> pgq_markJobFailed (pe_mark es) now i ''failed to parse job metadata'' t'
           | Some md \<Rightarrow>
               (case handler (if 0 < md_Timeout md then Some (md_Timeout md) else None)
                       \<lparr>sj_id = i, sj_name = jr_job_name r, sj_data = jr_job_data r, sj_metadata = md\<rparr> of
                  Some msg \<Rightarrow> pgq_handleJobFailure ovf u config es now i msg t'
                | None \<Rightarrow> pgq_markJobCompleted (pe_mark es) now i t'))
      | _ \<Rightarrow> t')"

definition pgq_cancel_check :: "string option \<Rightarrow> string \<Rightarrow> job_row list \<Rightarrow> queue_error option" where
  "pgq_cancel_check err i t =
     (case err of
        Some e \<Rightarrow> Some (ErrStore (''failed to check job status: '' @ e))
      | None \<Rightarrow>
          (case sql_find i t of
             None \<Rightarrow> Some ErrJobNotFound
           | Some r \<Rightarrow> if jr_status r \<noteq> JobStatusPending then Some ErrNotPending else None))"

definition pgq_cancel_update :: "string option \<Rightarrow> time \<Rightarrow> string \<Rightarrow> job_row list \<Rightarrow> queue_error option \<times> job_row list" where
  "pgq_cancel_update err now i t =
     (case err of
        Some e \<Rightarrow> (Some (ErrStore (''failed to cancel job: '' @ e)), t)
      | None \<Rightarrow>
          (None, sql_update i (\<lambda>r. r\<lparr>jr_status := JobStatusCancelled, jr_finished_at := Some now, jr_updated_at := now\<rparr>) t))"

definition pgq_Cancel ::
  "string option \<Rightarrow> string option \<Rightarrow> time \<Rightarrow> string \<Rightarrow> PostgresJobQueue \<times> job_row list \<Rightarrow>
   queue_error option \<times> PostgresJobQueue \<times> job_row list" where
  "pgq_Cancel select_err update_err now i qt =
     (case qt of (q, t) \<Rightarrow>
       (if i = [] then (Some ErrInvalidJobID, q, t)
        else case pgq_cancel_check select_err i t of
            Some e \<Rightarrow> (Some e, q, t)
          | None \<Rightarrow> (case pgq_cancel_update update_err now i t of (r, t) \<Rightarrow> (r, q, t))))"

definition row_info :: "job_row \<Rightarrow> JobMetadata \<Rightarrow> JobInfo" where
  "row_info r md =
     \<lparr>ji_ID = jr_job_id r, ji_Name = jr_job_name r, ji_Spec = [], ji_NextRun = zero_Time, ji_LastRun = None,
      ji_LastError = None, ji_Status = jr_status r, ji_EnqueuedAt = jr_enqueued_at r, ji_StartedAt = jr_started_at r,
      ji_FinishedAt = jr_finished_at r, ji_Error = jr_error r, ji_RetryCount = jr_retry_count r,
      ji_NextRetry = jr_next_retry r, ji_Metadata = md\<rparr>"

definition pgq_Get :: "string option \<Rightarrow> string \<Rightarrow> job_row list \<Rightarrow> queue_error + JobInfo" where
  "pgq_Get err i t =
     (if i = [] then Inl ErrInvalidJobID
      else case err of
          Some e \<Rightarrow> Inl (ErrStore (''failed to get job: '' @ e))
        | None \<Rightarrow>
            (case sql_find i t of
               None \<Rightarrow> Inl ErrJobNotFound
             | Some r \<Rightarrow>
                 (case jr_metadata r of
                    None \<Rightarrow> Inl (ErrStore ''failed to parse job metadata'')
                  | Some md \<Rightarrow> Inr (row_info r md))))"

text \<open>The query that \<open>List\<close> builds, and the rows it scans.\<close>

definition list_query :: "(job_row list \<Rightarrow> job_row list) \<Rightarrow> JobFilter \<Rightarrow> job_row list \<Rightarrow> job_row list" where
  "list_query order_desc f t =
     (let rs = filter (\<lambda>r. (jf_Status f \<noteq> [] \<longrightarrow> jr_status r \<in> set (jf_Status f)) \<and>
                           (case jf_StartTime f of None \<Rightarrow> True | Some s \<Rightarrow> s \<le> jr_enqueued_at r) \<and>
                           (case jf_EndTime f of None \<Rightarrow> True | Some e \<Rightarrow> jr_enqueued_at r \<le> e)) t;
          rs = order_desc rs;
          rs = (if 0 < jf_Offset f then drop (nat (jf_Offset f)) rs else rs)
      in if 0 < jf_Limit f then take (nat (jf_Limit f)) rs else rs)"

definition pgq_List ::
  "(job_row list \<Rightarrow> job_row list) \<Rightarrow> string option \<Rightarrow> JobFilter \<Rightarrow> job_row list \<Rightarrow> queue_error + JobInfo list" where
  "pgq_List order_desc err f t =
     (case err of
        Some e \<Rightarrow> Inl (ErrStore (''failed to list jobs: '' @ e))
      | None \<Rightarrow>
          Inr (concat (map (\<lambda>r. case jr_metadata r of None \<Rightarrow> [] | Some md \<Rightarrow> [row_info r md]) (list_query order_desc f t))))"

definition pgq_Close :: "PostgresJobQueue \<Rightarrow> PostgresJobQueue" where
  "pgq_Close q = (if pq_closed q then q else q\<lparr>pq_closed := True\<rparr>)"

end
