(* ===== verification/RedisQueue.thy ===== *)
theory RedisQueue
  imports PostgresQueue "HOL-Library.List_Lexorder" "HOL-Library.Char_ord"
begin

text \<open>
  Package jobs, \<open>job_queue_redis.go\<close>: the job queue in Redis.  The database maps keys to values; a string value is the job entry
  it encodes (\<open>None\<close> if it encodes none), a sorted set the list of its members with their scores.  A pipeline is the list of
  its commands, executed together.  The error of a command or pipeline that does not reach the
  server is an argument.
\<close>

subsection \<open>Data\<close>

record RedisJobEntry =
  re_JobID :: string
  re_JobName :: string
  re_JobData :: string
  re_Status :: JobStatus
  re_EnqueuedAt :: time
  re_StartedAt :: "time option"
  re_FinishedAt :: "time option"
  re_Error :: string
  re_RetryCount :: int
  re_NextRetry :: "time option"
  re_Metadata :: JobMetadata

record RedisJobQueue =
  rq_config :: JobQueueConfig
  rq_namespace :: string
  rq_workers :: int
  rq_closed :: bool

datatype redis_val =
    RString "RedisJobEntry option"
  | RZset "(string \<times> float64) list"

type_synonym redis_db = "string \<rightharpoonup> redis_val"

definition NewRedisJobQueue :: "JobQueueConfig \<Rightarrow> new_queue_error + RedisJobQueue" where
  "NewRedisJobQueue config =
     (if qc_Type config \<noteq> ''redis'' then Inl ErrConfigType
      else if qc_Redis_Address config = [] then Inl ErrRedisAddress
      else
        (let config = (if qc_WorkerCount config \<le> 0 then config\<lparr>qc_WorkerCount := 5\<rparr> else config);
             config = (if qc_PollInterval config \<le> 0 then config\<lparr>qc_PollInterval := 5 * Second\<rparr> else config);
             config = (if qc_Redis_Namespace config = [] then config\<lparr>qc_Redis_Namespace := ''microlib:jobs''\<rparr> else config)
         in Inr \<lparr>rq_config = config, rq_namespace = qc_Redis_Namespace config, rq_workers = qc_WorkerCount config, rq_closed = False\<rparr>))"

definition jobKey :: "RedisJobQueue \<Rightarrow> string \<Rightarrow> string" where
  "jobKey q jobID = rq_namespace q @ '':job:'' @ jobID"

definition pendingQueueKey :: "RedisJobQueue \<Rightarrow> string" where
  "pendingQueueKey q = rq_namespace q @ '':pending''"

definition processingQueueKey :: "RedisJobQueue \<Rightarrow> string" where
  "processingQueueKey q = rq_namespace q @ '':processing''"

subsection \<open>Commands\<close>

text \<open>The replies of \<open>GET\<close>: nil, the wrong type, or the string.\<close>

datatype get_reply = GetNil | GetWrongType | GetValue "RedisJobEntry option"

definition redis_Get :: "string \<Rightarrow> redis_db \<Rightarrow> get_reply" where
  "redis_Get k db =
     (case db k of None \<Rightarrow> GetNil | Some (RZset _) \<Rightarrow> GetWrongType | Some (RString v) \<Rightarrow> GetValue v)"

datatype redis_cmd =
    CSet string RedisJobEntry
  | CZAdd string float64 string
  | CZRem string string

definition zset_add :: "string \<Rightarrow> float64 \<Rightarrow> (string \<times> float64) list \<Rightarrow> (string \<times> float64) list" where
  "zset_add m s z = (m, s) # filter (\<lambda>p. fst p \<noteq> m) z"

text \<open>A command on a value of another type is an error that changes nothing; an empty set is no key.\<close>

fun exec_cmd :: "redis_cmd \<Rightarrow> redis_db \<Rightarrow> redis_db" where
  "exec_cmd (CSet k e) db = db(k \<mapsto> RString (Some e))"
| "exec_cmd (CZAdd k s m) db =
     (case db k of
        None \<Rightarrow> db(k \<mapsto> RZset [(m, s)])
      | Some (RZset z) \<Rightarrow> db(k \<mapsto> RZset (zset_add m s z))
      | Some (RString _) \<Rightarrow> db)"
| "exec_cmd (CZRem k m) db =
     (case db k of
        Some (RZset z) \<Rightarrow>
          (let z = filter (\<lambda>p. fst p \<noteq> m) z in if z = [] then db(k := None) else db(k \<mapsto> RZset z))
      | _ \<Rightarrow> db)"

fun cmd_error :: "redis_cmd \<Rightarrow> redis_db \<Rightarrow> bool" where
  "cmd_error (CSet k e) db = False"
| "cmd_error (CZAdd k s m) db = (case db k of Some (RString _) \<Rightarrow> True | _ \<Rightarrow> False)"
| "cmd_error (CZRem k m) db = (case db k of Some (RString _) \<Rightarrow> True | _ \<Rightarrow> False)"

text \<open>A pipeline executes every command; its error is the first of theirs, or the one that kept it from the server.\<close>

fun run_pipe :: "redis_cmd list \<Rightarrow> redis_db \<Rightarrow> string option \<times> redis_db" where
  "run_pipe [] db = (None, db)"
| "run_pipe (c # cs) db =
     (case run_pipe cs (exec_cmd c db) of (e, db') \<Rightarrow> (if cmd_error c db then Some ''WRONGTYPE'' else e, db'))"

definition pipe_Exec :: "string option \<Rightarrow> redis_cmd list \<Rightarrow> redis_db \<Rightarrow> string option \<times> redis_db" where
  "pipe_Exec err cs db = (case err of Some e \<Rightarrow> (Some e, db) | None \<Rightarrow> run_pipe cs db)"

text \<open>The order of a sorted set: by score, then by member.\<close>

definition z_less :: "string \<times> float64 \<Rightarrow> string \<times> float64 \<Rightarrow> bool" where
  "z_less a b \<longleftrightarrow> f64_less (snd a) (snd b) \<or> (snd a = snd b \<and> fst a < fst b)"

definition z_first :: "(string \<times> float64) list \<Rightarrow> string option" where
  "z_first z =
     (case z of
        [] \<Rightarrow> None
      | x # xs \<Rightarrow> Some (fst (foldl (\<lambda>a b. if z_less b a then b else a) x xs)))"

definition redis_ZRangeByScore :: "string \<Rightarrow> float64 \<Rightarrow> float64 \<Rightarrow> redis_db \<Rightarrow> string + string option" where
  "redis_ZRangeByScore k lo hi db =
     (case db k of
        None \<Rightarrow> Inr None
      | Some (RString _) \<Rightarrow> Inl ''WRONGTYPE''
      | Some (RZset z) \<Rightarrow> Inr (z_first (filter (\<lambda>p. \<not> f64_less (snd p) lo \<and> \<not> f64_less hi (snd p)) z)))"

subsection \<open>Operations\<close>

definition new_redis_entry :: "time \<Rightarrow> Job \<Rightarrow> string \<Rightarrow> RedisJobEntry" where
  "new_redis_entry now j data =
     \<lparr>re_JobID = job_ID j, re_JobName = job_Name j, re_JobData = data, re_Status = JobStatusPending,
      re_EnqueuedAt = now, re_StartedAt = None, re_FinishedAt = None, re_Error = [], re_RetryCount = 0,
      re_NextRetry = None, re_Metadata = job_Metadata j\<rparr>"

definition rdq_EnqueueWithDelay ::
  "(Job \<Rightarrow> string + string) \<Rightarrow> string option \<Rightarrow> string option \<Rightarrow> time \<Rightarrow> Job option \<Rightarrow> duration \<Rightarrow>
   RedisJobQueue \<times> redis_db \<Rightarrow> queue_error option \<times> RedisJobQueue \<times> redis_db" where
  "rdq_EnqueueWithDelay marshal exists_err pipe_err now job delay qd =
     (case qd of (q, db) \<Rightarrow>
       (case job of
          None \<Rightarrow> (Some ErrInvalidJobID, q, db)
        | Some j \<Rightarrow>
            if job_ID j = [] then (Some ErrInvalidJobID, q, db)
            else if rq_closed q then (Some ErrQueueClosed, q, db)
            else case exists_err of
                Some e \<Rightarrow> (Some (ErrStore (''failed to check if job exists: '' @ e)), q, db)
              | None \<Rightarrow>
                  if db (jobKey q (job_ID j)) \<noteq> None then (Some ErrJobAlreadyExists, q, db)
                  else case marshal j of
                      Inl e \<Rightarrow> (Some (ErrStore (''failed to serialize job: '' @ e)), q, db)
                    | Inr data \<Rightarrow>
                        if \<not> metadata_encodes (job_Metadata j)
                        then (Some (ErrStore ''failed to serialize job entry''), q, db)
                        else case pipe_Exec pipe_err
                               [CSet (jobKey q (job_ID j)) (new_redis_entry now j data),
                                CZAdd (pendingQueueKey q) (f64_of_int (now + delay)) (job_ID j)] db of
                            (Some e, db) \<Rightarrow> (Some (ErrStore (''failed to enqueue job: '' @ e)), q, db)
                          | (None, db) \<Rightarrow> (None, q, db)))"

definition rdq_Enqueue ::
  "(Job \<Rightarrow> string + string) \<Rightarrow> string option \<Rightarrow> string option \<Rightarrow> time \<Rightarrow> Job option \<Rightarrow>
   RedisJobQueue \<times> redis_db \<Rightarrow> queue_error option \<times> RedisJobQueue \<times> redis_db" where
  "rdq_Enqueue marshal exists_err pipe_err now job qd = rdq_EnqueueWithDelay marshal exists_err pipe_err now job 0 qd"

definition rdq_Process :: "bool \<Rightarrow> RedisJobQueue \<Rightarrow> queue_error + nat" where
  "rdq_Process handler_nil q =
     (if handler_nil then Inl ErrNilHandler
      else if rq_closed q then Inl ErrQueueClosed
      else Inr (nat (rq_workers q)))"

text \<open>\<open>updateJobStatus\<close> reads the entry at once and adds a command to the pipeline.\<close>

definition updateJobStatus ::
  "string option \<Rightarrow> RedisJobQueue \<Rightarrow> time \<Rightarrow> string \<Rightarrow> JobStatus \<Rightarrow> redis_db \<Rightarrow> redis_cmd list" where
  "updateJobStatus get_err q now jobID status db =
     (case (get_err, redis_Get (jobKey q jobID) db) of
        (None, GetValue (Some jobEntry)) \<Rightarrow>
          (let jobEntry = jobEntry\<lparr>re_Status := status\<rparr>;
               jobEntry = (if status = JobStatusRunning \<and> re_StartedAt jobEntry = None
                           then jobEntry\<lparr>re_StartedAt := Some now\<rparr> else jobEntry);
               jobEntry = (if status \<in> {JobStatusCompleted, JobStatusFailed, JobStatusCancelled}
                           then jobEntry\<lparr>re_FinishedAt := Some now\<rparr> else jobEntry)
           in [CSet (jobKey q jobID) jobEntry])
      | _ \<Rightarrow> [])"

text \<open>The range query and the move to the processing queue, between which other workers may run.\<close>

definition dequeue_range :: "RedisJobQueue \<Rightarrow> time \<Rightarrow> redis_db \<Rightarrow> string + string option" where
  "dequeue_range q now db = redis_ZRangeByScore (pendingQueueKey q) (Fin 0) (f64_of_int now) db"

definition dequeue_move :: "string option \<Rightarrow> RedisJobQueue \<Rightarrow> time \<Rightarrow> string \<Rightarrow> redis_db \<Rightarrow> redis_cmd list" where
  "dequeue_move get_err q now jobID db =
     [CZRem (pendingQueueKey q) jobID, CZAdd (processingQueueKey q) (f64_of_int now) jobID] @
     updateJobStatus get_err q now jobID JobStatusRunning db"

definition rdq_dequeueJob ::
  "string option \<Rightarrow> string option \<Rightarrow> string option \<Rightarrow> RedisJobQueue \<Rightarrow> time \<Rightarrow> redis_db \<Rightarrow> (string + string) \<times> redis_db" where
  "rdq_dequeueJob range_err get_err pipe_err q now db =
     (case range_err of
        Some e \<Rightarrow> (Inl e, db)
      | None \<Rightarrow>
          (case dequeue_range q now db of
             Inl e \<Rightarrow> (Inl e, db)
           | Inr None \<Rightarrow> (Inr [], db)
           | Inr (Some jobID) \<Rightarrow>
               (case pipe_Exec pipe_err (dequeue_move get_err q now jobID db) db of
                  (Some e, db) \<Rightarrow> (Inl e, db)
                | (None, db) \<Rightarrow> (Inr jobID, db))))"

definition getJobEntry :: "string option \<Rightarrow> RedisJobQueue \<Rightarrow> string \<Rightarrow> redis_db \<Rightarrow> queue_error + RedisJobEntry" where
  "getJobEntry get_err q jobID db =
     (case get_err of
        Some e \<Rightarrow> Inl (ErrStore (''failed to get job entry: '' @ e))
      | None \<Rightarrow>
          (case redis_Get (jobKey q jobID) db of
             GetNil \<Rightarrow> Inl ErrJobNotFound
           | GetWrongType \<Rightarrow> Inl (ErrStore ''failed to get job entry: WRONGTYPE'')
           | GetValue None \<Rightarrow> Inl (ErrStore ''failed to deserialize job entry'')
           | GetValue (Some e) \<Rightarrow> Inr e))"

definition deserializeJob :: "RedisJobEntry \<Rightarrow> serializedJob" where
  "deserializeJob e =
     \<lparr>sj_id = re_JobID e, sj_name = re_JobName e, sj_data = re_JobData e, sj_metadata = re_Metadata e\<rparr>"

text \<open>The errors of the reads and the pipeline that processing a job runs.\<close>

record redis_errs =
  de_load :: "string option"
  de_get :: "string option"
  de_pipe :: "string option"

definition rdq_markJobCompleted :: "redis_errs \<Rightarrow> RedisJobQueue \<Rightarrow> time \<Rightarrow> string \<Rightarrow> redis_db \<Rightarrow> redis_db" where
  "rdq_markJobCompleted es q now jobID db =
     snd (pipe_Exec (de_pipe es)
       (CZRem (processingQueueKey q) jobID # updateJobStatus (de_get es) q now jobID JobStatusCompleted db) db)"

definition rdq_markJobFailed :: "redis_errs \<Rightarrow> RedisJobQueue \<Rightarrow> time \<Rightarrow> string \<Rightarrow> string \<Rightarrow> redis_db \<Rightarrow> redis_db" where
  "rdq_markJobFailed es q now jobID msg db =
     snd (pipe_Exec (de_pipe es)
       (CZRem (processingQueueKey q) jobID #
        (case (de_get es, redis_Get (jobKey q jobID) db) of
           (None, GetValue (Some jobEntry)) \<Rightarrow>
             [CSet (jobKey q jobID) (jobEntry\<lparr>re_Status := JobStatusFailed, re_Error := msg, re_FinishedAt := Some now\<rparr>)]
         | _ \<Rightarrow> updateJobStatus (de_get es) q now jobID JobStatusFailed db)) db)"

text \<open>The entry is the one read before the handler ran.\<close>

definition rdq_handleJobFailure ::
  "(float64 \<Rightarrow> int) \<Rightarrow> float64 \<Rightarrow> redis_errs \<Rightarrow> RedisJobQueue \<Rightarrow> time \<Rightarrow> string \<Rightarrow> RedisJobEntry \<Rightarrow> string \<Rightarrow> redis_db \<Rightarrow> redis_db" where
  "rdq_handleJobFailure ovf u es q now jobID jobEntry msg db =
     (let jobEntry = jobEntry\<lparr>re_RetryCount := re_RetryCount jobEntry + 1\<rparr>;
          retryPolicy = effective_policy (rq_config q) (re_Metadata jobEntry)
      in if re_RetryCount jobEntry \<le> rp_MaxRetries retryPolicy then
           (let nextRetry = now + CalculateBackoff ovf u retryPolicy (re_RetryCount jobEntry);
                jobEntry = jobEntry\<lparr>re_NextRetry := Some nextRetry, re_Status := JobStatusPending, re_Error := msg\<rparr>
            in snd (pipe_Exec (de_pipe es)
                 [CZRem (processingQueueKey q) jobID, CZAdd (pendingQueueKey q) (f64_of_int nextRetry) jobID,
                  CSet (jobKey q jobID) jobEntry] db))
         else rdq_markJobFailed es q now jobID msg db)"

text \<open>As for the PostgreSQL queue, the database is \<open>db\<close> when the job is loaded and \<open>db'\<close> when the handler has returned.\<close>

definition rdq_processJob ::
  "(float64 \<Rightarrow> int) \<Rightarrow> float64 \<Rightarrow> redis_errs \<Rightarrow> RedisJobQueue \<Rightarrow> (duration option \<Rightarrow> serializedJob \<Rightarrow> string option) \<Rightarrow> time \<Rightarrow> string \<Rightarrow>
   redis_db \<Rightarrow> redis_db \<Rightarrow> redis_db" where
  "rdq_processJob ovf u es q handler now jobID db db' =
     (case getJobEntry (de_load es) q jobID db of
        Inl e \<Rightarrow> db'
      | Inr jobEntry \<Rightarrow>
          (let timeout = md_Timeout (re_Metadata jobEntry)
           in case handler (if 0 < timeout then Some timeout else None) (deserializeJob jobEntry) of
                Some msg \<Rightarrow> rdq_handleJobFailure ovf u es q now jobID jobEntry msg db'
              | None \<Rightarrow> rdq_markJobCompleted es q now jobID db'))"

definition rdq_Cancel ::
  "string option \<Rightarrow> string option \<Rightarrow> string option \<Rightarrow> time \<Rightarrow> string \<Rightarrow> RedisJobQueue \<times> redis_db \<Rightarrow>
   queue_error option \<times> RedisJobQueue \<times> redis_db" where
  "rdq_Cancel exists_err get_err pipe_err now jobID qd =
     (case qd of (q, db) \<Rightarrow>
       (if jobID = [] then (Some ErrInvalidJobID, q, db)
        else case exists_err of
            Some e \<Rightarrow> (Some (ErrStore (''failed to check if job exists: '' @ e)), q, db)
          | None \<Rightarrow>
              if db (jobKey q jobID) = None then (Some ErrJobNotFound, q, db)
              else case getJobEntry get_err q jobID db of
                  Inl e \<Rightarrow> (Some e, q, db)
                | Inr jobEntry \<Rightarrow>
                    if re_Status jobEntry \<noteq> JobStatusPending then (Some ErrNotPending, q, db)
                    else case pipe_Exec pipe_err
                           (CZRem (pendingQueueKey q) jobID # updateJobStatus get_err q now jobID JobStatusCancelled db) db of
                        (Some e, db) \<Rightarrow> (Some (ErrStore e), q, db)
                      | (None, db) \<Rightarrow> (None, q, db)))"

definition redis_info :: "RedisJobEntry \<Rightarrow> JobInfo" where
  "redis_info e =
     \<lparr>ji_ID = re_JobID e, ji_Name = re_JobName e, ji_Spec = [], ji_NextRun = zero_Time, ji_LastRun = None,
      ji_LastError = None, ji_Status = re_Status e, ji_EnqueuedAt = re_EnqueuedAt e, ji_StartedAt = re_StartedAt e,
      ji_FinishedAt = re_FinishedAt e, ji_Error = Some (re_Error e), ji_RetryCount = re_RetryCount e,
      ji_NextRetry = re_NextRetry e, ji_Metadata = re_Metadata e\<rparr>"

definition rdq_Get :: "string option \<Rightarrow> RedisJobQueue \<Rightarrow> string \<Rightarrow> redis_db \<Rightarrow> queue_error + JobInfo" where
  "rdq_Get get_err q jobID db =
     (if jobID = [] then Inl ErrInvalidJobID
      else case getJobEntry get_err q jobID db of Inl e \<Rightarrow> Inl e | Inr jobEntry \<Rightarrow> Inr (redis_info jobEntry))"

text \<open>
  \<open>keys\<close> are the keys the scans return for the pattern of job keys.  The ID is what follows the first
  \<open>len(q.namespace) + 6\<close> bytes of the key; slicing a shorter key panics (\<open>None\<close>).
\<close>

definition list_ids :: "RedisJobQueue \<Rightarrow> string list \<Rightarrow> string list option" where
  "list_ids q keys =
     (let n = length (rq_namespace q) + 6
      in if list_ex (\<lambda>k. length k < n) keys then None else Some (map (drop n) keys))"

definition rdq_List ::
  "string option \<Rightarrow> RedisJobQueue \<Rightarrow> string list \<Rightarrow> JobFilter \<Rightarrow> redis_db \<Rightarrow> (queue_error + JobInfo list) option" where
  "rdq_List scan_err q keys f db =
     (case scan_err of
        Some e \<Rightarrow> Some (Inl (ErrStore (''failed to scan jobs: '' @ e)))
      | None \<Rightarrow>
          (case list_ids q keys of
             None \<Rightarrow> None
           | Some jobIDs \<Rightarrow>
               Some (Inr (page f (concat (map (\<lambda>jobID. case getJobEntry None q jobID db of
                   Inl e \<Rightarrow> []
                 | Inr e \<Rightarrow> if filter_matches f (re_Status e) (re_EnqueuedAt e) then [redis_info e] else []) jobIDs))))))"

definition rdq_Close :: "RedisJobQueue \<Rightarrow> RedisJobQueue" where
  "rdq_Close q = (if rq_closed q then q else q\<lparr>rq_closed := True\<rparr>)"

end
