(* ===== verification/PostgresQueueProps.thy ===== *)
theory PostgresQueueProps
  imports PostgresQueue
begin

text \<open>
  The properties of the PostgreSQL job queue: without failing statements its clients see the abstract table of
  statuses of \<open>JobQueueSpec\<close>; however the statements of several processes interleave, no job is with two workers;
  a worker takes the oldest job that is ready; what processing a job leaves in the table, on every branch.
\<close>

subsection \<open>Rows\<close>

lemma sql_find_update:
  assumes "\<And>r. jr_job_id (f r) = jr_job_id r"
  shows "sql_find j (sql_update i f t) = (if j = i then map_option f (sql_find i t) else sql_find j t)"
  by (induction t) (auto simp: sql_find_def sql_update_def assms)

lemma sql_find_append: "sql_find j (t @ [r]) = (case sql_find j t of Some x \<Rightarrow> Some x | None \<Rightarrow> if jr_job_id r = j then Some r else None)"
  by (induction t) (auto simp: sql_find_def)

lemma sql_find_Some: "sql_find i t = Some r \<Longrightarrow> r \<in> set t \<and> jr_job_id r = i"
  by (auto simp: sql_find_def find_Some_iff)

lemma sql_find_None: "sql_find i t = None \<longleftrightarrow> i \<notin> jr_job_id ` set t"
  by (auto simp: sql_find_def find_None_iff)

lemma sql_find_member: "distinct (map jr_job_id t) \<Longrightarrow> r \<in> set t \<Longrightarrow> sql_find (jr_job_id r) t = Some r"
  by (induction t) (auto simp: sql_find_def image_iff)

lemma row_update_ids [simp]: "(\<And>r. jr_job_id (f r) = jr_job_id r) \<Longrightarrow> map jr_job_id (sql_update i f t) = map jr_job_id t"
  by (auto simp: sql_update_def)

definition unique_ids :: "job_row list \<Rightarrow> bool" where
  "unique_ids t \<longleftrightarrow> distinct (map jr_job_id t)"

definition row_status :: "job_row list \<Rightarrow> string \<rightharpoonup> JobStatus" where
  "row_status t i = map_option jr_status (sql_find i t)"

lemma unique_ids_update [simp]: "(\<And>r. jr_job_id (f r) = jr_job_id r) \<Longrightarrow> unique_ids (sql_update i f t) = unique_ids t"
  by (simp add: unique_ids_def)

lemma unique_ids_append: "unique_ids t \<Longrightarrow> sql_find (jr_job_id r) t = None \<Longrightarrow> unique_ids (t @ [r])"
  by (auto simp: unique_ids_def sql_find_None)

lemma row_status_update:
  "(\<And>r. jr_job_id (f r) = jr_job_id r) \<Longrightarrow>
   row_status (sql_update i f t) j = (if j = i then map_option (\<lambda>r. jr_status (f r)) (sql_find i t) else row_status t j)"
  by (simp add: row_status_def sql_find_update option.map_comp comp_def)

subsection \<open>The interface\<close>

definition encodes :: "(Job \<Rightarrow> string + string) \<Rightarrow> Job \<Rightarrow> bool" where
  "encodes marshal j \<longleftrightarrow> (\<exists>data. marshal j = Inr data) \<and> metadata_encodes (job_Metadata j)"

interpretation pgq: job_queue "encodes marshal" "\<lambda>(q, t). unique_ids t" "pgq_EnqueueWithDelay marshal None None"
  "pgq_Cancel None None" "\<lambda>(q, t). row_status t" "\<lambda>(q, t). pq_closed q" for marshal
proof
  fix qt :: "PostgresJobQueue \<times> job_row list" and now job d and r qt' i
  obtain q t where qt: "qt = (q, t)" by fastforce
  note defs = pgq_EnqueueWithDelay_def pgq_Cancel_def pgq_cancel_check_def pgq_cancel_update_def
  show "case snd (pgq_EnqueueWithDelay marshal None None now job d qt) of (q, t) \<Rightarrow> unique_ids t"
    if "case qt of (q, t) \<Rightarrow> unique_ids t"
    using that qt by (auto simp: defs new_row_def intro!: unique_ids_append split: option.splits sum.splits)
  show "case snd (pgq_Cancel None None now i qt) of (q, t) \<Rightarrow> unique_ids t" if "case qt of (q, t) \<Rightarrow> unique_ids t"
    using that qt by (auto simp: defs split: option.splits)
  show "(case snd (pgq_EnqueueWithDelay marshal None None now job d qt) of (q, t) \<Rightarrow> pq_closed q) = (case qt of (q, t) \<Rightarrow> pq_closed q)"
    using qt by (auto simp: defs split: option.splits sum.splits)
  show "(case snd (pgq_Cancel None None now i qt) of (q, t) \<Rightarrow> pq_closed q) = (case qt of (q, t) \<Rightarrow> pq_closed q)"
    using qt by (auto simp: defs split: option.splits)
  show "spec_submit (case qt of (q, t) \<Rightarrow> pq_closed q) job (case qt of (q, t) \<Rightarrow> row_status t) = (r, case qt' of (q, t) \<Rightarrow> row_status t)"
    if "pgq_EnqueueWithDelay marshal None None now job d qt = (r, qt')" "\<And>j. job = Some j \<Longrightarrow> encodes marshal j"
    using that(1) that(2) [of "the job"] qt
    by (auto simp: defs spec_submit_def encodes_def row_status_def sql_find_append new_row_def fun_eq_iff
        split: option.splits if_splits)
  show "spec_abort i (case qt of (q, t) \<Rightarrow> row_status t) = (r, case qt' of (q, t) \<Rightarrow> row_status t)"
    if "pgq_Cancel None None now i qt = (r, qt')"
    using that qt by (auto simp: defs spec_abort_def row_status_update fun_eq_iff row_status_def sql_find_update
        split: option.splits if_splits)
qed

definition demo_job :: "RetryPolicy \<Rightarrow> Job" where
  "demo_job p = \<lparr>job_ID = ''j'', job_Name = ''n'', job_Metadata = \<lparr>md_Description = [], md_Owner = [], md_Timeout = 0,
     md_Singleton = False, md_RetryCount = 0, md_RetryPolicy = p, md_Tags = Map.empty\<rparr>\<rparr>"

definition demo_pgq :: PostgresJobQueue where
  "demo_pgq = \<lparr>pq_config = DefaultJobQueueConfig, pq_tableName = ''job_queue'', pq_workers = 5, pq_closed = False\<rparr>"

abbreviation "no_data \<equiv> (\<lambda>_ :: Job. Inr [] :: string + string)"

lemma demo_encodes: "encodes no_data (demo_job NoRetryPolicy)"
  by (simp add: encodes_def demo_job_def metadata_encodes_def NoRetryPolicy_def)

text \<open>
  C29: the PostgreSQL queue refines the abstract table of statuses: as long as no statement fails, any sequence of
  \<open>EnqueueWithDelay\<close> and \<open>Cancel\<close> calls with jobs that can be encoded returns the errors, and leaves the statuses, of the
  table, and job IDs stay unique.
\<close>

theorem postgres_queue_refines_spec:
  assumes "unique_ids t" and "list_all (call_ok (encodes marshal)) cs"
    and "run_calls (do_call (pgq_EnqueueWithDelay marshal None None) (pgq_Cancel None None)) cs (q, t) = (rs, q', t')"
  shows "run_calls (spec_call (pq_closed q)) cs (row_status t) = (rs, row_status t') \<and> unique_ids t'"
  using pgq.run_refines [of "(q, t)", OF _ assms(3,2)] assms(1) by simp

theorem postgres_queue_refines_spec_witness:
  "run_calls (spec_call False) [Submit 0 (Some (demo_job NoRetryPolicy)) 0, Abort 1 ''j'', Abort 2 ''j''] (row_status []) =
     ([None, None, Some ErrNotPending], row_status [(new_row 0 (demo_job NoRetryPolicy) [] 0)
        \<lparr>jr_status := JobStatusCancelled, jr_finished_at := Some 1, jr_updated_at := 1\<rparr>])"
proof -
  let ?cs = "[Submit 0 (Some (demo_job NoRetryPolicy)) 0, Abort 1 ''j'', Abort 2 ''j'']"
  let ?row = "(new_row 0 (demo_job NoRetryPolicy) [] 0)\<lparr>jr_status := JobStatusCancelled, jr_finished_at := Some 1, jr_updated_at := 1\<rparr>"
  have "metadata_encodes (job_Metadata (demo_job NoRetryPolicy))" using demo_encodes by (simp add: encodes_def)
  then have "run_calls (do_call (pgq_EnqueueWithDelay no_data None None) (pgq_Cancel None None)) ?cs (demo_pgq, []) =
      ([None, None, Some ErrNotPending], demo_pgq, [?row])"
    by (simp add: do_call_def pgq_EnqueueWithDelay_def pgq_Cancel_def pgq_cancel_check_def pgq_cancel_update_def
        demo_pgq_def new_row_def sql_find_def sql_update_def) (simp add: demo_job_def)
  from postgres_queue_refines_spec [OF _ _ this] demo_encodes show ?thesis
    by (simp add: unique_ids_def call_ok_def demo_pgq_def)
qed

subsection \<open>Processes that interleave\<close>

text \<open>
  The statements of any number of processes: the jobs with workers, and the calls of \<open>Cancel\<close> between their two statements.
  Loading a job reads the table at some earlier time (\<open>t\<^sub>0\<close>).
\<close>

record pgq_sys =
  ps_table :: "job_row list"
  ps_held :: "string list"
  ps_cancelling :: "string list"

inductive pgq_step :: "(job_row list \<Rightarrow> job_row list) \<Rightarrow> (float64 \<Rightarrow> int) \<Rightarrow> JobQueueConfig \<Rightarrow> pgq_sys \<Rightarrow> pgq_sys \<Rightarrow> bool"
  for order ovf config where
  enqueue: "pgq_EnqueueWithDelay marshal ce ie now job d (q, ps_table s) = (r, q', t) \<Longrightarrow> pgq_step order ovf config s (s\<lparr>ps_table := t\<rparr>)"
| dequeue: "pgq_dequeueJob order None now (ps_table s) = (Inr i, t) \<Longrightarrow> i \<noteq> [] \<Longrightarrow>
    pgq_step order ovf config s (s\<lparr>ps_table := t, ps_held := i # ps_held s\<rparr>)"
| finish: "i \<in> set (ps_held s) \<Longrightarrow>
    pgq_step order ovf config s (s\<lparr>ps_table := pgq_processJob ovf u config es handler now i t\<^sub>0 (ps_table s), ps_held := remove1 i (ps_held s)\<rparr>)"
| cancel_check: "pgq_cancel_check None i (ps_table s) = None \<Longrightarrow> pgq_step order ovf config s (s\<lparr>ps_cancelling := i # ps_cancelling s\<rparr>)"
| cancel_update: "i \<in> set (ps_cancelling s) \<Longrightarrow> pgq_cancel_update err now i (ps_table s) = (r, t) \<Longrightarrow>
    pgq_step order ovf config s (s\<lparr>ps_table := t, ps_cancelling := remove1 i (ps_cancelling s)\<rparr>)"

text \<open>What the server promises about \<open>ORDER BY enqueued_at\<close>.\<close>

definition sql_order :: "(job_row list \<Rightarrow> job_row list) \<Rightarrow> bool" where
  "sql_order order \<longleftrightarrow> (\<forall>rs. set (order rs) = set rs \<and> sorted (map jr_enqueued_at (order rs)))"

lemma sql_order_sort: "sql_order (sort_key jr_enqueued_at)"
  by (simp add: sql_order_def)

definition pgq_inv :: "pgq_sys \<Rightarrow> bool" where
  "pgq_inv s \<longleftrightarrow> unique_ids (ps_table s) \<and> distinct (ps_held s) \<and>
     (\<forall>i\<in>set (ps_held s). \<exists>st. row_status (ps_table s) i = Some st \<and> st \<noteq> JobStatusPending)"

text \<open>What one statement about a job does to a table: only its row may change, and stays.\<close>

definition touches :: "string \<Rightarrow> job_row list \<Rightarrow> job_row list \<Rightarrow> bool" where
  "touches i t t' \<longleftrightarrow> unique_ids t' = unique_ids t \<and> (\<forall>j. j \<noteq> i \<longrightarrow> row_status t' j = row_status t j) \<and>
     (row_status t i = None \<longleftrightarrow> row_status t' i = None)"

lemma touches_refl [simp]: "touches i t t" by (simp add: touches_def)

lemma touches_update: "(\<And>r. jr_job_id (f r) = jr_job_id r) \<Longrightarrow> touches i t (sql_update i f t)"
  by (simp add: touches_def row_status_update) (simp add: row_status_def)

lemma touches_process: "touches i t' (pgq_processJob ovf u config es handler now i t t')"
  by (auto simp: pgq_processJob_def pgq_handleJobFailure_def pgq_markJobFailed_def pgq_markJobCompleted_def Let_def
      intro!: touches_update split: option.splits prod.splits)

lemma dequeue_row:
  assumes "sql_order order" and "unique_ids t" and "pgq_dequeueJob order None now t = (Inr i, t')" and "i \<noteq> []"
  obtains r where "r \<in> set t" "jr_job_id r = i" "row_ready now r" "sql_find i t = Some r"
    "t' = sql_update i (\<lambda>r. r\<lparr>jr_status := JobStatusRunning, jr_started_at := Some now, jr_updated_at := now\<rparr>) t"
    "\<forall>r'\<in>set t. row_ready now r' \<longrightarrow> jr_enqueued_at r \<le> jr_enqueued_at r'"
proof -
  obtain r rs where o: "order (filter (row_ready now) t) = r # rs" "jr_job_id r = i"
    "t' = sql_update i (\<lambda>r. r\<lparr>jr_status := JobStatusRunning, jr_started_at := Some now, jr_updated_at := now\<rparr>) t"
    using assms(3,4) by (auto simp: pgq_dequeueJob_def split: list.splits)
  have s: "set (r # rs) = set (filter (row_ready now) t)" "sorted (map jr_enqueued_at (r # rs))"
    using assms(1) o(1) unfolding sql_order_def by (metis, metis)
  have mem: "x \<in> set (r # rs) \<longleftrightarrow> x \<in> set t \<and> row_ready now x" for x unfolding s(1) by simp
  have r: "r \<in> set t" "row_ready now r" using mem [of r] by simp_all
  moreover have "jr_enqueued_at r \<le> jr_enqueued_at r'" if "r' \<in> set t" "row_ready now r'" for r'
    using s(2) mem [of r'] that by auto
  ultimately show thesis using that o sql_find_member [of t r] assms(2) by (simp add: unique_ids_def)
qed

lemma pgq_inv_touch:
  assumes "pgq_inv s" and "touches i (ps_table s) t" and "set held \<subseteq> set (ps_held s)" and "distinct held" and "i \<notin> set held"
  shows "pgq_inv (s\<lparr>ps_table := t, ps_held := held, ps_cancelling := cs\<rparr>)"
proof -
  have "row_status t j = row_status (ps_table s) j" if "j \<in> set held" for j
    using assms(2,5) that by (metis touches_def)
  then show ?thesis using assms by (auto simp: pgq_inv_def touches_def)
qed

lemma pgq_inv_step:
  assumes "sql_order order" and "pgq_step order ovf config s s'" and inv: "pgq_inv s"
  shows "pgq_inv s'"
  using assms(2)
proof cases
  case (enqueue marshal ce ie now job d q r q' t)
  then have "t = ps_table s \<or> (\<exists>row. sql_find (jr_job_id row) (ps_table s) = None \<and> t = ps_table s @ [row])"
    by (auto simp: pgq_EnqueueWithDelay_def new_row_def split: option.splits sum.splits if_splits)
  then show ?thesis
  proof (elim disjE exE conjE)
    fix row assume row: "sql_find (jr_job_id row) (ps_table s) = None" "t = ps_table s @ [row]"
    have "row_status t i = Some st" if "row_status (ps_table s) i = Some st" for i st
      using that row by (auto simp: row_status_def sql_find_append)
    then show ?thesis using inv row unique_ids_append [of "ps_table s" row] unfolding enqueue(1) pgq_inv_def by (simp, blast)
  qed (use inv enqueue(1) in simp)
next
  case (dequeue now i t)
  have u: "unique_ids (ps_table s)" using inv by (simp add: pgq_inv_def)
  obtain r where r: "row_ready now r" "sql_find i (ps_table s) = Some r"
    "t = sql_update i (\<lambda>r. r\<lparr>jr_status := JobStatusRunning, jr_started_at := Some now, jr_updated_at := now\<rparr>) (ps_table s)"
    using dequeue_row [OF assms(1) u dequeue(2,3)] by metis
  then have "i \<notin> set (ps_held s)" using inv by (auto simp: pgq_inv_def row_status_def row_ready_def)
  then show ?thesis using inv r unfolding dequeue(1) pgq_inv_def by (auto simp: row_status_update)
next
  case (finish i u es handler now t)
  have d: "distinct (ps_held s)" using inv by (simp add: pgq_inv_def)
  have "pgq_inv (s\<lparr>ps_table := pgq_processJob ovf u config es handler now i t (ps_table s), ps_held := remove1 i (ps_held s),
      ps_cancelling := ps_cancelling s\<rparr>)"
    using d by (intro pgq_inv_touch [OF inv touches_process]) (auto simp: set_remove1_subset)
  then show ?thesis unfolding finish(1) by simp
next
  case (cancel_check i)
  then show ?thesis using inv by (simp add: pgq_inv_def)
next
  case (cancel_update i err now r t)
  have "t = ps_table s \<or> (unique_ids t = unique_ids (ps_table s) \<and>
      (\<forall>j. row_status t j = (if j = i \<and> row_status (ps_table s) i \<noteq> None then Some JobStatusCancelled else row_status (ps_table s) j)))"
    using cancel_update(3) by (auto simp: pgq_cancel_update_def row_status_update split: option.splits) (auto simp: row_status_def)
  then show ?thesis using inv unfolding cancel_update(1) pgq_inv_def by auto
qed

text \<open>
  C30: no two workers of any process hold the same job of the PostgreSQL queue, however the statements of enqueueing,
  dequeueing, finishing and cancelling interleave and whichever statements fail; job IDs stay unique.
\<close>

theorem postgres_workers_exclusive:
  assumes "sql_order order" and "unique_ids t"
    and "(pgq_step order ovf config)\<^sup>*\<^sup>* \<lparr>ps_table = t, ps_held = [], ps_cancelling = []\<rparr> s"
  shows "distinct (ps_held s) \<and> unique_ids (ps_table s)"
proof -
  have "pgq_inv s" using assms(3)
  proof (induction rule: rtranclp_induct)
    case base
    then show ?case using assms(2) by (simp add: pgq_inv_def)
  next
    case (step y z)
    then show ?case using pgq_inv_step [OF assms(1)] by blast
  qed
  then show ?thesis by (simp add: pgq_inv_def)
qed

definition demo_row :: job_row where
  "demo_row = new_row 0 (demo_job NoRetryPolicy) [] 0"

definition running_row :: job_row where
  "running_row = demo_row\<lparr>jr_status := JobStatusRunning, jr_started_at := Some 1, jr_updated_at := 1\<rparr>"

lemmas demo_row_simps = demo_row_def running_row_def new_row_def demo_job_def sql_find_def sql_update_def

abbreviation "demo_step \<equiv> pgq_step (sort_key jr_enqueued_at) (\<lambda>_. 0) DefaultJobQueueConfig"

abbreviation "no_errs \<equiv> \<lparr>pe_load = None, pe_select = None, pe_retry = None, pe_mark = None\<rparr>"

lemma demo_ready: "row_ready 1 demo_row" by (simp add: row_ready_def demo_row_simps)

lemma demo_dequeue: "pgq_dequeueJob (sort_key jr_enqueued_at) None 1 [demo_row] = (Inr ''j'', [running_row])"
  using demo_ready by (simp add: pgq_dequeueJob_def) (simp add: demo_row_simps)

lemma demo_take: "demo_step \<lparr>ps_table = [demo_row], ps_held = [], ps_cancelling = cs\<rparr>
    \<lparr>ps_table = [running_row], ps_held = [''j''], ps_cancelling = cs\<rparr>"
  using pgq_step.dequeue [of "sort_key jr_enqueued_at" 1 "\<lparr>ps_table = [demo_row], ps_held = [], ps_cancelling = cs\<rparr>" "''j''" "[running_row]"
      "\<lambda>_. 0" DefaultJobQueueConfig] demo_dequeue by simp

theorem postgres_workers_exclusive_witness:
  "demo_step\<^sup>*\<^sup>* \<lparr>ps_table = [demo_row], ps_held = [], ps_cancelling = []\<rparr>
     \<lparr>ps_table = [running_row], ps_held = [''j''], ps_cancelling = []\<rparr> \<and> distinct [''j''] \<and> unique_ids [running_row]"
proof -
  have r: "demo_step\<^sup>*\<^sup>* \<lparr>ps_table = [demo_row], ps_held = [], ps_cancelling = []\<rparr>
     \<lparr>ps_table = [running_row], ps_held = [''j''], ps_cancelling = []\<rparr>" using demo_take by blast
  have "unique_ids [demo_row]" by (simp add: unique_ids_def)
  from postgres_workers_exclusive [OF sql_order_sort this r] r show ?thesis by simp
qed

text \<open>
  A worker takes the oldest job that is ready: the job \<open>dequeueJob\<close> returns was pending with its delay or backoff
  over, no ready job was enqueued earlier, and it is now running; it returns none only when none is ready.
\<close>

theorem postgres_dequeue_oldest:
  assumes "sql_order order" and "unique_ids t" and "[] \<notin> jr_job_id ` set t"
    and "pgq_dequeueJob order None now t = (Inr i, t')"
  shows "(i = [] \<longrightarrow> t' = t \<and> filter (row_ready now) t = []) \<and>
    (i \<noteq> [] \<longrightarrow> (\<exists>r\<in>set t. jr_job_id r = i \<and> row_ready now r \<and>
       (\<forall>r'\<in>set t. row_ready now r' \<longrightarrow> jr_enqueued_at r \<le> jr_enqueued_at r')) \<and>
     row_status t' = (row_status t)(i \<mapsto> JobStatusRunning))"
proof (intro conjI impI)
  assume "i \<noteq> []"
  from dequeue_row [OF assms(1,2,4) this] obtain r where r: "r \<in> set t" "jr_job_id r = i" "row_ready now r" "sql_find i t = Some r"
    "t' = sql_update i (\<lambda>r. r\<lparr>jr_status := JobStatusRunning, jr_started_at := Some now, jr_updated_at := now\<rparr>) t"
    "\<forall>r'\<in>set t. row_ready now r' \<longrightarrow> jr_enqueued_at r \<le> jr_enqueued_at r'" by metis
  then show "\<exists>r\<in>set t. jr_job_id r = i \<and> row_ready now r \<and> (\<forall>r'\<in>set t. row_ready now r' \<longrightarrow> jr_enqueued_at r \<le> jr_enqueued_at r')"
    by blast
  show "row_status t' = (row_status t)(i \<mapsto> JobStatusRunning)" unfolding r(5) using r(4) by (auto simp: row_status_update)
next
  assume "i = []"
  have s: "set (order (filter (row_ready now) t)) = set (filter (row_ready now) t)" using assms(1) by (simp add: sql_order_def)
  have "order (filter (row_ready now) t) = []"
  proof (cases "order (filter (row_ready now) t)")
    case (Cons r rs)
    then have "r \<in> set t" "jr_job_id r = []" using s assms(4) \<open>i = []\<close> by (auto simp: pgq_dequeueJob_def)
    then show ?thesis using assms(3) by (metis imageI)
  qed
  with s assms(4) show "t' = t" "filter (row_ready now) t = []" by (simp_all add: pgq_dequeueJob_def)
qed

theorem postgres_dequeue_oldest_witness:
  "(\<exists>r. r = demo_row \<and> row_ready 1 r) \<and> row_status [running_row] = (row_status [demo_row])(''j'' \<mapsto> JobStatusRunning)"
proof -
  have "unique_ids [demo_row]" "[] \<notin> jr_job_id ` set [demo_row]" by (simp_all add: unique_ids_def demo_row_simps)
  from postgres_dequeue_oldest [OF sql_order_sort this demo_dequeue] show ?thesis using demo_ready by simp
qed

subsection \<open>Outcomes\<close>

text \<open>
  What becomes of a job of the PostgreSQL queue whose statements all succeed: completed if the handler returned nil; else
  pending again, with the retry count up by one and the backoff as its delay, as long as the count is within the policy in
  force; else failed.  The policy in force is that of the job unless its \<open>MaxRetries\<close> is 0, then that of the queue.
\<close>

theorem postgres_outcome:
  fixes config md
  assumes "sql_find i t0 = Some r0" and "jr_metadata r0 = Some md" and "sql_find i t = Some r" and "jr_metadata r = Some md"
  defines "policy \<equiv> (if rp_MaxRetries (md_RetryPolicy md) = 0 then qc_RetryPolicy config else md_RetryPolicy md)"
  shows "sql_find i (pgq_processJob ovf u config no_errs handler now i t0 t) = Some
    (case handler (if 0 < md_Timeout md then Some (md_Timeout md) else None)
            \<lparr>sj_id = i, sj_name = jr_job_name r0, sj_data = jr_job_data r0, sj_metadata = md\<rparr> of
       None \<Rightarrow> r\<lparr>jr_status := JobStatusCompleted, jr_finished_at := Some now, jr_updated_at := now\<rparr>
     | Some msg \<Rightarrow>
         if jr_retry_count r < rp_MaxRetries policy
         then r\<lparr>jr_status := JobStatusPending, jr_error := Some msg, jr_retry_count := jr_retry_count r + 1,
                jr_next_retry := Some (now + CalculateBackoff ovf u policy (jr_retry_count r + 1)), jr_updated_at := now\<rparr>
         else r\<lparr>jr_status := JobStatusFailed, jr_error := Some msg, jr_finished_at := Some now, jr_updated_at := now\<rparr>)"
  using assms(1-4)
  by (auto simp: pgq_processJob_def pgq_handleJobFailure_def pgq_markJobCompleted_def pgq_markJobFailed_def
      effective_policy_def policy_def sql_find_update Let_def split: option.split)

theorem postgres_outcome_witness:
  "sql_find ''j'' (pgq_processJob (\<lambda>_. 0) (Fin 0) DefaultJobQueueConfig no_errs (\<lambda>_ _. None) 2 ''j'' [running_row] [running_row]) =
     Some (running_row\<lparr>jr_status := JobStatusCompleted, jr_finished_at := Some 2, jr_updated_at := 2\<rparr>)"
proof -
  have "sql_find ''j'' [running_row] = Some running_row" "jr_metadata running_row = Some (job_Metadata (demo_job NoRetryPolicy))"
    by (simp_all add: demo_row_simps)
  from postgres_outcome [OF this this] show ?thesis by simp
qed

text \<open>
  The job that must not be retried is retried: a job with \<open>NoRetryPolicy\<close> whose handler fails is pending again, because
  a policy with \<open>MaxRetries\<close> 0 is taken for none; and a job whose \<open>Cancel\<close> returned nil after a worker took it
  is pending again as well when its handler fails.
\<close>

theorem postgres_unwanted_retry:
  "jr_metadata running_row = Some (job_Metadata (demo_job NoRetryPolicy)) \<and>
   row_status (pgq_processJob ovf u DefaultJobQueueConfig no_errs (\<lambda>_ _. Some ''failed'') 2 ''j'' [running_row] [running_row]) ''j'' =
     Some JobStatusPending \<and>
   (\<exists>s s'. demo_step\<^sup>*\<^sup>* \<lparr>ps_table = [demo_row], ps_held = [], ps_cancelling = []\<rparr> s \<and> row_status (ps_table s) ''j'' = Some JobStatusCancelled \<and>
      demo_step s s' \<and> row_status (ps_table s') ''j'' = Some JobStatusPending)"
proof (intro conjI)
  show "jr_metadata running_row = Some (job_Metadata (demo_job NoRetryPolicy))" by (simp add: demo_row_simps)
  have retry: "row_status (pgq_processJob ovf u DefaultJobQueueConfig no_errs (\<lambda>_ _. Some ''failed'') 2 ''j'' [running_row]
      [running_row\<lparr>jr_status := st, jr_finished_at := f, jr_updated_at := up\<rparr>]) ''j'' = Some JobStatusPending" for st f up ovf u
    by (simp add: row_status_def pgq_processJob_def pgq_handleJobFailure_def effective_policy_def DefaultJobQueueConfig_def
        DefaultRetryPolicy_def demo_row_simps NoRetryPolicy_def Let_def)
  from retry [where ovf = ovf and u = u and st = JobStatusRunning and f = None and up = 1]
  show "row_status (pgq_processJob ovf u DefaultJobQueueConfig no_errs (\<lambda>_ _. Some ''failed'') 2 ''j'' [running_row] [running_row]) ''j'' =
     Some JobStatusPending" by (simp add: demo_row_simps)
  let ?s0 = "\<lparr>ps_table = [demo_row], ps_held = [], ps_cancelling = []\<rparr>"
  let ?s2 = "\<lparr>ps_table = [running_row], ps_held = [''j''], ps_cancelling = [''j'']\<rparr>"
  let ?row = "running_row\<lparr>jr_status := JobStatusCancelled, jr_finished_at := Some 2, jr_updated_at := 2\<rparr>"
  let ?s3 = "\<lparr>ps_table = [?row], ps_held = [''j''], ps_cancelling = []\<rparr>"
  have "pgq_cancel_check None ''j'' [demo_row] = None" by (simp add: pgq_cancel_check_def demo_row_simps)
  then have 1: "demo_step ?s0 \<lparr>ps_table = [demo_row], ps_held = [], ps_cancelling = [''j'']\<rparr>"
    using pgq_step.cancel_check [of "''j''" ?s0] by simp
  have u: "pgq_cancel_update None 2 ''j'' [running_row] = (None, [?row])" by (simp add: pgq_cancel_update_def demo_row_simps)
  have 3: "demo_step ?s2 ?s3"
    using pgq_step.cancel_update [of "''j''" ?s2 None 2 None "[?row]" "sort_key jr_enqueued_at" "\<lambda>_. 0" DefaultJobQueueConfig] u by simp
  have run: "demo_step\<^sup>*\<^sup>* ?s0 ?s3" 
    by (rule converse_rtranclp_into_rtranclp [OF 1 converse_rtranclp_into_rtranclp [OF demo_take [of "[''j'']"] r_into_rtranclp [where r = demo_step, OF 3]]])
  have 4: "demo_step ?s3 (?s3\<lparr>ps_table := pgq_processJob (\<lambda>_. 0) (Fin 0) DefaultJobQueueConfig no_errs (\<lambda>_ _. Some ''failed'') 2 ''j''
      [running_row] (ps_table ?s3), ps_held := remove1 ''j'' (ps_held ?s3)\<rparr>)"
    by (rule pgq_step.finish) simp
  show "\<exists>s s'. demo_step\<^sup>*\<^sup>* ?s0 s \<and> row_status (ps_table s) ''j'' = Some JobStatusCancelled \<and>
      demo_step s s' \<and> row_status (ps_table s') ''j'' = Some JobStatusPending"
  proof (intro exI conjI)
    show "demo_step\<^sup>*\<^sup>* ?s0 ?s3" by (rule run)
    show "row_status (ps_table ?s3) ''j'' = Some JobStatusCancelled" by (simp add: row_status_def demo_row_simps)
    show "demo_step ?s3 (?s3\<lparr>ps_table := pgq_processJob (\<lambda>_. 0) (Fin 0) DefaultJobQueueConfig no_errs (\<lambda>_ _. Some ''failed'') 2 ''j''
      [running_row] (ps_table ?s3), ps_held := remove1 ''j'' (ps_held ?s3)\<rparr>)" by (rule 4)
  qed (simp add: retry)
qed

end
