(* ===== verification/RedisQueueProps.thy ===== *)
theory RedisQueueProps
  imports RedisQueue PostgresQueueProps
begin

text \<open>
  The properties of the Redis job queue: used by one client at a time it is the abstract table of statuses of
  \<open>JobQueueSpec\<close>, with its keys kept apart; two workers can take the same job; \<open>List\<close> loses jobs.
\<close>

subsection \<open>Keys\<close>

lemma key_simps [simp]:
  "jobKey q i = jobKey q j \<longleftrightarrow> i = j"
  "jobKey q i \<noteq> pendingQueueKey q" "pendingQueueKey q \<noteq> jobKey q i"
  "jobKey q i \<noteq> processingQueueKey q" "processingQueueKey q \<noteq> jobKey q i"
  "pendingQueueKey q \<noteq> processingQueueKey q" "processingQueueKey q \<noteq> pendingQueueKey q"
  by (simp_all add: jobKey_def pendingQueueKey_def processingQueueKey_def)

definition is_entry :: "redis_val option \<Rightarrow> bool" where
  "is_entry v = (case v of None \<Rightarrow> True | Some (RString (Some e)) \<Rightarrow> True | _ \<Rightarrow> False)"

definition is_zset :: "redis_val option \<Rightarrow> bool" where
  "is_zset v = (case v of Some (RString _) \<Rightarrow> False | _ \<Rightarrow> True)"

definition redis_wf :: "RedisJobQueue \<Rightarrow> redis_db \<Rightarrow> bool" where
  "redis_wf q db \<longleftrightarrow> (\<forall>i. is_entry (db (jobKey q i))) \<and> is_zset (db (pendingQueueKey q)) \<and> is_zset (db (processingQueueKey q))"

definition redis_status :: "RedisJobQueue \<Rightarrow> redis_db \<Rightarrow> string \<rightharpoonup> JobStatus" where
  "redis_status q db i = (case db (jobKey q i) of Some (RString (Some e)) \<Rightarrow> Some (re_Status e) | _ \<Rightarrow> None)"

text \<open>What a command does to a key it names, and that it leaves the others alone.\<close>

fun cmd_key :: "redis_cmd \<Rightarrow> string" where
  "cmd_key (CSet k e) = k" | "cmd_key (CZAdd k s m) = k" | "cmd_key (CZRem k m) = k"

lemma exec_cmd_other: "k \<noteq> cmd_key c \<Longrightarrow> exec_cmd c db k = db k"
  by (cases c) (auto simp: Let_def split: option.split redis_val.split)

lemma exec_zset [simp]:
  "is_zset (exec_cmd (CZAdd k s m) db k') \<longleftrightarrow> is_zset (db k')"
  "is_zset (exec_cmd (CZRem k m) db k') \<longleftrightarrow> is_zset (db k')"
  by (auto simp: is_zset_def Let_def split: option.splits redis_val.splits)

lemma cmd_error_zset: "is_zset (db k) \<Longrightarrow> \<not> cmd_error (CZAdd k s m) db \<and> \<not> cmd_error (CZRem k m) db"
  by (auto simp: is_zset_def split: option.splits redis_val.splits)

lemma pipe_zadd:
  fixes m s e i
  assumes "redis_wf q db"
  defines "db' \<equiv> snd (run_pipe [CSet (jobKey q i) e, CZAdd (pendingQueueKey q) s m] db)"
  shows "fst (run_pipe [CSet (jobKey q i) e, CZAdd (pendingQueueKey q) s m] db) = None"
    and "redis_wf q db'" and "redis_status q db' = (redis_status q db)(i \<mapsto> re_Status e)"
proof -
  let ?db1 = "db(jobKey q i \<mapsto> RString (Some e))"
  have d: "db' = exec_cmd (CZAdd (pendingQueueKey q) s m) ?db1" by (simp add: db'_def)
  have z: "is_zset (?db1 (pendingQueueKey q))" using assms(1) by (simp add: redis_wf_def)
  then show "fst (run_pipe [CSet (jobKey q i) e, CZAdd (pendingQueueKey q) s m] db) = None"
    using cmd_error_zset [of ?db1 "pendingQueueKey q" s m] z by (simp del: exec_cmd.simps(2) cmd_error.simps(2))
  have o: "db' (jobKey q j) = ?db1 (jobKey q j)" for j unfolding d by (rule exec_cmd_other) simp
  show "redis_status q db' = (redis_status q db)(i \<mapsto> re_Status e)"
    by (rule ext) (simp add: redis_status_def o)
  have "is_zset (db' (pendingQueueKey q))" "is_zset (db' (processingQueueKey q))"
    unfolding d exec_zset using assms(1) by (simp_all add: redis_wf_def)
  then show "redis_wf q db'" using assms(1) by (simp add: redis_wf_def o is_entry_def)
qed

lemma pipe_zrem:
  fixes m e i
  assumes "redis_wf q db" and "k \<in> {pendingQueueKey q, processingQueueKey q}"
  defines "db' \<equiv> snd (run_pipe [CZRem k m, CSet (jobKey q i) e] db)"
  shows "fst (run_pipe [CZRem k m, CSet (jobKey q i) e] db) = None"
    and "redis_wf q db'" and "redis_status q db' = (redis_status q db)(i \<mapsto> re_Status e)"
proof -
  let ?db1 = "exec_cmd (CZRem k m) db"
  have d: "db' = ?db1(jobKey q i \<mapsto> RString (Some e))" by (simp add: db'_def)
  have z: "is_zset (db k)" using assms(1,2) by (auto simp: redis_wf_def)
  then show "fst (run_pipe [CZRem k m, CSet (jobKey q i) e] db) = None"
    using cmd_error_zset [of db k undefined m] z by (simp del: exec_cmd.simps(3) cmd_error.simps(3))
  have o: "?db1 (jobKey q j) = db (jobKey q j)" for j using assms(2) by (intro exec_cmd_other) auto
  show "redis_status q db' = (redis_status q db)(i \<mapsto> re_Status e)"
    by (rule ext) (simp add: redis_status_def d o del: exec_cmd.simps)
  have "is_zset (?db1 (pendingQueueKey q))" "is_zset (?db1 (processingQueueKey q))"
    unfolding exec_zset using assms(1) by (simp_all add: redis_wf_def)
  then show "redis_wf q db'" using assms(1) by (simp add: redis_wf_def d o is_entry_def del: exec_cmd.simps)
qed

lemma wf_entry:
  assumes "redis_wf q db" and "db (jobKey q i) \<noteq> None"
  obtains e where "db (jobKey q i) = Some (RString (Some e))" "redis_status q db i = Some (re_Status e)"
    "getJobEntry None q i db = Inr e"
proof -
  have "is_entry (db (jobKey q i))" using assms(1) by (simp add: redis_wf_def)
  with assms(2) obtain e where "db (jobKey q i) = Some (RString (Some e))"
    by (auto simp: is_entry_def split: option.splits redis_val.splits)
  with that show thesis by (simp add: redis_status_def getJobEntry_def redis_Get_def)
qed

lemma redis_status_None:
  assumes "redis_wf q db"
  shows "redis_status q db i = None \<longleftrightarrow> db (jobKey q i) = None"
proof (cases "db (jobKey q i) = None")
  case False
  from wf_entry [OF assms this] show ?thesis using False by (metis option.distinct(1))
qed (simp add: redis_status_def)

subsection \<open>The interface\<close>

lemma rdq_enqueue_spec:
  assumes wf: "redis_wf q db" and run: "rdq_EnqueueWithDelay marshal None None now job d (q, db) = (r, q', db')"
  shows "q' = q \<and> redis_wf q db' \<and> ((\<forall>j. job = Some j \<longrightarrow> encodes marshal j) \<longrightarrow>
    spec_submit (rq_closed q) job (redis_status q db) = (r, redis_status q db'))"
proof (cases "\<exists>j data. job = Some j \<and> job_ID j \<noteq> [] \<and> \<not> rq_closed q \<and> db (jobKey q (job_ID j)) = None \<and> marshal j = Inr data \<and>
    metadata_encodes (job_Metadata j)")
  case True
  then obtain j data where j: "job = Some j" "job_ID j \<noteq> []" "\<not> rq_closed q" "db (jobKey q (job_ID j)) = None" "marshal j = Inr data"
    "metadata_encodes (job_Metadata j)" by blast
  let ?cs = "[CSet (jobKey q (job_ID j)) (new_redis_entry now j data), CZAdd (pendingQueueKey q) (f64_of_int (now + d)) (job_ID j)]"
  note p = pipe_zadd [OF wf, where i = "job_ID j" and e = "new_redis_entry now j data" and s = "f64_of_int (now + d)" and m = "job_ID j"]
  have x: "run_pipe ?cs db = (None, db')" "q' = q" "r = None"
    using run j p(1) by (auto simp: rdq_EnqueueWithDelay_def pipe_Exec_def simp del: run_pipe.simps split: prod.splits option.splits)
  have "redis_status q db (job_ID j) = None" using j(4) by (simp add: redis_status_def)
  with p(2,3) x j show ?thesis by (simp add: spec_submit_def new_redis_entry_def del: run_pipe.simps)
next
  case False
  with run have "q' = q" "db' = db"
    by (auto simp: rdq_EnqueueWithDelay_def split: option.splits sum.splits if_splits)
  moreover have "spec_submit (rq_closed q) job (redis_status q db) = (r, redis_status q db)"
    if "\<forall>j. job = Some j \<longrightarrow> encodes marshal j"
    using False run that redis_status_None [OF wf]
    by (cases job) (auto simp: rdq_EnqueueWithDelay_def spec_submit_def encodes_def split: if_splits)
  ultimately show ?thesis using wf by simp
qed

lemma rdq_cancel_spec:
  assumes wf: "redis_wf q db" and run: "rdq_Cancel None None None now i (q, db) = (r, q', db')"
  shows "q' = q \<and> redis_wf q db' \<and> spec_abort i (redis_status q db) = (r, redis_status q db')"
proof (cases "i = [] \<or> db (jobKey q i) = None")
  case True
  with run wf show ?thesis by (auto simp: rdq_Cancel_def spec_abort_def redis_status_def split: if_splits)
next
  case False
  with wf_entry [OF wf] obtain e where e: "db (jobKey q i) = Some (RString (Some e))" "redis_status q db i = Some (re_Status e)"
    "getJobEntry None q i db = Inr e" by metis
  let ?e = "e\<lparr>re_Status := JobStatusCancelled, re_FinishedAt := Some now\<rparr>"
  have u: "updateJobStatus None q now i JobStatusCancelled db = [CSet (jobKey q i) ?e]"
    by (simp add: updateJobStatus_def redis_Get_def e(1))
  note p = pipe_zrem [OF wf, where k = "pendingQueueKey q" and m = i and i = i and e = ?e]
  show ?thesis using run False e wf u p
    by (auto simp: rdq_Cancel_def spec_abort_def pipe_Exec_def simp del: run_pipe.simps split: prod.splits if_splits option.splits)
qed

interpretation rdq: job_queue "encodes marshal" "\<lambda>(q, db). redis_wf q db" "rdq_EnqueueWithDelay marshal None None"
  "rdq_Cancel None None None" "\<lambda>(q, db). redis_status q db" "\<lambda>(q, db). rq_closed q" for marshal
proof
  fix qd :: "RedisJobQueue \<times> redis_db" and now job d i r qd'
  obtain q db where qd: "qd = (q, db)" by fastforce
  obtain r1 q1 db1 where e1: "rdq_EnqueueWithDelay marshal None None now job d (q, db) = (r1, q1, db1)" by (metis prod.exhaust)
  obtain r2 q2 db2 where c1: "rdq_Cancel None None None now i (q, db) = (r2, q2, db2)" by (metis prod.exhaust)
  show "case snd (rdq_EnqueueWithDelay marshal None None now job d qd) of (q, db) \<Rightarrow> redis_wf q db" if "case qd of (q, db) \<Rightarrow> redis_wf q db"
    using that rdq_enqueue_spec [OF _ e1] e1 qd by auto
  show "case snd (rdq_Cancel None None None now i qd) of (q, db) \<Rightarrow> redis_wf q db" if "case qd of (q, db) \<Rightarrow> redis_wf q db"
    using that rdq_cancel_spec [OF _ c1] c1 qd by auto
  show "(case snd (rdq_EnqueueWithDelay marshal None None now job d qd) of (q, db) \<Rightarrow> rq_closed q) = (case qd of (q, db) \<Rightarrow> rq_closed q)"
    using qd by (auto simp: rdq_EnqueueWithDelay_def split: option.splits sum.splits prod.splits)
  show "(case snd (rdq_Cancel None None None now i qd) of (q, db) \<Rightarrow> rq_closed q) = (case qd of (q, db) \<Rightarrow> rq_closed q)"
    using qd by (auto simp: rdq_Cancel_def split: option.splits sum.splits prod.splits)
  show "spec_submit (case qd of (q, db) \<Rightarrow> rq_closed q) job (case qd of (q, db) \<Rightarrow> redis_status q db) = (r, case qd' of (q, db) \<Rightarrow> redis_status q db)"
    if "case qd of (q, db) \<Rightarrow> redis_wf q db" "rdq_EnqueueWithDelay marshal None None now job d qd = (r, qd')" "\<And>j. job = Some j \<Longrightarrow> encodes marshal j"
    using that rdq_enqueue_spec [OF _ e1] e1 qd by auto
  show "spec_abort i (case qd of (q, db) \<Rightarrow> redis_status q db) = (r, case qd' of (q, db) \<Rightarrow> redis_status q db)"
    if "case qd of (q, db) \<Rightarrow> redis_wf q db" "rdq_Cancel None None None now i qd = (r, qd')"
    using that rdq_cancel_spec [OF _ c1] c1 qd by auto
qed

definition demo_rdq :: RedisJobQueue where
  "demo_rdq = \<lparr>rq_config = DefaultJobQueueConfig, rq_namespace = ''q'', rq_workers = 5, rq_closed = False\<rparr>"

definition demo_entry :: RedisJobEntry where
  "demo_entry = new_redis_entry 0 (demo_job NoRetryPolicy) []"

definition demo_db :: redis_db where
  "demo_db = [jobKey demo_rdq ''j'' \<mapsto> RString (Some demo_entry), pendingQueueKey demo_rdq \<mapsto> RZset [(''j'', Fin 0)]]"

lemma demo_wf: "redis_wf demo_rdq demo_db" "redis_wf demo_rdq Map.empty"
  by (auto simp: redis_wf_def demo_db_def is_entry_def is_zset_def)

text \<open>
  The Redis queue refines the abstract table of statuses as well: for one client at a time and as long as the server
  answers, any sequence of \<open>EnqueueWithDelay\<close> and \<open>Cancel\<close> calls returns the errors, and leaves the
  statuses, of the table; job entries and queues never get in each other's keys.
\<close>

theorem redis_queue_refines_spec:
  assumes "redis_wf q db" and "list_all (call_ok (encodes marshal)) cs"
    and "run_calls (do_call (rdq_EnqueueWithDelay marshal None None) (rdq_Cancel None None None)) cs (q, db) = (rs, q', db')"
  shows "run_calls (spec_call (rq_closed q)) cs (redis_status q db) = (rs, redis_status q' db') \<and> redis_wf q' db'"
  using rdq.run_refines [of "(q, db)", OF _ assms(3,2)] assms(1) by simp

theorem redis_queue_refines_spec_witness:
  "run_calls (spec_call False) [Abort 1 ''x'', Submit 1 None 0] (redis_status demo_rdq demo_db) =
     ([Some ErrJobNotFound, Some ErrInvalidJobID], redis_status demo_rdq demo_db)"
proof -
  have "run_calls (do_call (rdq_EnqueueWithDelay no_data None None) (rdq_Cancel None None None)) [Abort 1 ''x'', Submit 1 None 0]
      (demo_rdq, demo_db) = ([Some ErrJobNotFound, Some ErrInvalidJobID], demo_rdq, demo_db)"
    by (simp add: do_call_def rdq_EnqueueWithDelay_def rdq_Cancel_def demo_db_def)
  from redis_queue_refines_spec [OF demo_wf(1) _ this] show ?thesis by (simp add: call_ok_def demo_rdq_def)
qed

subsection \<open>Workers\<close>

text \<open>The commands the queue sends.\<close>

fun queue_cmd :: "RedisJobQueue \<Rightarrow> redis_cmd \<Rightarrow> bool" where
  "queue_cmd q (CSet k e) = (\<exists>i. k = jobKey q i)"
| "queue_cmd q (CZAdd k s m) = (k \<in> {pendingQueueKey q, processingQueueKey q})"
| "queue_cmd q (CZRem k m) = (k \<in> {pendingQueueKey q, processingQueueKey q})"

lemma queue_cmd_wf:
  assumes "redis_wf q db" and "queue_cmd q c"
  shows "redis_wf q (exec_cmd c db) \<and> \<not> cmd_error c db"
proof (cases c)
  case (CSet k e)
  then show ?thesis using assms by (auto simp: redis_wf_def is_entry_def)
next
  case (CZAdd k s m)
  have "exec_cmd c db (jobKey q i) = db (jobKey q i)" for i using assms(2) CZAdd by (intro exec_cmd_other) auto
  with assms CZAdd cmd_error_zset [of db k s m] show ?thesis by (auto simp: redis_wf_def simp del: exec_cmd.simps cmd_error.simps)
next
  case (CZRem k m)
  have "exec_cmd c db (jobKey q i) = db (jobKey q i)" for i using assms(2) CZRem by (intro exec_cmd_other) auto
  with assms CZRem cmd_error_zset [of db k undefined m] show ?thesis by (auto simp: redis_wf_def simp del: exec_cmd.simps cmd_error.simps)
qed

lemma run_pipe_wf: "redis_wf q db \<Longrightarrow> list_all (queue_cmd q) cs \<Longrightarrow> fst (run_pipe cs db) = None \<and> redis_wf q (snd (run_pipe cs db))"
proof (induction cs arbitrary: db)
  case (Cons c cs)
  then have "redis_wf q (exec_cmd c db)" "\<not> cmd_error c db" using queue_cmd_wf [of q db c] by simp_all
  with Cons.IH [of "exec_cmd c db"] Cons.prems(2) show ?case by (simp add: split_beta)
qed simp

lemma dequeue_move_cmds: "list_all (queue_cmd q) (dequeue_move ge q now i db)"
  by (auto simp: dequeue_move_def updateJobStatus_def Let_def split: option.splits get_reply.splits)

text \<open>
  Two workers can take the same job of the Redis queue: the range query and the move are two commands, and the move of a
  worker does not notice that another has already moved the job, so both return its ID and process it.
\<close>

theorem redis_double_dequeue:
  assumes "redis_wf q db" and "dequeue_range q now1 db = Inr (Some i)" and "dequeue_range q now2 db = Inr (Some i)"
  shows "rdq_dequeueJob None None None q now1 db = (Inr i, snd (run_pipe (dequeue_move None q now1 i db) db)) \<and>
    (let db1 = snd (run_pipe (dequeue_move None q now1 i db) db) in fst (pipe_Exec None (dequeue_move None q now2 i db1) db1) = None)"
proof -
  note m = run_pipe_wf [OF assms(1) dequeue_move_cmds, of None now1 i db]
  obtain db1 where db1: "run_pipe (dequeue_move None q now1 i db) db = (None, db1)" using m by (cases "run_pipe (dequeue_move None q now1 i db) db") auto
  then have "redis_wf q db1" using m by simp
  from run_pipe_wf [OF this dequeue_move_cmds, of None now2 i db1] db1 assms(2) show ?thesis
    by (simp add: rdq_dequeueJob_def pipe_Exec_def)
qed

lemma demo_range: "dequeue_range demo_rdq 5 demo_db = Inr (Some ''j'')" "dequeue_range demo_rdq 6 demo_db = Inr (Some ''j'')"
  by (simp_all add: dequeue_range_def redis_ZRangeByScore_def demo_db_def z_first_def f64_of_int_def f64_round_numeral)

theorem redis_double_dequeue_witness:
  "fst (rdq_dequeueJob None None None demo_rdq 5 demo_db) = Inr ''j'' \<and>
   (let db1 = snd (run_pipe (dequeue_move None demo_rdq 5 ''j'' demo_db) demo_db)
    in fst (pipe_Exec None (dequeue_move None demo_rdq 6 ''j'' db1) db1) = None)"
  using redis_double_dequeue [OF demo_wf(1) demo_range] by simp

subsection \<open>Listing\<close>

lemma list_ids_tl: "[] \<notin> set ids \<Longrightarrow> list_ids q (map (jobKey q) ids) = Some (map tl ids)"
  by (auto simp: list_ids_def jobKey_def list_ex_iff Let_def drop_Suc Suc_le_eq)

text \<open>
  \<open>List\<close> of the Redis queue looks up every job under its ID without the first byte: it returns nothing at all when no
  ID is another one without its first byte, however many jobs there are.
\<close>

theorem redis_List_loses_jobs:
  assumes "\<And>i. db (jobKey q i) \<noteq> None \<Longrightarrow> i \<in> set ids" and "[] \<notin> set ids" and "set (map tl ids) \<inter> set ids = {}"
  shows "rdq_List None q (map (jobKey q) ids) f db = Some (Inr [])"
proof -
  have "db (jobKey q (tl i)) = None" if "i \<in> set ids" for i using assms(1,3) that by force
  then have none: "concat (map (\<lambda>i. case getJobEntry None q i db of Inl e \<Rightarrow> []
      | Inr e \<Rightarrow> if filter_matches f (re_Status e) (re_EnqueuedAt e) then [redis_info e] else []) (map tl ids)) = []"
    by (auto simp: getJobEntry_def redis_Get_def)
  show ?thesis unfolding rdq_List_def list_ids_tl [OF assms(2)] option.case none by (simp add: page_def)
qed

theorem redis_List_loses_jobs_witness:
  "(\<exists>info. rdq_Get None demo_rdq ''j'' demo_db = Inr info) \<and>
   rdq_List None demo_rdq (map (jobKey demo_rdq) [''j'']) \<lparr>jf_Status = [], jf_StartTime = None, jf_EndTime = None, jf_Limit = 0, jf_Offset = 0\<rparr> demo_db =
     Some (Inr [])"
proof
  show "\<exists>info. rdq_Get None demo_rdq ''j'' demo_db = Inr info"
    by (simp add: rdq_Get_def getJobEntry_def redis_Get_def demo_db_def)
  have "i \<in> set [''j'']" if "demo_db (jobKey demo_rdq i) \<noteq> None" for i using that by (simp add: demo_db_def split: if_splits)
  from redis_List_loses_jobs [of demo_db demo_rdq, OF this]
  show "rdq_List None demo_rdq (map (jobKey demo_rdq) [''j'']) \<lparr>jf_Status = [], jf_StartTime = None, jf_EndTime = None, jf_Limit = 0, jf_Offset = 0\<rparr> demo_db =
     Some (Inr [])" by simp
qed

end
