(* ===== verification/ConfigSource.thy ===== *)
theory ConfigSource
  imports GoFmt "HOL-Library.List_Lexorder" "HOL-Library.Char_ord"
begin

text \<open>
  Package config, \<open>source.go\<close>: the sources of configuration values - the environment, files and command line flags.  A value of
  type \<open>interface{}\<close> is a \<open>cval\<close>; a map that is ranged over is the list of its entries in the order of the
  iteration.  Reading and parsing a file, and the watcher of the file system, are arguments: a file is
  what reading it gave, a parser takes the format and the text.  Times that a parser of YAML or TOML
  may give are left out of the values.
\<close>

subsection \<open>Values\<close>

datatype cval =
    CNil
  | CBool bool
  | CInt int
  | CFloat float64
  | CStr string
  | CStrs "string list"
  | CList "cval list"
  | CMap "(string \<times> cval) list"
  | CIMap "(cval \<times> cval) list" \<comment> \<open>a map with keys of type \<open>interface{}\<close>\<close>

definition PriorityDefault :: int where "PriorityDefault = 100"
definition PriorityEnv :: int where "PriorityEnv = 300"
definition PriorityFile :: int where "PriorityFile = 200"
definition PriorityFlag :: int where "PriorityFlag = 400"

definition parseInt :: "string \<Rightarrow> int option" where
  "parseInt value = sscanf_d value"

definition parseFloat :: "string \<Rightarrow> float64 option" where
  "parseFloat value = sscanf_f value"

text \<open>\<open>None\<close> is the error that says the value is a string.\<close>

definition parseValue :: "string \<Rightarrow> cval option" where
  "parseValue value =
     (if strings_EqualFold value ''true'' then Some (CBool True)
      else if strings_EqualFold value ''false'' then Some (CBool False)
      else case parseInt value of
          Some i \<Rightarrow> Some (CInt i)
        | None \<Rightarrow> (case parseFloat value of Some f \<Rightarrow> Some (CFloat f) | None \<Rightarrow> None))"

definition array_key :: "string \<Rightarrow> nat \<Rightarrow> string" where
  "array_key key i = key @ ''.'' @ nat_digits i"

text \<open>The entries \<open>key.0\<close>, \<open>key.1\<close>, \<dots> of an array.\<close>

fun put_items :: "string \<Rightarrow> nat \<Rightarrow> cval list \<Rightarrow> (string \<rightharpoonup> cval) \<Rightarrow> string \<rightharpoonup> cval" where
  "put_items key i [] out = out"
| "put_items key i (v # vs) out = put_items key (i + 1) vs (out(array_key key i \<mapsto> v))"

subsection \<open>The environment\<close>

definition env_key :: "string \<Rightarrow> string \<Rightarrow> string" where
  "env_key pre key =
     (let key = (if pre \<noteq> [] then
                   (let key = strings_TrimPrefix key pre
                    in if key \<noteq> [] \<and> hd key = CHR ''_'' then tl key else key)
                 else key)
      in strings_Replace1 (CHR ''_'') (CHR ''.'') (strings_ToLower key))"

definition env_value :: "string \<Rightarrow> string \<Rightarrow> (string \<rightharpoonup> cval) \<Rightarrow> string \<rightharpoonup> cval" where
  "env_value key value result =
     (if strings_EqualFold value ''true'' then result(key \<mapsto> CBool True)
      else if strings_EqualFold value ''false'' then result(key \<mapsto> CBool False)
      else if strings_Contains value '','' \<and> \<not> strings_Contains value [CHR 0x5C, CHR '','']
      then (let items = map strings_TrimSpace (strings_Split value '','')
            in put_items key 0 (map CStr items) (result(key \<mapsto> CStrs items)))
      else case parseInt value of
          Some i \<Rightarrow> result(key \<mapsto> CInt i)
        | None \<Rightarrow>
            (case parseFloat value of
               Some f \<Rightarrow> result(key \<mapsto> CFloat f)
             | None \<Rightarrow> result(key \<mapsto> CStr value)))"

definition env_entry :: "string \<Rightarrow> string \<Rightarrow> (string \<rightharpoonup> cval) \<Rightarrow> string \<rightharpoonup> cval" where
  "env_entry pre env result =
     (case strings_SplitN2 env ''='' of
        [key, value] \<Rightarrow>
          if pre \<noteq> [] \<and> \<not> strings_HasPrefix key pre then result
          else env_value (env_key pre key) value result
      | _ \<Rightarrow> result)"

definition EnvSource_Load :: "string \<Rightarrow> string list \<Rightarrow> string \<rightharpoonup> cval" where
  "EnvSource_Load pre environ = foldl (\<lambda>result env. env_entry pre env result) Map.empty environ"

subsection \<open>Files\<close>

record FileSource =
  fs_path :: string
  fs_format :: string
  fs_priority :: int
  fs_watcher :: bool
  fs_watching :: bool \<comment> \<open>\<open>fsWatcher\<close> is not nil\<close>

datatype FileSourceOption = WithWatcher bool | WithPriority int

definition filepath_Ext :: "string \<Rightarrow> string" where
  "filepath_Ext path =
     (let r = takeWhile (\<lambda>c. c \<noteq> CHR ''/'') (rev path)
      in if CHR ''.'' \<in> set r then rev (takeWhile (\<lambda>c. c \<noteq> CHR ''.'') r @ [CHR ''.'']) else [])"

fun apply_file_option :: "FileSourceOption \<Rightarrow> FileSource \<Rightarrow> FileSource" where
  "apply_file_option (WithWatcher enabled) s = s\<lparr>fs_watcher := enabled\<rparr>"
| "apply_file_option (WithPriority priority) s = s\<lparr>fs_priority := priority\<rparr>"

definition NewFileSource :: "string \<Rightarrow> string \<Rightarrow> FileSourceOption list \<Rightarrow> FileSource" where
  "NewFileSource path format opts =
     (let format = (if format = [] then strings_TrimPrefix (filepath_Ext path) ''.'' else format)
      in fold apply_file_option opts
           \<lparr>fs_path = path, fs_format = format, fs_priority = PriorityFile, fs_watcher = False, fs_watching = False\<rparr>)"

fun str_entries :: "(cval \<times> cval) list \<Rightarrow> (string \<times> cval) list" where
  "str_entries [] = []"
| "str_entries ((CStr k, v) # m) = (k, v) # str_entries m"
| "str_entries ((_, v) # m) = str_entries m"

definition entries_size :: "(string \<times> cval) list \<Rightarrow> nat" where
  "entries_size m = size_list (\<lambda>(k, v). Suc (size v)) m"

lemma str_entries_size: "entries_size (str_entries m) \<le> size_list (size_prod size size) m"
  by (induction m rule: str_entries.induct) (auto simp: entries_size_def)

lemma CMap_size: "entries_size m < size (CMap m)"
  by (induction m) (auto simp: entries_size_def)

lemma CIMap_size: "entries_size (str_entries m) < size (CIMap m)"
  using str_entries_size [of m] by simp

function flattenMap :: "(string \<times> cval) list \<Rightarrow> string \<Rightarrow> (string \<rightharpoonup> cval) \<Rightarrow> string \<rightharpoonup> cval" where
  "flattenMap [] pre out = out"
| "flattenMap ((k, v) # input) pre out =
     (let key = (if pre \<noteq> [] then pre @ ''.'' @ k else k)
      in flattenMap input pre
           (case v of
              CMap m \<Rightarrow> flattenMap m key out
            | CIMap m \<Rightarrow> flattenMap (str_entries m) key out
            | CList items \<Rightarrow> (put_items key 0 items out)(key \<mapsto> v)
            | _ \<Rightarrow> out(key \<mapsto> v)))"
  by pat_completeness auto
termination
proof (relation "measure (\<lambda>(m, pre, out). entries_size m)")
  show "((m, key, out), (k, v) # input, pre, out) \<in> measure (\<lambda>(m, pre, out). entries_size m)"
    if "v = CMap m" for m key out k v input pre
    using CMap_size [of m] that by (simp add: entries_size_def)
  show "((str_entries m, key, out), (k, v) # input, pre, out) \<in> measure (\<lambda>(m, pre, out). entries_size m)"
    if "v = CIMap m" for m key out k v input pre
    using CIMap_size [of m] that by (simp add: entries_size_def)
qed (simp_all add: entries_size_def)

datatype file_state = FileMissing | FileUnreadable string | FileContent string

datatype source_error =
    ErrFileMissing string
  | ErrFileRead string string
  | ErrFileParse string string
  | ErrFileFormat string

definition FileSource_Load ::
  "(string \<Rightarrow> string \<Rightarrow> string + (string \<times> cval) list) \<Rightarrow> file_state \<Rightarrow> FileSource \<Rightarrow> source_error + (string \<rightharpoonup> cval)" where
  "FileSource_Load parse file s =
     (case file of
        FileMissing \<Rightarrow> Inl (ErrFileMissing (fs_path s))
      | FileUnreadable e \<Rightarrow> Inl (ErrFileRead (fs_path s) e)
      | FileContent text \<Rightarrow>
          if strings_ToLower (fs_format s) \<in> {''yaml'', ''yml'', ''json'', ''toml''} then
            (case parse (strings_ToLower (fs_format s)) text of
               Inl e \<Rightarrow> Inl (ErrFileParse (fs_path s) e)
             | Inr result \<Rightarrow> Inr (flattenMap result [] Map.empty))
          else Inl (ErrFileFormat (fs_format s)))"

text \<open>\<open>Watch\<close> gives the error of the watcher, and whether a loop was started.\<close>

definition FileSource_Watch :: "string option \<Rightarrow> string option \<Rightarrow> FileSource \<Rightarrow> string option \<times> bool \<times> FileSource" where
  "FileSource_Watch new_err add_err s =
     (if \<not> fs_watcher s then (None, False, s)
      else if fs_watching s then (None, False, s)
      else case new_err of
          Some e \<Rightarrow> (Some (''failed to create file watcher: '' @ e), False, s)
        | None \<Rightarrow>
            (case add_err of
               Some e \<Rightarrow> (Some (''failed to watch directory: '' @ e), False, s)
             | None \<Rightarrow> (None, True, s\<lparr>fs_watching := True\<rparr>)))"

text \<open>
  What the loop receives: an event at an instant, for the file or another one of the directory, a write or creation or not; an
  error; the end of a channel; the end of the context.  The result is the instants at which the callback runs, and
  whether the watcher was closed.
\<close>

datatype watch_event = FsEvent time bool bool | FsError string | FsClosed | CtxDone

definition debounceInterval :: duration where
  "debounceInterval = 100 * Millisecond"

fun watchLoop :: "watch_event list \<Rightarrow> time \<Rightarrow> time list \<times> bool" where
  "watchLoop [] lastEventTime = ([], False)"
| "watchLoop (FsEvent now ours write # es) lastEventTime =
     (if \<not> ours then watchLoop es lastEventTime
      else if write then
        (if now - lastEventTime < debounceInterval then watchLoop es lastEventTime
         else case watchLoop es now of (cs, c) \<Rightarrow> (now # cs, c))
      else watchLoop es lastEventTime)"
| "watchLoop (FsError e # es) lastEventTime = watchLoop es lastEventTime"
| "watchLoop (FsClosed # es) lastEventTime = ([], False)"
| "watchLoop (CtxDone # es) lastEventTime = ([], True)"

definition FileSource_Close :: "string option \<Rightarrow> FileSource \<Rightarrow> string option \<times> FileSource" where
  "FileSource_Close close_err s = (if fs_watching s then (close_err, s\<lparr>fs_watching := False\<rparr>) else (None, s))"

subsection \<open>Flags\<close>

record flag =
  fl_Name :: string
  fl_Changed :: bool
  fl_Value :: string

record FlagSource =
  fg_flagSet :: "flag list option" \<comment> \<open>in the order of \<open>VisitAll\<close>\<close>
  fg_values :: "string \<rightharpoonup> cval"

definition NewFlagSource :: "flag list option option \<Rightarrow> FlagSource" where
  "NewFlagSource flagSet = \<lparr>fg_flagSet = (case flagSet of None \<Rightarrow> Some [] | Some fs \<Rightarrow> fs), fg_values = Map.empty\<rparr>"

definition flag_entry :: "flag \<Rightarrow> (string \<rightharpoonup> cval) \<Rightarrow> string \<rightharpoonup> cval" where
  "flag_entry f result =
     (if fl_Changed f then
        (let key = strings_Replace1 (CHR ''-'') (CHR ''.'') (strings_ToLower (fl_Name f))
         in case parseValue (fl_Value f) of
              Some v \<Rightarrow> result(key \<mapsto> v)
            | None \<Rightarrow> result(key \<mapsto> CStr (fl_Value f)))
      else result)"

definition FlagSource_Load :: "FlagSource \<Rightarrow> string \<rightharpoonup> cval" where
  "FlagSource_Load s =
     (case fg_flagSet s of None \<Rightarrow> fg_values s | Some fs \<Rightarrow> fold flag_entry fs (fg_values s))"

definition SetValue :: "string \<Rightarrow> cval \<Rightarrow> FlagSource \<Rightarrow> FlagSource" where
  "SetValue key value s = s\<lparr>fg_values := (fg_values s)(key \<mapsto> value)\<rparr>"

definition AddToCommand :: "flag list \<Rightarrow> FlagSource \<Rightarrow> FlagSource" where
  "AddToCommand persistent s = s\<lparr>fg_flagSet := Some persistent\<rparr>"

text \<open>
  \<open>AddFlag\<close>: the library keeps the flags in the order of their names, formats the default (\<open>format\<close>) and panics (\<open>None\<close>) on a
  name that is taken; values of other types add nothing.
\<close>

definition AddFlag :: "(cval \<Rightarrow> string) \<Rightarrow> string \<Rightarrow> cval \<Rightarrow> FlagSource \<Rightarrow> FlagSource option" where
  "AddFlag format name value s =
     (case fg_flagSet s of
        None \<Rightarrow> Some s
      | Some fs \<Rightarrow>
          (let f = \<lparr>fl_Name = name, fl_Changed = False, fl_Value = format value\<rparr>;
               add = (if name \<in> fl_Name ` set fs then None else Some (s\<lparr>fg_flagSet := Some (insort_key fl_Name f fs)\<rparr>))
           in case value of
                CStr x \<Rightarrow> add
              | CBool x \<Rightarrow> add
              | CInt x \<Rightarrow> add
              | CFloat x \<Rightarrow> add
              | CStrs x \<Rightarrow> add
              | _ \<Rightarrow> Some s))"

end
