(* ===== verification/GoUtf8.thy ===== *)
theory GoUtf8
  imports Prelude
begin

text \<open>
  UTF-8 as the standard library reads it: \<open>encoding/json\<close> writes a string rune by rune and replaces every byte that does not begin
  a valid rune by U+FFFD.  Strings are lists of bytes.
\<close>

definition byte_in :: "nat \<Rightarrow> nat \<Rightarrow> char \<Rightarrow> bool" where
  "byte_in lo hi c \<longleftrightarrow> lo \<le> of_char c \<and> of_char c \<le> hi"

abbreviation continuation :: "char \<Rightarrow> bool" where
  "continuation \<equiv> byte_in 0x80 0xBF"

text \<open>The number of bytes of the rune at the beginning, 0 if there is none.\<close>

fun rune_width :: "string \<Rightarrow> nat" where
  "rune_width [] = 0"
| "rune_width (a # s) =
     (if byte_in 0 0x7F a then 1
      else case s of
          [] \<Rightarrow> 0
        | b # s \<Rightarrow>
            if byte_in 0xC2 0xDF a then (if continuation b then 2 else 0)
            else (case s of
                [] \<Rightarrow> 0
              | c # s \<Rightarrow>
                  if byte_in 0xE0 0xEF a then
                    (if byte_in (if of_char a = (0xE0 :: nat) then 0xA0 else 0x80) (if of_char a = (0xED :: nat) then 0x9F else 0xBF) b \<and> continuation c then 3 else 0)
                  else (case s of
                      [] \<Rightarrow> 0
                    | d # s \<Rightarrow>
                        if byte_in 0xF0 0xF4 a \<and> byte_in (if of_char a = (0xF0 :: nat) then 0x90 else 0x80) (if of_char a = (0xF4 :: nat) then 0x8F else 0xBF) b \<and>
                          continuation c \<and> continuation d
                        then 4 else 0)))"

lemma rune_width_le: "rune_width s \<le> length s"
  by (cases s) (auto split: list.split)

declare rune_width.simps(2) [simp del]

text \<open>What a JSON encoder makes of a string, as the decoder reads it back.\<close>

function utf8_repair :: "string \<Rightarrow> string" where
  "utf8_repair [] = []"
| "utf8_repair (c # s) =
     (let n = rune_width (c # s)
      in if n = 0 then [CHR 0xEF, CHR 0xBF, CHR 0xBD] @ utf8_repair s else take n (c # s) @ utf8_repair (drop n (c # s)))"
  by pat_completeness auto
termination by (relation "measure length") auto

function utf8_Valid :: "string \<Rightarrow> bool" where
  "utf8_Valid [] = True"
| "utf8_Valid (c # s) \<longleftrightarrow> (let n = rune_width (c # s) in if n = 0 then False else utf8_Valid (drop n (c # s)))"
  by pat_completeness auto
termination by (relation "measure length") auto

declare utf8_repair.simps(2) [simp del] and utf8_Valid.simps(2) [simp del]

lemma utf8_repair_Valid: "utf8_Valid s \<Longrightarrow> utf8_repair s = s"
proof (induction s rule: utf8_Valid.induct)
  case (2 c s)
  from "2.prems" have "rune_width (c # s) \<noteq> 0" "utf8_Valid (drop (rune_width (c # s)) (c # s))"
    by (simp_all add: utf8_Valid.simps(2) Let_def split: if_splits)
  then show ?case using "2.IH" by (simp add: utf8_repair.simps(2) Let_def)
qed simp

lemma utf8_repair_length: "length s \<le> length (utf8_repair s) \<and> (length (utf8_repair s) = length s \<longrightarrow> utf8_Valid s)"
proof (induction s rule: utf8_repair.induct)
  case (2 c s)
  show ?case
  proof (cases "rune_width (c # s) = 0")
    case True
    then show ?thesis using 2 by (auto simp: utf8_repair.simps(2) Let_def)
  next
    case False
    let ?n = "rune_width (c # s)"
    have "length (take ?n (c # s)) + length (drop ?n (c # s)) = length (c # s)" by (metis append_take_drop_id length_append)
    then show ?thesis using "2.IH"(2) [OF refl False] False by (auto simp: utf8_repair.simps(2) utf8_Valid.simps(2) Let_def simp del: length_take length_drop)
  qed
qed simp

theorem utf8_repair_id: "utf8_repair s = s \<longleftrightarrow> utf8_Valid s"
  using utf8_repair_Valid utf8_repair_length by metis

lemma ascii_Valid: "list_all (byte_in 0 0x7F) s \<Longrightarrow> utf8_Valid s"
proof (induction s)
  case (Cons c s)
  then have "rune_width (c # s) = 1" by (simp add: rune_width.simps)
  then show ?case using Cons by (simp add: utf8_Valid.simps(2) Let_def)
qed simp

text \<open>
  \<open>strings.Map\<close> of a function that keeps some ASCII characters and gives one character for every other rune; a byte that begins no rune counts
  as one.
\<close>

definition alnum :: "char \<Rightarrow> bool" where
  "alnum c \<longleftrightarrow> byte_in 97 122 c \<or> byte_in 65 90 c \<or> byte_in 48 57 c"

function map_runes :: "(char \<Rightarrow> bool) \<Rightarrow> char \<Rightarrow> string \<Rightarrow> string" where
  "map_runes keep other [] = []"
| "map_runes keep other (c # s) =
     (let n = max 1 (rune_width (c # s))
      in (if n = 1 \<and> keep c then c else other) # map_runes keep other (drop n (c # s)))"
  by pat_completeness auto
termination by (relation "measure (\<lambda>(_, _, s). length s)") auto

declare map_runes.simps(2) [simp del]

lemma map_runes_set: "set (map_runes keep other s) \<subseteq> insert other {c. keep c}"
  by (induction keep other s rule: map_runes.induct) (auto simp: map_runes.simps(2) Let_def)

lemma rune_width_ascii: "byte_in 0 0x7F c \<Longrightarrow> rune_width (c # s) = 1"
  by (simp add: rune_width.simps(2))

lemma map_runes_id: "(\<And>c. c \<in> set s \<Longrightarrow> keep c \<and> byte_in 0 0x7F c) \<Longrightarrow> map_runes keep other s = s"
  by (induction s) (auto simp: map_runes.simps(2) rune_width_ascii)

text \<open>The conversion of a string to its code points; a byte that begins no rune counts as U+FFFD.\<close>

definition rune_of :: "string \<Rightarrow> int" where
  "rune_of bs =
     (case map of_char bs of
        [a] \<Rightarrow> a
      | [a, b] \<Rightarrow> (a - 0xC0) * 64 + (b - 0x80)
      | [a, b, c] \<Rightarrow> (a - 0xE0) * 4096 + (b - 0x80) * 64 + (c - 0x80)
      | [a, b, c, d] \<Rightarrow> (a - 0xF0) * 262144 + (b - 0x80) * 4096 + (c - 0x80) * 64 + (d - 0x80)
      | _ \<Rightarrow> 0xFFFD)"

function runes :: "string \<Rightarrow> int list" where
  "runes [] = []"
| "runes (c # s) =
     (let n = rune_width (c # s) in rune_of (take n (c # s)) # runes (drop (max 1 n) (c # s)))"
  by pat_completeness auto
termination by (relation "measure length") auto

declare runes.simps(2) [simp del]

lemma runes_ascii: "(\<And>c. c \<in> set s \<Longrightarrow> byte_in 0 0x7F c) \<Longrightarrow> runes s = map of_char s"
  by (induction s) (simp_all add: runes.simps(2) rune_width_ascii rune_of_def)

end
