(* ===== verification/ConfigManager.thy ===== *)
theory ConfigManager
  imports ConfigSource GoUtf8
begin

text \<open>
  Package config, \<open>manager.go\<close> and \<open>config.go\<close>: merging the sources into a struct through reflection, validation, reloading and
  the thread-safe container.  A configuration struct is a tree (\<open>cfg\<close>) of named, tagged fields with typed leaves.
  The kinds of fields modelled are those the code distinguishes: strings, booleans, integers of any width, float64, slices,
  maps, \<open>time.Time\<close>, \<open>interface{}\<close> (\<open>TAny\<close>), nested structs, and those it rejects (\<open>TOther\<close>).  The validator, parsing a time and converting a float
  that is out of range are arguments, as is the order in which maps are ranged over.
\<close>

subsection \<open>Structs\<close>

datatype gtype =
    TString
  | TBool
  | TInt nat
  | TUint nat
  | TFloat
  | TSlice gtype
  | TMap gtype gtype
  | TTime
  | TAny
  | TOther

datatype gvalue =
    GStr string
  | GBool bool
  | GInt int
  | GFloat float64
  | GSlice "gvalue list"
  | GMap "(gvalue \<times> gvalue) list"
  | GTime time
  | GAny cval
  | GOther

record sfield =
  sf_Name :: string
  sf_json :: string
  sf_yaml :: string
  sf_exported :: bool

datatype cfg = CLeaf gtype gvalue | CStruct "(sfield \<times> cfg) list"

definition zero_value :: "gtype \<Rightarrow> gvalue" where
  "zero_value t =
     (case t of
        TString \<Rightarrow> GStr [] | TBool \<Rightarrow> GBool False | TInt n \<Rightarrow> GInt 0 | TUint n \<Rightarrow> GInt 0 | TFloat \<Rightarrow> GFloat (Fin 0)
      | TSlice t \<Rightarrow> GSlice [] | TMap k v \<Rightarrow> GMap [] | TTime \<Rightarrow> GTime zero_Time | TAny \<Rightarrow> GAny CNil | TOther \<Rightarrow> GOther)"

text \<open>\<open>reflect.New\<close>: the zero value of the type of a struct.\<close>

fun zero_cfg :: "cfg \<Rightarrow> cfg" where
  "zero_cfg (CLeaf t v) = CLeaf t (zero_value t)"
| "zero_cfg (CStruct fs) = CStruct (map (\<lambda>(f, c). (f, zero_cfg c)) fs)"

subsection \<open>Conversions\<close>

definition wrap_int :: "nat \<Rightarrow> int \<Rightarrow> int" where
  "wrap_int n i = (i + 2 ^ (n - 1)) mod 2 ^ n - 2 ^ (n - 1)"

definition byte :: "int \<Rightarrow> char" where
  "byte n = char_of (nat n)"

text \<open>The string of a code point, as the conversion from an integer to a string gives it.\<close>

definition rune_string :: "int \<Rightarrow> string" where
  "rune_string r =
     (let r = (if r < 0 \<or> 0x10FFFF < r \<or> (0xD800 \<le> r \<and> r \<le> 0xDFFF) then 0xFFFD else r)
      in if r < 0x80 then [byte r]
         else if r < 0x800 then [byte (0xC0 + r div 64), byte (0x80 + r mod 64)]
         else if r < 0x10000 then [byte (0xE0 + r div 4096), byte (0x80 + r div 64 mod 64), byte (0x80 + r mod 64)]
         else [byte (0xF0 + r div 262144), byte (0x80 + r div 4096 mod 64), byte (0x80 + r div 64 mod 64), byte (0x80 + r mod 64)])"

text \<open>
  Assignment or conversion of a value that is neither nil nor a string to a type; \<open>None\<close> when neither is possible.  A slice or map can
  be assigned to a field of its own type, and every value to one of type \<open>interface{}\<close>.
\<close>

definition convert :: "(float64 \<Rightarrow> int) \<Rightarrow> cval \<Rightarrow> gtype \<Rightarrow> gvalue option" where
  "convert ovf v t =
     (case (v, t) of
        (CBool b, TBool) \<Rightarrow> Some (GBool b)
      | (CInt i, TInt n) \<Rightarrow> Some (GInt (wrap_int n i))
      | (CInt i, TUint n) \<Rightarrow> Some (GInt (i mod 2 ^ n))
      | (CInt i, TFloat) \<Rightarrow> Some (GFloat (f64_of_int i))
      | (CInt i, TString) \<Rightarrow> Some (GStr (rune_string i))
      | (CFloat f, TFloat) \<Rightarrow> Some (GFloat f)
      | (CFloat f, TInt n) \<Rightarrow> Some (GInt (wrap_int n (f64_to_int64 ovf f)))
      | (CFloat f, TUint n) \<Rightarrow> Some (GInt (f64_to_int64 ovf f mod 2 ^ n))
      | (CStrs ss, TSlice TString) \<Rightarrow> Some (GSlice (map GStr ss))
      | (CList vs, TSlice TAny) \<Rightarrow> Some (GSlice (map GAny vs))
      | (CMap m, TMap TString TAny) \<Rightarrow> Some (GMap (map (\<lambda>(k, v). (GStr k, GAny v)) m))
      | (CIMap m, TMap TAny TAny) \<Rightarrow> Some (GMap (map (\<lambda>(k, v). (GAny k, GAny v)) m))
      | (_, TAny) \<Rightarrow> Some (GAny v)
      | _ \<Rightarrow> None)"

text \<open>Setting a scalar from a string; \<open>None\<close> for a text that does not parse or a kind that strings do not convert to.\<close>

definition from_string :: "string \<Rightarrow> gtype \<Rightarrow> gvalue option" where
  "from_string s t =
     (case t of
        TString \<Rightarrow> Some (GStr s)
      | TInt n \<Rightarrow> map_option (\<lambda>i. GInt (wrap_int n i)) (strconv_ParseInt s)
      | TUint n \<Rightarrow> map_option (\<lambda>i. GInt (i mod 2 ^ n)) (strconv_ParseUint s)
      | TFloat \<Rightarrow> map_option GFloat (strconv_ParseFloat s)
      | TBool \<Rightarrow> map_option GBool (strconv_ParseBool s)
      | _ \<Rightarrow> None)"

text \<open>The conversion of a string to \<open>[]byte\<close> and to \<open>[]rune\<close>.\<close>

definition string_slice :: "gtype \<Rightarrow> string \<Rightarrow> gvalue option" where
  "string_slice elem s =
     (if elem = TUint 8 then Some (GSlice (map (\<lambda>c. GInt (code c)) s))
      else if elem = TInt 32 then Some (GSlice (map GInt (runes s)))
      else None)"

text \<open>
  The conversion of the elements of a slice and of the entries of a map to the types of a field.  The elements of an
  \<open>[]interface{}\<close> and of the maps have interface type, and convert to interface types only.
\<close>

definition convert_strs :: "string list \<Rightarrow> gtype \<Rightarrow> gvalue option" where
  "convert_strs ss elem =
     (case elem of
        TString \<Rightarrow> Some (GSlice (map GStr ss))
      | TAny \<Rightarrow> Some (GSlice (map (\<lambda>s. GAny (CStr s)) ss))
      | TSlice e \<Rightarrow>
          (let gs = map (string_slice e) ss
           in if None \<in> set gs then None else Some (GSlice (map the gs)))
      | _ \<Rightarrow> if ss = [] then Some (GSlice []) else None)"

definition convert_list :: "cval list \<Rightarrow> gtype \<Rightarrow> gvalue option" where
  "convert_list vs elem = (if elem = TAny \<or> vs = [] then Some (GSlice (map GAny vs)) else None)"

definition convert_map :: "(string \<times> cval) list \<Rightarrow> gtype \<Rightarrow> gtype \<Rightarrow> gvalue option" where
  "convert_map m key elem =
     (if m = [] then Some (GMap [])
      else if key = TString \<and> elem = TAny then Some (GMap (map (\<lambda>(k, v). (GStr k, GAny v)) m))
      else if key = TAny \<and> elem = TAny then Some (GMap (map (\<lambda>(k, v). (GAny (CStr k), GAny v)) m))
      else None)"

definition convert_imap :: "(cval \<times> cval) list \<Rightarrow> gtype \<Rightarrow> gtype \<Rightarrow> gvalue option" where
  "convert_imap m key elem =
     (if m = [] then Some (GMap [])
      else if key = TAny \<and> elem = TAny then Some (GMap (map (\<lambda>(k, v). (GAny k, GAny v)) m))
      else None)"

definition converted :: "string \<Rightarrow> gvalue option \<Rightarrow> string + gvalue option" where
  "converted err r = (case r of None \<Rightarrow> Inl err | Some g \<Rightarrow> Inr (Some g))"

declare converted_def [simp]

text \<open>
  \<open>setFieldValue\<close> on a leaf: \<open>Inl\<close> is its error, \<open>Inr None\<close> a nil that leaves the field alone.
\<close>

definition setFieldValue ::
  "(float64 \<Rightarrow> int) \<Rightarrow> (string \<Rightarrow> time option) \<Rightarrow> gtype \<Rightarrow> cval \<Rightarrow> string + gvalue option" where
  "setFieldValue ovf parse_time t value =
     (case value of
        CNil \<Rightarrow> Inr None
      | CStr s \<Rightarrow>
          (case t of
             TSlice TString \<Rightarrow> Inr (Some (GSlice (map (\<lambda>p. GStr (strings_TrimSpace p)) (strings_Split s '',''))))
           | TTime \<Rightarrow> (case parse_time s of None \<Rightarrow> Inl ''invalid time format'' | Some x \<Rightarrow> Inr (Some (GTime x)))
           | _ \<Rightarrow> converted ''unsupported conversion'' (from_string s t))
      | CStrs ss \<Rightarrow>
          (case t of
             TSlice e \<Rightarrow> converted ''cannot convert slice element'' (convert_strs ss e)
           | _ \<Rightarrow> converted ''cannot convert'' (convert ovf value t))
      | CList vs \<Rightarrow>
          (case t of
             TSlice e \<Rightarrow> converted ''cannot convert slice element'' (convert_list vs e)
           | _ \<Rightarrow> converted ''cannot convert'' (convert ovf value t))
      | CMap m \<Rightarrow>
          (case t of
             TMap k e \<Rightarrow> converted ''cannot convert map entry'' (convert_map m k e)
           | _ \<Rightarrow> converted ''cannot convert'' (convert ovf value t))
      | CIMap m \<Rightarrow>
          (case t of
             TMap k e \<Rightarrow> converted ''cannot convert map entry'' (convert_imap m k e)
           | _ \<Rightarrow> converted ''cannot convert'' (convert ovf value t))
      | _ \<Rightarrow> converted ''cannot convert'' (convert ovf value t))"

definition slice_element :: "(float64 \<Rightarrow> int) \<Rightarrow> gtype \<Rightarrow> cval \<Rightarrow> gvalue option" where
  "slice_element ovf elem value =
     (case value of
        CNil \<Rightarrow> Some (zero_value elem)
      | CStr s \<Rightarrow> from_string s elem
      | _ \<Rightarrow> convert ovf value elem)"

definition setSliceValue :: "(float64 \<Rightarrow> int) \<Rightarrow> gtype \<Rightarrow> cval list \<Rightarrow> string + gvalue" where
  "setSliceValue ovf elem values =
     (let gs = map (slice_element ovf elem) values
      in if None \<in> set gs then Inl ''cannot convert'' else Inr (GSlice (map the gs)))"

subsection \<open>Fields\<close>

definition tag_name :: "string \<Rightarrow> string" where
  "tag_name tag = hd (strings_Split tag '','')"

definition field_matches :: "string \<Rightarrow> sfield \<Rightarrow> bool" where
  "field_matches name f \<longleftrightarrow>
     strings_EqualFold (sf_Name f) name \<or>
     (sf_json f \<noteq> [] \<and> tag_name (sf_json f) = name) \<or>
     (sf_yaml f \<noteq> [] \<and> tag_name (sf_yaml f) = name)"

fun findFieldByName :: "(sfield \<times> cfg) list \<Rightarrow> string \<Rightarrow> nat option" where
  "findFieldByName [] name = None"
| "findFieldByName ((f, c) # fs) name =
     (if field_matches name f then Some 0 else map_option Suc (findFieldByName fs name))"

text \<open>The field a path leads to: its position, whether it can be set, and what it holds.\<close>

fun findField :: "cfg \<Rightarrow> string list \<Rightarrow> (nat list \<times> bool \<times> cfg) option" where
  "findField c [] = Some ([], True, c)"
| "findField (CLeaf t v) (p # ps) = None"
| "findField (CStruct fs) (p # ps) =
     (case findFieldByName fs p of
        None \<Rightarrow> None
      | Some i \<Rightarrow>
          (case findField (snd (fs ! i)) ps of
             None \<Rightarrow> None
           | Some (is, s, c) \<Rightarrow> Some (i # is, sf_exported (fst (fs ! i)) \<and> s, c)))"

fun set_at :: "nat list \<Rightarrow> cfg \<Rightarrow> cfg \<Rightarrow> cfg" where
  "set_at [] new c = new"
| "set_at (i # is) new (CStruct fs) =
     (if i < length fs then CStruct (fs[i := (fst (fs ! i), set_at is new (snd (fs ! i)))]) else CStruct fs)"
| "set_at (i # is) new (CLeaf t v) = CLeaf t v"

subsection \<open>Merging into the struct\<close>

definition index_base :: "string \<Rightarrow> string option" where
  "index_base key =
     (let parts = strings_Split key ''.''
      in if 2 \<le> length parts \<and> strconv_Atoi (last parts) \<noteq> None then Some (strings_Join (butlast parts) ''.'') else None)"

text \<open>
  \<open>keys\<close> is the order in which the data are ranged over, \<open>bases\<close> that of the array bases.  A panic - setting a slice field that is not
  exported - is \<open>None\<close>.
\<close>

definition base_keys :: "string list \<Rightarrow> string \<Rightarrow> string list" where
  "base_keys keys base = sort (filter (\<lambda>k. index_base k = Some base) keys)"

definition merge_array ::
  "(float64 \<Rightarrow> int) \<Rightarrow> (string \<rightharpoonup> cval) \<Rightarrow> string list \<Rightarrow> string \<Rightarrow> cfg \<Rightarrow> cfg option" where
  "merge_array ovf data keys base dest =
     (let values = map (\<lambda>k. case data k of None \<Rightarrow> CNil | Some v \<Rightarrow> v) (base_keys keys base)
      in case findField dest (strings_Split base ''.'') of
           Some (is, settable, CLeaf (TSlice elem) old) \<Rightarrow>
             (case setSliceValue ovf elem values of
                Inl e \<Rightarrow> Some dest
              | Inr g \<Rightarrow> if settable then Some (set_at is (CLeaf (TSlice elem) g) dest) else None)
         | _ \<Rightarrow> Some dest)"

definition merge_key ::
  "(float64 \<Rightarrow> int) \<Rightarrow> (string \<Rightarrow> time option) \<Rightarrow> (string \<rightharpoonup> cval) \<Rightarrow> string list \<Rightarrow> string \<Rightarrow> cfg \<Rightarrow> cfg" where
  "merge_key ovf parse_time data bases key dest =
     (if index_base key \<noteq> None then dest
      else if key \<in> set bases then dest
      else case (findField dest (strings_Split key ''.''), data key) of
          (Some (is, settable, CLeaf t old), Some value) \<Rightarrow>
            if settable then
              (case setFieldValue ovf parse_time t value of
                 Inr (Some g) \<Rightarrow> set_at is (CLeaf t g) dest
               | _ \<Rightarrow> dest)
            else dest
        | _ \<Rightarrow> dest)"

fun merge_arrays ::
  "(float64 \<Rightarrow> int) \<Rightarrow> (string \<rightharpoonup> cval) \<Rightarrow> string list \<Rightarrow> string list \<Rightarrow> cfg \<Rightarrow> cfg option" where
  "merge_arrays ovf data keys [] dest = Some dest"
| "merge_arrays ovf data keys (b # bs) dest =
     (case merge_array ovf data keys b dest of None \<Rightarrow> None | Some dest \<Rightarrow> merge_arrays ovf data keys bs dest)"

definition mergeConfig ::
  "(float64 \<Rightarrow> int) \<Rightarrow> (string \<Rightarrow> time option) \<Rightarrow> string list \<Rightarrow> string list \<Rightarrow> (string \<rightharpoonup> cval) \<Rightarrow> cfg \<Rightarrow> cfg option" where
  "mergeConfig ovf parse_time keys bases data dest =
     (case merge_arrays ovf data keys bases dest of
        None \<Rightarrow> None
      | Some dest \<Rightarrow> Some (fold (merge_key ovf parse_time data bases) keys dest))"

subsection \<open>Validation\<close>

record field_error =
  fe_Namespace :: string
  fe_Field :: string
  fe_Tag :: string
  fe_Param :: string

record ValidationError =
  ve_Field :: string
  ve_Tag :: string
  ve_Message :: string

definition validation_message :: "field_error \<Rightarrow> string" where
  "validation_message e =
     (if fe_Tag e = ''required'' then ''this field is required''
      else if fe_Tag e = ''min'' then ''value must be greater than or equal to '' @ fe_Param e
      else if fe_Tag e = ''max'' then ''value must be less than or equal to '' @ fe_Param e
      else if fe_Tag e = ''email'' then ''invalid email format''
      else if fe_Tag e = ''url'' then ''invalid URL format''
      else if fe_Tag e = ''semver'' then ''invalid semantic version format (must be X.Y.Z)''
      else ''failed validation for tag '' @ [CHR 0x27] @ fe_Tag e @ [CHR 0x27])"

definition validation_error :: "field_error \<Rightarrow> ValidationError" where
  "validation_error e =
     (let parts = strings_Split (fe_Namespace e) ''.''
      in \<lparr>ve_Field = (if 1 < length parts then strings_Join (map strings_ToLower (tl parts)) ''.'' else fe_Field e),
          ve_Tag = fe_Tag e, ve_Message = validation_message e\<rparr>)"

text \<open>The answer of the validator: nil, errors of fields, or another error.\<close>

datatype validator_answer = Valid | FieldErrors "field_error list" | OtherError string

datatype config_error =
    ErrNilDestination
  | ErrNotStruct
  | ErrValidationFailed "ValidationError list"
  | ErrValidator string
  | ErrNoConfig
  | ErrReload config_error
  | ErrInvalidConfig config_error
  | ErrFieldNotFound string
  | ErrFieldNotSettable string
  | ErrTypeMismatch
  | ErrNilCallback
  | ErrNilComponent

definition Validate :: "(cfg \<Rightarrow> validator_answer) \<Rightarrow> cfg option \<Rightarrow> config_error option" where
  "Validate validator config =
     (case config of
        None \<Rightarrow> Some ErrNilDestination
      | Some c \<Rightarrow>
          (case validator c of
             Valid \<Rightarrow> None
           | FieldErrors es \<Rightarrow> Some (ErrValidationFailed (map validation_error es))
           | OtherError e \<Rightarrow> Some (ErrValidator e)))"

text \<open>The name under which the validator reports a field.\<close>

definition reported_name :: "sfield \<Rightarrow> string" where
  "reported_name f =
     (let json = hd (strings_SplitN2 (sf_json f) '','');
          yaml = hd (strings_SplitN2 (sf_yaml f) '','')
      in if json = ''-'' then sf_Name f
         else if json \<noteq> [] then json
         else if yaml = ''-'' then sf_Name f
         else if yaml = [] then sf_Name f
         else yaml)"

subsection \<open>The manager\<close>

text \<open>A source is its name, its priority and what loading it gives now; a callback or component is its number.\<close>

record Source =
  so_Name :: string
  so_Priority :: int
  so_Load :: "string + (string \<rightharpoonup> cval)"

record DefaultManager =
  dm_sources :: "Source list"
  dm_watchers :: "nat list"
  dm_watching :: bool
  dm_config :: "cfg option"
  dm_reloadables :: "nat list"

definition NewManager :: "Source list \<Rightarrow> DefaultManager" where
  "NewManager sources =
     \<lparr>dm_sources = sources, dm_watchers = [], dm_watching = False, dm_config = None, dm_reloadables = []\<rparr>"

definition merge_source :: "(string \<rightharpoonup> cval) \<Rightarrow> Source \<Rightarrow> string \<rightharpoonup> cval" where
  "merge_source merged s = (case so_Load s of Inl e \<Rightarrow> merged | Inr data \<Rightarrow> data ++ merged)"

definition merge_sources :: "Source list \<Rightarrow> string \<rightharpoonup> cval" where
  "merge_sources sources = foldl merge_source Map.empty sources"

text \<open>\<open>sort.Slice\<close> sorts by descending priority, in an order of its own for equal ones (\<open>order\<close>).\<close>

definition Load ::
  "(Source list \<Rightarrow> Source list) \<Rightarrow> (float64 \<Rightarrow> int) \<Rightarrow> (string \<Rightarrow> time option) \<Rightarrow> (cfg \<Rightarrow> validator_answer) \<Rightarrow>
   string list \<Rightarrow> string list \<Rightarrow> cfg option \<Rightarrow> DefaultManager \<Rightarrow> (config_error option \<times> cfg option) option" where
  "Load order ovf parse_time validator keys bases dest m =
     (case dest of
        None \<Rightarrow> Some (Some ErrNilDestination, None)
      | Some (CLeaf t v) \<Rightarrow> Some (Some ErrNotStruct, dest)
      | Some (CStruct fs) \<Rightarrow>
          (case mergeConfig ovf parse_time keys bases (merge_sources (order (dm_sources m))) (CStruct fs) of
             None \<Rightarrow> None
           | Some c \<Rightarrow> Some (Validate validator (Some c), Some c)))"

definition Watch :: "nat option \<Rightarrow> DefaultManager \<Rightarrow> config_error option \<times> DefaultManager" where
  "Watch callback m =
     (case callback of
        None \<Rightarrow> (Some ErrNilCallback, m)
      | Some w \<Rightarrow> (None, m\<lparr>dm_watchers := dm_watchers m @ [w]\<rparr>))"

definition StartWatching :: "cfg option \<Rightarrow> DefaultManager \<Rightarrow> DefaultManager" where
  "StartWatching config m = m\<lparr>dm_watching := True, dm_config := config\<rparr>"

definition StopWatching :: "DefaultManager \<Rightarrow> DefaultManager" where
  "StopWatching m = (if dm_watching m then m\<lparr>dm_watching := False\<rparr> else m)"

definition AddSource :: "Source \<Rightarrow> DefaultManager \<Rightarrow> DefaultManager" where
  "AddSource source m = m\<lparr>dm_sources := dm_sources m @ [source]\<rparr>"

definition RegisterReloadable :: "nat option \<Rightarrow> DefaultManager \<Rightarrow> config_error option \<times> DefaultManager" where
  "RegisterReloadable component m =
     (case component of
        None \<Rightarrow> (Some ErrNilComponent, m)
      | Some c \<Rightarrow> (None, m\<lparr>dm_reloadables := dm_reloadables m @ [c]\<rparr>))"

text \<open>Whom a change is announced to: the watchers and the components.\<close>

definition notifyWatchers :: "DefaultManager \<Rightarrow> nat list \<times> nat list" where
  "notifyWatchers m = (dm_watchers m, dm_reloadables m)"

definition reloadConfig ::
  "(Source list \<Rightarrow> Source list) \<Rightarrow> (float64 \<Rightarrow> int) \<Rightarrow> (string \<Rightarrow> time option) \<Rightarrow> (cfg \<Rightarrow> validator_answer) \<Rightarrow>
   string list \<Rightarrow> string list \<Rightarrow> DefaultManager \<Rightarrow> (config_error option \<times> (nat list \<times> nat list) option \<times> DefaultManager) option" where
  "reloadConfig order ovf parse_time validator keys bases m =
     (case dm_config m of
        None \<Rightarrow> Some (Some ErrNoConfig, None, m)
      | Some config \<Rightarrow>
          (case Load order ovf parse_time validator keys bases (Some (zero_cfg config)) m of
             None \<Rightarrow> None
           | Some (Some e, c) \<Rightarrow> Some (Some (ErrReload e), None, m)
           | Some (None, c) \<Rightarrow> (let m = m\<lparr>dm_config := c\<rparr> in Some (None, Some (notifyWatchers m), m))))"

subsection \<open>The container\<close>

text \<open>The container indexes the fields of its struct by their paths; a field is its position in the struct.\<close>

record Config =
  cf_data :: cfg
  cf_fields :: "(string \<times> nat list) list"

fun indexFields :: "cfg \<Rightarrow> string \<Rightarrow> nat list \<Rightarrow> (string \<times> nat list) list"
and index_list :: "(sfield \<times> cfg) list \<Rightarrow> string \<Rightarrow> nat list \<Rightarrow> nat \<Rightarrow> (string \<times> nat list) list" where
  "indexFields (CLeaf t v) pre pos = []"
| "indexFields (CStruct fs) pre pos = index_list fs pre pos 0"
| "index_list [] pre pos i = []"
| "index_list ((f, c) # fs) pre pos i =
     (if sf_exported f then
        (let path = (if pre \<noteq> [] then pre @ ''.'' @ sf_Name f else sf_Name f)
         in (path, pos @ [i]) # indexFields c path (pos @ [i]))
      else []) @ index_list fs pre pos (i + 1)"

fun node_at :: "nat list \<Rightarrow> cfg \<Rightarrow> cfg option" where
  "node_at [] c = Some c"
| "node_at (i # is) (CStruct fs) = (if i < length fs then node_at is (snd (fs ! i)) else None)"
| "node_at (i # is) (CLeaf t v) = None"

definition NewConfig :: "cfg option \<Rightarrow> config_error + Config" where
  "NewConfig data =
     (case data of
        None \<Rightarrow> Inl ErrNilDestination
      | Some (CLeaf t v) \<Rightarrow> Inl ErrNotStruct
      | Some c \<Rightarrow> Inr \<lparr>cf_data = c, cf_fields = indexFields c [] []\<rparr>)"

definition Config_Get :: "Config \<Rightarrow> cfg" where
  "Config_Get c = cf_data c"

definition GetField :: "string \<Rightarrow> Config \<Rightarrow> config_error + cfg" where
  "GetField path c =
     (case map_of (cf_fields c) path of
        None \<Rightarrow> Inl (ErrFieldNotFound path)
      | Some is \<Rightarrow> (case node_at is (cf_data c) of None \<Rightarrow> Inl (ErrFieldNotFound path) | Some n \<Rightarrow> Inr n))"

text \<open>Two structs have the same type when they differ in their values only.\<close>

definition same_type :: "cfg \<Rightarrow> cfg \<Rightarrow> bool" where
  "same_type c d \<longleftrightarrow> zero_cfg c = zero_cfg d"

definition Update :: "cfg option \<Rightarrow> Config \<Rightarrow> config_error option \<times> Config" where
  "Update newData c =
     (case newData of
        None \<Rightarrow> (Some ErrNilDestination, c)
      | Some (CLeaf t v) \<Rightarrow> (Some ErrNotStruct, c)
      | Some d \<Rightarrow>
          if \<not> same_type d (cf_data c) then (Some ErrTypeMismatch, c)
          else (None, \<lparr>cf_data = d, cf_fields = indexFields d [] []\<rparr>))"

definition assign :: "(float64 \<Rightarrow> int) \<Rightarrow> cval \<Rightarrow> gtype \<Rightarrow> gvalue option" where
  "assign ovf value t =
     (case (value, t) of
        (CStr s, TString) \<Rightarrow> Some (GStr s)
      | (CStr s, TSlice e) \<Rightarrow> string_slice e s
      | _ \<Rightarrow> convert ovf value t)"

text \<open>The type of a nil value panics (\<open>None\<close>).\<close>

definition UpdateField :: "(float64 \<Rightarrow> int) \<Rightarrow> string \<Rightarrow> cval \<Rightarrow> Config \<Rightarrow> (config_error option \<times> Config) option" where
  "UpdateField ovf path value c =
     (case map_of (cf_fields c) path of
        None \<Rightarrow> Some (Some (ErrFieldNotFound path), c)
      | Some is \<Rightarrow>
          if value = CNil then None
          else (case node_at is (cf_data c) of
             Some (CLeaf t old) \<Rightarrow>
               (case assign ovf value t of
                  None \<Rightarrow> Some (Some ErrTypeMismatch, c)
                | Some g \<Rightarrow> Some (None, c\<lparr>cf_data := set_at is (CLeaf t g) (cf_data c)\<rparr>))
           | _ \<Rightarrow> Some (Some ErrTypeMismatch, c)))"

definition GetThreadSafeConfig :: "(cfg \<Rightarrow> validator_answer) \<Rightarrow> cfg option \<Rightarrow> config_error + Config" where
  "GetThreadSafeConfig validator config =
     (case config of
        None \<Rightarrow> Inl ErrNilDestination
      | Some c \<Rightarrow>
          (case Validate validator config of
             Some e \<Rightarrow> Inl (ErrInvalidConfig e)
           | None \<Rightarrow> NewConfig config))"

text \<open>A service with an injected configuration.\<close>

record Injectable =
  in_config :: "Config option"

definition InjectConfig :: "Config option \<Rightarrow> Injectable \<Rightarrow> Injectable" where
  "InjectConfig config i = i\<lparr>in_config := config\<rparr>"

definition GetConfig :: "Injectable \<Rightarrow> cfg option" where
  "GetConfig i = map_option Config_Get (in_config i)"

definition GetConfigField :: "string \<Rightarrow> Injectable \<Rightarrow> config_error + cfg" where
  "GetConfigField path i = (case in_config i of None \<Rightarrow> Inl ErrNoConfig | Some c \<Rightarrow> GetField path c)"

end
