(* ===== verification/ConfigProps.thy ===== *)
theory ConfigProps
  imports ConfigManager "HOL-Library.Multiset"
begin

text \<open>
  The properties of package config: which source a field gets its value from, what becomes of values on the way, and the container of a
  configuration.
\<close>

subsection \<open>Positions in a struct\<close>

lemma node_at_set_at_same: "node_at is c \<noteq> None \<Longrightarrow> node_at is (set_at is new c) = Some new"
  by (induction "is" new c rule: set_at.induct) (auto split: if_splits)

text \<open>Replacing a leaf leaves every other leaf alone.\<close>

lemma node_at_set_at_other:
  assumes "node_at is c = Some (CLeaf t v)" and "node_at js c = Some (CLeaf t' v')" and "is \<noteq> js"
  shows "node_at js (set_at is new c) = Some (CLeaf t' v')"
  using assms
proof (induction "is" new c arbitrary: js rule: set_at.induct)
  case (2 i "is" new fs)
  then obtain j js' where js: "js = j # js'" by (cases js) auto
  with 2 show ?case by (cases "i = j") (auto split: if_splits)
qed (auto simp: neq_Nil_conv dest: node_at.elims split: if_splits)

lemma zero_cfg_set_at:
  "node_at is c = Some (CLeaf t v) \<Longrightarrow> zero_cfg (set_at is (CLeaf t g) c) = zero_cfg c"
proof (induction "is" "CLeaf t g" c rule: set_at.induct)
  case (2 i "is" fs)
  then have i: "i < length fs" "node_at is (snd (fs ! i)) = Some (CLeaf t v)" by (auto split: if_splits)
  obtain f c where fc: "fs ! i = (f, c)" by fastforce
  have "map (\<lambda>(f, c). (f, zero_cfg c)) (fs[i := (f, set_at is (CLeaf t g) c)]) = map (\<lambda>(f, c). (f, zero_cfg c)) fs"
    using 2 i fc by (auto simp: map_update intro!: list_update_same_conv [THEN iffD2])
  then show ?case using i fc by simp
qed (auto split: if_splits)

lemma findFieldByName_bound: "findFieldByName fs p = Some i \<Longrightarrow> i < length fs"
  by (induction fs p arbitrary: i rule: findFieldByName.induct) (auto split: if_splits)

lemma findField_node: "findField c ps = Some (is, s, n) \<Longrightarrow> node_at is c = Some n"
  by (induction c ps arbitrary: "is" s rule: findField.induct)
    (auto dest!: findFieldByName_bound split: option.splits prod.splits)

text \<open>Where a path leads depends on the type of the struct only.\<close>

lemma findFieldByName_zero: "findFieldByName (map (\<lambda>(f, c). (f, h c)) fs) p = findFieldByName fs p"
  by (induction fs p rule: findFieldByName.induct) auto

lemma findField_zero: "findField (zero_cfg c) ps = map_option (\<lambda>(is, s, n). (is, s, zero_cfg n)) (findField c ps)"
proof (induction c ps rule: findField.induct)
  case (3 fs p ps)
  show ?case
  proof (cases "findFieldByName fs p")
    case (Some i)
    then have "i < length fs" by (rule findFieldByName_bound)
    with 3 [OF Some] Some show ?thesis
      by (auto simp: findFieldByName_zero split_beta split: option.splits)
  qed (simp add: findFieldByName_zero)
qed simp_all


subsection \<open>Merging\<close>

text \<open>The position a key leads to, and what one key may do to a struct: set the leaf at its position.\<close>

definition pos_of :: "cfg \<Rightarrow> string \<Rightarrow> nat list option" where
  "pos_of c key = map_option fst (findField c (strings_Split key ''.''))"

lemma pos_of_type: "zero_cfg c = zero_cfg d \<Longrightarrow> pos_of c key = pos_of d key"
proof -
  assume "zero_cfg c = zero_cfg d"
  moreover have "pos_of c key = map_option fst (findField (zero_cfg c) (strings_Split key ''.''))" for c
    by (auto simp: pos_of_def findField_zero option.map_comp comp_def split_beta intro!: option.map_cong0)
  ultimately show ?thesis by metis
qed

definition leaf_update :: "string \<Rightarrow> cfg \<Rightarrow> cfg \<Rightarrow> bool" where
  "leaf_update key c c' \<longleftrightarrow> c' = c \<or>
     (\<exists>is s t v g. findField c (strings_Split key ''.'') = Some (is, s, CLeaf t v) \<and> c' = set_at is (CLeaf t g) c)"

lemma leaf_update_type: "leaf_update key c c' \<Longrightarrow> zero_cfg c' = zero_cfg c"
  using zero_cfg_set_at findField_node by (auto simp: leaf_update_def)

lemma leaf_update_other:
  assumes "leaf_update key c c'" and "node_at js c = Some (CLeaf t v)" and "pos_of c key \<noteq> Some js"
  shows "node_at js c' = Some (CLeaf t v)"
  using assms node_at_set_at_other [of _ c] findField_node [of c]
  by (auto simp: leaf_update_def pos_of_def)

lemma leaf_update_key: "leaf_update key c (merge_key ovf parse_time data bases key c)"
  by (auto simp: leaf_update_def merge_key_def split: option.splits prod.splits cfg.splits sum.splits)

lemma leaf_update_array: "merge_array ovf data keys base c = Some c' \<Longrightarrow> leaf_update base c c'"
  by (auto simp: leaf_update_def merge_array_def Let_def split: option.splits prod.splits cfg.splits gtype.splits sum.splits if_splits)

text \<open>Keys that lead elsewhere leave a leaf alone.\<close>

lemma merge_keys_keep:
  assumes "node_at js c = Some (CLeaf t v)" and "\<And>k. k \<in> set ks \<Longrightarrow> pos_of c k \<noteq> Some js"
  shows "zero_cfg (fold (merge_key ovf parse_time data bases) ks c) = zero_cfg c \<and>
    node_at js (fold (merge_key ovf parse_time data bases) ks c) = Some (CLeaf t v)"
  using assms
proof (induction ks arbitrary: c)
  case (Cons k ks)
  let ?c = "merge_key ovf parse_time data bases k c"
  note u = leaf_update_key [of k c ovf parse_time data bases]
  have z: "zero_cfg ?c = zero_cfg c" by (rule leaf_update_type [OF u])
  have "node_at js ?c = Some (CLeaf t v)" using leaf_update_other [OF u] Cons.prems by simp
  from Cons.IH [OF this] Cons.prems(2) z show ?case by (simp add: pos_of_type [OF z])
qed simp

lemma merge_arrays_keep:
  assumes "merge_arrays ovf data keys bs c = Some c'" and "node_at js c = Some (CLeaf t v)"
    and "\<And>k. k \<in> set bs \<Longrightarrow> pos_of c k \<noteq> Some js"
  shows "zero_cfg c' = zero_cfg c \<and> node_at js c' = Some (CLeaf t v)"
  using assms
proof (induction bs arbitrary: c)
  case (Cons b bs)
  then obtain c1 where c1: "merge_array ovf data keys b c = Some c1" "merge_arrays ovf data keys bs c1 = Some c'"
    by (auto split: option.splits)
  note u = leaf_update_array [OF c1(1)]
  have z: "zero_cfg c1 = zero_cfg c" by (rule leaf_update_type [OF u])
  have "node_at js c1 = Some (CLeaf t v)" using leaf_update_other [OF u] Cons.prems by simp
  from Cons.IH [OF c1(2) this] Cons.prems(3) z show ?case by (simp add: pos_of_type [OF z])
qed simp








subsection \<open>Priorities\<close>



lemma foldl_merge_skip:
  "merged k = None \<Longrightarrow> (\<And>s d. s \<in> set ss \<Longrightarrow> so_Load s = Inr d \<Longrightarrow> d k = None) \<Longrightarrow> foldl merge_source merged ss k = None"
proof (induction ss arbitrary: merged)
  case (Cons s ss)
  have "merge_source merged s k = None"
    using Cons.prems by (cases "so_Load s") (auto simp: merge_source_def map_add_None)
  then have "foldl merge_source (merge_source merged s) ss k = None"
    by (rule Cons.IH) (use Cons.prems(2) in auto)
  then show ?case by simp
qed simp





definition example_cfg :: cfg where
  "example_cfg =
     CStruct [(\<lparr>sf_Name = ''HTTP'', sf_json = ''http'', sf_yaml = ''http'', sf_exported = True\<rparr>,
       CStruct [(\<lparr>sf_Name = ''Port'', sf_json = ''port'', sf_yaml = ''port'', sf_exported = True\<rparr>, CLeaf (TInt 64) (GInt 0)),
                (\<lparr>sf_Name = ''Host'', sf_json = ''host'', sf_yaml = ''host'', sf_exported = True\<rparr>, CLeaf TString (GStr ''localhost''))])]"

definition example_env :: Source where
  "example_env = \<lparr>so_Name = ''env'', so_Priority = PriorityEnv, so_Load = Inr [''http.port'' \<mapsto> CInt 9090]\<rparr>"

definition example_file :: Source where
  "example_file = \<lparr>so_Name = ''file'', so_Priority = PriorityFile, so_Load = Inr [''http.port'' \<mapsto> CInt 8081]\<rparr>"

lemma example_sources:
  "merge_sources [example_env, example_file] = [''http.port'' \<mapsto> CInt 9090]"
  by (auto simp: merge_sources_def merge_source_def example_env_def example_file_def)

lemma example_port: "findField example_cfg (strings_Split ''http.port'' ''.'') = Some ([0, 0], True, CLeaf (TInt 64) (GInt 0))"
  "index_base ''http.port'' = None"
  by code_simp+

definition example_loaded :: cfg where
  "example_loaded = set_at [0, 0] (CLeaf (TInt 64) (GInt 9090)) example_cfg"

lemma example_Load:
  assumes "merge_sources (order (dm_sources m)) = [''http.port'' \<mapsto> CInt 9090]" and "c = CStruct fs"
    and "findField c (strings_Split ''http.port'' ''.'') = Some (is, True, CLeaf (TInt 64) old)"
  shows "Load order ovf parse_time (\<lambda>_. Valid) [''http.port''] [] (Some c) m =
    Some (None, Some (set_at is (CLeaf (TInt 64) (GInt 9090)) c))"
  using assms
  by (simp add: Load_def mergeConfig_def merge_key_def example_port(2) setFieldValue_def convert_def wrap_int_def Validate_def)


definition listed_env :: Source where
  "listed_env = \<lparr>so_Name = ''env'', so_Priority = PriorityEnv,
     so_Load = Inr [''http.port'' \<mapsto> CInt 9090, ''http.hosts'' \<mapsto> CStr ''env.example'']\<rparr>"

definition listed_file :: Source where
  "listed_file = \<lparr>so_Name = ''file'', so_Priority = PriorityFile,
     so_Load = Inr [''http.port'' \<mapsto> CInt 8081, ''http.hosts.0'' \<mapsto> CStr ''a.example'', ''http.hosts'' \<mapsto> CList [CStr ''a.example'']]\<rparr>"


abbreviation "listed_keys \<equiv> [''http.port'', ''http.hosts'', ''http.hosts.0'']"

abbreviation "listed_manager \<equiv> NewManager [listed_file, listed_env]"






subsection \<open>Reloading\<close>

lemma zero_cfg_idem: "zero_cfg (zero_cfg c) = zero_cfg c"
  by (induction c rule: zero_cfg.induct) auto

lemma node_at_zero: "node_at is (zero_cfg c) = map_option zero_cfg (node_at is c)"
  by (induction "is" c rule: node_at.induct) (auto simp: split_beta)

lemma mergeConfig_keeps:
  assumes run: "mergeConfig ovf parse_time keys bases data c = Some c'" and leaf: "node_at is c = Some (CLeaf t v)"
    and none: "\<And>k. k \<in> set keys \<union> set bases \<Longrightarrow> pos_of c k \<noteq> Some is"
  shows "zero_cfg c' = zero_cfg c \<and> node_at is c' = Some (CLeaf t v)"
proof -
  obtain c1 where c1: "merge_arrays ovf data keys bases c = Some c1" "c' = fold (merge_key ovf parse_time data bases) keys c1"
    using run by (auto simp: mergeConfig_def split: option.splits)
  have 1: "zero_cfg c1 = zero_cfg c \<and> node_at is c1 = Some (CLeaf t v)"
    by (rule merge_arrays_keep [OF c1(1) leaf]) (use none in auto)
  have "zero_cfg c' = zero_cfg c1 \<and> node_at is c' = Some (CLeaf t v)"
    unfolding c1(2) using 1 none pos_of_type [OF conjunct1 [OF 1]] by (intro merge_keys_keep) auto
  with 1 show ?thesis by simp
qed

text \<open>
  \<open>Load\<close> leaves a field that no key of the sources leads to at the value the caller put there; \<open>reloadConfig\<close> starts from the zero
  value of the struct, so that the first successful reload replaces such a default by the zero value of its type.
\<close>

theorem reload_forgets_defaults:
  assumes leaf: "node_at is c = Some (CLeaf t v)" "c = CStruct fs"
    and none: "\<And>k. k \<in> set keys \<union> set bases \<Longrightarrow> pos_of c k \<noteq> Some is"
    and load: "Load order ovf parse_time validator keys bases (Some c) m = Some (None, Some c1)"
    and reload: "reloadConfig order ovf parse_time validator keys bases (StartWatching (Some c1) m) = Some (None, told, m')"
  shows "node_at is c1 = Some (CLeaf t v) \<and>
    (\<exists>c2. dm_config m' = Some c2 \<and> node_at is c2 = Some (CLeaf t (zero_value t))) \<and>
    told = Some (dm_watchers m, dm_reloadables m)"
proof -
  let ?data = "merge_sources (order (dm_sources m))"
  have run: "mergeConfig ovf parse_time keys bases ?data c = Some c1"
    using load leaf(2) by (auto simp: Load_def split: option.splits)
  have 1: "zero_cfg c1 = zero_cfg c \<and> node_at is c1 = Some (CLeaf t v)"
    by (rule mergeConfig_keeps [OF run leaf(1) none])
  obtain fs' where z: "zero_cfg c1 = CStruct fs'" using 1 leaf(2) by simp
  have r: "Load order ovf parse_time validator keys bases (Some (zero_cfg c1)) (StartWatching (Some c1) m) = Some (None, dm_config m')"
    "told = Some (dm_watchers m, dm_reloadables m)"
    using reload z
    by (auto simp: reloadConfig_def StartWatching_def notifyWatchers_def Let_def Load_def split: option.splits)
  obtain c2 where c2: "dm_config m' = Some c2" "mergeConfig ovf parse_time keys bases ?data (zero_cfg c1) = Some c2"
    using r(1) z by (simp add: Load_def StartWatching_def split: option.splits) metis
  have "zero_cfg (zero_cfg c1) = zero_cfg c" using 1 by (simp add: zero_cfg_idem)
  then have pos: "pos_of (zero_cfg c1) k = pos_of c k" for k by (rule pos_of_type)
  have "node_at is (zero_cfg c1) = Some (CLeaf t (zero_value t))"
    by (simp add: node_at_zero conjunct2 [OF 1])
  from mergeConfig_keeps [OF c2(2) this] none
  have "node_at is c2 = Some (CLeaf t (zero_value t))" by (auto simp: pos)
  with 1 c2(1) r(2) show ?thesis by simp
qed

theorem reload_forgets_defaults_witness:
  "let m = NewManager [example_env, example_file];
       run = Load (\<lambda>ss. ss) (\<lambda>_. 0) (\<lambda>_. None) (\<lambda>_. Valid) [''http.port''] [] (Some example_cfg) m;
       reload = reloadConfig (\<lambda>ss. ss) (\<lambda>_. 0) (\<lambda>_. None) (\<lambda>_. Valid) [''http.port''] [] (StartWatching (Some example_loaded) m)
   in run = Some (None, Some example_loaded) \<and>
      node_at [0, 1] example_loaded = Some (CLeaf TString (GStr ''localhost'')) \<and>
      (\<exists>told m' c2. reload = Some (None, told, m') \<and> dm_config m' = Some c2 \<and> node_at [0, 1] c2 = Some (CLeaf TString (GStr [])))"
proof -
  let ?m = "NewManager [example_env, example_file]"
  let ?Load = "Load (\<lambda>ss. ss) (\<lambda>_. 0) (\<lambda>_. None) (\<lambda>_. Valid) [''http.port''] []"
  let ?reload = "reloadConfig (\<lambda>ss. ss) (\<lambda>_. 0) (\<lambda>_. None) (\<lambda>_. Valid) [''http.port''] [] (StartWatching (Some example_loaded) ?m)"
  have m: "merge_sources (dm_sources ?m) = [''http.port'' \<mapsto> CInt 9090]" by (simp add: NewManager_def example_sources)
  obtain fs where fs: "example_cfg = CStruct fs" by (simp add: example_cfg_def)
  have run: "?Load (Some example_cfg) ?m = Some (None, Some example_loaded)"
    unfolding example_loaded_def by (rule example_Load) (fact m fs example_port(1))+
  obtain fs' where fs': "zero_cfg example_loaded = CStruct fs'" by (simp add: example_loaded_def example_cfg_def)
  have port: "findField (zero_cfg example_loaded) (strings_Split ''http.port'' ''.'') = Some ([0, 0], True, CLeaf (TInt 64) (GInt 0))"
    by code_simp
  have "?Load (Some (zero_cfg example_loaded)) (StartWatching (Some example_loaded) ?m) =
    Some (None, Some (set_at [0, 0] (CLeaf (TInt 64) (GInt 9090)) (zero_cfg example_loaded)))"
    by (rule example_Load [OF _ fs' port]) (use m in \<open>simp add: StartWatching_def\<close>)
  then obtain told m' where reload: "?reload = Some (None, told, m')"
    by (auto simp: reloadConfig_def StartWatching_def Let_def)
  have leaf: "node_at [0, 1] example_cfg = Some (CLeaf TString (GStr ''localhost''))" by (simp add: example_cfg_def)
  have other: "pos_of example_cfg k \<noteq> Some [0, 1]" if "k \<in> set [''http.port''] \<union> set []" for k
    using that example_port(1) by (simp add: pos_of_def)
  note facts = reload_forgets_defaults [OF leaf fs other run reload]
  show ?thesis using run facts reload by (auto simp: zero_value_def)
qed

subsection \<open>What becomes of values\<close>

text \<open>
  The environment does not carry every string to a string field.  A value that starts with \<open>inf\<close> (such as the log level \<open>info\<close>) is read
  as the number infinity and then rejected by a string field, which keeps its old value; an address is read as the number
  before its first point and becomes the character with that code.
\<close>

theorem env_strings_mangled:
  "EnvSource_Load [] [''LOG_LEVEL=info''] = [''log.level'' \<mapsto> CFloat PInf] \<and>
   setFieldValue ovf parse_time TString (CFloat PInf) = Inl ''cannot convert'' \<and>
   EnvSource_Load [] [''HTTP_HOST=127.0.0.1''] = [''http.host'' \<mapsto> CInt 127] \<and>
   setFieldValue ovf parse_time TString (CInt 127) = Inr (Some (GStr [CHR 0x7F]))"
proof -
  have split: "strings_SplitN2 ''LOG_LEVEL=info'' ''='' = [''LOG_LEVEL'', ''info'']"
    "strings_SplitN2 ''HTTP_HOST=127.0.0.1'' ''='' = [''HTTP_HOST'', ''127.0.0.1'']" by code_simp+
  have key: "env_key [] ''LOG_LEVEL'' = ''log.level''" "env_key [] ''HTTP_HOST'' = ''http.host''" by code_simp+
  have bool: "\<not> strings_EqualFold ''info'' ''true''" "\<not> strings_EqualFold ''info'' ''false''"
    "\<not> strings_EqualFold ''127.0.0.1'' ''true''" "\<not> strings_EqualFold ''127.0.0.1'' ''false''" by code_simp+
  have comma: "\<not> strings_Contains ''info'' '',''" "\<not> strings_Contains ''127.0.0.1'' '',''" by code_simp+
  have num: "parseInt ''info'' = None" "parseFloat ''info'' = Some PInf" "parseInt ''127.0.0.1'' = Some 127"
    using sscanf_d_inf [of "''o''"] sscanf_f_inf [of "''o''"] by (simp_all add: parseInt_def parseFloat_def) code_simp
  have load: "EnvSource_Load [] [''LOG_LEVEL=info''] = [''log.level'' \<mapsto> CFloat PInf]"
    "EnvSource_Load [] [''HTTP_HOST=127.0.0.1''] = [''http.host'' \<mapsto> CInt 127]"
    unfolding EnvSource_Load_def foldl_Cons foldl_Nil env_entry_def split list.case key env_value_def num
    using bool comma by simp_all
  have rune: "rune_string 127 = [CHR 0x7F]" by code_simp
  show ?thesis by (simp add: load setFieldValue_def convert_def rune)
qed

text \<open>
  The entries of an array are sorted as texts, so that an array with eleven elements or more reaches its field permuted: the element
  with index 10 comes before the one with index 2.
\<close>

theorem long_array_permuted:
  "base_keys (map (array_key ''hosts'') [0..<11]) ''hosts'' = map (array_key ''hosts'') [0, 1, 10, 2, 3, 4, 5, 6, 7, 8, 9]"
  by code_simp

subsection \<open>The container\<close>

lemma indexFields_zero:
  "indexFields (zero_cfg c) pre pos = indexFields c pre pos"
  "index_list (map (\<lambda>(f, c). (f, zero_cfg c)) fs) pre pos i = index_list fs pre pos i"
  by (induction c pre pos and fs pre pos i rule: indexFields_index_list.induct) (auto simp: Let_def)

text \<open>Every indexed position is that of a field of the struct.\<close>

lemma index_positions:
  "x \<in> set (indexFields c pre pos) \<Longrightarrow> \<exists>js. snd x = pos @ js \<and> js \<noteq> [] \<and> node_at js c \<noteq> None"
  "x \<in> set (index_list fs pre pos i) \<Longrightarrow>
     \<exists>j js. snd x = pos @ (i + j) # js \<and> j < length fs \<and> node_at js (snd (fs ! j)) \<noteq> None"
proof (induction c pre pos and fs pre pos i arbitrary: x and x rule: indexFields_index_list.induct)
  case (2 fs pre pos)
  from 2 obtain j js where "snd x = pos @ j # js" "j < length fs" "node_at js (snd (fs ! j)) \<noteq> None"
    by (cases x) fastforce
  then show ?case by (intro exI [of _ "j # js"]) simp
next
  case (4 f c fs pre pos i)
  let ?path = "if pre \<noteq> [] then pre @ ''.'' @ sf_Name f else sf_Name f"
  from 4(3) consider "snd x = pos @ [i]" | "x \<in> set (indexFields c ?path (pos @ [i]))" "sf_exported f"
    | "x \<in> set (index_list fs pre pos (i + 1))" by (auto simp: Let_def split: if_splits)
  then show ?case
  proof cases
    case 1
    then show ?thesis by (intro exI [of _ 0] exI [of _ "[]"]) simp
  next
    case 2
    from 4(1) [OF 2(2) refl this(1)] obtain js where "snd x = (pos @ [i]) @ js" "node_at js c \<noteq> None" by auto
    then show ?thesis by (intro exI [of _ 0] exI [of _ js]) simp
  next
    case 3
    from 4(2) [OF 3] obtain j js where "snd x = pos @ (i + 1 + j) # js" "j < length fs" "node_at js (snd (fs ! j)) \<noteq> None" by auto
    then show ?thesis by (intro exI [of _ "Suc j"] exI [of _ js]) simp
  qed
qed simp_all

text \<open>No position is indexed twice.\<close>

lemma index_distinct:
  "distinct (map snd (indexFields c pre pos))"
  "distinct (map snd (index_list fs pre pos i))"
proof (induction c pre pos and fs pre pos i rule: indexFields_index_list.induct)
  case (4 f c fs pre pos i)
  let ?path = "if pre \<noteq> [] then pre @ ''.'' @ sf_Name f else sf_Name f"
  let ?A = "set (indexFields c ?path (pos @ [i]))" and ?B = "set (index_list fs pre pos (i + 1))"
  have in_A: "\<exists>js. snd x = pos @ i # js \<and> js \<noteq> []" if "x \<in> ?A" for x
    using index_positions(1) [OF that] by auto
  have in_B: "\<exists>j js. snd x = pos @ j # js \<and> i < j" if "x \<in> ?B" for x
    using index_positions(2) [OF that] by fastforce
  have "pos @ [i] \<notin> snd ` ?A" "pos @ [i] \<notin> snd ` ?B" "snd ` ?A \<inter> snd ` ?B = {}"
    using in_A in_B by fastforce+
  then show ?case using 4 by (cases "sf_exported f") (simp_all add: Let_def del: append_Cons)
qed simp_all

text \<open>Calls of the container, one after the other; a panic ends them.\<close>

datatype config_call = CallUpdate "cfg option" | CallUpdateField string cval

fun run_config :: "(float64 \<Rightarrow> int) \<Rightarrow> config_call list \<Rightarrow> Config \<Rightarrow> Config option" where
  "run_config ovf [] c = Some c"
| "run_config ovf (CallUpdate d # calls) c = run_config ovf calls (snd (Update d c))"
| "run_config ovf (CallUpdateField path v # calls) c =
     (case UpdateField ovf path v c of None \<Rightarrow> None | Some (e, c) \<Rightarrow> run_config ovf calls c)"

definition config_ok :: "cfg \<Rightarrow> Config \<Rightarrow> bool" where
  "config_ok d c \<longleftrightarrow> same_type (cf_data c) d \<and> cf_fields c = indexFields (cf_data c) [] []"

lemma config_ok_New: "NewConfig (Some d) = Inr c \<Longrightarrow> config_ok d c"
  by (auto simp: NewConfig_def config_ok_def same_type_def split: cfg.splits)

lemma config_ok_Update: "config_ok d c \<Longrightarrow> config_ok d (snd (Update n c))"
  by (auto simp: Update_def config_ok_def same_type_def split: option.splits cfg.splits)

lemma UpdateField_SomeE:
  assumes "UpdateField ovf path v c = Some (None, c')"
  obtains "is" t old g where "map_of (cf_fields c) path = Some is" "node_at is (cf_data c) = Some (CLeaf t old)"
    "assign ovf v t = Some g" "c' = c\<lparr>cf_data := set_at is (CLeaf t g) (cf_data c)\<rparr>"
  using assms by (auto simp: UpdateField_def split: option.splits if_splits cfg.splits)

lemma UpdateField_error: "UpdateField ovf path v c = Some (Some e, c') \<Longrightarrow> c' = c"
  by (auto simp: UpdateField_def split: option.splits if_splits cfg.splits)

lemma config_ok_UpdateField:
  assumes ok: "config_ok d c" and run: "UpdateField ovf path v c = Some (e, c')"
  shows "config_ok d c'"
proof (cases e)
  case None
  then obtain "is" t old g where leaf: "node_at is (cf_data c) = Some (CLeaf t old)"
    and c': "c' = c\<lparr>cf_data := set_at is (CLeaf t g) (cf_data c)\<rparr>"
    using run by (auto elim: UpdateField_SomeE)
  have "zero_cfg (cf_data c') = zero_cfg (cf_data c)" using zero_cfg_set_at [OF leaf] c' by simp
  then show ?thesis using ok c' indexFields_zero(1) by (metis Config.ext_inject Config.surjective Config.update_convs(1) config_ok_def same_type_def)
qed (use assms in \<open>auto dest: UpdateField_error\<close>)

lemma config_ok_run: "config_ok d c \<Longrightarrow> run_config ovf calls c = Some c' \<Longrightarrow> config_ok d c'"
proof (induction calls arbitrary: c)
  case (Cons a calls)
  then show ?case by (cases a) (auto intro: config_ok_Update config_ok_UpdateField split: option.splits)
qed simp

lemma config_ok_position:
  assumes "config_ok d c" and "map_of (cf_fields c) path = Some is"
  obtains n where "node_at is (cf_data c) = Some n"
  using assms index_positions(1) [of "(path, is)" "cf_data c" "[]" "[]"] by (auto simp: config_ok_def dest: map_of_SomeD)

lemma config_ok_inj:
  assumes "config_ok d c" and "map_of (cf_fields c) p = Some is" and "map_of (cf_fields c) q = Some is"
  shows "p = q"
  using assms index_distinct(1) [of "cf_data c" "[]" "[]"]
  by (auto simp: config_ok_def distinct_map inj_on_def dest!: map_of_SomeD) fastforce

text \<open>
  After any calls of \<open>Update\<close> and \<open>UpdateField\<close> the container holds a struct of the type it was made for and every indexed
  path reads a field.  An \<open>UpdateField\<close> that succeeds is read back by \<open>GetField\<close> as the converted value, and every
  other leaf reads as before; one that fails changes nothing.
\<close>

theorem config_container:
  assumes "NewConfig (Some d) = Inr c0" and "run_config ovf calls c0 = Some c"
  shows "same_type (cf_data c) d \<and>
    (\<forall>p \<in> fst ` set (cf_fields c). \<exists>n. GetField p c = Inr n) \<and>
    (\<forall>p v c'. UpdateField ovf p v c = Some (None, c') \<longrightarrow>
      (\<exists>t g. assign ovf v t = Some g \<and> GetField p c' = Inr (CLeaf t g)) \<and>
      (\<forall>q t w. q \<noteq> p \<and> GetField q c = Inr (CLeaf t w) \<longrightarrow> GetField q c' = Inr (CLeaf t w))) \<and>
    (\<forall>p v e c'. UpdateField ovf p v c = Some (Some e, c') \<longrightarrow> c' = c)"
proof (intro conjI)
  have ok: "config_ok d c" using assms config_ok_New config_ok_run by blast
  then show "same_type (cf_data c) d" by (simp add: config_ok_def)
  show "\<forall>p \<in> fst ` set (cf_fields c). \<exists>n. GetField p c = Inr n"
  proof
    fix p assume "p \<in> fst ` set (cf_fields c)"
    then obtain "is" where "map_of (cf_fields c) p = Some is" by (metis map_of_eq_None_iff not_Some_eq)
    with ok show "\<exists>n. GetField p c = Inr n" by (auto simp: GetField_def elim!: config_ok_position)
  qed
  show "\<forall>p v e c'. UpdateField ovf p v c = Some (Some e, c') \<longrightarrow> c' = c" using UpdateField_error by blast
  show "\<forall>p v c'. UpdateField ovf p v c = Some (None, c') \<longrightarrow>
      (\<exists>t g. assign ovf v t = Some g \<and> GetField p c' = Inr (CLeaf t g)) \<and>
      (\<forall>q t w. q \<noteq> p \<and> GetField q c = Inr (CLeaf t w) \<longrightarrow> GetField q c' = Inr (CLeaf t w))"
  proof (intro allI impI)
    fix p v c' assume "UpdateField ovf p v c = Some (None, c')"
    then obtain "is" t old g where u: "map_of (cf_fields c) p = Some is" "node_at is (cf_data c) = Some (CLeaf t old)"
      "assign ovf v t = Some g" "c' = c\<lparr>cf_data := set_at is (CLeaf t g) (cf_data c)\<rparr>" by (elim UpdateField_SomeE)
    have "GetField p c' = Inr (CLeaf t g)" using u by (simp add: GetField_def node_at_set_at_same)
    moreover have "GetField q c' = Inr (CLeaf t' w)" if q: "q \<noteq> p" "GetField q c = Inr (CLeaf t' w)" for q t' w
    proof -
      obtain js where js: "map_of (cf_fields c) q = Some js" "node_at js (cf_data c) = Some (CLeaf t' w)"
        using q(2) by (auto simp: GetField_def split: option.splits)
      have "is \<noteq> js" using config_ok_inj [OF ok u(1)] js(1) q(1) by blast
      from node_at_set_at_other [OF u(2) js(2) this] js(1) u(4) show ?thesis by (simp add: GetField_def)
    qed
    ultimately show "(\<exists>t g. assign ovf v t = Some g \<and> GetField p c' = Inr (CLeaf t g)) \<and>
      (\<forall>q t w. q \<noteq> p \<and> GetField q c = Inr (CLeaf t w) \<longrightarrow> GetField q c' = Inr (CLeaf t w))" using u(3) by blast
  qed
qed

theorem config_container_witness:
  "\<exists>c0 c. NewConfig (Some example_cfg) = Inr c0 \<and>
     run_config (\<lambda>_. 0) [CallUpdateField ''HTTP.Port'' (CInt 9090)] c0 = Some c \<and> same_type (cf_data c) example_cfg"
proof -
  have "node_at [0, 0] example_cfg = Some (CLeaf (TInt 64) (GInt 0))" by (simp add: example_cfg_def)
  moreover have "map_of (indexFields example_cfg [] []) ''HTTP.Port'' = Some [0, 0]" by code_simp
  ultimately obtain c where c: "run_config (\<lambda>_. 0) [CallUpdateField ''HTTP.Port'' (CInt 9090)]
      \<lparr>cf_data = example_cfg, cf_fields = indexFields example_cfg [] []\<rparr> = Some c"
    by (auto simp: UpdateField_def assign_def convert_def)
  have n: "NewConfig (Some example_cfg) = Inr \<lparr>cf_data = example_cfg, cf_fields = indexFields example_cfg [] []\<rparr>"
    by (simp add: NewConfig_def example_cfg_def)
  show ?thesis using config_container [OF n c] n c by blast
qed

end
