(* ===== verification/HealthEndpoints.thy ===== *)
theory HealthEndpoints
  imports CoreService "HOL-Library.Sublist"
begin

text \<open>
  Package observability, \<open>health.go\<close> and \<open>http_health.go\<close>: the probes of a service over the health checks of package core, the manager that
  replaces them on a reload, and the middleware for health paths.  A probe gives the response it writes; the body
  of a response is its status, message, instant and results before they are encoded.
\<close>

subsection \<open>Configuration\<close>

record HealthConfig =
  hg_Enabled :: bool
  hg_Path :: string
  hg_LivenessPath :: string
  hg_ReadinessPath :: string
  hg_StartupPath :: string
  hg_StartupThreshold :: int
  hg_StartupInterval :: int
  hg_ReadinessTimeout :: int
  hg_LivenessTimeout :: int

definition DefaultHealthConfig :: HealthConfig where
  "DefaultHealthConfig =
     \<lparr>hg_Enabled = True, hg_Path = ''/health'', hg_LivenessPath = ''/health/live'', hg_ReadinessPath = ''/health/ready'',
      hg_StartupPath = ''/health/startup'', hg_StartupThreshold = 3, hg_StartupInterval = 1000, hg_ReadinessTimeout = 5000,
      hg_LivenessTimeout = 2000\<rparr>"

subsection \<open>The checker\<close>

record 'w healthChecker =
  hk_core :: "'w HealthChecker"
  hk_config :: HealthConfig
  hk_startupChecks :: int
  hk_readyToServe :: bool

record probe =
  pb_code :: int
  pb_status :: HealthStatus
  pb_message :: string
  pb_timestamp :: time
  pb_checks :: "(string \<rightharpoonup> HealthResult) option"

definition NewHealthCheckerWithConfig :: "HealthConfig \<Rightarrow> 'w healthChecker" where
  "NewHealthCheckerWithConfig config =
     \<lparr>hk_core = NewHealthChecker, hk_config = config, hk_startupChecks = 0, hk_readyToServe = False\<rparr>"

definition obs_NewHealthChecker :: "'w healthChecker" where
  "obs_NewHealthChecker = NewHealthCheckerWithConfig DefaultHealthConfig"

definition obs_AddCheck :: "string \<Rightarrow> 'w action \<Rightarrow> 'w healthChecker \<Rightarrow> 'w healthChecker" where
  "obs_AddCheck name check h = h\<lparr>hk_core := AddCheck name (\<lambda>w. check w) (hk_core h)\<rparr>"

definition obs_RemoveCheck :: "string \<Rightarrow> 'w healthChecker \<Rightarrow> 'w healthChecker" where
  "obs_RemoveCheck name h = h\<lparr>hk_core := RemoveCheck name (hk_core h)\<rparr>"

definition status_code :: "HealthStatus \<Rightarrow> int" where
  "status_code s = (if s \<noteq> StatusUp then 503 else 200)"

definition LivenessHandler :: "time \<Rightarrow> probe" where
  "LivenessHandler now =
     \<lparr>pb_code = status_code StatusUp, pb_status = StatusUp, pb_message = ''Service is alive'', pb_timestamp = now, pb_checks = None\<rparr>"

text \<open>Whether a result that is not UP is met, ranging over the results in the order \<open>order\<close>.\<close>

definition any_down :: "(string \<rightharpoonup> HealthResult) \<Rightarrow> string list \<Rightarrow> bool" where
  "any_down results order = list_ex (\<lambda>n. hr_Status (the (results n)) \<noteq> StatusUp) order"

definition ReadinessHandler ::
  "(string \<Rightarrow> time) \<Rightarrow> time \<Rightarrow> string list \<Rightarrow> string list \<Rightarrow> 'w healthChecker \<Rightarrow> 'w \<Rightarrow> probe \<times> 'w" where
  "ReadinessHandler ts now names order h w =
     (let isReady = hk_readyToServe h;
          (results, w) = RunChecks ts names (hk_core h) w;
          (status, message) =
            (if \<not> isReady then (StatusDown, ''Service is not ready to serve traffic'')
             else if any_down results order then (StatusDown, ''One or more dependencies are not healthy'')
             else (StatusUp, ''Service is ready''))
      in (\<lparr>pb_code = status_code status, pb_status = status, pb_message = message, pb_timestamp = now, pb_checks = Some results\<rparr>, w))"

text \<open>The two critical sections of a startup probe: counting, and marking the service ready.\<close>

definition startup_count :: "bool \<Rightarrow> 'w healthChecker \<Rightarrow> int \<times> 'w healthChecker" where
  "startup_count up h =
     (let n = (if up then hk_startupChecks h + 1 else 0) in (n, h\<lparr>hk_startupChecks := n\<rparr>))"

definition startup_ready :: "bool \<Rightarrow> int \<Rightarrow> 'w healthChecker \<Rightarrow> 'w healthChecker" where
  "startup_ready up count h =
     (if up \<and> hg_StartupThreshold (hk_config h) \<le> count then h\<lparr>hk_readyToServe := True\<rparr> else h)"

definition StartupHandler ::
  "(string \<Rightarrow> time) \<Rightarrow> time \<Rightarrow> string list \<Rightarrow> string list \<Rightarrow> 'w healthChecker \<Rightarrow> 'w \<Rightarrow> probe \<times> 'w healthChecker \<times> 'w" where
  "StartupHandler ts now names order h w =
     (let (results, w) = RunChecks ts names (hk_core h) w;
          up = (\<not> any_down results order);
          (count, h) = startup_count up h;
          (status, message) =
            (if \<not> up then (StatusDown, ''Service startup in progress'')
             else if hg_StartupThreshold (hk_config h) \<le> count then (StatusUp, ''Service startup complete'')
             else (StatusStarting, ''Service startup in progress''))
      in (\<lparr>pb_code = status_code status, pb_status = status, pb_message = message, pb_timestamp = now, pb_checks = Some results\<rparr>,
          startup_ready up count h, w))"

text \<open>\<open>HealthHandler\<close> runs the checks twice, the second time for the summary.\<close>

definition HealthHandler ::
  "(string \<Rightarrow> time) \<Rightarrow> (string \<Rightarrow> time) \<Rightarrow> time \<Rightarrow> string list \<Rightarrow> string list \<Rightarrow> string list \<Rightarrow> 'w healthChecker \<Rightarrow> 'w \<Rightarrow> probe \<times> 'w" where
  "HealthHandler ts ts' now names names' order h w =
     (let (results, w) = RunChecks ts names (hk_core h) w;
          (summary, w) = HealthSummary ts' now names' order (hk_core h) w
      in (\<lparr>pb_code = status_code (hr_Status summary), pb_status = hr_Status summary, pb_message = hr_Message summary,
           pb_timestamp = hr_Timestamp summary, pb_checks = Some results\<rparr>, w))"

definition obs_IsHealthy ::
  "(string \<Rightarrow> time) \<Rightarrow> string list \<Rightarrow> string list \<Rightarrow> 'w healthChecker \<Rightarrow> 'w \<Rightarrow> bool \<times> 'w" where
  "obs_IsHealthy ts names order h w = IsHealthy ts names order (hk_core h) w"

definition IsReady ::
  "(string \<Rightarrow> time) \<Rightarrow> string list \<Rightarrow> string list \<Rightarrow> 'w healthChecker \<Rightarrow> 'w \<Rightarrow> bool \<times> 'w" where
  "IsReady ts names order h w = (if hk_readyToServe h then obs_IsHealthy ts names order h w else (False, w))"

definition obs_SetReadyToServe :: "bool \<Rightarrow> 'w healthChecker \<Rightarrow> 'w healthChecker" where
  "obs_SetReadyToServe ready h = h\<lparr>hk_readyToServe := ready\<rparr>"

definition ResetStartupChecks :: "'w healthChecker \<Rightarrow> 'w healthChecker" where
  "ResetStartupChecks h = h\<lparr>hk_startupChecks := 0\<rparr>"

definition SetStartupThreshold :: "int \<Rightarrow> 'w healthChecker \<Rightarrow> 'w healthChecker" where
  "SetStartupThreshold threshold h = h\<lparr>hk_config := (hk_config h)\<lparr>hg_StartupThreshold := threshold\<rparr>\<rparr>"

text \<open>
  The handlers a mux has for paths; registering a path twice panics (\<open>None\<close>).
\<close>

datatype endpoint = HealthEndpoint | LivenessEndpoint | ReadinessEndpoint | StartupEndpoint

definition mux_Handle :: "string \<Rightarrow> endpoint \<Rightarrow> (string \<rightharpoonup> endpoint) option \<Rightarrow> (string \<rightharpoonup> endpoint) option" where
  "mux_Handle path e mux = Option.bind mux (\<lambda>m. if path \<in> dom m \<or> path = [] then None else Some (m(path \<mapsto> e)))"

definition RegisterHealthHandlers :: "HealthConfig \<Rightarrow> (string \<rightharpoonup> endpoint) \<Rightarrow> (string \<rightharpoonup> endpoint) option" where
  "RegisterHealthHandlers config mux =
     (if \<not> hg_Enabled config then Some mux
      else mux_Handle (hg_StartupPath config) StartupEndpoint
             (mux_Handle (hg_ReadinessPath config) ReadinessEndpoint
               (mux_Handle (hg_LivenessPath config) LivenessEndpoint
                 (mux_Handle (hg_Path config) HealthEndpoint (Some mux)))))"

definition RegisterHandlers :: "'w healthChecker \<Rightarrow> (string \<rightharpoonup> endpoint) \<Rightarrow> (string \<rightharpoonup> endpoint) option" where
  "RegisterHandlers h mux = RegisterHealthHandlers (hk_config h) mux"

subsection \<open>The manager\<close>

text \<open>A configuration is of the expected type or not.\<close>

datatype health_error = ErrNilConfig | ErrInvalidConfigType

record 'w HealthManager =
  hm_config_ok :: bool
  hm_healthChecker :: "'w healthChecker"

definition NewHealthManager :: "bool option \<Rightarrow> health_error + 'w HealthManager" where
  "NewHealthManager cfg =
     (case cfg of
        None \<Rightarrow> Inl ErrNilConfig
      | Some ok \<Rightarrow>
          if \<not> ok then Inl ErrInvalidConfigType
          else Inr \<lparr>hm_config_ok = ok, hm_healthChecker = NewHealthCheckerWithConfig DefaultHealthConfig\<rparr>)"

definition GetHealthChecker :: "'w HealthManager \<Rightarrow> 'w healthChecker" where
  "GetHealthChecker m = hm_healthChecker m"

definition UpdateHealthConfig :: "HealthConfig \<Rightarrow> 'w HealthManager \<Rightarrow> health_error option \<times> 'w HealthManager" where
  "UpdateHealthConfig healthConfig m = (if \<not> hm_config_ok m then (Some ErrInvalidConfigType, m) else (None, m))"

definition HealthManager_Reload :: "bool \<Rightarrow> 'w HealthManager \<Rightarrow> health_error option \<times> 'w HealthManager" where
  "HealthManager_Reload newConfig_ok m =
     (if \<not> newConfig_ok then (Some ErrInvalidConfigType, m)
      else (None, m\<lparr>hm_healthChecker := NewHealthCheckerWithConfig DefaultHealthConfig\<rparr>))"

text \<open>The package keeps one checker, which its functions use.\<close>

definition GlobalHealthChecker :: "'w healthChecker" where
  "GlobalHealthChecker = obs_NewHealthChecker"

definition SetGlobalHealthChecker :: "'w healthChecker \<Rightarrow> 'w healthChecker \<Rightarrow> 'w healthChecker" where
  "SetGlobalHealthChecker healthChecker global = healthChecker"

definition global_AddCheck :: "string \<Rightarrow> 'w action \<Rightarrow> 'w healthChecker \<Rightarrow> 'w healthChecker" where
  "global_AddCheck name check global = obs_AddCheck name check global"

definition global_RemoveCheck :: "string \<Rightarrow> 'w healthChecker \<Rightarrow> 'w healthChecker" where
  "global_RemoveCheck name global = obs_RemoveCheck name global"

definition global_IsHealthy ::
  "(string \<Rightarrow> time) \<Rightarrow> string list \<Rightarrow> string list \<Rightarrow> 'w healthChecker \<Rightarrow> 'w \<Rightarrow> bool \<times> 'w" where
  "global_IsHealthy ts names order global w = obs_IsHealthy ts names order global w"

definition global_IsReady ::
  "(string \<Rightarrow> time) \<Rightarrow> string list \<Rightarrow> string list \<Rightarrow> 'w healthChecker \<Rightarrow> 'w \<Rightarrow> bool \<times> 'w" where
  "global_IsReady ts names order global w = IsReady ts names order global w"

subsection \<open>Health paths\<close>

record HealthPathConfig =
  hp_BasePath :: string
  hp_LivenessPath :: string
  hp_ReadinessPath :: string
  hp_StartupPath :: string

definition DefaultHealthPathConfig :: HealthPathConfig where
  "DefaultHealthPathConfig =
     \<lparr>hp_BasePath = ''/health'', hp_LivenessPath = ''/health/live'', hp_ReadinessPath = ''/health/ready'',
      hp_StartupPath = ''/health/startup''\<rparr>"

definition IsHealthPath :: "string \<Rightarrow> HealthPathConfig \<Rightarrow> bool" where
  "IsHealthPath path config \<longleftrightarrow>
     path = hp_BasePath config \<or> path = hp_LivenessPath config \<or> path = hp_ReadinessPath config \<or> path = hp_StartupPath config"

definition IsHealthEndpoint :: "string \<Rightarrow> HealthConfig \<Rightarrow> bool" where
  "IsHealthEndpoint path config \<longleftrightarrow>
     path = hg_Path config \<or> path = hg_LivenessPath config \<or> path = hg_ReadinessPath config \<or> path = hg_StartupPath config"

text \<open>A handler maps the path of a request and the headers set so far to a response.\<close>

definition HealthBypassMiddleware ::
  "HealthPathConfig \<Rightarrow> (string \<Rightarrow> 'h \<Rightarrow> 'r) \<Rightarrow> (string \<Rightarrow> 'h \<Rightarrow> 'r) \<Rightarrow> string \<Rightarrow> 'h \<Rightarrow> 'r" where
  "HealthBypassMiddleware config healthHandler next path h =
     (if IsHealthPath path config then healthHandler path h else next path h)"

definition boolToStatus :: "bool \<Rightarrow> string" where
  "boolToStatus b = (if b then ''UP'' else ''DOWN'')"

definition HealthMiddleware ::
  "bool \<Rightarrow> bool \<Rightarrow> (string \<Rightarrow> (string \<rightharpoonup> string) \<Rightarrow> 'r) \<Rightarrow> string \<Rightarrow> (string \<rightharpoonup> string) \<Rightarrow> 'r" where
  "HealthMiddleware isHealthy isReady next path h =
     next path (h(''X-Health-Status'' \<mapsto> boolToStatus isHealthy, ''X-Ready-Status'' \<mapsto> boolToStatus isReady))"

definition HealthAuthBypassMiddleware ::
  "HealthConfig \<Rightarrow> (string \<Rightarrow> (string \<rightharpoonup> string) \<Rightarrow> 'r) \<Rightarrow> string \<Rightarrow> (string \<rightharpoonup> string) \<Rightarrow> 'r" where
  "HealthAuthBypassMiddleware config next path h =
     (if IsHealthEndpoint path config then next path (h(''X-Auth-Bypass'' \<mapsto> ''health-endpoint'')) else next path h)"

definition HealthPrefixMiddleware ::
  "string \<Rightarrow> HealthConfig \<Rightarrow> (string \<Rightarrow> 'h \<Rightarrow> 'r) \<Rightarrow> string \<Rightarrow> 'h \<Rightarrow> 'r" where
  "HealthPrefixMiddleware pre config next path h =
     (if strings_HasPrefix path pre \<and> IsHealthEndpoint (strings_TrimPrefix path pre) config
      then next (strings_TrimPrefix path pre) h else next path h)"

subsection \<open>Probes\<close>

text \<open>Probes of a service whose checks only look at the world.\<close>

lemma any_down_all_pass:
  assumes "checks_read_only c" and "iterates names (hc_checks c)" and "iterates order (hc_checks c)"
  shows "any_down (fst (RunChecks ts names c w)) order \<longleftrightarrow> \<not> all_pass c w"
proof -
  have "set order = dom (hc_checks c)" using assms(3) by (simp add: iterates_def)
  then show ?thesis
    by (auto simp: any_down_def RunChecks_read_only [OF assms(1,2)] list_ex_iff the_map_option all_pass_iff)
qed

text \<open>The number of probes passed since the last one that failed.\<close>

definition passed_in_row :: "bool list \<Rightarrow> nat" where
  "passed_in_row bs = length (takeWhile (\<lambda>b. b) (rev bs))"

lemma passed_in_row_snoc: "passed_in_row (bs @ [b]) = (if b then Suc (passed_in_row bs) else 0)"
  by (simp add: passed_in_row_def)

lemma prefix_replicate: "prefix (replicate n True) bs \<longleftrightarrow> n \<le> length (takeWhile (\<lambda>b. b) bs)"
proof (induction bs arbitrary: n)
  case (Cons b bs)
  then show ?case by (cases n) auto
qed simp

lemma sublist_snoc_True:
  "sublist (replicate n True) (bs @ [b]) \<longleftrightarrow> n \<le> passed_in_row (bs @ [b]) \<or> sublist (replicate n True) bs"
proof -
  have "sublist (replicate n True) (bs @ [b]) \<longleftrightarrow> sublist (replicate n True) (b # rev bs)"
    using sublist_rev [of "replicate n True" "bs @ [b]"] by simp
  also have "\<dots> \<longleftrightarrow> n \<le> passed_in_row (bs @ [b]) \<or> sublist (replicate n True) (rev bs)"
    by (simp add: sublist_Cons_right prefix_replicate passed_in_row_def)
  finally show ?thesis using sublist_rev [of "replicate n True" bs] by simp
qed

text \<open>One startup probe after the other, each in its own state of the world.\<close>

definition startup_probes ::
  "(string \<Rightarrow> time) \<Rightarrow> time \<Rightarrow> string list \<Rightarrow> string list \<Rightarrow> 'w list \<Rightarrow> 'w healthChecker \<Rightarrow> 'w healthChecker" where
  "startup_probes ts now names order ws h = foldl (\<lambda>h w. fst (snd (StartupHandler ts now names order h w))) h ws"

lemma StartupHandler_state:
  assumes "checks_read_only (hk_core h)" and "iterates names (hc_checks (hk_core h))" and "iterates order (hc_checks (hk_core h))"
  shows "fst (snd (StartupHandler ts now names order h w)) =
    (let up = all_pass (hk_core h) w in startup_ready up (fst (startup_count up h)) (snd (startup_count up h)))"
  using any_down_all_pass [OF assms, of ts w]
  by (auto simp: StartupHandler_def startup_count_def Let_def split_beta)

lemma startup_probes_state:
  assumes checks: "checks_read_only c" "iterates names (hc_checks c)" "iterates order (hc_checks c)"
    and h: "hk_core h = c" "hk_config h = config" "hk_startupChecks h = 0" "\<not> hk_readyToServe h"
    and T: "0 < hg_StartupThreshold config"
  defines "bs \<equiv> \<lambda>ws. map (all_pass c) ws"
  shows "let h' = startup_probes ts now names order ws h in
    hk_core h' = c \<and> hk_config h' = config \<and> hk_startupChecks h' = int (passed_in_row (bs ws)) \<and>
    (hk_readyToServe h' \<longleftrightarrow> sublist (replicate (nat (hg_StartupThreshold config)) True) (bs ws))"
proof (induction ws rule: rev_induct)
  case Nil
  show ?case using h T by (simp add: startup_probes_def bs_def passed_in_row_def)
next
  case (snoc w ws)
  let ?h = "startup_probes ts now names order ws h"
  have IH: "hk_core ?h = c" "hk_config ?h = config" "hk_startupChecks ?h = int (passed_in_row (bs ws))"
    "hk_readyToServe ?h \<longleftrightarrow> sublist (replicate (nat (hg_StartupThreshold config)) True) (bs ws)"
    using snoc by (simp_all add: Let_def)
  have "startup_probes ts now names order (ws @ [w]) h =
    (let up = all_pass c w in startup_ready up (fst (startup_count up ?h)) (snd (startup_count up ?h)))"
    using StartupHandler_state [of ?h names order ts now w] checks IH(1) by (simp add: startup_probes_def)
  moreover have "bs (ws @ [w]) = bs ws @ [all_pass c w]" by (simp add: bs_def)
  ultimately show ?case
    using IH T by (auto simp: Let_def startup_count_def startup_ready_def passed_in_row_snoc sublist_snoc_True)
qed

lemma ReadinessHandler_code:
  assumes "checks_read_only (hk_core h)" and "iterates names (hc_checks (hk_core h))" and "iterates order (hc_checks (hk_core h))"
  shows "pb_code (fst (ReadinessHandler ts now names order h w)) = (if hk_readyToServe h \<and> all_pass (hk_core h) w then 200 else 503)"
  using any_down_all_pass [OF assms, of ts w]
  by (auto simp: ReadinessHandler_def status_code_def Let_def split_beta)

text \<open>
  A service becomes ready through its startup probes: after any probes from the start, the readiness probe answers 200 exactly when
  \<open>StartupThreshold\<close> startup probes in a row have passed at some time and every check passes now, and 503 otherwise.
\<close>

theorem ready_after_startup:
  assumes "checks_read_only c" and "iterates names (hc_checks c)" and "iterates order (hc_checks c)"
    and "0 < hg_StartupThreshold config"
    and "h = startup_probes ts now names order ws ((NewHealthCheckerWithConfig config)\<lparr>hk_core := c\<rparr>)"
  shows "pb_code (fst (ReadinessHandler ts now' names order h w)) =
    (if sublist (replicate (nat (hg_StartupThreshold config)) True) (map (all_pass c) ws) \<and> all_pass c w then 200 else 503)"
proof -
  note s = startup_probes_state [OF assms(1-3), of "(NewHealthCheckerWithConfig config)\<lparr>hk_core := c\<rparr>" config ts now ws]
  have h: "hk_core h = c" "hk_readyToServe h \<longleftrightarrow> sublist (replicate (nat (hg_StartupThreshold config)) True) (map (all_pass c) ws)"
    using s assms(4,5) by (simp_all add: NewHealthCheckerWithConfig_def Let_def)
  show ?thesis using ReadinessHandler_code [of h names order ts now' w] assms(1-3) h by simp
qed

theorem ready_after_startup_witness:
  "let probes = startup_probes (\<lambda>_. 0) 0 [''db'', ''mq''] [''mq'', ''db''];
       h = (NewHealthCheckerWithConfig DefaultHealthConfig)\<lparr>hk_core := demo_checker\<rparr>;
       ready = (\<lambda>ws w. pb_code (fst (ReadinessHandler (\<lambda>_. 0) 0 [''db'', ''mq''] [''mq'', ''db''] (probes ws h) w)))
   in ready [1, 1, 0, 1] 1 = 503 \<and> ready [0, 1, 1, 1] 1 = 200 \<and> ready [1, 1, 1] 0 = 503"
proof -
  have c: "checks_read_only demo_checker" "iterates [''db'', ''mq''] (hc_checks demo_checker)" "iterates [''mq'', ''db''] (hc_checks demo_checker)"
    by (auto simp: checks_read_only_def read_only_def demo_checker_def AddCheck_def NewHealthChecker_def iterates_def ran_def)
  have p: "all_pass demo_checker w \<longleftrightarrow> w \<noteq> 0" for w
    by (simp add: all_pass_iff demo_checker_def AddCheck_def NewHealthChecker_def)
  have T: "0 < hg_StartupThreshold DefaultHealthConfig" "replicate (nat (hg_StartupThreshold DefaultHealthConfig)) True = [True, True, True]"
    by (simp_all add: DefaultHealthConfig_def numeral_3_eq_3)
  note r = ready_after_startup [OF c T(1) refl, unfolded T(2)]
  have m: "map (all_pass demo_checker) [1, 1, 0, 1] = [True, True, False, True]" "map (all_pass demo_checker) [0, 1, 1, 1] = [False, True, True, True]"
    "map (all_pass demo_checker) [1, 1, 1] = [True, True, True]" by (simp_all add: p)
  have s: "\<not> sublist [True, True, True] [True, True, False, True]" "sublist [True, True, True] [False, True, True, True]"
    by (simp_all add: sublist_Cons_right)
  show ?thesis unfolding Let_def r m using s p by simp
qed

text \<open>
  A reload of the configuration replaces the checker by one without checks: a service with a failing dependency becomes healthy, and a
  service that was ready answers its readiness probe with 503 until its startup probes have passed again.
\<close>

theorem health_reload_forgets:
  "let h = hm_healthChecker (snd (HealthManager_Reload True m)) in
     hc_checks (hk_core h) = Map.empty \<and> fst (obs_IsHealthy ts [] [] h w) \<and> pb_code (fst (ReadinessHandler ts now [] [] h w)) = 503"
  by (simp add: HealthManager_Reload_def NewHealthCheckerWithConfig_def NewHealthChecker_def obs_IsHealthy_def IsHealthy_def
      RunChecks_def ReadinessHandler_def status_code_def)

text \<open>Without checks the health endpoint answers 503 although the service counts as healthy.\<close>

theorem no_checks_unhealthy:
  "pb_code (fst (HealthHandler ts ts' now [] [] [] (NewHealthCheckerWithConfig config) w)) = 503 \<and>
   fst (obs_IsHealthy ts [] [] (NewHealthCheckerWithConfig config) w)"
  by (simp add: HealthHandler_def HealthSummary_def RunChecks_def NewHealthCheckerWithConfig_def NewHealthChecker_def
      status_code_def obs_IsHealthy_def IsHealthy_def)

end
