(* ===== verification/RedisCache.thy ===== *)
theory RedisCache
  imports GoFmt
begin

text \<open>
  Package data, \<open>cache.go\<close> and \<open>redis.go\<close>: the cache in Redis.  The client library and the server are an argument (\<open>redis_client\<close>): each
  command is given the instant at which the server executes it and acts on a state \<open>'s\<close>.  A pipeline is one command.
\<close>

subsection \<open>Configuration and keys\<close>

record CacheConfig =
  cc_Type :: string
  cc_Address :: string
  cc_Password :: string
  cc_Database :: int
  cc_PoolSize :: int
  cc_MinIdleConns :: int
  cc_MaxConnAge :: duration
  cc_PoolTimeout :: duration
  cc_IdleTimeout :: duration
  cc_DefaultTTL :: duration
  cc_Namespace :: string

datatype cache_error =
    ErrCacheMiss
  | ErrCacheInvalidKey
  | ErrCacheType
  | ErrCacheAddress
  | ErrNoNamespace
  | ErrRedis string

definition validateKey :: "string \<Rightarrow> cache_error option" where
  "validateKey key = (if key = [] then Some ErrCacheInvalidKey else None)"

definition formatKey :: "string \<Rightarrow> string \<Rightarrow> string" where
  "formatKey namespace key = (if namespace = [] then key else namespace @ '':'' @ key)"

definition formatKeys :: "string \<Rightarrow> string list \<Rightarrow> string list" where
  "formatKeys namespace keys = (if namespace = [] then keys else map (formatKey namespace) keys)"

text \<open>The loops that check and format several keys end at the first invalid one.\<close>

fun format_all :: "string \<Rightarrow> string list \<Rightarrow> cache_error + string list" where
  "format_all namespace [] = Inr []"
| "format_all namespace (key # keys) =
     (case validateKey key of
        Some e \<Rightarrow> Inl e
      | None \<Rightarrow>
          (case format_all namespace keys of
             Inl e \<Rightarrow> Inl e
           | Inr fs \<Rightarrow> Inr (formatKey namespace key # fs)))"

subsection \<open>The client of Redis\<close>

datatype redis_error = RedisNil | RedisErr string

record 's redis_client =
  rdc_Get :: "time \<Rightarrow> string \<Rightarrow> 's \<Rightarrow> (redis_error + string) \<times> 's"
  rdc_Set :: "time \<Rightarrow> string \<Rightarrow> string \<Rightarrow> duration \<Rightarrow> 's \<Rightarrow> string option \<times> 's"
  rdc_Del :: "time \<Rightarrow> string list \<Rightarrow> 's \<Rightarrow> string option \<times> 's"
  rdc_Scan :: "time \<Rightarrow> int \<Rightarrow> string \<Rightarrow> int \<Rightarrow> 's \<Rightarrow> (string + string list \<times> int) \<times> 's"
  rdc_GetPipe :: "time \<Rightarrow> string list \<Rightarrow> 's \<Rightarrow> redis_error option \<times> (redis_error + string) list \<times> 's"
  rdc_SetPipe :: "time \<Rightarrow> (string \<times> string) list \<Rightarrow> duration \<Rightarrow> 's \<Rightarrow> string option \<times> 's"
  rdc_IncrBy :: "time \<Rightarrow> string \<Rightarrow> int \<Rightarrow> 's \<Rightarrow> (string + int) \<times> 's"
  rdc_DecrBy :: "time \<Rightarrow> string \<Rightarrow> int \<Rightarrow> 's \<Rightarrow> (string + int) \<times> 's"
  rdc_Ping :: "'s \<Rightarrow> string option"
  rdc_Close :: "'s \<Rightarrow> string option \<times> 's"

record redis_options =
  ro_Addr :: string
  ro_Password :: string
  ro_DB :: int
  ro_PoolSize :: int
  ro_MinIdleConns :: int
  ro_ConnMaxLifetime :: "duration option"
  ro_PoolTimeout :: "duration option"
  ro_ConnMaxIdleTime :: "duration option"

record RedisCache =
  rch_config :: CacheConfig
  rch_options :: redis_options
  rch_defaultTTL :: duration
  rch_namespace :: string

definition when_positive :: "duration \<Rightarrow> duration option" where
  "when_positive d = (if 0 < d then Some d else None)"

definition NewRedisCache :: "CacheConfig \<Rightarrow> cache_error + RedisCache" where
  "NewRedisCache config =
     (if cc_Type config \<noteq> ''redis'' then Inl ErrCacheType
      else if cc_Address config = [] then Inl ErrCacheAddress
      else
        (let config = (if cc_PoolSize config \<le> 0 then config\<lparr>cc_PoolSize := 10\<rparr> else config);
             config = (if cc_DefaultTTL config \<le> 0 then config\<lparr>cc_DefaultTTL := 1 * Hour\<rparr> else config);
             options = \<lparr>ro_Addr = cc_Address config, ro_Password = cc_Password config, ro_DB = cc_Database config,
                        ro_PoolSize = cc_PoolSize config, ro_MinIdleConns = cc_MinIdleConns config,
                        ro_ConnMaxLifetime = when_positive (cc_MaxConnAge config),
                        ro_PoolTimeout = when_positive (cc_PoolTimeout config),
                        ro_ConnMaxIdleTime = when_positive (cc_IdleTimeout config)\<rparr>
         in Inr \<lparr>rch_config = config, rch_options = options, rch_defaultTTL = cc_DefaultTTL config, rch_namespace = cc_Namespace config\<rparr>))"

subsection \<open>Operations\<close>

definition NewCache :: "CacheConfig \<Rightarrow> cache_error + RedisCache" where
  "NewCache config = NewRedisCache config"

definition redis_err :: "string option \<Rightarrow> cache_error option" where
  "redis_err e = map_option ErrRedis e"

definition cache_Get :: "'s redis_client \<Rightarrow> RedisCache \<Rightarrow> time \<Rightarrow> string \<Rightarrow> 's \<Rightarrow> (cache_error + string) \<times> 's" where
  "cache_Get client c now key s =
     (case validateKey key of
        Some e \<Rightarrow> (Inl e, s)
      | None \<Rightarrow>
          (case rdc_Get client now (formatKey (rch_namespace c) key) s of
             (Inl RedisNil, s) \<Rightarrow> (Inl ErrCacheMiss, s)
           | (Inl (RedisErr e), s) \<Rightarrow> (Inl (ErrRedis e), s)
           | (Inr v, s) \<Rightarrow> (Inr v, s)))"

definition cache_SetWithTTL ::
  "'s redis_client \<Rightarrow> RedisCache \<Rightarrow> time \<Rightarrow> string \<Rightarrow> string \<Rightarrow> duration \<Rightarrow> 's \<Rightarrow> cache_error option \<times> 's" where
  "cache_SetWithTTL client c now key value ttl s =
     (case validateKey key of
        Some e \<Rightarrow> (Some e, s)
      | None \<Rightarrow> (case rdc_Set client now (formatKey (rch_namespace c) key) value ttl s of (e, s) \<Rightarrow> (redis_err e, s)))"

definition cache_Set ::
  "'s redis_client \<Rightarrow> RedisCache \<Rightarrow> time \<Rightarrow> string \<Rightarrow> string \<Rightarrow> 's \<Rightarrow> cache_error option \<times> 's" where
  "cache_Set client c now key value s = cache_SetWithTTL client c now key value (rch_defaultTTL c) s"

definition cache_Delete :: "'s redis_client \<Rightarrow> RedisCache \<Rightarrow> time \<Rightarrow> string \<Rightarrow> 's \<Rightarrow> cache_error option \<times> 's" where
  "cache_Delete client c now key s =
     (case validateKey key of
        Some e \<Rightarrow> (Some e, s)
      | None \<Rightarrow> (case rdc_Del client now [formatKey (rch_namespace c) key] s of (e, s) \<Rightarrow> (redis_err e, s)))"

text \<open>The loop over the batches of a scan; it ends when the server gives the cursor 0.\<close>

partial_function (option) scan_loop ::
  "'s redis_client \<Rightarrow> time \<Rightarrow> string \<Rightarrow> int \<Rightarrow> string list \<Rightarrow> 's \<Rightarrow> ((string + string list) \<times> 's) option" where
  "scan_loop client now pattern cursor keys s =
     (case rdc_Scan client now cursor pattern 100 s of
        (Inl e, s) \<Rightarrow> Some (Inl e, s)
      | (Inr (batch, cursor), s) \<Rightarrow>
          if cursor = 0 then Some (Inr (keys @ batch), s)
          else scan_loop client now pattern cursor (keys @ batch) s)"

definition cache_Clear :: "'s redis_client \<Rightarrow> RedisCache \<Rightarrow> time \<Rightarrow> 's \<Rightarrow> (cache_error option \<times> 's) option" where
  "cache_Clear client c now s =
     (if rch_namespace c = [] then Some (Some ErrNoNamespace, s)
      else case scan_loop client now (rch_namespace c @ '':*'') 0 [] s of
          None \<Rightarrow> None
        | Some (Inl e, s) \<Rightarrow> Some (Some (ErrRedis e), s)
        | Some (Inr keys, s) \<Rightarrow>
            if keys \<noteq> [] then (case rdc_Del client now keys s of (e, s) \<Rightarrow> Some (redis_err e, s))
            else Some (None, s))"

definition found :: "string list \<Rightarrow> (redis_error + string) list \<Rightarrow> string \<rightharpoonup> string" where
  "found keys rs = foldl (\<lambda>m (k, r). case r of Inr v \<Rightarrow> m(k \<mapsto> v) | Inl e \<Rightarrow> m) Map.empty (zip keys rs)"

definition cache_GetMulti ::
  "'s redis_client \<Rightarrow> RedisCache \<Rightarrow> time \<Rightarrow> string list \<Rightarrow> 's \<Rightarrow> (cache_error + (string \<rightharpoonup> string)) \<times> 's" where
  "cache_GetMulti client c now keys s =
     (if keys = [] then (Inr Map.empty, s)
      else case format_all (rch_namespace c) keys of
          Inl e \<Rightarrow> (Inl e, s)
        | Inr formattedKeys \<Rightarrow>
            (case rdc_GetPipe client now formattedKeys s of
               (Some (RedisErr e), rs, s) \<Rightarrow> (Inl (ErrRedis e), s)
             | (_, rs, s) \<Rightarrow> (Inr (found keys rs), s)))"

text \<open>\<open>items\<close> lists the map in the order in which it is ranged over.\<close>

definition cache_SetMultiWithTTL ::
  "'s redis_client \<Rightarrow> RedisCache \<Rightarrow> time \<Rightarrow> (string \<times> string) list \<Rightarrow> duration \<Rightarrow> 's \<Rightarrow> cache_error option \<times> 's" where
  "cache_SetMultiWithTTL client c now items ttl s =
     (if items = [] then (None, s)
      else case format_all (rch_namespace c) (map fst items) of
          Inl e \<Rightarrow> (Some e, s)
        | Inr formattedKeys \<Rightarrow>
            (case rdc_SetPipe client now (zip formattedKeys (map snd items)) ttl s of (e, s) \<Rightarrow> (redis_err e, s)))"

definition cache_SetMulti ::
  "'s redis_client \<Rightarrow> RedisCache \<Rightarrow> time \<Rightarrow> (string \<times> string) list \<Rightarrow> 's \<Rightarrow> cache_error option \<times> 's" where
  "cache_SetMulti client c now items s = cache_SetMultiWithTTL client c now items (rch_defaultTTL c) s"

definition cache_DeleteMulti :: "'s redis_client \<Rightarrow> RedisCache \<Rightarrow> time \<Rightarrow> string list \<Rightarrow> 's \<Rightarrow> cache_error option \<times> 's" where
  "cache_DeleteMulti client c now keys s =
     (if keys = [] then (None, s)
      else case format_all (rch_namespace c) keys of
          Inl e \<Rightarrow> (Some e, s)
        | Inr formattedKeys \<Rightarrow> (case rdc_Del client now formattedKeys s of (e, s) \<Rightarrow> (redis_err e, s)))"

definition cache_Increment :: "'s redis_client \<Rightarrow> RedisCache \<Rightarrow> time \<Rightarrow> string \<Rightarrow> int \<Rightarrow> 's \<Rightarrow> (cache_error + int) \<times> 's" where
  "cache_Increment client c now key amount s =
     (case validateKey key of
        Some e \<Rightarrow> (Inl e, s)
      | None \<Rightarrow>
          (case rdc_IncrBy client now (formatKey (rch_namespace c) key) amount s of
             (Inl e, s) \<Rightarrow> (Inl (ErrRedis e), s)
           | (Inr n, s) \<Rightarrow> (Inr n, s)))"

definition cache_Decrement :: "'s redis_client \<Rightarrow> RedisCache \<Rightarrow> time \<Rightarrow> string \<Rightarrow> int \<Rightarrow> 's \<Rightarrow> (cache_error + int) \<times> 's" where
  "cache_Decrement client c now key amount s =
     (case validateKey key of
        Some e \<Rightarrow> (Inl e, s)
      | None \<Rightarrow>
          (case rdc_DecrBy client now (formatKey (rch_namespace c) key) amount s of
             (Inl e, s) \<Rightarrow> (Inl (ErrRedis e), s)
           | (Inr n, s) \<Rightarrow> (Inr n, s)))"

definition cache_Ping :: "'s redis_client \<Rightarrow> 's \<Rightarrow> cache_error option" where
  "cache_Ping client s = redis_err (rdc_Ping client s)"

definition cache_Close :: "'s redis_client \<Rightarrow> 's \<Rightarrow> cache_error option \<times> 's" where
  "cache_Close client s = (case rdc_Close client s of (e, s) \<Rightarrow> (redis_err e, s))"

end
