(* ===== verification/RedisCacheProps.thy ===== *)
theory RedisCacheProps
  imports RedisCache
begin

text \<open>
  What the cache promises: on a server that keeps what Redis documents, a cache is a table whose entries expire.  The laws of the server
  are a locale (\<open>redis_strings\<close>); its view \<open>tab t s\<close> is the strings that are alive at \<open>t\<close> when nothing else happens.
\<close>

named_theorems cache_defs
declare redis_err_def [cache_defs] validateKey_def [cache_defs]

subsection \<open>Keys\<close>

lemma formatKey_inj: "formatKey ns k = formatKey ns k' \<longleftrightarrow> k = k'"
  by (simp add: formatKey_def)

lemma format_all_ok: "[] \<notin> set keys \<Longrightarrow> format_all ns keys = Inr (map (formatKey ns) keys)"
  by (induction keys) (auto simp: validateKey_def)

lemma format_all_bad: "[] \<in> set keys \<Longrightarrow> format_all ns keys = Inl ErrCacheInvalidKey"
proof (induction keys)
  case (Cons k keys)
  then show ?case by (cases "[] \<in> set keys") (auto simp: validateKey_def format_all_ok split: sum.split)
qed simp

lemma format_all_error: "format_all ns keys = Inl e \<Longrightarrow> e = ErrCacheInvalidKey"
  by (cases "[] \<in> set keys") (simp_all add: format_all_ok format_all_bad)

text \<open>Characters that mean themselves in a pattern of \<open>SCAN\<close>.\<close>

definition plain_text :: "string \<Rightarrow> bool" where
  "plain_text p \<longleftrightarrow> set p \<inter> {CHR ''*'', CHR ''?'', CHR ''['', CHR '']'', CHR ''^'', CHR 0x5C} = {}"

definition ok_ttl :: "duration \<Rightarrow> bool" where
  "ok_ttl ttl \<longleftrightarrow> 0 \<le> ttl \<and> Millisecond dvd ttl"

definition in_time :: "duration \<Rightarrow> time \<Rightarrow> time \<Rightarrow> bool" where
  "in_time ttl now t \<longleftrightarrow> ttl = 0 \<or> t < now + ttl"

locale redis_strings =
  fixes client :: "'s redis_client" and tab :: "time \<Rightarrow> 's \<Rightarrow> string \<rightharpoonup> string" and matches :: "string \<Rightarrow> string \<Rightarrow> bool"
    and num :: "string \<Rightarrow> int option" and todo :: "time \<Rightarrow> string \<Rightarrow> int \<Rightarrow> 's \<Rightarrow> string set" and left :: "time \<Rightarrow> string \<Rightarrow> int \<Rightarrow> 's \<Rightarrow> nat"
  assumes expires: "now \<le> t \<Longrightarrow> tab t s k = Some v \<Longrightarrow> tab now s k = Some v"
    and get_ok: "rdc_Get client now k s = (Inr v, s') \<Longrightarrow> tab now s k = Some v"
    and get_nil: "rdc_Get client now k s = (Inl RedisNil, s') \<Longrightarrow> tab now s k = None"
    and get_keeps: "rdc_Get client now k s = (gr, s') \<Longrightarrow> now \<le> t \<Longrightarrow> tab t s' = tab t s"
    and set_ok: "rdc_Set client now k v ttl s = (None, s') \<Longrightarrow> ok_ttl ttl \<Longrightarrow> now \<le> t \<Longrightarrow>
      tab t s' = (tab t s)(k := (if in_time ttl now t then Some v else None))"
    and del_ok: "rdc_Del client now ks s = (None, s') \<Longrightarrow> now \<le> t \<Longrightarrow> tab t s' = tab t s |` (- set ks)"
    and scan_start: "todo now p 0 s = {k \<in> dom (tab now s). matches p k}"
    and scan_batch: "rdc_Scan client now cursor p n s = (Inr (batch, cursor'), s') \<Longrightarrow>
      todo now p cursor s = set batch \<union> (if cursor' = 0 then {} else todo now p cursor' s')"
    and scan_less: "rdc_Scan client now cursor p n s = (Inr (batch, cursor'), s') \<Longrightarrow> cursor' \<noteq> 0 \<Longrightarrow> left now p cursor' s' < left now p cursor s"
    and scan_keeps: "rdc_Scan client now cursor p n s = (sr, s') \<Longrightarrow> now \<le> t \<Longrightarrow> tab t s' = tab t s"
    and plain_matches: "plain_text p \<Longrightarrow> matches (p @ ''*'') k \<longleftrightarrow> strings_HasPrefix k p"
    and getpipe_ok: "rdc_GetPipe client now ks s = (e, rs, s') \<Longrightarrow> e = None \<or> e = Some RedisNil \<Longrightarrow>
      rs = map (\<lambda>k. case tab now s k of None \<Rightarrow> Inl RedisNil | Some v \<Rightarrow> Inr v) ks"
    and getpipe_keeps: "rdc_GetPipe client now ks s = (e, rs, s') \<Longrightarrow> now \<le> t \<Longrightarrow> tab t s' = tab t s"
    and setpipe_ok: "rdc_SetPipe client now items ttl s = (None, s') \<Longrightarrow> ok_ttl ttl \<Longrightarrow> distinct (map fst items) \<Longrightarrow> now \<le> t \<Longrightarrow>
      tab t s' = (\<lambda>k. case map_of items k of None \<Rightarrow> tab t s k | Some v \<Rightarrow> if in_time ttl now t then Some v else None)"
    and incr_ok: "rdc_IncrBy client now k n s = (Inr r, s') \<Longrightarrow>
      int64_range r \<and> (case tab now s k of None \<Rightarrow> r = n | Some v \<Rightarrow> num v = Some (r - n)) \<and>
      (now \<le> t \<longrightarrow> tab t s' = (tab t s)(k := (if tab now s k \<noteq> None \<and> tab t s k = None then None else Some (fmt_d r))))"
    and decr_ok: "rdc_DecrBy client now k n s = (Inr r, s') \<Longrightarrow>
      int64_range r \<and> (case tab now s k of None \<Rightarrow> r = - n | Some v \<Rightarrow> num v = Some (r + n)) \<and>
      (now \<le> t \<longrightarrow> tab t s' = (tab t s)(k := (if tab now s k \<noteq> None \<and> tab t s k = None then None else Some (fmt_d r))))"
begin

text \<open>The loop over the batches ends and finds all keys.\<close>

lemma scan_loop_finds:
  "\<exists>r s'. scan_loop client now p cursor keys s = Some (r, s') \<and> (\<forall>t\<ge>now. tab t s' = tab t s) \<and>
     (\<forall>ks. r = Inr ks \<longrightarrow> set ks = set keys \<union> todo now p cursor s) \<and> (\<forall>e. r = Inl e \<longrightarrow> (\<exists>cursor s s'. rdc_Scan client now cursor p 100 s = (Inl e, s')))"
proof (induction "left now p cursor s" arbitrary: cursor keys s rule: less_induct)
  case less
  obtain r s1 where c: "rdc_Scan client now cursor p 100 s = (r, s1)" by fastforce
  note unfold = scan_loop.simps [of client now p cursor keys s]
  show ?case
  proof (cases r)
    case (Inl e)
    then show ?thesis unfolding unfold using c scan_keeps [OF c] by auto
  next
    case (Inr x)
    obtain batch cursor' where x: "x = (batch, cursor')" by fastforce
    note b = scan_batch [OF c [unfolded Inr x]]
    show ?thesis
    proof (cases "cursor' = 0")
      case True
      then show ?thesis unfolding unfold using c Inr x b scan_keeps [OF c] by auto
    next
      case False
      from less [OF scan_less [OF c [unfolded Inr x] False], of "keys @ batch"]
      show ?thesis unfolding unfold using c Inr x b False scan_keeps [OF c] by fastforce
    qed
  qed
qed

end

text \<open>
  A server that is reachable: its commands report no error but that there is no value, or that what a counter is added to is no number or the sum no 64-bit integer;
  then nothing changes.
\<close>

definition counter :: "(string \<Rightarrow> int option) \<Rightarrow> string option \<Rightarrow> int option" where
  "counter num v = (case v of None \<Rightarrow> Some 0 | Some v \<Rightarrow> num v)"

locale redis_reliable = redis_strings +
  assumes get_answers: "fst (rdc_Get client now k s) \<noteq> Inl (RedisErr e)"
    and set_answers: "fst (rdc_Set client now k v ttl s) = None"
    and del_answers: "fst (rdc_Del client now ks s) = None"
    and scan_answers: "fst (rdc_Scan client now cursor p n s) \<noteq> Inl e"
    and getpipe_answers: "fst (rdc_GetPipe client now ks s) \<noteq> Some (RedisErr e)"
    and setpipe_answers: "fst (rdc_SetPipe client now items ttl s) = None"
    and incr_answers: "rdc_IncrBy client now k n s = (Inl e, s') \<Longrightarrow>
      (\<forall>i. counter num (tab now s k) = Some i \<longrightarrow> \<not> int64_range (i + n)) \<and> (now \<le> t \<longrightarrow> tab t s' = tab t s)"
    and decr_answers: "rdc_DecrBy client now k n s = (Inl e, s') \<Longrightarrow>
      (\<forall>i. counter num (tab now s k) = Some i \<longrightarrow> \<not> int64_range (i - n)) \<and> (now \<le> t \<longrightarrow> tab t s' = tab t s)"

subsection \<open>The table\<close>

text \<open>The specification: a value and the instant from which it is gone, if any.\<close>

type_synonym cache_table = "string \<rightharpoonup> string \<times> time option"

definition live :: "time \<Rightarrow> cache_table \<Rightarrow> string \<rightharpoonup> string" where
  "live t m k = (case m k of None \<Rightarrow> None | Some (v, e) \<Rightarrow> if \<forall>d. e = Some d \<longrightarrow> t < d then Some v else None)"

definition until :: "duration \<Rightarrow> time \<Rightarrow> time option" where
  "until ttl now = (if ttl = 0 then None else Some (now + ttl))"

datatype cache_call =
    CallGet string
  | CallSet string string
  | CallSetWithTTL string string duration
  | CallDelete string
  | CallClear
  | CallGetMulti "string list"
  | CallSetMulti "(string \<times> string) list"
  | CallSetMultiWithTTL "(string \<times> string) list" duration
  | CallDeleteMulti "string list"
  | CallIncrement string int
  | CallDecrement string int

datatype cache_result =
    ResValue "cache_error + string"
  | ResError "cache_error option"
  | ResMap "cache_error + (string \<rightharpoonup> string)"
  | ResNumber "cache_error + int"
  | ResDiverges

definition cache_do :: "'s redis_client \<Rightarrow> RedisCache \<Rightarrow> time \<Rightarrow> cache_call \<Rightarrow> 's \<Rightarrow> cache_result \<times> 's" where
  "cache_do client c now call s =
     (case call of
        CallGet k \<Rightarrow> map_prod ResValue (\<lambda>s. s) (cache_Get client c now k s)
      | CallSet k v \<Rightarrow> map_prod ResError (\<lambda>s. s) (cache_Set client c now k v s)
      | CallSetWithTTL k v ttl \<Rightarrow> map_prod ResError (\<lambda>s. s) (cache_SetWithTTL client c now k v ttl s)
      | CallDelete k \<Rightarrow> map_prod ResError (\<lambda>s. s) (cache_Delete client c now k s)
      | CallClear \<Rightarrow> (case cache_Clear client c now s of None \<Rightarrow> (ResDiverges, s) | Some (e, s) \<Rightarrow> (ResError e, s))
      | CallGetMulti ks \<Rightarrow> map_prod ResMap (\<lambda>s. s) (cache_GetMulti client c now ks s)
      | CallSetMulti items \<Rightarrow> map_prod ResError (\<lambda>s. s) (cache_SetMulti client c now items s)
      | CallSetMultiWithTTL items ttl \<Rightarrow> map_prod ResError (\<lambda>s. s) (cache_SetMultiWithTTL client c now items ttl s)
      | CallDeleteMulti ks \<Rightarrow> map_prod ResError (\<lambda>s. s) (cache_DeleteMulti client c now ks s)
      | CallIncrement k n \<Rightarrow> map_prod ResNumber (\<lambda>s. s) (cache_Increment client c now k n s)
      | CallDecrement k n \<Rightarrow> map_prod ResNumber (\<lambda>s. s) (cache_Decrement client c now k n s))"

fun redis_failed :: "cache_result \<Rightarrow> bool" where
  "redis_failed (ResValue (Inl (ErrRedis e))) = True"
| "redis_failed (ResError (Some (ErrRedis e))) = True"
| "redis_failed (ResMap (Inl (ErrRedis e))) = True"
| "redis_failed (ResNumber (Inl (ErrRedis e))) = True"
| "redis_failed _ = False"

text \<open>The texts of errors are those of the server.\<close>

fun blank :: "cache_result \<Rightarrow> cache_result" where
  "blank (ResValue (Inl (ErrRedis e))) = ResValue (Inl (ErrRedis []))"
| "blank (ResError (Some (ErrRedis e))) = ResError (Some (ErrRedis []))"
| "blank (ResMap (Inl (ErrRedis e))) = ResMap (Inl (ErrRedis []))"
| "blank (ResNumber (Inl (ErrRedis e))) = ResNumber (Inl (ErrRedis []))"
| "blank r = r"

lemma blank_ok: "\<not> redis_failed r \<Longrightarrow> blank r = r"
  by (induction r rule: blank.induct) auto

definition spec_add :: "(string \<Rightarrow> int option) \<Rightarrow> time \<Rightarrow> string \<Rightarrow> int \<Rightarrow> cache_table \<Rightarrow> cache_result \<times> cache_table" where
  "spec_add num now k n m =
     (case counter num (live now m k) of
        None \<Rightarrow> (ResNumber (Inl (ErrRedis [])), m)
      | Some i \<Rightarrow>
          if int64_range (i + n)
          then (ResNumber (Inr (i + n)), m(k \<mapsto> (fmt_d (i + n), if live now m k = None then None else snd (the (m k)))))
          else (ResNumber (Inl (ErrRedis [])), m))"

definition put_all :: "(string \<times> string) list \<Rightarrow> time option \<Rightarrow> cache_table \<Rightarrow> cache_table" where
  "put_all items e m = (\<lambda>k. case map_of items k of None \<Rightarrow> m k | Some v \<Rightarrow> Some (v, e))"

definition cache_spec ::
  "(string \<Rightarrow> int option) \<Rightarrow> RedisCache \<Rightarrow> time \<Rightarrow> cache_call \<Rightarrow> cache_table \<Rightarrow> cache_result \<times> cache_table" where
  "cache_spec num c now call m =
     (case call of
        CallGet k \<Rightarrow>
          (ResValue (if k = [] then Inl ErrCacheInvalidKey else case live now m k of None \<Rightarrow> Inl ErrCacheMiss | Some v \<Rightarrow> Inr v), m)
      | CallSet k v \<Rightarrow>
          if k = [] then (ResError (Some ErrCacheInvalidKey), m) else (ResError None, m(k \<mapsto> (v, until (rch_defaultTTL c) now)))
      | CallSetWithTTL k v ttl \<Rightarrow>
          if k = [] then (ResError (Some ErrCacheInvalidKey), m) else (ResError None, m(k \<mapsto> (v, until ttl now)))
      | CallDelete k \<Rightarrow>
          if k = [] then (ResError (Some ErrCacheInvalidKey), m) else (ResError None, m(k := None))
      | CallClear \<Rightarrow> if rch_namespace c = [] then (ResError (Some ErrNoNamespace), m) else (ResError None, Map.empty)
      | CallGetMulti ks \<Rightarrow>
          (ResMap (if [] \<in> set ks then Inl ErrCacheInvalidKey else Inr (live now m |` set ks)), m)
      | CallSetMulti items \<Rightarrow>
          if [] \<in> set (map fst items) then (ResError (Some ErrCacheInvalidKey), m)
          else (ResError None, put_all items (until (rch_defaultTTL c) now) m)
      | CallSetMultiWithTTL items ttl \<Rightarrow>
          if [] \<in> set (map fst items) then (ResError (Some ErrCacheInvalidKey), m)
          else (ResError None, put_all items (until ttl now) m)
      | CallDeleteMulti ks \<Rightarrow>
          if [] \<in> set ks then (ResError (Some ErrCacheInvalidKey), m) else (ResError None, m |` (- set ks))
      | CallIncrement k n \<Rightarrow> if k = [] then (ResNumber (Inl ErrCacheInvalidKey), m) else spec_add num now k n m
      | CallDecrement k n \<Rightarrow> if k = [] then (ResNumber (Inl ErrCacheInvalidKey), m) else spec_add num now k (- n) m)"

text \<open>What the cache relies on its callers for: lifetimes in milliseconds and maps without repeated keys.\<close>

fun call_fits :: "cache_call \<Rightarrow> bool" where
  "call_fits (CallSetWithTTL k v ttl) = ok_ttl ttl"
| "call_fits (CallSetMulti items) = distinct (map fst items)"
| "call_fits (CallSetMultiWithTTL items ttl) = (ok_ttl ttl \<and> distinct (map fst items))"
| "call_fits _ = True"

lemma live_put: "live t (m(k \<mapsto> (v, until ttl now))) = (live t m)(k := (if in_time ttl now t then Some v else None))"
  by (auto simp: live_def until_def in_time_def fun_eq_iff)

lemma live_remove: "live t (m |` A) = live t m |` A"
  by (auto simp: live_def restrict_map_def fun_eq_iff)

lemma live_put_all:
  "live t (put_all items (until ttl now) m) =
     (\<lambda>k. case map_of items k of None \<Rightarrow> live t m k | Some v \<Rightarrow> if in_time ttl now t then Some v else None)"
  by (auto simp: live_def put_all_def until_def in_time_def fun_eq_iff split: option.splits)

lemma restrict_map_UNIV: "m |` UNIV = m"
  by (simp add: restrict_map_def fun_eq_iff)

lemma map_of_formatted: "map_of (map (\<lambda>(k, v). (formatKey ns k, v)) items) (formatKey ns k) = map_of items k"
  by (induction items) (auto simp: formatKey_inj)

lemma found_map:
  "found ks (map (\<lambda>k. case f k of None \<Rightarrow> Inl RedisNil | Some v \<Rightarrow> Inr v) ks) = f |` set ks"
proof -
  let ?g = "\<lambda>k. case f k of None \<Rightarrow> Inl RedisNil | Some v \<Rightarrow> Inr v"
  let ?step = "\<lambda>m (k, r). case r of Inr v \<Rightarrow> m(k \<mapsto> v) | Inl e \<Rightarrow> m"
  have "foldl ?step m (zip ks (map ?g ks)) = m ++ (f |` set ks)" for m
  proof (induction ks arbitrary: m)
    case (Cons k ks)
    have "?step m (k, ?g k) ++ (f |` set ks) = m ++ (f |` set (k # ks))"
      by (auto simp: map_add_def restrict_map_def fun_eq_iff split: option.splits)
    with Cons show ?case by simp
  qed simp
  then show ?thesis by (simp add: found_def)
qed

text \<open>The state of the server and the table agree on the keys of a namespace, now and later.\<close>

definition cache_sim :: "(time \<Rightarrow> 's \<Rightarrow> string \<rightharpoonup> string) \<Rightarrow> string \<Rightarrow> time \<Rightarrow> 's \<Rightarrow> cache_table \<Rightarrow> bool" where
  "cache_sim tab ns now s m \<longleftrightarrow> (\<forall>t\<ge>now. \<forall>k. k \<noteq> [] \<longrightarrow> tab t s (formatKey ns k) = live t m k)"

definition refines_call ::
  "(time \<Rightarrow> 's \<Rightarrow> string \<rightharpoonup> string) \<Rightarrow> string \<Rightarrow> time \<Rightarrow> cache_result \<times> 's \<Rightarrow> cache_result \<times> cache_table \<Rightarrow> bool" where
  "refines_call tab ns now c a \<longleftrightarrow> redis_failed (fst c) \<or> (fst c = fst a \<and> cache_sim tab ns now (snd c) (snd a))"

lemma cache_sim_later: "cache_sim tab ns now s m \<Longrightarrow> now \<le> t \<Longrightarrow> cache_sim tab ns t s m"
  by (auto simp: cache_sim_def)

context redis_strings
begin

lemma keeps_sim: "cache_sim tab ns now s m \<Longrightarrow> (\<And>t. now \<le> t \<Longrightarrow> tab t s' = tab t s) \<Longrightarrow> cache_sim tab ns now s' m"
  by (simp add: cache_sim_def)

lemma get_refines:
  assumes "cache_sim tab (rch_namespace c) now s m"
  shows "refines_call tab (rch_namespace c) now (cache_do client c now (CallGet k) s) (cache_spec num c now (CallGet k) m)"
proof (cases "k = []")
  case False
  obtain g s' where g: "rdc_Get client now (formatKey (rch_namespace c) k) s = (g, s')" by fastforce
  have sim: "cache_sim tab (rch_namespace c) now s' m" using assms get_keeps [OF g] by (rule keeps_sim)
  have t: "tab now s (formatKey (rch_namespace c) k) = live now m k" using assms False by (simp add: cache_sim_def)
  note defs = refines_call_def cache_do_def cache_spec_def cache_Get_def validateKey_def
  show ?thesis
  proof (cases g)
    case (Inl e)
    then show ?thesis using False g sim get_nil [of now _ s s'] t by (cases e) (auto simp: defs)
  next
    case (Inr v)
    then have "live now m k = Some v" using get_ok [of now _ s v s'] g t by simp
    then show ?thesis using False g sim Inr by (simp add: defs)
  qed
qed (use assms in \<open>simp add: refines_call_def cache_do_def cache_spec_def cache_Get_def validateKey_def\<close>)

lemma set_refines:
  assumes "cache_sim tab (rch_namespace c) now s m" and "ok_ttl ttl"
  shows "refines_call tab (rch_namespace c) now (cache_do client c now (CallSetWithTTL k v ttl) s)
    (cache_spec num c now (CallSetWithTTL k v ttl) m)"
proof (cases "k = []")
  case False
  obtain e s' where e: "rdc_Set client now (formatKey (rch_namespace c) k) v ttl s = (e, s')" by fastforce
  have "cache_sim tab (rch_namespace c) now s' (m(k \<mapsto> (v, until ttl now)))" if "e = None"
    using set_ok [of now _ v ttl s s'] e that assms by (auto simp: cache_sim_def live_put formatKey_inj)
  then show ?thesis using False e
    by (cases e) (auto simp: refines_call_def cache_do_def cache_spec_def cache_SetWithTTL_def validateKey_def redis_err_def)
qed (use assms in \<open>simp add: refines_call_def cache_do_def cache_spec_def cache_SetWithTTL_def validateKey_def\<close>)

lemma del_sim:
  assumes "cache_sim tab ns now s m" and "rdc_Del client now (map (formatKey ns) ks) s = (None, s')"
  shows "cache_sim tab ns now s' (m |` (- set ks))"
  using del_ok [OF assms(2)] assms(1)
  by (auto simp: cache_sim_def live_remove restrict_map_def [of "tab _ _"] restrict_map_def [of "live _ _"] formatKey_inj)

lemma delete_refines:
  assumes "cache_sim tab (rch_namespace c) now s m"
  shows "refines_call tab (rch_namespace c) now (cache_do client c now (CallDelete k) s) (cache_spec num c now (CallDelete k) m)"
proof (cases "k = []")
  case False
  obtain e s' where e: "rdc_Del client now [formatKey (rch_namespace c) k] s = (e, s')" by fastforce
  have "cache_sim tab (rch_namespace c) now s' (m(k := None))" if "e = None"
    using del_sim [OF assms, of "[k]" s'] e that by (simp add: restrict_complement_singleton_eq)
  then show ?thesis using False e
    by (cases e) (auto simp: refines_call_def cache_do_def cache_spec_def cache_Delete_def validateKey_def redis_err_def)
qed (use assms in \<open>simp add: refines_call_def cache_do_def cache_spec_def cache_Delete_def validateKey_def\<close>)

lemma delete_multi_refines:
  assumes "cache_sim tab (rch_namespace c) now s m"
  shows "refines_call tab (rch_namespace c) now (cache_do client c now (CallDeleteMulti ks) s) (cache_spec num c now (CallDeleteMulti ks) m)"
proof (cases "[] \<in> set ks \<or> ks = []")
  case False
  obtain e s' where e: "rdc_Del client now (map (formatKey (rch_namespace c)) ks) s = (e, s')" by fastforce
  have "cache_sim tab (rch_namespace c) now s' (m |` (- set ks))" if "e = None"
    using del_sim [OF assms, of ks s'] e that by simp
  then show ?thesis using False e format_all_ok [of ks]
    by (cases e) (auto simp: refines_call_def cache_do_def cache_spec_def cache_DeleteMulti_def redis_err_def)
qed (use assms in \<open>auto simp: refines_call_def cache_do_def cache_spec_def cache_DeleteMulti_def format_all_bad restrict_map_UNIV\<close>)

lemma get_multi_refines:
  assumes "cache_sim tab (rch_namespace c) now s m"
  shows "refines_call tab (rch_namespace c) now (cache_do client c now (CallGetMulti ks) s) (cache_spec num c now (CallGetMulti ks) m)"
proof (cases "[] \<in> set ks \<or> ks = []")
  case False
  let ?fs = "map (formatKey (rch_namespace c)) ks"
  note defs = refines_call_def cache_do_def cache_spec_def cache_GetMulti_def format_all_ok
  obtain e rs s' where g: "rdc_GetPipe client now ?fs s = (e, rs, s')" by (metis prod_cases3)
  have sim: "cache_sim tab (rch_namespace c) now s' m" using assms getpipe_keeps [OF g] by (rule keeps_sim)
  have t: "tab now s (formatKey (rch_namespace c) k) = live now m k" if "k \<in> set ks" for k
    using assms False that unfolding cache_sim_def by (metis order_refl)
  have rs: "found ks rs = live now m |` set ks" if "e = None \<or> e = Some RedisNil"
  proof -
    have "rs = map (\<lambda>k. case live now m k of None \<Rightarrow> Inl RedisNil | Some v \<Rightarrow> Inr v) ks"
      using getpipe_ok [OF g that] t by simp
    then show ?thesis by (simp add: found_map)
  qed
  consider "e = None \<or> e = Some RedisNil" | x where "e = Some (RedisErr x)" by (metis option.exhaust redis_error.exhaust)
  then show ?thesis
  proof cases
    case 1
    then show ?thesis using False g sim rs by (auto simp: defs)
  qed (use False g in \<open>simp add: defs\<close>)
qed (use assms in \<open>auto simp: refines_call_def cache_do_def cache_spec_def cache_GetMulti_def format_all_bad\<close>)

lemma set_multi_refines:
  assumes "cache_sim tab (rch_namespace c) now s m" and "ok_ttl ttl" and "distinct (map fst items)"
  shows "refines_call tab (rch_namespace c) now (cache_do client c now (CallSetMultiWithTTL items ttl) s)
    (cache_spec num c now (CallSetMultiWithTTL items ttl) m)"
proof (cases "[] \<in> fst ` set items \<or> items = []")
  case False
  let ?is = "map (\<lambda>(k, v). (formatKey (rch_namespace c) k, v)) items"
  have zip: "zip (map (formatKey (rch_namespace c)) (map fst items)) (map snd items) = ?is"
    by (induction items) auto
  obtain e s' where e: "rdc_SetPipe client now ?is ttl s = (e, s')" by fastforce
  have d: "distinct (map fst ?is)" using assms(3) by (induction items) (auto simp: formatKey_inj image_iff)
  have "cache_sim tab (rch_namespace c) now s' (put_all items (until ttl now) m)" if "e = None"
    using setpipe_ok [of now ?is ttl s s'] e that d assms(1,2)
    by (auto simp: cache_sim_def live_put_all map_of_formatted split: option.splits)
  then show ?thesis using False e zip format_all_ok [of "map fst items" "rch_namespace c"]
    by (cases e) (auto simp: refines_call_def cache_do_def cache_spec_def cache_SetMultiWithTTL_def redis_err_def)
qed (use assms in \<open>auto simp: refines_call_def cache_do_def cache_spec_def cache_SetMultiWithTTL_def format_all_bad put_all_def\<close>)

lemma add_sim:
  assumes sim: "cache_sim tab ns now s m" and k: "k \<noteq> []"
    and r: "int64_range r" "case tab now s (formatKey ns k) of None \<Rightarrow> r = n | Some v \<Rightarrow> num v = Some (r - n)"
    and tab: "\<And>t. now \<le> t \<Longrightarrow> tab t s' = (tab t s)(formatKey ns k :=
      (if tab now s (formatKey ns k) \<noteq> None \<and> tab t s (formatKey ns k) = None then None else Some (fmt_d r)))"
  shows "\<exists>m'. spec_add num now k n m = (ResNumber (Inr r), m') \<and> cache_sim tab ns now s' m'"
proof -
  have l: "tab t s (formatKey ns k') = live t m k'" if "now \<le> t" "k' \<noteq> []" for t k' using sim that by (simp add: cache_sim_def)
  show ?thesis
  proof (cases "live now m k")
    case None
    then have "spec_add num now k n m = (ResNumber (Inr r), m(k \<mapsto> (fmt_d r, None)))" using r l k by (simp add: spec_add_def counter_def)
    moreover have "cache_sim tab ns now s' (m(k \<mapsto> (fmt_d r, None)))"
      using tab l k None by (auto simp: cache_sim_def formatKey_inj live_def)
    ultimately show ?thesis by blast
  next
    case (Some v)
    then obtain e where e: "m k = Some (v, e)" by (auto simp: live_def split: option.splits if_splits)
    have "spec_add num now k n m = (ResNumber (Inr r), m(k \<mapsto> (fmt_d r, e)))" using r l k Some e by (simp add: spec_add_def counter_def)
    moreover have "cache_sim tab ns now s' (m(k \<mapsto> (fmt_d r, e)))"
      using tab l k Some e by (auto simp: cache_sim_def formatKey_inj live_def)
    ultimately show ?thesis by blast
  qed
qed

lemma increment_refines:
  assumes "cache_sim tab (rch_namespace c) now s m"
  shows "refines_call tab (rch_namespace c) now (cache_do client c now (CallIncrement k n) s) (cache_spec num c now (CallIncrement k n) m)"
proof (cases "k = []")
  case False
  obtain g s' where g: "rdc_IncrBy client now (formatKey (rch_namespace c) k) n s = (g, s')" by fastforce
  show ?thesis
  proof (cases g)
    case (Inr r)
    have "\<exists>m'. spec_add num now k n m = (ResNumber (Inr r), m') \<and> cache_sim tab (rch_namespace c) now s' m'"
      using assms False by (rule add_sim) (use incr_ok [of now _ n s r s'] g Inr in auto)
    then show ?thesis using False g Inr
      by (auto simp: refines_call_def cache_do_def cache_spec_def cache_Increment_def validateKey_def)
  qed (use False g in \<open>simp add: refines_call_def cache_do_def cache_Increment_def validateKey_def\<close>)
qed (use assms in \<open>simp add: refines_call_def cache_do_def cache_spec_def cache_Increment_def validateKey_def\<close>)

lemma decrement_refines:
  assumes "cache_sim tab (rch_namespace c) now s m"
  shows "refines_call tab (rch_namespace c) now (cache_do client c now (CallDecrement k n) s) (cache_spec num c now (CallDecrement k n) m)"
proof (cases "k = []")
  case False
  obtain g s' where g: "rdc_DecrBy client now (formatKey (rch_namespace c) k) n s = (g, s')" by fastforce
  show ?thesis
  proof (cases g)
    case (Inr r)
    have "\<exists>m'. spec_add num now k (- n) m = (ResNumber (Inr r), m') \<and> cache_sim tab (rch_namespace c) now s' m'"
      using assms False by (rule add_sim) (use decr_ok [of now "formatKey (rch_namespace c) k" n s r s'] g Inr in \<open>auto split: option.splits\<close>)
    then show ?thesis using False g Inr
      by (auto simp: refines_call_def cache_do_def cache_spec_def cache_Decrement_def validateKey_def)
  qed (use False g in \<open>simp add: refines_call_def cache_do_def cache_Decrement_def validateKey_def\<close>)
qed (use assms in \<open>simp add: refines_call_def cache_do_def cache_spec_def cache_Decrement_def validateKey_def\<close>)

lemma clear_refines:
  assumes sim: "cache_sim tab (rch_namespace c) now s m" and plain: "plain_text (rch_namespace c)"
  shows "refines_call tab (rch_namespace c) now (cache_do client c now CallClear s) (cache_spec num c now CallClear m)"
proof (cases "rch_namespace c = []")
  case True
  then show ?thesis using sim by (simp add: refines_call_def cache_do_def cache_spec_def cache_Clear_def)
next
  case False
  note ns = False plain
  let ?ns = "rch_namespace c"
  obtain g s1 where g: "scan_loop client now (?ns @ '':*'') 0 [] s = Some (g, s1)" and k1: "\<forall>t\<ge>now. tab t s1 = tab t s"
    and all: "\<forall>ks. g = Inr ks \<longrightarrow> set ks = todo now (?ns @ '':*'') 0 s"
    using scan_loop_finds [of now "?ns @ '':*''" 0 "[]" s] by auto
  have "plain_text (?ns @ '':'')" using ns(2) by (auto simp: plain_text_def)
  then have match: "matches (?ns @ '':*'') (formatKey ?ns k)" for k
    using plain_matches [of "?ns @ '':''" "formatKey ?ns k"] ns(1) by (auto simp: formatKey_def HasPrefix_iff)
  show ?thesis
  proof (cases g)
    case (Inr ks)
    have gone: "formatKey ?ns k \<in> set ks \<or> tab t s1 (formatKey ?ns k) = None" if "now \<le> t" for t k
    proof (cases "tab t s1 (formatKey ?ns k)")
      case (Some v)
      then have "tab now s (formatKey ?ns k) = Some v" using expires [OF that] k1 that by metis
      then show ?thesis using all Inr match scan_start by blast
    qed simp
    obtain e s2 where e: "rdc_Del client now ks s1 = (e, s2)" by fastforce
    have "cache_sim tab ?ns now s2 Map.empty" if "e = None"
      using del_ok [of now ks s1 s2] e that gone by (auto simp: cache_sim_def live_def restrict_map_def)
    moreover have "cache_sim tab ?ns now s1 Map.empty" if "ks = []"
      using gone that by (auto simp: cache_sim_def live_def)
    ultimately show ?thesis using g Inr e ns(1)
      by (cases e) (auto simp: refines_call_def cache_do_def cache_spec_def cache_Clear_def redis_err_def)
  qed (use g ns(1) in \<open>simp add: refines_call_def cache_do_def cache_Clear_def\<close>)
qed

lemma call_refines:
  assumes "cache_sim tab (rch_namespace c) now s m" and "call_fits call" and "ok_ttl (rch_defaultTTL c)"
    and "call = CallClear \<Longrightarrow> plain_text (rch_namespace c)"
  shows "refines_call tab (rch_namespace c) now (cache_do client c now call s) (cache_spec num c now call m)"
proof (cases call)
  case (CallSet k v)
  then show ?thesis using set_refines [OF assms(1,3), of k v] by (simp add: cache_do_def cache_spec_def cache_Set_def)
next
  case (CallSetMulti items)
  then show ?thesis using set_multi_refines [OF assms(1,3), of items] assms(2) by (simp add: cache_do_def cache_spec_def cache_SetMulti_def)
qed (use assms in \<open>auto intro: get_refines set_refines delete_refines clear_refines get_multi_refines set_multi_refines
      delete_multi_refines increment_refines decrement_refines\<close>)

end

context redis_reliable
begin

lemma clear_answers: "\<not> redis_failed (fst (cache_do client c now CallClear s))"
proof -
  let ?p = "rch_namespace c @ '':*''"
  obtain g s1 where g: "scan_loop client now ?p 0 [] s = Some (g, s1)"
    and e: "\<forall>e. g = Inl e \<longrightarrow> (\<exists>cursor s s'. rdc_Scan client now cursor ?p 100 s = (Inl e, s'))"
    using scan_loop_finds [of now ?p 0 "[]" s] by blast
  have "g \<noteq> Inl e" for e using e scan_answers by (metis fst_conv)
  then obtain ks where "g = Inr ks" by (cases g) auto
  then show ?thesis using g del_answers [of now ks s1]
    by (cases "rdc_Del client now ks s1") (auto simp: cache_do_def cache_Clear_def redis_err_def)
qed

text \<open>Only counters fail, and like the table.\<close>

lemma only_counters_fail:
  assumes "redis_failed (fst (cache_do client c now call s))"
  shows "\<exists>k n e s'. k \<noteq> [] \<and> (call = CallIncrement k n \<and> rdc_IncrBy client now (formatKey (rch_namespace c) k) n s = (Inl e, s') \<or>
    call = CallDecrement k n \<and> rdc_DecrBy client now (formatKey (rch_namespace c) k) n s = (Inl e, s')) \<and>
    cache_do client c now call s = (ResNumber (Inl (ErrRedis e)), s')"
proof (cases call)
  case (CallGet k)
  then show ?thesis using assms get_answers [of now "formatKey (rch_namespace c) k" s]
    by (cases "rdc_Get client now (formatKey (rch_namespace c) k) s")
      (auto simp: cache_do_def cache_Get_def validateKey_def split: if_splits sum.splits redis_error.splits)
next
  case (CallSet k v)
  then show ?thesis using assms set_answers [of now "formatKey (rch_namespace c) k" v "rch_defaultTTL c" s]
    by (cases "rdc_Set client now (formatKey (rch_namespace c) k) v (rch_defaultTTL c) s")
      (auto simp: cache_do_def cache_Set_def cache_SetWithTTL_def validateKey_def redis_err_def split: if_splits)
next
  case (CallSetWithTTL k v ttl)
  then show ?thesis using assms set_answers [of now "formatKey (rch_namespace c) k" v ttl s]
    by (cases "rdc_Set client now (formatKey (rch_namespace c) k) v ttl s")
      (auto simp: cache_do_def cache_SetWithTTL_def validateKey_def redis_err_def split: if_splits)
next
  case (CallDelete k)
  then show ?thesis using assms del_answers [of now "[formatKey (rch_namespace c) k]" s]
    by (cases "rdc_Del client now [formatKey (rch_namespace c) k] s")
      (auto simp: cache_do_def cache_Delete_def validateKey_def redis_err_def split: if_splits)
next
  case CallClear
  then show ?thesis using assms clear_answers by simp
next
  case (CallGetMulti ks)
  then show ?thesis using assms getpipe_answers [of now "map (formatKey (rch_namespace c)) ks" s]
    by (cases "[] \<in> set ks"; cases "rdc_GetPipe client now (map (formatKey (rch_namespace c)) ks) s")
      (auto simp: cache_do_def cache_GetMulti_def format_all_ok format_all_bad split: if_splits option.splits redis_error.splits)
next
  case (CallSetMulti items)
  then have "\<not> redis_failed (fst (cache_do client c now call s))"
    using setpipe_answers by (cases "format_all (rch_namespace c) (map fst items)")
      (auto simp: cache_do_def cache_SetMulti_def cache_SetMultiWithTTL_def redis_err_def split_beta dest!: format_all_error)
  then show ?thesis using assms by simp
next
  case (CallSetMultiWithTTL items ttl)
  then have "\<not> redis_failed (fst (cache_do client c now call s))"
    using setpipe_answers by (cases "format_all (rch_namespace c) (map fst items)")
      (auto simp: cache_do_def cache_SetMultiWithTTL_def redis_err_def split_beta dest!: format_all_error)
  then show ?thesis using assms by simp
next
  case (CallDeleteMulti ks)
  then have "\<not> redis_failed (fst (cache_do client c now call s))"
    using del_answers by (cases "format_all (rch_namespace c) ks")
      (auto simp: cache_do_def cache_DeleteMulti_def redis_err_def split_beta dest!: format_all_error)
  then show ?thesis using assms by simp
next
  case (CallIncrement k n)
  then show ?thesis using assms
    by (auto simp: cache_do_def cache_Increment_def validateKey_def split: if_splits sum.splits prod.splits)
next
  case (CallDecrement k n)
  then show ?thesis using assms
    by (auto simp: cache_do_def cache_Decrement_def validateKey_def split: if_splits sum.splits prod.splits)
qed

lemma call_answers:
  assumes sim: "cache_sim tab (rch_namespace c) now s m" and "call_fits call" and "ok_ttl (rch_defaultTTL c)"
    and "call = CallClear \<Longrightarrow> plain_text (rch_namespace c)" and do: "cache_do client c now call s = (r, s')"
  shows "\<exists>m'. cache_spec num c now call m = (blank r, m') \<and> cache_sim tab (rch_namespace c) now s' m'"
proof (cases "redis_failed r")
  case False
  with call_refines [OF assms(1-4)] do show ?thesis by (auto simp: refines_call_def blank_ok intro: exI [of _ "snd (cache_spec num c now call m)"])
next
  case True
  then obtain k n e where k: "k \<noteq> []" and c: "call = CallIncrement k n \<and> rdc_IncrBy client now (formatKey (rch_namespace c) k) n s = (Inl e, s') \<or>
    call = CallDecrement k n \<and> rdc_DecrBy client now (formatKey (rch_namespace c) k) n s = (Inl e, s')" and r: "r = ResNumber (Inl (ErrRedis e))"
    using only_counters_fail [of c now call s] do by auto
  have t: "tab now s (formatKey (rch_namespace c) k) = live now m k" using sim k by (simp add: cache_sim_def)
  have "cache_sim tab (rch_namespace c) now s' m"
    by (rule keeps_sim [OF sim]) (use c incr_answers decr_answers in blast)
  moreover have "cache_spec num c now call m = (blank r, m)"
    using c k r t incr_answers [of now "formatKey (rch_namespace c) k" n s e s' now] decr_answers [of now "formatKey (rch_namespace c) k" n s e s' now]
    by (auto simp: cache_spec_def spec_add_def split: option.split)
  ultimately show ?thesis by blast
qed

end

subsection \<open>Runs\<close>

text \<open>Calls at their instants.\<close>

fun cache_run :: "'s redis_client \<Rightarrow> RedisCache \<Rightarrow> (time \<times> cache_call) list \<Rightarrow> 's \<Rightarrow> cache_result list \<times> 's" where
  "cache_run client c [] s = ([], s)"
| "cache_run client c ((now, call) # calls) s =
     (let (r, s) = cache_do client c now call s; (rs, s) = cache_run client c calls s in (r # rs, s))"

fun spec_run :: "(string \<Rightarrow> int option) \<Rightarrow> RedisCache \<Rightarrow> (time \<times> cache_call) list \<Rightarrow> cache_table \<Rightarrow> cache_result list" where
  "spec_run num c [] m = []"
| "spec_run num c ((now, call) # calls) m = (let (r, m) = cache_spec num c now call m in r # spec_run num c calls m)"

definition run_fits :: "RedisCache \<Rightarrow> time \<Rightarrow> (time \<times> cache_call) list \<Rightarrow> bool" where
  "run_fits c start calls \<longleftrightarrow> sorted (start # map fst calls) \<and> (\<forall>(t, call) \<in> set calls. call_fits call) \<and> ok_ttl (rch_defaultTTL c) \<and>
     (CallClear \<in> snd ` set calls \<longrightarrow> plain_text (rch_namespace c))"

lemma run_fits_Cons:
  assumes "run_fits c start ((now, call) # calls)"
  shows "start \<le> now" "call_fits call" "ok_ttl (rch_defaultTTL c)" "call = CallClear \<Longrightarrow> plain_text (rch_namespace c)" "run_fits c now calls"
  using assms by (auto simp: run_fits_def)

lemma cache_run_refines:
  assumes "redis_strings client tab matches num todo left" and "cache_sim tab (rch_namespace c) start s m" and "run_fits c start calls"
  shows "\<exists>n. takeWhile (\<lambda>r. \<not> redis_failed r) (fst (cache_run client c calls s)) = take n (spec_run num c calls m)"
  using assms(2,3)
proof (induction calls arbitrary: start s m)
  case (Cons a calls)
  obtain now call where a: "a = (now, call)" by fastforce
  obtain r s' where r: "cache_do client c now call s = (r, s')" by fastforce
  obtain r2 m' where m: "cache_spec num c now call m = (r2, m')" by fastforce
  note fits = run_fits_Cons [OF Cons.prems(2) [unfolded a]]
  have ref: "refines_call tab (rch_namespace c) now (cache_do client c now call s) (cache_spec num c now call m)"
    by (rule redis_strings.call_refines [OF assms(1) cache_sim_later [OF Cons.prems(1) fits(1)] fits(2,3)]) (rule fits(4))
  show ?case
  proof (cases "redis_failed r")
    case True
    then show ?thesis using a r by (intro exI [of _ 0]) (simp add: split_beta)
  next
    case False
    with ref r m have eq: "r = r2" and sim: "cache_sim tab (rch_namespace c) now s' m'" by (simp_all add: refines_call_def)
    obtain n where "takeWhile (\<lambda>r. \<not> redis_failed r) (fst (cache_run client c calls s')) = take n (spec_run num c calls m')"
      using Cons.IH [OF sim fits(5)] by auto
    then show ?thesis using a r m eq False by (intro exI [of _ "Suc n"]) (simp add: split_beta)
  qed
qed simp

lemma cache_run_answers:
  assumes "redis_reliable client tab matches num todo left" and "cache_sim tab (rch_namespace c) start s m" and "run_fits c start calls"
  shows "map blank (fst (cache_run client c calls s)) = spec_run num c calls m"
  using assms(2,3)
proof (induction calls arbitrary: start s m)
  case (Cons a calls)
  obtain now call where a: "a = (now, call)" by fastforce
  obtain r s' where r: "cache_do client c now call s = (r, s')" by fastforce
  note fits = run_fits_Cons [OF Cons.prems(2) [unfolded a]]
  obtain m' where m: "cache_spec num c now call m = (blank r, m')" "cache_sim tab (rch_namespace c) now s' m'"
    using redis_reliable.call_answers [OF assms(1) cache_sim_later [OF Cons.prems(1) fits(1)] fits(2,3) _ r] fits(4) by blast
  from Cons.IH [OF m(2) fits(5)] show ?case using a r m(1) by (simp add: split_beta)
qed simp

subsection \<open>A server\<close>

text \<open>A server that keeps the laws: entries with their expiry, the latest first, and a scan of one key per batch.\<close>

type_synonym redis_mem = "(string \<times> string \<times> time option) list"

definition star_matches :: "string \<Rightarrow> string \<Rightarrow> bool" where
  "star_matches p k = (if p \<noteq> [] \<and> last p = CHR ''*'' then strings_HasPrefix k (butlast p) else k = p)"

definition mem_add :: "time \<Rightarrow> string \<Rightarrow> int \<Rightarrow> redis_mem \<Rightarrow> (string + int) \<times> redis_mem" where
  "mem_add now k n s =
     (case live now (map_of s) k of
        None \<Rightarrow>
          if int64_range n then (Inr n, (k, fmt_d n, None) # s) else (Inl ''ERR increment or decrement would overflow'', s)
      | Some v \<Rightarrow>
          (case strconv_ParseInt v of
             None \<Rightarrow> (Inl ''ERR value is not an integer or out of range'', s)
           | Some i \<Rightarrow>
               if int64_range (i + n) then (Inr (i + n), (k, fmt_d (i + n), snd (the (map_of s k))) # s)
               else (Inl ''ERR increment or decrement would overflow'', s)))"

definition mem_keys :: "time \<Rightarrow> string \<Rightarrow> redis_mem \<Rightarrow> string list" where
  "mem_keys now p s = filter (\<lambda>k. live now (map_of s) k \<noteq> None \<and> star_matches p k) (map fst s)"

definition redis_mem :: "redis_mem redis_client" where
  "redis_mem =
     \<lparr>rdc_Get = (\<lambda>now k s. (case live now (map_of s) k of None \<Rightarrow> Inl RedisNil | Some v \<Rightarrow> Inr v, s)),
      rdc_Set = (\<lambda>now k v ttl s. (None, (k, v, until ttl now) # s)),
      rdc_Del = (\<lambda>now ks s. (None, filter (\<lambda>(k, e). k \<notin> set ks) s)),
      rdc_Scan = (\<lambda>now cursor p n s. (let ks = drop (nat cursor) (mem_keys now p s)
         in Inr (take 1 ks, if 1 < length ks then int (nat cursor) + 1 else 0), s)),
      rdc_GetPipe = (\<lambda>now ks s. (None, map (\<lambda>k. case live now (map_of s) k of None \<Rightarrow> Inl RedisNil | Some v \<Rightarrow> Inr v) ks, s)),
      rdc_SetPipe = (\<lambda>now items ttl s. (None, map (\<lambda>(k, v). (k, v, until ttl now)) items @ s)),
      rdc_IncrBy = (\<lambda>now k n s. mem_add now k n s),
      rdc_DecrBy = (\<lambda>now k n s. mem_add now k (- n) s),
      rdc_Ping = (\<lambda>s. None),
      rdc_Close = (\<lambda>s. (None, s))\<rparr>"

definition mem_tab :: "time \<Rightarrow> redis_mem \<Rightarrow> string \<rightharpoonup> string" where
  "mem_tab t s = live t (map_of s)"

lemma live_expires: "now \<le> t \<Longrightarrow> live t m k = Some v \<Longrightarrow> live now m k = Some v"
  by (force simp: live_def split: option.splits if_splits)

lemma live_dom: "live t (map_of s) k = Some v \<Longrightarrow> k \<in> fst ` set s"
  by (auto simp: live_def split: option.splits dest!: map_of_SomeD intro: rev_image_eqI)

lemma map_of_without: "map_of (filter (\<lambda>(k, e). k \<notin> A) s) = map_of s |` (- A)"
  by (induction s) (auto simp: fun_eq_iff restrict_map_def)

lemma map_of_entries:
  "map_of s ++ map_of (map (\<lambda>(k, v). (k, v, e)) items) = put_all items e (map_of s)"
  by (induction items) (auto simp: fun_eq_iff put_all_def map_add_def split: option.splits)

lemma mem_add_ok:
  assumes "mem_add now k n s = (Inr r, s')"
  shows "int64_range r \<and> (case mem_tab now s k of None \<Rightarrow> r = n | Some v \<Rightarrow> strconv_ParseInt v = Some (r - n)) \<and>
    (now \<le> t \<longrightarrow> mem_tab t s' = (mem_tab t s)(k := (if mem_tab now s k \<noteq> None \<and> mem_tab t s k = None then None else Some (fmt_d r))))"
proof (cases "live now (map_of s) k")
  case None
  then show ?thesis using assms live_expires [of now t "map_of s" k]
    by (auto simp: mem_add_def mem_tab_def fun_eq_iff live_def split: option.splits if_splits)
next
  case (Some v)
  then obtain e where e: "map_of s k = Some (v, e)" by (auto simp: live_def split: option.splits if_splits)
  then show ?thesis using assms Some
    by (auto simp: mem_add_def mem_tab_def fun_eq_iff live_def split: option.splits if_splits)
qed

lemma mem_add_fails:
  "mem_add now k n s = (Inl e, s') \<Longrightarrow> s' = s \<and> (\<forall>i. counter strconv_ParseInt (mem_tab now s k) = Some i \<longrightarrow> \<not> int64_range (i + n))"
  by (auto simp: mem_add_def mem_tab_def counter_def split: option.splits if_splits)

definition mem_todo :: "time \<Rightarrow> string \<Rightarrow> int \<Rightarrow> redis_mem \<Rightarrow> string set" where
  "mem_todo now p cursor s = set (drop (nat cursor) (mem_keys now p s))"

definition mem_left :: "time \<Rightarrow> string \<Rightarrow> int \<Rightarrow> redis_mem \<Rightarrow> nat" where
  "mem_left now p cursor s = length (mem_keys now p s) - nat cursor"

lemma drop_one: "set (drop n xs) = set (take 1 (drop n xs)) \<union> set (drop (Suc n) xs)"
proof -
  have "set (drop n xs) = set (take 1 (drop n xs)) \<union> set (drop 1 (drop n xs))"
    by (metis append_take_drop_id set_append)
  then show ?thesis by simp
qed

lemma mem_scan_batch:
  assumes "rdc_Scan redis_mem now cursor p n s = (Inr (batch, cursor'), s')"
  shows "mem_todo now p cursor s = set batch \<union> (if cursor' = 0 then {} else mem_todo now p cursor' s')"
proof (cases "1 < length (drop (nat cursor) (mem_keys now p s))")
  case True
  then have "batch = take 1 (drop (nat cursor) (mem_keys now p s))" "cursor' = int (Suc (nat cursor))" "s' = s"
    using assms by (auto simp: redis_mem_def Let_def)
  then show ?thesis unfolding mem_todo_def by (subst drop_one) (simp add: nat_add_distrib)
next
  case False
  then have "batch = drop (nat cursor) (mem_keys now p s)" "cursor' = 0"
    using assms by (auto simp: redis_mem_def Let_def)
  then show ?thesis by (simp add: mem_todo_def)
qed

interpretation memory: redis_reliable redis_mem mem_tab star_matches strconv_ParseInt mem_todo mem_left
proof unfold_locales
  fix now t s k v s' ttl and ks and items :: "(string \<times> string) list" and p and n r cursor cursor' :: int and gr sr e rs batch and er :: string
  show "now \<le> t \<Longrightarrow> mem_tab t s k = Some v \<Longrightarrow> mem_tab now s k = Some v" by (simp add: mem_tab_def live_expires)
  show "rdc_Get redis_mem now k s = (Inr v, s') \<Longrightarrow> mem_tab now s k = Some v"
    and "rdc_Get redis_mem now k s = (Inl RedisNil, s') \<Longrightarrow> mem_tab now s k = None"
    and "rdc_Get redis_mem now k s = (gr, s') \<Longrightarrow> now \<le> t \<Longrightarrow> mem_tab t s' = mem_tab t s"
    by (auto simp: redis_mem_def mem_tab_def split: option.splits)
  show "rdc_Set redis_mem now k v ttl s = (None, s') \<Longrightarrow> ok_ttl ttl \<Longrightarrow> now \<le> t \<Longrightarrow>
      mem_tab t s' = (mem_tab t s)(k := (if in_time ttl now t then Some v else None))"
    by (auto simp: redis_mem_def mem_tab_def live_put)
  show "rdc_Del redis_mem now ks s = (None, s') \<Longrightarrow> now \<le> t \<Longrightarrow> mem_tab t s' = mem_tab t s |` (- set ks)"
    by (auto simp: redis_mem_def mem_tab_def map_of_without live_remove)
  show "mem_todo now p 0 s = {k \<in> dom (mem_tab now s). star_matches p k}"
    using live_dom [of now s] by (auto simp: mem_todo_def mem_keys_def mem_tab_def)
  show "rdc_Scan redis_mem now cursor p n s = (Inr (batch, cursor'), s') \<Longrightarrow>
      mem_todo now p cursor s = set batch \<union> (if cursor' = 0 then {} else mem_todo now p cursor' s')"
    by (rule mem_scan_batch)
  show "rdc_Scan redis_mem now cursor p n s = (Inr (batch, cursor'), s') \<Longrightarrow> cursor' \<noteq> 0 \<Longrightarrow> mem_left now p cursor' s' < mem_left now p cursor s"
    by (auto simp: redis_mem_def mem_left_def Let_def nat_add_distrib split: if_splits)
  show "rdc_Scan redis_mem now cursor p n s = (sr, s') \<Longrightarrow> now \<le> t \<Longrightarrow> mem_tab t s' = mem_tab t s"
    by (auto simp: redis_mem_def)
  show "plain_text p \<Longrightarrow> star_matches (p @ ''*'') k \<longleftrightarrow> strings_HasPrefix k p"
    by (simp add: star_matches_def)
  show "rdc_GetPipe redis_mem now ks s = (e, rs, s') \<Longrightarrow> e = None \<or> e = Some RedisNil \<Longrightarrow>
      rs = map (\<lambda>k. case mem_tab now s k of None \<Rightarrow> Inl RedisNil | Some v \<Rightarrow> Inr v) ks"
    and "rdc_GetPipe redis_mem now ks s = (e, rs, s') \<Longrightarrow> now \<le> t \<Longrightarrow> mem_tab t s' = mem_tab t s"
    by (auto simp: redis_mem_def mem_tab_def)
  show "rdc_SetPipe redis_mem now items ttl s = (None, s') \<Longrightarrow> ok_ttl ttl \<Longrightarrow> distinct (map fst items) \<Longrightarrow> now \<le> t \<Longrightarrow>
      mem_tab t s' = (\<lambda>k. case map_of items k of None \<Rightarrow> mem_tab t s k | Some v \<Rightarrow> if in_time ttl now t then Some v else None)"
    unfolding mem_tab_def by (auto simp: redis_mem_def map_of_entries live_put_all)
  show "rdc_IncrBy redis_mem now k n s = (Inr r, s') \<Longrightarrow>
      int64_range r \<and> (case mem_tab now s k of None \<Rightarrow> r = n | Some v \<Rightarrow> strconv_ParseInt v = Some (r - n)) \<and>
      (now \<le> t \<longrightarrow> mem_tab t s' = (mem_tab t s)(k := (if mem_tab now s k \<noteq> None \<and> mem_tab t s k = None then None else Some (fmt_d r))))"
    by (rule mem_add_ok) (simp add: redis_mem_def)
  show "rdc_DecrBy redis_mem now k n s = (Inr r, s') \<Longrightarrow>
      int64_range r \<and> (case mem_tab now s k of None \<Rightarrow> r = - n | Some v \<Rightarrow> strconv_ParseInt v = Some (r + n)) \<and>
      (now \<le> t \<longrightarrow> mem_tab t s' = (mem_tab t s)(k := (if mem_tab now s k \<noteq> None \<and> mem_tab t s k = None then None else Some (fmt_d r))))"
    using mem_add_ok [of now k "- n" s r s' t] by (simp add: redis_mem_def split: option.splits)
  show "rdc_IncrBy redis_mem now k n s = (Inl er, s') \<Longrightarrow>
      (\<forall>i. counter strconv_ParseInt (mem_tab now s k) = Some i \<longrightarrow> \<not> int64_range (i + n)) \<and> (now \<le> t \<longrightarrow> mem_tab t s' = mem_tab t s)"
    using mem_add_fails [of now k n s er s'] by (simp add: redis_mem_def)
  show "rdc_DecrBy redis_mem now k n s = (Inl er, s') \<Longrightarrow>
      (\<forall>i. counter strconv_ParseInt (mem_tab now s k) = Some i \<longrightarrow> \<not> int64_range (i - n)) \<and> (now \<le> t \<longrightarrow> mem_tab t s' = mem_tab t s)"
    using mem_add_fails [of now k "- n" s er s'] by (simp add: redis_mem_def)
qed (auto simp: redis_mem_def split: option.split)

text \<open>
  C28: on a server that keeps what Redis documents of its commands - \<open>SCAN\<close> among them, which \<open>Clear\<close> calls until the cursor is 0 - a cache is a table with expiring entries.
  A client alone whose clock does not go back, with lifetimes in whole milliseconds and, where it calls \<open>Clear\<close>, a namespace without the characters that patterns
  give a meaning, gets for every sequence of calls the answers of the table - a value is found until its lifetime is over or it is deleted, cleared
  or replaced, and counters keep the lifetime of their entry - up to the first error of the server, and all of them when the server is reachable.
\<close>

theorem redis_cache_is_table:
  assumes "redis_strings client tab matches num todo left" and "cache_sim tab (rch_namespace c) start s m" and "run_fits c start calls"
  shows "(\<exists>n. takeWhile (\<lambda>r. \<not> redis_failed r) (fst (cache_run client c calls s)) = take n (spec_run num c calls m)) \<and>
    (redis_reliable client tab matches num todo left \<longrightarrow> map blank (fst (cache_run client c calls s)) = spec_run num c calls m)"
  using cache_run_refines [OF assms] cache_run_answers [OF _ assms(2,3)] by blast

definition demo_cache :: RedisCache where
  "demo_cache =
     (case NewRedisCache \<lparr>cc_Type = ''redis'', cc_Address = ''localhost:6379'', cc_Password = [], cc_Database = 0, cc_PoolSize = 0,
             cc_MinIdleConns = 0, cc_MaxConnAge = 0, cc_PoolTimeout = 0, cc_IdleTimeout = 0, cc_DefaultTTL = 0, cc_Namespace = ''app''\<rparr>
      of Inr c \<Rightarrow> c)"

definition demo_calls :: "(time \<times> cache_call) list" where
  "demo_calls =
     [(0, CallSetWithTTL ''k'' ''v'' Second), (0, CallSet ''l'' ''7''), (0, CallIncrement ''k'' 1), (1, CallIncrement ''l'' 1), (Second - 1, CallGet ''k''),
      (Second, CallGet ''k''), (Second, CallSet ''k'' ''w''), (Second, CallClear), (Second, CallGetMulti [''k'', ''l''])]"

theorem redis_cache_is_table_witness:
  "map blank (fst (cache_run redis_mem demo_cache demo_calls [])) =
     [ResError None, ResError None, ResNumber (Inl (ErrRedis [])), ResNumber (Inr 8), ResValue (Inr ''v''),
      ResValue (Inl ErrCacheMiss), ResError None, ResError None, ResMap (Inr Map.empty)]"
proof -
  have c: "rch_namespace demo_cache = ''app''" "rch_defaultTTL demo_cache = Hour" by (simp_all add: demo_cache_def NewRedisCache_def)
  have "cache_sim mem_tab (rch_namespace demo_cache) 0 [] Map.empty" by (simp add: cache_sim_def mem_tab_def live_def)
  moreover have "run_fits demo_cache 0 demo_calls" by (auto simp: run_fits_def demo_calls_def c ok_ttl_def plain_text_def duration_units)
  ultimately have "map blank (fst (cache_run redis_mem demo_cache demo_calls [])) = spec_run strconv_ParseInt demo_cache demo_calls Map.empty"
    using redis_cache_is_table [OF memory.redis_strings_axioms] memory.redis_reliable_axioms by blast
  moreover have n: "strconv_ParseInt ''7'' = Some 7" "strconv_ParseInt ''v'' = None" by code_simp+
  have "spec_run strconv_ParseInt demo_cache demo_calls Map.empty =
     [ResError None, ResError None, ResNumber (Inl (ErrRedis [])), ResNumber (Inr 8), ResValue (Inr ''v''),
      ResValue (Inl ErrCacheMiss), ResError None, ResError None, ResMap (Inr Map.empty)]"
    by (simp add: demo_calls_def cache_spec_def spec_add_def counter_def live_def until_def duration_units c n int64_range_def restrict_map_def fun_eq_iff)
  ultimately show ?thesis by simp
qed

text \<open>
  A cache whose namespace continues that of another one shares keys with it: clearing the one clears the other.
\<close>

theorem namespaces_overlap: "formatKey ''app'' ''users:1'' = formatKey ''app:users'' ''1''"
  by code_simp

end
