(* ===== verification/Seeder.thy ===== *)
theory Seeder
  imports Migrations "HOL-Library.Multiset"
begin

text \<open>
  Package data, \<open>seeder.go\<close>: seeding the database.  The database is the state of the application's data and the table of applied seeds;
  running the SQL of a seed, the pool and the errors of the other statements are arguments, as for the migrations.  Seeds of equal
  priority stay in no particular order: \<open>order\<close> is what \<open>sort.Slice\<close> makes of the list.
\<close>

subsection \<open>The seeder\<close>

record Seed =
  sd_Name :: string
  sd_SQL :: string
  sd_Priority :: int

record 'd seed_db =
  se_app :: 'd
  se_table :: "string list option" \<comment> \<open>\<open>schema_seeds\<close>\<close>

record PostgresSeeder =
  ps_seeds :: "Seed list"

datatype seed_error =
    ErrCreateSeedsTable string
  | ErrQuerySeeds string
  | ErrApplySeed string string
  | ErrRecordSeed string string
  | ErrSeedTx "seed_error tx_error"
  | ErrResetSeeds string
  | ErrNoSeedName
  | ErrNoSeedSQL
  | ErrDuplicateSeed string
  | ErrSeedFilename string
  | ErrSeedPriority string
  | ErrReadSeed string string
  | ErrSeedWalk string

definition NewPostgresSeeder :: PostgresSeeder where
  "NewPostgresSeeder = \<lparr>ps_seeds = []\<rparr>"

definition Seeder_Initialize :: "string option \<Rightarrow> 'd seed_db \<Rightarrow> seed_error option \<times> 'd seed_db" where
  "Seeder_Initialize err db =
     (case err of
        Some e \<Rightarrow> (Some (ErrCreateSeedsTable e), db)
      | None \<Rightarrow> (None, if se_table db = None then db\<lparr>se_table := Some []\<rparr> else db))"

definition getAppliedSeeds :: "string option \<Rightarrow> 'd seed_db \<Rightarrow> seed_error + string set" where
  "getAppliedSeeds err db =
     (case err of
        Some e \<Rightarrow> Inl (ErrQuerySeeds e)
      | None \<Rightarrow>
          (case se_table db of
             None \<Rightarrow> Inl (ErrQuerySeeds ''relation schema_seeds does not exist'')
           | Some t \<Rightarrow> Inr (set t)))"

definition seed_tx ::
  "(string \<Rightarrow> 'd \<Rightarrow> string + 'd) \<Rightarrow> (string \<Rightarrow> string option) \<Rightarrow> Seed \<Rightarrow> 'd seed_db \<Rightarrow> seed_error option \<times> 'd seed_db" where
  "seed_tx run_sql rec_err seed tx =
     (case run_sql (sd_SQL seed) (se_app tx) of
        Inl e \<Rightarrow> (Some (ErrApplySeed (sd_Name seed) e), tx)
      | Inr app \<Rightarrow>
          (case (rec_err (sd_Name seed), se_table tx) of
             (Some e, _) \<Rightarrow> (Some (ErrRecordSeed (sd_Name seed) e), tx\<lparr>se_app := app\<rparr>)
           | (None, None) \<Rightarrow> (Some (ErrRecordSeed (sd_Name seed) ''relation schema_seeds does not exist''), tx\<lparr>se_app := app\<rparr>)
           | (None, Some t) \<Rightarrow>
               if sd_Name seed \<in> set t then (Some (ErrRecordSeed (sd_Name seed) ''duplicate key value''), tx\<lparr>se_app := app\<rparr>)
               else (None, \<lparr>se_app = app, se_table = Some (t @ [sd_Name seed])\<rparr>)))"

fun seed_loop ::
  "'d seed_db pg_pool \<Rightarrow> (string \<Rightarrow> 'd \<Rightarrow> string + 'd) \<Rightarrow> (string \<Rightarrow> string option) \<Rightarrow> string set \<Rightarrow> Seed list \<Rightarrow> 'd seed_db \<Rightarrow>
   seed_error option \<times> 'd seed_db" where
  "seed_loop pool run_sql rec_err appliedSeeds [] db = (None, db)"
| "seed_loop pool run_sql rec_err appliedSeeds (seed # seeds) db =
     (if sd_Name seed \<in> appliedSeeds then seed_loop pool run_sql rec_err appliedSeeds seeds db
      else case Transaction pool (seed_tx run_sql rec_err seed) db of
          (Some e, db') \<Rightarrow> (Some (ErrSeedTx e), db')
        | (None, db') \<Rightarrow> seed_loop pool run_sql rec_err appliedSeeds seeds db')"

definition Seeder_Apply ::
  "'d seed_db pg_pool \<Rightarrow> (Seed list \<Rightarrow> Seed list) \<Rightarrow> (string \<Rightarrow> 'd \<Rightarrow> string + 'd) \<Rightarrow> (string \<Rightarrow> string option) \<Rightarrow>
   string option \<Rightarrow> string option \<Rightarrow> PostgresSeeder \<Rightarrow> 'd seed_db \<Rightarrow> seed_error option \<times> PostgresSeeder \<times> 'd seed_db" where
  "Seeder_Apply pool order run_sql rec_err init_err query_err s db =
     (case Seeder_Initialize init_err db of
        (Some e, db) \<Rightarrow> (Some e, s, db)
      | (None, db) \<Rightarrow>
          (case getAppliedSeeds query_err db of
             Inl e \<Rightarrow> (Some e, s, db)
           | Inr appliedSeeds \<Rightarrow>
               (let s = s\<lparr>ps_seeds := order (ps_seeds s)\<rparr>;
                    (err, db) = seed_loop pool run_sql rec_err appliedSeeds (ps_seeds s) db
                in (err, s, db))))"

definition Seeder_Reset :: "string option \<Rightarrow> string option \<Rightarrow> 'd seed_db \<Rightarrow> seed_error option \<times> 'd seed_db" where
  "Seeder_Reset init_err delete_err db =
     (case Seeder_Initialize init_err db of
        (Some e, db) \<Rightarrow> (Some e, db)
      | (None, db) \<Rightarrow>
          (case delete_err of
             Some e \<Rightarrow> (Some (ErrResetSeeds e), db)
           | None \<Rightarrow> (None, db\<lparr>se_table := Some []\<rparr>)))"

definition AddSeed :: "Seed \<Rightarrow> PostgresSeeder \<Rightarrow> seed_error option \<times> PostgresSeeder" where
  "AddSeed seed s =
     (if sd_Name seed = [] then (Some ErrNoSeedName, s)
      else if sd_SQL seed = [] then (Some ErrNoSeedSQL, s)
      else if list_ex (\<lambda>x. sd_Name x = sd_Name seed) (ps_seeds s) then (Some (ErrDuplicateSeed (sd_Name seed)), s)
      else (None, s\<lparr>ps_seeds := ps_seeds s @ [seed]\<rparr>))"

definition parseSeedContent :: "string \<Rightarrow> string \<Rightarrow> PostgresSeeder \<Rightarrow> seed_error option \<times> PostgresSeeder" where
  "parseSeedContent filename content s =
     (case strings_SplitN2 filename ''_'' of
        [p, n] \<Rightarrow>
          (case sscanf_d (strings_TrimPrefix p ''S'') of
             None \<Rightarrow> (Some (ErrSeedPriority filename), s)
           | Some priority \<Rightarrow>
               AddSeed \<lparr>sd_Name = strings_TrimSuffix n ''.sql'', sd_SQL = strings_TrimSpace content, sd_Priority = priority\<rparr> s)
      | _ \<Rightarrow> (Some (ErrSeedFilename filename), s))"

text \<open>A walk over the directory, as for the migrations.\<close>

fun seed_entries :: "mig_entry list \<Rightarrow> PostgresSeeder \<Rightarrow> seed_error option \<times> PostgresSeeder" where
  "seed_entries [] s = (None, s)"
| "seed_entries (MigWalkError e # es) s = (Some (ErrSeedWalk e), s)"
| "seed_entries (MigDir # es) s = seed_entries es s"
| "seed_entries (MigFile path base content # es) s =
     (if \<not> strings_HasSuffix path ''.sql'' then seed_entries es s
      else case content of
          Inl e \<Rightarrow> (Some (ErrReadSeed path e), s)
        | Inr c \<Rightarrow>
            (case parseSeedContent base c s of
               (Some e, s') \<Rightarrow> (Some e, s')
             | (None, s') \<Rightarrow> seed_entries es s'))"

definition LoadSeeds :: "mig_entry list \<Rightarrow> PostgresSeeder \<Rightarrow> seed_error option \<times> PostgresSeeder" where
  "LoadSeeds walk s = seed_entries walk s"

definition LoadSeedsFS :: "mig_entry list \<Rightarrow> PostgresSeeder \<Rightarrow> seed_error option \<times> PostgresSeeder" where
  "LoadSeedsFS walk s = seed_entries walk s"

subsection \<open>Well-formed seeders\<close>

definition seeder_wf :: "PostgresSeeder \<Rightarrow> bool" where
  "seeder_wf s \<longleftrightarrow> distinct (map sd_Name (ps_seeds s)) \<and> (\<forall>x\<in>set (ps_seeds s). sd_Name x \<noteq> [] \<and> sd_SQL x \<noteq> [])"

lemma seeder_wf_Add: "seeder_wf s \<Longrightarrow> seeder_wf (snd (AddSeed x s))"
  by (auto simp: seeder_wf_def AddSeed_def list_ex_iff)

lemma seeder_wf_parse: "seeder_wf s \<Longrightarrow> seeder_wf (snd (parseSeedContent f c s))"
  by (simp add: parseSeedContent_def seeder_wf_Add split: list.split option.split)

lemma seeder_wf_load: "seeder_wf s \<Longrightarrow> seeder_wf (snd (seed_entries es s))"
proof (induction es arbitrary: s)
  case (Cons e es)
  show ?case
  proof (cases e)
    case (MigFile path base content)
    have p: "seeder_wf s'" if "parseSeedContent base c s = (r, s')" for c r s'
      using seeder_wf_parse [OF Cons.prems, of base c] that by simp
    show ?thesis using MigFile Cons p by (cases content) (auto split: prod.split option.split)
  qed (use Cons in auto)
qed simp

subsection \<open>Applying seeds\<close>

fun run_seeds :: "(string \<Rightarrow> 'd \<Rightarrow> string + 'd) \<Rightarrow> Seed list \<Rightarrow> 'd \<Rightarrow> string + 'd" where
  "run_seeds run_sql [] d = Inr d"
| "run_seeds run_sql (x # xs) d = (case run_sql (sd_SQL x) d of Inl e \<Rightarrow> Inl e | Inr d' \<Rightarrow> run_seeds run_sql xs d')"

definition seeded :: "'d seed_db \<Rightarrow> string set" where
  "seeded db = (case se_table db of None \<Rightarrow> {} | Some t \<Rightarrow> set t)"

definition pending_seeds :: "string set \<Rightarrow> Seed list \<Rightarrow> Seed list" where
  "pending_seeds A xs = filter (\<lambda>x. sd_Name x \<notin> A) xs"

definition seed_order :: "(Seed list \<Rightarrow> Seed list) \<Rightarrow> bool" where
  "seed_order order \<longleftrightarrow> (\<forall>xs. mset (order xs) = mset xs \<and> sorted (map sd_Priority (order xs)))"

lemma seed_tx_None:
  assumes "seed_tx run_sql rec_err x db = (None, db')"
  shows "run_sql (sd_SQL x) (se_app db) = Inr (se_app db')" and "seeded db' = insert (sd_Name x) (seeded db)"
  using assms by (auto simp: seed_tx_def seeded_def split: sum.splits option.splits if_splits)

lemma seed_loop_prefix:
  assumes pool: "transactional pool" and "seed_loop pool run_sql rec_err A xs db = (r, db')"
  shows "\<exists>done todo. done @ todo = pending_seeds A xs \<and> (r = None \<longleftrightarrow> todo = []) \<and>
    run_seeds run_sql done (se_app db) = Inr (se_app db') \<and> seeded db' = seeded db \<union> sd_Name ` set done"
  using assms(2)
proof (induction xs arbitrary: db)
  case (Cons x xs)
  show ?case
  proof (cases "sd_Name x \<in> A")
    case False
    then have p: "pending_seeds A (x # xs) = x # pending_seeds A xs" by (simp add: pending_seeds_def)
    obtain r1 db1 where t: "Transaction pool (seed_tx run_sql rec_err x) db = (r1, db1)" by fastforce
    note at = transactional.transaction_atomic [OF pool t]
    show ?thesis
    proof (cases r1)
      case (Some e)
      then have "r \<noteq> None" "db' = db" using Cons.prems False t at by auto
      then show ?thesis unfolding p by (intro exI [of _ "[]"] exI [of _ "x # pending_seeds A xs"]) auto
    next
      case None
      then have tx: "seed_tx run_sql rec_err x db = (None, db1)" using at by simp
      have "seed_loop pool run_sql rec_err A xs db1 = (r, db')" using Cons.prems False t None by auto
      from Cons.IH [OF this] obtain ds ts where "ds @ ts = pending_seeds A xs" "r = None \<longleftrightarrow> ts = []"
        "run_seeds run_sql ds (se_app db1) = Inr (se_app db')" "seeded db' = seeded db1 \<union> sd_Name ` set ds" by blast
      with seed_tx_None [OF tx] show ?thesis unfolding p by (intro exI [of _ "x # ds"] exI [of _ ts]) auto
    qed
  qed (use Cons in \<open>simp add: pending_seeds_def\<close>)
qed (simp add: pending_seeds_def)

lemma seed_loop_table:
  "seed_loop pool run_sql rec_err A xs db = (r, db') \<Longrightarrow> se_table db \<noteq> None \<Longrightarrow> transactional pool \<Longrightarrow> se_table db' \<noteq> None"
proof (induction xs arbitrary: db)
  case (Cons x xs)
  obtain r1 db1 where t: "Transaction pool (seed_tx run_sql rec_err x) db = (r1, db1)" by fastforce
  have "se_table db1 \<noteq> None"
    using transactional.transaction_atomic [OF Cons.prems(3) t] Cons.prems(2)
    by (cases r1) (auto simp: seed_tx_def split: sum.splits option.splits if_splits)
  then show ?case using Cons t by (auto split: if_splits option.splits)
qed simp

lemma seed_loop_done: "sd_Name ` set xs \<subseteq> A \<Longrightarrow> seed_loop pool run_sql rec_err A xs db = (None, db)"
  by (induction xs) auto

lemma Seeder_Apply_loop:
  assumes "Seeder_Apply pool order run_sql rec_err None None s db = (err, s', db')"
  shows "s' = s\<lparr>ps_seeds := order (ps_seeds s)\<rparr>"
    and "seed_loop pool run_sql rec_err (seeded db) (order (ps_seeds s)) (snd (Seeder_Initialize None db)) = (err, db')"
  using assms
  by (auto simp: Seeder_Apply_def Seeder_Initialize_def getAppliedSeeds_def seeded_def Let_def split: prod.splits option.splits if_splits)

text \<open>The database after a successful \<open>Initialize\<close>, and an \<open>Apply\<close> in which creating the table or reading it failed.\<close>

lemma Seeder_Initialize_same:
  "seeded (snd (Seeder_Initialize init_err db)) = seeded db" "se_app (snd (Seeder_Initialize init_err db)) = se_app db"
  "init_err = None \<Longrightarrow> se_table (snd (Seeder_Initialize init_err db)) \<noteq> None"
  by (auto simp: Seeder_Initialize_def seeded_def split: option.splits)

lemma Seeder_Apply_unread:
  assumes "Seeder_Apply pool order run_sql rec_err init_err query_err s db = (err, s', db')" and "init_err \<noteq> None \<or> query_err \<noteq> None"
  shows "err \<noteq> None \<and> se_app db' = se_app db \<and> seeded db' = seeded db \<and> (se_table db \<noteq> None \<longrightarrow> db' = db)"
  using assms
  by (auto simp: Seeder_Apply_def Seeder_Initialize_def getAppliedSeeds_def seeded_def split: prod.splits option.splits if_splits)

text \<open>With nothing pending, \<open>Apply\<close> changes nothing.\<close>

lemma Seeder_Apply_again:
  assumes "se_table db \<noteq> None" and "sd_Name ` set (order (ps_seeds s)) \<subseteq> seeded db"
  shows "\<exists>err s'. Seeder_Apply pool order run_sql rec_err init_err query_err s db = (err, s', db) \<and>
    (err = None \<longleftrightarrow> init_err = None \<and> query_err = None)"
proof (cases "init_err = None \<and> query_err = None")
  case True
  have "seed_loop pool run_sql rec_err (seeded db) (order (ps_seeds s)) db = (None, db)" using assms(2) by (rule seed_loop_done)
  with True assms(1) show ?thesis by (auto simp: Seeder_Apply_def Seeder_Initialize_def getAppliedSeeds_def seeded_def)
next
  case False
  obtain err s' db' where r: "Seeder_Apply pool order run_sql rec_err init_err query_err s db = (err, s', db')" by (metis prod.collapse)
  from Seeder_Apply_unread [OF this] False assms(1) r show ?thesis by auto
qed

text \<open>
  C27: applying seeds runs every pending seed at most once, in the order of their priorities: whatever fails - creating the table of
  seeds, reading it, a seed, its record, the transaction - the data are what an initial part of the pending seeds made of them, and
  exactly these are recorded.  \<open>Apply\<close> returns nil just when the table was created and read and no seed is left; then applying again, with
  the seeds in whatever order and whatever fails, changes nothing.  A commit that reports an error is taken to have had no effect.
\<close>

theorem seeds_applied_once:
  assumes pool: "transactional pool" and orders: "seed_order order" "seed_order order'"
    and run: "Seeder_Apply pool order run_sql rec_err init_err query_err s db = (err, s', db')"
  shows "(\<exists>done todo. done @ todo = pending_seeds (seeded db) (order (ps_seeds s)) \<and> sorted (map sd_Priority (done @ todo)) \<and>
      run_seeds run_sql done (se_app db) = Inr (se_app db') \<and> seeded db' = seeded db \<union> sd_Name ` set done \<and>
      (err = None \<longleftrightarrow> init_err = None \<and> query_err = None \<and> todo = [])) \<and>
    (err = None \<longrightarrow> (\<exists>again s''. Seeder_Apply pool' order' run_sql' rec_err' init_err' query_err' s' db' = (again, s'', db') \<and>
      (again = None \<longleftrightarrow> init_err' = None \<and> query_err' = None)))"
proof (cases "init_err = None \<and> query_err = None")
  case False
  have "sorted (map sd_Priority (order (ps_seeds s)))" using orders(1) by (simp add: seed_order_def)
  then have "sorted (map sd_Priority (pending_seeds (seeded db) (order (ps_seeds s))))" unfolding pending_seeds_def by (rule sorted_filter)
  with Seeder_Apply_unread [OF run] False show ?thesis by (intro conjI exI [of _ "[]"] exI [of _ "pending_seeds _ _"]) auto
next
  case True
  let ?xs = "order (ps_seeds s)" and ?db = "snd (Seeder_Initialize None db)"
  have none: "init_err = None" "query_err = None" using True by simp_all
  note init = Seeder_Initialize_same [of None db] and loop = Seeder_Apply_loop [OF run [unfolded none]]
  obtain ds ts where p: "ds @ ts = pending_seeds (seeded db) ?xs" "err = None \<longleftrightarrow> ts = []"
    "run_seeds run_sql ds (se_app db) = Inr (se_app db')" "seeded db' = seeded db \<union> sd_Name ` set ds"
    using seed_loop_prefix [OF pool loop(2)] init by auto
  have "sorted (map sd_Priority ?xs)" using orders(1) by (simp add: seed_order_def)
  then have "sorted (map sd_Priority (ds @ ts))" unfolding p(1) pending_seeds_def by (rule sorted_filter)
  moreover have "\<exists>again s''. Seeder_Apply pool' order' run_sql' rec_err' init_err' query_err' s' db' = (again, s'', db') \<and>
      (again = None \<longleftrightarrow> init_err' = None \<and> query_err' = None)" if "err = None"
  proof (rule Seeder_Apply_again)
    show "se_table db' \<noteq> None" by (rule seed_loop_table [OF loop(2) init(3) [OF refl] pool])
    have "set (order' ?xs) = set ?xs" using orders(2) by (metis seed_order_def set_mset_mset)
    moreover have "sd_Name ` set ?xs \<subseteq> seeded db'" using p that by (auto simp: pending_seeds_def)
    ultimately show "sd_Name ` set (order' (ps_seeds s')) \<subseteq> seeded db'" using loop(1) by simp
  qed
  ultimately show ?thesis using p True by blast
qed

definition two_seeds :: PostgresSeeder where
  "two_seeds = \<lparr>ps_seeds = [\<lparr>sd_Name = ''roles'', sd_SQL = ''+r'', sd_Priority = 2\<rparr>, \<lparr>sd_Name = ''users'', sd_SQL = ''+u'', sd_Priority = 1\<rparr>]\<rparr>"

text \<open>Both seeds are applied, and the next \<open>Apply\<close> fails to read the table and changes nothing.\<close>

theorem seeds_applied_once_witness:
  "\<exists>s'. Seeder_Apply (plain_pool None None None) (sort_key sd_Priority) count_sql (\<lambda>_. None) None None two_seeds \<lparr>se_app = 0, se_table = None\<rparr> =
      (None, s', \<lparr>se_app = 2, se_table = Some [''users'', ''roles'']\<rparr>) \<and>
    (\<exists>err s''. Seeder_Apply (plain_pool None None None) (sort_key sd_Priority) count_sql (\<lambda>_. None) None (Some ''timeout'') s'
      \<lparr>se_app = 2, se_table = Some [''users'', ''roles'']\<rparr> = (err, s'', \<lparr>se_app = 2, se_table = Some [''users'', ''roles'']\<rparr>) \<and> err \<noteq> None)"
proof -
  let ?Apply = "Seeder_Apply (plain_pool None None None) (sort_key sd_Priority) count_sql (\<lambda>_. None) None None"
  let ?db = "\<lparr>se_app = 2, se_table = Some [''users'', ''roles'']\<rparr>"
  obtain s' where s: "?Apply two_seeds \<lparr>se_app = 0, se_table = None\<rparr> = (None, s', ?db)"
    by (simp add: Seeder_Apply_def Seeder_Initialize_def getAppliedSeeds_def Transaction_def plain_pool_def seed_tx_def two_seeds_def count_sql_def)
  have o: "seed_order (sort_key sd_Priority)" by (simp add: seed_order_def)
  note again = seeds_applied_once [OF plain.transactional_axioms o o s, THEN conjunct2, rule_format, OF refl,
      of "plain_pool None None None" count_sql "\<lambda>_. None" None "Some ''timeout''"]
  show ?thesis using again s by (metis option.distinct(1))
qed

end
