(* ===== verification/RabbitMQ.thy ===== *)
theory RabbitMQ
  imports Messaging GoFmt
begin

text \<open>
  Package messaging, \<open>rabbitmq_broker.go\<close>: the broker on RabbitMQ.  The client library is a record of its operations on a
  state \<open>'s\<close>, the library with its server; connections, channels and streams of deliveries are numbers.  The goroutines that were
  started are part of the broker: the monitors of the connection and the consumers of deliveries.
\<close>

subsection \<open>The library\<close>

datatype amqp_field = AmqpString string | AmqpOther string \<comment> \<open>another value, with the text \<open>%v\<close> prints\<close>

type_synonym amqp_table = "string \<rightharpoonup> amqp_field"

record publishing =
  pu_MessageId :: string
  pu_Persistent :: bool
  pu_Timestamp :: time
  pu_ContentType :: string
  pu_Body :: string
  pu_Headers :: "amqp_table option"

record delivery =
  dl_MessageId :: string
  dl_Body :: string
  dl_Headers :: "amqp_table option"
  dl_RoutingKey :: string
  dl_channel :: nat
  dl_DeliveryTag :: nat

datatype dialled = DialOk nat | DialErr string | DialTimeout

record 's amqp =
  am_Dial :: "string \<Rightarrow> duration \<Rightarrow> 's \<Rightarrow> dialled \<times> 's"
  am_Channel :: "nat \<Rightarrow> 's \<Rightarrow> (string + nat) \<times> 's"
  am_ExchangeDeclare :: "nat \<Rightarrow> string \<Rightarrow> string \<Rightarrow> bool \<Rightarrow> 's \<Rightarrow> string option \<times> 's"
  am_QueueDeclare :: "nat \<Rightarrow> string \<Rightarrow> bool \<Rightarrow> bool \<Rightarrow> 's \<Rightarrow> (string + string) \<times> 's"
  am_QueueBind :: "nat \<Rightarrow> string \<Rightarrow> string \<Rightarrow> string \<Rightarrow> 's \<Rightarrow> string option \<times> 's"
  am_Consume :: "nat \<Rightarrow> string \<Rightarrow> 's \<Rightarrow> (string + nat) \<times> 's"
  am_Publish :: "nat \<Rightarrow> string \<Rightarrow> string \<Rightarrow> publishing \<Rightarrow> 's \<Rightarrow> string option \<times> 's"
  am_Ack :: "delivery \<Rightarrow> bool \<Rightarrow> 's \<Rightarrow> string option \<times> 's"
  am_Nack :: "delivery \<Rightarrow> bool \<Rightarrow> bool \<Rightarrow> 's \<Rightarrow> string option \<times> 's"
  am_CloseChannel :: "nat \<Rightarrow> 's \<Rightarrow> 's"
  am_CloseConnection :: "nat \<Rightarrow> 's \<Rightarrow> 's"

subsection \<open>The broker\<close>

record 'w subscriberInfo =
  sb_topic :: string
  sb_queue :: string
  sb_handler :: "'w handler"

record 'w RabbitMQBroker =
  rb_config :: RabbitMQConfig
  rb_connection :: "nat option"
  rb_channel :: "nat option"
  rb_reconnecting :: bool
  rb_closed :: bool
  rb_subscribers :: "string \<rightharpoonup> 'w subscriberInfo list"
  rb_notify :: "(nat \<times> nat) option" \<comment> \<open>the connection and the channel whose end is reported\<close>
  rb_monitors :: nat \<comment> \<open>goroutines that run \<open>handleReconnection\<close>\<close>
  rb_consumers :: "(nat \<times> 'w handler) list" \<comment> \<open>goroutines that run \<open>handleDeliveries\<close>\<close>

datatype rabbit_error =
    RabbitClosed
  | RabbitNotConnected
  | RabbitConnect string
  | RabbitTimeout
  | RabbitChannel string
  | RabbitExchange string
  | RabbitQueue string
  | RabbitBind string
  | RabbitConsume string
  | RabbitPublish string
  | RabbitNew rabbit_error

subsection \<open>Subscriptions\<close>

text \<open>Without a channel the methods of the library dereference nil: \<open>None\<close> is a panic.\<close>

definition setupSubscription ::
  "'s amqp \<Rightarrow> string \<Rightarrow> string \<Rightarrow> 'w handler \<Rightarrow> 'w RabbitMQBroker \<Rightarrow> 's \<Rightarrow>
   (rabbit_error option \<times> 'w RabbitMQBroker \<times> 's) option" where
  "setupSubscription lib topic queueName h b s =
     (case rb_channel b of
        None \<Rightarrow> None
      | Some ch \<Rightarrow> Some
          (case am_QueueDeclare lib ch queueName (rq_QueueDurable (rb_config b)) (rq_QueueAutoDelete (rb_config b)) s of
             (Inl e, s) \<Rightarrow> (Some (RabbitQueue e), b, s)
           | (Inr queue, s) \<Rightarrow>
               (case am_QueueBind lib ch queue topic (rq_ExchangeName (rb_config b)) s of
                  (Some e, s) \<Rightarrow> (Some (RabbitBind e), b, s)
                | (None, s) \<Rightarrow>
                    (case am_Consume lib ch queue s of
                       (Inl e, s) \<Rightarrow> (Some (RabbitConsume e), b, s)
                     | (Inr deliveries, s) \<Rightarrow> (None, b\<lparr>rb_consumers := rb_consumers b @ [(deliveries, h)]\<rparr>, s)))))"

fun resubscribe :: "'s amqp \<Rightarrow> 'w subscriberInfo list \<Rightarrow> 'w RabbitMQBroker \<Rightarrow> 's \<Rightarrow>
   (rabbit_error option \<times> 'w RabbitMQBroker \<times> 's) option" where
  "resubscribe lib [] b s = Some (None, b, s)"
| "resubscribe lib (sub # subs) b s =
     (case setupSubscription lib (sb_topic sub) (sb_queue sub) (sb_handler sub) b s of
        None \<Rightarrow> None
      | Some (Some e, b, s) \<Rightarrow> Some (Some e, b, s)
      | Some (None, b, s) \<Rightarrow> resubscribe lib subs b s)"

text \<open>\<open>topics\<close>: the keys of the map, in the order of the iteration.\<close>

definition resubscribeAll :: "'s amqp \<Rightarrow> string list \<Rightarrow> 'w RabbitMQBroker \<Rightarrow> 's \<Rightarrow>
   (rabbit_error option \<times> 'w RabbitMQBroker \<times> 's) option" where
  "resubscribeAll lib topics b s =
     resubscribe lib (concat (map (\<lambda>t. case rb_subscribers b t of None \<Rightarrow> [] | Some subs \<Rightarrow> subs) topics)) b s"

subsection \<open>Connections\<close>

text \<open>The monitor is started with the notification of this connection; an error of a subscription is only logged.\<close>

definition connected :: "'s amqp \<Rightarrow> string list \<Rightarrow> nat \<Rightarrow> nat \<Rightarrow> 'w RabbitMQBroker \<Rightarrow> 's \<Rightarrow> (rabbit_error option \<times> 'w RabbitMQBroker \<times> 's) option" where
  "connected lib topics conn ch b s =
     (case resubscribeAll lib topics (b\<lparr>rb_notify := Some (conn, ch), rb_monitors := rb_monitors b + 1\<rparr>) s of
        None \<Rightarrow> None
      | Some (e, b, s) \<Rightarrow> Some (None, b, s))"

definition connect :: "'s amqp \<Rightarrow> string list \<Rightarrow> 'w RabbitMQBroker \<Rightarrow> 's \<Rightarrow> (rabbit_error option \<times> 'w RabbitMQBroker \<times> 's) option" where
  "connect lib topics b s =
     (if rb_closed b then Some (Some RabbitClosed, b, s)
      else
        (let s = (case rb_connection b of None \<Rightarrow> s | Some c \<Rightarrow> am_CloseConnection lib c s);
             b = b\<lparr>rb_connection := None\<rparr>
         in case am_Dial lib (rq_URI (rb_config b)) (rq_ConnectionTimeout (rb_config b)) s of
              (DialErr e, s) \<Rightarrow> Some (Some (RabbitConnect e), b, s)
            | (DialTimeout, s) \<Rightarrow> Some (Some RabbitTimeout, b, s)
            | (DialOk conn, s) \<Rightarrow>
                (let b = b\<lparr>rb_connection := Some conn\<rparr>
                 in case am_Channel lib conn s of
                      (Inl e, s) \<Rightarrow> Some (Some (RabbitChannel e), b\<lparr>rb_channel := None\<rparr>, s)
                    | (Inr ch, s) \<Rightarrow>
                        (let b = b\<lparr>rb_channel := Some ch\<rparr>
                         in case am_ExchangeDeclare lib ch (rq_ExchangeName (rb_config b)) (rq_ExchangeType (rb_config b))
                                   (rq_QueueDurable (rb_config b)) s of
                              (Some e, s) \<Rightarrow> Some (Some (RabbitExchange e), b, s)
                            | (None, s) \<Rightarrow> connected lib topics conn ch b s))))"

definition NewRabbitMQBroker :: "'s amqp \<Rightarrow> RabbitMQConfig \<Rightarrow> 's \<Rightarrow> ((rabbit_error + 'w RabbitMQBroker) \<times> 's) option" where
  "NewRabbitMQBroker lib config s =
     (case connect lib []
             \<lparr>rb_config = config, rb_connection = None, rb_channel = None, rb_reconnecting = False, rb_closed = False,
              rb_subscribers = Map.empty, rb_notify = None, rb_monitors = 0, rb_consumers = []\<rparr> s of
        None \<Rightarrow> None
      | Some (Some e, b, s) \<Rightarrow> Some (Inl (RabbitNew e), s)
      | Some (None, b, s) \<Rightarrow> Some (Inr b, s))"

text \<open>
  The loop of \<open>reconnect\<close>, with the number of attempts it made; it need not end (\<open>None\<close>).  A panic of an attempt is the inner \<open>None\<close>.
\<close>

partial_function (option) reconnect_loop ::
  "'s amqp \<Rightarrow> string list \<Rightarrow> int \<Rightarrow> 'w RabbitMQBroker \<Rightarrow> 's \<Rightarrow> (int \<times> 'w RabbitMQBroker \<times> 's) option option" where
  "reconnect_loop lib topics attempts b s =
     (if rb_closed b then Some (Some (attempts, b, s))
      else if 0 < rq_MaxReconnectAttempts (rb_config b) \<and> rq_MaxReconnectAttempts (rb_config b) \<le> attempts then Some (Some (attempts, b, s))
      else case connect lib topics b s of
          None \<Rightarrow> Some None
        | Some (Some e, b, s) \<Rightarrow> reconnect_loop lib topics (attempts + 1) b s
        | Some (None, b, s) \<Rightarrow> Some (Some (attempts + 1, b, s)))"

definition reconnect :: "'s amqp \<Rightarrow> string list \<Rightarrow> 'w RabbitMQBroker \<Rightarrow> 's \<Rightarrow> (int \<times> 'w RabbitMQBroker \<times> 's) option option" where
  "reconnect lib topics b s =
     (if rb_reconnecting b \<or> rb_closed b then Some (Some (0, b, s))
      else case reconnect_loop lib topics 0 (b\<lparr>rb_reconnecting := True\<rparr>) s of
          None \<Rightarrow> None
        | Some None \<Rightarrow> Some None
        | Some (Some (n, b, s)) \<Rightarrow> Some (Some (n, b\<lparr>rb_reconnecting := False\<rparr>, s)))"

text \<open>
  A monitor is woken by the end of the connection or the channel.  A closed broker ends it; otherwise it reconnects and waits
  again, on the notification that is then in force.
\<close>

definition handleReconnection :: "'s amqp \<Rightarrow> string list \<Rightarrow> 'w RabbitMQBroker \<Rightarrow> 's \<Rightarrow> (int \<times> 'w RabbitMQBroker \<times> 's) option option" where
  "handleReconnection lib topics b s =
     (if rb_closed b then Some (Some (0, b\<lparr>rb_monitors := rb_monitors b - 1\<rparr>, s)) else reconnect lib topics b s)"

subsection \<open>Messages\<close>

definition convertToAMQPHeaders :: "headers option \<Rightarrow> amqp_table option" where
  "convertToAMQPHeaders h = map_option (\<lambda>h k. map_option AmqpString (h k)) h"

fun field_text :: "amqp_field \<Rightarrow> string" where
  "field_text (AmqpString t) = t"
| "field_text (AmqpOther t) = t"

definition convertAMQPHeaders :: "amqp_table option \<Rightarrow> headers option" where
  "convertAMQPHeaders h = map_option (\<lambda>h k. map_option field_text (h k)) h"

record rabbitMQMessage =
  rm_id :: string
  rm_body :: string
  rm_headers :: "headers option"

text \<open>What a handler sees of a message; reading a nil map finds nothing.\<close>

definition rabbit_message :: "rabbitMQMessage \<Rightarrow> Message" where
  "rabbit_message m = \<lparr>ms_id = rm_id m, ms_body = rm_body m, ms_headers = (case rm_headers m of None \<Rightarrow> Map.empty | Some h \<Rightarrow> h)\<rparr>"

definition delivered :: "delivery \<Rightarrow> rabbitMQMessage" where
  "delivered d = \<lparr>rm_id = dl_MessageId d, rm_body = dl_Body d, rm_headers = convertAMQPHeaders (dl_Headers d)\<rparr>"

text \<open>The body of the loop over the deliveries, with the error of the handler; errors of the acknowledgement are only logged.\<close>

definition handle_delivery :: "'s amqp \<Rightarrow> 'w handler \<Rightarrow> delivery \<Rightarrow> 'w \<Rightarrow> 's \<Rightarrow> string option \<times> 'w \<times> 's" where
  "handle_delivery lib h d w s =
     (case h (rabbit_message (delivered d)) w of
        (Some e, w) \<Rightarrow> (Some e, w, snd (am_Nack lib d False True s))
      | (None, w) \<Rightarrow> (None, w, snd (am_Ack lib d False s)))"

fun handleDeliveries :: "'s amqp \<Rightarrow> 'w handler \<Rightarrow> delivery list \<Rightarrow> 'w \<Rightarrow> 's \<Rightarrow> 'w \<times> 's" where
  "handleDeliveries lib h [] w s = (w, s)"
| "handleDeliveries lib h (d # ds) w s =
     (let (e, w, s) = handle_delivery lib h d w s in handleDeliveries lib h ds w s)"

definition rabbit_publishing :: "time \<Rightarrow> Message \<Rightarrow> publishing" where
  "rabbit_publishing now m =
     \<lparr>pu_MessageId = ms_id m, pu_Persistent = True, pu_Timestamp = now, pu_ContentType = ''application/octet-stream'', pu_Body = ms_body m,
      pu_Headers = convertToAMQPHeaders (Some (ms_headers m))\<rparr>"

definition rabbit_Publish :: "'s amqp \<Rightarrow> time \<Rightarrow> string \<Rightarrow> Message \<Rightarrow> 'w RabbitMQBroker \<Rightarrow> 's \<Rightarrow> rabbit_error option \<times> 's" where
  "rabbit_Publish lib now topic m b s =
     (if rb_closed b then (Some RabbitClosed, s)
      else case rb_channel b of
          None \<Rightarrow> (Some RabbitNotConnected, s)
        | Some ch \<Rightarrow>
            (case am_Publish lib ch (rq_ExchangeName (rb_config b)) topic (rabbit_publishing now m) s of
               (Some e, s) \<Rightarrow> (Some (RabbitPublish e), s)
             | (None, s) \<Rightarrow> (None, s)))"

text \<open>\<open>Subscribe\<close> in its two critical sections, between which the connection may be replaced.\<close>

definition queue_name :: "RabbitMQConfig \<Rightarrow> string \<Rightarrow> string" where
  "queue_name config topic = rq_ExchangeName config @ ''.'' @ topic"

definition subscribe_setup :: "'s amqp \<Rightarrow> string \<Rightarrow> 'w handler \<Rightarrow> 'w RabbitMQBroker \<Rightarrow> 's \<Rightarrow> (rabbit_error option \<times> 'w RabbitMQBroker \<times> 's) option" where
  "subscribe_setup lib topic h b s =
     (if rb_closed b then Some (Some RabbitClosed, b, s)
      else if rb_channel b = None then Some (Some RabbitNotConnected, b, s)
      else setupSubscription lib topic (queue_name (rb_config b) topic) h b s)"

definition subscribe_store :: "string \<Rightarrow> 'w handler \<Rightarrow> 'w RabbitMQBroker \<Rightarrow> 'w RabbitMQBroker" where
  "subscribe_store topic h b =
     b\<lparr>rb_subscribers := (rb_subscribers b)(topic \<mapsto>
         (case rb_subscribers b topic of None \<Rightarrow> [] | Some subs \<Rightarrow> subs) @
           [\<lparr>sb_topic = topic, sb_queue = queue_name (rb_config b) topic, sb_handler = h\<rparr>])\<rparr>"

definition rabbit_Subscribe :: "'s amqp \<Rightarrow> string \<Rightarrow> 'w handler \<Rightarrow> 'w RabbitMQBroker \<Rightarrow> 's \<Rightarrow> (rabbit_error option \<times> 'w RabbitMQBroker \<times> 's) option" where
  "rabbit_Subscribe lib topic h b s =
     (case subscribe_setup lib topic h b s of
        None \<Rightarrow> None
      | Some (Some e, b, s) \<Rightarrow> Some (Some e, b, s)
      | Some (None, b, s) \<Rightarrow> Some (None, subscribe_store topic h b, s))"

definition rabbit_Close :: "'s amqp \<Rightarrow> 'w RabbitMQBroker \<Rightarrow> 's \<Rightarrow> 'w RabbitMQBroker \<times> 's" where
  "rabbit_Close lib b s =
     (if rb_closed b then (b, s)
      else
        (let s = (case rb_channel b of None \<Rightarrow> s | Some ch \<Rightarrow> am_CloseChannel lib ch s);
             s = (case rb_connection b of None \<Rightarrow> s | Some c \<Rightarrow> am_CloseConnection lib c s)
         in (b\<lparr>rb_closed := True, rb_channel := None, rb_connection := None\<rparr>, s)))"

definition maskURI :: "string \<Rightarrow> string" where
  "maskURI uri = uri"

end
