(* ===== verification/RabbitProps.thy ===== *)
theory RabbitProps
  imports RabbitMQ
begin

text \<open>
  The properties of the RabbitMQ broker: reconnecting ends, what it restores, and that a message leaves the server only through a handler that
  accepted it.
\<close>

subsection \<open>Connecting\<close>

text \<open>What no operation of the connection changes.\<close>

definition same_broker :: "'w RabbitMQBroker \<Rightarrow> 'w RabbitMQBroker \<Rightarrow> bool" where
  "same_broker b b' \<longleftrightarrow> rb_config b' = rb_config b \<and> rb_closed b' = rb_closed b \<and> rb_reconnecting b' = rb_reconnecting b \<and>
     rb_subscribers b' = rb_subscribers b"

lemma same_broker_refl [simp]: "same_broker b b"
  by (simp add: same_broker_def)

lemma setupSubscription_cases:
  assumes "rb_channel b = Some ch"
  obtains e s' where "setupSubscription lib t q h b s = Some (Some e, b, s')"
    | dl s' where "setupSubscription lib t q h b s = Some (None, b\<lparr>rb_consumers := rb_consumers b @ [(dl, h)]\<rparr>, s')"
  using assms by (fastforce simp: setupSubscription_def split: prod.splits sum.splits option.splits)

lemma resubscribe_total:
  assumes "rb_channel b = Some ch"
  shows "\<exists>e b' s'. resubscribe lib subs b s = Some (e, b', s') \<and> same_broker b b' \<and> rb_channel b' = rb_channel b \<and>
    rb_connection b' = rb_connection b \<and> rb_notify b' = rb_notify b \<and> rb_monitors b' = rb_monitors b \<and>
    (\<exists>cs. rb_consumers b' = rb_consumers b @ cs \<and> map snd cs = map sb_handler (take (length cs) subs) \<and> (e = None \<longrightarrow> length cs = length subs))"
  using assms
proof (induction subs arbitrary: b s)
  case (Cons sub subs)
  show ?case
  proof (rule setupSubscription_cases [OF Cons.prems, of lib "sb_topic sub" "sb_queue sub" "sb_handler sub" s])
    fix dl s' assume a: "setupSubscription lib (sb_topic sub) (sb_queue sub) (sb_handler sub) b s =
      Some (None, b\<lparr>rb_consumers := rb_consumers b @ [(dl, sb_handler sub)]\<rparr>, s')"
    let ?b = "b\<lparr>rb_consumers := rb_consumers b @ [(dl, sb_handler sub)]\<rparr>"
    obtain e b' s'' cs where ih: "resubscribe lib subs ?b s' = Some (e, b', s'')" "same_broker ?b b'" "rb_channel b' = rb_channel ?b"
      "rb_connection b' = rb_connection ?b" "rb_notify b' = rb_notify ?b" "rb_monitors b' = rb_monitors ?b"
      "rb_consumers b' = rb_consumers ?b @ cs" "map snd cs = map sb_handler (take (length cs) subs)" "e = None \<longrightarrow> length cs = length subs"
      using Cons.IH [of ?b s'] Cons.prems by auto
    show ?thesis
      using a ih by (intro exI [of _ e] exI [of _ b'] exI [of _ s'']) (auto simp: same_broker_def intro!: exI [of _ "(dl, sb_handler sub) # cs"])
  qed (auto intro!: exI [of _ "[]"])
qed simp

definition stored :: "string list \<Rightarrow> 'w RabbitMQBroker \<Rightarrow> 'w subscriberInfo list" where
  "stored topics b = concat (map (\<lambda>t. case rb_subscribers b t of None \<Rightarrow> [] | Some subs \<Rightarrow> subs) topics)"

text \<open>An attempt does not panic; it fails, or there is a connection with a channel, one more monitor and consumers for the subscriptions.\<close>

lemma connected_total:
  assumes "rb_channel b = Some ch" and "rb_connection b = Some conn"
  shows "\<exists>b' s'. connected lib topics conn ch b s = Some (None, b', s') \<and> same_broker b b' \<and> rb_channel b' = Some ch \<and>
    rb_connection b' = Some conn \<and> rb_notify b' = Some (conn, ch) \<and> rb_monitors b' = rb_monitors b + 1 \<and>
    (\<exists>cs. rb_consumers b' = rb_consumers b @ cs \<and> map snd cs = map sb_handler (take (length cs) (stored topics b)))"
proof -
  let ?b = "b\<lparr>rb_notify := Some (conn, ch), rb_monitors := rb_monitors b + 1\<rparr>"
  obtain e b' s' cs where r: "resubscribe lib (stored topics b) ?b s = Some (e, b', s')" "same_broker ?b b'" "rb_channel b' = rb_channel ?b"
    "rb_connection b' = rb_connection ?b" "rb_notify b' = rb_notify ?b" "rb_monitors b' = rb_monitors ?b"
    "rb_consumers b' = rb_consumers ?b @ cs" "map snd cs = map sb_handler (take (length cs) (stored topics b))"
    using resubscribe_total [of ?b ch lib "stored topics b" s] assms by auto
  have "resubscribeAll lib topics ?b s = Some (e, b', s')" using r(1) by (simp add: resubscribeAll_def stored_def)
  then show ?thesis using r assms by (auto simp: connected_def same_broker_def)
qed

lemma connect_cases:
  assumes "\<not> rb_closed b"
  obtains e b' s' where "connect lib topics b s = Some (Some e, b', s')" and "same_broker b b'" and "rb_notify b' = rb_notify b"
      and "rb_monitors b' = rb_monitors b" and "rb_consumers b' = rb_consumers b"
    | b' s' conn ch cs where "connect lib topics b s = Some (None, b', s')" and "same_broker b b'" and "rb_notify b' = Some (conn, ch)"
      and "rb_monitors b' = rb_monitors b + 1" and "rb_channel b' = Some ch" and "rb_connection b' = Some conn"
      and "rb_consumers b' = rb_consumers b @ cs" and "map snd cs = map sb_handler (take (length cs) (stored topics b))"
proof -
  define s0 where "s0 = (case rb_connection b of None \<Rightarrow> s | Some c \<Rightarrow> am_CloseConnection lib c s)"
  obtain dl s1 where d: "am_Dial lib (rq_URI (rb_config b)) (rq_ConnectionTimeout (rb_config b)) s0 = (dl, s1)" by fastforce
  show thesis
  proof (cases dl)
    case (DialOk conn)
    obtain cr s2 where c: "am_Channel lib conn s1 = (cr, s2)" by fastforce
    show ?thesis
    proof (cases cr)
      case (Inl e)
      then show ?thesis using that(1) assms d DialOk c by (simp add: connect_def s0_def [symmetric] Let_def same_broker_def)
    next
      case (Inr ch)
      obtain x s3 where x: "am_ExchangeDeclare lib ch (rq_ExchangeName (rb_config b)) (rq_ExchangeType (rb_config b))
          (rq_QueueDurable (rb_config b)) s2 = (x, s3)" by fastforce
      let ?b = "b\<lparr>rb_connection := Some conn, rb_channel := Some ch\<rparr>"
      have st: "stored topics ?b = stored topics b" by (simp add: stored_def)
      obtain b' s' cs where k: "connected lib topics conn ch ?b s3 = Some (None, b', s')" "same_broker ?b b'" "rb_channel b' = Some ch"
        "rb_connection b' = Some conn" "rb_notify b' = Some (conn, ch)" "rb_monitors b' = rb_monitors ?b + 1"
        "rb_consumers b' = rb_consumers ?b @ cs" "map snd cs = map sb_handler (take (length cs) (stored topics ?b))"
        using connected_total [of ?b ch conn lib topics s3] by auto
      show ?thesis
      proof (cases x)
        case None
        then show ?thesis using that(2) k st assms d DialOk c Inr x by (simp add: connect_def s0_def [symmetric] Let_def same_broker_def)
      next
        case (Some e)
        then show ?thesis using that(1) assms d DialOk c Inr x by (simp add: connect_def s0_def [symmetric] Let_def same_broker_def)
      qed
    qed
  qed (use that(1) assms d in \<open>simp_all add: connect_def s0_def [symmetric] Let_def same_broker_def\<close>)
qed

subsection \<open>Reconnecting\<close>

text \<open>A limited loop: it ends with a connection, or has used all attempts.\<close>

lemma reconnect_loop_ends:
  assumes "\<not> rb_closed b" and "0 < rq_MaxReconnectAttempts (rb_config b)" and "n \<le> rq_MaxReconnectAttempts (rb_config b)"
  shows "\<exists>m b' s'. reconnect_loop lib topics n b s = Some (Some (m, b', s')) \<and> m \<le> rq_MaxReconnectAttempts (rb_config b) \<and> same_broker b b' \<and>
    (rb_monitors b' = rb_monitors b + 1 \<and> (\<exists>conn ch. rb_notify b' = Some (conn, ch) \<and> rb_channel b' = Some ch \<and> rb_connection b' = Some conn) \<or>
     m = rq_MaxReconnectAttempts (rb_config b) \<and> rb_monitors b' = rb_monitors b \<and> rb_notify b' = rb_notify b)"
  using assms
proof (induction "nat (rq_MaxReconnectAttempts (rb_config b) - n)" arbitrary: n b s)
  case 0
  then have "n = rq_MaxReconnectAttempts (rb_config b)" by simp
  then show ?case using 0 by (simp add: reconnect_loop.simps)
next
  case (Suc k)
  then have lt: "n < rq_MaxReconnectAttempts (rb_config b)" by simp
  show ?case
  proof (rule connect_cases [OF Suc.prems(1), of lib topics s])
    fix e b1 s1 assume c: "connect lib topics b s = Some (Some e, b1, s1)" "same_broker b b1" "rb_notify b1 = rb_notify b" "rb_monitors b1 = rb_monitors b"
    have "reconnect_loop lib topics n b s = reconnect_loop lib topics (n + 1) b1 s1"
      using Suc.prems lt c(1) by (subst reconnect_loop.simps) simp
    moreover have "k = nat (rq_MaxReconnectAttempts (rb_config b1) - (n + 1))" using Suc.hyps(2) c(2) by (simp add: same_broker_def)
    ultimately show ?thesis
      using Suc.hyps(1) [of b1 "n + 1" s1] Suc.prems lt c by (fastforce simp: same_broker_def)
  next
    fix b1 s1 conn ch assume c: "connect lib topics b s = Some (None, b1, s1)" "same_broker b b1" "rb_notify b1 = Some (conn, ch)"
      "rb_monitors b1 = rb_monitors b + 1" "rb_channel b1 = Some ch" "rb_connection b1 = Some conn"
    have "reconnect_loop lib topics n b s = Some (Some (n + 1, b1, s1))"
      using Suc.prems lt c(1) by (subst reconnect_loop.simps) simp
    then show ?thesis using c lt by auto
  qed
qed

text \<open>
  C10: Reconnecting ends when the attempts are limited: after at most \<open>MaxReconnectAttempts\<close> attempts, without a panic, the broker has
  a connection and a channel again, or it has used all attempts.  Either way it keeps its subscriptions and may reconnect again; every new
  connection leaves one more monitor running.
\<close>

theorem reconnect_ends:
  assumes "\<not> rb_closed b" and "\<not> rb_reconnecting b" and "0 < rq_MaxReconnectAttempts (rb_config b)"
  shows "\<exists>n b' s'. reconnect lib topics b s = Some (Some (n, b', s')) \<and> n \<le> rq_MaxReconnectAttempts (rb_config b) \<and> \<not> rb_reconnecting b' \<and>
    rb_subscribers b' = rb_subscribers b \<and>
    (rb_monitors b' = rb_monitors b + 1 \<and> rb_channel b' \<noteq> None \<and> rb_connection b' \<noteq> None \<or>
     n = rq_MaxReconnectAttempts (rb_config b) \<and> rb_monitors b' = rb_monitors b \<and> rb_notify b' = rb_notify b)"
proof -
  let ?b = "b\<lparr>rb_reconnecting := True\<rparr>"
  obtain n b' s' where "reconnect_loop lib topics 0 ?b s = Some (Some (n, b', s'))" "n \<le> rq_MaxReconnectAttempts (rb_config b)" "same_broker ?b b'"
    "rb_monitors b' = rb_monitors b + 1 \<and> (\<exists>conn ch. rb_notify b' = Some (conn, ch) \<and> rb_channel b' = Some ch \<and> rb_connection b' = Some conn) \<or>
     n = rq_MaxReconnectAttempts (rb_config b) \<and> rb_monitors b' = rb_monitors b \<and> rb_notify b' = rb_notify b"
    using reconnect_loop_ends [of ?b 0 lib topics s] assms by auto
  then show ?thesis using assms by (auto simp: reconnect_def same_broker_def)
qed

text \<open>A monitor that is woken \<open>n\<close> times, with the attempts it made in all.\<close>

fun monitor_run :: "'s amqp \<Rightarrow> string list \<Rightarrow> nat \<Rightarrow> 'w RabbitMQBroker \<Rightarrow> 's \<Rightarrow> (int \<times> 'w RabbitMQBroker \<times> 's) option option" where
  "monitor_run lib topics 0 b s = Some (Some (0, b, s))"
| "monitor_run lib topics (Suc n) b s =
     (case handleReconnection lib topics b s of
        None \<Rightarrow> None
      | Some None \<Rightarrow> Some None
      | Some (Some (m, b, s)) \<Rightarrow>
          (case monitor_run lib topics n b s of
             None \<Rightarrow> None
           | Some None \<Rightarrow> Some None
           | Some (Some (k, b, s)) \<Rightarrow> Some (Some (m + k, b, s))))"

definition no_server :: "'s amqp \<Rightarrow> bool" where
  "no_server lib \<longleftrightarrow> (\<forall>uri t s. \<nexists>c. fst (am_Dial lib uri t s) = DialOk c)"

lemma connect_no_server:
  assumes "no_server lib" and "\<not> rb_closed b"
  shows "\<exists>e b' s'. connect lib topics b s = Some (Some e, b', s')"
  using assms by (auto simp: connect_def no_server_def Let_def split: prod.split dialled.split) (metis fst_conv)

lemma reconnect_no_server:
  assumes "no_server lib" and "\<not> rb_closed b" and "0 < rq_MaxReconnectAttempts (rb_config b)" and "n \<le> rq_MaxReconnectAttempts (rb_config b)"
  shows "\<exists>b' s'. reconnect_loop lib topics n b s = Some (Some (rq_MaxReconnectAttempts (rb_config b), b', s')) \<and> same_broker b b' \<and> rb_notify b' = rb_notify b"
  using assms(2-4)
proof (induction "nat (rq_MaxReconnectAttempts (rb_config b) - n)" arbitrary: n b s)
  case 0
  then have "n = rq_MaxReconnectAttempts (rb_config b)" by simp
  then show ?case using 0 by (simp add: reconnect_loop.simps)
next
  case (Suc k)
  then have lt: "n < rq_MaxReconnectAttempts (rb_config b)" by simp
  obtain e b1 s1 where c: "connect lib topics b s = Some (Some e, b1, s1)" "same_broker b b1" "rb_notify b1 = rb_notify b"
    using connect_no_server [OF assms(1) Suc.prems(1), of topics s] by (cases rule: connect_cases [OF Suc.prems(1), of lib topics s]) auto
  have "reconnect_loop lib topics n b s = reconnect_loop lib topics (n + 1) b1 s1"
    using Suc.prems lt c(1) by (subst reconnect_loop.simps) simp
  moreover have "k = nat (rq_MaxReconnectAttempts (rb_config b1) - (n + 1))" using Suc.hyps(2) c(2) by (simp add: same_broker_def)
  ultimately show ?case
    using Suc.hyps(1) [of b1 "n + 1" s1] Suc.prems lt c by (fastforce simp: same_broker_def)
qed

text \<open>
  The limit of the attempts is none: without a server a monitor that gave up still waits on the notification of the
  lost connection, which the library has closed and which wakes it at once; woken \<open>n\<close> times it has made \<open>n\<close> times the maximal number of attempts.
\<close>

theorem attempts_not_limited:
  assumes "no_server lib" and "\<not> rb_closed b" and "\<not> rb_reconnecting b" and "0 < rq_MaxReconnectAttempts (rb_config b)"
  shows "\<exists>b' s'. monitor_run lib topics n b s = Some (Some (int n * rq_MaxReconnectAttempts (rb_config b), b', s')) \<and> rb_notify b' = rb_notify b \<and> \<not> rb_closed b'"
  using assms(2-4)
proof (induction n arbitrary: b s)
  case (Suc n)
  let ?b = "b\<lparr>rb_reconnecting := True\<rparr>"
  obtain b1 s1 where r: "reconnect_loop lib topics 0 ?b s = Some (Some (rq_MaxReconnectAttempts (rb_config b), b1, s1))" "same_broker ?b b1"
    "rb_notify b1 = rb_notify b" using reconnect_no_server [OF assms(1), of ?b 0 topics s] Suc.prems by auto
  let ?b1 = "b1\<lparr>rb_reconnecting := False\<rparr>"
  have "handleReconnection lib topics b s = Some (Some (rq_MaxReconnectAttempts (rb_config b), ?b1, s1))"
    using r(1) Suc.prems by (simp add: handleReconnection_def reconnect_def)
  moreover obtain b' s' where "monitor_run lib topics n ?b1 s1 = Some (Some (int n * rq_MaxReconnectAttempts (rb_config b), b', s'))"
    "rb_notify b' = rb_notify b" "\<not> rb_closed b'" using Suc.IH [of ?b1 s1] r Suc.prems by (auto simp: same_broker_def)
  ultimately show ?case by (simp add: algebra_simps)
qed simp

subsection \<open>Messages of the server\<close>

text \<open>
  What the server promises: \<open>copies\<close> counts the messages its queues hold, those that wait and those that are delivered and not acknowledged, by
  routing key and content.  An acknowledgement takes away the one it names; nothing else takes a message away as long as
  queues are not deleted with their last consumer; \<open>moves\<close> is what the server does by itself - it delivers, and takes back what a lost connection had.
\<close>

locale amqp_queues =
  fixes lib :: "'s amqp" and copies :: "'s \<Rightarrow> string \<Rightarrow> Message \<Rightarrow> nat" and moves :: "'s \<Rightarrow> 's \<Rightarrow> bool"
  assumes ack: "copies s k m \<le> copies (snd (am_Ack lib d False s)) k m + (if k = dl_RoutingKey d \<and> m = rabbit_message (delivered d) then 1 else 0)"
    and nack: "copies s k m \<le> copies (snd (am_Nack lib d False True s)) k m"
    and publish: "copies s k m \<le> copies (snd (am_Publish lib ch ex t p s)) k m"
    and dial: "copies s k m \<le> copies (snd (am_Dial lib uri timeout s)) k m"
    and channel: "copies s k m \<le> copies (snd (am_Channel lib conn s)) k m"
    and exchange: "copies s k m \<le> copies (snd (am_ExchangeDeclare lib ch ex ty du s)) k m"
    and queue: "copies s k m \<le> copies (snd (am_QueueDeclare lib ch q du False s)) k m"
    and bind: "copies s k m \<le> copies (snd (am_QueueBind lib ch q t ex s)) k m"
    and consume: "copies s k m \<le> copies (snd (am_Consume lib ch q s)) k m"
    and close_channel: "copies s k m \<le> copies (am_CloseChannel lib ch s) k m"
    and close_connection: "copies s k m \<le> copies (am_CloseConnection lib conn s) k m"
    and moves: "moves s s' \<Longrightarrow> copies s k m \<le> copies s' k m"
begin

definition keeps :: "'s \<Rightarrow> 's \<Rightarrow> bool" where
  "keeps s s' \<longleftrightarrow> (\<forall>k m. copies s k m \<le> copies s' k m)"

lemma keeps_trans: "keeps s s' \<Longrightarrow> keeps s' s'' \<Longrightarrow> keeps s s''"
  unfolding keeps_def by (meson le_trans)

lemma keeps_refl [simp]: "keeps s s"
  by (simp add: keeps_def)

lemma keeps_lib:
  "am_Dial lib uri timeout s = (x, s') \<Longrightarrow> keeps s s'" "am_Channel lib conn s = (y, s') \<Longrightarrow> keeps s s'"
  "am_ExchangeDeclare lib ch ex ty du s = (e, s') \<Longrightarrow> keeps s s'" "am_QueueDeclare lib ch q du False s = (z, s') \<Longrightarrow> keeps s s'"
  "am_QueueBind lib ch q t ex s = (e, s') \<Longrightarrow> keeps s s'" "am_Consume lib ch q s = (y, s') \<Longrightarrow> keeps s s'"
  "am_Publish lib ch ex t p s = (e, s') \<Longrightarrow> keeps s s'"
  using dial [of s] channel [of s] exchange [of s] queue [of s] bind [of s] consume [of s] publish [of s] unfolding keeps_def by (metis snd_conv)+

lemma keeps_close: "keeps s (am_CloseConnection lib c s)" "keeps s (am_CloseChannel lib c s)"
  by (simp_all add: keeps_def close_connection close_channel)

lemma setupSubscription_keeps:
  assumes "setupSubscription lib t q h b s = Some (e, b', s')" and "\<not> rq_QueueAutoDelete (rb_config b)"
  shows "keeps s s' \<and> rb_config b' = rb_config b"
  using assms by (auto simp: setupSubscription_def split: option.splits prod.splits sum.splits dest!: keeps_lib intro: keeps_trans)

lemma resubscribe_keeps:
  assumes "resubscribe lib subs b s = Some (e, b', s')" and "\<not> rq_QueueAutoDelete (rb_config b)"
  shows "keeps s s' \<and> rb_config b' = rb_config b"
  using assms
proof (induction subs arbitrary: b s)
  case (Cons sub subs)
  obtain e1 b1 s1 where u: "setupSubscription lib (sb_topic sub) (sb_queue sub) (sb_handler sub) b s = Some (e1, b1, s1)"
    using Cons.prems(1) by (auto split: option.splits)
  have k: "keeps s s1" "rb_config b1 = rb_config b" using setupSubscription_keeps [OF u Cons.prems(2)] by auto
  then show ?case
    using Cons.IH [of b1 s1] Cons.prems u by (cases e1) (auto intro: keeps_trans)
qed auto

lemma connect_keeps:
  assumes "connect lib topics b s = Some (e, b', s')" and "\<not> rq_QueueAutoDelete (rb_config b)"
  shows "keeps s s' \<and> rb_config b' = rb_config b"
proof (cases "rb_closed b")
  case False
  define s0 where "s0 = (case rb_connection b of None \<Rightarrow> s | Some c \<Rightarrow> am_CloseConnection lib c s)"
  have s0: "keeps s s0" by (simp add: s0_def keeps_close split: option.split)
  have con: "keeps s1 s2 \<and> rb_config b2 = rb_config b1" if "connected lib topics conn ch b1 s1 = Some (e', b2, s2)" "\<not> rq_QueueAutoDelete (rb_config b1)"
    for conn ch b1 s1 b2 s2 e'
    using that by (auto simp: connected_def resubscribeAll_def split: option.splits dest!: resubscribe_keeps)
  have "keeps s0 s' \<and> rb_config b' = rb_config b"
    using assms False
    by (auto simp: connect_def s0_def [symmetric] Let_def split: prod.splits dialled.splits sum.splits option.splits dest!: keeps_lib con
        intro: keeps_trans)
  then show ?thesis using s0 keeps_trans by blast
qed (use assms in \<open>simp add: connect_def\<close>)

end

text \<open>
  Processes with a broker each and handlers on one world.  \<open>ry_accepted\<close> counts the calls of handlers that returned nil.
\<close>

record ('w, 's) rabbit_sys =
  ry_brokers :: "nat \<Rightarrow> 'w RabbitMQBroker"
  ry_world :: 'w
  ry_server :: 's
  ry_accepted :: "string \<Rightarrow> Message \<Rightarrow> nat"

definition accept :: "string option \<Rightarrow> delivery \<Rightarrow> (string \<Rightarrow> Message \<Rightarrow> nat) \<Rightarrow> string \<Rightarrow> Message \<Rightarrow> nat" where
  "accept e d n k m = n k m + (if e = None \<and> k = dl_RoutingKey d \<and> m = rabbit_message (delivered d) then 1 else 0)"

inductive rabbit_step :: "'s amqp \<Rightarrow> ('s \<Rightarrow> 's \<Rightarrow> bool) \<Rightarrow> ('w, 's) rabbit_sys \<Rightarrow> ('w, 's) rabbit_sys \<Rightarrow> bool" for lib moves where
  deliver: "handle_delivery lib h d (ry_world y) (ry_server y) = (e, w, s) \<Longrightarrow>
    rabbit_step lib moves y (y\<lparr>ry_world := w, ry_server := s, ry_accepted := accept e d (ry_accepted y)\<rparr>)"
| publish: "rabbit_Publish lib now t m (ry_brokers y i) (ry_server y) = (e, s) \<Longrightarrow> rabbit_step lib moves y (y\<lparr>ry_server := s\<rparr>)"
| subscribe: "subscribe_setup lib t h (ry_brokers y i) (ry_server y) = Some (e, b, s) \<Longrightarrow>
    rabbit_step lib moves y (y\<lparr>ry_brokers := (ry_brokers y)(i := b), ry_server := s\<rparr>)"
| store: "rabbit_step lib moves y (y\<lparr>ry_brokers := (ry_brokers y)(i := subscribe_store t h (ry_brokers y i))\<rparr>)"
| attempt: "connect lib topics (ry_brokers y i) (ry_server y) = Some (e, b, s) \<Longrightarrow>
    rabbit_step lib moves y (y\<lparr>ry_brokers := (ry_brokers y)(i := b), ry_server := s\<rparr>)"
| close: "rabbit_Close lib (ry_brokers y i) (ry_server y) = (b, s) \<Longrightarrow>
    rabbit_step lib moves y (y\<lparr>ry_brokers := (ry_brokers y)(i := b), ry_server := s\<rparr>)"
| server: "moves (ry_server y) s \<Longrightarrow> rabbit_step lib moves y (y\<lparr>ry_server := s\<rparr>)"

definition no_auto_delete :: "('w, 's) rabbit_sys \<Rightarrow> bool" where
  "no_auto_delete y \<longleftrightarrow> (\<forall>i. \<not> rq_QueueAutoDelete (rb_config (ry_brokers y i)))"

context amqp_queues
begin

lemma step_safe:
  assumes "rabbit_step lib moves y y'" and "no_auto_delete y"
  shows "no_auto_delete y' \<and> copies (ry_server y) k m + ry_accepted y k m \<le> copies (ry_server y') k m + ry_accepted y' k m"
  using assms
proof (induction rule: rabbit_step.induct)
  case (deliver h d y e w s)
  have "copies (ry_server y) k m \<le> copies s k m + (if e = None \<and> k = dl_RoutingKey d \<and> m = rabbit_message (delivered d) then 1 else 0)"
    using deliver.hyps ack [of "ry_server y" k m d] nack [of "ry_server y" k m d]
    by (auto simp: handle_delivery_def split: prod.splits option.splits)
  then show ?case using deliver.prems by (simp add: no_auto_delete_def accept_def)
next
  case (publish now t msg y i e s)
  have "keeps (ry_server y) s"
    using publish.hyps by (auto simp: rabbit_Publish_def split: if_splits option.splits prod.splits dest!: keeps_lib)
  then show ?case using publish.prems by (simp add: no_auto_delete_def keeps_def)
next
  case (subscribe t h y i e b s)
  have "keeps (ry_server y) s \<and> rb_config b = rb_config (ry_brokers y i)"
    using subscribe.hyps setupSubscription_keeps [of t _ h "ry_brokers y i"] subscribe.prems
    by (auto simp: subscribe_setup_def no_auto_delete_def split: if_splits)
  then show ?case using subscribe.prems by (simp add: no_auto_delete_def keeps_def)
next
  case (attempt topics y i e b s)
  have "keeps (ry_server y) s \<and> rb_config b = rb_config (ry_brokers y i)"
    using connect_keeps [OF attempt.hyps] attempt.prems by (simp add: no_auto_delete_def)
  then show ?case using attempt.prems by (simp add: no_auto_delete_def keeps_def)
next
  case (close y i b s)
  have "keeps (ry_server y) s \<and> rb_config b = rb_config (ry_brokers y i)"
    using close.hyps
    by (auto simp: rabbit_Close_def Let_def split: if_splits option.splits intro: keeps_close keeps_trans)
  then show ?case using close.prems by (simp add: no_auto_delete_def keeps_def)
qed (simp_all add: no_auto_delete_def subscribe_store_def moves)

lemma run_safe:
  assumes "(rabbit_step lib moves)\<^sup>*\<^sup>* y y'" and "no_auto_delete y"
  shows "no_auto_delete y' \<and> copies (ry_server y) k m + ry_accepted y k m \<le> copies (ry_server y') k m + ry_accepted y' k m"
  using assms
proof (induction rule: rtranclp_induct)
  case (step y' y'')
  then show ?case using step_safe [OF step.hyps(2), of k m] by auto
qed simp

end

subsection \<open>A server in memory\<close>

record rabbit_mem =
  rw_next :: nat
  rw_bound :: "(string \<times> string) list" \<comment> \<open>queue and key\<close>
  rw_ready :: "(string \<times> string \<times> publishing) list" \<comment> \<open>queue, key and message\<close>
  rw_unacked :: "(delivery \<times> string) list" \<comment> \<open>with the queue\<close>

definition delivery_of :: "nat \<Rightarrow> nat \<Rightarrow> string \<Rightarrow> publishing \<Rightarrow> delivery" where
  "delivery_of ch tag k p =
     \<lparr>dl_MessageId = pu_MessageId p, dl_Body = pu_Body p, dl_Headers = pu_Headers p, dl_RoutingKey = k, dl_channel = ch, dl_DeliveryTag = tag\<rparr>"

definition publishing_of :: "delivery \<Rightarrow> publishing" where
  "publishing_of d =
     \<lparr>pu_MessageId = dl_MessageId d, pu_Persistent = True, pu_Timestamp = 0, pu_ContentType = [], pu_Body = dl_Body d, pu_Headers = dl_Headers d\<rparr>"

definition message_of :: "publishing \<Rightarrow> Message" where
  "message_of p = rabbit_message (delivered (delivery_of 0 0 [] p))"

definition next_id :: "rabbit_mem \<Rightarrow> (string + nat) \<times> rabbit_mem" where
  "next_id s = (Inr (rw_next s), s\<lparr>rw_next := rw_next s + 1\<rparr>)"

definition requeue :: "delivery \<times> string \<Rightarrow> string \<times> string \<times> publishing" where
  "requeue u = (snd u, dl_RoutingKey (fst u), publishing_of (fst u))"

definition amqp_mem :: "rabbit_mem amqp" where
  "amqp_mem =
     \<lparr>am_Dial = (\<lambda>uri t s. (DialOk (rw_next s), s\<lparr>rw_next := rw_next s + 1\<rparr>)),
      am_Channel = (\<lambda>c. next_id), am_ExchangeDeclare = (\<lambda>ch ex ty du s. (None, s)), am_QueueDeclare = (\<lambda>ch q du ad s. (Inr q, s)),
      am_QueueBind = (\<lambda>ch q t ex s. (None, s\<lparr>rw_bound := List.insert (q, t) (rw_bound s)\<rparr>)), am_Consume = (\<lambda>ch q. next_id),
      am_Publish = (\<lambda>ch ex t p s. (None, s\<lparr>rw_ready := rw_ready s @ map (\<lambda>(q, k). (q, k, p)) (filter (\<lambda>b. snd b = t) (rw_bound s))\<rparr>)),
      am_Ack = (\<lambda>d multiple s. case map_of (rw_unacked s) d of
          None \<Rightarrow> (Some ''unknown delivery tag'', s)
        | Some q \<Rightarrow> (None, s\<lparr>rw_unacked := remove1 (d, q) (rw_unacked s)\<rparr>)),
      am_Nack = (\<lambda>d multiple again s. case map_of (rw_unacked s) d of
          None \<Rightarrow> (Some ''unknown delivery tag'', s)
        | Some q \<Rightarrow> (None, s\<lparr>rw_unacked := remove1 (d, q) (rw_unacked s), rw_ready := rw_ready s @ (if again then [requeue (d, q)] else [])\<rparr>)),
      am_CloseChannel = (\<lambda>ch s. s), am_CloseConnection = (\<lambda>c s. s)\<rparr>"

definition mem_copies :: "rabbit_mem \<Rightarrow> string \<Rightarrow> Message \<Rightarrow> nat" where
  "mem_copies s k m =
     length (filter (\<lambda>(q, k', p). k' = k \<and> message_of p = m) (rw_ready s)) +
     length (filter (\<lambda>(d, q). dl_RoutingKey d = k \<and> rabbit_message (delivered d) = m) (rw_unacked s))"

inductive mem_moves :: "rabbit_mem \<Rightarrow> rabbit_mem \<Rightarrow> bool" where
  mem_deliver: "rw_ready s = xs @ (q, k, p) # ys \<Longrightarrow>
    mem_moves s (s\<lparr>rw_ready := xs @ ys, rw_unacked := rw_unacked s @ [(delivery_of ch (rw_next s) k p, q)], rw_next := rw_next s + 1\<rparr>)"
| mem_lost: "mem_moves s (s\<lparr>rw_ready := rw_ready s @ map requeue (filter lost (rw_unacked s)), rw_unacked := filter (\<lambda>u. \<not> lost u) (rw_unacked s)\<rparr>)"

lemma message_of_simps [simp]:
  "rabbit_message (delivered (delivery_of ch tag k p)) = message_of p" "message_of (publishing_of d) = rabbit_message (delivered d)"
  "dl_RoutingKey (delivery_of ch tag k p) = k"
  by (simp_all add: message_of_def delivered_def delivery_of_def publishing_of_def)

lemma length_filter_remove1: "x \<in> set xs \<Longrightarrow> length (filter P xs) = length (filter P (remove1 x xs)) + (if P x then 1 else 0)"
  by (induction xs) auto

lemma mem_unacked_remove:
  "map_of (rw_unacked s) d = Some q \<Longrightarrow>
   length (filter (\<lambda>(d, q). dl_RoutingKey d = k \<and> rabbit_message (delivered d) = m) (rw_unacked s)) =
   length (filter (\<lambda>(d, q). dl_RoutingKey d = k \<and> rabbit_message (delivered d) = m) (remove1 (d, q) (rw_unacked s))) +
     (if dl_RoutingKey d = k \<and> rabbit_message (delivered d) = m then 1 else 0)"
  by (simp add: length_filter_remove1 [OF map_of_SomeD])

lemma length_filter_split: "length (filter P xs) = length (filter P (filter Q xs)) + length (filter P (filter (\<lambda>x. \<not> Q x) xs))"
  by (induction xs) auto

lemma mem_moves_copies: "mem_moves s s' \<Longrightarrow> mem_copies s' k m = mem_copies s k m"
proof (induction rule: mem_moves.induct)
  case (mem_lost s lost)
  then show ?case
    using length_filter_split [of "\<lambda>(d, q). dl_RoutingKey d = k \<and> rabbit_message (delivered d) = m" "rw_unacked s" lost]
    by (simp add: mem_copies_def requeue_def case_prod_beta filter_map comp_def)
qed (simp add: mem_copies_def)

interpretation rabbit: amqp_queues amqp_mem mem_copies mem_moves
proof unfold_locales
  show "mem_copies s k m \<le> mem_copies (snd (am_Ack amqp_mem d False s)) k m +
      (if k = dl_RoutingKey d \<and> m = rabbit_message (delivered d) then 1 else 0)" for s k m d
    using mem_unacked_remove [of s d _ k m] by (auto simp: amqp_mem_def mem_copies_def split: option.split)
  show "mem_copies s k m \<le> mem_copies (snd (am_Nack amqp_mem d False True s)) k m" for s k m d
    using mem_unacked_remove [of s d _ k m] by (auto simp: amqp_mem_def mem_copies_def requeue_def split: option.split)
qed (auto simp: amqp_mem_def mem_copies_def next_id_def mem_moves_copies [unfolded mem_copies_def])

text \<open>
  C9: With queues that outlive their consumers a message that RabbitMQ holds stays there until a handler has accepted it, however deliveries,
  publications, subscriptions, reconnections, lost connections and shutdowns of any number of processes interleave: the copies the server holds and the calls of
  handlers that returned nil together never become fewer.
\<close>

theorem rabbit_at_least_once:
  assumes "amqp_queues lib copies moves" and "(rabbit_step lib moves)\<^sup>*\<^sup>* y y'" and "no_auto_delete y"
  shows "copies (ry_server y) k m + ry_accepted y k m \<le> copies (ry_server y') k m + ry_accepted y' k m"
  using amqp_queues.run_safe [OF assms] by simp

definition demo_broker :: "string list RabbitMQBroker" where
  "demo_broker =
     \<lparr>rb_config = DefaultRabbitMQConfig, rb_connection = None, rb_channel = None, rb_reconnecting = False, rb_closed = False,
      rb_subscribers = Map.empty, rb_notify = None, rb_monitors = 0, rb_consumers = []\<rparr>"

definition demo_delivery :: delivery where
  "demo_delivery = \<lparr>dl_MessageId = ''1'', dl_Body = ''x'', dl_Headers = None, dl_RoutingKey = ''orders'', dl_channel = 0, dl_DeliveryTag = 7\<rparr>"

definition demo_queue :: "(string list, rabbit_mem) rabbit_sys" where
  "demo_queue =
     \<lparr>ry_brokers = (\<lambda>_. demo_broker), ry_world = [],
      ry_server = \<lparr>rw_next = 8, rw_bound = [], rw_ready = [], rw_unacked = [(demo_delivery, ''microlib.orders'')]\<rparr>, ry_accepted = (\<lambda>_ _. 0)\<rparr>"

text \<open>A handler that refuses the only message of the server: it is still there.\<close>

theorem rabbit_at_least_once_witness:
  "\<exists>y'. (rabbit_step amqp_mem mem_moves)\<^sup>*\<^sup>* demo_queue y' \<and> ry_accepted y' = (\<lambda>_ _. 0) \<and>
     1 \<le> mem_copies (ry_server y') ''orders'' (rabbit_message (delivered demo_delivery))"
proof -
  let ?m = "rabbit_message (delivered demo_delivery)"
  let ?h = "\<lambda>m w. (Some ''refused'', w @ [ms_id m])"
  obtain e w s where d: "handle_delivery amqp_mem ?h demo_delivery (ry_world demo_queue) (ry_server demo_queue) = (e, w, s)" by (metis prod_cases3)
  let ?y = "demo_queue\<lparr>ry_world := w, ry_server := s, ry_accepted := accept e demo_delivery (ry_accepted demo_queue)\<rparr>"
  have run: "(rabbit_step amqp_mem mem_moves)\<^sup>*\<^sup>* demo_queue ?y" using rabbit_step.deliver [OF d] by blast
  have e: "e = Some ''refused''" using d by (simp add: handle_delivery_def)
  have n: "no_auto_delete demo_queue" by (simp add: no_auto_delete_def demo_queue_def demo_broker_def DefaultRabbitMQConfig_def)
  have "1 \<le> mem_copies (ry_server ?y) ''orders'' ?m + ry_accepted ?y ''orders'' ?m"
    using rabbit_at_least_once [OF rabbit.amqp_queues_axioms run n, of "''orders''" ?m]
    by (simp add: demo_queue_def mem_copies_def demo_delivery_def)
  moreover have "ry_accepted ?y = (\<lambda>_ _. 0)" by (simp add: e accept_def demo_queue_def fun_eq_iff)
  ultimately show ?thesis using run by (intro exI [of _ ?y]) auto
qed

definition dead_server :: "nat amqp" where
  "dead_server =
     \<lparr>am_Dial = (\<lambda>uri t s. (DialErr ''connection refused'', s + 1)), am_Channel = (\<lambda>c s. (Inl [], s)), am_ExchangeDeclare = (\<lambda>ch ex ty du s. (None, s)),
      am_QueueDeclare = (\<lambda>ch q du ad s. (Inr q, s)), am_QueueBind = (\<lambda>ch q t ex s. (None, s)), am_Consume = (\<lambda>ch q s. (Inl [], s)),
      am_Publish = (\<lambda>ch ex t p s. (None, s)), am_Ack = (\<lambda>d mu s. (None, s)), am_Nack = (\<lambda>d mu again s. (None, s)),
      am_CloseChannel = (\<lambda>ch s. s), am_CloseConnection = (\<lambda>c s. s)\<rparr>"

lemma demo_broker_open: "\<not> rb_closed demo_broker" "\<not> rb_reconnecting demo_broker" "rq_MaxReconnectAttempts (rb_config demo_broker) = 10"
  by (simp_all add: demo_broker_def DefaultRabbitMQConfig_def)

theorem reconnect_ends_witness: "\<exists>n b s. reconnect dead_server [] demo_broker 0 = Some (Some (n, b, s)) \<and> n \<le> 10"
  using reconnect_ends [of demo_broker dead_server "[]" 0] by (auto simp: demo_broker_open)

theorem attempts_not_limited_witness: "\<exists>b s. monitor_run dead_server [] 5 demo_broker 0 = Some (Some (50, b, s))"
  using attempts_not_limited [of dead_server demo_broker "[]" 5 0] by (auto simp: no_server_def dead_server_def demo_broker_open)

subsection \<open>Subscriptions\<close>

text \<open>
  What a handler receives is what was published: identifier, body and headers of a message survive the conversion to a publication and
  back, on whatever channel and with whatever tag it is delivered.
\<close>

theorem rabbit_roundtrip: "rabbit_message (delivered (delivery_of ch tag topic (rabbit_publishing now m))) = m"
  by (simp add: rabbit_message_def delivered_def delivery_of_def rabbit_publishing_def convertAMQPHeaders_def convertToAMQPHeaders_def
      option.map_comp comp_def option.map_ident)

text \<open>
  A subscription whose set-up and registration are separated by a reconnection is not restored on the new connection: no consumer of the
  handler is started, although \<open>Subscribe\<close> returns nil.
\<close>

theorem subscription_lost:
  assumes "\<not> rb_closed b" and "connect lib topics b s = Some (None, b', s')" and "rb_subscribers b = Map.empty"
  shows "rb_consumers (subscribe_store t h b') = rb_consumers b"
proof -
  have "stored topics b = []" using assms(3) by (simp add: stored_def)
  then show ?thesis
    using assms by (elim connect_cases [of b lib topics s]) (auto simp: subscribe_store_def)
qed

text \<open>Two subscriptions of a topic consume from one queue, so that each message reaches one of the handlers only.\<close>

lemma one_queue_per_topic: "queue_name config t = queue_name config t' \<longleftrightarrow> t = t'"
  by (simp add: queue_name_def)

end
