(* ===== verification/Kafka.thy ===== *)
theory Kafka
  imports Messaging GoFmt
begin

text \<open>
  Package messaging, \<open>kafka_broker.go\<close>: the broker on Kafka.  The client library is a record of its operations on a state \<open>'s\<close>; writers and
  readers are numbers.
\<close>

subsection \<open>The library\<close>

record kafka_msg =
  km_Key :: string
  km_Value :: string
  km_Headers :: "(string \<times> string) list"
  km_Time :: time

datatype sasl = SaslPlain string string | Scram256 string string | Scram512 string string

record Dialer =
  di_Timeout :: duration
  di_TLS :: "((string \<times> string) option \<times> string option) option" \<comment> \<open>client certificate and CA file\<close>
  di_SASL :: "sasl option"

datatype fetched = Fetched kafka_msg | FetchTimeout | FetchEOF | FetchErr string

record 's kafka =
  kl_load_cert :: "string \<Rightarrow> string \<Rightarrow> string option"
  kl_read_ca :: "string \<Rightarrow> string + bool" \<comment> \<open>whether the file holds a certificate\<close>
  kl_scram :: "sasl \<Rightarrow> string option"
  kl_Dial :: "Dialer \<Rightarrow> string \<Rightarrow> 's \<Rightarrow> string option \<times> 's"
  kl_Write :: "nat \<Rightarrow> string \<Rightarrow> kafka_msg \<Rightarrow> 's \<Rightarrow> string option \<times> 's"
  kl_CloseWriter :: "nat \<Rightarrow> 's \<Rightarrow> string option \<times> 's"
  kl_NewReader :: "string list \<Rightarrow> string \<Rightarrow> string \<Rightarrow> 's \<Rightarrow> nat \<times> 's" \<comment> \<open>brokers, group and topic\<close>
  kl_Fetch :: "nat \<Rightarrow> 's \<Rightarrow> fetched \<times> 's"
  kl_Commit :: "nat \<Rightarrow> kafka_msg \<Rightarrow> 's \<Rightarrow> string option \<times> 's"
  kl_CloseReader :: "nat \<Rightarrow> 's \<Rightarrow> string option \<times> 's"

subsection \<open>The broker\<close>

record 'w KafkaBroker =
  kb_config :: KafkaConfig
  kb_dialer :: Dialer
  kb_writers :: "string \<rightharpoonup> nat"
  kb_next :: nat \<comment> \<open>the next writer\<close>
  kb_readers :: "string \<rightharpoonup> nat"
  kb_consumers :: "(nat \<times> string \<times> 'w handler) list" \<comment> \<open>goroutines that run \<open>consumeMessages\<close>\<close>
  kb_closed :: bool

datatype kafka_error =
    KafkaClosed
  | KafkaCert string
  | KafkaReadCA string
  | KafkaParseCA
  | KafkaSASL string
  | KafkaMechanism string
  | KafkaDialer kafka_error
  | KafkaConnect string
  | KafkaPublish int "string option"

definition tls_config :: "'s kafka \<Rightarrow> KafkaConfig \<Rightarrow> kafka_error + ((string \<times> string) option \<times> string option)" where
  "tls_config lib config =
     (let pair = kf_TLSCertFile config \<noteq> [] \<and> kf_TLSKeyFile config \<noteq> [];
          cert = (if pair then Some (kf_TLSCertFile config, kf_TLSKeyFile config) else None)
      in case (if pair then kl_load_cert lib (kf_TLSCertFile config) (kf_TLSKeyFile config) else None) of
           Some e \<Rightarrow> Inl (KafkaCert e)
         | None \<Rightarrow>
             if kf_TLSCAFile config = [] then Inr (cert, None)
             else case kl_read_ca lib (kf_TLSCAFile config) of
                 Inl e \<Rightarrow> Inl (KafkaReadCA e)
               | Inr ok \<Rightarrow> if \<not> ok then Inl KafkaParseCA else Inr (cert, Some (kf_TLSCAFile config)))"

definition sasl_mechanism :: "'s kafka \<Rightarrow> KafkaConfig \<Rightarrow> kafka_error + sasl" where
  "sasl_mechanism lib config =
     (let user = kf_SASLUsername config; password = kf_SASLPassword config;
          scram = (\<lambda>m. case kl_scram lib m of Some e \<Rightarrow> Inl (KafkaMechanism e) | None \<Rightarrow> Inr m)
      in if kf_SASLMechanism config = ''plain'' then Inr (SaslPlain user password)
         else if kf_SASLMechanism config = ''scram-sha-256'' then scram (Scram256 user password)
         else if kf_SASLMechanism config = ''scram-sha-512'' then scram (Scram512 user password)
         else Inl (KafkaSASL (kf_SASLMechanism config)))"

definition createKafkaDialer :: "'s kafka \<Rightarrow> KafkaConfig \<Rightarrow> kafka_error + Dialer" where
  "createKafkaDialer lib config =
     (let dialer = \<lparr>di_Timeout = 10 * Second, di_TLS = None, di_SASL = None\<rparr>
      in case (if kf_EnableTLS config then map_sum id Some (tls_config lib config) else Inr None) of
           Inl e \<Rightarrow> Inl e
         | Inr tls \<Rightarrow>
             if \<not> strings_HasPrefix (kf_SecurityProtocol config) ''sasl'' then Inr (dialer\<lparr>di_TLS := tls\<rparr>)
             else case sasl_mechanism lib config of
                 Inl e \<Rightarrow> Inl e
               | Inr m \<Rightarrow> Inr (dialer\<lparr>di_TLS := tls, di_SASL := Some m\<rparr>))"

text \<open>An empty list of brokers panics (\<open>None\<close>).\<close>

definition verifyConnection :: "'s kafka \<Rightarrow> 'w KafkaBroker \<Rightarrow> 's \<Rightarrow> (string option \<times> 's) option" where
  "verifyConnection lib b s =
     (case kf_Brokers (kb_config b) of [] \<Rightarrow> None | first # rest \<Rightarrow> Some (kl_Dial lib (kb_dialer b) first s))"

definition NewKafkaBroker :: "'s kafka \<Rightarrow> KafkaConfig \<Rightarrow> 's \<Rightarrow> ((kafka_error + 'w KafkaBroker) \<times> 's) option" where
  "NewKafkaBroker lib config s =
     (case createKafkaDialer lib config of
        Inl e \<Rightarrow> Some (Inl (KafkaDialer e), s)
      | Inr dialer \<Rightarrow>
          (let b = \<lparr>kb_config = config, kb_dialer = dialer, kb_writers = Map.empty, kb_next = 0, kb_readers = Map.empty, kb_consumers = [], kb_closed = False\<rparr>
           in case verifyConnection lib b s of
                None \<Rightarrow> None
              | Some (Some e, s) \<Rightarrow> Some (Inl (KafkaConnect e), s)
              | Some (None, s) \<Rightarrow> Some (Inr b, s)))"

subsection \<open>Publishing\<close>

definition getOrCreateWriter :: "string \<Rightarrow> 'w KafkaBroker \<Rightarrow> nat \<times> 'w KafkaBroker" where
  "getOrCreateWriter topic b =
     (case kb_writers b topic of
        Some writer \<Rightarrow> (writer, b)
      | None \<Rightarrow> (kb_next b, b\<lparr>kb_writers := (kb_writers b)(topic \<mapsto> kb_next b), kb_next := kb_next b + 1\<rparr>))"

text \<open>\<open>keys\<close>: the keys of the headers in the order of the iteration.\<close>

definition kafka_message_of :: "time \<Rightarrow> string list \<Rightarrow> Message \<Rightarrow> kafka_msg" where
  "kafka_message_of now keys m =
     \<lparr>km_Key = ms_id m, km_Value = ms_body m, km_Headers = map (\<lambda>k. (k, the (ms_headers m k))) keys, km_Time = now\<rparr>"

text \<open>The loop over the attempts, with the last error and the waiting times before the attempts.\<close>

function publish_loop ::
  "'s kafka \<Rightarrow> KafkaConfig \<Rightarrow> nat \<Rightarrow> string \<Rightarrow> kafka_msg \<Rightarrow> int \<Rightarrow> string option \<Rightarrow> 's \<Rightarrow> kafka_error option \<times> duration list \<times> 's" where
  "publish_loop lib config writer topic msg attempt err s =
     (if kf_MaxRetries config < attempt then (Some (KafkaPublish (kf_MaxRetries config + 1) err), [], s)
      else
        (let backoff = (if 0 < attempt then [wrap64 (attempt * kf_RetryBackoff config)] else [])
         in case kl_Write lib writer topic msg s of
              (None, s) \<Rightarrow> (None, backoff, s)
            | (Some e, s) \<Rightarrow>
                (let (r, waits, s) = publish_loop lib config writer topic msg (attempt + 1) (Some e) s in (r, backoff @ waits, s))))"
  by pat_completeness auto
termination by (relation "measure (\<lambda>(lib, config, writer, topic, msg, attempt, err, s). nat (kf_MaxRetries config + 1 - attempt))") auto

declare publish_loop.simps [simp del]

definition kafka_Publish :: "'s kafka \<Rightarrow> time \<Rightarrow> string list \<Rightarrow> string \<Rightarrow> Message \<Rightarrow> 'w KafkaBroker \<Rightarrow> 's \<Rightarrow> kafka_error option \<times> 'w KafkaBroker \<times> 's" where
  "kafka_Publish lib now keys topic m b s =
     (if kb_closed b then (Some KafkaClosed, b, s)
      else
        (let (writer, b) = getOrCreateWriter topic b;
             (err, waits, s) = publish_loop lib (kb_config b) writer topic (kafka_message_of now keys m) 0 None s
         in (err, b, s)))"

subsection \<open>Consuming\<close>

definition group_id :: "KafkaConfig \<Rightarrow> string \<Rightarrow> string" where
  "group_id config topic = kf_ConsumerGroup config @ ''-'' @ topic"

definition kafka_Subscribe :: "'s kafka \<Rightarrow> string \<Rightarrow> 'w handler \<Rightarrow> 'w KafkaBroker \<Rightarrow> 's \<Rightarrow> kafka_error option \<times> 'w KafkaBroker \<times> 's" where
  "kafka_Subscribe lib topic h b s =
     (if kb_closed b then (Some KafkaClosed, b, s)
      else
        (let (reader, s) = kl_NewReader lib (kf_Brokers (kb_config b)) (group_id (kb_config b) topic) topic s
         in (None, b\<lparr>kb_readers := (kb_readers b)(topic \<mapsto> reader), kb_consumers := kb_consumers b @ [(reader, topic, h)]\<rparr>, s)))"

record kafkaMessage =
  kg_id :: string
  kg_body :: string
  kg_headers :: "headers option"

definition convertKafkaHeaders :: "(string \<times> string) list \<Rightarrow> headers option" where
  "convertKafkaHeaders headers = (if headers = [] then None else Some (fold (\<lambda>(k, v) result. result(k \<mapsto> v)) headers Map.empty))"

text \<open>A message without a key gets a new identifier (\<open>uuid\<close>).\<close>

definition received :: "string \<Rightarrow> kafka_msg \<Rightarrow> kafkaMessage" where
  "received uuid msg =
     \<lparr>kg_id = (if km_Key msg = [] then uuid else km_Key msg), kg_body = km_Value msg, kg_headers = convertKafkaHeaders (km_Headers msg)\<rparr>"

definition kafka_message :: "kafkaMessage \<Rightarrow> Message" where
  "kafka_message m = \<lparr>ms_id = kg_id m, ms_body = kg_body m, ms_headers = (case kg_headers m of None \<Rightarrow> Map.empty | Some h \<Rightarrow> h)\<rparr>"

text \<open>
  An iteration of \<open>consumeMessages\<close>: whether the loop goes on, and the message that was handled with the error of the handler.
\<close>

definition consume_step ::
  "'s kafka \<Rightarrow> string \<Rightarrow> bool \<Rightarrow> nat \<Rightarrow> 'w handler \<Rightarrow> 'w \<Rightarrow> 's \<Rightarrow> bool \<times> (kafka_msg \<times> string option) option \<times> 'w \<times> 's" where
  "consume_step lib uuid broker_closed reader h w s =
     (if broker_closed then (False, None, w, s)
      else case kl_Fetch lib reader s of
          (FetchTimeout, s) \<Rightarrow> (True, None, w, s)
        | (FetchEOF, s) \<Rightarrow> (False, None, w, s)
        | (FetchErr e, s) \<Rightarrow> (True, None, w, s)
        | (Fetched msg, s) \<Rightarrow>
            (let (err, w) = h (kafka_message (received uuid msg)) w;
                 (commit_err, s) = kl_Commit lib reader msg s
             in (True, Some (msg, err), w, s)))"

text \<open>\<open>consumeMessages\<close>: \<open>turns\<close> gives for every iteration a fresh identifier and whether the broker is closed by then.\<close>

fun consumeMessages ::
  "'s kafka \<Rightarrow> nat \<Rightarrow> 'w handler \<Rightarrow> (string \<times> bool) list \<Rightarrow> 'w \<Rightarrow> 's \<Rightarrow> (kafka_msg \<times> string option) list \<times> 'w \<times> 's" where
  "consumeMessages lib reader h [] w s = ([], w, s)"
| "consumeMessages lib reader h ((uuid, broker_closed) # turns) w s =
     (let (goes_on, handled, w, s) = consume_step lib uuid broker_closed reader h w s;
          (rest, w, s) = (if goes_on then consumeMessages lib reader h turns w s else ([], w, s))
      in (case handled of None \<Rightarrow> rest | Some x \<Rightarrow> x # rest, w, s))"

subsection \<open>Closing\<close>

text \<open>\<open>topics\<close> and \<open>topics'\<close>: the keys of the writers and of the readers in the order of the iteration.  The consumers are waited for, at most ten seconds.\<close>

definition close_all :: "(nat \<Rightarrow> 's \<Rightarrow> string option \<times> 's) \<Rightarrow> (string \<rightharpoonup> nat) \<Rightarrow> string list \<Rightarrow> 's \<Rightarrow> 's" where
  "close_all f m topics s = fold (\<lambda>t s. case m t of None \<Rightarrow> s | Some x \<Rightarrow> snd (f x s)) topics s"

definition kafka_Close :: "'s kafka \<Rightarrow> string list \<Rightarrow> string list \<Rightarrow> 'w KafkaBroker \<Rightarrow> 's \<Rightarrow> 'w KafkaBroker \<times> 's" where
  "kafka_Close lib topics topics' b s =
     (if kb_closed b then (b, s)
      else
        (let s = close_all (kl_CloseWriter lib) (kb_writers b) topics s;
             s = close_all (kl_CloseReader lib) (kb_readers b) topics' s
         in (b\<lparr>kb_closed := True, kb_writers := Map.empty, kb_readers := Map.empty\<rparr>, s)))"

end
