(* ===== verification/KafkaProps.thy ===== *)
theory KafkaProps
  imports Kafka
begin

text \<open>The properties of the Kafka broker: retries when publishing, what is committed, and which writers and readers it keeps.\<close>

subsection \<open>Publishing\<close>

text \<open>The state after \<open>n\<close> writes, and the error of the write that follows.\<close>

fun after_writes :: "'s kafka \<Rightarrow> nat \<Rightarrow> string \<Rightarrow> kafka_msg \<Rightarrow> nat \<Rightarrow> 's \<Rightarrow> 's" where
  "after_writes lib writer topic msg 0 s = s"
| "after_writes lib writer topic msg (Suc n) s = after_writes lib writer topic msg n (snd (kl_Write lib writer topic msg s))"

definition write_error :: "'s kafka \<Rightarrow> nat \<Rightarrow> string \<Rightarrow> kafka_msg \<Rightarrow> nat \<Rightarrow> 's \<Rightarrow> string option" where
  "write_error lib writer topic msg n s = fst (kl_Write lib writer topic msg (after_writes lib writer topic msg n s))"

lemma write_error_Suc: "write_error lib writer topic msg (Suc n) s = write_error lib writer topic msg n (snd (kl_Write lib writer topic msg s))"
  by (simp add: write_error_def)

text \<open>The waiting times before attempts \<open>a\<close> to \<open>a + n\<close>.\<close>

definition waits_from :: "KafkaConfig \<Rightarrow> int \<Rightarrow> nat \<Rightarrow> duration list" where
  "waits_from config a n = map (\<lambda>i. wrap64 (i * kf_RetryBackoff config)) (filter (\<lambda>i. 0 < i) (map (\<lambda>i. a + int i) [0..<n]))"

lemma waits_from_simps [simp]:
  "waits_from config a 0 = []"
  "waits_from config a (Suc n) = (if 0 < a then [wrap64 (a * kf_RetryBackoff config)] else []) @ waits_from config (a + 1) n"
proof -
  have "map (\<lambda>i. a + int i) [0..<Suc n] = a # map (\<lambda>i. a + 1 + int i) [0..<n]"
    by (simp add: upt_conv_Cons map_Suc_upt [symmetric] del: upt_Suc map_Suc_upt)
  then show "waits_from config a (Suc n) = (if 0 < a then [wrap64 (a * kf_RetryBackoff config)] else []) @ waits_from config (a + 1) n"
    by (simp add: waits_from_def del: upt_Suc)
qed (simp add: waits_from_def)

lemma publish_loop_retry:
  assumes "kl_Write lib writer topic msg s = (Some e, s')" and "attempt \<le> kf_MaxRetries config"
    and "publish_loop lib config writer topic msg (attempt + 1) (Some e) s' = (r, waits, s'')"
  shows "publish_loop lib config writer topic msg attempt err s = (r, (if 0 < attempt then [wrap64 (attempt * kf_RetryBackoff config)] else []) @ waits, s'')"
  using assms by (subst publish_loop.simps) (simp add: Let_def)

lemma publish_loop_succeeds:
  assumes "\<forall>i < k. write_error lib writer topic msg i s \<noteq> None" and "write_error lib writer topic msg k s = None"
    and "attempt + int k \<le> kf_MaxRetries config"
  shows "publish_loop lib config writer topic msg attempt err s =
    (None, waits_from config attempt (Suc k), after_writes lib writer topic msg (Suc k) s)"
  using assms
proof (induction k arbitrary: attempt err s)
  case 0
  then show ?case by (subst publish_loop.simps) (auto simp: write_error_def split: prod.split)
next
  case (Suc k)
  obtain e s' where w: "kl_Write lib writer topic msg s = (Some e, s')"
    using Suc.prems(1) by (cases "kl_Write lib writer topic msg s") (auto simp: write_error_def)
  have we: "write_error lib writer topic msg i s' = write_error lib writer topic msg (Suc i) s" for i by (simp add: write_error_Suc w)
  have "publish_loop lib config writer topic msg (attempt + 1) (Some e) s' =
      (None, waits_from config (attempt + 1) (Suc k), after_writes lib writer topic msg (Suc k) s')"
    using Suc.prems by (intro Suc.IH) (auto simp: we)
  from publish_loop_retry [OF w _ this, of err] show ?case using Suc.prems(3) w by simp
qed

lemma publish_loop_fails:
  assumes "\<forall>i < n. write_error lib writer topic msg i s \<noteq> None" and "n = nat (kf_MaxRetries config + 1 - attempt)"
  shows "publish_loop lib config writer topic msg attempt err s =
    (Some (KafkaPublish (kf_MaxRetries config + 1) (if n = 0 then err else write_error lib writer topic msg (n - 1) s)),
     waits_from config attempt n, after_writes lib writer topic msg n s)"
  using assms
proof (induction n arbitrary: attempt err s)
  case 0
  then show ?case by (subst publish_loop.simps) simp
next
  case (Suc n)
  obtain e s' where w: "kl_Write lib writer topic msg s = (Some e, s')"
    using Suc.prems(1) by (cases "kl_Write lib writer topic msg s") (auto simp: write_error_def)
  have we: "write_error lib writer topic msg i s' = write_error lib writer topic msg (Suc i) s" for i by (simp add: write_error_Suc w)
  have "publish_loop lib config writer topic msg (attempt + 1) (Some e) s' =
      (Some (KafkaPublish (kf_MaxRetries config + 1) (if n = 0 then Some e else write_error lib writer topic msg (n - 1) s')),
       waits_from config (attempt + 1) n, after_writes lib writer topic msg n s')"
    using Suc.prems by (intro Suc.IH) (auto simp: we)
  moreover have "(if n = 0 then Some e else write_error lib writer topic msg (n - 1) s') = write_error lib writer topic msg n s"
    using w by (cases n) (auto simp: write_error_def)
  moreover have "attempt \<le> kf_MaxRetries config" using Suc.prems(2) by simp
  ultimately show ?case using publish_loop_retry [OF w, of attempt config] w by simp
qed

text \<open>
  On an open broker \<open>Publish\<close> writes the message until a write succeeds, at most \<open>MaxRetries + 1\<close> times, waiting \<open>i\<close> times the
  backoff before retry \<open>i\<close>: it returns nil exactly if one of these writes succeeds, and otherwise the error of the last one.
\<close>

theorem kafka_Publish_retries:
  fixes topic now keys m
  assumes "\<not> kb_closed b" and "0 \<le> kf_MaxRetries (kb_config b)"
  defines "writer \<equiv> fst (getOrCreateWriter topic b)" and "msg \<equiv> kafka_message_of now keys m" and "n \<equiv> nat (kf_MaxRetries (kb_config b) + 1)"
  shows "if \<exists>k < n. write_error lib writer topic msg k s = None
    then (\<exists>k < n. write_error lib writer topic msg k s = None \<and> (\<forall>i < k. write_error lib writer topic msg i s \<noteq> None) \<and>
       kafka_Publish lib now keys topic m b s = (None, snd (getOrCreateWriter topic b), after_writes lib writer topic msg (Suc k) s))
    else kafka_Publish lib now keys topic m b s =
      (Some (KafkaPublish (int n) (write_error lib writer topic msg (n - 1) s)), snd (getOrCreateWriter topic b), after_writes lib writer topic msg n s)"
proof -
  obtain b' where g: "getOrCreateWriter topic b = (writer, b')" by (metis prod.collapse writer_def)
  have c: "kb_config b' = kb_config b" using g by (auto simp: getOrCreateWriter_def split: option.splits)
  have p: "kafka_Publish lib now keys topic m b s = (let (err, waits, s) = publish_loop lib (kb_config b) writer topic msg 0 None s in (err, b', s))"
    using assms(1) g c by (simp add: kafka_Publish_def msg_def)
  show ?thesis
  proof (cases "\<exists>k < n. write_error lib writer topic msg k s = None")
    case True
    define k where "k = (LEAST k. write_error lib writer topic msg k s = None)"
    have k: "write_error lib writer topic msg k s = None" "\<forall>i < k. write_error lib writer topic msg i s \<noteq> None" "k < n"
      using True LeastI_ex [of "\<lambda>k. write_error lib writer topic msg k s = None"] not_less_Least
      by (auto simp: k_def intro: le_less_trans [OF Least_le])
    have "0 + int k \<le> kf_MaxRetries (kb_config b)" using k(3) by (simp add: n_def)
    from publish_loop_succeeds [OF k(2,1) this] show ?thesis using True k by (auto simp: p g)
  next
    case False
    have "publish_loop lib (kb_config b) writer topic msg 0 None s =
      (Some (KafkaPublish (kf_MaxRetries (kb_config b) + 1) (if n = 0 then None else write_error lib writer topic msg (n - 1) s)),
       waits_from (kb_config b) 0 n, after_writes lib writer topic msg n s)"
      using False by (intro publish_loop_fails) (auto simp: n_def)
    moreover have "n \<noteq> 0" "kf_MaxRetries (kb_config b) + 1 = int n" using assms(2) by (simp_all add: n_def)
    ultimately show ?thesis using False by (simp add: p g)
  qed
qed

subsection \<open>Writers and readers\<close>

text \<open>Every topic has its own writer.\<close>

definition writers_wf :: "'w KafkaBroker \<Rightarrow> bool" where
  "writers_wf b \<longleftrightarrow> inj_on (kb_writers b) (dom (kb_writers b)) \<and> (\<forall>w \<in> ran (kb_writers b). w < kb_next b)"

lemma getOrCreateWriter_wf: "writers_wf b \<Longrightarrow> writers_wf (snd (getOrCreateWriter topic b))"
proof (cases "kb_writers b topic")
  case None
  assume w: "writers_wf b"
  have "inj_on ((kb_writers b)(topic \<mapsto> kb_next b)) (insert topic (dom (kb_writers b)))"
    using w by (auto simp: writers_wf_def inj_on_def ran_def)
  then show ?thesis
    using w None by (auto simp: writers_wf_def getOrCreateWriter_def ran_def split: if_splits)
qed (simp add: getOrCreateWriter_def)

fun publish_writers :: "string list \<Rightarrow> 'w KafkaBroker \<Rightarrow> nat list \<times> 'w KafkaBroker" where
  "publish_writers [] b = ([], b)"
| "publish_writers (t # ts) b = (let (w, b) = getOrCreateWriter t b; (ws, b) = publish_writers ts b in (w # ws, b))"

lemma getOrCreateWriter_kept:
  "getOrCreateWriter t b = (w, b') \<Longrightarrow> kb_writers b \<subseteq>\<^sub>m kb_writers b' \<and> kb_writers b' t = Some w"
  by (auto simp: getOrCreateWriter_def map_le_def split: option.splits)

lemma publish_writers_lookup:
  assumes "writers_wf b" and "publish_writers ts b = (ws, b')"
  shows "writers_wf b' \<and> kb_writers b \<subseteq>\<^sub>m kb_writers b' \<and> map (kb_writers b') ts = map Some ws"
  using assms
proof (induction ts arbitrary: b ws)
  case (Cons t ts)
  obtain w b1 where g: "getOrCreateWriter t b = (w, b1)" by fastforce
  obtain ws1 where r: "publish_writers ts b1 = (ws1, b')" "ws = w # ws1" using Cons.prems(2) g by (auto split: prod.splits)
  have "writers_wf b1" using getOrCreateWriter_wf [OF Cons.prems(1), of t] g by simp
  from Cons.IH [OF this r(1)] have ih: "writers_wf b'" "kb_writers b1 \<subseteq>\<^sub>m kb_writers b'" "map (kb_writers b') ts = map Some ws1" by auto
  moreover have "kb_writers b' t = Some w"
    using getOrCreateWriter_kept [OF g] map_leD [OF ih(2)] by blast
  ultimately show ?case using getOrCreateWriter_kept [OF g] r(2) by (auto intro: map_le_trans)
qed simp

text \<open>
  A broker keeps one writer per topic: whatever is published in whatever order, two publications use the same writer exactly if
  they go to the same topic.
\<close>

theorem kafka_writer_per_topic:
  assumes "writers_wf b" and "i < length ts" and "j < length ts"
  shows "fst (publish_writers ts b) ! i = fst (publish_writers ts b) ! j \<longleftrightarrow> ts ! i = ts ! j"
proof -
  obtain ws b' where p: "publish_writers ts b = (ws, b')" by fastforce
  have w: "writers_wf b'" "map (kb_writers b') ts = map Some ws" using publish_writers_lookup [OF assms(1) p] by auto
  have l: "length ws = length ts" using w(2) by (metis length_map)
  have e: "kb_writers b' (ts ! k) = Some (ws ! k)" if "k < length ts" for k using arg_cong [OF w(2), of "\<lambda>l. l ! k"] that l by simp
  have "ws ! i = ws ! j \<Longrightarrow> ts ! i = ts ! j"
    using w(1) e [OF assms(2)] e [OF assms(3)] by (auto simp: writers_wf_def inj_on_def dom_def)
  moreover have "ts ! i = ts ! j \<Longrightarrow> ws ! i = ws ! j" using e [OF assms(2)] e [OF assms(3)] by simp
  ultimately show ?thesis using p by auto
qed

text \<open>A second subscription of a topic takes the place of the first reader, which is then not closed with the broker.\<close>

theorem second_subscription_leaks:
  assumes "\<not> kb_closed b" and "kafka_Subscribe lib t h b s = (None, b1, s1)" and "kafka_Subscribe lib t h' b1 s1 = (None, b2, s2)"
    and "kb_readers b1 t = Some r" and "fst (kl_NewReader lib (kf_Brokers (kb_config b1)) (group_id (kb_config b1) t) t s1) \<noteq> r"
  shows "kb_readers b2 t \<noteq> Some r \<and> r \<in> fst ` set (kb_consumers b2)"
  using assms by (auto simp: kafka_Subscribe_def split: prod.splits)

subsection \<open>Consuming\<close>

text \<open>Whether handlers succeed has no influence on what is fetched and committed.\<close>

lemma handlers_independent:
  "map fst (fst (consumeMessages lib reader h turns w s)) = map fst (fst (consumeMessages lib reader h' turns w' s)) \<and>
   snd (snd (consumeMessages lib reader h turns w s)) = snd (snd (consumeMessages lib reader h' turns w' s))"
proof (induction turns arbitrary: w w' s)
  case (Cons turn turns)
  obtain uuid c where t: "turn = (uuid, c)" by fastforce
  obtain g x w1 s1 where a: "consume_step lib uuid c reader h w s = (g, x, w1, s1)" by (metis prod_cases4)
  obtain g' x' w2 s2 where b: "consume_step lib uuid c reader h' w' s = (g', x', w2, s2)" by (metis prod_cases4)
  have eq: "g' = g" "map_option fst x' = map_option fst x" "s2 = s1"
    using a b by (auto simp: consume_step_def split: if_splits prod.splits fetched.splits)
  show ?case
    using Cons.IH [of w1 s1 w2] a b eq t by (cases x; cases x') (auto split: prod.splits)
qed simp

text \<open>
  What Kafka documents of a consumer group on a topic of one partition: the topic is a log that only grows; a reader has a position, from which it fetches; the
  group has a committed offset, which a commit of the message fetched last sets behind it, and where a new reader of the group starts.
\<close>

locale kafka_partition =
  fixes lib :: "'s kafka" and entries :: "string \<Rightarrow> 's \<Rightarrow> kafka_msg list" and offset :: "string \<Rightarrow> string \<Rightarrow> 's \<Rightarrow> nat"
    and position :: "nat \<Rightarrow> 's \<Rightarrow> nat" and reads :: "nat \<Rightarrow> 's \<Rightarrow> (string \<times> string) option"
  assumes fetch_some: "reads r s = Some (g, t) \<Longrightarrow> kl_Fetch lib r s = (Fetched msg, s') \<Longrightarrow>
      prefix (entries t s) (entries t s') \<and> position r s < length (entries t s') \<and> msg = entries t s' ! position r s \<and>
      position r s' = position r s + 1 \<and> offset g t s' = offset g t s \<and> reads r s' = Some (g, t)"
    and fetch_none: "reads r s = Some (g, t) \<Longrightarrow> kl_Fetch lib r s = (f, s') \<Longrightarrow> (\<And>msg. f \<noteq> Fetched msg) \<Longrightarrow>
      prefix (entries t s) (entries t s') \<and> position r s' = position r s \<and> offset g t s' = offset g t s \<and> reads r s' = Some (g, t)"
    and commit_last: "reads r s = Some (g, t) \<Longrightarrow> position r s = Suc n \<Longrightarrow> n < length (entries t s) \<Longrightarrow> entries t s ! n = msg \<Longrightarrow>
      kl_Commit lib r msg s = (None, s') \<Longrightarrow>
      offset g t s' = Suc n \<and> position r s' = position r s \<and> prefix (entries t s) (entries t s') \<and> reads r s' = Some (g, t)"
    and new_reader: "kl_NewReader lib brokers g t s = (r, s') \<Longrightarrow>
      reads r s' = Some (g, t) \<and> position r s' = offset g t s \<and> offset g t s' = offset g t s \<and> prefix (entries t s) (entries t s')"
begin

definition here :: "nat \<Rightarrow> string \<Rightarrow> string \<Rightarrow> 's \<Rightarrow> bool" where
  "here r g t s \<longleftrightarrow> reads r s = Some (g, t) \<and> position r s = offset g t s"

lemma consume_step_commits:
  assumes h: "here r g t s" and ok: "\<And>r m s. fst (kl_Commit lib r m s) = None"
    and step: "consume_step lib uuid off r h w s = (go, x, w', s')"
  shows "here r g t s' \<and> prefix (entries t s) (entries t s') \<and>
    (case x of None \<Rightarrow> offset g t s' = offset g t s
     | Some (msg, e) \<Rightarrow> offset g t s' = Suc (offset g t s) \<and> offset g t s < length (entries t s') \<and> msg = entries t s' ! offset g t s)"
proof (cases off)
  case True
  then show ?thesis using step h by (simp add: consume_step_def)
next
  case False
  obtain f s1 where f: "kl_Fetch lib r s = (f, s1)" by fastforce
  have r: "reads r s = Some (g, t)" "position r s = offset g t s" using h by (simp_all add: here_def)
  show ?thesis
  proof (cases "\<exists>msg. f = Fetched msg")
    case True
    then obtain msg where msg: "f = Fetched msg" by blast
    obtain s2 where c: "kl_Commit lib r msg s1 = (None, s2)" using ok [of r msg s1] by (metis prod.collapse)
    note a = fetch_some [OF r(1) f [unfolded msg]]
    have "reads r s1 = Some (g, t)" "position r s1 = Suc (offset g t s)" "offset g t s < length (entries t s1)" "entries t s1 ! offset g t s = msg"
      using a r(2) by simp_all
    note b = commit_last [OF this c]
    have "s' = s2" "map_option fst x = Some msg" using step False f msg c by (auto simp: consume_step_def split: prod.splits)
    then show ?thesis using a b r(2) by (auto simp: here_def prefix_def nth_append)
  next
    case no: False
    then have "s' = s1" "x = None" using step False f by (auto simp: consume_step_def split: fetched.splits prod.splits)
    then show ?thesis using fetch_none [OF r(1) f] no r(2) by (auto simp: here_def)
  qed
qed

lemma consume_commits:
  assumes "here r g t s" and ok: "\<And>r m s. fst (kl_Commit lib r m s) = None"
    and "consumeMessages lib r h turns w s = (handled, w', s')"
  shows "here r g t s' \<and> prefix (entries t s) (entries t s') \<and> offset g t s' = offset g t s + length handled \<and>
    offset g t s' \<le> max (offset g t s) (length (entries t s')) \<and> map fst handled = take (length handled) (drop (offset g t s) (entries t s'))"
  using assms(1,3)
proof (induction turns arbitrary: w s handled)
  case (Cons turn turns)
  obtain uuid c where turn: "turn = (uuid, c)" by fastforce
  obtain go x w1 s1 where st: "consume_step lib uuid c r h w s = (go, x, w1, s1)" by (metis prod_cases4)
  obtain rest w2 s2 where rest: "(if go then consumeMessages lib r h turns w1 s1 else ([], w1, s1)) = (rest, w2, s2)" by (metis prod_cases3)
  have e: "handled = (case x of None \<Rightarrow> rest | Some y \<Rightarrow> y # rest)" "s' = s2" "w' = w2" using Cons.prems(2) turn st rest by auto
  note a = consume_step_commits [OF Cons.prems(1) ok st]
  have b: "here r g t s2 \<and> prefix (entries t s1) (entries t s2) \<and> offset g t s2 = offset g t s1 + length rest \<and>
      offset g t s2 \<le> max (offset g t s1) (length (entries t s2)) \<and> map fst rest = take (length rest) (drop (offset g t s1) (entries t s2))"
  proof (cases go)
    case True
    then show ?thesis using Cons.IH [of s1 w1 rest] a rest e(2,3) by simp
  qed (use rest a in auto)
  show ?case
  proof (cases x)
    case None
    then show ?thesis using a b e by (auto intro: prefix_order.trans)
  next
    case (Some y)
    let ?o = "offset g t s"
    have y: "offset g t s1 = Suc ?o" "?o < length (entries t s1)" "fst y = entries t s1 ! ?o" using a Some by (auto split: prod.splits)
    obtain more where more: "entries t s2 = entries t s1 @ more" using b by (auto simp: prefix_def)
    have "drop ?o (entries t s2) = fst y # drop (Suc ?o) (entries t s2)"
      using y more by (simp add: Cons_nth_drop_Suc [symmetric] nth_append)
    then show ?thesis using a b e Some y more by (auto intro: prefix_order.trans)
  qed
qed (simp add: here_def)

end

text \<open>
  C11: Kafka messages are handled at most once, whatever the handlers answer.  On a topic of one partition whose server accepts the commits, what a consumer handles
  are the messages of the topic from the offset of its group on, in order and without gaps, and every one of them is committed - also one whose handler failed -:
  the offset moves behind the last of them.  A consumer of the group that takes over gets the messages from there on, none of them again.
\<close>

theorem kafka_commits_regardless:
  assumes laws: "kafka_partition lib entries offset position reads" and ok: "\<And>r m s. fst (kl_Commit lib r m s) = None"
    and new: "kl_NewReader lib brokers g t s = (r, s1)" and run: "consumeMessages lib r h turns w s1 = (handled, w2, s2)"
    and new': "kl_NewReader lib brokers g t s2 = (r', s3)" and run': "consumeMessages lib r' h' turns' w3 s3 = (handled', w4, s4)"
  shows "map fst handled = take (length handled) (drop (offset g t s) (entries t s4)) \<and>
    offset g t s2 = offset g t s + length handled \<and>
    map fst handled' = take (length handled') (drop (offset g t s + length handled) (entries t s4)) \<and>
    offset g t s4 = offset g t s + length handled + length handled'"
proof -
  note nr = kafka_partition.new_reader [OF laws]
  note consumes = kafka_partition.consume_commits [OF laws _ ok]
  have a: "kafka_partition.here offset position reads r g t s1" "offset g t s1 = offset g t s"
    using nr [OF new] by (simp_all add: kafka_partition.here_def [OF laws])
  note b = consumes [OF a(1) run]
  have c: "kafka_partition.here offset position reads r' g t s3" "offset g t s3 = offset g t s2" "prefix (entries t s2) (entries t s3)"
    using nr [OF new'] by (simp_all add: kafka_partition.here_def [OF laws])
  note d = consumes [OF c(1) run']
  obtain more where more: "entries t s4 = entries t s2 @ more" using c(3) d by (auto simp: prefix_def)
  have "map fst handled = take (length handled) (drop (offset g t s) (entries t s4))"
  proof (cases "handled = []")
    case False
    then have "offset g t s + length handled \<le> length (entries t s2)" using a b by (auto simp: max_def split: if_splits)
    then show ?thesis using a b more by simp
  qed simp
  then show ?thesis using a b c d by auto
qed

lemma fold_headers: "fold (\<lambda>(k, v) r. r(k \<mapsto> v)) hs m = m ++ map_of (rev hs)"
  by (induction hs arbitrary: m) (auto simp: fun_eq_iff map_add_def split: option.splits)

text \<open>
  C12: What a handler receives from Kafka is what was published: identifier, body and headers of a message survive, whatever the order
  in which the headers are listed; only a message with an empty identifier gets a new one, the UUID drawn when it is received.
\<close>

theorem kafka_roundtrip:
  assumes "set keys = dom (ms_headers m)"
  shows "kafka_message (received uuid (kafka_message_of now keys m)) = m\<lparr>ms_id := if ms_id m = [] then uuid else ms_id m\<rparr>"
proof -
  let ?hs = "map (\<lambda>k. (k, the (ms_headers m k))) keys"
  have r: "map_of (rev ?hs) k = (if k \<in> set keys then Some (the (ms_headers m k)) else None)" for k
    using map_of_map_restrict [of "\<lambda>k. the (ms_headers m k)" "rev keys"] by (auto simp: rev_map restrict_map_def)
  have "map_of (rev ?hs) = ms_headers m"
  proof
    fix k show "map_of (rev ?hs) k = ms_headers m k" unfolding r using assms(1) by (auto simp: domIff)
  qed
  then have h: "(case convertKafkaHeaders ?hs of None \<Rightarrow> Map.empty | Some h \<Rightarrow> h) = ms_headers m"
    using assms(1) by (cases "keys = []") (auto simp: convertKafkaHeaders_def fold_headers)
  show ?thesis using h by (simp add: kafka_message_def received_def kafka_message_of_def)
qed

definition demo_kafka :: "nat kafka" where
  "demo_kafka =
     \<lparr>kl_load_cert = (\<lambda>c k. None), kl_read_ca = (\<lambda>f. Inr True), kl_scram = (\<lambda>m. None), kl_Dial = (\<lambda>d a s. (None, s)),
      kl_Write = (\<lambda>w t m s. (if s < 2 then Some ''leader not available'' else None, s + 1)), kl_CloseWriter = (\<lambda>w s. (None, s)),
      kl_NewReader = (\<lambda>bs g t s. (s, s + 1)), kl_Fetch = (\<lambda>r s. (FetchTimeout, s)), kl_Commit = (\<lambda>r m s. (None, s)), kl_CloseReader = (\<lambda>r s. (None, s))\<rparr>"

definition demo_kafka_broker :: "unit KafkaBroker" where
  "demo_kafka_broker =
     \<lparr>kb_config = DefaultKafkaConfig, kb_dialer = \<lparr>di_Timeout = 10 * Second, di_TLS = None, di_SASL = None\<rparr>, kb_writers = Map.empty, kb_next = 0,
      kb_readers = Map.empty, kb_consumers = [], kb_closed = False\<rparr>"

text \<open>A leader that is elected during the second retry.\<close>

theorem kafka_Publish_retries_witness:
  "kafka_Publish demo_kafka 0 [] ''orders'' (NewMessage ''1'' ''x'' None) demo_kafka_broker 0 =
     (None, demo_kafka_broker\<lparr>kb_writers := [''orders'' \<mapsto> 0], kb_next := 1\<rparr>, 3)"
proof -
  let ?m = "NewMessage ''1'' ''x'' None"
  have g: "getOrCreateWriter ''orders'' demo_kafka_broker = (0, demo_kafka_broker\<lparr>kb_writers := [''orders'' \<mapsto> 0], kb_next := 1\<rparr>)"
    by (simp add: getOrCreateWriter_def demo_kafka_broker_def)
  have wr: "snd (kl_Write demo_kafka w t msg s) = Suc s" for w t msg s by (simp add: demo_kafka_def)
  have a: "after_writes demo_kafka w t msg n s = s + n" for w t msg n s by (induction n arbitrary: s) (simp_all add: demo_kafka_def)
  have e: "write_error demo_kafka w t msg k 0 = (if k < 2 then Some ''leader not available'' else None)" for w t msg k
    by (simp add: write_error_def a) (simp add: demo_kafka_def)
  have c: "\<not> kb_closed demo_kafka_broker" "kf_MaxRetries (kb_config demo_kafka_broker) = 3"
    by (simp_all add: demo_kafka_broker_def DefaultKafkaConfig_def)
  have ex: "\<exists>k < nat (3 + 1). write_error demo_kafka 0 ''orders'' (kafka_message_of 0 [] ?m) k 0 = None" by (rule exI [of _ 2]) (simp add: e)
  obtain k where k: "k < nat (3 + 1)" "\<not> k < 2" "\<forall>i < k. i < 2"
    "kafka_Publish demo_kafka 0 [] ''orders'' ?m demo_kafka_broker 0 =
      (None, demo_kafka_broker\<lparr>kb_writers := [''orders'' \<mapsto> 0], kb_next := 1\<rparr>, Suc k)"
    using kafka_Publish_retries [of demo_kafka_broker demo_kafka "''orders''" 0 "[]" ?m 0] c ex g by (auto simp: e a wr split: if_splits)
  have "\<not> 2 < k" using k(3) by (metis less_irrefl)
  then have "k = 2" using k(2) by simp
  then show ?thesis using k(4) by simp
qed

theorem kafka_roundtrip_witness:
  "kafka_message (received ''u'' (kafka_message_of 0 [''b'', ''a''] (NewMessage ''1'' ''x'' (Some [''a'' \<mapsto> ''1'', ''b'' \<mapsto> ''2''])))) =
     NewMessage ''1'' ''x'' (Some [''a'' \<mapsto> ''1'', ''b'' \<mapsto> ''2'']) \<and>
   kafka_message (received ''u'' (kafka_message_of 0 [] (NewMessage [] ''x'' None))) = NewMessage ''u'' ''x'' None"
  using kafka_roundtrip [of "[''b'', ''a'']" "NewMessage ''1'' ''x'' (Some [''a'' \<mapsto> ''1'', ''b'' \<mapsto> ''2''])" "''u''" 0]
    kafka_roundtrip [of "[]" "NewMessage [] ''x'' None" "''u''" 0]
  by (auto simp: NewMessage_def)

text \<open>Topics and groups in memory: the logs, the committed offsets and the readers with group, topic and position.\<close>

record kafka_mem =
  kx_entries :: "string \<Rightarrow> kafka_msg list"
  kx_offset :: "string \<Rightarrow> string \<Rightarrow> nat"
  kx_readers :: "(string \<times> string \<times> nat) list"

definition mem_position :: "nat \<Rightarrow> kafka_mem \<Rightarrow> nat" where
  "mem_position r s = (if r < length (kx_readers s) then snd (snd (kx_readers s ! r)) else 0)"

definition mem_reads :: "nat \<Rightarrow> kafka_mem \<Rightarrow> (string \<times> string) option" where
  "mem_reads r s = (if r < length (kx_readers s) then Some (fst (kx_readers s ! r), fst (snd (kx_readers s ! r))) else None)"

definition mem_Fetch :: "nat \<Rightarrow> kafka_mem \<Rightarrow> fetched \<times> kafka_mem" where
  "mem_Fetch r s =
     (case mem_reads r s of
        Some (g, t) \<Rightarrow>
          if mem_position r s < length (kx_entries s t)
          then (Fetched (kx_entries s t ! mem_position r s), s\<lparr>kx_readers := (kx_readers s)[r := (g, t, mem_position r s + 1)]\<rparr>)
          else (FetchTimeout, s)
      | None \<Rightarrow> (FetchEOF, s))"

definition mem_Commit :: "nat \<Rightarrow> kafka_msg \<Rightarrow> kafka_mem \<Rightarrow> string option \<times> kafka_mem" where
  "mem_Commit r m s =
     (None, case mem_reads r s of
        Some (g, t) \<Rightarrow> s\<lparr>kx_offset := (kx_offset s)(g := (kx_offset s g)(t := mem_position r s))\<rparr>
      | None \<Rightarrow> s)"

definition mem_kafka :: "kafka_mem kafka" where
  "mem_kafka =
     \<lparr>kl_load_cert = (\<lambda>c k. None), kl_read_ca = (\<lambda>f. Inr True), kl_scram = (\<lambda>m. None), kl_Dial = (\<lambda>d a s. (None, s)),
      kl_Write = (\<lambda>w t m s. (None, s\<lparr>kx_entries := (kx_entries s)(t := kx_entries s t @ [m])\<rparr>)), kl_CloseWriter = (\<lambda>w s. (None, s)),
      kl_NewReader = (\<lambda>b g t s. (length (kx_readers s), s\<lparr>kx_readers := kx_readers s @ [(g, t, kx_offset s g t)]\<rparr>)),
      kl_Fetch = mem_Fetch, kl_Commit = mem_Commit, kl_CloseReader = (\<lambda>r s. (None, s))\<rparr>"

interpretation group: kafka_partition mem_kafka "\<lambda>t s. kx_entries s t" "\<lambda>g t s. kx_offset s g t" mem_position mem_reads
  by unfold_locales
    (auto simp: mem_kafka_def mem_Fetch_def mem_Commit_def mem_reads_def mem_position_def split: if_splits)

text \<open>A handler that fails on every message: both messages are committed, and the next consumer of the group gets none.\<close>

definition two_messages :: kafka_mem where
  "two_messages =
     \<lparr>kx_entries = (\<lambda>t. [\<lparr>km_Key = ''1'', km_Value = ''x'', km_Headers = [], km_Time = 0\<rparr>, \<lparr>km_Key = ''2'', km_Value = ''y'', km_Headers = [], km_Time = 0\<rparr>]),
      kx_offset = (\<lambda>g t. 0), kx_readers = []\<rparr>"

lemma two_messages_run:
  "\<exists>s2. consumeMessages mem_kafka 0 (\<lambda>m w. (Some ''failed'', w)) [(''u'', False), (''v'', False)] () (snd (kl_NewReader mem_kafka [] ''g'' ''t'' two_messages)) =
     (map (\<lambda>m. (m, Some ''failed'')) (kx_entries two_messages ''t''), (), s2)"
  by (simp add: consume_step_def mem_kafka_def mem_Fetch_def mem_Commit_def mem_reads_def mem_position_def two_messages_def)

theorem kafka_commits_regardless_witness:
  "\<exists>s2. consumeMessages mem_kafka 0 (\<lambda>m w. (Some ''failed'', w)) [(''u'', False), (''v'', False)] () (snd (kl_NewReader mem_kafka [] ''g'' ''t'' two_messages)) =
     (map (\<lambda>m. (m, Some ''failed'')) (kx_entries two_messages ''t''), (), s2) \<and> kx_offset s2 ''g'' ''t'' = 2"
proof -
  obtain s2 where run: "consumeMessages mem_kafka 0 (\<lambda>m w. (Some ''failed'', w)) [(''u'', False), (''v'', False)] ()
      (snd (kl_NewReader mem_kafka [] ''g'' ''t'' two_messages)) = (map (\<lambda>m. (m, Some ''failed'')) (kx_entries two_messages ''t''), (), s2)"
    using two_messages_run by blast
  have ok: "fst (kl_Commit mem_kafka r m s) = None" for r m s by (simp add: mem_kafka_def mem_Commit_def)
  have new: "kl_NewReader mem_kafka [] ''g'' ''t'' two_messages = (0, snd (kl_NewReader mem_kafka [] ''g'' ''t'' two_messages))"
    by (simp add: mem_kafka_def two_messages_def)
  obtain r s3 where new': "kl_NewReader mem_kafka [] ''g'' ''t'' s2 = (r, s3)" by fastforce
  have "consumeMessages mem_kafka r (\<lambda>m w. (None, w)) [] () s3 = ([], (), s3)" by simp
  from kafka_commits_regardless [OF group.kafka_partition_axioms ok new run new' this] run show ?thesis
    by (auto simp: two_messages_def)
qed

end
