(* ===== verification/Metrics.thy ===== *)
theory Metrics
  imports Prelude Float64
begin

text \<open>
  Package observability, \<open>metrics.go\<close>: counters, histograms and gauges over the Prometheus client.  The client library is a record of its operations on the
  state \<open>'s\<close> of a registry; an operation of the library that panics gives \<open>None\<close>, and so does what calls it.
\<close>

subsection \<open>The library\<close>

datatype vec_kind = CounterVec | HistogramVec | GaugeVec

record vec =
  ve_kind :: vec_kind
  ve_Namespace :: string
  ve_Subsystem :: string
  ve_Name :: string
  ve_Help :: string
  ve_Buckets :: "float64 list"
  ve_labels :: "string list"

datatype metric_update = AddValue float64 | SubValue float64 | SetValue float64 | ObserveValue float64

record 's prometheus =
  pm_MustRegister :: "vec \<Rightarrow> 's \<Rightarrow> 's option"
  pm_WithLabelValues :: "vec \<Rightarrow> string list \<Rightarrow> 's \<Rightarrow> 's option" \<comment> \<open>the metric of the values, created when it is new\<close>
  pm_update :: "vec \<Rightarrow> string list \<Rightarrow> metric_update \<Rightarrow> 's \<Rightarrow> 's option"

subsection \<open>Configuration\<close>

record MetricsConfig =
  me_Enabled :: bool
  me_Path :: string
  me_Namespace :: string
  me_Subsystem :: string
  me_ServiceName :: string
  me_ServiceVersion :: string
  me_ServiceInstance :: string

definition DefaultMetricsConfig :: MetricsConfig where
  "DefaultMetricsConfig =
     \<lparr>me_Enabled = True, me_Path = ''/metrics'', me_Namespace = ''microlib'', me_Subsystem = ''service'', me_ServiceName = [], me_ServiceVersion = [],
      me_ServiceInstance = []\<rparr>"

record prometheusMetrics =
  mt_config :: MetricsConfig
  mt_counters :: "string \<rightharpoonup> vec"
  mt_histograms :: "string \<rightharpoonup> vec"
  mt_gauges :: "string \<rightharpoonup> vec"

definition buildMetricName :: "MetricsConfig \<Rightarrow> string \<Rightarrow> string" where
  "buildMetricName config name =
     (if me_Namespace config \<noteq> [] \<and> me_Subsystem config \<noteq> [] then me_Namespace config @ ''_'' @ me_Subsystem config @ ''_'' @ name
      else if me_Namespace config \<noteq> [] then me_Namespace config @ ''_'' @ name
      else if me_Subsystem config \<noteq> [] then me_Subsystem config @ ''_'' @ name
      else name)"

definition new_vec :: "MetricsConfig \<Rightarrow> vec_kind \<Rightarrow> string \<Rightarrow> string \<Rightarrow> float64 list \<Rightarrow> string list \<Rightarrow> vec" where
  "new_vec config kind name help buckets labels =
     \<lparr>ve_kind = kind, ve_Namespace = me_Namespace config, ve_Subsystem = me_Subsystem config, ve_Name = name, ve_Help = help, ve_Buckets = buckets,
      ve_labels = labels\<rparr>"

subsection \<open>Instruments\<close>

text \<open>
  A disabled instrument, a family of metrics with the names of its labels as far as the instrument knows them, or the metric of given values.
\<close>

datatype instrument = NoopInstrument | Family vec "string list" | Labelled vec "string list"

text \<open>A counter that exists already is handed out without the names of its labels.\<close>

definition Counter :: "'s prometheus \<Rightarrow> string \<Rightarrow> string \<Rightarrow> string list \<Rightarrow> prometheusMetrics \<Rightarrow> 's \<Rightarrow> (instrument \<times> prometheusMetrics \<times> 's) option" where
  "Counter lib name help labels m s =
     (if \<not> me_Enabled (mt_config m) then Some (NoopInstrument, m, s)
      else
        (let fullName = buildMetricName (mt_config m) name
         in case mt_counters m fullName of
              Some counter \<Rightarrow> Some (Family counter [], m, s)
            | None \<Rightarrow>
                (let counter = new_vec (mt_config m) CounterVec name help [] labels
                 in case pm_MustRegister lib counter s of
                      None \<Rightarrow> None
                    | Some s \<Rightarrow> Some (Family counter labels, m\<lparr>mt_counters := (mt_counters m)(fullName \<mapsto> counter)\<rparr>, s))))"

definition Histogram ::
  "'s prometheus \<Rightarrow> string \<Rightarrow> string \<Rightarrow> float64 list \<Rightarrow> string list \<Rightarrow> prometheusMetrics \<Rightarrow> 's \<Rightarrow> (instrument \<times> prometheusMetrics \<times> 's) option" where
  "Histogram lib name help buckets labels m s =
     (if \<not> me_Enabled (mt_config m) then Some (NoopInstrument, m, s)
      else
        (let fullName = buildMetricName (mt_config m) name
         in case mt_histograms m fullName of
              Some histogram \<Rightarrow> Some (Family histogram labels, m, s)
            | None \<Rightarrow>
                (let histogram = new_vec (mt_config m) HistogramVec name help buckets labels
                 in case pm_MustRegister lib histogram s of
                      None \<Rightarrow> None
                    | Some s \<Rightarrow> Some (Family histogram labels, m\<lparr>mt_histograms := (mt_histograms m)(fullName \<mapsto> histogram)\<rparr>, s))))"

definition Gauge :: "'s prometheus \<Rightarrow> string \<Rightarrow> string \<Rightarrow> string list \<Rightarrow> prometheusMetrics \<Rightarrow> 's \<Rightarrow> (instrument \<times> prometheusMetrics \<times> 's) option" where
  "Gauge lib name help labels m s =
     (if \<not> me_Enabled (mt_config m) then Some (NoopInstrument, m, s)
      else
        (let fullName = buildMetricName (mt_config m) name
         in case mt_gauges m fullName of
              Some gauge \<Rightarrow> Some (Family gauge labels, m, s)
            | None \<Rightarrow>
                (let gauge = new_vec (mt_config m) GaugeVec name help [] labels
                 in case pm_MustRegister lib gauge s of
                      None \<Rightarrow> None
                    | Some s \<Rightarrow> Some (Family gauge labels, m\<lparr>mt_gauges := (mt_gauges m)(fullName \<mapsto> gauge)\<rparr>, s))))"

text \<open>A family is updated through the metric with empty values for the labels it knows.\<close>

fun apply_update :: "'s prometheus \<Rightarrow> metric_update \<Rightarrow> instrument \<Rightarrow> 's \<Rightarrow> 's option" where
  "apply_update lib u NoopInstrument s = Some s"
| "apply_update lib u (Family v labelNames) s =
     (let labelValues = map (\<lambda>_. []) labelNames
      in case pm_WithLabelValues lib v labelValues s of None \<Rightarrow> None | Some s \<Rightarrow> pm_update lib v labelValues u s)"
| "apply_update lib u (Labelled v labelValues) s = pm_update lib v labelValues u s"

definition Counter_Inc :: "'s prometheus \<Rightarrow> instrument \<Rightarrow> 's \<Rightarrow> 's option" where "Counter_Inc lib = apply_update lib (AddValue (Fin 1))"
definition Counter_Add :: "'s prometheus \<Rightarrow> float64 \<Rightarrow> instrument \<Rightarrow> 's \<Rightarrow> 's option" where "Counter_Add lib x = apply_update lib (AddValue x)"
definition Histogram_Observe :: "'s prometheus \<Rightarrow> float64 \<Rightarrow> instrument \<Rightarrow> 's \<Rightarrow> 's option" where "Histogram_Observe lib x = apply_update lib (ObserveValue x)"
definition Gauge_Set :: "'s prometheus \<Rightarrow> float64 \<Rightarrow> instrument \<Rightarrow> 's \<Rightarrow> 's option" where "Gauge_Set lib x = apply_update lib (SetValue x)"
definition Gauge_Inc :: "'s prometheus \<Rightarrow> instrument \<Rightarrow> 's \<Rightarrow> 's option" where "Gauge_Inc lib = apply_update lib (AddValue (Fin 1))"
definition Gauge_Dec :: "'s prometheus \<Rightarrow> instrument \<Rightarrow> 's \<Rightarrow> 's option" where "Gauge_Dec lib = apply_update lib (SubValue (Fin 1))"
definition Gauge_Add :: "'s prometheus \<Rightarrow> float64 \<Rightarrow> instrument \<Rightarrow> 's \<Rightarrow> 's option" where "Gauge_Add lib x = apply_update lib (AddValue x)"
definition Gauge_Sub :: "'s prometheus \<Rightarrow> float64 \<Rightarrow> instrument \<Rightarrow> 's \<Rightarrow> 's option" where "Gauge_Sub lib x = apply_update lib (SubValue x)"

fun WithLabels :: "'s prometheus \<Rightarrow> (string \<rightharpoonup> string) \<Rightarrow> instrument \<Rightarrow> 's \<Rightarrow> (instrument \<times> 's) option" where
  "WithLabels lib labels NoopInstrument s = Some (NoopInstrument, s)"
| "WithLabels lib labels (Family v labelNames) s =
     (if labelNames = [] then Some (Family v labelNames, s)
      else
        (let labelValues = map (\<lambda>name. case labels name of None \<Rightarrow> [] | Some x \<Rightarrow> x) labelNames
         in case pm_WithLabelValues lib v labelValues s of None \<Rightarrow> None | Some s \<Rightarrow> Some (Labelled v labelValues, s)))"
| "WithLabels lib labels (Labelled v labelValues) s = Some (Labelled v labelValues, s)"

subsection \<open>New metrics\<close>

definition duration_buckets :: "float64 list" where
  "duration_buckets =
     map f64_round [1 / 1000, 5 / 1000, 1 / 100, 25 / 1000, 5 / 100, 1 / 10, 25 / 100, 1 / 2, 1, 25 / 10, 5, 10]"

definition bind_metrics :: "('a \<times> prometheusMetrics \<times> 's) option \<Rightarrow> (prometheusMetrics \<Rightarrow> 's \<Rightarrow> 'b option) \<Rightarrow> 'b option" where
  "bind_metrics r f = (case r of None \<Rightarrow> None | Some (i, m, s) \<Rightarrow> f m s)"

definition set_service_info :: "'s prometheus \<Rightarrow> prometheusMetrics \<Rightarrow> 's \<Rightarrow> (prometheusMetrics \<times> 's) option" where
  "set_service_info lib m s =
     (if me_ServiceName (mt_config m) = [] then Some (m, s)
      else case Gauge lib ''service_info'' ''Service information'' [''name'', ''version'', ''instance''] m s of
          None \<Rightarrow> None
        | Some (serviceInfo, m, s) \<Rightarrow>
            (case WithLabels lib
                 [''name'' \<mapsto> me_ServiceName (mt_config m), ''version'' \<mapsto> me_ServiceVersion (mt_config m), ''instance'' \<mapsto> me_ServiceInstance (mt_config m)]
                 serviceInfo s of
               None \<Rightarrow> None
             | Some (g, s) \<Rightarrow> map_option (Pair m) (Gauge_Set lib (Fin 1) g s)))"

definition registerDefaultMetrics :: "'s prometheus \<Rightarrow> prometheusMetrics \<Rightarrow> 's \<Rightarrow> (prometheusMetrics \<times> 's) option" where
  "registerDefaultMetrics lib m s =
     bind_metrics (Counter lib ''http_requests_total'' ''Total number of HTTP requests'' [''method'', ''path'', ''status''] m s) (\<lambda>m s.
     bind_metrics (Histogram lib ''http_request_duration_seconds'' ''HTTP request duration in seconds'' duration_buckets [''method'', ''path'', ''status''] m s) (\<lambda>m s.
     bind_metrics (Counter lib ''http_request_errors_total'' ''Total number of HTTP request errors'' [''method'', ''path'', ''status''] m s) (\<lambda>m s.
     bind_metrics (Gauge lib ''service_info'' ''Service information'' [''name'', ''version'', ''instance''] m s) (\<lambda>m s.
     bind_metrics (Counter lib ''service_started_total'' ''Total number of service starts'' [''name'', ''version''] m s) (\<lambda>m s.
     set_service_info lib m s)))))"

text \<open>\<open>registry\<close>: a new registry.\<close>

definition NewMetricsWithConfig :: "'s prometheus \<Rightarrow> 's \<Rightarrow> MetricsConfig \<Rightarrow> (prometheusMetrics \<times> 's) option" where
  "NewMetricsWithConfig lib registry config =
     (let m = \<lparr>mt_config = config, mt_counters = Map.empty, mt_histograms = Map.empty, mt_gauges = Map.empty\<rparr>
      in if me_Enabled config then registerDefaultMetrics lib m registry else Some (m, registry))"

definition NewMetrics :: "'s prometheus \<Rightarrow> 's \<Rightarrow> (prometheusMetrics \<times> 's) option" where
  "NewMetrics lib registry = NewMetricsWithConfig lib registry DefaultMetricsConfig"

text \<open>The endpoint: the status when metrics are disabled, else the page the library makes of the registry.\<close>

definition Metrics_Handler :: "('s \<Rightarrow> string) \<Rightarrow> prometheusMetrics \<Rightarrow> 's \<Rightarrow> int + string" where
  "Metrics_Handler render m s = (if \<not> me_Enabled (mt_config m) then Inl 404 else Inr (render s))"

subsection \<open>The manager\<close>

text \<open>
  The configuration of the service: of the expected type with its metrics part, or of another (\<open>None\<close>).  \<open>Get\<close> hands out a pointer, so that
  the update changes the configuration even if storing it fails.
\<close>

datatype metrics_error = MetricsNilConfig | MetricsConfigType | MetricsUpdate string

record 's MetricsManager =
  mm_config :: "MetricsConfig option"
  mm_metrics :: "prometheusMetrics \<times> 's"

definition NewMetricsManager :: "'s prometheus \<Rightarrow> 's \<Rightarrow> MetricsConfig option option \<Rightarrow> (metrics_error + 's MetricsManager) option" where
  "NewMetricsManager lib registry cfg =
     (case cfg of
        None \<Rightarrow> Some (Inl MetricsNilConfig)
      | Some None \<Rightarrow> Some (Inl MetricsConfigType)
      | Some (Some c) \<Rightarrow> map_option (\<lambda>ms. Inr \<lparr>mm_config = Some c, mm_metrics = ms\<rparr>) (NewMetricsWithConfig lib registry c))"

definition GetMetrics :: "'s MetricsManager \<Rightarrow> prometheusMetrics \<times> 's" where
  "GetMetrics mm = mm_metrics mm"

definition UpdateMetricsConfig :: "string option \<Rightarrow> MetricsConfig \<Rightarrow> 's MetricsManager \<Rightarrow> metrics_error option \<times> 's MetricsManager" where
  "UpdateMetricsConfig update_err metricsConfig mm =
     (case mm_config mm of
        None \<Rightarrow> (Some MetricsConfigType, mm)
      | Some c \<Rightarrow> (map_option MetricsUpdate update_err, mm\<lparr>mm_config := Some metricsConfig\<rparr>))"

text \<open>\<open>Reload\<close> also replaces the metrics of the package, the third part of the result.\<close>

definition MetricsManager_Reload ::
  "'s prometheus \<Rightarrow> 's \<Rightarrow> MetricsConfig option \<Rightarrow> 's MetricsManager \<Rightarrow> (metrics_error option \<times> 's MetricsManager \<times> (prometheusMetrics \<times> 's) option) option" where
  "MetricsManager_Reload lib registry newConfig mm =
     (case newConfig of
        None \<Rightarrow> Some (Some MetricsConfigType, mm, None)
      | Some c \<Rightarrow> map_option (\<lambda>ms. (None, mm\<lparr>mm_metrics := ms\<rparr>, Some ms)) (NewMetricsWithConfig lib registry c))"

text \<open>The path under which the handler is registered, if it is.\<close>

definition RegisterMetricsHandler :: "'s MetricsManager \<Rightarrow> string option" where
  "RegisterMetricsHandler mm =
     (case mm_config mm of
        None \<Rightarrow> None
      | Some c \<Rightarrow> if \<not> me_Enabled c then None else Some (if me_Path c = [] then ''/metrics'' else me_Path c))"

subsection \<open>The metrics of the package\<close>

text \<open>\<open>GlobalMetrics\<close> with its registry, made by \<open>init\<close> and replaced by \<open>SetGlobalMetrics\<close>.\<close>

type_synonym 's GlobalMetrics = "prometheusMetrics \<times> 's"

definition SetGlobalMetrics :: "prometheusMetrics \<times> 's \<Rightarrow> 's GlobalMetrics \<Rightarrow> 's GlobalMetrics" where
  "SetGlobalMetrics metrics g = metrics"

definition on_global :: "(prometheusMetrics \<Rightarrow> 's \<Rightarrow> (instrument \<times> prometheusMetrics \<times> 's) option) \<Rightarrow> 's GlobalMetrics \<Rightarrow> (instrument \<times> 's GlobalMetrics) option" where
  "on_global f g = f (fst g) (snd g)"

definition GetCounter :: "'s prometheus \<Rightarrow> string \<Rightarrow> string \<Rightarrow> string list \<Rightarrow> 's GlobalMetrics \<Rightarrow> (instrument \<times> 's GlobalMetrics) option" where
  "GetCounter lib name help labels = on_global (Counter lib name help labels)"

definition GetHistogram ::
  "'s prometheus \<Rightarrow> string \<Rightarrow> string \<Rightarrow> float64 list \<Rightarrow> string list \<Rightarrow> 's GlobalMetrics \<Rightarrow> (instrument \<times> 's GlobalMetrics) option" where
  "GetHistogram lib name help buckets labels = on_global (Histogram lib name help buckets labels)"

definition GetGauge :: "'s prometheus \<Rightarrow> string \<Rightarrow> string \<Rightarrow> string list \<Rightarrow> 's GlobalMetrics \<Rightarrow> (instrument \<times> 's GlobalMetrics) option" where
  "GetGauge lib name help labels = on_global (Gauge lib name help labels)"

definition MetricsHandler :: "('s \<Rightarrow> string) \<Rightarrow> 's GlobalMetrics \<Rightarrow> int + string" where
  "MetricsHandler render g = Metrics_Handler render (fst g) (snd g)"

subsection \<open>Clients\<close>

text \<open>
  What the servers use of any implementation of \<open>Metrics\<close>, on a world that holds it: a counter or a histogram is asked for, and then incremented or given the elapsed
  time under labels.
\<close>

type_synonym 'w recorder = "(string \<rightharpoonup> string) \<Rightarrow> 'w \<Rightarrow> 'w option"

record 'w metrics_client =
  mc_Counter :: "string \<Rightarrow> string \<Rightarrow> string list \<Rightarrow> 'w \<Rightarrow> ('w recorder \<times> 'w) option"
  mc_Histogram :: "string \<Rightarrow> string \<Rightarrow> float64 list \<Rightarrow> string list \<Rightarrow> 'w \<Rightarrow> ('w recorder \<times> 'w) option"

record ('s, 'a) metrics_world =
  mw_metrics :: prometheusMetrics
  mw_registry :: 's
  mw_app :: 'a

definition recorder :: "'s prometheus \<Rightarrow> metric_update \<Rightarrow> instrument \<Rightarrow> ('s, 'a) metrics_world recorder" where
  "recorder lib u i labels w =
     (case WithLabels lib labels i (mw_registry w) of
        None \<Rightarrow> None
      | Some (i, s) \<Rightarrow> map_option (\<lambda>s. w\<lparr>mw_registry := s\<rparr>) (apply_update lib u i s))"

definition with_recorder ::
  "'s prometheus \<Rightarrow> metric_update \<Rightarrow> ('s, 'a) metrics_world \<Rightarrow> (instrument \<times> prometheusMetrics \<times> 's) option \<Rightarrow> (('s, 'a) metrics_world recorder \<times> ('s, 'a) metrics_world) option" where
  "with_recorder lib u w = map_option (\<lambda>(i, m, s). (recorder lib u i, w\<lparr>mw_metrics := m, mw_registry := s\<rparr>))"

definition prometheus_client :: "'s prometheus \<Rightarrow> float64 \<Rightarrow> ('s, 'a) metrics_world metrics_client" where
  "prometheus_client lib elapsed =
     \<lparr>mc_Counter = (\<lambda>name help labels w. with_recorder lib (AddValue (Fin 1)) w (Counter lib name help labels (mw_metrics w) (mw_registry w))),
      mc_Histogram = (\<lambda>name help buckets labels w.
        with_recorder lib (ObserveValue elapsed) w (Histogram lib name help buckets labels (mw_metrics w) (mw_registry w)))\<rparr>"

text \<open>\<open>NoOpMetrics\<close> (\<open>noop.go\<close>).\<close>

definition NoOpMetrics :: "'w metrics_client" where
  "NoOpMetrics = \<lparr>mc_Counter = (\<lambda>name help labels w. Some (\<lambda>_. Some, w)), mc_Histogram = (\<lambda>name help buckets labels w. Some (\<lambda>_. Some, w))\<rparr>"

end
