(* ===== verification/HttpMiddleware.thy ===== *)
theory HttpMiddleware
  imports Authentication Metrics
begin

text \<open>
  Package http: the middleware (\<open>middleware.go\<close>, \<open>auth_middleware.go\<close>, \<open>auth_middleware_impl.go\<close>) and that of package observability which
  it uses (\<open>http_tracing.go\<close> and \<open>HTTPMetricsMiddleware\<close> of \<open>metrics.go\<close>).  A handler acts on the response being written, the events
  reported to logger and tracer so far and a world \<open>'w\<close> of the application, which holds the metrics, and returns or panics.  Writing through
  the wrappers that capture the status is the stack \<open>hs_captures\<close>.
\<close>

subsection \<open>Responses and handlers\<close>

datatype http_event =
    RequestStarted string string
  | RequestCompleted string string int int bool \<comment> \<open>method, path, status, size, logged as an error\<close>
  | PanicLogged string string string
  | SpanEnded string "(int \<times> int \<times> bool) option" \<comment> \<open>name; status, size and error flag when the handler returned\<close>

record 'w hs =
  hs_headers :: "string \<rightharpoonup> string"
  hs_code :: "int option" \<comment> \<open>the status sent, once it is\<close>
  hs_body :: string
  hs_captures :: "(int \<times> int) list" \<comment> \<open>the wrappers in force, innermost first: status code and bytes written\<close>
  hs_events :: "http_event list"
  hs_world :: 'w

type_synonym 'w handler = "http_request \<Rightarrow> 'w hs \<Rightarrow> string option \<times> 'w hs" \<comment> \<open>the message of a panic\<close>
type_synonym 'w middleware = "'w handler \<Rightarrow> 'w handler"

definition set_header :: "string \<Rightarrow> string \<Rightarrow> 'w hs \<Rightarrow> 'w hs" where
  "set_header name value s = s\<lparr>hs_headers := (hs_headers s)(name \<mapsto> value)\<rparr>"

text \<open>Every wrapper takes note of every call; only the first reaches the client.\<close>

definition WriteHeader :: "int \<Rightarrow> 'w hs \<Rightarrow> 'w hs" where
  "WriteHeader statusCode s =
     s\<lparr>hs_captures := map (\<lambda>(c, n). (statusCode, n)) (hs_captures s),
       hs_code := (case hs_code s of None \<Rightarrow> Some statusCode | Some c \<Rightarrow> Some c)\<rparr>"

definition Write :: "string \<Rightarrow> 'w hs \<Rightarrow> 'w hs" where
  "Write b s =
     s\<lparr>hs_captures := map (\<lambda>(c, n). (c, n + int (length b))) (hs_captures s),
       hs_code := (case hs_code s of None \<Rightarrow> Some 200 | Some c \<Rightarrow> Some c), hs_body := hs_body s @ b\<rparr>"

text \<open>\<open>http.Error\<close>.\<close>

definition http_Error :: "string \<Rightarrow> int \<Rightarrow> 'w hs \<Rightarrow> 'w hs" where
  "http_Error msg statusCode s =
     Write (msg @ [CHR 0x0A])
       (WriteHeader statusCode
         (set_header ''X-Content-Type-Options'' ''nosniff''
           (set_header ''Content-Type'' ''text/plain; charset=utf-8''
             (s\<lparr>hs_headers := (hs_headers s)(''Content-Length'' := None)\<rparr>))))"

definition report :: "http_event \<Rightarrow> 'w hs \<Rightarrow> 'w hs" where
  "report e s = s\<lparr>hs_events := hs_events s @ [e]\<rparr>"

text \<open>Running a handler behind a new wrapper: what it captured, and the state without it.\<close>

definition wrapped :: "'w handler \<Rightarrow> http_request \<Rightarrow> 'w hs \<Rightarrow> string option \<times> (int \<times> int) \<times> 'w hs" where
  "wrapped next r s =
     (let (p, s') = next r (s\<lparr>hs_captures := (200, 0) # hs_captures s\<rparr>)
      in (p, hd (hs_captures s'), s'\<lparr>hs_captures := tl (hs_captures s')\<rparr>))"

subsection \<open>Chains\<close>

type_synonym 'w chain = "'w middleware list"

text \<open>The loop from the last index down to 0.\<close>

fun apply_from :: "nat \<Rightarrow> 'w chain \<Rightarrow> 'w handler \<Rightarrow> 'w handler" where
  "apply_from 0 mc handler = handler"
| "apply_from (Suc i) mc handler = apply_from i mc ((mc ! i) handler)"

definition Chain_Apply :: "'w chain \<Rightarrow> 'w handler \<Rightarrow> 'w handler" where
  "Chain_Apply mc handler = apply_from (length mc) mc handler"

subsection \<open>Observing requests\<close>

definition LoggingMiddleware :: "'w middleware" where
  "LoggingMiddleware next r s =
     (let s = report (RequestStarted (ht_Method r) (ht_Path r)) s
      in case wrapped next r s of
           (Some p, c, s) \<Rightarrow> (Some p, s)
         | (None, (statusCode, written), s) \<Rightarrow>
             (None, report (RequestCompleted (ht_Method r) (ht_Path r) statusCode written (400 \<le> statusCode)) s))"

text \<open>Asking for an instrument and using it under the labels: whether the library panicked.\<close>

definition record_on :: "('w \<Rightarrow> ('w recorder \<times> 'w) option) \<Rightarrow> (string \<rightharpoonup> string) \<Rightarrow> 'w \<Rightarrow> bool \<times> 'w" where
  "record_on ask labels w =
     (case ask w of
        None \<Rightarrow> (True, w)
      | Some (rec, w) \<Rightarrow> (case rec labels w of None \<Rightarrow> (True, w) | Some w \<Rightarrow> (False, w)))"

definition http_record :: "'w metrics_client \<Rightarrow> string \<Rightarrow> string \<Rightarrow> int \<Rightarrow> 'w \<Rightarrow> bool \<times> 'w" where
  "http_record metrics method path statusCode w =
     (let labels = [''method'' \<mapsto> method, ''path'' \<mapsto> path, ''status'' \<mapsto> fmt_d statusCode];
          names = [''method'', ''path'', ''status'']
      in case record_on (mc_Counter metrics ''http_requests_total'' ''Total number of HTTP requests'' names) labels w of
           (True, w) \<Rightarrow> (True, w)
         | (False, w) \<Rightarrow>
             (case record_on (mc_Histogram metrics ''http_request_duration_seconds'' ''HTTP request duration in seconds'' duration_buckets names) labels w of
                (True, w) \<Rightarrow> (True, w)
              | (False, w) \<Rightarrow>
                  if 400 \<le> statusCode
                  then record_on (mc_Counter metrics ''http_request_errors_total'' ''Total number of HTTP request errors'' names) labels w
                  else (False, w)))"

definition MetricsMiddleware :: "'w metrics_client \<Rightarrow> 'w middleware" where
  "MetricsMiddleware metrics next r s =
     (case wrapped next r s of
        (Some p, c, s) \<Rightarrow> (Some p, s)
      | (None, (statusCode, written), s) \<Rightarrow>
          (case http_record metrics (ht_Method r) (ht_Path r) statusCode (hs_world s) of
             (panicked, w) \<Rightarrow> (if panicked then Some ''inconsistent label cardinality'' else None, s\<lparr>hs_world := w\<rparr>)))"

definition TracingMiddleware :: "'w middleware" where
  "TracingMiddleware next r s =
     (let spanName = ht_Method r @ '' '' @ ht_Path r
      in case wrapped next r s of
           (Some p, c, s) \<Rightarrow> (Some p, report (SpanEnded spanName None) s)
         | (None, (statusCode, written), s) \<Rightarrow>
             (None, report (SpanEnded spanName (Some (statusCode, written, 400 \<le> statusCode))) s))"

text \<open>Without a logger (\<open>logger\<close>) the deferred function panics itself.\<close>

definition RecoveryMiddleware :: "bool \<Rightarrow> 'w middleware" where
  "RecoveryMiddleware logger next r s =
     (case next r s of
        (Some p, s) \<Rightarrow>
          if \<not> logger then (Some ''invalid memory address or nil pointer dereference'', s)
          else (None, http_Error ''Internal Server Error'' 500 (report (PanicLogged (ht_Method r) (ht_Path r) p) s))
      | (None, s) \<Rightarrow> (None, s))"

subsection \<open>Headers\<close>

record CORSConfig =
  co_Enabled :: bool
  co_AllowOrigins :: string
  co_AllowMethods :: string
  co_AllowHeaders :: string
  co_ExposeHeaders :: string
  co_AllowCredentials :: bool
  co_MaxAge :: int

definition DefaultCORSConfig :: CORSConfig where
  "DefaultCORSConfig =
     \<lparr>co_Enabled = True, co_AllowOrigins = ''*'', co_AllowMethods = ''GET, POST, PUT, DELETE, OPTIONS, PATCH'',
      co_AllowHeaders = ''Origin, Content-Type, Accept, Authorization, X-Requested-With'',
      co_ExposeHeaders = ''Content-Length, Content-Type'', co_AllowCredentials = False, co_MaxAge = 86400\<rparr>"

record SecurityHeadersConfig =
  sh_Enabled :: bool
  sh_ContentSecurityPolicy :: string
  sh_XFrameOptions :: string
  sh_XContentTypeOptions :: bool
  sh_ReferrerPolicy :: string
  sh_StrictTransportSecurity :: string
  sh_XSSProtection :: bool

definition DefaultSecurityHeadersConfig :: SecurityHeadersConfig where
  "DefaultSecurityHeadersConfig =
     \<lparr>sh_Enabled = True, sh_ContentSecurityPolicy = [], sh_XFrameOptions = ''DENY'', sh_XContentTypeOptions = True,
      sh_ReferrerPolicy = ''strict-origin-when-cross-origin'',
      sh_StrictTransportSecurity = ''max-age=31536000; includeSubDomains'', sh_XSSProtection = True\<rparr>"

definition set_if :: "bool \<Rightarrow> string \<Rightarrow> string \<Rightarrow> 'w hs \<Rightarrow> 'w hs" where
  "set_if b name value s = (if b then set_header name value s else s)"

definition cors_headers :: "CORSConfig \<Rightarrow> 'w hs \<Rightarrow> 'w hs" where
  "cors_headers config s =
     set_if (0 < co_MaxAge config) ''Access-Control-Max-Age'' (fmt_d (co_MaxAge config))
       (set_if (co_AllowCredentials config) ''Access-Control-Allow-Credentials'' ''true''
         (set_if (co_ExposeHeaders config \<noteq> []) ''Access-Control-Expose-Headers'' (co_ExposeHeaders config)
           (set_if (co_AllowHeaders config \<noteq> []) ''Access-Control-Allow-Headers'' (co_AllowHeaders config)
             (set_if (co_AllowMethods config \<noteq> []) ''Access-Control-Allow-Methods'' (co_AllowMethods config)
               (set_if (co_AllowOrigins config \<noteq> []) ''Access-Control-Allow-Origin'' (co_AllowOrigins config) s)))))"

definition CORSMiddleware :: "CORSConfig \<Rightarrow> 'w middleware" where
  "CORSMiddleware config next r s =
     (let s = cors_headers config s
      in if ht_Method r = ''OPTIONS'' then (None, WriteHeader 204 s) else next r s)"

definition security_headers :: "SecurityHeadersConfig \<Rightarrow> 'w hs \<Rightarrow> 'w hs" where
  "security_headers config s =
     set_if (sh_XSSProtection config) ''X-XSS-Protection'' ''1; mode=block''
       (set_if (sh_StrictTransportSecurity config \<noteq> []) ''Strict-Transport-Security'' (sh_StrictTransportSecurity config)
         (set_if (sh_ReferrerPolicy config \<noteq> []) ''Referrer-Policy'' (sh_ReferrerPolicy config)
           (set_if (sh_XContentTypeOptions config) ''X-Content-Type-Options'' ''nosniff''
             (set_if (sh_XFrameOptions config \<noteq> []) ''X-Frame-Options'' (sh_XFrameOptions config)
               (set_if (sh_ContentSecurityPolicy config \<noteq> []) ''Content-Security-Policy'' (sh_ContentSecurityPolicy config) s)))))"

definition SecurityHeadersMiddleware :: "SecurityHeadersConfig \<Rightarrow> 'w middleware" where
  "SecurityHeadersMiddleware config next r s = next r (security_headers config s)"

definition CombinedMiddleware :: "'w metrics_client \<Rightarrow> 'w middleware" where
  "CombinedMiddleware metrics next = TracingMiddleware (MetricsMiddleware metrics (LoggingMiddleware next))"

text \<open>\<open>CombinedHTTPMiddleware\<close> of package observability logs the start of a request only.\<close>

definition CombinedHTTPMiddleware :: "'w metrics_client \<Rightarrow> 'w middleware" where
  "CombinedHTTPMiddleware metrics next =
     TracingMiddleware (MetricsMiddleware metrics (\<lambda>r s. next r (report (RequestStarted (ht_Method r) (ht_Path r)) s)))"

definition DefaultMiddleware :: "'w metrics_client \<Rightarrow> 'w chain" where
  "DefaultMiddleware metrics =
     [RecoveryMiddleware True, TracingMiddleware, MetricsMiddleware metrics, LoggingMiddleware,
      SecurityHeadersMiddleware DefaultSecurityHeadersConfig]"

definition http_HealthMiddleware :: "string list \<Rightarrow> 'w middleware" where
  "http_HealthMiddleware healthPaths next r s =
     (if list_ex (\<lambda>path. strings_HasPrefix (ht_Path r) path) healthPaths then next r s else next r s)"

subsection \<open>Authentication\<close>

record HttpAuthConfig =
  ha_Enabled :: bool
  ha_JWKSEndpoint :: string
  ha_Issuer :: string
  ha_Audience :: "string list"
  ha_TokenLookup :: string
  ha_AuthScheme :: string
  ha_BypassPaths :: "string list"
  ha_RefreshInterval :: duration
  ha_RequiredScopes :: "string list"
  ha_ClaimsToContext :: "string list"

definition http_DefaultAuthConfig :: HttpAuthConfig where
  "http_DefaultAuthConfig =
     \<lparr>ha_Enabled = False, ha_JWKSEndpoint = [], ha_Issuer = [], ha_Audience = [], ha_TokenLookup = ''header:Authorization'',
      ha_AuthScheme = ''Bearer'', ha_BypassPaths = [''/health'', ''/metrics'', ''/openapi.json'', ''/swagger''],
      ha_RefreshInterval = 1 * Hour, ha_RequiredScopes = [], ha_ClaimsToContext = []\<rparr>"

text \<open>The middleware of package security as handlers: an answer, or the next handler with a request.\<close>

fun serve_out :: "http_out \<Rightarrow> 'w handler \<Rightarrow> 'w hs \<Rightarrow> string option \<times> 'w hs" where
  "serve_out (HttpError code msg) next s = (None, http_Error msg code s)"
| "serve_out (Next r) next s = next r s"

text \<open>An authenticator is its method \<open>ValidateToken\<close>, its configuration and the texts of its errors; the keys are part of the world.\<close>

record 'w authenticator =
  at_validate :: "string \<Rightarrow> 'w \<Rightarrow> (auth_error + Claims) \<times> 'w"
  at_config :: AuthConfig
  at_error_text :: "auth_error \<Rightarrow> string"

definition AuthMiddleware :: "'w authenticator \<Rightarrow> 'w middleware" where
  "AuthMiddleware auth next r s =
     (let (out, w) = Middleware (at_validate auth) (at_config auth) r (hs_world s) in serve_out out next (s\<lparr>hs_world := w\<rparr>))"

definition AuthBypassMiddleware :: "'w authenticator \<Rightarrow> string list \<Rightarrow> 'w middleware" where
  "AuthBypassMiddleware auth paths next r s =
     (let (out, w) = WithBypass (at_validate auth) (at_config auth) paths r (hs_world s) in serve_out out next (s\<lparr>hs_world := w\<rparr>))"

definition RequireScopeMiddleware :: "string \<Rightarrow> 'w middleware" where
  "RequireScopeMiddleware scope next r s = serve_out (RequireScope scope r) next s"

definition claim_scopes :: "Claims \<Rightarrow> string option" where
  "claim_scopes claims = (case cl_Custom claims ''scope'' of Some (VStr s) \<Rightarrow> Some s | _ \<Rightarrow> None)"

definition scopes_missing :: "string list \<Rightarrow> string \<Rightarrow> bool" where
  "scopes_missing required scopeStr = list_ex (\<lambda>s. \<not> ParseScopeString scopeStr s) required"

definition RequireScopes :: "string list \<Rightarrow> 'w middleware" where
  "RequireScopes required next r s =
     (case GetClaimsFromContext (ht_Context r) of
        None \<Rightarrow> (None, http_Error ''Unauthorized'' 401 s)
      | Some claims \<Rightarrow>
          (case claim_scopes claims of
             None \<Rightarrow> (None, http_Error ''Forbidden'' 403 s)
           | Some scopeStr \<Rightarrow>
               if scopes_missing required scopeStr then (None, http_Error ''Forbidden'' 403 s) else next r s))"

definition RequireScopesMiddleware :: "string list \<Rightarrow> 'w middleware" where
  "RequireScopesMiddleware scopes next r s = RequireScopes scopes next r s"

definition http_RequireScope :: "string \<Rightarrow> 'w middleware" where
  "http_RequireScope scope next r s =
     (case GetClaimsFromContext (ht_Context r) of
        None \<Rightarrow> (None, http_Error ''Unauthorized'' 401 s)
      | Some claims \<Rightarrow>
          (case claim_scopes claims of
             None \<Rightarrow> (None, http_Error ''Forbidden'' 403 s)
           | Some scopeStr \<Rightarrow> if \<not> ParseScopeString scopeStr scope then (None, http_Error ''Forbidden'' 403 s) else next r s))"

definition claims_into :: "string list \<Rightarrow> Claims \<Rightarrow> auth_context \<Rightarrow> auth_context" where
  "claims_into names claims ctx =
     fold (\<lambda>name ctx. case cl_Custom claims name of
                        Some v \<Rightarrow> ctx\<lparr>cx_values := (cx_values ctx)(ClaimContextKey name \<mapsto> v)\<rparr>
                      | None \<Rightarrow> ctx) names ctx"

definition ExtractClaimsToContext :: "string list \<Rightarrow> 'w middleware" where
  "ExtractClaimsToContext claimNames next r s =
     (case GetClaimsFromContext (ht_Context r) of
        None \<Rightarrow> next r s
      | Some claims \<Rightarrow> next (r\<lparr>ht_Context := claims_into claimNames claims (ht_Context r)\<rparr>) s)"

definition ClaimsContextMiddleware :: "string list \<Rightarrow> 'w middleware" where
  "ClaimsContextMiddleware claimNames next r s = ExtractClaimsToContext claimNames next r s"

definition http_extractToken :: "http_request \<Rightarrow> string \<Rightarrow> string \<Rightarrow> auth_error + string" where
  "http_extractToken r tokenLookup authScheme =
     (case strings_Split tokenLookup '':'' of
        [source, name] \<Rightarrow>
          if source = ''header'' then
            (let authHeader = ht_Header r name
             in if authHeader = [] then Inl ErrNoToken
                else if authScheme \<noteq> [] then
                  (if \<not> strings_HasPrefix authHeader authScheme then Inl ErrInvalidToken
                   else Inr (strings_TrimPrefix authHeader (authScheme @ '' '')))
                else Inr authHeader)
          else if source = ''query'' then
            (let token = ht_Query r name in if token = [] then Inl ErrNoToken else Inr token)
          else if source = ''cookie'' then
            (case ht_Cookie r name of None \<Rightarrow> Inl ErrNoToken | Some v \<Rightarrow> Inr v)
          else Inl ErrNoToken
      | _ \<Rightarrow> Inl ErrNoToken)"

record AuthMiddlewareOptions =
  ao_BypassPaths :: "string list"
  ao_RequiredScopes :: "string list"
  ao_ClaimsToContext :: "string list"

definition bypassed :: "AuthMiddlewareOptions \<Rightarrow> http_request \<Rightarrow> bool" where
  "bypassed opts r \<longleftrightarrow>
     list_ex (\<lambda>path. ht_Path r = path \<or> (path \<noteq> ''/'' \<and> strings_HasPrefix (ht_Path r) path)) (ao_BypassPaths opts)"

text \<open>The check of the required scopes; the message and code of an answer.\<close>

definition scope_error :: "AuthMiddlewareOptions \<Rightarrow> Claims \<Rightarrow> string option" where
  "scope_error opts claims =
     (if ao_RequiredScopes opts = [] then None
      else case claim_scopes claims of
          None \<Rightarrow> Some ''Forbidden - Missing required scopes''
        | Some scopeStr \<Rightarrow>
            if scopes_missing (ao_RequiredScopes opts) scopeStr then Some ''Forbidden - Missing required scope'' else None)"

definition NewAuthMiddleware :: "'w authenticator \<Rightarrow> AuthMiddlewareOptions \<Rightarrow> 'w middleware" where
  "NewAuthMiddleware auth opts next r s =
     (if bypassed opts r then next r s
      else case http_extractToken r ''header:Authorization'' ''Bearer'' of
          Inl e \<Rightarrow> (None, http_Error ''Unauthorized'' 401 s)
        | Inr tokenString \<Rightarrow>
            (case at_validate auth tokenString (hs_world s) of
               (Inl e, w) \<Rightarrow> (None, http_Error ''Unauthorized'' 401 (s\<lparr>hs_world := w\<rparr>))
             | (Inr claims, w) \<Rightarrow>
                 (let s = s\<lparr>hs_world := w\<rparr>;
                      ctx = claims_into (ao_ClaimsToContext opts) claims ((ht_Context r)\<lparr>cx_claims := Some claims\<rparr>)
                  in case scope_error opts claims of
                       Some msg \<Rightarrow> (None, http_Error msg 403 s)
                     | None \<Rightarrow> next (r\<lparr>ht_Context := ctx\<rparr>) s)))"

text \<open>
  Creating an authenticator, with the constructor of package security (\<open>new_jwt\<close>) as an argument: \<open>Inr None\<close> when authentication is disabled.
\<close>

definition security_config :: "HttpAuthConfig \<Rightarrow> AuthConfig" where
  "security_config config =
     \<lparr>ac_JWKSEndpoint = ha_JWKSEndpoint config, ac_Issuer = ha_Issuer config, ac_Audience = ha_Audience config,
      ac_RefreshInterval = ha_RefreshInterval config, ac_TokenLookup = ha_TokenLookup config,
      ac_AuthScheme = ha_AuthScheme config, ac_BypassPaths = ha_BypassPaths config\<rparr>"

definition NewAuthenticator ::
  "(AuthConfig \<Rightarrow> auth_error + 'w authenticator) \<Rightarrow> HttpAuthConfig \<Rightarrow> auth_error + 'w authenticator option" where
  "NewAuthenticator new_jwt config =
     (if \<not> ha_Enabled config then Inr None
      else case new_jwt (security_config config) of Inl e \<Rightarrow> Inl e | Inr a \<Rightarrow> Inr (Some a))"

end
