(* ===== verification/GoPath.thy ===== *)
theory GoPath
  imports Prelude
begin

text \<open>
  Paths: \<open>path.Clean\<close> and \<open>path.Join\<close> of the standard library, and how they act on paths of plain segments.
\<close>

subsection \<open>Definitions\<close>

definition clean_step :: "bool \<Rightarrow> string list \<Rightarrow> string \<Rightarrow> string list" where
  "clean_step rooted out p =
     (if p = [] \<or> p = ''.'' then out
      else if p = ''..'' then
        (if out \<noteq> [] \<and> last out \<noteq> ''..'' then butlast out else if rooted then out else out @ [p])
      else out @ [p])"

definition path_Clean :: "string \<Rightarrow> string" where
  "path_Clean p =
     (let rooted = (p \<noteq> [] \<and> hd p = CHR ''/'');
          s = (if rooted then ''/'' else []) @ strings_Join (foldl (clean_step rooted) [] (strings_Split p ''/'')) ''/''
      in if s = [] then ''.'' else s)"

definition path_Join :: "string \<Rightarrow> string \<Rightarrow> string" where
  "path_Join a b =
     (if a = [] \<and> b = [] then []
      else path_Clean (if a = [] then b else a @ ''/'' @ b))"

subsection \<open>Splitting at slashes\<close>

lemma strings_Index_slash: "strings_Index s ''/'' = (if CHR ''/'' \<in> set s then Some (length (takeWhile (\<lambda>c. c \<noteq> CHR ''/'') s)) else None)"
  by (induction s) (auto simp: strings_HasPrefix_def)

lemma Split_no_slash: "CHR ''/'' \<notin> set s \<Longrightarrow> strings_Split s ''/'' = [s]"
  by (subst strings_Split.simps) (simp add: strings_Index_slash)

lemma Split_first: "CHR ''/'' \<notin> set a \<Longrightarrow> strings_Split (a @ CHR ''/'' # b) ''/'' = a # strings_Split b ''/''"
  by (subst strings_Split.simps) (simp add: strings_Index_slash takeWhile_append)

lemma slash_cases:
  obtains (plain) "CHR ''/'' \<notin> set s" | (more) a b where "s = a @ CHR ''/'' # b" "CHR ''/'' \<notin> set a"
  by (metis split_list_first)

lemma Split_append: "strings_Split (a @ CHR ''/'' # b) ''/'' = strings_Split a ''/'' @ strings_Split b ''/''"
proof (induction a rule: length_induct)
  case (1 a)
  show ?case
  proof (cases a rule: slash_cases)
    case plain
    then show ?thesis by (simp add: Split_first Split_no_slash)
  next
    case (more c d)
    then have "strings_Split (d @ CHR ''/'' # b) ''/'' = strings_Split d ''/'' @ strings_Split b ''/''" using 1 by simp
    then show ?thesis using more by (simp add: Split_first)
  qed
qed

lemma Split_not_Nil [simp]: "strings_Split s ''/'' \<noteq> []"
  by (cases s rule: slash_cases) (simp_all add: Split_no_slash Split_first)

lemma Join_Cons: "xs \<noteq> [] \<Longrightarrow> strings_Join (x # xs) sep = x @ sep @ strings_Join xs sep"
  by (cases xs) simp_all

lemma Join_Split_slash [simp]: "strings_Join (strings_Split s ''/'') ''/'' = s"
  by (rule Join_Split) simp

subsection \<open>Plain paths\<close>

text \<open>Segments without slashes, and none that a path is cleaned of.\<close>

definition plain_segment :: "string \<Rightarrow> bool" where
  "plain_segment s \<longleftrightarrow> s \<noteq> [] \<and> CHR ''/'' \<notin> set s \<and> s \<noteq> ''.'' \<and> s \<noteq> ''..''"

definition plain_path :: "string \<Rightarrow> bool" where
  "plain_path p \<longleftrightarrow> list_all plain_segment (strings_Split p ''/'')"

lemma plain_path_append [simp]: "plain_path (a @ CHR ''/'' # b) \<longleftrightarrow> plain_path a \<and> plain_path b"
  by (simp add: plain_path_def Split_append)

lemma plain_path_segment: "CHR ''/'' \<notin> set s \<Longrightarrow> plain_path s \<longleftrightarrow> plain_segment s"
  by (simp add: plain_path_def Split_no_slash)

lemma plain_segment_path: "plain_segment s \<Longrightarrow> plain_path s"
  by (simp add: plain_path_segment plain_segment_def)

lemma plain_path_hd: "plain_path p \<Longrightarrow> p \<noteq> [] \<and> hd p \<noteq> CHR ''/''"
  by (cases p rule: slash_cases) (auto simp: plain_path_segment plain_segment_def hd_append, (metis hd_in_set)+)

lemma clean_plain: "list_all plain_segment ps \<Longrightarrow> foldl (clean_step rooted) out ps = out @ ps"
  by (induction ps arbitrary: out) (auto simp: clean_step_def plain_segment_def)

lemma path_Clean_plain: "plain_path p \<Longrightarrow> path_Clean p = p"
  using plain_path_hd [of p] by (simp add: path_Clean_def clean_plain plain_path_def Let_def)

lemma path_Clean_slash: "plain_path p \<Longrightarrow> path_Clean (p @ ''/'') = p"
  using plain_path_hd [of p]
  by (simp add: path_Clean_def clean_plain plain_path_def Split_append Split_no_slash clean_step_def Let_def hd_append)

text \<open>The path of what lies in a directory, the root of which is the empty path.\<close>

definition in_dir :: "string \<Rightarrow> string \<Rightarrow> string" where
  "in_dir pre name = (if pre = [] then name else pre @ ''/'' @ name)"

lemma in_dir_plain [simp]: "pre = [] \<or> plain_path pre \<Longrightarrow> plain_path name \<Longrightarrow> plain_path (in_dir pre name)"
  by (auto simp: in_dir_def)

lemma path_Join_plain:
  assumes "pre = [] \<or> plain_path pre" and "plain_segment name"
  shows "path_Join pre name = in_dir pre name" and "path_Join pre (name @ ''/'') = in_dir pre name"
  using assms plain_segment_path [OF assms(2)] path_Clean_plain [of "in_dir pre name"] path_Clean_slash [of "in_dir pre name"]
  by (auto simp: path_Join_def in_dir_def plain_segment_def)

end
