(* ===== verification/HttpServer.thy ===== *)
theory HttpServer
  imports HttpMiddleware GoPath
begin

text \<open>
  Package http: the server (\<open>server.go\<close>), its configuration (\<open>config.go\<close>) and the OpenAPI endpoints (\<open>openapi.go\<close>).  The mux maps
  patterns to wrapped handlers.  Listening happens elsewhere: a failure of it is an event (\<open>serve_failed\<close>), the outcome of the
  graceful shutdown of \<open>net/http\<close> an argument.
\<close>

subsection \<open>Configuration\<close>

record OpenAPIConfig =
  oa_Enabled :: bool
  oa_SpecPath :: string
  oa_ServePath :: string
  oa_UIEnabled :: bool
  oa_UIPath :: string
  oa_ValidateRequests :: bool
  oa_ValidateResponses :: bool

definition DefaultOpenAPIConfig :: OpenAPIConfig where
  "DefaultOpenAPIConfig =
     \<lparr>oa_Enabled = True, oa_SpecPath = [], oa_ServePath = ''/openapi.json'', oa_UIEnabled = True, oa_UIPath = ''/docs'',
      oa_ValidateRequests = True, oa_ValidateResponses = False\<rparr>"

record ServerConfig =
  sc_Host :: string
  sc_Port :: int
  sc_ReadTimeout :: duration
  sc_WriteTimeout :: duration
  sc_IdleTimeout :: duration
  sc_ShutdownTimeout :: duration
  sc_MaxHeaderBytes :: int
  sc_EnableTLS :: bool
  sc_TLSCertFile :: string
  sc_TLSKeyFile :: string
  sc_BasePath :: string
  sc_CORS :: CORSConfig
  sc_SecurityHeaders :: SecurityHeadersConfig
  sc_HealthPaths :: "string list"
  sc_OpenAPI :: "OpenAPIConfig option"
  sc_Auth :: "HttpAuthConfig option"

definition DefaultServerConfig :: ServerConfig where
  "DefaultServerConfig =
     \<lparr>sc_Host = ''0.0.0.0'', sc_Port = 8080, sc_ReadTimeout = 5 * Second, sc_WriteTimeout = 10 * Second, sc_IdleTimeout = 120 * Second,
      sc_ShutdownTimeout = 30 * Second, sc_MaxHeaderBytes = 2 ^ 20, sc_EnableTLS = False, sc_TLSCertFile = [], sc_TLSKeyFile = [],
      sc_BasePath = [], sc_CORS = DefaultCORSConfig, sc_SecurityHeaders = DefaultSecurityHeadersConfig,
      sc_HealthPaths = [''/health'', ''/metrics''], sc_OpenAPI = Some DefaultOpenAPIConfig, sc_Auth = Some http_DefaultAuthConfig\<rparr>"

definition zero_HttpAuthConfig :: HttpAuthConfig where
  "zero_HttpAuthConfig =
     \<lparr>ha_Enabled = False, ha_JWKSEndpoint = [], ha_Issuer = [], ha_Audience = [], ha_TokenLookup = [], ha_AuthScheme = [],
      ha_BypassPaths = [], ha_RefreshInterval = 0, ha_RequiredScopes = [], ha_ClaimsToContext = []\<rparr>"

definition zero_OpenAPIConfig :: OpenAPIConfig where
  "zero_OpenAPIConfig =
     \<lparr>oa_Enabled = False, oa_SpecPath = [], oa_ServePath = [], oa_UIEnabled = False, oa_UIPath = [], oa_ValidateRequests = False,
      oa_ValidateResponses = False\<rparr>"

text \<open>The options; those of authentication and OpenAPI start from the zero value when there is none.\<close>

definition on_auth :: "(HttpAuthConfig \<Rightarrow> HttpAuthConfig) \<Rightarrow> ServerConfig \<Rightarrow> ServerConfig" where
  "on_auth f config =
     config\<lparr>sc_Auth := Some (f (case sc_Auth config of None \<Rightarrow> zero_HttpAuthConfig | Some a \<Rightarrow> a))\<rparr>"

definition on_openapi :: "(OpenAPIConfig \<Rightarrow> OpenAPIConfig) \<Rightarrow> ServerConfig \<Rightarrow> ServerConfig" where
  "on_openapi f config =
     config\<lparr>sc_OpenAPI := Some (f (case sc_OpenAPI config of None \<Rightarrow> zero_OpenAPIConfig | Some a \<Rightarrow> a))\<rparr>"

definition WithAuth :: "bool \<Rightarrow> string \<Rightarrow> ServerConfig \<Rightarrow> ServerConfig" where
  "WithAuth enabled jwksEndpoint = on_auth (\<lambda>a. a\<lparr>ha_Enabled := enabled, ha_JWKSEndpoint := jwksEndpoint\<rparr>)"
definition WithAuthIssuer :: "string \<Rightarrow> ServerConfig \<Rightarrow> ServerConfig" where
  "WithAuthIssuer issuer = on_auth (\<lambda>a. a\<lparr>ha_Issuer := issuer\<rparr>)"
definition WithAuthAudience :: "string list \<Rightarrow> ServerConfig \<Rightarrow> ServerConfig" where
  "WithAuthAudience audience = on_auth (\<lambda>a. a\<lparr>ha_Audience := audience\<rparr>)"
definition WithAuthBypass :: "string list \<Rightarrow> ServerConfig \<Rightarrow> ServerConfig" where
  "WithAuthBypass paths = on_auth (\<lambda>a. a\<lparr>ha_BypassPaths := paths\<rparr>)"
definition WithAuthTokenLookup :: "string \<Rightarrow> ServerConfig \<Rightarrow> ServerConfig" where
  "WithAuthTokenLookup tokenLookup = on_auth (\<lambda>a. a\<lparr>ha_TokenLookup := tokenLookup\<rparr>)"
definition WithAuthScheme :: "string \<Rightarrow> ServerConfig \<Rightarrow> ServerConfig" where
  "WithAuthScheme authScheme = on_auth (\<lambda>a. a\<lparr>ha_AuthScheme := authScheme\<rparr>)"
definition WithAuthRefreshInterval :: "duration \<Rightarrow> ServerConfig \<Rightarrow> ServerConfig" where
  "WithAuthRefreshInterval interval = on_auth (\<lambda>a. a\<lparr>ha_RefreshInterval := interval\<rparr>)"
definition WithRequiredScopes :: "string list \<Rightarrow> ServerConfig \<Rightarrow> ServerConfig" where
  "WithRequiredScopes scopes = on_auth (\<lambda>a. a\<lparr>ha_RequiredScopes := scopes\<rparr>)"
definition WithClaimsToContext :: "string list \<Rightarrow> ServerConfig \<Rightarrow> ServerConfig" where
  "WithClaimsToContext claims = on_auth (\<lambda>a. a\<lparr>ha_ClaimsToContext := claims\<rparr>)"

definition WithOpenAPI :: "bool \<Rightarrow> string \<Rightarrow> ServerConfig \<Rightarrow> ServerConfig" where
  "WithOpenAPI enabled specPath = on_openapi (\<lambda>a. a\<lparr>oa_Enabled := enabled, oa_SpecPath := specPath\<rparr>)"
definition WithOpenAPIUI :: "bool \<Rightarrow> string \<Rightarrow> ServerConfig \<Rightarrow> ServerConfig" where
  "WithOpenAPIUI enabled uiPath = on_openapi (\<lambda>a. a\<lparr>oa_UIEnabled := enabled, oa_UIPath := uiPath\<rparr>)"
definition WithOpenAPIValidation :: "bool \<Rightarrow> bool \<Rightarrow> ServerConfig \<Rightarrow> ServerConfig" where
  "WithOpenAPIValidation requests responses =
     on_openapi (\<lambda>a. a\<lparr>oa_ValidateRequests := requests, oa_ValidateResponses := responses\<rparr>)"

definition WithTLS :: "string \<Rightarrow> string \<Rightarrow> ServerConfig \<Rightarrow> ServerConfig" where
  "WithTLS certFile keyFile config = config\<lparr>sc_EnableTLS := True, sc_TLSCertFile := certFile, sc_TLSKeyFile := keyFile\<rparr>"
definition WithPort :: "int \<Rightarrow> ServerConfig \<Rightarrow> ServerConfig" where
  "WithPort port config = config\<lparr>sc_Port := port\<rparr>"
definition WithHost :: "string \<Rightarrow> ServerConfig \<Rightarrow> ServerConfig" where
  "WithHost host config = config\<lparr>sc_Host := host\<rparr>"
definition WithBasePath :: "string \<Rightarrow> ServerConfig \<Rightarrow> ServerConfig" where
  "WithBasePath basePath config = config\<lparr>sc_BasePath := basePath\<rparr>"
definition WithTimeouts :: "duration \<Rightarrow> duration \<Rightarrow> duration \<Rightarrow> duration \<Rightarrow> ServerConfig \<Rightarrow> ServerConfig" where
  "WithTimeouts read write idle shutdown config =
     config\<lparr>sc_ReadTimeout := read, sc_WriteTimeout := write, sc_IdleTimeout := idle, sc_ShutdownTimeout := shutdown\<rparr>"
definition WithCORS :: "bool \<Rightarrow> string \<Rightarrow> ServerConfig \<Rightarrow> ServerConfig" where
  "WithCORS enabled allowOrigins config =
     config\<lparr>sc_CORS := (let c = (sc_CORS config)\<lparr>co_Enabled := enabled\<rparr>
                         in if allowOrigins \<noteq> [] then c\<lparr>co_AllowOrigins := allowOrigins\<rparr> else c)\<rparr>"
definition WithSecurityHeaders :: "bool \<Rightarrow> ServerConfig \<Rightarrow> ServerConfig" where
  "WithSecurityHeaders enabled config = config\<lparr>sc_SecurityHeaders := (sc_SecurityHeaders config)\<lparr>sh_Enabled := enabled\<rparr>\<rparr>"

subsection \<open>The server\<close>

record 'w deps =
  dp_Logger :: bool
  dp_Metrics :: "'w metrics_client option"
  dp_Tracer :: bool

datatype server_error = ErrServerAlreadyStarted | ErrServerNotStarted | ErrShutdownServer string | ErrServerFailed string

record 'w server =
  sr_config :: ServerConfig
  sr_addr :: "string option" \<comment> \<open>the address of the current \<open>http.Server\<close>, if any\<close>
  sr_mux :: "string \<rightharpoonup> 'w handler"
  sr_middleware :: "'w chain"
  sr_started :: bool
  sr_shutdownErr :: "string option"
  sr_deps :: "'w deps"
  sr_log :: "string list" \<comment> \<open>the errors logged\<close>

definition RegisterMiddleware :: "'w middleware \<Rightarrow> 'w server \<Rightarrow> 'w server" where
  "RegisterMiddleware middleware s = s\<lparr>sr_middleware := sr_middleware s @ [middleware]\<rparr>"

text \<open>A pattern that is empty or taken panics (\<open>None\<close>).\<close>

definition RegisterHandler :: "string \<Rightarrow> 'w handler \<Rightarrow> 'w server \<Rightarrow> 'w server option" where
  "RegisterHandler pattern handler s =
     (let pattern = (if sc_BasePath (sr_config s) \<noteq> [] then path_Join (sc_BasePath (sr_config s)) pattern else pattern);
          wrappedHandler = Chain_Apply (sr_middleware s) handler
      in if pattern = [] \<or> pattern \<in> dom (sr_mux s) then None
         else Some (s\<lparr>sr_mux := (sr_mux s)(pattern \<mapsto> wrappedHandler)\<rparr>))"

definition RegisterAuthMiddleware ::
  "(AuthConfig \<Rightarrow> auth_error + 'w authenticator) \<Rightarrow> 'w server \<Rightarrow> auth_error option \<times> 'w server" where
  "RegisterAuthMiddleware new_jwt s =
     (case sc_Auth (sr_config s) of
        None \<Rightarrow> (None, s)
      | Some config \<Rightarrow>
          if \<not> ha_Enabled config then (None, s)
          else case NewAuthenticator new_jwt config of
              Inl e \<Rightarrow> (Some e, s)
            | Inr None \<Rightarrow> (None, s)
            | Inr (Some auth) \<Rightarrow>
                (None, RegisterMiddleware
                   (NewAuthMiddleware auth
                      \<lparr>ao_BypassPaths = ha_BypassPaths config, ao_RequiredScopes = ha_RequiredScopes config,
                       ao_ClaimsToContext = ha_ClaimsToContext config\<rparr>) s))"

text \<open>The endpoints of the specification; encoding it as JSON (\<open>json\<close>) and the page of the UI (\<open>page\<close>) are arguments.\<close>

definition OpenAPIMiddleware :: "OpenAPIConfig \<Rightarrow> 'w middleware" where
  "OpenAPIMiddleware config next r s =
     (if \<not> oa_Enabled config \<or> (\<not> oa_ValidateRequests config \<and> \<not> oa_ValidateResponses config) then next r s else next r s)"

definition spec_handler :: "(string + string) \<Rightarrow> 'w handler" where
  "spec_handler json r s =
     (let s = set_header ''Content-Type'' ''application/json'' s
      in case json of
           Inl e \<Rightarrow> (None, http_Error ''Internal Server Error'' 500 s)
         | Inr data \<Rightarrow> (None, Write data s))"

definition ui_handler :: "(string \<Rightarrow> string) \<Rightarrow> OpenAPIConfig \<Rightarrow> 'w handler" where
  "ui_handler page config r s =
     (if ht_Path r = oa_UIPath config \<or> ht_Path r = oa_UIPath config @ ''/''
      then (None, Write (page (oa_ServePath config)) (set_header ''Content-Type'' ''text/html; charset=utf-8'' s))
      else (None, http_Error ''404 page not found'' 404 s))"

definition RegisterOpenAPIHandlers ::
  "(string + string) \<Rightarrow> (string \<Rightarrow> string) \<Rightarrow> OpenAPIConfig \<Rightarrow> 'w server \<Rightarrow> 'w server option" where
  "RegisterOpenAPIHandlers json page config s =
     (if \<not> oa_Enabled config then Some s
      else case RegisterHandler (oa_ServePath config) (spec_handler json) s of
          None \<Rightarrow> None
        | Some s \<Rightarrow>
            if oa_UIEnabled config then RegisterHandler (oa_UIPath config) (ui_handler page config) s else Some s)"

text \<open>\<open>load_spec\<close> is the outcome of reading the specification: its encoding, or an error.\<close>

definition register_openapi ::
  "(string \<Rightarrow> string + (string + string)) \<Rightarrow> (string \<Rightarrow> string) \<Rightarrow> 'w server \<Rightarrow> 'w server option" where
  "register_openapi load_spec page s =
     (case sc_OpenAPI (sr_config s) of
        None \<Rightarrow> Some s
      | Some config \<Rightarrow>
          if oa_Enabled config \<and> (oa_ValidateRequests config \<or> oa_ValidateResponses config) \<and> oa_SpecPath config \<noteq> [] \<and> dp_Logger (sr_deps s)
          then (case load_spec (oa_SpecPath config) of
                  Inr json \<Rightarrow> RegisterOpenAPIHandlers json page config (RegisterMiddleware (OpenAPIMiddleware config) s)
                | Inl e \<Rightarrow> Some (s\<lparr>sr_log := sr_log s @ [''Failed to load OpenAPI specification'']\<rparr>))
          else Some s)"

text \<open>The stages of \<open>registerDefaultMiddleware\<close>.\<close>

definition register_front :: "'w server \<Rightarrow> 'w server" where
  "register_front s =
     (let config = sr_config s;
          s = RegisterMiddleware (RecoveryMiddleware (dp_Logger (sr_deps s))) s;
          s = (if sh_Enabled (sc_SecurityHeaders config)
               then RegisterMiddleware (SecurityHeadersMiddleware (sc_SecurityHeaders config)) s else s)
      in if co_Enabled (sc_CORS config) then RegisterMiddleware (CORSMiddleware (sc_CORS config)) s else s)"

definition register_auth :: "(AuthConfig \<Rightarrow> auth_error + 'w authenticator) \<Rightarrow> 'w server \<Rightarrow> 'w server" where
  "register_auth new_jwt s =
     (if \<exists>a. sc_Auth (sr_config s) = Some a \<and> ha_Enabled a then
        (case RegisterAuthMiddleware new_jwt s of
           (Some e, s) \<Rightarrow>
             if dp_Logger (sr_deps s) then s\<lparr>sr_log := sr_log s @ [''Failed to register authentication middleware'']\<rparr> else s
         | (None, s) \<Rightarrow> s)
      else s)"

definition register_observers :: "'w server \<Rightarrow> 'w server" where
  "register_observers s =
     (let s = (if dp_Tracer (sr_deps s) then RegisterMiddleware TracingMiddleware s else s);
          s = (case dp_Metrics (sr_deps s) of Some metrics \<Rightarrow> RegisterMiddleware (MetricsMiddleware metrics) s | None \<Rightarrow> s)
      in if dp_Logger (sr_deps s) then RegisterMiddleware LoggingMiddleware s else s)"

definition registerDefaultMiddleware ::
  "(AuthConfig \<Rightarrow> auth_error + 'w authenticator) \<Rightarrow> (string \<Rightarrow> string + (string + string)) \<Rightarrow> (string \<Rightarrow> string) \<Rightarrow>
   'w server \<Rightarrow> 'w server option" where
  "registerDefaultMiddleware new_jwt load_spec page s =
     map_option register_observers (register_openapi load_spec page (register_auth new_jwt (register_front s)))"

definition NewServerWithConfig ::
  "(AuthConfig \<Rightarrow> auth_error + 'w authenticator) \<Rightarrow> (string \<Rightarrow> string + (string + string)) \<Rightarrow> (string \<Rightarrow> string) \<Rightarrow>
   ServerConfig \<Rightarrow> 'w deps \<Rightarrow> 'w server option" where
  "NewServerWithConfig new_jwt load_spec page config d =
     registerDefaultMiddleware new_jwt load_spec page
       \<lparr>sr_config = config, sr_addr = None, sr_mux = Map.empty, sr_middleware = [], sr_started = False, sr_shutdownErr = None,
        sr_deps = d, sr_log = []\<rparr>"

definition NewServer ::
  "(AuthConfig \<Rightarrow> auth_error + 'w authenticator) \<Rightarrow> (string \<Rightarrow> string + (string + string)) \<Rightarrow> (string \<Rightarrow> string) \<Rightarrow> 'w deps \<Rightarrow> 'w server option" where
  "NewServer new_jwt load_spec page d = NewServerWithConfig new_jwt load_spec page DefaultServerConfig d"

definition NewServerWithOptions ::
  "(AuthConfig \<Rightarrow> auth_error + 'w authenticator) \<Rightarrow> (string \<Rightarrow> string + (string + string)) \<Rightarrow> (string \<Rightarrow> string) \<Rightarrow> 'w deps \<Rightarrow>
   (ServerConfig \<Rightarrow> ServerConfig) list \<Rightarrow> 'w server option" where
  "NewServerWithOptions new_jwt load_spec page d options =
     NewServerWithConfig new_jwt load_spec page (fold (\<lambda>option config. option config) options DefaultServerConfig) d"

definition server_addr :: "ServerConfig \<Rightarrow> string" where
  "server_addr config = sc_Host config @ '':'' @ fmt_d (sc_Port config)"

definition Server_Start :: "'w server \<Rightarrow> server_error option \<times> 'w server" where
  "Server_Start s =
     (if sr_started s then (Some ErrServerAlreadyStarted, s)
      else (None, s\<lparr>sr_addr := Some (server_addr (sr_config s)), sr_started := True\<rparr>))"

text \<open>The goroutine that listens failed with an error other than \<open>http.ErrServerClosed\<close>.\<close>

definition serve_failed :: "string \<Rightarrow> 'w server \<Rightarrow> 'w server" where
  "serve_failed err s =
     (let s = s\<lparr>sr_shutdownErr := Some err\<rparr>
      in if dp_Logger (sr_deps s) then s\<lparr>sr_log := sr_log s @ [''HTTP server error'']\<rparr> else s)"

definition Server_Shutdown :: "string option \<Rightarrow> 'w server \<Rightarrow> server_error option \<times> 'w server" where
  "Server_Shutdown err s =
     (if \<not> sr_started s then (Some ErrServerNotStarted, s)
      else
        (let s = s\<lparr>sr_started := False\<rparr>
         in case err of
              Some e \<Rightarrow> (Some (ErrShutdownServer e), s)
            | None \<Rightarrow> (case sr_shutdownErr s of Some e \<Rightarrow> (Some (ErrServerFailed e), s) | None \<Rightarrow> (None, s))))"

definition Address :: "'w server \<Rightarrow> string" where
  "Address s =
     (if \<not> sr_started s then server_addr (sr_config s)
      else case sr_addr s of None \<Rightarrow> server_addr (sr_config s) | Some a \<Rightarrow> a)"

definition IsStarted :: "'w server \<Rightarrow> bool" where
  "IsStarted s = sr_started s"

definition Server_Config :: "'w server \<Rightarrow> ServerConfig" where
  "Server_Config s = sr_config s"

end
