(* ===== verification/HttpProps.thy ===== *)
theory HttpProps
  imports HttpServer
begin

text \<open>
  The properties of the HTTP server: the order of the middleware, that an enabled authentication guards every handler - unless creating it
  failed -, that panics do not escape, and the life cycle.
\<close>

named_theorems mw_defs

declare RecoveryMiddleware_def [mw_defs] SecurityHeadersMiddleware_def [mw_defs] CORSMiddleware_def [mw_defs] Let_def [mw_defs]

subsection \<open>Chains\<close>

lemma apply_from_foldr: "n \<le> length mc \<Longrightarrow> apply_from n mc handler = foldr (\<lambda>m h. m h) (take n mc) handler"
  by (induction n arbitrary: handler) (auto simp: take_Suc_conv_app_nth)

text \<open>The loop over the indices nests the middleware in the order of registration, the first outermost.\<close>

lemma Chain_Apply_foldr: "Chain_Apply mc handler = foldr (\<lambda>m h. m h) mc handler"
  by (simp add: Chain_Apply_def apply_from_foldr)

lemma Chain_Apply_simps [simp]:
  "Chain_Apply [] h = h" "Chain_Apply (m # ms) h = m (Chain_Apply ms h)" "Chain_Apply (xs @ ys) h = Chain_Apply xs (Chain_Apply ys h)"
  by (simp_all add: Chain_Apply_foldr)

subsection \<open>What a server registers\<close>

definition front_chain :: "ServerConfig \<Rightarrow> 'w deps \<Rightarrow> 'w chain" where
  "front_chain config d =
     [RecoveryMiddleware (dp_Logger d)] @
     (if sh_Enabled (sc_SecurityHeaders config) then [SecurityHeadersMiddleware (sc_SecurityHeaders config)] else []) @
     (if co_Enabled (sc_CORS config) then [CORSMiddleware (sc_CORS config)] else [])"

definition auth_chain :: "(AuthConfig \<Rightarrow> auth_error + 'w authenticator) \<Rightarrow> ServerConfig \<Rightarrow> 'w chain" where
  "auth_chain new_jwt config =
     (case sc_Auth config of
        None \<Rightarrow> []
      | Some a \<Rightarrow>
          if \<not> ha_Enabled a then []
          else case new_jwt (security_config a) of
              Inl e \<Rightarrow> []
            | Inr auth \<Rightarrow>
                [NewAuthMiddleware auth \<lparr>ao_BypassPaths = ha_BypassPaths a, ao_RequiredScopes = ha_RequiredScopes a,
                                         ao_ClaimsToContext = ha_ClaimsToContext a\<rparr>])"

definition openapi_chain :: "(string \<Rightarrow> string + (string + string)) \<Rightarrow> ServerConfig \<Rightarrow> 'w deps \<Rightarrow> 'w chain" where
  "openapi_chain load_spec config d =
     (case sc_OpenAPI config of
        None \<Rightarrow> []
      | Some c \<Rightarrow>
          if oa_Enabled c \<and> (oa_ValidateRequests c \<or> oa_ValidateResponses c) \<and> oa_SpecPath c \<noteq> [] \<and> dp_Logger d
          then (case load_spec (oa_SpecPath c) of Inr json \<Rightarrow> [OpenAPIMiddleware c] | Inl e \<Rightarrow> [])
          else [])"

definition observe_chain :: "'w deps \<Rightarrow> 'w chain" where
  "observe_chain d =
     (if dp_Tracer d then [TracingMiddleware] else []) @ (case dp_Metrics d of Some metrics \<Rightarrow> [MetricsMiddleware metrics] | None \<Rightarrow> []) @
     (if dp_Logger d then [LoggingMiddleware] else [])"

lemma RegisterHandler_keeps:
  "RegisterHandler p h s = Some s' \<Longrightarrow> sr_middleware s' = sr_middleware s \<and> sr_config s' = sr_config s \<and> sr_deps s' = sr_deps s"
  by (auto simp: RegisterHandler_def Let_def split: if_splits)

lemma RegisterOpenAPIHandlers_keeps:
  "RegisterOpenAPIHandlers json page c s = Some s' \<Longrightarrow> sr_middleware s' = sr_middleware s \<and> sr_deps s' = sr_deps s"
  by (auto simp: RegisterOpenAPIHandlers_def dest!: RegisterHandler_keeps split: if_splits option.splits)

lemma register_openapi_chain:
  assumes "register_openapi load_spec page s = Some s'"
  shows "sr_middleware s' = sr_middleware s @ openapi_chain load_spec (sr_config s) (sr_deps s) \<and> sr_deps s' = sr_deps s"
  using assms
  by (auto simp: register_openapi_def openapi_chain_def RegisterMiddleware_def dest!: RegisterOpenAPIHandlers_keeps
      split: option.splits if_splits sum.splits)

lemma RegisterAuthMiddleware_chain:
  "sr_middleware (snd (RegisterAuthMiddleware new_jwt s)) = sr_middleware s @ auth_chain new_jwt (sr_config s)"
  "sr_config (snd (RegisterAuthMiddleware new_jwt s)) = sr_config s" "sr_deps (snd (RegisterAuthMiddleware new_jwt s)) = sr_deps s"
  by (auto simp: RegisterAuthMiddleware_def auth_chain_def NewAuthenticator_def RegisterMiddleware_def split: option.splits sum.splits)

lemma auth_chain_off: "\<not> (\<exists>a. sc_Auth config = Some a \<and> ha_Enabled a) \<Longrightarrow> auth_chain new_jwt config = []"
  by (auto simp: auth_chain_def split: option.splits)

lemma register_front_chain:
  "sr_middleware (register_front s) = sr_middleware s @ front_chain (sr_config s) (sr_deps s)"
  "sr_config (register_front s) = sr_config s" "sr_deps (register_front s) = sr_deps s"
  by (simp_all add: register_front_def front_chain_def RegisterMiddleware_def Let_def)

lemma register_auth_chain:
  "sr_middleware (register_auth new_jwt s) = sr_middleware s @ auth_chain new_jwt (sr_config s)"
  "sr_config (register_auth new_jwt s) = sr_config s" "sr_deps (register_auth new_jwt s) = sr_deps s"
  using RegisterAuthMiddleware_chain [of new_jwt s] auth_chain_off [of "sr_config s" new_jwt]
  by (auto simp: register_auth_def split: prod.splits option.splits)

lemma register_observers_chain: "sr_middleware (register_observers s) = sr_middleware s @ observe_chain (sr_deps s)"
  by (simp add: register_observers_def observe_chain_def RegisterMiddleware_def Let_def split: option.split)

text \<open>The whole chain of a new server.\<close>

lemma server_chain:
  assumes "NewServerWithConfig new_jwt load_spec page config d = Some s"
  shows "sr_middleware s = front_chain config d @ auth_chain new_jwt config @ openapi_chain load_spec config d @ observe_chain d"
  using assms unfolding NewServerWithConfig_def registerDefaultMiddleware_def
  by (auto simp: register_observers_chain register_auth_chain register_front_chain dest!: register_openapi_chain)

subsection \<open>Authentication\<close>

text \<open>A request whose token is missing, rejected or lacks a scope, whatever the state of the keys.\<close>

definition rejected :: "'w authenticator \<Rightarrow> AuthMiddlewareOptions \<Rightarrow> http_request \<Rightarrow> bool" where
  "rejected auth opts r \<longleftrightarrow>
     \<not> bypassed opts r \<and>
     (case http_extractToken r ''header:Authorization'' ''Bearer'' of
        Inl e \<Rightarrow> True
      | Inr t \<Rightarrow> \<forall>w. case fst (at_validate auth t w) of Inl e \<Rightarrow> True | Inr claims \<Rightarrow> scope_error opts claims \<noteq> None)"

definition refuses :: "http_request \<Rightarrow> 'w handler \<Rightarrow> 'w handler \<Rightarrow> int set \<Rightarrow> bool" where
  "refuses r h h' codes \<longleftrightarrow>
     (\<forall>s. h r s = h' r s \<and> fst (h r s) = None \<and> (hs_code s = None \<longrightarrow> (\<exists>c \<in> codes. hs_code (snd (h r s)) = Some c)))"

lemma http_Error_code [simp]: "hs_code s = None \<Longrightarrow> hs_code (http_Error msg c s) = Some c"
  by (simp add: http_Error_def Write_def WriteHeader_def set_header_def)

lemma http_Error_answer:
  "hs_code (http_Error msg c s) = Some (case hs_code s of None \<Rightarrow> c | Some c' \<Rightarrow> c')" "hs_body (http_Error msg c s) = hs_body s @ msg @ [CHR 0x0A]"
  by (simp_all add: http_Error_def Write_def WriteHeader_def set_header_def split: option.split)

lemma hs_code_simps [simp]:
  "hs_code (set_header n v s) = hs_code s" "hs_code (set_if b n v s) = hs_code s"
  "hs_code (security_headers c s) = hs_code s" "hs_code (cors_headers c' s) = hs_code s" "hs_code (report e s) = hs_code s"
  "hs_body (set_header n v s) = hs_body s" "hs_body (set_if b n v s) = hs_body s"
  "hs_body (security_headers c s) = hs_body s" "hs_body (cors_headers c' s) = hs_body s" "hs_body (report e s) = hs_body s"
  by (simp_all add: set_header_def set_if_def security_headers_def cors_headers_def report_def)

lemma NewAuthMiddleware_refuses:
  assumes "rejected auth opts r"
  shows "refuses r (NewAuthMiddleware auth opts h) (NewAuthMiddleware auth opts h') {401, 403}"
proof -
  have b: "\<not> bypassed opts r" using assms by (simp add: rejected_def)
  show ?thesis
  proof (cases "http_extractToken r ''header:Authorization'' ''Bearer''")
    case (Inl e)
    then show ?thesis using b by (simp add: refuses_def NewAuthMiddleware_def)
  next
    case (Inr t)
    have "NewAuthMiddleware auth opts h r s = NewAuthMiddleware auth opts h' r s \<and> fst (NewAuthMiddleware auth opts h r s) = None \<and>
      (hs_code s = None \<longrightarrow> (\<exists>c \<in> {401, 403}. hs_code (snd (NewAuthMiddleware auth opts h r s)) = Some c))" for s
    proof (cases "at_validate auth t (hs_world s)")
      case (Pair v w)
      have "case v of Inl e \<Rightarrow> True | Inr claims \<Rightarrow> scope_error opts claims \<noteq> None"
        using assms Inr Pair unfolding rejected_def by (metis fst_conv sum.simps(6))
      then show ?thesis using b Inr Pair by (cases v) (auto simp: NewAuthMiddleware_def Let_def)
    qed
    then show ?thesis unfolding refuses_def by blast
  qed
qed

lemma front_chain_refuses:
  assumes "refuses r h h' codes"
  shows "refuses r (Chain_Apply (front_chain config d) h) (Chain_Apply (front_chain config d) h') (insert 204 codes)"
proof -
  have cors: "refuses r (CORSMiddleware c h) (CORSMiddleware c h') (insert 204 codes)" for c
  proof -
    have e: "h' r s = h r s" "fst (h r s) = None" "hs_code s = None \<Longrightarrow> \<exists>c \<in> codes. hs_code (snd (h r s)) = Some c" for s
      using assms unfolding refuses_def by metis+
    show ?thesis using e(3) by (auto simp: refuses_def mw_defs WriteHeader_def e(1,2))
  qed
  have weak: "refuses r h h' (insert 204 codes)" using assms unfolding refuses_def by blast
  have sec: "refuses r (SecurityHeadersMiddleware c f) (SecurityHeadersMiddleware c f') C" if "refuses r f f' C" for c f f' C
    using that unfolding refuses_def SecurityHeadersMiddleware_def by (metis hs_code_simps(3))
  have rec: "refuses r (RecoveryMiddleware b f) (RecoveryMiddleware b f') C" if "refuses r f f' C" for b f f' C
    unfolding refuses_def
  proof
    fix s
    have e: "f r s = f' r s" "fst (f r s) = None" "hs_code s = None \<Longrightarrow> \<exists>c \<in> C. hs_code (snd (f r s)) = Some c"
      using that unfolding refuses_def by blast+
    obtain s' where s': "f r s = (None, s')" using e(2) by (metis prod.collapse)
    then have "f' r s = (None, s')" using e(1) by simp
    then show "RecoveryMiddleware b f r s = RecoveryMiddleware b f' r s \<and> fst (RecoveryMiddleware b f r s) = None \<and>
      (hs_code s = None \<longrightarrow> (\<exists>c\<in>C. hs_code (snd (RecoveryMiddleware b f r s)) = Some c))"
      using s' e(3) by (simp add: RecoveryMiddleware_def)
  qed
  show ?thesis by (auto simp: front_chain_def intro!: rec sec cors weak)
qed

text \<open>
  C18: when authentication is enabled and its authenticator was created, no handler of the server sees a request that is not
  authenticated: whatever handler is registered, a request to a path that is not bypassed and whose token is missing, rejected or without a required scope
  gets the same answer, with status 401 or 403, or 204 for a preflight request.
\<close>

theorem http_server_authenticates:
  assumes "NewServerWithConfig new_jwt load_spec page config d = Some s"
    and "sc_Auth config = Some a" and "ha_Enabled a" and "new_jwt (security_config a) = Inr auth"
    and "rejected auth \<lparr>ao_BypassPaths = ha_BypassPaths a, ao_RequiredScopes = ha_RequiredScopes a, ao_ClaimsToContext = ha_ClaimsToContext a\<rparr> r"
  shows "refuses r (Chain_Apply (sr_middleware s) h) (Chain_Apply (sr_middleware s) h') {204, 401, 403}"
proof -
  have "auth_chain new_jwt config = [NewAuthMiddleware auth
    \<lparr>ao_BypassPaths = ha_BypassPaths a, ao_RequiredScopes = ha_RequiredScopes a, ao_ClaimsToContext = ha_ClaimsToContext a\<rparr>]"
    using assms(2-4) by (simp add: auth_chain_def)
  then show ?thesis
    using front_chain_refuses [OF NewAuthMiddleware_refuses [OF assms(5)]] by (simp add: server_chain [OF assms(1)])
qed

definition demo_server_config :: ServerConfig where
  "demo_server_config = (WithAuth True ''https://idp/jwks'' DefaultServerConfig)\<lparr>sc_OpenAPI := None\<rparr>"

definition no_tokens :: "unit authenticator" where
  "no_tokens = \<lparr>at_validate = (\<lambda>t w. (Inl ErrInvalidToken, w)), at_config = DefaultAuthConfig, at_error_text = (\<lambda>_. [])\<rparr>"

definition plain_request :: "string \<Rightarrow> http_request" where
  "plain_request path =
     \<lparr>ht_Method = ''GET'', ht_Path = path, ht_Header = (\<lambda>_. []), ht_Query = (\<lambda>_. []), ht_Cookie = Map.empty,
      ht_Context = \<lparr>cx_claims = None, cx_roles = None, cx_permissions = None, cx_values = Map.empty\<rparr>\<rparr>"

abbreviation "all_deps \<equiv> \<lparr>dp_Logger = True, dp_Metrics = Some NoOpMetrics, dp_Tracer = True\<rparr>"

lemma demo_server: "\<exists>s. NewServerWithConfig new_jwt load_spec page demo_server_config d = Some s"
  by (simp add: NewServerWithConfig_def registerDefaultMiddleware_def register_openapi_def register_auth_chain register_front_chain
      demo_server_config_def on_auth_def)

theorem http_server_authenticates_witness:
  "\<exists>s. NewServerWithConfig (\<lambda>_. Inr no_tokens) (\<lambda>_. Inl []) (\<lambda>_. []) demo_server_config all_deps = Some s \<and>
     refuses (plain_request ''/orders'') (Chain_Apply (sr_middleware s) (\<lambda>r w. (None, Write ''secret'' w)))
       (Chain_Apply (sr_middleware s) (\<lambda>r w. (None, w))) {204, 401, 403}"
proof -
  obtain s where s: "NewServerWithConfig (\<lambda>_. Inr no_tokens) (\<lambda>_. Inl []) (\<lambda>_. []) demo_server_config all_deps = Some s"
    using demo_server by blast
  let ?a = "http_DefaultAuthConfig\<lparr>ha_Enabled := True, ha_JWKSEndpoint := ''https://idp/jwks''\<rparr>"
  have a: "sc_Auth demo_server_config = Some ?a"
    by (simp add: demo_server_config_def WithAuth_def on_auth_def DefaultServerConfig_def)
  have split: "strings_Split ''header:Authorization'' '':'' = [''header'', ''Authorization'']" by code_simp
  have "http_extractToken (plain_request ''/orders'') ''header:Authorization'' ''Bearer'' = Inl ErrNoToken"
    by (simp add: http_extractToken_def plain_request_def split)
  moreover have "\<not> bypassed \<lparr>ao_BypassPaths = ha_BypassPaths ?a, ao_RequiredScopes = ha_RequiredScopes ?a, ao_ClaimsToContext = ha_ClaimsToContext ?a\<rparr>
      (plain_request ''/orders'')"
    by (simp add: bypassed_def http_DefaultAuthConfig_def plain_request_def strings_HasPrefix_def)
  ultimately have "rejected no_tokens \<lparr>ao_BypassPaths = ha_BypassPaths ?a, ao_RequiredScopes = ha_RequiredScopes ?a,
      ao_ClaimsToContext = ha_ClaimsToContext ?a\<rparr> (plain_request ''/orders'')"
    by (simp add: rejected_def)
  from http_server_authenticates [OF s a _ refl this] s show ?thesis by (intro exI [of _ s]) simp
qed

text \<open>
  The server fails open: when the authenticator cannot be created - say, the key set cannot be fetched when the service
  starts - the chain of the server is that of a server without authentication.
\<close>

theorem http_server_fails_open:
  assumes "NewServerWithConfig (\<lambda>_. Inl e) load_spec page config d = Some s"
    and "NewServerWithConfig new_jwt load_spec page (config\<lparr>sc_Auth := None\<rparr>) d = Some s'"
  shows "sr_middleware s = sr_middleware s'"
proof -
  have "auth_chain (\<lambda>_. Inl e) config = []" "auth_chain new_jwt (config\<lparr>sc_Auth := None\<rparr>) = []"
    by (auto simp: auth_chain_def split: option.splits)
  then show ?thesis
    by (simp add: server_chain [OF assms(1)] server_chain [OF assms(2)] front_chain_def openapi_chain_def)
qed

theorem http_server_fails_open_witness:
  "\<exists>s s'. NewServerWithConfig (\<lambda>_. Inl (ErrJWKSFetchFailed ''timeout'')) (\<lambda>_. Inl []) (\<lambda>_. []) demo_server_config all_deps = Some (s :: unit server) \<and>
     NewServerWithConfig (\<lambda>_. Inr no_tokens) (\<lambda>_. Inl []) (\<lambda>_. []) (demo_server_config\<lparr>sc_Auth := None\<rparr>) all_deps = Some s' \<and>
     sr_middleware s = sr_middleware s'"
proof -
  obtain s :: "unit server" where
    s: "NewServerWithConfig (\<lambda>_. Inl (ErrJWKSFetchFailed ''timeout'')) (\<lambda>_. Inl []) (\<lambda>_. []) demo_server_config all_deps = Some s"
    using demo_server by blast
  obtain s' where s': "NewServerWithConfig (\<lambda>_. Inr no_tokens) (\<lambda>_. Inl []) (\<lambda>_. []) (demo_server_config\<lparr>sc_Auth := None\<rparr>) all_deps = Some s'"
    by (simp add: NewServerWithConfig_def registerDefaultMiddleware_def register_openapi_def register_auth_chain register_front_chain
        demo_server_config_def on_auth_def)
  show ?thesis using http_server_fails_open [OF s s'] s s' by blast
qed

subsection \<open>Panics\<close>

text \<open>
  C19: with a logger no panic of a handler or middleware escapes the server: the client gets the status that was sent before the panic, 500 when none was, and the
  text of the error after what was written before; without a logger the recovery panics itself.
\<close>

theorem panics_recovered:
  assumes "NewServerWithConfig new_jwt load_spec page config d = Some s"
  shows "(dp_Logger d \<longrightarrow> fst (Chain_Apply (sr_middleware s) h r w) = None) \<and>
    (\<forall>p w'. Chain_Apply (tl (sr_middleware s)) h r w = (Some p, w') \<longrightarrow>
      (if dp_Logger d then
         hs_code (snd (Chain_Apply (sr_middleware s) h r w)) = Some (case hs_code w' of None \<Rightarrow> 500 | Some c \<Rightarrow> c) \<and>
         hs_body (snd (Chain_Apply (sr_middleware s) h r w)) = hs_body w' @ ''Internal Server Error'' @ [CHR 0x0A]
       else fst (Chain_Apply (sr_middleware s) h r w) \<noteq> None))"
proof -
  obtain ms where ms: "sr_middleware s = RecoveryMiddleware (dp_Logger d) # ms"
    by (simp add: server_chain [OF assms] front_chain_def)
  show ?thesis unfolding ms by (auto simp: RecoveryMiddleware_def http_Error_answer split: prod.splits option.splits)
qed

lemma demo_panics:
  assumes "NewServerWithConfig (\<lambda>_. Inr no_tokens) (\<lambda>_. Inl []) (\<lambda>_. []) (DefaultServerConfig\<lparr>sc_Auth := None, sc_OpenAPI := None\<rparr>) all_deps = Some s"
    and "hs_code w = None"
  shows "\<exists>w'. Chain_Apply (tl (sr_middleware s)) (\<lambda>r w. (Some ''boom'', w)) (plain_request ''/'') w = (Some ''boom'', w') \<and> hs_code w' = None"
  using assms(2)
  by (auto simp: server_chain [OF assms(1)] front_chain_def auth_chain_def openapi_chain_def observe_chain_def plain_request_def mw_defs
      LoggingMiddleware_def MetricsMiddleware_def TracingMiddleware_def wrapped_def report_def split: option.split)

theorem panics_recovered_witness:
  "\<exists>s. NewServerWithConfig (\<lambda>_. Inr no_tokens) (\<lambda>_. Inl []) (\<lambda>_. []) (DefaultServerConfig\<lparr>sc_Auth := None, sc_OpenAPI := None\<rparr>) all_deps = Some s \<and>
     (\<forall>w. hs_code w = None \<longrightarrow>
        fst (Chain_Apply (sr_middleware s) (\<lambda>r w. (Some ''boom'', w)) (plain_request ''/'') w) = None \<and>
        hs_code (snd (Chain_Apply (sr_middleware s) (\<lambda>r w. (Some ''boom'', w)) (plain_request ''/'') w)) = Some 500)"
proof -
  obtain s where s: "NewServerWithConfig (\<lambda>_. Inr no_tokens) (\<lambda>_. Inl []) (\<lambda>_. []) (DefaultServerConfig\<lparr>sc_Auth := None, sc_OpenAPI := None\<rparr>) all_deps = Some s"
    by (simp add: NewServerWithConfig_def registerDefaultMiddleware_def register_openapi_def register_auth_chain register_front_chain)
  have "dp_Logger all_deps" by simp
  then have "fst (Chain_Apply (sr_middleware s) (\<lambda>r w. (Some ''boom'', w)) (plain_request ''/'') w) = None \<and>
      hs_code (snd (Chain_Apply (sr_middleware s) (\<lambda>r w. (Some ''boom'', w)) (plain_request ''/'') w)) = Some 500" if "hs_code w = None" for w
    using panics_recovered [OF s, of "\<lambda>r w. (Some ''boom'', w)" "plain_request ''/''" w] demo_panics [OF s that] by auto
  then show ?thesis using s by blast
qed

subsection \<open>The life cycle\<close>

text \<open>An error of an earlier run is returned by every later shutdown.\<close>

theorem stale_server_error:
  assumes "\<not> sr_started s"
  shows "fst (Server_Shutdown None (snd (Server_Start (snd (Server_Shutdown x (serve_failed e (snd (Server_Start s)))))))) = Some (ErrServerFailed e)"
  using assms by (simp add: Server_Shutdown_def Server_Start_def serve_failed_def Let_def split: option.split)

text \<open>With a base path a pattern loses its trailing slash, which makes it match a subtree.\<close>

theorem base_path_cuts_slash: "path_Join ''/v1'' ''/api/'' = ''/v1/api''"
  by code_simp

end
