(* ===== verification/GrpcServer.thy ===== *)
theory GrpcServer
  imports HttpMiddleware
begin

text \<open>
  Package grpc: the interceptors (\<open>interceptors.go\<close> and the server side of \<open>tracing.go\<close>), the configuration (\<open>config.go\<close>) and the
  server (\<open>server.go\<close>).  The handler of a call acts on the context of the call, the events reported so far and a world \<open>'w\<close>, and answers, fails with
  a status or panics; the request or stream and the method are fixed.  Interceptors of unary and streaming calls differ in what
  they report.
\<close>

subsection \<open>Calls\<close>

record rpc_info =
  ri_FullMethod :: string
  ri_IsClientStream :: bool
  ri_IsServerStream :: bool
  ri_metadata :: "(string \<Rightarrow> string list) option"

datatype 'r rpc = RpcOk 'r | RpcErr int string | RpcPanic string

datatype rpc_event =
    RpcStarted string
  | RpcCompleted string
  | RpcFailed string int
  | RpcPanicLogged string string
  | RpcSpanEnded string string string "(int \<times> string) option" \<comment> \<open>span, service, method, and the error\<close>
  | RpcSpanStatus string "string option"

record 'w gs =
  gs_events :: "rpc_event list"
  gs_world :: 'w

type_synonym ('r, 'w) rpc_handler = "auth_context \<Rightarrow> 'w gs \<Rightarrow> 'r rpc \<times> 'w gs"
type_synonym ('r, 'w) interceptor = "rpc_info \<Rightarrow> ('r, 'w) rpc_handler \<Rightarrow> ('r, 'w) rpc_handler"

definition OK :: int where "OK = 0"
definition PermissionDenied :: int where "PermissionDenied = 7"
definition Internal :: int where "Internal = 13"
definition Unauthenticated :: int where "Unauthenticated = 16"

definition emit :: "rpc_event \<Rightarrow> 'w gs \<Rightarrow> 'w gs" where
  "emit e s = s\<lparr>gs_events := gs_events s @ [e]\<rparr>"

text \<open>Interceptors are chained with the first one outermost.\<close>

definition chain_interceptors :: "('r, 'w) interceptor list \<Rightarrow> ('r, 'w) interceptor" where
  "chain_interceptors is info handler = foldr (\<lambda>i h. i info h) is handler"

subsection \<open>Interceptors\<close>

definition log_call :: "rpc_info \<Rightarrow> ('r, 'w) rpc_handler \<Rightarrow> ('r, 'w) rpc_handler" where
  "log_call info handler ctx s =
     (case handler ctx (emit (RpcStarted (ri_FullMethod info)) s) of
        (RpcErr c m, s) \<Rightarrow> (RpcErr c m, emit (RpcFailed (ri_FullMethod info) c) s)
      | (RpcOk r, s) \<Rightarrow> (RpcOk r, emit (RpcCompleted (ri_FullMethod info)) s)
      | (RpcPanic p, s) \<Rightarrow> (RpcPanic p, s))"

definition LoggingUnaryServerInterceptor :: "('r, 'w) interceptor" where
  "LoggingUnaryServerInterceptor = log_call"

definition LoggingStreamServerInterceptor :: "('r, 'w) interceptor" where
  "LoggingStreamServerInterceptor = log_call"

fun rpc_code :: "'r rpc \<Rightarrow> int" where
  "rpc_code (RpcErr c m) = c"
| "rpc_code _ = OK"

definition code_text :: "int \<Rightarrow> string" where
  "code_text c =
     (let names = [''OK'', ''Canceled'', ''Unknown'', ''InvalidArgument'', ''DeadlineExceeded'', ''NotFound'', ''AlreadyExists'', ''PermissionDenied'',
        ''ResourceExhausted'', ''FailedPrecondition'', ''Aborted'', ''OutOfRange'', ''Unimplemented'', ''Internal'', ''Unavailable'', ''DataLoss'', ''Unauthenticated'']
      in if 0 \<le> c \<and> c < 17 then names ! nat c else ''Code('' @ fmt_d c @ '')'')"

text \<open>A call between a counter and a histogram, under the labels of the call and its status.\<close>

definition metrics_call ::
  "'w recorder \<Rightarrow> 'w recorder \<Rightarrow> (rpc_info \<Rightarrow> int \<Rightarrow> string \<rightharpoonup> string) \<Rightarrow> rpc_info \<Rightarrow> ('r, 'w) rpc_handler \<Rightarrow> ('r, 'w) rpc_handler" where
  "metrics_call counter duration labels info handler ctx s =
     (case handler ctx s of
        (RpcPanic p, s) \<Rightarrow> (RpcPanic p, s)
      | (r, s) \<Rightarrow>
          (case counter (labels info (rpc_code r)) (gs_world s) of
             None \<Rightarrow> (RpcPanic ''inconsistent label cardinality'', s)
           | Some w \<Rightarrow>
               (case duration (labels info (rpc_code r)) w of
                  None \<Rightarrow> (RpcPanic ''inconsistent label cardinality'', s\<lparr>gs_world := w\<rparr>)
                | Some w \<Rightarrow> (r, s\<lparr>gs_world := w\<rparr>))))"

text \<open>The instruments are asked for when the interceptor is made; \<open>None\<close> is a panic.\<close>

definition metrics_interceptor ::
  "('w \<Rightarrow> ('w recorder \<times> 'w) option) \<Rightarrow> ('w \<Rightarrow> ('w recorder \<times> 'w) option) \<Rightarrow> (rpc_info \<Rightarrow> int \<Rightarrow> string \<rightharpoonup> string) \<Rightarrow> 'w \<Rightarrow> (('r, 'w) interceptor \<times> 'w) option" where
  "metrics_interceptor ask_counter ask_duration labels w =
     (case ask_counter w of
        None \<Rightarrow> None
      | Some (counter, w) \<Rightarrow>
          (case ask_duration w of None \<Rightarrow> None | Some (duration, w) \<Rightarrow> Some (metrics_call counter duration labels, w)))"

definition unary_labels :: "rpc_info \<Rightarrow> int \<Rightarrow> string \<rightharpoonup> string" where
  "unary_labels info code = [''method'' \<mapsto> ri_FullMethod info, ''status'' \<mapsto> code_text code]"

definition MetricsUnaryServerInterceptor :: "'w metrics_client \<Rightarrow> 'w \<Rightarrow> (('r, 'w) interceptor \<times> 'w) option" where
  "MetricsUnaryServerInterceptor metrics =
     metrics_interceptor (mc_Counter metrics ''grpc_server_requests_total'' ''Total number of gRPC requests received'' [''method'', ''status''])
       (mc_Histogram metrics ''grpc_server_request_duration_seconds'' ''Duration of gRPC requests in seconds'' duration_buckets [''method'', ''status''])
       unary_labels"

definition stream_type :: "rpc_info \<Rightarrow> string" where
  "stream_type info =
     (if ri_IsClientStream info \<and> ri_IsServerStream info then ''bidi''
      else if ri_IsClientStream info then ''client''
      else if ri_IsServerStream info then ''server''
      else ''unary'')"

definition stream_labels :: "rpc_info \<Rightarrow> int \<Rightarrow> string \<rightharpoonup> string" where
  "stream_labels info code = (unary_labels info code)(''stream_type'' \<mapsto> stream_type info)"

definition MetricsStreamServerInterceptor :: "'w metrics_client \<Rightarrow> 'w \<Rightarrow> (('r, 'w) interceptor \<times> 'w) option" where
  "MetricsStreamServerInterceptor metrics =
     metrics_interceptor
       (mc_Counter metrics ''grpc_server_streams_total'' ''Total number of gRPC streams started'' [''method'', ''status'', ''stream_type''])
       (mc_Histogram metrics ''grpc_server_stream_duration_seconds'' ''Duration of gRPC streams in seconds'' duration_buckets
         [''method'', ''status'', ''stream_type''])
       stream_labels"

definition recover_call :: "rpc_info \<Rightarrow> ('r, 'w) rpc_handler \<Rightarrow> ('r, 'w) rpc_handler" where
  "recover_call info handler ctx s =
     (case handler ctx s of
        (RpcPanic p, s) \<Rightarrow> (RpcErr Internal ''Internal server error'', emit (RpcPanicLogged (ri_FullMethod info) p) s)
      | (r, s) \<Rightarrow> (r, s))"

definition RecoveryUnaryServerInterceptor :: "('r, 'w) interceptor" where
  "RecoveryUnaryServerInterceptor = recover_call"

definition RecoveryStreamServerInterceptor :: "('r, 'w) interceptor" where
  "RecoveryStreamServerInterceptor = recover_call"

definition rpc_bypassed :: "string list \<Rightarrow> string \<Rightarrow> bool" where
  "rpc_bypassed bypassPaths fullMethod =
     list_ex (\<lambda>path. fullMethod = path \<or>
       (path \<noteq> ''/'' \<and> length path \<le> length fullMethod \<and> take (length path) fullMethod = path)) bypassPaths"

text \<open>The token of the metadata, or the message of the error.\<close>

definition rpc_token :: "(string \<Rightarrow> string list) option \<Rightarrow> string + string" where
  "rpc_token metadata =
     (case metadata of
        None \<Rightarrow> Inl ''Missing metadata''
      | Some md \<Rightarrow>
          (case md ''authorization'' of
             [] \<Rightarrow> Inl ''Missing authorization header''
           | token # _ \<Rightarrow>
               if length token < 8 \<or> take 7 token \<noteq> ''Bearer '' then Inl ''Invalid authorization format''
               else Inr (drop 7 token)))"

definition with_claims :: "Claims \<Rightarrow> auth_context \<Rightarrow> auth_context" where
  "with_claims claims ctx =
     ctx\<lparr>cx_claims := Some claims,
         cx_values := (\<lambda>key. if strings_HasPrefix key ''auth_claim_'' \<and> cl_Custom claims (strings_TrimPrefix key ''auth_claim_'') \<noteq> None
                             then cl_Custom claims (strings_TrimPrefix key ''auth_claim_'') else cx_values ctx key)\<rparr>"

definition AuthUnaryServerInterceptor :: "'w authenticator \<Rightarrow> string list \<Rightarrow> ('r, 'w) interceptor" where
  "AuthUnaryServerInterceptor authenticator bypassPaths info handler ctx s =
     (if rpc_bypassed bypassPaths (ri_FullMethod info) then handler ctx s
      else case rpc_token (ri_metadata info) of
          Inl msg \<Rightarrow> (RpcErr Unauthenticated msg, s)
        | Inr token \<Rightarrow>
            (case at_validate authenticator token (gs_world s) of
               (Inl e, w) \<Rightarrow> (RpcErr Unauthenticated (''Invalid token: '' @ at_error_text authenticator e), s\<lparr>gs_world := w\<rparr>)
             | (Inr claims, w) \<Rightarrow> handler (with_claims claims ctx) (s\<lparr>gs_world := w\<rparr>)))"

definition AuthStreamServerInterceptor :: "'w authenticator \<Rightarrow> string list \<Rightarrow> ('r, 'w) interceptor" where
  "AuthStreamServerInterceptor authenticator bypassPaths info handler ctx s =
     AuthUnaryServerInterceptor authenticator bypassPaths info handler ctx s"

definition RequireScopeUnaryInterceptor :: "string \<Rightarrow> ('r, 'w) interceptor" where
  "RequireScopeUnaryInterceptor scope info handler ctx s =
     (case GetClaimsFromContext ctx of
        None \<Rightarrow> (RpcErr Unauthenticated ''No authentication claims found'', s)
      | Some claims \<Rightarrow>
          (case claim_scopes claims of
             None \<Rightarrow> (RpcErr PermissionDenied ''No scopes found in token'', s)
           | Some scopes \<Rightarrow>
               if \<not> ParseScopeString scopes scope then (RpcErr PermissionDenied (''Missing required scope: '' @ scope), s)
               else handler ctx s))"

definition RequireScopeStreamInterceptor :: "string \<Rightarrow> ('r, 'w) interceptor" where
  "RequireScopeStreamInterceptor scope info handler ctx s = RequireScopeUnaryInterceptor scope info handler ctx s"

subsection \<open>Tracing\<close>

text \<open>The position of the first slash after the first byte; an empty method panics (\<open>None\<close>).\<close>

definition slash_at :: "string \<Rightarrow> nat" where
  "slash_at m = (let n = length (takeWhile (\<lambda>c. c \<noteq> CHR ''/'') m) in if n = length m then 0 else n)"

definition extractService :: "string \<Rightarrow> string option" where
  "extractService fullMethod =
     (if fullMethod = [] then None
      else let m = (if hd fullMethod = CHR ''/'' then tl fullMethod else fullMethod);
               pos = slash_at m
           in Some (if pos = 0 then [] else take pos m))"

definition extractMethod :: "string \<Rightarrow> string option" where
  "extractMethod fullMethod =
     (if fullMethod = [] then None
      else let m = (if hd fullMethod = CHR ''/'' then tl fullMethod else fullMethod);
               pos = slash_at m
           in Some (if pos = 0 \<or> pos = length m - 1 then m else drop (pos + 1) m))"

definition trace_call :: "rpc_info \<Rightarrow> ('r, 'w) rpc_handler \<Rightarrow> ('r, 'w) rpc_handler" where
  "trace_call info handler ctx s =
     (case (extractService (ri_FullMethod info), extractMethod (ri_FullMethod info)) of
        (Some service, Some method) \<Rightarrow>
          (case handler ctx s of
             (RpcErr c m, s) \<Rightarrow> (RpcErr c m, emit (RpcSpanEnded (ri_FullMethod info) service method (Some (c, m))) s)
           | (r, s) \<Rightarrow> (r, emit (RpcSpanEnded (ri_FullMethod info) service method None) s))
      | _ \<Rightarrow> (RpcPanic ''index out of range'', s))"

definition UnaryServerTracingInterceptor :: "('r, 'w) interceptor" where
  "UnaryServerTracingInterceptor = trace_call"

definition StreamServerTracingInterceptor :: "('r, 'w) interceptor" where
  "StreamServerTracingInterceptor = trace_call"

definition CombinedUnaryServerInterceptor :: "('r, 'w) interceptor" where
  "CombinedUnaryServerInterceptor info handler = UnaryServerTracingInterceptor info (log_call info handler)"

definition CombinedStreamServerInterceptor :: "('r, 'w) interceptor" where
  "CombinedStreamServerInterceptor info handler = StreamServerTracingInterceptor info (log_call info handler)"

text \<open>Logging that also sets the status of the span.\<close>

definition log_and_span :: "rpc_info \<Rightarrow> ('r, 'w) rpc_handler \<Rightarrow> ('r, 'w) rpc_handler" where
  "log_and_span info handler ctx s =
     (case log_call info handler ctx s of
        (RpcErr c m, s) \<Rightarrow> (RpcErr c m, emit (RpcSpanStatus (ri_FullMethod info) (Some m)) s)
      | (RpcOk r, s) \<Rightarrow> (RpcOk r, emit (RpcSpanStatus (ri_FullMethod info) None) s)
      | (RpcPanic p, s) \<Rightarrow> (RpcPanic p, s))"

text \<open>The recording of metrics innermost, then logging, tracing and the recovery.\<close>

definition combine :: "('r, 'w) interceptor \<Rightarrow> ('r, 'w) interceptor" where
  "combine record info handler = recover_call info (trace_call info (log_and_span info (record info handler)))"

definition CombinedObservabilityUnaryServerInterceptor :: "'w metrics_client \<Rightarrow> 'w \<Rightarrow> (('r, 'w) interceptor \<times> 'w) option" where
  "CombinedObservabilityUnaryServerInterceptor metrics w = map_option (\<lambda>(i, w). (combine i, w)) (MetricsUnaryServerInterceptor metrics w)"

definition CombinedObservabilityStreamServerInterceptor :: "'w metrics_client \<Rightarrow> 'w \<Rightarrow> (('r, 'w) interceptor \<times> 'w) option" where
  "CombinedObservabilityStreamServerInterceptor metrics w = map_option (\<lambda>(i, w). (combine i, w)) (MetricsStreamServerInterceptor metrics w)"

subsection \<open>Configuration\<close>

record TLSConfig =
  tl_Enabled :: bool
  tl_CertFile :: string
  tl_KeyFile :: string
  tl_ClientAuth :: bool
  tl_ClientCAs :: string

record KeepAliveConfig =
  ka_MaxConnectionIdle :: duration
  ka_MaxConnectionAge :: duration
  ka_MaxConnectionAgeGrace :: duration
  ka_Time :: duration
  ka_Timeout :: duration
  ka_PermitWithoutStream :: bool

record GrpcAuthConfig =
  ga_Enabled :: bool
  ga_JWKSEndpoint :: string
  ga_Issuer :: string
  ga_Audience :: "string list"
  ga_BypassPaths :: "string list"
  ga_RefreshInterval :: duration
  ga_RequiredScopes :: "string list"

record GrpcServerConfig =
  gc_Address :: string
  gc_Host :: string
  gc_Port :: int
  gc_TLS :: "TLSConfig option"
  gc_Auth :: "GrpcAuthConfig option"
  gc_MaxConnectionAge :: duration
  gc_MaxConnectionAgeGrace :: duration
  gc_MaxConcurrentStreams :: int
  gc_InitialWindowSize :: int
  gc_InitialConnWindowSize :: int
  gc_KeepAlive :: "KeepAliveConfig option"
  gc_EnableReflection :: bool
  gc_EnableChannelz :: bool
  gc_ShutdownTimeout :: duration

definition grpc_DefaultServerConfig :: GrpcServerConfig where
  "grpc_DefaultServerConfig =
     \<lparr>gc_Address = ''0.0.0.0'', gc_Host = ''0.0.0.0'', gc_Port = 9090, gc_TLS = None,
      gc_Auth = Some \<lparr>ga_Enabled = False, ga_JWKSEndpoint = [], ga_Issuer = [], ga_Audience = [],
                      ga_BypassPaths = [''/grpc.health.v1.Health/'', ''/grpc.reflection.v1alpha.ServerReflection/''],
                      ga_RefreshInterval = 1 * Hour, ga_RequiredScopes = []\<rparr>,
      gc_MaxConnectionAge = 30 * Minute, gc_MaxConnectionAgeGrace = 5 * Second, gc_MaxConcurrentStreams = 100,
      gc_InitialWindowSize = 65536, gc_InitialConnWindowSize = 65536,
      gc_KeepAlive = Some \<lparr>ka_MaxConnectionIdle = 15 * Minute, ka_MaxConnectionAge = 30 * Minute, ka_MaxConnectionAgeGrace = 5 * Second,
                           ka_Time = 5 * Minute, ka_Timeout = 20 * Second, ka_PermitWithoutStream = True\<rparr>,
      gc_EnableReflection = True, gc_EnableChannelz = False, gc_ShutdownTimeout = 30 * Second\<rparr>"

definition grpc_on_auth :: "(GrpcAuthConfig \<Rightarrow> GrpcAuthConfig) \<Rightarrow> GrpcServerConfig \<Rightarrow> GrpcServerConfig" where
  "grpc_on_auth f config =
     config\<lparr>gc_Auth := Some (f (case gc_Auth config of
        None \<Rightarrow> \<lparr>ga_Enabled = False, ga_JWKSEndpoint = [], ga_Issuer = [], ga_Audience = [], ga_BypassPaths = [],
                 ga_RefreshInterval = 0, ga_RequiredScopes = []\<rparr>
      | Some a \<Rightarrow> a))\<rparr>"

definition grpc_WithAuth :: "bool \<Rightarrow> string \<Rightarrow> GrpcServerConfig \<Rightarrow> GrpcServerConfig" where
  "grpc_WithAuth enabled jwksEndpoint = grpc_on_auth (\<lambda>a. a\<lparr>ga_Enabled := enabled, ga_JWKSEndpoint := jwksEndpoint\<rparr>)"
definition grpc_WithAuthIssuer :: "string \<Rightarrow> GrpcServerConfig \<Rightarrow> GrpcServerConfig" where
  "grpc_WithAuthIssuer issuer = grpc_on_auth (\<lambda>a. a\<lparr>ga_Issuer := issuer\<rparr>)"
definition grpc_WithAuthAudience :: "string list \<Rightarrow> GrpcServerConfig \<Rightarrow> GrpcServerConfig" where
  "grpc_WithAuthAudience audience = grpc_on_auth (\<lambda>a. a\<lparr>ga_Audience := audience\<rparr>)"
definition grpc_WithAuthBypass :: "string list \<Rightarrow> GrpcServerConfig \<Rightarrow> GrpcServerConfig" where
  "grpc_WithAuthBypass paths = grpc_on_auth (\<lambda>a. a\<lparr>ga_BypassPaths := paths\<rparr>)"
definition grpc_WithRequiredScopes :: "string list \<Rightarrow> GrpcServerConfig \<Rightarrow> GrpcServerConfig" where
  "grpc_WithRequiredScopes scopes = grpc_on_auth (\<lambda>a. a\<lparr>ga_RequiredScopes := scopes\<rparr>)"
definition grpc_WithPort :: "int \<Rightarrow> GrpcServerConfig \<Rightarrow> GrpcServerConfig" where
  "grpc_WithPort port config = config\<lparr>gc_Port := port\<rparr>"
definition grpc_WithHost :: "string \<Rightarrow> GrpcServerConfig \<Rightarrow> GrpcServerConfig" where
  "grpc_WithHost host config = config\<lparr>gc_Host := host, gc_Address := host\<rparr>"
definition grpc_WithShutdownTimeout :: "duration \<Rightarrow> GrpcServerConfig \<Rightarrow> GrpcServerConfig" where
  "grpc_WithShutdownTimeout timeout config = config\<lparr>gc_ShutdownTimeout := timeout\<rparr>"

definition grpc_security_config :: "GrpcAuthConfig \<Rightarrow> AuthConfig" where
  "grpc_security_config config =
     \<lparr>ac_JWKSEndpoint = ga_JWKSEndpoint config, ac_Issuer = ga_Issuer config, ac_Audience = ga_Audience config,
      ac_RefreshInterval = ga_RefreshInterval config, ac_TokenLookup = [], ac_AuthScheme = [], ac_BypassPaths = ga_BypassPaths config\<rparr>"

definition grpc_NewAuthenticator ::
  "(AuthConfig \<Rightarrow> auth_error + 'w authenticator) \<Rightarrow> GrpcAuthConfig \<Rightarrow> auth_error + 'w authenticator option" where
  "grpc_NewAuthenticator new_jwt config =
     (if \<not> ga_Enabled config then Inr None
      else case new_jwt (grpc_security_config config) of Inl e \<Rightarrow> Inl e | Inr a \<Rightarrow> Inr (Some a))"

subsection \<open>The server\<close>

record 'w grpc_deps =
  gd_Logger :: bool
  gd_Metrics :: "'w metrics_client option"
  gd_Tracer :: bool

record keepalive_parameters =
  kp_MaxConnectionIdle :: duration
  kp_MaxConnectionAge :: duration
  kp_MaxConnectionAgeGrace :: duration
  kp_Time :: duration
  kp_Timeout :: duration

record ('r, 'w) grpc_options =
  gp_KeepAlive :: keepalive_parameters
  gp_MaxConcurrentStreams :: int
  gp_TLS :: bool
  gp_unary :: "('r, 'w) interceptor list"
  gp_stream :: "('r, 'w) interceptor list"

definition auth_interceptors ::
  "(AuthConfig \<Rightarrow> auth_error + 'w authenticator) \<Rightarrow> GrpcServerConfig \<Rightarrow> ('r, 'w) interceptor list \<times> ('r, 'w) interceptor list" where
  "auth_interceptors new_jwt config =
     (case gc_Auth config of
        None \<Rightarrow> ([], [])
      | Some a \<Rightarrow>
          if \<not> ga_Enabled a then ([], [])
          else case grpc_NewAuthenticator new_jwt a of
              Inr (Some authenticator) \<Rightarrow>
                (AuthUnaryServerInterceptor authenticator (ga_BypassPaths a) # map RequireScopeUnaryInterceptor (ga_RequiredScopes a),
                 AuthStreamServerInterceptor authenticator (ga_BypassPaths a) # map RequireScopeStreamInterceptor (ga_RequiredScopes a))
            | _ \<Rightarrow> ([], []))"

text \<open>The interceptors of the metrics, one after the other on the world.\<close>

definition pair_of ::
  "('w \<Rightarrow> (('r, 'w) interceptor \<times> 'w) option) \<Rightarrow> ('w \<Rightarrow> (('r, 'w) interceptor \<times> 'w) option) \<Rightarrow> 'w \<Rightarrow> ((('r, 'w) interceptor \<times> ('r, 'w) interceptor) \<times> 'w) option" where
  "pair_of unary stream w =
     (case unary w of
        None \<Rightarrow> None
      | Some (u, w) \<Rightarrow> (case stream w of None \<Rightarrow> None | Some (t, w) \<Rightarrow> Some ((u, t), w)))"

definition metrics_interceptors :: "'w grpc_deps \<Rightarrow> 'w \<Rightarrow> ((('r, 'w) interceptor list \<times> ('r, 'w) interceptor list) \<times> 'w) option" where
  "metrics_interceptors d w =
     (case gd_Metrics d of
        None \<Rightarrow> Some (([], []), w)
      | Some metrics \<Rightarrow>
          map_option (\<lambda>((u, t), w). (([u], [t]), w)) (pair_of (MetricsUnaryServerInterceptor metrics) (MetricsStreamServerInterceptor metrics) w))"

text \<open>With tracer, metrics and logger the lists are replaced.\<close>

definition replace_all ::
  "'w grpc_deps \<Rightarrow> ('r, 'w) interceptor list \<times> ('r, 'w) interceptor list \<Rightarrow> 'w \<Rightarrow> ((('r, 'w) interceptor list \<times> ('r, 'w) interceptor list) \<times> 'w) option" where
  "replace_all d both w =
     (case gd_Metrics d of
        None \<Rightarrow> Some (both, w)
      | Some metrics \<Rightarrow>
          if gd_Tracer d \<and> gd_Logger d then
            map_option (\<lambda>((u, t), w). (([u], [t]), w))
              (pair_of (CombinedObservabilityUnaryServerInterceptor metrics) (CombinedObservabilityStreamServerInterceptor metrics) w)
          else Some (both, w))"

text \<open>\<open>cert_ok\<close>: loading the key pair succeeds.  A missing keep-alive configuration panics (\<open>None\<close>).\<close>

definition createServerOptions ::
  "(AuthConfig \<Rightarrow> auth_error + 'w authenticator) \<Rightarrow> bool \<Rightarrow> GrpcServerConfig \<Rightarrow> 'w grpc_deps \<Rightarrow> 'w \<Rightarrow> (('r, 'w) grpc_options \<times> 'w) option" where
  "createServerOptions new_jwt cert_ok config d w =
     (case gc_KeepAlive config of
        None \<Rightarrow> None
      | Some ka \<Rightarrow>
          (let (auth_unary, auth_stream) = auth_interceptors new_jwt config
           in case metrics_interceptors d w of
                None \<Rightarrow> None
              | Some ((metrics_unary, metrics_stream), w) \<Rightarrow>
                  (let unary = (if gd_Logger d then [RecoveryUnaryServerInterceptor] else []) @ auth_unary @
                         (if gd_Tracer d then [UnaryServerTracingInterceptor] else []) @ metrics_unary @
                         (if gd_Logger d then [LoggingUnaryServerInterceptor] else []);
                       stream = (if gd_Logger d then [RecoveryStreamServerInterceptor] else []) @ auth_stream @
                         (if gd_Tracer d then [StreamServerTracingInterceptor] else []) @ metrics_stream @
                         (if gd_Logger d then [LoggingStreamServerInterceptor] else [])
                   in case replace_all d (unary, stream) w of
                        None \<Rightarrow> None
                      | Some ((unary, stream), w) \<Rightarrow>
                          Some (\<lparr>gp_KeepAlive = \<lparr>kp_MaxConnectionIdle = ka_MaxConnectionIdle ka, kp_MaxConnectionAge = gc_MaxConnectionAge config,
                                   kp_MaxConnectionAgeGrace = gc_MaxConnectionAgeGrace config, kp_Time = ka_Time ka, kp_Timeout = ka_Timeout ka\<rparr>,
                                 gp_MaxConcurrentStreams = gc_MaxConcurrentStreams config,
                                 gp_TLS = (case gc_TLS config of None \<Rightarrow> False | Some t \<Rightarrow> tl_Enabled t \<and> cert_ok),
                                 gp_unary = unary, gp_stream = stream\<rparr>, w))))"

datatype grpc_server_error =
    GrpcAlreadyStarted
  | GrpcNotStarted
  | GrpcListen string
  | GrpcServerFailed string
  | GrpcShutdownTimeout

record ('r, 'w) grpc_server =
  gv_config :: GrpcServerConfig
  gv_server :: "('r, 'w) grpc_options option"
  gv_listener :: "string option"
  gv_started :: bool
  gv_shutdownErr :: "string option"
  gv_deps :: "'w grpc_deps"
  gv_services :: "string list"
  gv_serving :: "string \<Rightarrow> bool" \<comment> \<open>the health service reports the service as serving\<close>

definition grpc_NewServerWithConfig :: "GrpcServerConfig \<Rightarrow> 'w grpc_deps \<Rightarrow> ('r, 'w) grpc_server" where
  "grpc_NewServerWithConfig config d =
     \<lparr>gv_config = config, gv_server = None, gv_listener = None, gv_started = False, gv_shutdownErr = None, gv_deps = d,
      gv_services = [], gv_serving = (\<lambda>_. False)\<rparr>"

definition grpc_NewServer :: "'w grpc_deps \<Rightarrow> ('r, 'w) grpc_server" where
  "grpc_NewServer d = grpc_NewServerWithConfig grpc_DefaultServerConfig d"

definition grpc_NewServerWithOptions :: "'w grpc_deps \<Rightarrow> (GrpcServerConfig \<Rightarrow> GrpcServerConfig) list \<Rightarrow> ('r, 'w) grpc_server" where
  "grpc_NewServerWithOptions d options =
     grpc_NewServerWithConfig (fold (\<lambda>option config. option config) options grpc_DefaultServerConfig) d"

definition RegisterService :: "string \<Rightarrow> ('r, 'w) grpc_server \<Rightarrow> ('r, 'w) grpc_server" where
  "RegisterService desc s = (if gv_started s then s else s\<lparr>gv_services := gv_services s @ [desc]\<rparr>)"

text \<open>
  \<open>listen\<close> is the address the listener got, or an error.  A panic, and the library ending the process on a service that is
  registered twice, are \<open>None\<close>.
\<close>

definition grpc_Start ::
  "(AuthConfig \<Rightarrow> auth_error + 'w authenticator) \<Rightarrow> bool \<Rightarrow> string + string \<Rightarrow> ('r, 'w) grpc_server \<Rightarrow> 'w \<Rightarrow>
   (grpc_server_error option \<times> ('r, 'w) grpc_server \<times> 'w) option" where
  "grpc_Start new_jwt cert_ok listen s w =
     (if gv_started s then Some (Some GrpcAlreadyStarted, s, w)
      else case createServerOptions new_jwt cert_ok (gv_config s) (gv_deps s) w of
          None \<Rightarrow> None
        | Some (opts, w) \<Rightarrow>
            if \<not> distinct (gv_services s @ [''grpc.health.v1.Health'', ''grpc.reflection.v1alpha.ServerReflection'', ''grpc.reflection.v1.ServerReflection'']) then None
            else
              (let s = s\<lparr>gv_server := Some opts, gv_serving := (\<lambda>n. n = [] \<or> n \<in> set (gv_services s))\<rparr>
               in case listen of
                    Inl e \<Rightarrow> Some (Some (GrpcListen e), s\<lparr>gv_listener := None\<rparr>, w)
                  | Inr addr \<Rightarrow> Some (None, s\<lparr>gv_listener := Some addr, gv_started := True\<rparr>, w)))"

text \<open>The goroutine that serves failed.\<close>

definition grpc_serve_failed :: "string \<Rightarrow> ('r, 'w) grpc_server \<Rightarrow> ('r, 'w) grpc_server" where
  "grpc_serve_failed err s = s\<lparr>gv_shutdownErr := Some err\<rparr>"

text \<open>\<open>timely\<close>: the server stopped gracefully before the context was done.\<close>

definition grpc_Shutdown :: "bool \<Rightarrow> ('r, 'w) grpc_server \<Rightarrow> grpc_server_error option \<times> ('r, 'w) grpc_server" where
  "grpc_Shutdown timely s =
     (if \<not> gv_started s then (Some GrpcNotStarted, s)
      else
        (let s = s\<lparr>gv_listener := None, gv_started := False, gv_server := None\<rparr>
         in case gv_shutdownErr s of
              Some e \<Rightarrow> (Some (GrpcServerFailed e), s)
            | None \<Rightarrow> (if timely then None else Some GrpcShutdownTimeout, s)))"

definition grpc_Address :: "('r, 'w) grpc_server \<Rightarrow> string" where
  "grpc_Address s =
     (if \<not> gv_started s then gc_Address (gv_config s) @ '':'' @ fmt_d (gc_Port (gv_config s))
      else case gv_listener s of
          None \<Rightarrow> gc_Address (gv_config s) @ '':'' @ fmt_d (gc_Port (gv_config s))
        | Some a \<Rightarrow> a)"

definition grpc_IsStarted :: "('r, 'w) grpc_server \<Rightarrow> bool" where
  "grpc_IsStarted s = gv_started s"

definition grpc_Config :: "('r, 'w) grpc_server \<Rightarrow> GrpcServerConfig" where
  "grpc_Config s = gv_config s"

end
