(* ===== verification/GrpcProps.thy ===== *)
theory GrpcProps
  imports GrpcServer
begin

text \<open>
  The properties of the gRPC server: which calls its interceptors keep from the services, with and without the observability
  of all three kinds, and that panics do not escape.
\<close>

lemma chain_interceptors_simps [simp]:
  "chain_interceptors [] info h = h"
  "chain_interceptors (i # is) info h = i info (chain_interceptors is info h)"
  "chain_interceptors (is @ js) info h = chain_interceptors is info (chain_interceptors js info h)"
  by (simp_all add: chain_interceptors_def)

lemmas recovery_defs = RecoveryUnaryServerInterceptor_def RecoveryStreamServerInterceptor_def

lemmas combined_defs =
  combine_def recover_call_def trace_call_def log_and_span_def log_call_def metrics_call_def emit_def

lemmas observability_defs =
  CombinedObservabilityUnaryServerInterceptor_def CombinedObservabilityStreamServerInterceptor_def MetricsUnaryServerInterceptor_def
  MetricsStreamServerInterceptor_def metrics_interceptor_def

text \<open>The shape of the chains of a server: with all three dependencies the combined interceptors alone.\<close>

lemma createServerOptions_cases:
  fixes opts :: "('r, 'w) grpc_options"
  assumes "createServerOptions new_jwt cert_ok config d w = Some (opts, w')"
  obtains mu mt :: "('r, 'w) interceptor list" and w1 where "metrics_interceptors d w = Some ((mu, mt), w1)"
    and "replace_all d
      ((if gd_Logger d then [RecoveryUnaryServerInterceptor] else []) @ fst (auth_interceptors new_jwt config) @ (if gd_Tracer d then [UnaryServerTracingInterceptor] else []) @ mu @
         (if gd_Logger d then [LoggingUnaryServerInterceptor] else []),
       (if gd_Logger d then [RecoveryStreamServerInterceptor] else []) @ snd (auth_interceptors new_jwt config) @ (if gd_Tracer d then [StreamServerTracingInterceptor] else []) @ mt @
         (if gd_Logger d then [LoggingStreamServerInterceptor] else [])) w1 = Some ((gp_unary opts, gp_stream opts), w')"
proof -
  obtain ka where ka: "gc_KeepAlive config = Some ka" using assms by (auto simp: createServerOptions_def split: option.splits)
  obtain au as :: "('r, 'w) interceptor list" where a: "auth_interceptors new_jwt config = (au, as)" by fastforce
  obtain mu mt :: "('r, 'w) interceptor list" and w1 where m: "metrics_interceptors d w = Some ((mu, mt), w1)"
    using assms ka a by (auto simp: createServerOptions_def split: option.splits)
  let ?both = "((if gd_Logger d then [RecoveryUnaryServerInterceptor] else []) @ au @ (if gd_Tracer d then [UnaryServerTracingInterceptor] else []) @ mu @
         (if gd_Logger d then [LoggingUnaryServerInterceptor] else []),
       (if gd_Logger d then [RecoveryStreamServerInterceptor] else []) @ as @ (if gd_Tracer d then [StreamServerTracingInterceptor] else []) @ mt @
         (if gd_Logger d then [LoggingStreamServerInterceptor] else []))"
  obtain x y w2 where r: "replace_all d ?both w1 = Some ((x, y), w2)"
    using assms ka a m by (auto simp: createServerOptions_def Let_def split: option.splits)
  then have "gp_unary opts = x" "gp_stream opts = y" "w2 = w'"
    using assms ka a m by (auto simp: createServerOptions_def Let_def)
  with m r show thesis by (intro that [of mu mt w1]) (simp_all add: a)
qed

lemma replace_all_partial: "\<not> (gd_Tracer d \<and> gd_Metrics d \<noteq> None \<and> gd_Logger d) \<Longrightarrow> replace_all d both w = Some (both, w)"
  by (auto simp: replace_all_def split: option.split)

lemma replace_all_full:
  assumes "replace_all d both w1 = Some ((us, ts), w')" and "gd_Tracer d" and "gd_Logger d" and "gd_Metrics d = Some metrics"
  obtains u' w2 t' where "MetricsUnaryServerInterceptor metrics w1 = Some (u', w2)" "MetricsStreamServerInterceptor metrics w2 = Some (t', w')"
    "us = [combine u']" "ts = [combine t']"
  using assms
  by (auto simp: replace_all_def pair_of_def CombinedObservabilityUnaryServerInterceptor_def CombinedObservabilityStreamServerInterceptor_def
      split: option.splits prod.splits)

lemma createServerOptions_partial:
  assumes "createServerOptions new_jwt cert_ok config d w = Some (opts, w')" and "\<not> (gd_Tracer d \<and> gd_Metrics d \<noteq> None \<and> gd_Logger d)"
  obtains rest_unary rest_stream where
    "gp_unary opts = (if gd_Logger d then [recover_call] else []) @ fst (auth_interceptors new_jwt config) @ rest_unary"
    "gp_stream opts = (if gd_Logger d then [recover_call] else []) @ snd (auth_interceptors new_jwt config) @ rest_stream"
proof (rule createServerOptions_cases [OF assms(1)], goal_cases)
  case (1 mu mt w1)
  then have "gp_unary opts = (if gd_Logger d then [recover_call] else []) @ fst (auth_interceptors new_jwt config) @
      ((if gd_Tracer d then [UnaryServerTracingInterceptor] else []) @ mu @ (if gd_Logger d then [LoggingUnaryServerInterceptor] else []))"
    "gp_stream opts = (if gd_Logger d then [recover_call] else []) @ snd (auth_interceptors new_jwt config) @
      ((if gd_Tracer d then [StreamServerTracingInterceptor] else []) @ mt @ (if gd_Logger d then [LoggingStreamServerInterceptor] else []))"
    unfolding recovery_defs by (simp_all add: replace_all_partial [OF assms(2)])
  then show ?thesis by (rule that)
qed

lemma createServerOptions_full:
  fixes opts :: "('r, 'w) grpc_options"
  assumes "createServerOptions new_jwt cert_ok config d w = Some (opts, w')" and "gd_Tracer d" and "gd_Logger d" and "gd_Metrics d = Some metrics"
  obtains u t :: "('r, 'w) interceptor" and w1 u' w2 t' where "metrics_interceptors d w = Some (([u], [t]), w1)"
    "MetricsUnaryServerInterceptor metrics w1 = Some (u', w2)" "MetricsStreamServerInterceptor metrics w2 = Some (t', w')"
    "gp_unary opts = [combine u']" "gp_stream opts = [combine t']"
proof -
  obtain mu mt :: "('r, 'w) interceptor list" and w1 both where m: "metrics_interceptors d w = Some ((mu, mt), w1)" and r: "replace_all d both w1 = Some ((gp_unary opts, gp_stream opts), w')"
    by (rule createServerOptions_cases [OF assms(1)], blast)
  obtain u t where ut: "mu = [u]" "mt = [t]" using m assms(4) by (auto simp: metrics_interceptors_def)
  obtain u' w2 t' where "MetricsUnaryServerInterceptor metrics w1 = Some (u', w2)" "MetricsStreamServerInterceptor metrics w2 = Some (t', w')"
    "gp_unary opts = [combine u']" "gp_stream opts = [combine t']" by (rule replace_all_full [OF r assms(2-4)])
  with m show thesis unfolding ut by (rule that)
qed

subsection \<open>Authentication\<close>

text \<open>The token of a call lacks a scope the configuration requires.\<close>

definition lacks_scope :: "string list \<Rightarrow> Claims \<Rightarrow> bool" where
  "lacks_scope required claims =
     list_ex (\<lambda>scope. case claim_scopes claims of None \<Rightarrow> True | Some scopes \<Rightarrow> \<not> ParseScopeString scopes scope) required"

definition rpc_rejected :: "'w authenticator \<Rightarrow> GrpcAuthConfig \<Rightarrow> rpc_info \<Rightarrow> bool" where
  "rpc_rejected auth a info \<longleftrightarrow>
     \<not> rpc_bypassed (ga_BypassPaths a) (ri_FullMethod info) \<and>
     (case rpc_token (ri_metadata info) of
        Inl e \<Rightarrow> True
      | Inr t \<Rightarrow> \<forall>w. case fst (at_validate auth t w) of Inl e \<Rightarrow> True | Inr claims \<Rightarrow> lacks_scope (ga_RequiredScopes a) claims)"

text \<open>Two handlers give the same answer to every call, an error with one of the codes.\<close>

definition rpc_refuses :: "('r, 'w) rpc_handler \<Rightarrow> ('r, 'w) rpc_handler \<Rightarrow> int set \<Rightarrow> bool" where
  "rpc_refuses h h' codes \<longleftrightarrow> (\<forall>ctx s. h ctx s = h' ctx s \<and> (\<exists>c \<in> codes. \<exists>m. fst (h ctx s) = RpcErr c m))"

lemma GetClaimsFromContext_with_claims [simp]: "GetClaimsFromContext (with_claims claims ctx) = Some claims"
  by (simp add: GetClaimsFromContext_def with_claims_def)

lemma scope_chain_refuses:
  assumes "GetClaimsFromContext ctx = Some claims" and "lacks_scope scopes claims"
  shows "chain_interceptors (map RequireScopeUnaryInterceptor scopes) info h ctx s =
           chain_interceptors (map RequireScopeUnaryInterceptor scopes) info h' ctx s \<and>
         (\<exists>m. fst (chain_interceptors (map RequireScopeUnaryInterceptor scopes) info h ctx s) = RpcErr PermissionDenied m)"
  using assms by (induction scopes) (auto simp: lacks_scope_def RequireScopeUnaryInterceptor_def split: option.splits)

lemma AuthUnaryServerInterceptor_refuses:
  fixes auth :: "'w authenticator"
  assumes "rpc_rejected auth a info"
  shows "rpc_refuses
    (AuthUnaryServerInterceptor auth (ga_BypassPaths a) info (chain_interceptors (map RequireScopeUnaryInterceptor (ga_RequiredScopes a)) info h))
    (AuthUnaryServerInterceptor auth (ga_BypassPaths a) info (chain_interceptors (map RequireScopeUnaryInterceptor (ga_RequiredScopes a)) info h'))
    {PermissionDenied, Unauthenticated}"
proof (cases "rpc_token (ri_metadata info)")
  case (Inl e)
  then show ?thesis using assms by (simp add: rpc_refuses_def rpc_rejected_def AuthUnaryServerInterceptor_def)
next
  case (Inr t)
  have b: "\<not> rpc_bypassed (ga_BypassPaths a) (ri_FullMethod info)" using assms by (simp add: rpc_rejected_def)
  show ?thesis unfolding rpc_refuses_def
  proof (intro allI)
    fix ctx and s :: "'w gs"
    obtain v w where vw: "at_validate auth t (gs_world s) = (v, w)" by fastforce
    have v: "case v of Inl e \<Rightarrow> True | Inr claims \<Rightarrow> lacks_scope (ga_RequiredScopes a) claims"
      using assms Inr vw unfolding rpc_rejected_def by (metis fst_conv sum.simps(6))
    let ?f = "\<lambda>k. AuthUnaryServerInterceptor auth (ga_BypassPaths a) info
      (chain_interceptors (map RequireScopeUnaryInterceptor (ga_RequiredScopes a)) info k) ctx s"
    show "?f h = ?f h' \<and> (\<exists>c\<in>{PermissionDenied, Unauthenticated}. \<exists>m. fst (?f h) = RpcErr c m)"
    proof (cases v)
      case Inl2: (Inl e)
      then show ?thesis using b Inr vw by (simp add: AuthUnaryServerInterceptor_def)
    next
      case Inr2: (Inr claims)
      then have "lacks_scope (ga_RequiredScopes a) claims" using v by simp
      from scope_chain_refuses [OF GetClaimsFromContext_with_claims this, of info h ctx "s\<lparr>gs_world := w\<rparr>" h'] show ?thesis
        using b Inr vw Inr2 by (auto simp: AuthUnaryServerInterceptor_def)
    qed
  qed
qed

lemma stream_auth_is_unary:
  "AuthStreamServerInterceptor = AuthUnaryServerInterceptor" "RequireScopeStreamInterceptor = RequireScopeUnaryInterceptor"
  by (intro ext; simp add: AuthStreamServerInterceptor_def RequireScopeStreamInterceptor_def)+

lemma recover_call_refuses: "rpc_refuses h h' codes \<Longrightarrow> rpc_refuses (recover_call info h) (recover_call info h') codes"
  unfolding rpc_refuses_def
proof (intro allI)
  fix ctx s
  assume a: "\<forall>ctx s. h ctx s = h' ctx s \<and> (\<exists>c \<in> codes. \<exists>m. fst (h ctx s) = RpcErr c m)"
  then obtain c m s' where "h ctx s = (RpcErr c m, s')" "c \<in> codes" by (metis prod.collapse)
  moreover from this have "h' ctx s = (RpcErr c m, s')" using a by metis
  ultimately show "recover_call info h ctx s = recover_call info h' ctx s \<and> (\<exists>c \<in> codes. \<exists>m. fst (recover_call info h ctx s) = RpcErr c m)"
    by (auto simp: recover_call_def)
qed

text \<open>
  C20: when authentication is enabled, its authenticator was created and one of logger, metrics and tracer is missing, no service sees
  a call that is not authenticated: whatever handler is registered, a unary or streaming call whose method is not bypassed and whose token
  is missing, rejected or without a required scope gets the same answer, Unauthenticated or PermissionDenied.
\<close>

theorem grpc_server_authenticates:
  assumes "createServerOptions new_jwt cert_ok config d w = Some (opts, w')" and "\<not> (gd_Tracer d \<and> gd_Metrics d \<noteq> None \<and> gd_Logger d)"
    and "gc_Auth config = Some a" and "ga_Enabled a" and "new_jwt (grpc_security_config a) = Inr auth" and "rpc_rejected auth a info"
  shows "rpc_refuses (chain_interceptors (gp_unary opts) info h) (chain_interceptors (gp_unary opts) info h') {PermissionDenied, Unauthenticated} \<and>
    rpc_refuses (chain_interceptors (gp_stream opts) info h) (chain_interceptors (gp_stream opts) info h') {PermissionDenied, Unauthenticated}"
proof -
  have a: "auth_interceptors new_jwt config =
      (AuthUnaryServerInterceptor auth (ga_BypassPaths a) # map RequireScopeUnaryInterceptor (ga_RequiredScopes a),
       AuthUnaryServerInterceptor auth (ga_BypassPaths a) # map RequireScopeUnaryInterceptor (ga_RequiredScopes a))"
    using assms(3-5) by (simp add: auth_interceptors_def grpc_NewAuthenticator_def stream_auth_is_unary)
  show ?thesis
    by (rule createServerOptions_partial [OF assms(1,2)])
      (auto simp: a intro!: recover_call_refuses AuthUnaryServerInterceptor_refuses [OF assms(6)])
qed

definition no_calls :: "unit authenticator" where
  "no_calls = \<lparr>at_validate = (\<lambda>t w. (Inl ErrInvalidToken, w)), at_config = DefaultAuthConfig, at_error_text = (\<lambda>_. [])\<rparr>"

definition demo_grpc_config :: GrpcServerConfig where
  "demo_grpc_config = grpc_WithAuth True ''https://idp/jwks'' grpc_DefaultServerConfig"

definition demo_call :: rpc_info where
  "demo_call = \<lparr>ri_FullMethod = ''/shop.Orders/List'', ri_IsClientStream = False, ri_IsServerStream = False, ri_metadata = Some (\<lambda>_. [])\<rparr>"

lemma demo_grpc_auth: "\<exists>a. gc_Auth demo_grpc_config = Some a \<and> ga_Enabled a \<and> rpc_rejected no_calls a demo_call"
  by (simp add: demo_grpc_config_def grpc_WithAuth_def grpc_on_auth_def grpc_DefaultServerConfig_def rpc_rejected_def demo_call_def
      rpc_bypassed_def rpc_token_def)

lemma demo_grpc_options:
  assumes "gc_KeepAlive config \<noteq> None" and "gd_Metrics d = None \<or> gd_Metrics d = Some NoOpMetrics"
  shows "\<exists>opts. createServerOptions new_jwt cert_ok config d () = Some (opts, ())"
  using assms
  by (auto simp: createServerOptions_def metrics_interceptors_def replace_all_def pair_of_def NoOpMetrics_def observability_defs Let_def
      split: prod.split)

lemma demo_grpc_keepalive: "gc_KeepAlive demo_grpc_config \<noteq> None" "gc_KeepAlive (demo_grpc_config\<lparr>gc_Auth := None\<rparr>) \<noteq> None"
  by (simp_all add: demo_grpc_config_def grpc_WithAuth_def grpc_on_auth_def grpc_DefaultServerConfig_def)

theorem grpc_server_authenticates_witness:
  "\<exists>opts. createServerOptions (\<lambda>_. Inr no_calls) True demo_grpc_config \<lparr>gd_Logger = True, gd_Metrics = None, gd_Tracer = True\<rparr> () = Some (opts, ()) \<and>
     rpc_refuses (chain_interceptors (gp_unary opts) demo_call (\<lambda>ctx s. (RpcOk ''secret'', s)))
       (chain_interceptors (gp_unary opts) demo_call (\<lambda>ctx s. (RpcOk [], s))) {PermissionDenied, Unauthenticated}"
proof -
  obtain opts :: "(string, unit) grpc_options" where o: "createServerOptions (\<lambda>_. Inr no_calls) True demo_grpc_config
      \<lparr>gd_Logger = True, gd_Metrics = None, gd_Tracer = True\<rparr> () = Some (opts, ())"
    using demo_grpc_options [OF demo_grpc_keepalive(1), of "\<lparr>gd_Logger = True, gd_Metrics = None, gd_Tracer = True\<rparr>"] by auto
  obtain a where a: "gc_Auth demo_grpc_config = Some a" "ga_Enabled a" "rpc_rejected no_calls a demo_call" using demo_grpc_auth by blast
  from grpc_server_authenticates [OF o _ a(1,2) refl a(3)] o show ?thesis by (intro exI [of _ opts]) simp
qed

text \<open>Metrics whose instruments never panic.\<close>

definition quiet :: "'w metrics_client \<Rightarrow> bool" where
  "quiet metrics \<longleftrightarrow>
     (\<forall>n h ls w r w'. mc_Counter metrics n h ls w = Some (r, w') \<longrightarrow> (\<forall>l w. r l w \<noteq> None)) \<and>
     (\<forall>n h bs ls w r w'. mc_Histogram metrics n h bs ls w = Some (r, w') \<longrightarrow> (\<forall>l w. r l w \<noteq> None))"

lemma metrics_interceptor_quiet:
  assumes "metrics_interceptor ask_c ask_d labels w = Some (u, w')"
    and "\<And>w r w'. ask_c w = Some (r, w') \<Longrightarrow> (\<forall>l w. r l w \<noteq> None)" and "\<And>w r w'. ask_d w = Some (r, w') \<Longrightarrow> (\<forall>l w. r l w \<noteq> None)"
  shows "\<exists>c dn. u = metrics_call c dn labels \<and> (\<forall>l w. c l w \<noteq> None) \<and> (\<forall>l w. dn l w \<noteq> None)"
proof -
  obtain c w1 where c: "ask_c w = Some (c, w1)" using assms(1) by (auto simp: metrics_interceptor_def split: option.splits)
  obtain dn where d: "ask_d w1 = Some (dn, w')" "u = metrics_call c dn labels"
    using assms(1) c by (auto simp: metrics_interceptor_def split: option.splits)
  show ?thesis using assms(2) [OF c] assms(3) [OF d(1)] d(2) by blast
qed

lemma quiet_unary:
  assumes "quiet metrics" and "MetricsUnaryServerInterceptor metrics w = Some (u, w')"
  shows "\<exists>c dn. u = metrics_call c dn unary_labels \<and> (\<forall>l w. c l w \<noteq> None) \<and> (\<forall>l w. dn l w \<noteq> None)"
  by (rule metrics_interceptor_quiet [OF assms(2) [unfolded MetricsUnaryServerInterceptor_def]]) (use assms(1) in \<open>unfold quiet_def, meson\<close>)+

lemma quiet_stream:
  assumes "quiet metrics" and "MetricsStreamServerInterceptor metrics w = Some (u, w')"
  shows "\<exists>c dn. u = metrics_call c dn stream_labels \<and> (\<forall>l w. c l w \<noteq> None) \<and> (\<forall>l w. dn l w \<noteq> None)"
  by (rule metrics_interceptor_quiet [OF assms(2) [unfolded MetricsStreamServerInterceptor_def]]) (use assms(1) in \<open>unfold quiet_def, meson\<close>)+

lemma combine_answers:
  assumes "\<forall>l w. c l w \<noteq> None" and "\<forall>l w. dn l w \<noteq> None" and "ri_FullMethod info \<noteq> []"
  shows "fst (combine (metrics_call c dn labels) info (\<lambda>ctx s. (RpcOk (f ctx), g ctx s)) ctx s) = RpcOk (f ctx)"
proof -
  have "extractService (ri_FullMethod info) \<noteq> None" "extractMethod (ri_FullMethod info) \<noteq> None"
    using assms(3) by (auto simp: extractService_def extractMethod_def Let_def)
  moreover obtain w1 w2 where "c (labels info OK) (gs_world (g ctx (emit (RpcStarted (ri_FullMethod info)) s))) = Some w1" "dn (labels info OK) w1 = Some w2"
    using assms(1,2) by (metis not_None_eq)
  ultimately show ?thesis by (auto simp: combined_defs)
qed

text \<open>
  C21: A server with logger, metrics and tracer does not authenticate at all: the combined interceptors replace the lists that
  hold the authentication, so its chains are those of a server without authentication, and with metrics that do not panic a service answers every
  unary or streaming call, with a token or without.
\<close>

theorem grpc_observability_drops_auth:
  fixes opts opts' :: "('r, 'w) grpc_options"
  assumes "gd_Logger d" and "gd_Metrics d = Some metrics" and "gd_Tracer d" and "quiet metrics"
    and "createServerOptions new_jwt cert_ok config d w = Some (opts, w1)"
    and "createServerOptions new_jwt' cert_ok (config\<lparr>gc_Auth := None\<rparr>) d w = Some (opts', w1')"
    and "ri_FullMethod info \<noteq> []"
  shows "gp_unary opts = gp_unary opts' \<and> gp_stream opts = gp_stream opts' \<and>
    fst (chain_interceptors (gp_unary opts) info (\<lambda>ctx s. (RpcOk (f ctx), g ctx s)) ctx s) = RpcOk (f ctx) \<and>
    fst (chain_interceptors (gp_stream opts) info (\<lambda>ctx s. (RpcOk (f ctx), g ctx s)) ctx s) = RpcOk (f ctx)"
proof -
  obtain u1 t1 :: "('r, 'w) interceptor" and v1 u2 v2 t2 where a: "metrics_interceptors d w = Some (([u1], [t1]), v1)" "MetricsUnaryServerInterceptor metrics v1 = Some (u2, v2)"
      "MetricsStreamServerInterceptor metrics v2 = Some (t2, w1)" "gp_unary opts = [combine u2]" "gp_stream opts = [combine t2]"
    by (rule createServerOptions_full [OF assms(5,3,1,2)])
  obtain u3 t3 :: "('r, 'w) interceptor" and v3 u4 v4 t4 where b: "metrics_interceptors d w = Some (([u3], [t3]), v3)" "MetricsUnaryServerInterceptor metrics v3 = Some (u4, v4)"
      "MetricsStreamServerInterceptor metrics v4 = Some (t4, w1')" "gp_unary opts' = [combine u4]" "gp_stream opts' = [combine t4]"
    by (rule createServerOptions_full [OF assms(6,3,1,2)])
  have "v3 = v1" using a(1) b(1) by simp
  then have "u4 = u2" "v4 = v2" "t4 = t2" using a(2,3) b(2,3) by auto
  then show ?thesis
    using a(4,5) b(4,5) quiet_unary [OF assms(4) a(2)] quiet_stream [OF assms(4) a(3)] combine_answers [OF _ _ assms(7)] by auto
qed

theorem grpc_observability_drops_auth_witness:
  "\<exists>opts. createServerOptions (\<lambda>_. Inr no_calls) True demo_grpc_config \<lparr>gd_Logger = True, gd_Metrics = Some NoOpMetrics, gd_Tracer = True\<rparr> () = Some (opts, ()) \<and>
     (\<forall>ctx s. fst (chain_interceptors (gp_unary opts) demo_call (\<lambda>ctx s. (RpcOk ''secret'', s)) ctx s) = RpcOk ''secret'')"
proof -
  let ?d = "\<lparr>gd_Logger = True, gd_Metrics = Some NoOpMetrics, gd_Tracer = True\<rparr>"
  obtain opts :: "(string, unit) grpc_options" where o: "createServerOptions (\<lambda>_. Inr no_calls) True demo_grpc_config ?d () = Some (opts, ())"
    using demo_grpc_options [OF demo_grpc_keepalive(1), of ?d] by auto
  obtain opts' :: "(string, unit) grpc_options" where
    o': "createServerOptions (\<lambda>_. Inr no_calls) True (demo_grpc_config\<lparr>gc_Auth := None\<rparr>) ?d () = Some (opts', ())"
    using demo_grpc_options [OF demo_grpc_keepalive(2), of ?d] by auto
  have m: "ri_FullMethod demo_call \<noteq> []" by (simp add: demo_call_def)
  have q: "quiet (NoOpMetrics :: unit metrics_client)" by (simp add: quiet_def NoOpMetrics_def)
  have "fst (chain_interceptors (gp_unary opts) demo_call (\<lambda>ctx s. (RpcOk ''secret'', s)) ctx s) = RpcOk ''secret''" for ctx s
    by (rule grpc_observability_drops_auth [OF _ _ _ q o o' m, of "\<lambda>_. ''secret''" "\<lambda>_ s. s" ctx s, THEN conjunct2, THEN conjunct2, THEN conjunct1])
      simp_all
  with o show ?thesis by blast
qed

text \<open>A bypassed method of a server that requires scopes is refused all the same: the check of the scopes has no bypass.\<close>

theorem bypass_needs_scopes:
  assumes "rpc_bypassed (ga_BypassPaths a) (ri_FullMethod info)" and "ga_RequiredScopes a \<noteq> []" and "GetClaimsFromContext ctx = None"
  shows "fst (AuthUnaryServerInterceptor auth (ga_BypassPaths a) info
      (chain_interceptors (map RequireScopeUnaryInterceptor (ga_RequiredScopes a)) info h) ctx s) =
    RpcErr Unauthenticated ''No authentication claims found''"
  using assms by (cases "ga_RequiredScopes a") (simp_all add: AuthUnaryServerInterceptor_def RequireScopeUnaryInterceptor_def)

subsection \<open>Panics\<close>

text \<open>
  With a logger no panic of a service or of another interceptor escapes a unary or streaming call: the caller gets an answer or a status.
\<close>

theorem grpc_panics_recovered:
  assumes "createServerOptions new_jwt cert_ok config d w = Some (opts, w')" and "gd_Logger d"
  shows "fst (chain_interceptors (gp_unary opts) info h ctx s) \<noteq> RpcPanic p \<and>
    fst (chain_interceptors (gp_stream opts) info h ctx s) \<noteq> RpcPanic p"
proof -
  have rec: "fst (recover_call info k ctx s) \<noteq> RpcPanic p" for k
    by (auto simp: recover_call_def split: prod.splits rpc.splits)
  show ?thesis
  proof (cases "gd_Tracer d \<and> gd_Metrics d \<noteq> None \<and> gd_Logger d")
    case True
    then obtain metrics where m: "gd_Metrics d = Some metrics" by blast
    show ?thesis by (rule createServerOptions_full [OF assms(1)]) (use True m in \<open>auto simp: combine_def rec\<close>)
  next
    case False
    then show ?thesis by (rule createServerOptions_partial [OF assms(1)]) (simp add: assms(2) rec)
  qed
qed

theorem grpc_panics_recovered_witness:
  "\<exists>opts. createServerOptions (\<lambda>_. Inr no_calls) True demo_grpc_config \<lparr>gd_Logger = True, gd_Metrics = Some NoOpMetrics, gd_Tracer = True\<rparr> () = Some (opts, ()) \<and>
     (\<forall>ctx s p. fst (chain_interceptors (gp_unary opts) demo_call (\<lambda>ctx s. (RpcPanic ''boom'', s) :: string rpc \<times> unit gs) ctx s) \<noteq> RpcPanic p)"
proof -
  let ?d = "\<lparr>gd_Logger = True, gd_Metrics = Some NoOpMetrics, gd_Tracer = True\<rparr>"
  obtain opts :: "(string, unit) grpc_options" where o: "createServerOptions (\<lambda>_. Inr no_calls) True demo_grpc_config ?d () = Some (opts, ())"
    using demo_grpc_options [OF demo_grpc_keepalive(1), of ?d] by auto
  from grpc_panics_recovered [OF o] o show ?thesis by (intro exI [of _ opts]) simp
qed

end
