(* ===== verification/MetricsProps.thy ===== *)
theory MetricsProps
  imports Metrics
begin

text \<open>
  The properties of the metrics: families of metrics keep their kind and labels, histograms and gauges can be asked for again, and counters cannot.
\<close>

subsection \<open>The library\<close>

text \<open>
  What the client library documents: asking for a metric with as many values as the family has labels gives it, with another number of values panics; adding to a counter, setting
  and observing do not panic, but for a negative addition to a counter.
\<close>

locale prometheus_lib =
  fixes lib :: "'s prometheus"
  assumes cardinality: "length values \<noteq> length (ve_labels v) \<Longrightarrow> pm_WithLabelValues lib v values s = None"
    and known: "length values = length (ve_labels v) \<Longrightarrow> \<exists>s'. pm_WithLabelValues lib v values s = Some s'"
    and updated: "u \<in> {AddValue (Fin 1), SubValue (Fin 1)} \<or> (\<exists>x. u = SetValue x \<or> u = ObserveValue x) \<Longrightarrow> \<exists>s'. pm_update lib v values u s = Some s'"
begin

lemma family_without_names: "ve_labels v \<noteq> [] \<Longrightarrow> apply_update lib u (Family v []) s = None"
  by (simp add: cardinality)

lemma recorder_without_names: "ve_labels v \<noteq> [] \<Longrightarrow> recorder lib u (Family v []) labels w = None"
  by (simp add: recorder_def family_without_names del: apply_update.simps)

lemma recorder_with_names:
  assumes "length names = length (ve_labels v)" and "u = AddValue (Fin 1) \<or> (\<exists>x. u = SetValue x \<or> u = ObserveValue x)"
  shows "\<exists>w'. recorder lib u (Family v names) labels w = Some w' \<and> mw_metrics w' = mw_metrics w \<and> mw_app w' = mw_app w"
proof -
  obtain s1 where s1: "pm_WithLabelValues lib v (map (\<lambda>name. case labels name of None \<Rightarrow> [] | Some x \<Rightarrow> x) names) (mw_registry w) = Some s1"
    using known [of "map (\<lambda>name. case labels name of None \<Rightarrow> [] | Some x \<Rightarrow> x) names" v "mw_registry w"] assms(1) by auto
  have "\<exists>s'. pm_update lib v vs u s = Some s'" for vs s using updated [of u v vs s] assms(2) by blast
  then obtain s2 s3 where "pm_update lib v (map (\<lambda>name. case labels name of None \<Rightarrow> [] | Some x \<Rightarrow> x) names) u s1 = Some s2"
    "pm_update lib v [] u s1 = Some s3" by metis
  with s1 show ?thesis by (auto simp: recorder_def Let_def)
qed

end

subsection \<open>Families\<close>

text \<open>Families are kept under the full name of their options.\<close>

definition vec_name :: "vec \<Rightarrow> string" where
  "vec_name v = strings_Join (filter (\<lambda>p. p \<noteq> []) [ve_Namespace v, ve_Subsystem v] @ [ve_Name v]) ''_''"

lemma vec_name_new: "vec_name (new_vec config kind name help buckets labels) = buildMetricName config name"
  by (simp add: vec_name_def new_vec_def buildMetricName_def)

definition metrics_wf :: "prometheusMetrics \<Rightarrow> bool" where
  "metrics_wf m \<longleftrightarrow>
     (\<forall>n v. mt_counters m n = Some v \<longrightarrow> vec_name v = n \<and> ve_kind v = CounterVec) \<and>
     (\<forall>n v. mt_histograms m n = Some v \<longrightarrow> vec_name v = n \<and> ve_kind v = HistogramVec) \<and>
     (\<forall>n v. mt_gauges m n = Some v \<longrightarrow> vec_name v = n \<and> ve_kind v = GaugeVec)"

lemma Counter_wf: "Counter lib name help labels m s = Some (i, m', s') \<Longrightarrow> metrics_wf m \<Longrightarrow> metrics_wf m' \<and> mt_config m' = mt_config m"
  by (auto simp: Counter_def Let_def metrics_wf_def vec_name_new [unfolded new_vec_def] new_vec_def split: if_splits option.splits)

lemma Histogram_wf: "Histogram lib name help buckets labels m s = Some (i, m', s') \<Longrightarrow> metrics_wf m \<Longrightarrow> metrics_wf m' \<and> mt_config m' = mt_config m"
  by (auto simp: Histogram_def Let_def metrics_wf_def vec_name_new [unfolded new_vec_def] new_vec_def split: if_splits option.splits)

lemma Gauge_wf: "Gauge lib name help labels m s = Some (i, m', s') \<Longrightarrow> metrics_wf m \<Longrightarrow> metrics_wf m' \<and> mt_config m' = mt_config m"
  by (auto simp: Gauge_def Let_def metrics_wf_def vec_name_new [unfolded new_vec_def] new_vec_def split: if_splits option.splits)

lemma set_service_info_wf: "set_service_info lib m s = Some (m', s') \<Longrightarrow> metrics_wf m \<Longrightarrow> metrics_wf m' \<and> mt_config m' = mt_config m"
  by (auto simp: set_service_info_def split: if_splits option.splits prod.splits dest: Gauge_wf)

text \<open>What is asked for stays.\<close>

lemma Counter_keeps: "Counter lib name help labels m s = Some (i, m', s') \<Longrightarrow>
    mt_config m' = mt_config m \<and> mt_counters m \<subseteq>\<^sub>m mt_counters m' \<and> mt_histograms m' = mt_histograms m \<and> mt_gauges m' = mt_gauges m"
  by (auto simp: Counter_def Let_def map_le_def split: if_splits option.splits)

lemma Histogram_keeps: "Histogram lib name help buckets labels m s = Some (i, m', s') \<Longrightarrow>
    mt_config m' = mt_config m \<and> mt_counters m' = mt_counters m \<and> mt_histograms m \<subseteq>\<^sub>m mt_histograms m' \<and> mt_gauges m' = mt_gauges m"
  by (auto simp: Histogram_def Let_def map_le_def split: if_splits option.splits)

lemma Gauge_keeps: "Gauge lib name help labels m s = Some (i, m', s') \<Longrightarrow>
    mt_config m' = mt_config m \<and> mt_counters m' = mt_counters m \<and> mt_histograms m' = mt_histograms m \<and> mt_gauges m \<subseteq>\<^sub>m mt_gauges m'"
  by (auto simp: Gauge_def Let_def map_le_def split: if_splits option.splits)

lemma set_service_info_keeps: "set_service_info lib m s = Some (m', s') \<Longrightarrow> mt_config m' = mt_config m \<and> mt_counters m' = mt_counters m"
  by (auto simp: set_service_info_def split: if_splits option.splits prod.splits dest: Gauge_keeps)

lemma Counter_new:
  assumes "Counter lib name help labels m s = Some (i, m', s')" and "me_Enabled (mt_config m)" and "mt_counters m (buildMetricName (mt_config m) name) = None"
  shows "mt_counters m' (buildMetricName (mt_config m) name) = Some (new_vec (mt_config m) CounterVec name help [] labels)"
  using assms by (auto simp: Counter_def Let_def split: option.splits)

text \<open>
  A counter with labels works only for the first caller: asked for again, under whatever labels, it comes without the names of its labels, and incrementing it panics, directly and
  through \<open>WithLabels\<close>.
\<close>

theorem second_counter_panics:
  assumes "prometheus_lib lib" and "me_Enabled (mt_config m)" and "mt_counters m (buildMetricName (mt_config m) name) = None" and "labels \<noteq> []"
    and "Counter lib name help labels m s = Some (i, m1, s1)"
  shows "\<exists>j. Counter lib name help' labels' m1 s2 = Some (j, m1, s2) \<and> Counter_Inc lib j s3 = None \<and>
    (\<exists>j' s4. WithLabels lib values j s3 = Some (j', s4) \<and> Counter_Inc lib j' s4 = None)"
proof -
  have "mt_counters m1 (buildMetricName (mt_config m) name) = Some (new_vec (mt_config m) CounterVec name help [] labels)" "mt_config m1 = mt_config m"
    using Counter_new [OF assms(5,2,3)] Counter_keeps [OF assms(5)] by auto
  then show ?thesis
    using assms(2,4) prometheus_lib.family_without_names [OF assms(1), of "new_vec (mt_config m) CounterVec name help [] labels" "AddValue (Fin 1)" s3]
    by (simp add: Counter_def Counter_Inc_def new_vec_def)
qed

subsection \<open>New metrics\<close>

lemma bind_metrics_SomeE:
  assumes "bind_metrics r f = Some x"
  obtains i m s where "r = Some (i, m, s)" and "f m s = Some x"
  using assms by (auto simp: bind_metrics_def split: option.splits)

text \<open>Registering the default metrics keeps what the operations it consists of keep.\<close>

lemma registerDefaultMetrics_induct:
  assumes reg: "registerDefaultMetrics lib m s = Some (m', s')"
    and first: "\<And>i m1 s1. Counter lib ''http_requests_total'' ''Total number of HTTP requests'' [''method'', ''path'', ''status''] m s = Some (i, m1, s1) \<Longrightarrow> P m1"
    and counter: "\<And>name help labels m s i m1 s1. P m \<Longrightarrow> Counter lib name help labels m s = Some (i, m1, s1) \<Longrightarrow> P m1"
    and histogram: "\<And>name help buckets labels m s i m1 s1. P m \<Longrightarrow> Histogram lib name help buckets labels m s = Some (i, m1, s1) \<Longrightarrow> P m1"
    and gauge: "\<And>name help labels m s i m1 s1. P m \<Longrightarrow> Gauge lib name help labels m s = Some (i, m1, s1) \<Longrightarrow> P m1"
  shows "P m'"
proof -
  have info: "P m2" if "P m1" "set_service_info lib m1 s1 = Some (m2, s2)" for m1 m2 s1 s2
    using that gauge by (auto simp: set_service_info_def split: if_splits option.splits prod.splits)
  show ?thesis
    using reg unfolding registerDefaultMetrics_def
    by (elim bind_metrics_SomeE) (rule info [OF counter [OF gauge [OF counter [OF histogram [OF first]]]]])
qed

lemma registerDefaultMetrics_counters:
  assumes "registerDefaultMetrics lib m s = Some (m', s')" and "me_Enabled (mt_config m)" and "mt_counters m = Map.empty"
  shows "mt_config m' = mt_config m \<and>
    mt_counters m' (buildMetricName (mt_config m) ''http_requests_total'') =
      Some (new_vec (mt_config m) CounterVec ''http_requests_total'' ''Total number of HTTP requests'' [] [''method'', ''path'', ''status''])"
  using assms(1)
proof (rule registerDefaultMetrics_induct, goal_cases)
  case (1 i m1 s1)
  then show ?case using Counter_new [OF 1 assms(2)] Counter_keeps [OF 1] assms(3) by simp
next
  case (2 n h l m1 s i m2 s1)
  then show ?case using Counter_keeps [OF 2(2)] map_leD [of "mt_counters m1" "mt_counters m2"] by auto
next
  case (3 n h bs l m1 s i m2 s1)
  then show ?case using Histogram_keeps [OF 3(2)] by simp
next
  case (4 n h l m1 s i m2 s1)
  then show ?case using Gauge_keeps [OF 4(2)] by simp
qed

lemma NewMetricsWithConfig_counters:
  assumes "NewMetricsWithConfig lib registry config = Some (m, s)" and "me_Enabled config"
  shows "mt_config m = config \<and>
    mt_counters m (buildMetricName config ''http_requests_total'') =
      Some (new_vec config CounterVec ''http_requests_total'' ''Total number of HTTP requests'' [] [''method'', ''path'', ''status''])"
proof -
  let ?m = "\<lparr>mt_config = config, mt_counters = Map.empty, mt_histograms = Map.empty, mt_gauges = Map.empty\<rparr>"
  have "registerDefaultMetrics lib ?m registry = Some (m, s)" using assms by (simp add: NewMetricsWithConfig_def)
  from registerDefaultMetrics_counters [OF this] assms(2) show ?thesis by simp
qed

lemma metrics_wf_new:
  assumes "NewMetricsWithConfig lib registry config = Some (m, s)"
  shows "metrics_wf m \<and> mt_config m = config"
proof -
  let ?m = "\<lparr>mt_config = config, mt_counters = Map.empty, mt_histograms = Map.empty, mt_gauges = Map.empty\<rparr>"
  have wf: "metrics_wf ?m" by (simp add: metrics_wf_def)
  show ?thesis
  proof (cases "me_Enabled config")
    case True
    then have "registerDefaultMetrics lib ?m registry = Some (m, s)" using assms by (simp add: NewMetricsWithConfig_def)
    then show ?thesis
      by (rule registerDefaultMetrics_induct) (use wf in \<open>auto dest: Counter_wf Histogram_wf Gauge_wf\<close>)
  qed (use assms wf in \<open>auto simp: NewMetricsWithConfig_def\<close>)
qed

subsection \<open>A registry in memory\<close>

type_synonym prom_mem = "vec list \<times> ((vec \<times> string list) \<times> metric_update) list"

fun negative_add :: "metric_update \<Rightarrow> bool" where
  "negative_add (AddValue (Fin x)) \<longleftrightarrow> x < 0"
| "negative_add (AddValue NInf) \<longleftrightarrow> True"
| "negative_add _ \<longleftrightarrow> False"

definition prom_mem :: "prom_mem prometheus" where
  "prom_mem =
     \<lparr>pm_MustRegister = (\<lambda>v s. if list_ex (\<lambda>u. vec_name u = vec_name v) (fst s) then None else Some (fst s @ [v], snd s)),
      pm_WithLabelValues = (\<lambda>v values s. if length values = length (ve_labels v) then Some s else None),
      pm_update = (\<lambda>v values u s. if ve_kind v = CounterVec \<and> negative_add u then None else Some (fst s, snd s @ [((v, values), u)]))\<rparr>"

interpretation prom: prometheus_lib prom_mem
  by unfold_locales (auto simp: prom_mem_def)

definition demo_metrics :: prometheusMetrics where
  "demo_metrics = \<lparr>mt_config = DefaultMetricsConfig, mt_counters = Map.empty, mt_histograms = Map.empty, mt_gauges = Map.empty\<rparr>"

theorem second_counter_panics_witness:
  "\<exists>i m j. Counter prom_mem ''jobs'' [] [''queue''] demo_metrics ([], []) = Some i \<and> m = fst (snd i) \<and>
     Counter prom_mem ''jobs'' [] [''queue''] m (snd (snd i)) = Some (j, m, snd (snd i)) \<and> Counter_Inc prom_mem j (snd (snd i)) = None"
proof -
  obtain i m s where c: "Counter prom_mem ''jobs'' [] [''queue''] demo_metrics ([], []) = Some (i, m, s)"
    by (auto simp: Counter_def demo_metrics_def DefaultMetricsConfig_def prom_mem_def Let_def)
  have "\<exists>j. Counter prom_mem ''jobs'' [] [''queue''] m s = Some (j, m, s) \<and> Counter_Inc prom_mem j s = None"
    using second_counter_panics [OF prom.prometheus_lib_axioms _ _ _ c, of "[]" "[''queue'']" s s "Map.empty"]
    by (auto simp: demo_metrics_def DefaultMetricsConfig_def)
  with c show ?thesis by auto
qed

subsection \<open>Types of families\<close>

datatype metric_ask = AskCounter string string "string list" | AskHistogram string string "float64 list" "string list" | AskGauge string string "string list"

fun ask :: "'s prometheus \<Rightarrow> metric_ask \<Rightarrow> prometheusMetrics \<Rightarrow> 's \<Rightarrow> (instrument \<times> prometheusMetrics \<times> 's) option" where
  "ask lib (AskCounter n h ls) m s = Counter lib n h ls m s"
| "ask lib (AskHistogram n h bs ls) m s = Histogram lib n h bs ls m s"
| "ask lib (AskGauge n h ls) m s = Gauge lib n h ls m s"

fun asked_kind :: "metric_ask \<Rightarrow> vec_kind" where
  "asked_kind (AskCounter n h ls) = CounterVec"
| "asked_kind (AskHistogram n h bs ls) = HistogramVec"
| "asked_kind (AskGauge n h ls) = GaugeVec"

fun asked_name :: "metric_ask \<Rightarrow> string" where
  "asked_name (AskCounter n h ls) = n"
| "asked_name (AskHistogram n h bs ls) = n"
| "asked_name (AskGauge n h ls) = n"

fun asks :: "'s prometheus \<Rightarrow> metric_ask list \<Rightarrow> prometheusMetrics \<Rightarrow> 's \<Rightarrow> (instrument list \<times> prometheusMetrics \<times> 's) option" where
  "asks lib [] m s = Some ([], m, s)"
| "asks lib (q # qs) m s =
     (case ask lib q m s of
        None \<Rightarrow> None
      | Some (i, m, s) \<Rightarrow> map_option (\<lambda>(is, m, s). (i # is, m, s)) (asks lib qs m s))"

definition right_family :: "MetricsConfig \<Rightarrow> metric_ask \<Rightarrow> instrument \<Rightarrow> bool" where
  "right_family config q i =
     (case i of
        NoopInstrument \<Rightarrow> \<not> me_Enabled config
      | Family v names \<Rightarrow> ve_kind v = asked_kind q \<and> vec_name v = buildMetricName config (asked_name q)
      | Labelled v values \<Rightarrow> False)"

lemma ask_typed:
  assumes "ask lib q m s = Some (i, m', s')" and "metrics_wf m"
  shows "metrics_wf m' \<and> mt_config m' = mt_config m \<and> right_family (mt_config m) q i"
proof -
  have "metrics_wf m' \<and> mt_config m' = mt_config m" using assms by (cases q) (auto dest: Counter_wf Histogram_wf Gauge_wf)
  moreover have "right_family (mt_config m) q i"
    using assms
    by (cases q) (auto simp: right_family_def Counter_def Histogram_def Gauge_def Let_def metrics_wf_def vec_name_new new_vec_def [THEN arg_cong [of _ _ ve_kind]]
        split: if_splits option.splits)
  ultimately show ?thesis by blast
qed

text \<open>
  C24: Metrics are typed: after any requests for counters, histograms and gauges, in any order and however often, every instrument handed out is of the kind that was asked for and belongs
  to the family with the full name - namespace, subsystem and name - that was asked for; it is a dummy exactly if metrics are disabled.
\<close>

theorem metrics_typed:
  assumes "NewMetricsWithConfig lib registry config = Some (m, s)" and "asks lib qs m s = Some (is, m', s')"
  shows "length is = length qs \<and> (\<forall>k < length qs. right_family config (qs ! k) (is ! k)) \<and> metrics_wf m'"
proof -
  have "metrics_wf m" "mt_config m = config" using metrics_wf_new [OF assms(1)] by auto
  then show ?thesis using assms(2)
  proof (induction qs arbitrary: m s "is")
    case (Cons q qs)
    obtain i m1 s1 where a: "ask lib q m s = Some (i, m1, s1)" using Cons.prems(3) by (auto split: option.splits)
    obtain js where r: "asks lib qs m1 s1 = Some (js, m', s')" "is = i # js" using Cons.prems(3) a by auto
    have t: "metrics_wf m1" "mt_config m1 = config" "right_family config q i" using ask_typed [OF a Cons.prems(1)] Cons.prems(2) by auto
    from Cons.IH [OF t(1,2) r(1)] t(3) show ?case by (auto simp: r(2) nth_Cons split: nat.split)
  qed simp
qed

lemma new_metrics_mem: "\<exists>m s. NewMetricsWithConfig prom_mem ([], []) DefaultMetricsConfig = Some (m, s) \<and> map vec_name (fst s) =
    [''microlib_service_http_requests_total'', ''microlib_service_http_request_duration_seconds'', ''microlib_service_http_request_errors_total'',
     ''microlib_service_service_info'', ''microlib_service_service_started_total'']"
  by (simp add: NewMetricsWithConfig_def DefaultMetricsConfig_def registerDefaultMetrics_def bind_metrics_def Counter_def Histogram_def Gauge_def
      set_service_info_def prom_mem_def buildMetricName_def new_vec_def vec_name_def Let_def)

theorem metrics_typed_witness:
  "\<exists>m s i m' s'. NewMetricsWithConfig prom_mem ([], []) DefaultMetricsConfig = Some (m, s) \<and> asks prom_mem [AskGauge ''jobs'' [] []] m s = Some ([i], m', s') \<and>
     right_family DefaultMetricsConfig (AskGauge ''jobs'' [] []) i"
proof -
  obtain m s where n: "NewMetricsWithConfig prom_mem ([], []) DefaultMetricsConfig = Some (m, s)" and names: "map vec_name (fst s) =
    [''microlib_service_http_requests_total'', ''microlib_service_http_request_duration_seconds'', ''microlib_service_http_request_errors_total'',
     ''microlib_service_service_info'', ''microlib_service_service_started_total'']" using new_metrics_mem by (elim exE conjE) (rule that)
  have free: "\<not> list_ex (\<lambda>u. vec_name u = ''microlib_service_jobs'') (fst s)"
  proof
    assume "list_ex (\<lambda>u. vec_name u = ''microlib_service_jobs'') (fst s)"
    then have "''microlib_service_jobs'' \<in> set (map vec_name (fst s))" unfolding list_ex_iff set_map by (metis image_eqI)
    then show False unfolding names by simp
  qed
  have c: "mt_config m = DefaultMetricsConfig" using metrics_wf_new [OF n] by simp
  let ?v = "new_vec DefaultMetricsConfig GaugeVec ''jobs'' [] [] []"
  have "vec_name ?v = ''microlib_service_jobs''" by (simp add: vec_name_def new_vec_def DefaultMetricsConfig_def)
  then have r: "pm_MustRegister prom_mem ?v s = Some (fst s @ [?v], snd s)" using free by (simp add: prom_mem_def)
  have "\<exists>x. Gauge prom_mem ''jobs'' [] [] m s = Some x" by (simp add: Gauge_def c r Let_def split: option.split)
  then obtain i m' s' where "Gauge prom_mem ''jobs'' [] [] m s = Some (i, m', s')" by (metis prod_cases3)
  then have a: "asks prom_mem [AskGauge ''jobs'' [] []] m s = Some ([i], m', s')" by simp
  have "right_family DefaultMetricsConfig (AskGauge ''jobs'' [] []) i" using metrics_typed [OF n a] by simp
  with n a show ?thesis by blast
qed

end
