(* ===== verification/ObservedServers.thy ===== *)
theory ObservedServers
  imports HttpProps GrpcProps MetricsProps
begin

text \<open>
  The servers with the metrics of the package: what the panics of counters that are asked for again do to requests and calls.
\<close>

subsection \<open>Counters that are asked for again\<close>

lemma Counter_again:
  assumes "prometheus_lib lib" and "me_Enabled (mt_config (mw_metrics w))"
    and "mt_counters (mw_metrics w) (buildMetricName (mt_config (mw_metrics w)) name) = Some v" and "ve_labels v \<noteq> []"
  shows "mc_Counter (prometheus_client lib elapsed) name help labels w = Some (recorder lib (AddValue (Fin 1)) (Family v []), w)"
    and "recorder lib (AddValue (Fin 1)) (Family v []) ls w' = None"
  using assms(2-4) prometheus_lib.recorder_without_names [OF assms(1), of v]
  by (simp_all add: prometheus_client_def with_recorder_def Counter_def)

subsection \<open>HTTP\<close>

text \<open>The metrics still have the counters they were made with.\<close>

definition default_metrics :: "('s, 'a) metrics_world \<Rightarrow> bool" where
  "default_metrics w \<longleftrightarrow> me_Enabled (mt_config (mw_metrics w)) \<and>
     (\<exists>v. mt_counters (mw_metrics w) (buildMetricName (mt_config (mw_metrics w)) ''http_requests_total'') = Some v \<and> ve_labels v \<noteq> [])"

lemma default_metrics_new:
  assumes "NewMetricsWithConfig lib registry config = Some (m, s)" and "me_Enabled config"
  shows "default_metrics \<lparr>mw_metrics = m, mw_registry = s, mw_app = a\<rparr>"
  using NewMetricsWithConfig_counters [OF assms] assms(2) by (simp add: default_metrics_def new_vec_def)

lemma http_record_panics:
  assumes "prometheus_lib lib" and "default_metrics w"
  shows "http_record (prometheus_client lib elapsed) method path code w = (True, w)"
proof -
  obtain v where v: "mt_counters (mw_metrics w) (buildMetricName (mt_config (mw_metrics w)) ''http_requests_total'') = Some v" "ve_labels v \<noteq> []"
    "me_Enabled (mt_config (mw_metrics w))" using assms(2) by (auto simp: default_metrics_def)
  show ?thesis
    by (simp add: http_record_def record_on_def Let_def Counter_again(1) [OF assms(1) v(3,1,2)] Counter_again(2) [OF assms(1) v(3,1,2)])
qed

lemma MetricsMiddleware_panics:
  assumes "prometheus_lib lib" and "\<And>s p s'. h r s = (p, s') \<Longrightarrow> default_metrics (hs_world s) \<Longrightarrow> default_metrics (hs_world s')"
    and "default_metrics (hs_world s)"
  shows "\<exists>p s'. MetricsMiddleware (prometheus_client lib elapsed) h r s = (Some p, s')"
proof -
  obtain p s1 where h: "h r (s\<lparr>hs_captures := (200, 0) # hs_captures s\<rparr>) = (p, s1)" by fastforce
  have "default_metrics (hs_world s1)" using assms(2) [OF h] assms(3) by simp
  then have "http_record (prometheus_client lib elapsed) meth path code (hs_world s1) = (True, hs_world s1)" for meth path code
    by (rule http_record_panics [OF assms(1)])
  then show ?thesis
    using h by (auto simp: MetricsMiddleware_def wrapped_def split: option.split prod.split)
qed

definition keeps_default :: "http_request \<Rightarrow> ('s, 'a) metrics_world handler \<Rightarrow> bool" where
  "keeps_default r h \<longleftrightarrow> (\<forall>s. default_metrics (hs_world s) \<longrightarrow> default_metrics (hs_world (snd (h r s))))"

lemma LoggingMiddleware_keeps: "keeps_default r h \<Longrightarrow> keeps_default r (LoggingMiddleware h)"
proof -
  assume h: "keeps_default r h"
  have "default_metrics (hs_world (snd (LoggingMiddleware h r s)))" if "default_metrics (hs_world s)" for s
  proof -
    let ?s = "(report (RequestStarted (ht_Method r) (ht_Path r)) s)\<lparr>hs_captures := (200, 0) # hs_captures (report (RequestStarted (ht_Method r) (ht_Path r)) s)\<rparr>"
    have "default_metrics (hs_world (snd (h r ?s)))" using h that by (simp add: keeps_default_def report_def)
    then show ?thesis by (auto simp: LoggingMiddleware_def wrapped_def report_def Let_def split: prod.splits option.splits)
  qed
  then show ?thesis by (simp add: keeps_default_def)
qed

lemma observe_chain_panics:
  assumes "prometheus_lib lib" and "dp_Metrics d = Some (prometheus_client lib elapsed)" and "keeps_default r h" and "default_metrics (hs_world s)"
  shows "\<exists>p s'. Chain_Apply (observe_chain d) h r s = (Some p, s')"
proof -
  let ?h = "Chain_Apply (if dp_Logger d then [LoggingMiddleware] else []) h"
  have k: "keeps_default r ?h" using LoggingMiddleware_keeps [OF assms(3)] assms(3) by simp
  have m: "\<exists>p s'. MetricsMiddleware (prometheus_client lib elapsed) ?h r s = (Some p, s')" if "default_metrics (hs_world s)" for s
  proof (rule MetricsMiddleware_panics [OF assms(1) _ that])
    fix s1 p s2 assume "?h r s1 = (p, s2)" "default_metrics (hs_world s1)"
    then show "default_metrics (hs_world s2)" using k unfolding keeps_default_def by (metis snd_conv)
  qed
  have "\<exists>p s'. TracingMiddleware (MetricsMiddleware (prometheus_client lib elapsed) ?h) r s = (Some p, s')"
    using m [of "s\<lparr>hs_captures := (200, 0) # hs_captures s\<rparr>"] assms(4) by (auto simp: TracingMiddleware_def wrapped_def Let_def)
  then show ?thesis using m [OF assms(4)] by (auto simp: observe_chain_def assms(2))
qed

text \<open>The handler is reached, with nothing sent by then, and nothing is sent after it.\<close>

definition reaches :: "http_request \<Rightarrow> 'w handler \<Rightarrow> 'w handler \<Rightarrow> bool" where
  "reaches r h H \<longleftrightarrow> (\<forall>s. \<exists>s0 p s1. h r s0 = (p, s1) \<and> hs_code s0 = hs_code s \<and> hs_body s0 = hs_body s \<and> hs_world s0 = hs_world s \<and>
     hs_code (snd (H r s)) = hs_code s1 \<and> hs_body (snd (H r s)) = hs_body s1)"

lemma reaches_refl [simp]: "reaches r h h"
  unfolding reaches_def by (metis prod.collapse)

lemma reachesI:
  assumes "reaches r h H"
    and "\<And>s. \<exists>s0. hs_code s0 = hs_code s \<and> hs_body s0 = hs_body s \<and> hs_world s0 = hs_world s \<and>
      hs_code (snd (H' r s)) = hs_code (snd (H r s0)) \<and> hs_body (snd (H' r s)) = hs_body (snd (H r s0))"
  shows "reaches r h H'"
  using assms unfolding reaches_def by metis

lemma wrapped_reaches:
  assumes "reaches r h H" and "\<And>s. \<exists>f. (\<forall>s. hs_code (f s) = hs_code s \<and> hs_body (f s) = hs_body s \<and> hs_world (f s) = hs_world s) \<and>
    (\<forall>p c s1. wrapped H r (f s) = (p, c, s1) \<longrightarrow> hs_code (snd (H' r s)) = hs_code s1 \<and> hs_body (snd (H' r s)) = hs_body s1)"
  shows "reaches r h H'"
proof (rule reachesI [OF assms(1)])
  fix s
  obtain f where f: "\<forall>s. hs_code (f s) = hs_code s \<and> hs_body (f s) = hs_body s \<and> hs_world (f s) = hs_world s"
    "\<forall>p c s1. wrapped H r (f s) = (p, c, s1) \<longrightarrow> hs_code (snd (H' r s)) = hs_code s1 \<and> hs_body (snd (H' r s)) = hs_body s1"
    using assms(2) [of s] by blast
  let ?s0 = "(f s)\<lparr>hs_captures := (200, 0) # hs_captures (f s)\<rparr>"
  obtain p s1 where h: "H r ?s0 = (p, s1)" by fastforce
  then have "hs_code (snd (H' r s)) = hs_code s1 \<and> hs_body (snd (H' r s)) = hs_body s1" using f(2) by (simp add: wrapped_def)
  then show "\<exists>s0. hs_code s0 = hs_code s \<and> hs_body s0 = hs_body s \<and> hs_world s0 = hs_world s \<and>
      hs_code (snd (H' r s)) = hs_code (snd (H r s0)) \<and> hs_body (snd (H' r s)) = hs_body (snd (H r s0))"
    using f(1) h by (intro exI [of _ ?s0]) simp
qed

lemma observers_reach:
  assumes "reaches r h H"
  shows "reaches r h (LoggingMiddleware H)" "reaches r h (MetricsMiddleware metrics H)" "reaches r h (TracingMiddleware H)"
proof -
  show "reaches r h (TracingMiddleware H)"
    by (rule wrapped_reaches [OF assms], rule exI [of _ "\<lambda>s. s"]) (auto simp: TracingMiddleware_def Let_def split: option.split)
  show "reaches r h (MetricsMiddleware metrics H)"
    by (rule wrapped_reaches [OF assms], rule exI [of _ "\<lambda>s. s"]) (auto simp: MetricsMiddleware_def split: option.split prod.split)
  show "reaches r h (LoggingMiddleware H)"
    by (rule wrapped_reaches [OF assms], rule exI [of _ "report (RequestStarted (ht_Method r) (ht_Path r))"])
      (auto simp: LoggingMiddleware_def report_def Let_def split: option.split)
qed

lemma headers_world:
  "hs_world (security_headers x s) = hs_world s" "hs_world (cors_headers y s) = hs_world s"
  by (simp_all add: security_headers_def cors_headers_def set_if_def set_header_def)

lemma front_reaches:
  assumes "reaches r h H"
  shows "reaches r h (SecurityHeadersMiddleware c H)" and "ht_Method r \<noteq> ''OPTIONS'' \<Longrightarrow> reaches r h (CORSMiddleware c' H)"
proof -
  show "reaches r h (SecurityHeadersMiddleware c H)"
    by (rule reachesI [OF assms], rule exI [of _ "security_headers c s" for s]) (simp add: mw_defs headers_world)
  assume "ht_Method r \<noteq> ''OPTIONS''"
  then show "reaches r h (CORSMiddleware c' H)"
    by (intro reachesI [OF assms] exI [of _ "cors_headers c' s" for s]) (simp add: mw_defs headers_world)
qed

lemma chain_reaches:
  assumes "ht_Method r \<noteq> ''OPTIONS''"
  shows "reaches r h (Chain_Apply (tl (front_chain config d)) (Chain_Apply (observe_chain d) h))"
proof -
  have "reaches r h (Chain_Apply (observe_chain d) h)"
    by (simp add: observe_chain_def observers_reach split: option.split)
  then show ?thesis using assms by (simp add: front_chain_def front_reaches)
qed

text \<open>
  C22: a server with a logger and the metrics of the package and without authentication and OpenAPI spoils every request that is no preflight one: a metric of
  requests was registered when the metrics were made, so that the counter the middleware asks for after the handler panics.  Whatever the handler does, the client
  gets the status the handler has sent, 500 when it sent none, and the text of the error after what the handler wrote.
\<close>

theorem http_metrics_fail_requests:
  assumes "prometheus_lib lib" and "NewServerWithConfig new_jwt load_spec page config d = Some srv" and "sc_Auth config = None" and "sc_OpenAPI config = None"
    and "dp_Logger d" and "dp_Metrics d = Some (prometheus_client lib elapsed)" and "ht_Method r \<noteq> ''OPTIONS''"
    and "keeps_default r h" and "default_metrics (hs_world s)"
  shows "\<exists>s0 p s1 answer. h r s0 = (p, s1) \<and> hs_code s0 = hs_code s \<and> hs_body s0 = hs_body s \<and> hs_world s0 = hs_world s \<and>
    Chain_Apply (sr_middleware srv) h r s = (None, answer) \<and>
    hs_code answer = Some (case hs_code s1 of None \<Rightarrow> 500 | Some c \<Rightarrow> c) \<and> hs_body answer = hs_body s1 @ ''Internal Server Error'' @ [CHR 0x0A]"
proof -
  have c: "sr_middleware srv = front_chain config d @ observe_chain d"
    using server_chain [OF assms(2)] assms(3,4) by (simp add: auth_chain_def openapi_chain_def)
  have o: "\<exists>p s2. Chain_Apply (observe_chain d) h r s1 = (Some p, s2)" if "default_metrics (hs_world s1)" for s1
    using observe_chain_panics [OF assms(1,6,8) that] .
  have "\<exists>p s2. Chain_Apply (tl (front_chain config d)) (Chain_Apply (observe_chain d) h) r s = (Some p, s2)"
    using o [of s] o [of "security_headers (sc_SecurityHeaders config) s"] o [of "cors_headers (sc_CORS config) s"]
      o [of "cors_headers (sc_CORS config) (security_headers (sc_SecurityHeaders config) s)"] assms(7,9)
    by (auto simp: front_chain_def mw_defs headers_world)
  then obtain p s2 where p: "Chain_Apply (tl (front_chain config d)) (Chain_Apply (observe_chain d) h) r s = (Some p, s2)" by blast
  obtain s0 q s1 where "h r s0 = (q, s1)" "hs_code s0 = hs_code s" "hs_body s0 = hs_body s" "hs_world s0 = hs_world s"
    "hs_code s2 = hs_code s1" "hs_body s2 = hs_body s1"
    using chain_reaches [OF assms(7), of h config d] p unfolding reaches_def by (metis snd_conv)
  moreover have "Chain_Apply (sr_middleware srv) h r s = RecoveryMiddleware True (Chain_Apply (tl (front_chain config d)) (Chain_Apply (observe_chain d) h)) r s"
    using assms(5) by (simp add: c front_chain_def)
  then have "Chain_Apply (sr_middleware srv) h r s = (None, http_Error ''Internal Server Error'' 500 (report (PanicLogged (ht_Method r) (ht_Path r) p) s2))"
    by (simp add: RecoveryMiddleware_def p)
  ultimately show ?thesis by (auto simp: http_Error_answer)
qed

definition fresh_answer :: "'w \<Rightarrow> 'w hs" where
  "fresh_answer w = \<lparr>hs_headers = Map.empty, hs_code = None, hs_body = [], hs_captures = [], hs_events = [], hs_world = w\<rparr>"

theorem http_metrics_fail_requests_witness:
  "\<exists>srv m w answer. NewServerWithConfig (\<lambda>_. Inl (ErrJWKSFetchFailed [])) (\<lambda>_. Inl []) (\<lambda>_. []) (DefaultServerConfig\<lparr>sc_Auth := None, sc_OpenAPI := None\<rparr>)
       \<lparr>dp_Logger = True, dp_Metrics = Some (prometheus_client prom_mem (Fin 1)), dp_Tracer = True\<rparr> = Some (srv :: (prom_mem, unit) metrics_world server) \<and>
     NewMetricsWithConfig prom_mem ([], []) DefaultMetricsConfig = Some (m, w) \<and>
     Chain_Apply (sr_middleware srv) (\<lambda>r s. (None, s)) (plain_request ''/orders'') (fresh_answer \<lparr>mw_metrics = m, mw_registry = w, mw_app = ()\<rparr>) = (None, answer) \<and>
     hs_code answer = Some 500"
proof -
  let ?d = "\<lparr>dp_Logger = True, dp_Metrics = Some (prometheus_client prom_mem (Fin 1)), dp_Tracer = True\<rparr>"
  obtain m w where n: "NewMetricsWithConfig prom_mem ([], []) DefaultMetricsConfig = Some (m, w)" using new_metrics_mem by (elim exE conjE) (rule that)
  obtain srv :: "(prom_mem, unit) metrics_world server" where srv: "NewServerWithConfig (\<lambda>_. Inl (ErrJWKSFetchFailed [])) (\<lambda>_. Inl []) (\<lambda>_. [])
      (DefaultServerConfig\<lparr>sc_Auth := None, sc_OpenAPI := None\<rparr>) ?d = Some srv"
    by (simp add: NewServerWithConfig_def registerDefaultMiddleware_def register_openapi_def register_auth_chain register_front_chain)
  have d: "default_metrics \<lparr>mw_metrics = m, mw_registry = w, mw_app = ()\<rparr>"
    by (rule default_metrics_new [OF n]) (simp add: DefaultMetricsConfig_def)
  let ?s = "fresh_answer \<lparr>mw_metrics = m, mw_registry = w, mw_app = ()\<rparr>"
  have k: "keeps_default (plain_request ''/orders'') (\<lambda>r s. (None, s))" by (simp add: keeps_default_def)
  have "default_metrics (hs_world ?s)" "hs_code ?s = None" "ht_Method (plain_request ''/orders'') \<noteq> ''OPTIONS''"
    using d by (simp_all add: fresh_answer_def plain_request_def)
  with http_metrics_fail_requests [OF prom.prometheus_lib_axioms srv _ _ _ _ _ k, of "Fin 1" ?s] n srv show ?thesis by auto
qed

subsection \<open>gRPC\<close>

text \<open>A counter, if it is there, has labels.\<close>

definition labelled :: "string \<Rightarrow> ('s, 'a) metrics_world \<Rightarrow> bool" where
  "labelled name w \<longleftrightarrow> (\<forall>v. mt_counters (mw_metrics w) (buildMetricName (mt_config (mw_metrics w)) name) = Some v \<longrightarrow> ve_labels v \<noteq> [])"

definition has_counter :: "string \<Rightarrow> ('s, 'a) metrics_world \<Rightarrow> bool" where
  "has_counter name w \<longleftrightarrow> me_Enabled (mt_config (mw_metrics w)) \<and> labelled name w \<and>
     mt_counters (mw_metrics w) (buildMetricName (mt_config (mw_metrics w)) name) \<noteq> None"

lemma interceptor_asks:
  assumes "metrics_interceptor (mc_Counter (prometheus_client lib elapsed) name hint labels) (mc_Histogram (prometheus_client lib elapsed) name' hint' buckets labels') ls w = Some (u, w')"
    and "me_Enabled (mt_config (mw_metrics w))" and "labels \<noteq> []"
  shows "labelled name w \<Longrightarrow> has_counter name w'" and "labelled other w \<Longrightarrow> labelled other w'" and "has_counter other w \<Longrightarrow> has_counter other w'"
    and "me_Enabled (mt_config (mw_metrics w'))"
  using assms
  by (auto simp: metrics_interceptor_def prometheus_client_def with_recorder_def Counter_def Histogram_def has_counter_def labelled_def new_vec_def Let_def
      split: option.splits if_splits)

lemma interceptor_again:
  assumes "prometheus_lib lib"
    and "metrics_interceptor (mc_Counter (prometheus_client lib elapsed) name hint labels) ask_duration ls w = Some (u, w')" and "has_counter name w"
  shows "\<exists>c d. u = metrics_call c d ls \<and> (\<forall>l w. c l w = None)"
proof -
  obtain v where v: "me_Enabled (mt_config (mw_metrics w))" "mt_counters (mw_metrics w) (buildMetricName (mt_config (mw_metrics w)) name) = Some v" "ve_labels v \<noteq> []"
    using assms(3) by (auto simp: has_counter_def labelled_def)
  have "\<exists>d. u = metrics_call (recorder lib (AddValue (Fin 1)) (Family v [])) d ls"
    using assms(2) by (auto simp: metrics_interceptor_def Counter_again(1) [OF assms(1) v] split: option.splits)
  then show ?thesis using Counter_again(2) [OF assms(1) v] by blast
qed

lemma combine_panics:
  assumes "\<exists>c d. u = metrics_call c d ls \<and> (\<forall>l w. c l w = None)"
  shows "fst (combine u info h ctx s) = RpcErr Internal ''Internal server error''"
  using assms
  by (auto simp: combine_def recover_call_def trace_call_def log_and_span_def log_call_def metrics_call_def emit_def Let_def split: option.splits prod.splits rpc.splits)

text \<open>
  C23: A gRPC server with a tracer, a logger and the metrics of the package answers every call, unary or streaming and whatever the handler, with an internal error: the interceptors of the
  metrics are made twice, the second ones - the ones that are used - get counters without label names, and these panic on every call.
\<close>

theorem grpc_metrics_fail_calls:
  fixes opts :: "('r, ('s, 'a) metrics_world) grpc_options"
  assumes "prometheus_lib lib" and "gd_Logger d" and "gd_Tracer d" and "gd_Metrics d = Some (prometheus_client lib elapsed)"
    and "me_Enabled (mt_config (mw_metrics w))" and "labelled ''grpc_server_requests_total'' w" and "labelled ''grpc_server_streams_total'' w"
    and "createServerOptions new_jwt cert_ok config d w = Some (opts, w')"
  shows "fst (chain_interceptors (gp_unary opts) info h ctx s) = RpcErr Internal ''Internal server error'' \<and>
    fst (chain_interceptors (gp_stream opts) info h ctx s) = RpcErr Internal ''Internal server error''"
proof -
  let ?m = "prometheus_client lib elapsed"
  obtain u t :: "('r, ('s, 'a) metrics_world) interceptor" and w2 u' w3 t' where i: "metrics_interceptors d w = Some (([u], [t]), w2)"
    "MetricsUnaryServerInterceptor ?m w2 = Some (u', w3)" "MetricsStreamServerInterceptor ?m w3 = Some (t', w')"
    and o: "gp_unary opts = [combine u']" "gp_stream opts = [combine t']"
    by (rule createServerOptions_full [OF assms(8,3,2,4)])
  obtain w1 where first: "MetricsUnaryServerInterceptor ?m w = Some (u, w1)" "MetricsStreamServerInterceptor ?m w1 = Some (t, w2)"
    using i(1) assms(4) by (auto simp: metrics_interceptors_def pair_of_def split: option.splits prod.splits)
  note a = interceptor_asks [OF first(1) [unfolded MetricsUnaryServerInterceptor_def] assms(5)]
  note b = interceptor_asks [OF first(2) [unfolded MetricsStreamServerInterceptor_def] a(4)]
  have h: "has_counter ''grpc_server_requests_total'' w2" "has_counter ''grpc_server_streams_total'' w2" "me_Enabled (mt_config (mw_metrics w2))"
    using a(1) [OF _ assms(6)] a(2) [OF _ assms(7)] b(1,3,4) by simp_all
  have "has_counter ''grpc_server_streams_total'' w3"
    using interceptor_asks(3) [OF i(2) [unfolded MetricsUnaryServerInterceptor_def] h(3) _ h(2)] by simp
  then show ?thesis
    using combine_panics [OF interceptor_again [OF assms(1) i(2) [unfolded MetricsUnaryServerInterceptor_def] h(1)]]
      combine_panics [OF interceptor_again [OF assms(1) i(3) [unfolded MetricsStreamServerInterceptor_def]]] by (simp add: o)
qed

lemma demo_grpc_metrics:
  assumes "gc_KeepAlive config \<noteq> None"
  shows "\<exists>opts w'. createServerOptions new_jwt cert_ok config \<lparr>gd_Logger = True, gd_Metrics = Some (prometheus_client prom_mem (Fin 1)), gd_Tracer = True\<rparr>
     \<lparr>mw_metrics = demo_metrics, mw_registry = ([], []), mw_app = ()\<rparr> = Some (opts, w')"
  using assms
  by (auto simp: createServerOptions_def metrics_interceptors_def replace_all_def pair_of_def observability_defs prometheus_client_def with_recorder_def Counter_def Histogram_def
      demo_metrics_def DefaultMetricsConfig_def prom_mem_def vec_name_def new_vec_def buildMetricName_def Let_def split: prod.split)

theorem grpc_metrics_fail_calls_witness:
  "\<exists>opts w'. createServerOptions (\<lambda>_. Inr \<lparr>at_validate = (\<lambda>t w. (Inl ErrInvalidToken, w)), at_config = DefaultAuthConfig, at_error_text = (\<lambda>_. [])\<rparr>) True demo_grpc_config
       \<lparr>gd_Logger = True, gd_Metrics = Some (prometheus_client prom_mem (Fin 1)), gd_Tracer = True\<rparr>
       \<lparr>mw_metrics = demo_metrics, mw_registry = ([], []), mw_app = ()\<rparr> = Some (opts, w') \<and>
     (\<forall>ctx s. fst (chain_interceptors (gp_unary opts) demo_call (\<lambda>ctx s. (RpcOk ''orders'', s)) ctx s) = RpcErr Internal ''Internal server error'')"
proof -
  let ?w = "\<lparr>mw_metrics = demo_metrics, mw_registry = ([], []), mw_app = ()\<rparr>"
  let ?d = "\<lparr>gd_Logger = True, gd_Metrics = Some (prometheus_client prom_mem (Fin 1)), gd_Tracer = True\<rparr>"
  let ?j = "\<lambda>_. Inr \<lparr>at_validate = (\<lambda>t w. (Inl ErrInvalidToken, w)), at_config = DefaultAuthConfig, at_error_text = (\<lambda>_. [])\<rparr>"
  obtain opts :: "(string, (prom_mem, unit) metrics_world) grpc_options" and w' where o: "createServerOptions ?j True demo_grpc_config ?d ?w = Some (opts, w')"
    using demo_grpc_metrics [OF demo_grpc_keepalive(1)] by blast
  show ?thesis
    using grpc_metrics_fail_calls [OF prom.prometheus_lib_axioms _ _ _ _ _ _ o, where info = demo_call and h = "\<lambda>ctx s. (RpcOk ''orders'', s)" and elapsed = "Fin 1"] o
    by (intro exI [of _ opts] exI [of _ w']) (simp add: demo_metrics_def DefaultMetricsConfig_def labelled_def)
qed

end
