(* ===== verification/Secrets.thy ===== *)
theory Secrets
  imports Complex_Main Prelude
begin

text \<open>
  Package security, \<open>secrets.go\<close>: secret stores, the cache in front of them and the store in memory.  The
  interface \<open>SecretStore\<close> is the record of its methods over the state \<open>'s\<close> of the store; the laws a
  store promises are the locale \<open>secret_store\<close>.  A value is the string of its bytes.  A call that reads the
  store and then writes the cache is two steps of \<open>css_step\<close>, between which other calls may run.
\<close>

subsection \<open>Configuration and interface\<close>

datatype secret_error =
    ErrSecretNotFound
  | ErrInvalidSecretValue
  | ErrSecretStore string
  | ErrUnsupportedProvider

record SecretAuthConfig =
  sa_Method :: string
  sa_Token :: string
  sa_RoleID :: string
  sa_SecretID :: string
  sa_ClientID :: string
  sa_ClientSecret :: string
  sa_ManagedIdentity :: bool

record SecretConfig =
  sc_Provider :: string
  sc_Address :: string
  sc_Namespace :: string
  sc_Path :: string
  sc_CacheTTL :: duration
  sc_RefreshInterval :: duration
  sc_Auth :: SecretAuthConfig

definition DefaultSecretConfig :: SecretConfig where
  "DefaultSecretConfig =
     \<lparr>sc_Provider = ''memory'', sc_Address = [], sc_Namespace = [], sc_Path = ''secrets'',
      sc_CacheTTL = 15 * Minute, sc_RefreshInterval = 5 * Minute,
      sc_Auth = \<lparr>sa_Method = [], sa_Token = [], sa_RoleID = [], sa_SecretID = [], sa_ClientID = [],
                 sa_ClientSecret = [], sa_ManagedIdentity = False\<rparr>\<rparr>"

record 's SecretStore =
  sto_GetSecret :: "string \<Rightarrow> 's \<Rightarrow> (secret_error + string) \<times> 's"
  sto_SetSecret :: "string \<Rightarrow> string \<Rightarrow> duration \<Rightarrow> 's \<Rightarrow> secret_error option \<times> 's"
  sto_DeleteSecret :: "string \<Rightarrow> 's \<Rightarrow> secret_error option \<times> 's"
  sto_ListSecrets :: "string \<Rightarrow> 's \<Rightarrow> ((secret_error + string list) \<times> 's) option" \<comment> \<open>None: the call never returns\<close>
  sto_Health :: "'s \<Rightarrow> secret_error option \<times> 's"
  sto_Close :: "'s \<Rightarrow> secret_error option \<times> 's"

subsection \<open>The store in memory\<close>

type_synonym MemorySecretStore = "string \<rightharpoonup> string"

definition NewMemorySecretStore :: MemorySecretStore where
  "NewMemorySecretStore = Map.empty"

definition mem_GetSecret :: "string \<Rightarrow> MemorySecretStore \<Rightarrow> secret_error + string" where
  "mem_GetSecret key m = (case m key of None \<Rightarrow> Inl ErrSecretNotFound | Some value \<Rightarrow> Inr value)"

definition mem_SetSecret :: "string \<Rightarrow> string \<Rightarrow> duration \<Rightarrow> MemorySecretStore \<Rightarrow> secret_error option \<times> MemorySecretStore" where
  "mem_SetSecret key value ttl m = (None, m(key \<mapsto> value))"

definition mem_DeleteSecret :: "string \<Rightarrow> MemorySecretStore \<Rightarrow> secret_error option \<times> MemorySecretStore" where
  "mem_DeleteSecret key m = (None, m(key := None))"

text \<open>The order in which a map is ranged over is an argument.\<close>

definition mem_ListSecrets :: "(MemorySecretStore \<Rightarrow> string list) \<Rightarrow> string \<Rightarrow> MemorySecretStore \<Rightarrow> secret_error + string list" where
  "mem_ListSecrets order pre m =
     Inr (filter (\<lambda>key. pre = [] \<or> (length pre \<le> length key \<and> take (length pre) key = pre)) (order m))"

definition mem_Health :: "MemorySecretStore \<Rightarrow> secret_error option" where
  "mem_Health m = None"

definition mem_Close :: "MemorySecretStore \<Rightarrow> secret_error option \<times> MemorySecretStore" where
  "mem_Close m = (None, Map.empty)"

definition memory_store :: "(MemorySecretStore \<Rightarrow> string list) \<Rightarrow> MemorySecretStore SecretStore" where
  "memory_store order =
     \<lparr>sto_GetSecret = (\<lambda>key m. (mem_GetSecret key m, m)), sto_SetSecret = mem_SetSecret,
      sto_DeleteSecret = mem_DeleteSecret, sto_ListSecrets = (\<lambda>pre m. Some (mem_ListSecrets order pre m, m)), sto_Health = (\<lambda>m. (mem_Health m, m)),
      sto_Close = mem_Close\<rparr>"

subsection \<open>The cache\<close>

record cachedSecret =
  cs_value :: string
  cs_expiration :: time

record CachedSecretStore =
  css_cache :: "string \<rightharpoonup> cachedSecret"
  css_cacheTTL :: duration
  css_refreshTicker :: "duration option"
  css_refreshKeys :: "string set"
  css_refreshRunning :: bool
  css_stopped :: bool

definition NewCachedSecretStore :: "duration \<Rightarrow> duration \<Rightarrow> CachedSecretStore" where
  "NewCachedSecretStore cacheTTL refreshInterval =
     \<lparr>css_cache = Map.empty, css_cacheTTL = cacheTTL,
      css_refreshTicker = (if 0 < refreshInterval then Some refreshInterval else None),
      css_refreshKeys = {}, css_refreshRunning = (0 < refreshInterval), css_stopped = False\<rparr>"

definition cache_lookup :: "time \<Rightarrow> string \<Rightarrow> CachedSecretStore \<Rightarrow> string option" where
  "cache_lookup now key c =
     (case css_cache c key of
        None \<Rightarrow> None
      | Some cached \<Rightarrow> if now < cs_expiration cached then Some (cs_value cached) else None)"

definition cache_put :: "time \<Rightarrow> string \<Rightarrow> string \<Rightarrow> CachedSecretStore \<Rightarrow> CachedSecretStore" where
  "cache_put now key value c =
     c\<lparr>css_cache := (css_cache c)(key \<mapsto> \<lparr>cs_value = value, cs_expiration = now + css_cacheTTL c\<rparr>)\<rparr>"

definition cache_track :: "string \<Rightarrow> CachedSecretStore \<Rightarrow> CachedSecretStore" where
  "cache_track key c = c\<lparr>css_refreshKeys := insert key (css_refreshKeys c)\<rparr>"

definition cached_GetSecret ::
  "'s SecretStore \<Rightarrow> time \<Rightarrow> string \<Rightarrow> CachedSecretStore \<times> 's \<Rightarrow> (secret_error + string) \<times> CachedSecretStore \<times> 's" where
  "cached_GetSecret st now key cs =
     (case cs of (c, s) \<Rightarrow>
        (case cache_lookup now key c of
           Some value \<Rightarrow> (Inr value, c, s)
         | None \<Rightarrow>
             (case sto_GetSecret st key s of
                (Inl err, s) \<Rightarrow> (Inl err, c, s)
              | (Inr value, s) \<Rightarrow> (Inr value, cache_track key (cache_put now key value c), s))))"

definition cached_SetSecret ::
  "'s SecretStore \<Rightarrow> time \<Rightarrow> string \<Rightarrow> string \<Rightarrow> duration \<Rightarrow> CachedSecretStore \<times> 's \<Rightarrow> secret_error option \<times> CachedSecretStore \<times> 's" where
  "cached_SetSecret st now key value ttl cs =
     (case cs of (c, s) \<Rightarrow>
        (case sto_SetSecret st key value ttl s of
           (Some err, s) \<Rightarrow> (Some err, c, s)
         | (None, s) \<Rightarrow> (None, cache_track key (cache_put now key value c), s)))"

definition cache_remove :: "string \<Rightarrow> CachedSecretStore \<Rightarrow> CachedSecretStore" where
  "cache_remove key c =
     c\<lparr>css_cache := (css_cache c)(key := None), css_refreshKeys := css_refreshKeys c - {key}\<rparr>"

definition cached_DeleteSecret ::
  "'s SecretStore \<Rightarrow> string \<Rightarrow> CachedSecretStore \<times> 's \<Rightarrow> secret_error option \<times> CachedSecretStore \<times> 's" where
  "cached_DeleteSecret st key cs =
     (case cs of (c, s) \<Rightarrow>
        (case sto_DeleteSecret st key s of
           (Some err, s) \<Rightarrow> (Some err, c, s)
         | (None, s) \<Rightarrow> (None, cache_remove key c, s)))"

definition cached_ListSecrets :: "'s SecretStore \<Rightarrow> string \<Rightarrow> CachedSecretStore \<times> 's \<Rightarrow> ((secret_error + string list) \<times> CachedSecretStore \<times> 's) option" where
  "cached_ListSecrets st pre cs = map_option (\<lambda>(r, s). (r, fst cs, s)) (sto_ListSecrets st pre (snd cs))"

definition cached_Health :: "'s SecretStore \<Rightarrow> CachedSecretStore \<times> 's \<Rightarrow> secret_error option \<times> CachedSecretStore \<times> 's" where
  "cached_Health st cs = (case sto_Health st (snd cs) of (r, s) \<Rightarrow> (r, fst cs, s))"

text \<open>The flag \<open>refreshRunning\<close> keeps the channel from being closed twice.\<close>

definition cached_Close :: "'s SecretStore \<Rightarrow> CachedSecretStore \<times> 's \<Rightarrow> secret_error option \<times> CachedSecretStore \<times> 's" where
  "cached_Close st cs =
     (case cs of (c, s) \<Rightarrow>
        (let c = (if css_refreshRunning c then c\<lparr>css_stopped := True, css_refreshRunning := False\<rparr> else c);
             c = c\<lparr>css_cache := Map.empty, css_refreshKeys := {}\<rparr>;
             (err, s) = sto_Close st s
         in (err, c, s)))"

text \<open>One key of a refresh; the order of the keys is that of the map.\<close>

definition refresh_key :: "'s SecretStore \<Rightarrow> time \<Rightarrow> string \<Rightarrow> CachedSecretStore \<times> 's \<Rightarrow> CachedSecretStore \<times> 's" where
  "refresh_key st now key cs =
     (case cs of (c, s) \<Rightarrow>
        (if css_cache c key = None then (c, s)
         else case sto_GetSecret st key s of
             (Inl err, s) \<Rightarrow> (c, s)
           | (Inr value, s) \<Rightarrow> (cache_put now key value c, s)))"

definition refreshCachedSecrets :: "'s SecretStore \<Rightarrow> (time \<times> string) list \<Rightarrow> CachedSecretStore \<times> 's \<Rightarrow> CachedSecretStore \<times> 's" where
  "refreshCachedSecrets st keysToRefresh cs = foldl (\<lambda>cs (now, key). refresh_key st now key cs) cs keysToRefresh"

definition cached_store :: "'s SecretStore \<Rightarrow> time \<Rightarrow> (CachedSecretStore \<times> 's) SecretStore" where
  "cached_store st now =
     \<lparr>sto_GetSecret = cached_GetSecret st now, sto_SetSecret = cached_SetSecret st now,
      sto_DeleteSecret = cached_DeleteSecret st, sto_ListSecrets = cached_ListSecrets st,
      sto_Health = cached_Health st, sto_Close = cached_Close st\<rparr>"

text \<open>
  The choice of a store: \<open>new_store\<close> gives the stores of Vault, AWS and Azure or their errors.  The result is a store, and
  a cache in front of it if the TTL is positive.
\<close>

definition NewSecretStore ::
  "(string \<Rightarrow> secret_error + 's SecretStore) \<Rightarrow> 's SecretStore \<Rightarrow> SecretConfig \<Rightarrow> secret_error + 's SecretStore \<times> CachedSecretStore option" where
  "NewSecretStore new_store mem config =
     (let store = (if sc_Provider config \<in> {''vault'', ''aws'', ''azure''} then new_store (sc_Provider config)
                   else if sc_Provider config = ''memory'' then Inr mem
                   else Inl ErrUnsupportedProvider)
      in case store of
           Inl err \<Rightarrow> Inl err
         | Inr store \<Rightarrow>
             Inr (store, if 0 < sc_CacheTTL config then Some (NewCachedSecretStore (sc_CacheTTL config) (sc_RefreshInterval config))
                         else None))"

end
