(* ===== verification/VaultSecrets.thy ===== *)
theory VaultSecrets
  imports Secrets GoPath GoUtf8
begin

text \<open>
  Package security: the secret stores of HashiCorp Vault (\<open>vault_secrets.go\<close>), AWS (\<open>aws_secrets.go\<close>) and Azure (\<open>azure_secrets.go\<close>).
  Vault is reached over HTTP: the server with what lies between is the argument \<open>lib\<close>, a function on its state \<open>'w\<close>, together with
  the decoders of its JSON answers.  JSON strings are valid UTF-8, so that what is sent is repaired (\<open>GoUtf8\<close>).  One call happens at one
  instant \<open>now\<close>.
\<close>

subsection \<open>Requests and answers\<close>

record vaultAuthResponse =
  va_ClientToken :: string
  va_Accessor :: string
  va_Policies :: "string list"
  va_TokenPolicies :: "string list"
  va_Metadata :: "string \<rightharpoonup> string"
  va_LeaseDuration :: int
  va_Renewable :: bool

datatype vault_value = VaultString string | VaultOther

record vaultSecretResponse =
  vd_Data :: "string \<rightharpoonup> vault_value"
  vd_CreatedTime :: string
  vd_DeletionTime :: string
  vd_Destroyed :: bool
  vd_Version :: int

record vaultListResponse =
  vl_Keys :: "string list"

datatype vault_body =
    LoginBody string string \<comment> \<open>\<open>role_id\<close> and \<open>secret_id\<close>\<close>
  | DataBody string "duration option" \<comment> \<open>\<open>data.value\<close> and \<open>options.ttl\<close>\<close>

record vault_request =
  vq_Method :: string
  vq_URL :: string
  vq_Header :: "string \<rightharpoonup> string"
  vq_Body :: "vault_body option"

record 'b vault_response =
  vr_StatusCode :: int
  vr_Status :: string
  vr_Body :: 'b

record ('b, 'w) vault =
  vt_NewRequest :: "string \<Rightarrow> string \<Rightarrow> string option" \<comment> \<open>the error for a method and a URL\<close>
  vt_Do :: "vault_request \<Rightarrow> 'w \<Rightarrow> (string + 'b vault_response) \<times> 'w"
  vt_auth :: "'b \<Rightarrow> string + vaultAuthResponse" \<comment> \<open>the decoders of the body\<close>
  vt_secret :: "'b \<Rightarrow> string + vaultSecretResponse"
  vt_list :: "'b \<Rightarrow> string + vaultListResponse"

record VaultSecretStore =
  vs_config :: SecretConfig
  vs_token :: string
  vs_baseURL :: string
  vs_basePath :: string
  vs_namespace :: string
  vs_expiration :: time

text \<open>Creating and sending a request.\<close>

definition vault_send :: "('b, 'w) vault \<Rightarrow> vault_request \<Rightarrow> 'w \<Rightarrow> (secret_error + 'b vault_response) \<times> 'w" where
  "vault_send lib req w =
     (case vt_NewRequest lib (vq_Method req) (vq_URL req) of
        Some e \<Rightarrow> (Inl (ErrSecretStore e), w)
      | None \<Rightarrow> (case vt_Do lib req w of (Inl e, w) \<Rightarrow> (Inl (ErrSecretStore e), w) | (Inr resp, w) \<Rightarrow> (Inr resp, w)))"

definition vault_headers :: "VaultSecretStore \<Rightarrow> bool \<Rightarrow> bool \<Rightarrow> string \<rightharpoonup> string" where
  "vault_headers v json token =
     Map.empty(''Content-Type'' := if json then Some ''application/json'' else None,
               ''X-Vault-Token'' := if token then Some (vs_token v) else None,
               ''X-Vault-Namespace'' := if vs_namespace v \<noteq> [] then Some (vs_namespace v) else None)"

subsection \<open>Authentication\<close>

definition login_request :: "VaultSecretStore \<Rightarrow> vault_request" where
  "login_request v =
     \<lparr>vq_Method = ''POST'', vq_URL = vs_baseURL v @ ''/v1/auth/approle/login'', vq_Header = vault_headers v True False,
      vq_Body = Some (LoginBody (utf8_repair (sa_RoleID (sc_Auth (vs_config v)))) (utf8_repair (sa_SecretID (sc_Auth (vs_config v)))))\<rparr>"

definition authenticateAppRole :: "('b, 'w) vault \<Rightarrow> time \<Rightarrow> VaultSecretStore \<times> 'w \<Rightarrow> (secret_error + string) \<times> VaultSecretStore \<times> 'w" where
  "authenticateAppRole lib now vw =
     (case vw of (v, w) \<Rightarrow>
        if sa_RoleID (sc_Auth (vs_config v)) = [] \<or> sa_SecretID (sc_Auth (vs_config v)) = []
        then (Inl (ErrSecretStore ''approle authentication requires role_id and secret_id''), v, w)
        else
          (case vault_send lib (login_request v) w of
             (Inl e, w) \<Rightarrow> (Inl e, v, w)
           | (Inr resp, w) \<Rightarrow>
               if vr_StatusCode resp \<noteq> 200 then (Inl (ErrSecretStore (''vault authentication failed with status: '' @ vr_Status resp)), v, w)
               else (case vt_auth lib (vr_Body resp) of
                   Inl e \<Rightarrow> (Inl (ErrSecretStore e), v, w)
                 | Inr authResp \<Rightarrow>
                     let v = (if 0 < va_LeaseDuration authResp then v\<lparr>vs_expiration := now + va_LeaseDuration authResp * 8 div 10 * Second\<rparr> else v)
                     in (Inr (va_ClientToken authResp), v, w))))"

definition authenticate :: "('b, 'w) vault \<Rightarrow> time \<Rightarrow> VaultSecretStore \<times> 'w \<Rightarrow> secret_error option \<times> VaultSecretStore \<times> 'w" where
  "authenticate lib now vw =
     (case vw of (v, w) \<Rightarrow>
        let auth = sc_Auth (vs_config v);
            result = (if sa_Method auth = ''token''
                      then (if sa_Token auth = [] then Inl (ErrSecretStore ''token authentication requires a token'') else Inr (sa_Token auth), v, w)
                      else if sa_Method auth = ''approle'' then authenticateAppRole lib now (v, w)
                      else (Inl (ErrSecretStore (''unsupported authentication method: '' @ sa_Method auth)), v, w))
        in case result of
             (Inl e, vw) \<Rightarrow> (Some e, vw)
           | (Inr token, v, w) \<Rightarrow> (None, v\<lparr>vs_token := token, vs_expiration := now + 1 * Hour\<rparr>, w))"

definition ensureAuthenticated :: "('b, 'w) vault \<Rightarrow> time \<Rightarrow> VaultSecretStore \<times> 'w \<Rightarrow> secret_error option \<times> VaultSecretStore \<times> 'w" where
  "ensureAuthenticated lib now vw =
     (if vs_token (fst vw) = [] \<or> vs_expiration (fst vw) < now then authenticate lib now vw else (None, vw))"

fun secret_error_text :: "secret_error \<Rightarrow> string" where
  "secret_error_text ErrSecretNotFound = ''secret not found''"
| "secret_error_text ErrInvalidSecretValue = ''invalid secret value''"
| "secret_error_text (ErrSecretStore e) = e"
| "secret_error_text ErrUnsupportedProvider = ''unsupported secret store provider''"

definition vault_address :: "string \<Rightarrow> string" where
  "vault_address address =
     (if \<not> strings_HasPrefix address ''http://'' \<and> \<not> strings_HasPrefix address ''https://'' then ''https://'' @ address else address)"

definition NewVaultSecretStore :: "('b, 'w) vault \<Rightarrow> time \<Rightarrow> SecretConfig \<Rightarrow> 'w \<Rightarrow> (secret_error + VaultSecretStore) \<times> 'w" where
  "NewVaultSecretStore lib now config w =
     (if sc_Address config = [] then (Inl (ErrSecretStore ''vault address is required''), w)
      else
        (case authenticate lib now
           (\<lparr>vs_config = config, vs_token = [], vs_baseURL = vault_address (sc_Address config), vs_basePath = sc_Path config,
             vs_namespace = sc_Namespace config, vs_expiration = zero_Time\<rparr>, w) of
           (Some e, v, w) \<Rightarrow> (Inl (ErrSecretStore (''vault authentication failed: '' @ secret_error_text e)), w)
         | (None, v, w) \<Rightarrow> (Inr v, w)))"

subsection \<open>Operations\<close>

definition data_url :: "VaultSecretStore \<Rightarrow> string \<Rightarrow> string" where
  "data_url v key = vs_baseURL v @ ''/v1/'' @ vs_basePath v @ ''/data/'' @ key"

definition metadata_url :: "VaultSecretStore \<Rightarrow> string \<Rightarrow> string" where
  "metadata_url v listPath = vs_baseURL v @ ''/v1/'' @ vs_basePath v @ ''/metadata/'' @ listPath"

definition get_request :: "VaultSecretStore \<Rightarrow> string \<Rightarrow> vault_request" where
  "get_request v key = \<lparr>vq_Method = ''GET'', vq_URL = data_url v key, vq_Header = vault_headers v False True, vq_Body = None\<rparr>"

definition read_secret :: "('b, 'w) vault \<Rightarrow> 'b vault_response \<Rightarrow> secret_error + string" where
  "read_secret lib resp =
     (if vr_StatusCode resp = 404 then Inl ErrSecretNotFound
      else if vr_StatusCode resp \<noteq> 200 then Inl (ErrSecretStore (''vault request failed with status: '' @ vr_Status resp))
      else case vt_secret lib (vr_Body resp) of
          Inl e \<Rightarrow> Inl (ErrSecretStore e)
        | Inr secretResp \<Rightarrow>
            (case vd_Data secretResp ''value'' of
               None \<Rightarrow> Inl ErrInvalidSecretValue
             | Some VaultOther \<Rightarrow> Inl ErrInvalidSecretValue
             | Some (VaultString strValue) \<Rightarrow> Inr strValue))"

definition vault_GetSecret :: "('b, 'w) vault \<Rightarrow> time \<Rightarrow> string \<Rightarrow> VaultSecretStore \<times> 'w \<Rightarrow> (secret_error + string) \<times> VaultSecretStore \<times> 'w" where
  "vault_GetSecret lib now key vw =
     (case ensureAuthenticated lib now vw of
        (Some e, vw) \<Rightarrow> (Inl e, vw)
      | (None, v, w) \<Rightarrow>
          (case vault_send lib (get_request v key) w of
             (Inl e, w) \<Rightarrow> (Inl e, v, w)
           | (Inr resp, w) \<Rightarrow> (read_secret lib resp, v, w)))"

definition set_request :: "VaultSecretStore \<Rightarrow> string \<Rightarrow> string \<Rightarrow> duration \<Rightarrow> vault_request" where
  "set_request v key value ttl =
     \<lparr>vq_Method = ''POST'', vq_URL = data_url v key, vq_Header = vault_headers v True True,
      vq_Body = Some (DataBody (utf8_repair value) (if 0 < ttl then Some ttl else None))\<rparr>"

text \<open>An answer to a change.\<close>

definition changed :: "'b vault_response \<Rightarrow> secret_error option" where
  "changed resp =
     (if vr_StatusCode resp \<noteq> 200 \<and> vr_StatusCode resp \<noteq> 204 then Some (ErrSecretStore (''vault request failed with status: '' @ vr_Status resp)) else None)"

definition vault_SetSecret ::
  "('b, 'w) vault \<Rightarrow> time \<Rightarrow> string \<Rightarrow> string \<Rightarrow> duration \<Rightarrow> VaultSecretStore \<times> 'w \<Rightarrow> secret_error option \<times> VaultSecretStore \<times> 'w" where
  "vault_SetSecret lib now key value ttl vw =
     (case ensureAuthenticated lib now vw of
        (Some e, vw) \<Rightarrow> (Some e, vw)
      | (None, v, w) \<Rightarrow>
          (case vault_send lib (set_request v key value ttl) w of
             (Inl e, w) \<Rightarrow> (Some e, v, w)
           | (Inr resp, w) \<Rightarrow> (changed resp, v, w)))"

definition delete_request :: "VaultSecretStore \<Rightarrow> string \<Rightarrow> vault_request" where
  "delete_request v key = \<lparr>vq_Method = ''DELETE'', vq_URL = data_url v key, vq_Header = vault_headers v False True, vq_Body = None\<rparr>"

definition vault_DeleteSecret :: "('b, 'w) vault \<Rightarrow> time \<Rightarrow> string \<Rightarrow> VaultSecretStore \<times> 'w \<Rightarrow> secret_error option \<times> VaultSecretStore \<times> 'w" where
  "vault_DeleteSecret lib now key vw =
     (case ensureAuthenticated lib now vw of
        (Some e, vw) \<Rightarrow> (Some e, vw)
      | (None, v, w) \<Rightarrow>
          (case vault_send lib (delete_request v key) w of
             (Inl e, w) \<Rightarrow> (Some e, v, w)
           | (Inr resp, w) \<Rightarrow> (changed resp, v, w)))"

definition list_request :: "VaultSecretStore \<Rightarrow> string \<Rightarrow> vault_request" where
  "list_request v pre = \<lparr>vq_Method = ''LIST'', vq_URL = metadata_url v pre, vq_Header = vault_headers v False True, vq_Body = None\<rparr>"

text \<open>The names of a directory; \<open>None\<close> stands for one that does not exist.\<close>

definition read_list :: "('b, 'w) vault \<Rightarrow> 'b vault_response \<Rightarrow> secret_error + string list option" where
  "read_list lib resp =
     (if vr_StatusCode resp = 404 then Inr None
      else if vr_StatusCode resp \<noteq> 200 then Inl (ErrSecretStore (''vault request failed with status: '' @ vr_Status resp))
      else case vt_list lib (vr_Body resp) of Inl e \<Rightarrow> Inl (ErrSecretStore e) | Inr listResp \<Rightarrow> Inr (Some (vl_Keys listResp)))"

text \<open>The loop over the names, with the recursive call as an argument; it is \<open>None\<close> when a recursive call never returns.\<close>

primrec list_keys ::
  "(string \<Rightarrow> 's \<Rightarrow> ((secret_error + string list) \<times> 's) option) \<Rightarrow> string \<Rightarrow> string list \<Rightarrow> string list \<Rightarrow> 's \<Rightarrow> ((secret_error + string list) \<times> 's) option" where
  "list_keys lst pre [] keys s = Some (Inr keys, s)"
| "list_keys lst pre (key # names) keys s =
     (if strings_HasSuffix key ''/'' then
        Option.bind (lst (path_Join pre key) s)
          (\<lambda>(r, s). case r of Inl e \<Rightarrow> Some (Inl e, s) | Inr subKeys \<Rightarrow> list_keys lst pre names (keys @ subKeys) s)
      else list_keys lst pre names (keys @ [if pre \<noteq> [] then path_Join pre key else key]) s)"

lemma list_keys_mono [partial_function_mono]:
  assumes "\<And>p s. mono_option (\<lambda>f. F f p s)"
  shows "mono_option (\<lambda>f. list_keys (F f) pre names keys s)"
proof (induction names arbitrary: keys s)
  case (Cons key names)
  have "mono_option (\<lambda>f. case r of Inl e \<Rightarrow> Some (Inl e, s) | Inr subKeys \<Rightarrow> list_keys (F f) pre names (keys @ subKeys) s)" for r :: "secret_error + string list" and keys s
    using Cons.IH by (cases r) (auto intro: option.const_mono)
  then show ?case using assms Cons.IH by (cases "strings_HasSuffix key ''/''") (auto intro!: bind_mono)
qed (simp add: option.const_mono)

partial_function (option) vault_ListSecrets ::
  "('b, 'w) vault \<Rightarrow> time \<Rightarrow> string \<Rightarrow> VaultSecretStore \<times> 'w \<Rightarrow> ((secret_error + string list) \<times> VaultSecretStore \<times> 'w) option" where
  "vault_ListSecrets lib now pre vw =
     (case ensureAuthenticated lib now vw of
        (Some e, vw) \<Rightarrow> Some (Inl e, vw)
      | (None, v, w) \<Rightarrow>
          (case vault_send lib (list_request v pre) w of
             (Inl e, w) \<Rightarrow> Some (Inl e, v, w)
           | (Inr resp, w) \<Rightarrow>
               (case read_list lib resp of
                  Inl e \<Rightarrow> Some (Inl e, v, w)
                | Inr None \<Rightarrow> Some (Inr [], v, w)
                | Inr (Some names) \<Rightarrow> list_keys (vault_ListSecrets lib now) pre names [] (v, w))))"

definition vault_Health :: "('b, 'w) vault \<Rightarrow> VaultSecretStore \<times> 'w \<Rightarrow> secret_error option \<times> VaultSecretStore \<times> 'w" where
  "vault_Health lib vw =
     (case vw of (v, w) \<Rightarrow>
        (case vault_send lib \<lparr>vq_Method = ''GET'', vq_URL = vs_baseURL v @ ''/v1/sys/health'', vq_Header = Map.empty, vq_Body = None\<rparr> w of
           (Inl e, w) \<Rightarrow> (Some e, v, w)
         | (Inr resp, w) \<Rightarrow>
             (if vr_StatusCode resp \<noteq> 200 then Some (ErrSecretStore (''vault health check failed with status: '' @ vr_Status resp)) else None, v, w)))"

definition vault_Close :: "VaultSecretStore \<times> 'w \<Rightarrow> secret_error option \<times> VaultSecretStore \<times> 'w" where
  "vault_Close vw = (None, vw)"

definition vault_store :: "('b, 'w) vault \<Rightarrow> time \<Rightarrow> (VaultSecretStore \<times> 'w) SecretStore" where
  "vault_store lib now =
     \<lparr>sto_GetSecret = vault_GetSecret lib now, sto_SetSecret = vault_SetSecret lib now, sto_DeleteSecret = vault_DeleteSecret lib now,
      sto_ListSecrets = vault_ListSecrets lib now, sto_Health = vault_Health lib, sto_Close = vault_Close\<rparr>"

subsection \<open>AWS and Azure\<close>

text \<open>
  Both stores answer every call with an error: what would call the services is commented out.  Their constructors check the health of the store they made, so
  that they return an error always.
\<close>

record AWSSecretStore =
  aw_config :: SecretConfig

definition aws_missing :: secret_error where
  "aws_missing = ErrSecretStore ''AWS Secrets Manager integration not implemented''"

definition aws_GetSecret :: "string \<Rightarrow> AWSSecretStore \<Rightarrow> secret_error + string" where
  "aws_GetSecret key a = Inl aws_missing"
definition aws_SetSecret :: "string \<Rightarrow> string \<Rightarrow> duration \<Rightarrow> AWSSecretStore \<Rightarrow> secret_error option" where
  "aws_SetSecret key value ttl a = Some aws_missing"
definition aws_DeleteSecret :: "string \<Rightarrow> AWSSecretStore \<Rightarrow> secret_error option" where
  "aws_DeleteSecret key a = Some aws_missing"
definition aws_ListSecrets :: "string \<Rightarrow> AWSSecretStore \<Rightarrow> secret_error + string list" where
  "aws_ListSecrets pre a = Inl aws_missing"
definition aws_Health :: "AWSSecretStore \<Rightarrow> secret_error option" where
  "aws_Health a = Some aws_missing"
definition aws_Close :: "AWSSecretStore \<Rightarrow> secret_error option" where
  "aws_Close a = None"

definition NewAWSSecretStore :: "SecretConfig \<Rightarrow> secret_error + AWSSecretStore" where
  "NewAWSSecretStore config =
     (if sc_Address config = [] then Inl (ErrSecretStore ''aws region is required in address field'')
      else case aws_Health \<lparr>aw_config = config\<rparr> of
          Some e \<Rightarrow> Inl (ErrSecretStore (''aws secrets manager connection failed: '' @ secret_error_text e))
        | None \<Rightarrow> Inr \<lparr>aw_config = config\<rparr>)"

definition getFullSecretPath :: "string \<Rightarrow> AWSSecretStore \<Rightarrow> string" where
  "getFullSecretPath key a = (if sc_Path (aw_config a) = [] then key else sc_Path (aw_config a) @ ''/'' @ key)"

record AzureSecretStore =
  az_config :: SecretConfig

definition azure_missing :: secret_error where
  "azure_missing = ErrSecretStore ''Azure Key Vault integration not implemented''"

definition azure_GetSecret :: "string \<Rightarrow> AzureSecretStore \<Rightarrow> secret_error + string" where
  "azure_GetSecret key a = Inl azure_missing"
definition azure_SetSecret :: "string \<Rightarrow> string \<Rightarrow> duration \<Rightarrow> AzureSecretStore \<Rightarrow> secret_error option" where
  "azure_SetSecret key value ttl a = Some azure_missing"
definition azure_DeleteSecret :: "string \<Rightarrow> AzureSecretStore \<Rightarrow> secret_error option" where
  "azure_DeleteSecret key a = Some azure_missing"
definition azure_ListSecrets :: "string \<Rightarrow> AzureSecretStore \<Rightarrow> secret_error + string list" where
  "azure_ListSecrets pre a = Inl azure_missing"
definition azure_Health :: "AzureSecretStore \<Rightarrow> secret_error option" where
  "azure_Health a = Some azure_missing"
definition azure_Close :: "AzureSecretStore \<Rightarrow> secret_error option" where
  "azure_Close a = None"

definition NewAzureSecretStore :: "SecretConfig \<Rightarrow> secret_error + AzureSecretStore" where
  "NewAzureSecretStore config =
     (if sc_Address config = [] then Inl (ErrSecretStore ''azure key vault name is required in address field'')
      else case azure_Health \<lparr>az_config = config\<rparr> of
          Some e \<Rightarrow> Inl (ErrSecretStore (''azure key vault connection failed: '' @ secret_error_text e))
        | None \<Rightarrow> Inr \<lparr>az_config = config\<rparr>)"

definition azure_char :: "char \<Rightarrow> bool" where
  "azure_char r \<longleftrightarrow> alnum r \<or> r = CHR ''-''"

definition azure_map :: "string \<Rightarrow> string" where
  "azure_map = map_runes azure_char (CHR ''-'')"

definition sanitizeKey :: "string \<Rightarrow> AzureSecretStore \<Rightarrow> string" where
  "sanitizeKey key a = (if sc_Path (az_config a) \<noteq> [] then sc_Path (az_config a) @ ''-'' @ azure_map key else azure_map key)"

lemma AWS_and_Azure_unavailable: "\<exists>e e'. NewAWSSecretStore config = Inl e \<and> NewAzureSecretStore config = Inl e'"
  by (simp add: NewAWSSecretStore_def NewAzureSecretStore_def aws_Health_def azure_Health_def)

end
