(* ===== verification/VaultProps.thy ===== *)
theory VaultProps
  imports VaultSecrets "HOL-Library.Multiset"
begin

text \<open>
  The properties of the Vault store, on any server that keeps what the documentation of the KV secrets engine (version 2) says: the locale
  \<open>kv_engine\<close>.  A key has metadata once it was written and keeps them when it is deleted.
\<close>

subsection \<open>Keys and directories\<close>

text \<open>Keys of plain segments of characters that need no escape in a URL.\<close>

definition vault_key :: "string \<Rightarrow> bool" where
  "vault_key k \<longleftrightarrow> plain_path k \<and> list_all (\<lambda>c. byte_in 97 122 c \<or> byte_in 65 90 c \<or> byte_in 48 57 c \<or> c \<in> set ''-_.~/'') k"



text \<open>What a directory lists of a path in it: the name of a secret, or that of a directory with its slash.\<close>

definition first_name :: "string \<Rightarrow> string" where
  "first_name r = takeWhile (\<lambda>c. c \<noteq> CHR ''/'') r @ (if CHR ''/'' \<in> set r then ''/'' else [])"

definition name_in :: "string \<Rightarrow> string \<Rightarrow> string" where
  "name_in pre k = first_name (drop (length (in_dir pre [])) k)"



lemma name_in_dir [simp]: "name_in pre (in_dir pre r) = first_name r"
  by (simp add: name_in_def in_dir_def)

lemma in_dir_inject [simp]: "in_dir pre a = in_dir pre b \<longleftrightarrow> a = b"
  by (simp add: in_dir_def)









text \<open>The store is one of this engine.\<close>

definition site :: "string \<Rightarrow> string \<Rightarrow> VaultSecretStore \<Rightarrow> bool" where
  "site base mount v \<longleftrightarrow> vs_baseURL v = base \<and> vs_basePath v = mount"

lemma site_update [simp]:
  "site base mount (v\<lparr>vs_token := t\<rparr>) = site base mount v" "site base mount (v\<lparr>vs_expiration := e\<rparr>) = site base mount v"
  by (simp_all add: site_def)



subsection \<open>Calls and the table they are compared with\<close>

datatype vault_op = VGet string | VSet string string duration | VDelete string | VList string

definition op_ok :: "vault_op \<Rightarrow> bool" where
  "op_ok op \<longleftrightarrow> (case op of VGet k \<Rightarrow> vault_key k | VSet k x ttl \<Rightarrow> vault_key k | VDelete k \<Rightarrow> vault_key k | VList pre \<Rightarrow> pre = [] \<or> vault_key pre)"

lemma op_ok_simps [simp]:
  "op_ok (VGet k) = vault_key k" "op_ok (VSet k x ttl) = vault_key k" "op_ok (VDelete k) = vault_key k" "op_ok (VList pre) \<longleftrightarrow> pre = [] \<or> vault_key pre"
  by (simp_all add: op_ok_def)





subsection \<open>The engine\<close>


subsection \<open>A server that answers\<close>





subsection \<open>The store is a table\<close>


subsection \<open>An engine in memory\<close>












subsection \<open>Examples\<close>







text \<open>
  The lease of a token counts for nothing: after a login, whatever lease the server granted, the token is used for an hour.
\<close>

theorem lease_ignored:
  assumes "authenticate lib now vw = (None, v', w')"
  shows "vs_expiration v' = now + Hour"
  using assms by (auto simp: authenticate_def Let_def split: prod.splits sum.splits if_splits)

text \<open>A secret that is no text is read back as another one.\<close>

lemma binary_secret_mangled: "utf8_repair [CHR 0xFF] = [CHR 0xEF, CHR 0xBF, CHR 0xBD]"
  by code_simp

end
