(* ===== verification/SecretsProps.thy ===== *)
theory SecretsProps
  imports Secrets
begin

text \<open>
  The properties of the secret stores: a cache in front of a store is again a store, a client reads what it
  wrote, and what the cache serves was in the store not longer ago than the TTL and the latency of
  a call, however calls interleave.
\<close>

subsection \<open>What a store promises\<close>

locale secret_store =
  fixes st :: "'s SecretStore" and contents :: "'s \<Rightarrow> string \<rightharpoonup> string"
  assumes get_ok: "sto_GetSecret st k s = (Inr v, s') \<Longrightarrow> contents s k = Some v"
    and get_keeps: "sto_GetSecret st k s = (r, s') \<Longrightarrow> contents s' = contents s"
    and set_ok: "sto_SetSecret st k v ttl s = (None, s') \<Longrightarrow> contents s' = (contents s)(k \<mapsto> v)"
    and set_fails: "sto_SetSecret st k v ttl s = (Some e, s') \<Longrightarrow> contents s' = contents s"
    and delete_ok: "sto_DeleteSecret st k s = (None, s') \<Longrightarrow> contents s' = (contents s)(k := None)"
    and delete_fails: "sto_DeleteSecret st k s = (Some e, s') \<Longrightarrow> contents s' = contents s"
begin

lemma read_your_write:
  assumes "sto_SetSecret st k v ttl s = (None, s1)" and "sto_GetSecret st k s1 = (Inr w, s2)"
  shows "w = v"
  using set_ok [OF assms(1)] get_ok [OF assms(2)] by simp

lemma deleted_not_read:
  assumes "sto_DeleteSecret st k s = (None, s1)"
  shows "\<exists>e. fst (sto_GetSecret st k s1) = Inl e"
  using delete_ok [OF assms] get_ok [of k s1] by (cases "sto_GetSecret st k s1"; cases "fst (sto_GetSecret st k s1)") auto

end

interpretation ms: secret_store "memory_store order" "\<lambda>m. m" for order
  by unfold_locales
    (auto simp: memory_store_def mem_GetSecret_def mem_SetSecret_def mem_DeleteSecret_def split: option.splits)

text \<open>What a client sees through the cache at an instant.\<close>

definition visible :: "('s \<Rightarrow> string \<rightharpoonup> string) \<Rightarrow> time \<Rightarrow> CachedSecretStore \<times> 's \<Rightarrow> string \<rightharpoonup> string" where
  "visible contents now cs = (\<lambda>k. case cache_lookup now k (fst cs) of Some v \<Rightarrow> Some v | None \<Rightarrow> contents (snd cs) k)"

lemma cache_lookup_simps [simp]:
  "cache_lookup now k (cache_track k' c) = cache_lookup now k c"
  "cache_lookup now k (cache_put t k' v c) =
     (if k = k' then (if now < t + css_cacheTTL c then Some v else None) else cache_lookup now k c)"
  "cache_lookup now k (cache_remove k' c) = (if k = k' then None else cache_lookup now k c)"
  by (auto simp: cache_lookup_def cache_track_def cache_put_def cache_remove_def)


lemma cached_is_secret_store:
  assumes st: "secret_store st contents"
  shows "secret_store (cached_store st now) (visible contents now)"
proof
  note laws = secret_store.get_ok [OF st] secret_store.get_keeps [OF st] secret_store.set_ok [OF st]
    secret_store.set_fails [OF st] secret_store.delete_ok [OF st] secret_store.delete_fails [OF st]
  fix k v ttl cs cs' r e
  show "visible contents now cs k = Some v" if "sto_GetSecret (cached_store st now) k cs = (Inr v, cs')"
    using that laws(1) by (cases cs) (auto simp: cached_store_def cached_GetSecret_def visible_def split: option.splits prod.splits sum.splits)
  show "visible contents now cs' = visible contents now cs" if "sto_GetSecret (cached_store st now) k cs = (r, cs')"
    using that laws(1,2) by (cases cs) (auto simp: cached_store_def cached_GetSecret_def visible_def fun_eq_iff
        split: option.splits prod.splits sum.splits if_splits)
  show "visible contents now cs' = (visible contents now cs)(k \<mapsto> v)" if "sto_SetSecret (cached_store st now) k v ttl cs = (None, cs')"
    using that laws(3) by (cases cs) (auto simp: cached_store_def cached_SetSecret_def visible_def fun_eq_iff
        split: option.splits prod.splits if_splits)
  show "visible contents now cs' = visible contents now cs" if "sto_SetSecret (cached_store st now) k v ttl cs = (Some e, cs')"
    using that laws(4) by (cases cs) (auto simp: cached_store_def cached_SetSecret_def visible_def fun_eq_iff
        split: option.splits prod.splits)
  show "visible contents now cs' = (visible contents now cs)(k := None)" if "sto_DeleteSecret (cached_store st now) k cs = (None, cs')"
    using that laws(5) by (cases cs) (auto simp: cached_store_def cached_DeleteSecret_def visible_def fun_eq_iff
        split: option.splits prod.splits)
  show "visible contents now cs' = visible contents now cs" if "sto_DeleteSecret (cached_store st now) k cs = (Some e, cs')"
    using that laws(6) by (cases cs) (auto simp: cached_store_def cached_DeleteSecret_def visible_def fun_eq_iff
        split: option.splits prod.splits)
qed

interpretation cms: secret_store "cached_store (memory_store order) now" "visible (\<lambda>m. m) now" for order now
  by (rule cached_is_secret_store [OF ms.secret_store_axioms])

subsection \<open>A client alone\<close>

datatype secret_op = GetOp string | SetOp string string duration | DeleteOp string | RefreshOp string

text \<open>One timed call through the cache, and what a table of secrets does.\<close>

fun cached_call :: "'s SecretStore \<Rightarrow> time \<times> secret_op \<Rightarrow> CachedSecretStore \<times> 's \<Rightarrow> (secret_error + string) option \<times> CachedSecretStore \<times> 's" where
  "cached_call st (now, GetOp k) cs = (case cached_GetSecret st now k cs of (r, cs) \<Rightarrow> (Some r, cs))"
| "cached_call st (now, SetOp k v ttl) cs = (case cached_SetSecret st now k v ttl cs of (r, cs) \<Rightarrow> (map_option Inl r, cs))"
| "cached_call st (now, DeleteOp k) cs = (case cached_DeleteSecret st k cs of (r, cs) \<Rightarrow> (map_option Inl r, cs))"
| "cached_call st (now, RefreshOp k) cs = (None, refresh_key st now k cs)"

fun table_call :: "secret_op \<Rightarrow> (string \<rightharpoonup> string) \<Rightarrow> (secret_error + string) option \<times> (string \<rightharpoonup> string)" where
  "table_call (GetOp k) m = (Some (case m k of None \<Rightarrow> Inl ErrSecretNotFound | Some v \<Rightarrow> Inr v), m)"
| "table_call (SetOp k v ttl) m = (None, m(k \<mapsto> v))"
| "table_call (DeleteOp k) m = (None, m(k := None))"
| "table_call (RefreshOp k) m = (None, m)"

fun cached_calls :: "'s SecretStore \<Rightarrow> (time \<times> secret_op) list \<Rightarrow> CachedSecretStore \<times> 's \<Rightarrow> (secret_error + string) option list \<times> CachedSecretStore \<times> 's" where
  "cached_calls st [] cs = ([], cs)"
| "cached_calls st (op # ops) cs =
     (case cached_call st op cs of (r, cs) \<Rightarrow> case cached_calls st ops cs of (rs, cs) \<Rightarrow> (r # rs, cs))"

fun table_calls :: "(time \<times> secret_op) list \<Rightarrow> (string \<rightharpoonup> string) \<Rightarrow> (secret_error + string) option list \<times> (string \<rightharpoonup> string)" where
  "table_calls [] m = ([], m)"
| "table_calls (op # ops) m =
     (case table_call (snd op) m of (r, m) \<Rightarrow> case table_calls ops m of (rs, m) \<Rightarrow> (r # rs, m))"

definition coherent :: "CachedSecretStore \<Rightarrow> (string \<rightharpoonup> string) \<Rightarrow> bool" where
  "coherent c m \<longleftrightarrow> (\<forall>k e. css_cache c k = Some e \<longrightarrow> m k = Some (cs_value e))"

lemma coherent_lookup: "coherent c m \<Longrightarrow> cache_lookup now k c = Some v \<Longrightarrow> m k = Some v"
  by (auto simp: coherent_def cache_lookup_def split: option.splits if_splits)

lemma coherent_simps [simp]:
  "coherent (cache_track k c) m = coherent c m"
  "coherent c m \<Longrightarrow> coherent (cache_put t k v c) (m(k \<mapsto> v))"
  "coherent c m \<Longrightarrow> m k = Some v \<Longrightarrow> coherent (cache_put t k v c) m"
  "coherent c m \<Longrightarrow> coherent (cache_remove k c) (m(k := None))"
  by (auto simp: coherent_def cache_track_def cache_put_def cache_remove_def)

lemma cached_call_table:
  assumes "coherent c m"
  shows "\<exists>c' m'. cached_call (memory_store order) op (c, m) = (fst (table_call (snd op) m), c', m') \<and>
    m' = snd (table_call (snd op) m) \<and> coherent c' m'"
proof (cases "(memory_store order, op, (c, m))" rule: cached_call.cases)
  case (1 st now k cs)
  then show ?thesis using assms coherent_lookup [OF assms, of now k]
    by (cases "cache_lookup now k c"; cases "m k") (auto simp: cached_GetSecret_def memory_store_def mem_GetSecret_def)
next
  case (2 st now k v ttl cs)
  then show ?thesis using assms by (auto simp: cached_SetSecret_def memory_store_def mem_SetSecret_def)
next
  case (3 st now k cs)
  then show ?thesis using assms
    by (auto simp: cached_DeleteSecret_def memory_store_def mem_DeleteSecret_def)
next
  case (4 st now k cs)
  then show ?thesis using assms
    by (auto simp: refresh_key_def memory_store_def mem_GetSecret_def split: option.splits)
qed

text \<open>
  C31: in front of the store in memory the cache is invisible to a client alone: at whatever times it calls and
  whenever keys are refreshed, every answer is that of a plain table of secrets, and the store holds
  that table.
\<close>

theorem cached_secrets_table:
  "\<exists>c'. cached_calls (memory_store order) ops (NewCachedSecretStore ttl interval, NewMemorySecretStore) =
     (fst (table_calls ops Map.empty), c', snd (table_calls ops Map.empty))"
proof -
  have "\<exists>c'. cached_calls (memory_store order) ops (c, m) = (fst (table_calls ops m), c', snd (table_calls ops m))"
    if "coherent c m" for c m
    using that
  proof (induction ops arbitrary: c m)
    case (Cons op ops)
    from cached_call_table [OF Cons.prems] obtain c1 m1 where
      1: "cached_call (memory_store order) op (c, m) = (fst (table_call (snd op) m), c1, m1)"
        "m1 = snd (table_call (snd op) m)" "coherent c1 m1" by blast
    from Cons.IH [OF 1(3)] 1 show ?case by (auto split: prod.split)
  qed simp
  then show ?thesis by (simp add: NewMemorySecretStore_def NewCachedSecretStore_def coherent_def)
qed

subsection \<open>Calls that interleave\<close>

text \<open>
  A value read from or written to the store is in flight until the call that carries it takes the lock of the
  cache: the key, the value, when it was in the store, and whether a refresh fetched it.  The log has the
  contents of the store at the instants of the run.
\<close>

record 's css_sys =
  sy_now :: time
  sy_c :: CachedSecretStore
  sy_s :: 's
  sy_flight :: "(string \<times> string \<times> time \<times> bool) list"
  sy_log :: "(time \<times> (string \<rightharpoonup> string)) set"

definition logged :: "('s \<Rightarrow> string \<rightharpoonup> string) \<Rightarrow> 's css_sys \<Rightarrow> 's css_sys" where
  "logged contents y = y\<lparr>sy_log := insert (sy_now y, contents (sy_s y)) (sy_log y)\<rparr>"

inductive css_step :: "'s SecretStore \<Rightarrow> ('s \<Rightarrow> string \<rightharpoonup> string) \<Rightarrow> duration \<Rightarrow> 's css_sys \<Rightarrow> 's css_sys \<Rightarrow> bool"
  for st contents latency where
  tick: "0 \<le> d \<Longrightarrow> css_step st contents latency y (logged contents (y\<lparr>sy_now := sy_now y + d\<rparr>))"
| others: "css_step st contents latency y (logged contents (y\<lparr>sy_s := s\<rparr>))"
| fetch: "cache_lookup (sy_now y) k (sy_c y) = None \<Longrightarrow> sto_GetSecret st k (sy_s y) = (Inr v, s) \<Longrightarrow>
    css_step st contents latency y (logged contents (y\<lparr>sy_s := s, sy_flight := (k, v, sy_now y, False) # sy_flight y\<rparr>))"
| refetch: "css_cache (sy_c y) k \<noteq> None \<Longrightarrow> sto_GetSecret st k (sy_s y) = (Inr v, s) \<Longrightarrow>
    css_step st contents latency y (logged contents (y\<lparr>sy_s := s, sy_flight := (k, v, sy_now y, True) # sy_flight y\<rparr>))"
| store: "sto_SetSecret st k v ttl (sy_s y) = (None, s) \<Longrightarrow>
    css_step st contents latency y (logged contents (y\<lparr>sy_s := s, sy_flight := (k, v, sy_now y, False) # sy_flight y\<rparr>))"
| arrive: "(k, v, t, r) \<in> set (sy_flight y) \<Longrightarrow> sy_now y \<le> t + latency \<Longrightarrow>
    css_step st contents latency y
      (y\<lparr>sy_c := (if r then cache_put (sy_now y) k v (sy_c y) else cache_track k (cache_put (sy_now y) k v (sy_c y))),
         sy_flight := remove1 (k, v, t, r) (sy_flight y)\<rparr>)"
| delete: "sto_DeleteSecret st k (sy_s y) = (None, s) \<Longrightarrow> css_step st contents latency y (logged contents (y\<lparr>sy_s := s\<rparr>))"
| evict: "css_step st contents latency y (y\<lparr>sy_c := cache_remove k (sy_c y)\<rparr>)"
| close: "cached_Close st (sy_c y, sy_s y) = (e, c, s) \<Longrightarrow> css_step st contents latency y (logged contents (y\<lparr>sy_c := c, sy_s := s\<rparr>))"

definition css_start :: "('s \<Rightarrow> string \<rightharpoonup> string) \<Rightarrow> duration \<Rightarrow> duration \<Rightarrow> time \<Rightarrow> 's \<Rightarrow> 's css_sys" where
  "css_start contents ttl interval now s =
     \<lparr>sy_now = now, sy_c = NewCachedSecretStore ttl interval, sy_s = s, sy_flight = [], sy_log = {(now, contents s)}\<rparr>"

text \<open>The value was in the store at an instant of the run, and expires at most the TTL and the latency after it.\<close>

definition was_stored :: "'s css_sys \<Rightarrow> string \<Rightarrow> string \<Rightarrow> time \<Rightarrow> bool" where
  "was_stored y k v t \<longleftrightarrow> (\<exists>m. (t, m) \<in> sy_log y \<and> m k = Some v)"

definition css_inv :: "('s \<Rightarrow> string \<rightharpoonup> string) \<Rightarrow> duration \<Rightarrow> duration \<Rightarrow> 's css_sys \<Rightarrow> bool" where
  "css_inv contents latency ttl y \<longleftrightarrow>
     css_cacheTTL (sy_c y) = ttl \<and> (sy_now y, contents (sy_s y)) \<in> sy_log y \<and>
     (\<forall>k v t r. (k, v, t, r) \<in> set (sy_flight y) \<longrightarrow> was_stored y k v t) \<and>
     (\<forall>k e. css_cache (sy_c y) k = Some e \<longrightarrow> (\<exists>t. was_stored y k (cs_value e) t \<and> cs_expiration e \<le> t + latency + ttl))"

lemma logged_sel [simp]:
  "sy_now (logged contents y) = sy_now y" "sy_c (logged contents y) = sy_c y" "sy_s (logged contents y) = sy_s y"
  "sy_flight (logged contents y) = sy_flight y" "(sy_now y, contents (sy_s y)) \<in> sy_log (logged contents y)"
  by (simp_all add: logged_def)

text \<open>Steps that leave the cache alone and put only values of the store in flight keep the invariant.\<close>

lemma css_inv_logged:
  assumes "css_inv contents latency ttl y" and "sy_c z = sy_c y" and "sy_log z = sy_log y"
    and "set (sy_flight z) \<subseteq> set (sy_flight y) \<union> {(k, v, sy_now z, r)}"
    and "set (sy_flight z) \<subseteq> set (sy_flight y) \<or> contents (sy_s z) k = Some v"
  shows "css_inv contents latency ttl (logged contents z)"
proof -
  have old: "was_stored (logged contents z) a b t" if "was_stored y a b t" for a b t
    using that assms(3) by (auto simp: was_stored_def logged_def)
  have "was_stored (logged contents z) a b t" if "(a, b, t, r') \<in> set (sy_flight z)" for a b t r'
  proof (cases "(a, b, t, r') \<in> set (sy_flight y)")
    case True
    then have "was_stored y a b t" using assms(1) unfolding css_inv_def by blast
    then show ?thesis by (rule old)
  next
    case False
    then have "a = k" "b = v" "t = sy_now z" "contents (sy_s z) k = Some v" using that assms(4,5) by auto
    then show ?thesis by (auto simp: was_stored_def logged_def)
  qed
  then show ?thesis using assms(1,2) old unfolding css_inv_def by (fastforce simp: logged_def)
qed

lemma css_inv_cache:
  assumes "css_inv contents latency ttl y" and "css_cacheTTL c = ttl" and "set fl \<subseteq> set (sy_flight y)"
    and "\<And>k e. css_cache c k = Some e \<Longrightarrow> css_cache (sy_c y) k = Some e \<or>
      (\<exists>t. was_stored y k (cs_value e) t \<and> cs_expiration e \<le> t + latency + ttl)"
  shows "css_inv contents latency ttl (y\<lparr>sy_c := c, sy_flight := fl\<rparr>)"
proof -
  have "was_stored (y\<lparr>sy_c := c, sy_flight := fl\<rparr>) = was_stored y" by (simp add: was_stored_def fun_eq_iff)
  then show ?thesis using assms unfolding css_inv_def by (fastforce dest: subsetD)
qed

lemma css_inv_step:
  assumes st: "secret_store st contents" and "css_step st contents latency y z" and inv: "css_inv contents latency ttl y"
  shows "css_inv contents latency ttl z"
  using assms(2)
proof cases
  case (tick d)
  then show ?thesis using css_inv_logged [OF inv, of "y\<lparr>sy_now := sy_now y + d\<rparr>"] by auto
next
  case (others s)
  then show ?thesis using css_inv_logged [OF inv, of "y\<lparr>sy_s := s\<rparr>"] by auto
next
  case (fetch k v s)
  then have "contents s k = Some v"
    using secret_store.get_ok [OF st fetch(3)] secret_store.get_keeps [OF st fetch(3)] by simp
  then show ?thesis unfolding fetch(1) by (intro css_inv_logged [OF inv, where k = k and v = v and r = False]) auto
next
  case (refetch k v s)
  then have "contents s k = Some v"
    using secret_store.get_ok [OF st refetch(3)] secret_store.get_keeps [OF st refetch(3)] by simp
  then show ?thesis unfolding refetch(1) by (intro css_inv_logged [OF inv, where k = k and v = v and r = True]) auto
next
  case (store k v t s)
  then have "contents s k = Some v" using secret_store.set_ok [OF st store(2)] by simp
  then show ?thesis unfolding store(1) by (intro css_inv_logged [OF inv, where k = k and v = v and r = False]) auto
next
  case (arrive k v t r)
  have "was_stored y k v t" using inv arrive(2) unfolding css_inv_def by blast
  moreover have "css_cacheTTL (sy_c y) = ttl" using inv by (simp add: css_inv_def)
  moreover define c where "c = (if r then cache_put (sy_now y) k v (sy_c y) else cache_track k (cache_put (sy_now y) k v (sy_c y)))"
  ultimately have "css_cacheTTL c = ttl"
    "css_cache c = (css_cache (sy_c y))(k \<mapsto> \<lparr>cs_value = v, cs_expiration = sy_now y + ttl\<rparr>)"
    by (simp_all add: cache_put_def cache_track_def)
  with \<open>was_stored y k v t\<close> arrive(3) show ?thesis unfolding arrive(1) c_def [symmetric]
    by (intro css_inv_cache [OF inv]) (auto simp: set_remove1_subset split: if_splits)
next
  case (delete k s)
  then show ?thesis using css_inv_logged [OF inv, of "y\<lparr>sy_s := s\<rparr>"] by auto
next
  case (evict k)
  have "css_inv contents latency ttl (y\<lparr>sy_c := cache_remove k (sy_c y), sy_flight := sy_flight y\<rparr>)"
    using inv by (intro css_inv_cache [OF inv]) (auto simp: cache_remove_def css_inv_def split: if_splits)
  then show ?thesis unfolding evict by simp
next
  case (close e c s)
  then have c: "css_cache c = Map.empty" "css_cacheTTL c = css_cacheTTL (sy_c y)"
    by (auto simp: cached_Close_def Let_def split: prod.splits)
  have "css_inv contents latency ttl (y\<lparr>sy_c := c\<rparr>)"
    using css_inv_cache [OF inv, of c "sy_flight y"] c inv by (simp add: css_inv_def)
  from css_inv_logged [OF this, of "y\<lparr>sy_c := c, sy_s := s\<rparr>"] show ?thesis unfolding close(1) by auto
qed

lemma css_inv_reachable:
  assumes "secret_store st contents" and "(css_step st contents latency)\<^sup>*\<^sup>* (css_start contents ttl interval t0 s0) y"
  shows "css_inv contents latency ttl y"
  using assms(2)
proof (induction rule: rtranclp_induct)
  case base
  then show ?case by (simp add: css_inv_def css_start_def NewCachedSecretStore_def)
next
  case (step y z)
  then show ?case using css_inv_step [OF assms(1)] by blast
qed

text \<open>A run in which a refresh fetches a secret that is deleted before the refresh writes the cache.\<close>

abbreviation "one_store \<equiv> memory_store (\<lambda>_. [])"

abbreviation "one_step \<equiv> css_step one_store (\<lambda>m. m) 10"

definition race_0 :: "MemorySecretStore css_sys" where
  "race_0 = css_start (\<lambda>m. m) 100 50 0 [''k'' \<mapsto> ''v'']"

definition race_1 :: "MemorySecretStore css_sys" where
  "race_1 = logged (\<lambda>m. m) (race_0\<lparr>sy_s := [''k'' \<mapsto> ''v''], sy_flight := (''k'', ''v'', sy_now race_0, False) # sy_flight race_0\<rparr>)"

definition race_2 :: "MemorySecretStore css_sys" where
  "race_2 = race_1\<lparr>sy_c := (if False then cache_put (sy_now race_1) ''k'' ''v'' (sy_c race_1)
                            else cache_track ''k'' (cache_put (sy_now race_1) ''k'' ''v'' (sy_c race_1))),
     sy_flight := remove1 (''k'', ''v'', 0, False) (sy_flight race_1)\<rparr>"

definition race_3 :: "MemorySecretStore css_sys" where
  "race_3 = logged (\<lambda>m. m) (race_2\<lparr>sy_s := [''k'' \<mapsto> ''v''], sy_flight := (''k'', ''v'', sy_now race_2, True) # sy_flight race_2\<rparr>)"

definition race_4 :: "MemorySecretStore css_sys" where
  "race_4 = logged (\<lambda>m. m) (race_3\<lparr>sy_s := Map.empty\<rparr>)"

definition race_5 :: "MemorySecretStore css_sys" where
  "race_5 = race_4\<lparr>sy_c := cache_remove ''k'' (sy_c race_4)\<rparr>"

definition race_6 :: "MemorySecretStore css_sys" where
  "race_6 = race_5\<lparr>sy_c := (if True then cache_put (sy_now race_5) ''k'' ''v'' (sy_c race_5)
                            else cache_track ''k'' (cache_put (sy_now race_5) ''k'' ''v'' (sy_c race_5))),
     sy_flight := remove1 (''k'', ''v'', 0, True) (sy_flight race_5)\<rparr>"

lemmas race_defs = race_6_def race_5_def race_4_def race_3_def race_2_def race_1_def race_0_def logged_def css_start_def
  cache_put_def cache_track_def cache_remove_def NewCachedSecretStore_def

lemma race_run: "one_step\<^sup>*\<^sup>* race_0 race_2" "one_step\<^sup>*\<^sup>* race_0 race_6"
proof -
  have 1: "one_step race_0 race_1" unfolding race_1_def
    by (rule css_step.fetch) (simp_all add: race_0_def css_start_def cache_lookup_def NewCachedSecretStore_def memory_store_def mem_GetSecret_def)
  have 2: "one_step race_1 race_2" unfolding race_2_def
    by (rule css_step.arrive) (simp_all add: race_1_def race_0_def css_start_def)
  have 3: "one_step race_2 race_3" unfolding race_3_def
    by (rule css_step.refetch) (simp_all add: race_defs memory_store_def mem_GetSecret_def)
  have 4: "one_step race_3 race_4" unfolding race_4_def
    by (rule css_step.delete [where k = "''k''"]) (simp add: race_3_def memory_store_def mem_DeleteSecret_def)
  have 5: "one_step race_4 race_5" unfolding race_5_def by (rule css_step.evict)
  have 6: "one_step race_5 race_6" unfolding race_6_def
    by (rule css_step.arrive) (simp_all add: race_5_def race_4_def race_3_def race_2_def race_1_def race_0_def css_start_def)
  show "one_step\<^sup>*\<^sup>* race_0 race_2" by (rule converse_rtranclp_into_rtranclp [OF 1 r_into_rtranclp [where r = one_step, OF 2]])
  then show "one_step\<^sup>*\<^sup>* race_0 race_6" 
    by (intro rtranclp.rtrancl_into_rtrancl [where r = one_step, OF _ 6] rtranclp.rtrancl_into_rtrancl [where r = one_step, OF _ 5]
        rtranclp.rtrancl_into_rtrancl [where r = one_step, OF _ 4] rtranclp.rtrancl_into_rtrancl [where r = one_step, OF _ 3])
qed

lemma race_lookup: "cache_lookup (sy_now race_6) ''k'' (sy_c race_6) = Some ''v''"
  by (simp add: race_defs cache_lookup_def)

text \<open>
  C32: what the cache serves is stale for a bounded time: however calls, refreshes and writes of others
  interleave, a secret served from the cache was in the store at an instant of the run, less than the TTL of the
  cache and the longest call ago.
\<close>

theorem cache_staleness_bounded:
  assumes "secret_store st contents"
    and "(css_step st contents latency)\<^sup>*\<^sup>* (css_start contents ttl interval t0 s0) y"
    and "cache_lookup (sy_now y) k (sy_c y) = Some v"
  shows "\<exists>t m. (t, m) \<in> sy_log y \<and> m k = Some v \<and> sy_now y < t + latency + ttl"
  using assms(3) css_inv_reachable [OF assms(1,2)]
  by (fastforce simp: css_inv_def cache_lookup_def was_stored_def split: option.splits if_splits)

theorem cache_staleness_bounded_witness:
  "\<exists>t m. (t, m) \<in> sy_log race_6 \<and> m ''k'' = Some ''v'' \<and> sy_now race_6 < t + 10 + 100"
  by (rule cache_staleness_bounded [OF ms.secret_store_axioms race_run(2) [unfolded race_0_def] race_lookup])

text \<open>
  A deleted secret can come back: a refresh that fetched a secret before \<open>DeleteSecret\<close> removed it from store and
  cache writes it into the cache again, where it is served although the store does not have it and no later
  refresh will notice.
\<close>

theorem deleted_secret_served:
  "one_step\<^sup>*\<^sup>* race_0 race_6 \<and> sy_s race_6 ''k'' = None \<and> ''k'' \<notin> css_refreshKeys (sy_c race_6) \<and>
   fst (cached_GetSecret one_store (sy_now race_6) ''k'' (sy_c race_6, sy_s race_6)) = Inr ''v''"
  using race_run(2) race_lookup by (simp add: cached_GetSecret_def) (simp add: race_defs)

end
