(* ===== verification/SecretsComposed.thy ===== *)
theory SecretsComposed
  imports VaultProps SecretsProps
begin

text \<open>
  The cache of \<open>secrets.go\<close> in front of the Vault store of \<open>vault_secrets.go\<close>: what a client that stored a secret reads while the cache holds it, and afterwards.
\<close>











end
