(* ===== verification/Logger.thy ===== *)
theory Logger
  imports Prelude
begin

text \<open>
  Package observability: the logger (\<open>logger.go\<close>) and the logger of the package (\<open>global_logger.go\<close>).  Of \<open>log/slog\<close> the sources use a handler
  with a lowest level, a format and attributes, and one record per call: what is written is a list of entries.  Values of fields are of any
  type \<open>'v\<close>.
\<close>

subsection \<open>Configuration\<close>

record 'v Field =
  fd_Key :: string
  fd_Value :: 'v

definition NewField :: "string \<Rightarrow> 'v \<Rightarrow> 'v Field" where
  "NewField key value = \<lparr>fd_Key = key, fd_Value = value\<rparr>"

record LoggerConfig =
  lg_Level :: string
  lg_Format :: string
  lg_ServiceName :: string
  lg_ServiceVersion :: string
  lg_ServiceInstance :: string

definition DefaultLoggerConfig :: LoggerConfig where
  "DefaultLoggerConfig = \<lparr>lg_Level = ''info'', lg_Format = ''json'', lg_ServiceName = [], lg_ServiceVersion = [], lg_ServiceInstance = []\<rparr>"

abbreviation "LevelDebug \<equiv> (-4 :: int)"
abbreviation "LevelInfo \<equiv> (0 :: int)"
abbreviation "LevelWarn \<equiv> (4 :: int)"
abbreviation "LevelError \<equiv> (8 :: int)"

definition getLogLevel :: "string \<Rightarrow> int" where
  "getLogLevel level =
     (if level = ''debug'' then LevelDebug else if level = ''info'' then LevelInfo else if level = ''warn'' then LevelWarn
      else if level = ''error'' then LevelError else LevelInfo)"

subsection \<open>Loggers\<close>

datatype 'v log_value = LogString string | LogAny 'v | LogError string

type_synonym 'v attr = "string \<times> 'v log_value"

record 'v log_entry =
  le_writer :: nat
  le_json :: bool
  le_level :: int
  le_msg :: string
  le_attrs :: "'v attr list"

record 'v slogLogger =
  sl_writer :: nat \<comment> \<open>0 is the standard output\<close>
  sl_json :: bool
  sl_level :: int
  sl_attrs :: "'v attr list"
  sl_config :: LoggerConfig

definition service_attrs :: "LoggerConfig \<Rightarrow> 'v attr list" where
  "service_attrs config =
     (if lg_ServiceName config \<noteq> [] \<or> lg_ServiceVersion config \<noteq> [] \<or> lg_ServiceInstance config \<noteq> []
      then [(''service'', LogString (lg_ServiceName config)), (''version'', LogString (lg_ServiceVersion config)), (''instance'', LogString (lg_ServiceInstance config))]
      else [])"

definition NewLoggerWithWriter :: "nat \<Rightarrow> LoggerConfig \<Rightarrow> 'v slogLogger" where
  "NewLoggerWithWriter writer config =
     \<lparr>sl_writer = writer, sl_json = (lg_Format config = ''json''), sl_level = getLogLevel (lg_Level config), sl_attrs = service_attrs config, sl_config = config\<rparr>"

definition NewLoggerWithConfig :: "LoggerConfig \<Rightarrow> 'v slogLogger" where
  "NewLoggerWithConfig config =
     \<lparr>sl_writer = 0, sl_json = (lg_Format config = ''json''), sl_level = getLogLevel (lg_Level config), sl_attrs = service_attrs config, sl_config = config\<rparr>"

definition NewLogger :: "'v slogLogger" where
  "NewLogger = NewLoggerWithConfig DefaultLoggerConfig"

definition fieldsToAttrs :: "'v Field list \<Rightarrow> 'v attr list" where
  "fieldsToAttrs flds = map (\<lambda>f. (fd_Key f, LogAny (fd_Value f))) flds"

subsection \<open>Contexts\<close>

text \<open>A context: the identifiers of its span, if that is valid, and its values; \<open>None\<close> is a value that is no string.\<close>

record log_context =
  lc_span :: "(string \<times> string) option"
  lc_Value :: "string \<rightharpoonup> string option"

definition Background :: log_context where
  "Background = \<lparr>lc_span = None, lc_Value = Map.empty\<rparr>"

text \<open>A value that is a string and not empty.\<close>

definition ctx_string :: "log_context \<Rightarrow> string \<Rightarrow> string option" where
  "ctx_string ctx key = (case lc_Value ctx key of Some (Some s) \<Rightarrow> if s \<noteq> [] then Some s else None | _ \<Rightarrow> None)"

definition extractTraceID :: "log_context \<Rightarrow> string" where
  "extractTraceID ctx =
     (case lc_span ctx of
        Some (traceID, spanID) \<Rightarrow> traceID
      | None \<Rightarrow>
      (case ctx_string ctx ''trace_id'' of
         Some traceID \<Rightarrow> traceID
       | None \<Rightarrow>
       (case ctx_string ctx ''otel-trace-id'' of
          Some traceID \<Rightarrow> traceID
        | None \<Rightarrow>
        (case ctx_string ctx ''trace_id'' of
           Some traceID \<Rightarrow> traceID
         | None \<Rightarrow>
             (let fallback = (case ctx_string ctx ''correlation_id'' of Some correlationID \<Rightarrow> correlationID | None \<Rightarrow> [])
              in case ctx_string ctx ''traceparent'' of
                   Some traceparent \<Rightarrow>
                     (let parts = strings_Split traceparent ''-'' in if 2 \<le> length parts then parts ! 1 else fallback)
                 | None \<Rightarrow> fallback)))))"

definition extractSpanID :: "log_context \<Rightarrow> string" where
  "extractSpanID ctx =
     (case lc_span ctx of
        Some (traceID, spanID) \<Rightarrow> spanID
      | None \<Rightarrow>
      (case ctx_string ctx ''span_id'' of
         Some spanID \<Rightarrow> spanID
       | None \<Rightarrow>
       (case ctx_string ctx ''otel-span-id'' of
          Some spanID \<Rightarrow> spanID
        | None \<Rightarrow>
        (case ctx_string ctx ''span_id'' of
           Some spanID \<Rightarrow> spanID
         | None \<Rightarrow>
             (case ctx_string ctx ''traceparent'' of
                Some traceparent \<Rightarrow> (let parts = strings_Split traceparent ''-'' in if 3 \<le> length parts then parts ! 2 else [])
              | None \<Rightarrow> [])))))"

definition string_attr :: "string \<Rightarrow> string option \<Rightarrow> 'v attr list" where
  "string_attr key v = (case v of None \<Rightarrow> [] | Some s \<Rightarrow> [(key, LogString s)])"

definition enrichLoggerFromContext :: "log_context \<Rightarrow> 'v attr list \<Rightarrow> 'v attr list" where
  "enrichLoggerFromContext ctx attrs =
     attrs @ string_attr ''service'' (ctx_string ctx ''service_name'') @ string_attr ''version'' (ctx_string ctx ''service_version'') @
     string_attr ''instance'' (ctx_string ctx ''service_instance'') @ string_attr ''correlation_id'' (ctx_string ctx ''correlation_id'') @
     string_attr ''request_id'' (ctx_string ctx ''request_id'') @ string_attr ''user_id'' (ctx_string ctx ''user_id'')"

text \<open>The attributes of a logger with those of a context.\<close>

definition with_context :: "log_context \<Rightarrow> 'v attr list \<Rightarrow> 'v attr list" where
  "with_context ctx attrs =
     (let attrs = (if extractTraceID ctx \<noteq> [] then attrs @ [(''trace_id'', LogString (extractTraceID ctx))] else attrs);
          attrs = (if extractSpanID ctx \<noteq> [] then attrs @ [(''span_id'', LogString (extractSpanID ctx))] else attrs)
      in enrichLoggerFromContext ctx attrs)"

subsection \<open>Writing\<close>

type_synonym 'v log = "'v log_entry list"

text \<open>\<open>slog.Logger.LogAttrs\<close>.\<close>

definition LogAttrs :: "'v slogLogger \<Rightarrow> 'v attr list \<Rightarrow> int \<Rightarrow> string \<Rightarrow> 'v attr list \<Rightarrow> 'v log \<Rightarrow> 'v log" where
  "LogAttrs l handler_attrs level msg attrs out =
     (if sl_level l \<le> level
      then out @ [\<lparr>le_writer = sl_writer l, le_json = sl_json l, le_level = level, le_msg = msg, le_attrs = handler_attrs @ attrs\<rparr>]
      else out)"

definition InfoContext :: "'v slogLogger \<Rightarrow> log_context \<Rightarrow> string \<Rightarrow> 'v Field list \<Rightarrow> 'v log \<Rightarrow> 'v log" where
  "InfoContext l ctx msg flds = LogAttrs l (with_context ctx (sl_attrs l)) LevelInfo msg (fieldsToAttrs flds)"

definition Info :: "'v slogLogger \<Rightarrow> string \<Rightarrow> 'v Field list \<Rightarrow> 'v log \<Rightarrow> 'v log" where
  "Info l msg flds = InfoContext l Background msg flds"

definition ErrorContext :: "'v slogLogger \<Rightarrow> log_context \<Rightarrow> string \<Rightarrow> string option \<Rightarrow> 'v Field list \<Rightarrow> 'v log \<Rightarrow> 'v log" where
  "ErrorContext l ctx msg err flds =
     (let attrs = fieldsToAttrs flds;
          attrs = (case err of None \<Rightarrow> attrs | Some e \<Rightarrow> attrs @ [(''error'', LogError e)])
      in LogAttrs l (with_context ctx (sl_attrs l)) LevelError msg attrs)"

definition Error :: "'v slogLogger \<Rightarrow> string \<Rightarrow> string option \<Rightarrow> 'v Field list \<Rightarrow> 'v log \<Rightarrow> 'v log" where
  "Error l msg err flds = ErrorContext l Background msg err flds"

definition DebugContext :: "'v slogLogger \<Rightarrow> log_context \<Rightarrow> string \<Rightarrow> 'v Field list \<Rightarrow> 'v log \<Rightarrow> 'v log" where
  "DebugContext l ctx msg flds = LogAttrs l (with_context ctx (sl_attrs l)) LevelDebug msg (fieldsToAttrs flds)"

definition Debug :: "'v slogLogger \<Rightarrow> string \<Rightarrow> 'v Field list \<Rightarrow> 'v log \<Rightarrow> 'v log" where
  "Debug l msg flds = DebugContext l Background msg flds"

definition WarnContext :: "'v slogLogger \<Rightarrow> log_context \<Rightarrow> string \<Rightarrow> 'v Field list \<Rightarrow> 'v log \<Rightarrow> 'v log" where
  "WarnContext l ctx msg flds = LogAttrs l (with_context ctx (sl_attrs l)) LevelWarn msg (fieldsToAttrs flds)"

definition Warn :: "'v slogLogger \<Rightarrow> string \<Rightarrow> 'v Field list \<Rightarrow> 'v log \<Rightarrow> 'v log" where
  "Warn l msg flds = WarnContext l Background msg flds"

text \<open>\<open>None\<close> is the nil context.\<close>

definition WithContext :: "'v slogLogger \<Rightarrow> log_context option \<Rightarrow> 'v slogLogger" where
  "WithContext l ctx = (case ctx of None \<Rightarrow> l | Some ctx \<Rightarrow> l\<lparr>sl_attrs := with_context ctx (sl_attrs l)\<rparr>)"

subsection \<open>The logger of the package\<close>

text \<open>\<open>GlobalLogger\<close>, with what is written.\<close>

type_synonym 'v GlobalLogger = "'v slogLogger \<times> 'v log"

definition SetGlobalLogger :: "'v slogLogger \<Rightarrow> 'v GlobalLogger \<Rightarrow> 'v GlobalLogger" where
  "SetGlobalLogger logger g = (logger, snd g)"
definition global_Info :: "string \<Rightarrow> 'v Field list \<Rightarrow> 'v GlobalLogger \<Rightarrow> 'v GlobalLogger" where
  "global_Info msg flds g = (fst g, Info (fst g) msg flds (snd g))"
definition global_InfoContext :: "log_context \<Rightarrow> string \<Rightarrow> 'v Field list \<Rightarrow> 'v GlobalLogger \<Rightarrow> 'v GlobalLogger" where
  "global_InfoContext ctx msg flds g = (fst g, InfoContext (fst g) ctx msg flds (snd g))"
definition global_Error :: "string \<Rightarrow> string option \<Rightarrow> 'v Field list \<Rightarrow> 'v GlobalLogger \<Rightarrow> 'v GlobalLogger" where
  "global_Error msg err flds g = (fst g, Error (fst g) msg err flds (snd g))"
definition global_ErrorContext :: "log_context \<Rightarrow> string \<Rightarrow> string option \<Rightarrow> 'v Field list \<Rightarrow> 'v GlobalLogger \<Rightarrow> 'v GlobalLogger" where
  "global_ErrorContext ctx msg err flds g = (fst g, ErrorContext (fst g) ctx msg err flds (snd g))"
definition global_Debug :: "string \<Rightarrow> 'v Field list \<Rightarrow> 'v GlobalLogger \<Rightarrow> 'v GlobalLogger" where
  "global_Debug msg flds g = (fst g, Debug (fst g) msg flds (snd g))"
definition global_DebugContext :: "log_context \<Rightarrow> string \<Rightarrow> 'v Field list \<Rightarrow> 'v GlobalLogger \<Rightarrow> 'v GlobalLogger" where
  "global_DebugContext ctx msg flds g = (fst g, DebugContext (fst g) ctx msg flds (snd g))"
definition global_Warn :: "string \<Rightarrow> 'v Field list \<Rightarrow> 'v GlobalLogger \<Rightarrow> 'v GlobalLogger" where
  "global_Warn msg flds g = (fst g, Warn (fst g) msg flds (snd g))"
definition global_WarnContext :: "log_context \<Rightarrow> string \<Rightarrow> 'v Field list \<Rightarrow> 'v GlobalLogger \<Rightarrow> 'v GlobalLogger" where
  "global_WarnContext ctx msg flds g = (fst g, WarnContext (fst g) ctx msg flds (snd g))"
definition global_WithContext :: "log_context option \<Rightarrow> 'v GlobalLogger \<Rightarrow> 'v slogLogger" where
  "global_WithContext ctx g = WithContext (fst g) ctx"

subsection \<open>Properties\<close>

text \<open>What a context contributes does not depend on the logger.\<close>

lemma with_context_append: "with_context ctx attrs = attrs @ with_context ctx []"
  by (simp add: with_context_def enrichLoggerFromContext_def Let_def)

fun derive :: "'v slogLogger \<Rightarrow> log_context list \<Rightarrow> 'v slogLogger" where
  "derive l [] = l"
| "derive l (ctx # ctxs) = derive (WithContext l (Some ctx)) ctxs"

lemma derive_logger:
  "derive l ctxs = l\<lparr>sl_attrs := sl_attrs l @ concat (map (\<lambda>ctx. with_context ctx []) ctxs)\<rparr>"
proof (induction ctxs arbitrary: l)
  case (Cons ctx ctxs)
  show ?case using Cons [of "WithContext l (Some ctx)"] with_context_append [of ctx "sl_attrs l"] by (simp add: WithContext_def)
qed simp

text \<open>What a call writes, with the attributes of the contexts a logger was derived from.\<close>

definition call_attrs :: "LoggerConfig \<Rightarrow> log_context list \<Rightarrow> log_context \<Rightarrow> 'v Field list \<Rightarrow> 'v attr list" where
  "call_attrs config ctxs ctx flds = service_attrs config @ concat (map (\<lambda>ctx. with_context ctx []) ctxs) @ with_context ctx [] @ fieldsToAttrs flds"

definition entry_of :: "LoggerConfig \<Rightarrow> int \<Rightarrow> string \<Rightarrow> 'v attr list \<Rightarrow> 'v log_entry" where
  "entry_of config level msg attrs = \<lparr>le_writer = 0, le_json = (lg_Format config = ''json''), le_level = level, le_msg = msg, le_attrs = attrs\<rparr>"

text \<open>
  A call of a logger, however it was derived from contexts, writes one entry if the level of the call is at least the configured one and nothing
  otherwise; the entry has the service attributes, those of the contexts it was derived from in their order, those of the context of the call, the fields and the
  error, in this order.
\<close>

theorem log_entry_correct:
  "DebugContext (derive (NewLoggerWithConfig config) ctxs) ctx msg flds out =
      out @ (if lg_Level config = ''debug'' then [entry_of config LevelDebug msg (call_attrs config ctxs ctx flds)] else []) \<and>
    InfoContext (derive (NewLoggerWithConfig config) ctxs) ctx msg flds out =
      out @ (if lg_Level config \<notin> {''warn'', ''error''} then [entry_of config LevelInfo msg (call_attrs config ctxs ctx flds)] else []) \<and>
    WarnContext (derive (NewLoggerWithConfig config) ctxs) ctx msg flds out =
      out @ (if lg_Level config \<noteq> ''error'' then [entry_of config LevelWarn msg (call_attrs config ctxs ctx flds)] else []) \<and>
    ErrorContext (derive (NewLoggerWithConfig config) ctxs) ctx msg err flds out =
      out @ [entry_of config LevelError msg (call_attrs config ctxs ctx flds @ (case err of None \<Rightarrow> [] | Some e \<Rightarrow> [(''error'', LogError e)]))]"
proof -
  let ?l = "derive (NewLoggerWithConfig config) ctxs"
  have l: "sl_level ?l = getLogLevel (lg_Level config)" "sl_writer ?l = 0" "sl_json ?l = (lg_Format config = ''json'')"
    "with_context ctx (sl_attrs ?l) = service_attrs config @ concat (map (\<lambda>ctx. with_context ctx []) ctxs) @ with_context ctx []"
    using with_context_append [of ctx "sl_attrs ?l"] by (simp_all add: derive_logger NewLoggerWithConfig_def)
  show ?thesis
    by (simp add: DebugContext_def InfoContext_def WarnContext_def ErrorContext_def LogAttrs_def l getLogLevel_def call_attrs_def entry_of_def split: option.split)
qed

text \<open>The identifiers of a W3C \<open>traceparent\<close> value are found in a context that has no span and no other identifiers.\<close>

lemma split_dash: "CHR ''-'' \<notin> set a \<Longrightarrow> strings_Split (a @ CHR ''-'' # b) ''-'' = a # strings_Split b ''-''"
proof -
  assume "CHR ''-'' \<notin> set a"
  then have "strings_Index (a @ CHR ''-'' # b) ''-'' = Some (length a)"
    by (induction a) (auto simp: strings_HasPrefix_def)
  then show ?thesis by (subst strings_Split.simps) simp
qed

theorem traceparent_ids:
  assumes "CHR ''-'' \<notin> set version" and "CHR ''-'' \<notin> set traceID" and "CHR ''-'' \<notin> set spanID"
  shows "extractTraceID \<lparr>lc_span = None, lc_Value = [''traceparent'' \<mapsto> Some (version @ ''-'' @ traceID @ ''-'' @ spanID @ ''-'' @ flags)]\<rparr> = traceID \<and>
    extractSpanID \<lparr>lc_span = None, lc_Value = [''traceparent'' \<mapsto> Some (version @ ''-'' @ traceID @ ''-'' @ spanID @ ''-'' @ flags)]\<rparr> = spanID"
proof -
  have "strings_Split flags ''-'' \<noteq> []" by (subst strings_Split.simps) (simp split: option.split)
  then obtain x xs where "strings_Split flags ''-'' = x # xs" by (cases "strings_Split flags ''-''") auto
  then show ?thesis using assms by (simp add: extractTraceID_def extractSpanID_def ctx_string_def split_dash Let_def)
qed

text \<open>A logger that was derived from a context and is called with the same context writes its identifiers twice.\<close>

theorem ids_written_twice:
  assumes "lc_span ctx = Some (t, s)" and "t \<noteq> []" and "sl_level l \<le> LevelInfo"
  shows "filter (\<lambda>a. fst a = ''trace_id'') (le_attrs (last (InfoContext (WithContext (l\<lparr>sl_attrs := []\<rparr>) (Some ctx)) ctx msg [] out))) =
    [(''trace_id'', LogString t), (''trace_id'', LogString t)]"
  using assms
  by (simp add: InfoContext_def LogAttrs_def WithContext_def with_context_def enrichLoggerFromContext_def extractTraceID_def extractSpanID_def string_attr_def fieldsToAttrs_def
      Let_def split: option.split)

end
