(* ===== verification/Tracing.thy ===== *)
theory Tracing
  imports Float64 GoFmt Logger
begin

text \<open>
  Package observability: tracing (\<open>tracing.go\<close>), the carrier of HTTP headers (\<open>http_carrier.go\<close>), the loggers for tests (\<open>testing.go\<close>).  The OpenTelemetry SDK is the
  argument \<open>lib\<close> on its state \<open>'w\<close>: exporters and providers are numbers, a span has the identifiers of its trace and its own.  A propagator
  writes fields into a carrier and reads them from one.
\<close>

subsection \<open>Configuration\<close>

record TracingConfig =
  tr_Enabled :: bool
  tr_ServiceName :: string
  tr_ServiceVersion :: string
  tr_ServiceInstance :: string
  tr_ExporterType :: string
  tr_Endpoint :: string
  tr_Protocol :: string
  tr_Headers :: "string \<rightharpoonup> string"
  tr_SamplingRate :: float64
  tr_PropagationFormat :: string
  tr_BatchTimeout :: int
  tr_MaxExportBatchSize :: int
  tr_MaxQueueSize :: int

definition DefaultTracingConfig :: TracingConfig where
  "DefaultTracingConfig =
     \<lparr>tr_Enabled = False, tr_ServiceName = [], tr_ServiceVersion = [], tr_ServiceInstance = [], tr_ExporterType = ''otlp'', tr_Endpoint = ''localhost:4317'',
      tr_Protocol = ''grpc'', tr_Headers = Map.empty, tr_SamplingRate = Fin 1, tr_PropagationFormat = ''w3c'', tr_BatchTimeout = 5000,
      tr_MaxExportBatchSize = 512, tr_MaxQueueSize = 2048\<rparr>"

subsection \<open>The SDK\<close>

datatype exporter = OtlpHTTP string "(string \<rightharpoonup> string) option" | OtlpGRPC string "(string \<rightharpoonup> string) option"
datatype sampler = AlwaysSample | NeverSample | TraceIDRatioBased float64
datatype propagator = TraceContextAndBaggage

record provider_options =
  po_exporter :: nat
  po_MaxExportBatchSize :: int
  po_MaxQueueSize :: int
  po_sampler :: sampler
  po_resource :: "string \<times> string \<times> string"

record span =
  sp_TraceID :: string
  sp_SpanID :: string

record trace_context =
  tc_span :: "span option"
  tc_incoming :: "(string \<Rightarrow> string list) option"
  tc_outgoing :: "(string \<Rightarrow> string list) option"

datatype span_event = SpanStatus bool string \<comment> \<open>error flag and description\<close> | SpanAttribute string string | SpanEnd

record 'w otel =
  ot_NewResource :: "string \<times> string \<times> string \<Rightarrow> string option"
  ot_NewExporter :: "exporter \<Rightarrow> 'w \<Rightarrow> (string + nat) \<times> 'w"
  ot_NewProvider :: "provider_options \<Rightarrow> 'w \<Rightarrow> nat \<times> 'w"
  ot_Start :: "nat \<Rightarrow> trace_context \<Rightarrow> string \<Rightarrow> 'w \<Rightarrow> span \<times> 'w"
  ot_event :: "span \<Rightarrow> span_event \<Rightarrow> 'w \<Rightarrow> 'w"
  ot_Shutdown :: "nat \<Rightarrow> duration \<Rightarrow> 'w \<Rightarrow> string option \<times> 'w"
  ot_inject :: "propagator \<Rightarrow> trace_context \<Rightarrow> (string \<times> string) list"
  ot_extract :: "propagator \<Rightarrow> (string \<Rightarrow> string) \<Rightarrow> trace_context \<Rightarrow> trace_context"

subsection \<open>Tracers\<close>

record otelTracer =
  ox_provider :: nat
  ox_propagator :: propagator
  ox_config :: TracingConfig

datatype Tracer = NoopTracer | OtelTracer otelTracer

text \<open>The provider and the propagator of the process.\<close>

record otel_globals =
  og_provider :: "nat option"
  og_propagator :: "propagator option"

definition otlp_headers :: "TracingConfig \<Rightarrow> (string \<rightharpoonup> string) option" where
  "otlp_headers config = (if tr_Headers config = Map.empty then None else Some (tr_Headers config))"

definition createOTLPExporter :: "'w otel \<Rightarrow> TracingConfig \<Rightarrow> 'w \<Rightarrow> (string + nat) \<times> 'w" where
  "createOTLPExporter lib config =
     (if tr_Protocol config = ''http'' then ot_NewExporter lib (OtlpHTTP (tr_Endpoint config) (otlp_headers config))
      else ot_NewExporter lib (OtlpGRPC (tr_Endpoint config) (otlp_headers config)))"

definition choose_sampler :: "float64 \<Rightarrow> sampler" where
  "choose_sampler rate =
     (if f64_le (Fin 1) rate then AlwaysSample else if f64_le rate (Fin 0) then NeverSample else TraceIDRatioBased rate)"

definition choose_propagator :: "string \<Rightarrow> propagator" where
  "choose_propagator format =
     (if format = ''b3'' then TraceContextAndBaggage else if format = ''jaeger'' then TraceContextAndBaggage else TraceContextAndBaggage)"

definition NewTracerWithConfig :: "'w otel \<Rightarrow> TracingConfig \<Rightarrow> 'w \<times> otel_globals \<Rightarrow> (string + Tracer) \<times> 'w \<times> otel_globals" where
  "NewTracerWithConfig lib config wg =
     (case wg of (w, g) \<Rightarrow>
        if \<not> tr_Enabled config then (Inr NoopTracer, w, g)
        else
          let res = (tr_ServiceName config, tr_ServiceVersion config, tr_ServiceInstance config)
          in case ot_NewResource lib res of
               Some e \<Rightarrow> (Inl (''failed to create resource: '' @ e), w, g)
             | None \<Rightarrow>
                 if tr_ExporterType config \<noteq> ''otlp'' then (Inl (''unsupported exporter type: '' @ tr_ExporterType config), w, g)
                 else (case createOTLPExporter lib config w of
                     (Inl e, w) \<Rightarrow> (Inl (''failed to create exporter: '' @ e), w, g)
                   | (Inr exporter, w) \<Rightarrow>
                       (case ot_NewProvider lib
                          \<lparr>po_exporter = exporter, po_MaxExportBatchSize = tr_MaxExportBatchSize config, po_MaxQueueSize = tr_MaxQueueSize config,
                           po_sampler = choose_sampler (tr_SamplingRate config), po_resource = res\<rparr> w of
                          (provider, w) \<Rightarrow>
                            let prop = choose_propagator (tr_PropagationFormat config);
                                g = g\<lparr>og_provider := Some provider, og_propagator := Some prop\<rparr>
                            in (Inr (OtelTracer \<lparr>ox_provider = provider, ox_propagator = prop, ox_config = config\<rparr>), w, g))))"

definition NewTracer :: "'w otel \<Rightarrow> 'w \<times> otel_globals \<Rightarrow> (string + Tracer) \<times> 'w \<times> otel_globals" where
  "NewTracer lib = NewTracerWithConfig lib DefaultTracingConfig"

definition Tracer_Start :: "'w otel \<Rightarrow> Tracer \<Rightarrow> trace_context \<Rightarrow> string \<Rightarrow> 'w \<Rightarrow> trace_context \<times> span option \<times> 'w" where
  "Tracer_Start lib t ctx spanName w =
     (case t of
        NoopTracer \<Rightarrow> (ctx, tc_span ctx, w)
      | OtelTracer o' \<Rightarrow> (case ot_Start lib (ox_provider o') ctx spanName w of (s, w) \<Rightarrow> (ctx\<lparr>tc_span := Some s\<rparr>, Some s, w)))"

definition Tracer_StartSpan :: "'w otel \<Rightarrow> Tracer \<Rightarrow> trace_context \<Rightarrow> string \<Rightarrow> 'w \<Rightarrow> span option \<times> 'w" where
  "Tracer_StartSpan lib t ctx spanName w = (case Tracer_Start lib t ctx spanName w of (ctx, s, w) \<Rightarrow> (s, w))"

text \<open>A carrier is read through its \<open>Get\<close> and changed through its \<open>Set\<close>.\<close>

definition Tracer_Extract :: "'w otel \<Rightarrow> Tracer \<Rightarrow> trace_context \<Rightarrow> (string \<Rightarrow> string) \<Rightarrow> trace_context" where
  "Tracer_Extract lib t ctx get = (case t of NoopTracer \<Rightarrow> ctx | OtelTracer o' \<Rightarrow> ot_extract lib (ox_propagator o') get ctx)"

definition Tracer_Inject :: "'w otel \<Rightarrow> Tracer \<Rightarrow> trace_context \<Rightarrow> (string \<Rightarrow> string \<Rightarrow> 'c \<Rightarrow> 'c) \<Rightarrow> 'c \<Rightarrow> 'c" where
  "Tracer_Inject lib t ctx put carrier =
     (case t of NoopTracer \<Rightarrow> carrier | OtelTracer o' \<Rightarrow> foldl (\<lambda>c (k, v). put k v c) carrier (ot_inject lib (ox_propagator o') ctx))"

definition Tracer_TracerProvider :: "Tracer \<Rightarrow> nat option" where
  "Tracer_TracerProvider t = (case t of NoopTracer \<Rightarrow> None | OtelTracer o' \<Rightarrow> Some (ox_provider o'))"

definition Tracer_Shutdown :: "'w otel \<Rightarrow> Tracer \<Rightarrow> duration \<Rightarrow> 'w \<Rightarrow> string option \<times> 'w" where
  "Tracer_Shutdown lib t timeout w = (case t of NoopTracer \<Rightarrow> (None, w) | OtelTracer o' \<Rightarrow> ot_Shutdown lib (ox_provider o') timeout w)"

text \<open>A no-op span (\<open>None\<close>) takes no events.\<close>

definition span_event :: "'w otel \<Rightarrow> span option \<Rightarrow> span_event \<Rightarrow> 'w \<Rightarrow> 'w" where
  "span_event lib s e w = (case s of None \<Rightarrow> w | Some s \<Rightarrow> ot_event lib s e w)"

subsection \<open>The tracer of the package\<close>

definition init_GlobalTracer :: "'w otel \<Rightarrow> 'w \<times> otel_globals \<Rightarrow> Tracer \<times> 'w \<times> otel_globals" where
  "init_GlobalTracer lib wg = (case NewTracer lib wg of (Inl e, wg) \<Rightarrow> (NoopTracer, wg) | (Inr t, wg) \<Rightarrow> (t, wg))"

definition SetGlobalTracer :: "Tracer \<Rightarrow> Tracer \<Rightarrow> Tracer" where
  "SetGlobalTracer tracer g = tracer"

subsection \<open>The manager\<close>

text \<open>
  The configuration of the service as its tracing part, or of another type (\<open>None\<close>); \<open>UpdateTracingConfig\<close> changes it through the pointer it was given.  The constant
  \<open>defaultShutdownTimeout\<close> is a number of nanoseconds where it is used.
\<close>

datatype tracing_error = TracingNilConfig | TracingConfigType | TracingCreate string | TracingUpdate string

record TracerManager =
  tm_config :: "TracingConfig option"
  tm_tracer :: Tracer

definition defaultShutdownTimeout :: duration where
  "defaultShutdownTimeout = 5 * 1000"

definition NewTracerManager ::
  "'w otel \<Rightarrow> TracingConfig option option \<Rightarrow> 'w \<times> otel_globals \<Rightarrow> (tracing_error + TracerManager) \<times> 'w \<times> otel_globals" where
  "NewTracerManager lib cfg wg =
     (case cfg of
        None \<Rightarrow> (Inl TracingNilConfig, wg)
      | Some None \<Rightarrow> (Inl TracingConfigType, wg)
      | Some (Some c) \<Rightarrow>
          (case NewTracerWithConfig lib c wg of
             (Inl e, wg) \<Rightarrow> (Inl (TracingCreate e), wg)
           | (Inr t, wg) \<Rightarrow> (Inr \<lparr>tm_config = Some c, tm_tracer = t\<rparr>, wg)))"

definition GetTracer :: "TracerManager \<Rightarrow> Tracer" where
  "GetTracer m = tm_tracer m"

definition UpdateTracingConfig :: "string option \<Rightarrow> TracingConfig \<Rightarrow> TracerManager \<Rightarrow> tracing_error option \<times> TracerManager" where
  "UpdateTracingConfig update_err tracingConfig m =
     (case tm_config m of
        None \<Rightarrow> (Some TracingConfigType, m)
      | Some c \<Rightarrow> (map_option TracingUpdate update_err, m\<lparr>tm_config := Some tracingConfig\<rparr>))"

text \<open>\<open>Reload\<close> also replaces the tracer of the package, the third part of the state.\<close>

definition TracerManager_Reload ::
  "'w otel \<Rightarrow> TracingConfig option \<Rightarrow> TracerManager \<times> Tracer \<times> 'w \<times> otel_globals \<Rightarrow> tracing_error option \<times> TracerManager \<times> Tracer \<times> 'w \<times> otel_globals" where
  "TracerManager_Reload lib newConfig s =
     (case s of (m, t, w, g) \<Rightarrow>
        (case newConfig of
           None \<Rightarrow> (Some TracingConfigType, m, t, w, g)
         | Some c \<Rightarrow>
             (case Tracer_Shutdown lib (tm_tracer m) defaultShutdownTimeout w of (e, w) \<Rightarrow>
                (case NewTracerWithConfig lib c (w, g) of
                   (Inl e, w, g) \<Rightarrow> (Some (TracingCreate e), m, t, w, g)
                 | (Inr new, w, g) \<Rightarrow> (None, m\<lparr>tm_tracer := new\<rparr>, SetGlobalTracer new t, w, g)))))"

subsection \<open>HTTP headers\<close>

text \<open>\<open>http.CanonicalHeaderKey\<close>: a key that is no token is left as it is.\<close>

definition token_char :: "char \<Rightarrow> bool" where
  "token_char c \<longleftrightarrow> c \<in> set ''!#$%&*+-.^_`|~0123456789abcdefghijklmnopqrstuvwxyzABCDEFGHIJKLMNOPQRSTUVWXYZ'' \<or> c = CHR 0x27"

definition upper_char :: "char \<Rightarrow> char" where
  "upper_char c = (if (97 :: nat) \<le> of_char c \<and> of_char c \<le> (122 :: nat) then char_of (of_char c - 32 :: nat) else c)"

fun canonical :: "bool \<Rightarrow> string \<Rightarrow> string" where
  "canonical upper [] = []"
| "canonical upper (c # s) = (if upper then upper_char c else lower_char c) # canonical (c = CHR ''-'') s"

definition CanonicalHeaderKey :: "string \<Rightarrow> string" where
  "CanonicalHeaderKey key = (if list_all token_char key then canonical True key else key)"

type_synonym http_headers = "string \<rightharpoonup> string list"

definition headerCarrier_Get :: "http_headers \<Rightarrow> string \<Rightarrow> string" where
  "headerCarrier_Get h key = (case h (CanonicalHeaderKey key) of Some (v # vs) \<Rightarrow> v | _ \<Rightarrow> [])"

definition headerCarrier_Set :: "string \<Rightarrow> string \<Rightarrow> http_headers \<Rightarrow> http_headers" where
  "headerCarrier_Set key value h = h(CanonicalHeaderKey key \<mapsto> [value])"

text \<open>\<open>order\<close>: the order in which the map is ranged over.\<close>

definition headerCarrier_Keys :: "(http_headers \<Rightarrow> string list) \<Rightarrow> http_headers \<Rightarrow> string list" where
  "headerCarrier_Keys order h = order h"

subsection \<open>Loggers for tests\<close>

definition NewNoOpLogger :: "nat \<Rightarrow> 'v slogLogger" where
  "NewNoOpLogger discard = NewLoggerWithWriter discard (DefaultLoggerConfig\<lparr>lg_Level := ''error''\<rparr>)"

definition NewTestLogger :: "nat \<Rightarrow> 'v slogLogger" where
  "NewTestLogger w = NewLoggerWithWriter w (DefaultLoggerConfig\<lparr>lg_Format := ''json''\<rparr>)"

subsection \<open>Properties\<close>

text \<open>
  A reload that fails leaves the manager and the package with the tracer it has shut down; it does so for every exporter but \<open>otlp\<close>, also for those the
  configuration admits.
\<close>

theorem failed_reload_keeps_dead_tracer:
  assumes "tr_Enabled c" and "tr_ExporterType c \<noteq> ''otlp''" and "tm_tracer m = OtelTracer o'"
  shows "\<exists>e. TracerManager_Reload lib (Some c) (m, t, w, g) =
    (Some (TracingCreate e), m, t, snd (ot_Shutdown lib (ox_provider o') 5000 w), g)"
  using assms by (auto simp: TracerManager_Reload_def NewTracerWithConfig_def Tracer_Shutdown_def defaultShutdownTimeout_def Let_def split: prod.split option.split)

text \<open>Whatever format of propagation is configured, the one of W3C is used.\<close>

lemma propagation_format_ignored: "choose_propagator a = choose_propagator b"
  by (simp add: choose_propagator_def)

end
