(* ===== verification/GrpcTracing.thy ===== *)
theory GrpcTracing
  imports Tracing GrpcServer
begin

text \<open>
  Package grpc: the tracing of calls with its contexts (\<open>tracing.go\<close>): what a client writes into the metadata of a call and what a server makes of it.  An
  invoker or streamer is a function on the context and the world; \<open>None\<close> is the panic of an empty method name.
\<close>

subsection \<open>Metadata as a carrier\<close>

type_synonym metadata = "string \<Rightarrow> string list" \<comment> \<open>keys in lower case\<close>

definition metadataCarrier_Get :: "metadata \<Rightarrow> string \<Rightarrow> string" where
  "metadataCarrier_Get md key = (case md (strings_ToLower key) of [] \<Rightarrow> [] | v # vs \<Rightarrow> v)"

definition metadataCarrier_Set :: "string \<Rightarrow> string \<Rightarrow> metadata \<Rightarrow> metadata" where
  "metadataCarrier_Set key value md = md(strings_ToLower key := [value])"

definition metadataCarrier_Keys :: "(metadata \<Rightarrow> string list) \<Rightarrow> metadata \<Rightarrow> string list" where
  "metadataCarrier_Keys order md = order md"

lemma carrier_Get_Set: "metadataCarrier_Get (metadataCarrier_Set k' v md) k = (if strings_ToLower k = strings_ToLower k' then v else metadataCarrier_Get md k)"
  by (simp add: metadataCarrier_Get_def metadataCarrier_Set_def)

subsection \<open>Clients\<close>

text \<open>The context of the call with its span: the fields of the span are in the outgoing metadata.\<close>

definition client_context :: "'w otel \<Rightarrow> Tracer \<Rightarrow> string \<Rightarrow> trace_context \<Rightarrow> 'w \<Rightarrow> (trace_context \<times> span option \<times> 'w) option" where
  "client_context lib t method ctx w =
     (case (extractService method, extractMethod method) of
        (Some service, Some name) \<Rightarrow>
          (case Tracer_Start lib t ctx method w of (ctx, s, w) \<Rightarrow>
             let md = (case tc_outgoing ctx of None \<Rightarrow> (\<lambda>_. []) | Some md \<Rightarrow> md);
                 carrier = Tracer_Inject lib t ctx metadataCarrier_Set md
             in Some (ctx\<lparr>tc_outgoing := Some carrier\<rparr>, s, w))
      | _ \<Rightarrow> None)"

definition call_status :: "'w otel \<Rightarrow> span option \<Rightarrow> (int \<times> string) option \<Rightarrow> 'w \<Rightarrow> 'w" where
  "call_status lib s err w =
     (case err of
        Some (status, msg) \<Rightarrow> span_event lib s (SpanAttribute ''error.message'' msg)
          (span_event lib s (SpanAttribute ''rpc.grpc.status_code'' (fmt_d status)) (span_event lib s (SpanStatus True msg) w))
      | None \<Rightarrow> span_event lib s (SpanStatus False []) w)"

definition UnaryClientTracingInterceptor ::
  "'w otel \<Rightarrow> Tracer \<Rightarrow> string \<Rightarrow> (trace_context \<Rightarrow> 'w \<Rightarrow> (int \<times> string) option \<times> 'w) \<Rightarrow> trace_context \<Rightarrow> 'w \<Rightarrow> ((int \<times> string) option \<times> 'w) option" where
  "UnaryClientTracingInterceptor lib t method invoker ctx w =
     (case client_context lib t method ctx w of
        None \<Rightarrow> None
      | Some (ctx, s, w) \<Rightarrow>
          (case invoker ctx w of (err, w) \<Rightarrow> Some (err, span_event lib s SpanEnd (call_status lib s err w))))"

record 'st wrappedClientStream =
  wc_ClientStream :: 'st
  wc_span :: "span option"

definition StreamClientTracingInterceptor ::
  "'w otel \<Rightarrow> Tracer \<Rightarrow> string \<Rightarrow> (trace_context \<Rightarrow> 'w \<Rightarrow> ((int \<times> string) + 'st) \<times> 'w) \<Rightarrow> trace_context \<Rightarrow> 'w \<Rightarrow> (((int \<times> string) + 'st wrappedClientStream) \<times> 'w) option" where
  "StreamClientTracingInterceptor lib t method streamer ctx w =
     (case client_context lib t method ctx w of
        None \<Rightarrow> None
      | Some (ctx, s, w) \<Rightarrow>
          (case streamer ctx w of
             (Inl err, w) \<Rightarrow> Some (Inl err, span_event lib s SpanEnd (call_status lib s (Some err) w))
           | (Inr stream, w) \<Rightarrow> Some (Inr \<lparr>wc_ClientStream = stream, wc_span = s\<rparr>, w)))"

definition end_on_error :: "'w otel \<Rightarrow> span option \<Rightarrow> string option \<times> 'w \<Rightarrow> string option \<times> 'w" where
  "end_on_error lib s r = (case r of (err, w) \<Rightarrow> (err, if err \<noteq> None then span_event lib s SpanEnd w else w))"

definition wrapped_RecvMsg :: "'w otel \<Rightarrow> ('st \<Rightarrow> 'w \<Rightarrow> string option \<times> 'w) \<Rightarrow> 'st wrappedClientStream \<Rightarrow> 'w \<Rightarrow> string option \<times> 'w" where
  "wrapped_RecvMsg lib recv c w = end_on_error lib (wc_span c) (recv (wc_ClientStream c) w)"

definition wrapped_SendMsg :: "'w otel \<Rightarrow> ('st \<Rightarrow> 'w \<Rightarrow> string option \<times> 'w) \<Rightarrow> 'st wrappedClientStream \<Rightarrow> 'w \<Rightarrow> string option \<times> 'w" where
  "wrapped_SendMsg lib send c w = end_on_error lib (wc_span c) (send (wc_ClientStream c) w)"

definition wrapped_CloseSend :: "('st \<Rightarrow> 'w \<Rightarrow> string option \<times> 'w) \<Rightarrow> 'st wrappedClientStream \<Rightarrow> 'w \<Rightarrow> string option \<times> 'w" where
  "wrapped_CloseSend close c w = close (wc_ClientStream c) w"

subsection \<open>Servers\<close>

text \<open>The context the handler of a call runs in.\<close>

definition server_context :: "'w otel \<Rightarrow> Tracer \<Rightarrow> string \<Rightarrow> trace_context \<Rightarrow> 'w \<Rightarrow> (trace_context \<times> span option \<times> 'w) option" where
  "server_context lib t method ctx w =
     (let md = (case tc_incoming ctx of None \<Rightarrow> (\<lambda>_. []) | Some md \<Rightarrow> md);
          ctx = Tracer_Extract lib t ctx (metadataCarrier_Get md)
      in case (extractService method, extractMethod method) of
           (Some service, Some name) \<Rightarrow> Some (Tracer_Start lib t ctx method w)
         | _ \<Rightarrow> None)"

record 'ss wrappedServerStream =
  wr_ServerStream :: 'ss
  wr_ctx :: trace_context

definition wrapped_Context :: "'ss wrappedServerStream \<Rightarrow> trace_context" where
  "wrapped_Context s = wr_ctx s"

subsection \<open>One trace\<close>

text \<open>
  What OpenTelemetry documents of spans and of the W3C propagator: a span belongs to the trace of its parent, the fields have different names, and extracting what was injected gives the
  identifiers of the span.
\<close>

locale propagation =
  fixes lib :: "'w otel"
  assumes child: "ot_Start lib p ctx name w = (s, w') \<Longrightarrow> tc_span ctx = Some parent \<Longrightarrow> sp_TraceID s = sp_TraceID parent"
    and names: "distinct (map (strings_ToLower \<circ> fst) (ot_inject lib pr ctx))"
    and roundtrip: "tc_span ctx = Some s \<Longrightarrow> (\<And>k v. (k, v) \<in> set (ot_inject lib pr ctx) \<Longrightarrow> get k = v) \<Longrightarrow> tc_span (ot_extract lib pr get ctx') = Some s"
begin

lemma injected:
  assumes "distinct (map (strings_ToLower \<circ> fst) kvs)" and "(k, v) \<in> set kvs"
  shows "metadataCarrier_Get (foldl (\<lambda>c (k, v). metadataCarrier_Set k v c) md kvs) k = v"
  using assms
proof (induction kvs rule: rev_induct)
  case (snoc kv kvs)
  have "strings_ToLower k \<noteq> strings_ToLower (fst kv)" if "(k, v) \<in> set kvs"
  proof -
    have "strings_ToLower k \<in> set (map (strings_ToLower \<circ> fst) kvs)" using imageI [OF that, of "strings_ToLower \<circ> fst"] unfolding set_map by simp
    moreover have "strings_ToLower (fst kv) \<notin> set (map (strings_ToLower \<circ> fst) kvs)" using snoc.prems(1) by (simp add: comp_def)
    ultimately show ?thesis by metis
  qed
  then show ?case using snoc by (cases kv) (auto simp: carrier_Get_Set)
qed simp

lemma one_trace:
  assumes "client_context lib (OtelTracer a) method ctx w = Some (ctx1, s1, w1)" and "ox_propagator b = ox_propagator a"
    and "tc_incoming ctx2 = tc_outgoing ctx1"
  shows "\<exists>c p s2 ctx3 w3. s1 = Some p \<and> tc_span c = Some p \<and> server_context lib (OtelTracer b) method ctx2 w2 = Some (ctx3, Some s2, w3) \<and>
    ot_Start lib (ox_provider b) c method w2 = (s2, w3) \<and> tc_span ctx3 = Some s2 \<and> sp_TraceID s2 = sp_TraceID p"
proof -
  obtain p w' where p: "ot_Start lib (ox_provider a) ctx method w = (p, w')" by fastforce
  let ?c1 = "ctx\<lparr>tc_span := Some p\<rparr>"
  let ?md = "case tc_outgoing ctx of None \<Rightarrow> (\<lambda>_. []) | Some md \<Rightarrow> md"
  let ?carrier = "foldl (\<lambda>c (k, v). metadataCarrier_Set k v c) ?md (ot_inject lib (ox_propagator a) ?c1)"
  have c: "extractService method \<noteq> None" "extractMethod method \<noteq> None" "s1 = Some p" "ctx1 = ?c1\<lparr>tc_outgoing := Some ?carrier\<rparr>"
    using assms(1) p by (auto simp: client_context_def Tracer_Start_def Tracer_Inject_def Let_def split: option.splits)
  define e where "e = ot_extract lib (ox_propagator b) (metadataCarrier_Get ?carrier) ctx2"
  have e: "tc_span e = Some p"
    unfolding e_def assms(2) by (rule roundtrip [of ?c1]) (auto intro: injected [OF names])
  obtain s2 w3 where s2: "ot_Start lib (ox_provider b) e method w2 = (s2, w3)" by fastforce
  have i: "tc_incoming ctx2 = Some ?carrier" using assms(3) c(4) by simp
  have "server_context lib (OtelTracer b) method ctx2 w2 = Some (e\<lparr>tc_span := Some s2\<rparr>, Some s2, w3)"
    using c(1,2) s2 by (auto simp: server_context_def i Tracer_Extract_def Tracer_Start_def Let_def e_def)
  then show ?thesis using c(3) e s2 child [OF s2 e] by fastforce
qed

end

text \<open>
  C36: a call between a client and a server that trace is one trace: whatever metadata the call carried before, the server, on the metadata the client sent, starts its span below the
  client's span and in its trace.
\<close>

theorem trace_continues:
  assumes "propagation lib" and "client_context lib (OtelTracer a) method ctx w = Some (ctx1, s1, w1)" and "ox_propagator b = ox_propagator a"
    and "tc_incoming ctx2 = tc_outgoing ctx1"
  shows "\<exists>c p s2 ctx3 w3. s1 = Some p \<and> tc_span c = Some p \<and> server_context lib (OtelTracer b) method ctx2 w2 = Some (ctx3, Some s2, w3) \<and>
    ot_Start lib (ox_provider b) c method w2 = (s2, w3) \<and> tc_span ctx3 = Some s2 \<and> sp_TraceID s2 = sp_TraceID p"
  by (rule propagation.one_trace [OF assms])

subsection \<open>An SDK that numbers its spans\<close>

definition number_otel :: "nat otel" where
  "number_otel =
     \<lparr>ot_NewResource = (\<lambda>_. None), ot_NewExporter = (\<lambda>_ w. (Inr w, w + 1)), ot_NewProvider = (\<lambda>_ w. (w, w + 1)),
      ot_Start = (\<lambda>p ctx name w. (\<lparr>sp_TraceID = (case tc_span ctx of None \<Rightarrow> nat_digits w | Some s \<Rightarrow> sp_TraceID s), sp_SpanID = nat_digits w\<rparr>, w + 1)),
      ot_event = (\<lambda>s e w. w), ot_Shutdown = (\<lambda>p d w. (None, w)),
      ot_inject = (\<lambda>pr ctx. case tc_span ctx of None \<Rightarrow> [] | Some s \<Rightarrow> [(''trace-id'', sp_TraceID s), (''span-id'', sp_SpanID s)]),
      ot_extract = (\<lambda>pr get ctx. ctx\<lparr>tc_span := Some \<lparr>sp_TraceID = get ''trace-id'', sp_SpanID = get ''span-id''\<rparr>\<rparr>)\<rparr>"

lemma lower_names: "strings_ToLower ''trace-id'' = ''trace-id''" "strings_ToLower ''span-id'' = ''span-id''"
  by code_simp+

interpretation numbers: propagation number_otel
  by unfold_locales (auto simp: number_otel_def lower_names split: option.splits)

abbreviation "no_context \<equiv> \<lparr>tc_span = None, tc_incoming = None, tc_outgoing = None\<rparr>"

theorem trace_continues_witness:
  "\<exists>ctx1 s1 w1 ctx3 s2 w3. client_context number_otel (OtelTracer \<lparr>ox_provider = 1, ox_propagator = TraceContextAndBaggage, ox_config = DefaultTracingConfig\<rparr>) ''/s/m'' no_context 5 =
      Some (ctx1, Some s1, w1) \<and>
    server_context number_otel (OtelTracer \<lparr>ox_provider = 2, ox_propagator = TraceContextAndBaggage, ox_config = DefaultTracingConfig\<rparr>) ''/s/m''
      (no_context\<lparr>tc_incoming := tc_outgoing ctx1\<rparr>) 9 = Some (ctx3, Some s2, w3) \<and> sp_TraceID s2 = sp_TraceID s1"
proof -
  let ?a = "\<lparr>ox_provider = 1, ox_propagator = TraceContextAndBaggage, ox_config = DefaultTracingConfig\<rparr>"
  let ?b = "\<lparr>ox_provider = 2, ox_propagator = TraceContextAndBaggage, ox_config = DefaultTracingConfig\<rparr>"
  have "extractService ''/s/m'' = Some ''s''" "extractMethod ''/s/m'' = Some ''m''" by code_simp+
  then obtain ctx1 s1 w1 where c: "client_context number_otel (OtelTracer ?a) ''/s/m'' no_context 5 = Some (ctx1, Some s1, w1)"
    by (simp add: client_context_def Tracer_Start_def number_otel_def Let_def)
  from trace_continues [OF numbers.propagation_axioms c, of ?b "no_context\<lparr>tc_incoming := tc_outgoing ctx1\<rparr>" 9] c show ?thesis by fastforce
qed

end
