(* ===== verification/GoOs.thy ===== *)
theory GoOs
  imports GoPath
begin

text \<open>
  Files, environment and programs as the tools of the repository use them: a record of functions on a world \<open>'w\<close>, and the functions of
  \<open>path/filepath\<close> on Unix.
\<close>

record 'w os =
  os_UserHomeDir :: "'w \<Rightarrow> string + string"
  os_MkdirAll :: "string \<Rightarrow> 'w \<Rightarrow> string option \<times> 'w"
  os_Missing :: "string \<Rightarrow> 'w \<Rightarrow> bool" \<comment> \<open>\<open>os.IsNotExist\<close> of the error of \<open>os.Stat\<close>\<close>
  os_ReadFile :: "string \<Rightarrow> 'w \<Rightarrow> string + string"
  os_WriteFile :: "string \<Rightarrow> string \<Rightarrow> 'w \<Rightarrow> string option \<times> 'w"
  os_ReadDir :: "string \<Rightarrow> 'w \<Rightarrow> string + (string \<times> bool) list" \<comment> \<open>names, and which are directories\<close>
  os_Getenv :: "string \<Rightarrow> 'w \<Rightarrow> string"
  os_Environ :: "'w \<Rightarrow> string list"
  os_LookPath :: "string \<Rightarrow> 'w \<Rightarrow> string + string"
  os_Run :: "string \<Rightarrow> string list \<Rightarrow> string list \<Rightarrow> 'w \<Rightarrow> string option \<times> 'w" \<comment> \<open>program, arguments, environment\<close>

definition filepath_Join :: "string list \<Rightarrow> string" where
  "filepath_Join es = (let es = filter (\<lambda>e. e \<noteq> []) es in if es = [] then [] else path_Clean (strings_Join es ''/''))"

definition filepath_Dir :: "string \<Rightarrow> string" where
  "filepath_Dir p = path_Clean (rev (dropWhile (\<lambda>c. c \<noteq> CHR ''/'') (rev p)))"

end
