(* ===== verification/Cli.thy ===== *)
theory Cli
  imports GoOs GoUtf8 GoFmt
begin

text \<open>
  Package cli: the configuration of the tool (\<open>config.go\<close>), its plugins (\<open>plugins.go\<close>) and how a run of the tool begins (\<open>root.go\<close>).
  Files, environment and programs are the argument \<open>fs\<close> on the world \<open>'w\<close>, YAML is an argument.  The registration of the commands is not
  modelled, each command is the function it runs; the texts it prints are left out.
\<close>

subsection \<open>Configuration\<close>

record TemplateConfig =
  tp_CustomPath :: string
  tp_Variables :: "(string \<rightharpoonup> string) option"

record PluginConfig =
  pl_Name :: string
  pl_Command :: string
  pl_Description :: string
  pl_Enabled :: bool
  pl_Config :: "(string \<rightharpoonup> string) option"

record DefaultsConfig =
  df_GoVersion :: string
  df_Author :: string
  df_License :: string
  df_Organization :: string
  df_WithGRPC :: bool
  df_WithJobs :: bool
  df_WithCache :: bool
  df_WithAuth :: bool

record CLIConfig =
  cc_DefaultOutputDir :: string
  cc_Templates :: TemplateConfig
  cc_Plugins :: "PluginConfig list"
  cc_Defaults :: DefaultsConfig

text \<open>YAML: a nil pointer is a value too, and what could be read of a text is kept when it has errors.\<close>

record yaml =
  ya_Marshal :: "CLIConfig option \<Rightarrow> string + string"
  ya_Unmarshal :: "string \<Rightarrow> string option \<times> CLIConfig"

text \<open>The variables \<open>cliConfig\<close> and \<open>configDir\<close>, with the world.\<close>

record 'w cli =
  cl_config :: "CLIConfig option"
  cl_dir :: string
  cl_world :: 'w

definition getDefaultConfig :: CLIConfig where
  "getDefaultConfig =
     \<lparr>cc_DefaultOutputDir = ''.'', cc_Templates = \<lparr>tp_CustomPath = [], tp_Variables = Some Map.empty\<rparr>, cc_Plugins = [],
      cc_Defaults = \<lparr>df_GoVersion = ''1.23'', df_Author = [], df_License = ''MIT'', df_Organization = [], df_WithGRPC = False, df_WithJobs = False,
                     df_WithCache = False, df_WithAuth = False\<rparr>\<rparr>"

definition saveConfig :: "'w os \<Rightarrow> yaml \<Rightarrow> 'w cli \<Rightarrow> string option \<times> 'w cli" where
  "saveConfig fs y c =
     (let configFile = filepath_Join [cl_dir c, ''config.yaml'']
      in case ya_Marshal y (cl_config c) of
           Inl e \<Rightarrow> (Some (''marshaling config: '' @ e), c)
         | Inr data \<Rightarrow>
             (case os_WriteFile fs configFile data (cl_world c) of
                (e, w) \<Rightarrow> (map_option (\<lambda>e. ''writing config file: '' @ e) e, c\<lparr>cl_world := w\<rparr>)))"

definition loadConfig :: "'w os \<Rightarrow> yaml \<Rightarrow> string \<Rightarrow> 'w cli \<Rightarrow> string option \<times> 'w cli" where
  "loadConfig fs y configFile c =
     (case os_ReadFile fs configFile (cl_world c) of
        Inl e \<Rightarrow> (Some (''reading config file: '' @ e), c)
      | Inr data \<Rightarrow>
          (case ya_Unmarshal y data of
             (Some e, config) \<Rightarrow> (Some (''parsing config file: '' @ e), c\<lparr>cl_config := Some config\<rparr>)
           | (None, config) \<Rightarrow> (None, c\<lparr>cl_config := Some config\<rparr>)))"

definition initConfig :: "'w os \<Rightarrow> yaml \<Rightarrow> 'w cli \<Rightarrow> string option \<times> 'w cli" where
  "initConfig fs y c =
     (case os_UserHomeDir fs (cl_world c) of
        Inl e \<Rightarrow> (Some (''getting home directory: '' @ e), c)
      | Inr homeDir \<Rightarrow>
          (let c = c\<lparr>cl_dir := filepath_Join [homeDir, ''.microlib'']\<rparr>;
               configFile = filepath_Join [cl_dir c, ''config.yaml'']
           in case os_MkdirAll fs (cl_dir c) (cl_world c) of
                (Some e, w) \<Rightarrow> (Some (''creating config directory: '' @ e), c\<lparr>cl_world := w\<rparr>)
              | (None, w) \<Rightarrow>
                  let c = c\<lparr>cl_world := w\<rparr>
                  in if os_Missing fs configFile w then
                       (case saveConfig fs y (c\<lparr>cl_config := Some getDefaultConfig\<rparr>) of
                          (e, c) \<Rightarrow> (map_option (\<lambda>e. ''saving default config: '' @ e) e, c))
                     else (case loadConfig fs y configFile c of (e, c) \<Rightarrow> (map_option (\<lambda>e. ''loading config: '' @ e) e, c))))"

text \<open>
  The pointer \<open>GetConfig\<close> returns: to the variable, or to a new default configuration.
\<close>

datatype config_ref = Shared | Fresh CLIConfig

definition GetConfig :: "'w os \<Rightarrow> yaml \<Rightarrow> 'w cli \<Rightarrow> config_ref \<times> 'w cli" where
  "GetConfig fs y c =
     (if cl_config c = None then
        (case initConfig fs y c of
           (Some e, c) \<Rightarrow> (Fresh getDefaultConfig, c)
         | (None, c) \<Rightarrow> (Shared, c))
      else (Shared, c))"

definition deref :: "config_ref \<Rightarrow> 'w cli \<Rightarrow> CLIConfig" where
  "deref r c = (case r of Fresh config \<Rightarrow> config | Shared \<Rightarrow> (case cl_config c of Some config \<Rightarrow> config | None \<Rightarrow> getDefaultConfig))"

definition UpdateConfig :: "'w os \<Rightarrow> yaml \<Rightarrow> (CLIConfig \<Rightarrow> CLIConfig) \<Rightarrow> 'w cli \<Rightarrow> string option \<times> 'w cli" where
  "UpdateConfig fs y updater c =
     (case GetConfig fs y c of
        (Shared, c) \<Rightarrow> saveConfig fs y (c\<lparr>cl_config := map_option updater (cl_config c)\<rparr>)
      | (Fresh config, c) \<Rightarrow> saveConfig fs y c)"

definition GetConfigDir :: "'w os \<Rightarrow> 'w cli \<Rightarrow> string \<times> 'w cli" where
  "GetConfigDir fs c =
     (if cl_dir c = [] then
        (let dir = filepath_Join [case os_UserHomeDir fs (cl_world c) of Inl e \<Rightarrow> [] | Inr d \<Rightarrow> d, ''.microlib''] in (dir, c\<lparr>cl_dir := dir\<rparr>))
      else (cl_dir c, c))"

text \<open>The commands \<open>config set\<close> and \<open>config reset\<close>.\<close>

definition set_key :: "string \<Rightarrow> string \<Rightarrow> CLIConfig \<Rightarrow> CLIConfig" where
  "set_key key value config =
     (if key = ''author'' then config\<lparr>cc_Defaults := (cc_Defaults config)\<lparr>df_Author := value\<rparr>\<rparr>
      else if key = ''license'' then config\<lparr>cc_Defaults := (cc_Defaults config)\<lparr>df_License := value\<rparr>\<rparr>
      else if key = ''organization'' then config\<lparr>cc_Defaults := (cc_Defaults config)\<lparr>df_Organization := value\<rparr>\<rparr>
      else if key = ''go_version'' then config\<lparr>cc_Defaults := (cc_Defaults config)\<lparr>df_GoVersion := value\<rparr>\<rparr>
      else if key = ''output_dir'' then config\<lparr>cc_DefaultOutputDir := value\<rparr>
      else config)"

definition config_set :: "'w os \<Rightarrow> yaml \<Rightarrow> string \<Rightarrow> string \<Rightarrow> 'w cli \<Rightarrow> string option \<times> 'w cli" where
  "config_set fs y key value = UpdateConfig fs y (set_key key value)"

definition config_reset :: "'w os \<Rightarrow> yaml \<Rightarrow> 'w cli \<Rightarrow> string option \<times> 'w cli" where
  "config_reset fs y = UpdateConfig fs y (\<lambda>_. getDefaultConfig)"

subsection \<open>Plugins\<close>

record PluginManager =
  pm_config :: config_ref

definition NewPluginManager :: "'w os \<Rightarrow> yaml \<Rightarrow> 'w cli \<Rightarrow> PluginManager \<times> 'w cli" where
  "NewPluginManager fs y c = (case GetConfig fs y c of (r, c) \<Rightarrow> (\<lparr>pm_config = r\<rparr>, c))"

text \<open>The commands that are added, each running its plugin.\<close>

definition LoadPlugins :: "PluginManager \<Rightarrow> 'w cli \<Rightarrow> PluginConfig list" where
  "LoadPlugins pm c = filter pl_Enabled (cc_Plugins (deref (pm_config pm) c))"

text \<open>\<open>upper\<close> is \<open>strings.ToUpper\<close>, \<open>keys\<close> the order in which a map is ranged over.\<close>

definition executePlugin :: "'w os \<Rightarrow> (string \<Rightarrow> string) \<Rightarrow> ((string \<rightharpoonup> string) \<Rightarrow> string list) \<Rightarrow> PluginConfig \<Rightarrow> string list \<Rightarrow> 'w \<Rightarrow> string option \<times> 'w" where
  "executePlugin fs upper keys plugin args w =
     (case os_LookPath fs (pl_Command plugin) w of
        Inl e \<Rightarrow> (Some (''plugin command not found: '' @ pl_Command plugin), w)
      | Inr cmdPath \<Rightarrow>
          (let config = (case pl_Config plugin of None \<Rightarrow> Map.empty | Some m \<Rightarrow> m)
           in os_Run fs cmdPath args (os_Environ fs w @ map (\<lambda>k. ''MICROLIB_'' @ upper k @ ''='' @ the (config k)) (keys config)) w))"

definition InstallPlugin :: "'w os \<Rightarrow> yaml \<Rightarrow> PluginManager \<Rightarrow> string \<Rightarrow> string \<Rightarrow> string \<Rightarrow> 'w cli \<Rightarrow> string option \<times> 'w cli" where
  "InstallPlugin fs y pm name command description c =
     (if list_ex (\<lambda>p. pl_Name p = name) (cc_Plugins (deref (pm_config pm) c)) then (Some (''plugin '' @ name @ '' already exists''), c)
      else case os_LookPath fs command (cl_world c) of
          Inl e \<Rightarrow> (Some (''command not found: '' @ command), c)
        | Inr p \<Rightarrow>
            UpdateConfig fs y (\<lambda>config. config\<lparr>cc_Plugins := cc_Plugins config @
              [\<lparr>pl_Name = name, pl_Command = command, pl_Description = description, pl_Enabled = True, pl_Config = Some Map.empty\<rparr>]\<rparr>) c)"

text \<open>The first plugin of a name is removed or changed.\<close>

fun remove_plugin :: "string \<Rightarrow> PluginConfig list \<Rightarrow> PluginConfig list" where
  "remove_plugin name [] = []"
| "remove_plugin name (p # ps) = (if pl_Name p = name then ps else p # remove_plugin name ps)"

fun enable_plugin :: "bool \<Rightarrow> string \<Rightarrow> PluginConfig list \<Rightarrow> PluginConfig list" where
  "enable_plugin enabled name [] = []"
| "enable_plugin enabled name (p # ps) = (if pl_Name p = name then p\<lparr>pl_Enabled := enabled\<rparr> # ps else p # enable_plugin enabled name ps)"

definition UninstallPlugin :: "'w os \<Rightarrow> yaml \<Rightarrow> string \<Rightarrow> 'w cli \<Rightarrow> string option \<times> 'w cli" where
  "UninstallPlugin fs y name = UpdateConfig fs y (\<lambda>config. config\<lparr>cc_Plugins := remove_plugin name (cc_Plugins config)\<rparr>)"
definition EnablePlugin :: "'w os \<Rightarrow> yaml \<Rightarrow> string \<Rightarrow> 'w cli \<Rightarrow> string option \<times> 'w cli" where
  "EnablePlugin fs y name = UpdateConfig fs y (\<lambda>config. config\<lparr>cc_Plugins := enable_plugin True name (cc_Plugins config)\<rparr>)"
definition DisablePlugin :: "'w os \<Rightarrow> yaml \<Rightarrow> string \<Rightarrow> 'w cli \<Rightarrow> string option \<times> 'w cli" where
  "DisablePlugin fs y name = UpdateConfig fs y (\<lambda>config. config\<lparr>cc_Plugins := enable_plugin False name (cc_Plugins config)\<rparr>)"

definition ListPlugins :: "PluginManager \<Rightarrow> 'w cli \<Rightarrow> PluginConfig list" where
  "ListPlugins pm c = cc_Plugins (deref (pm_config pm) c)"

definition plugin_names :: "(string \<times> bool) list \<Rightarrow> string list" where
  "plugin_names entries =
     map (\<lambda>(name, dir). strings_TrimPrefix name ''microlib-'')
       (filter (\<lambda>(name, dir). \<not> dir \<and> strings_HasPrefix name ''microlib-'' \<and> name \<noteq> ''microlib-cli'') entries)"

definition DiscoverPlugins :: "'w os \<Rightarrow> 'w \<Rightarrow> string list" where
  "DiscoverPlugins fs w =
     concat (map (\<lambda>dir. case os_ReadDir fs dir w of Inl e \<Rightarrow> [] | Inr entries \<Rightarrow> plugin_names entries) (strings_Split (os_Getenv fs ''PATH'' w) '':''))"

subsection \<open>The command\<close>

text \<open>
  A run of the tool: the \<open>init\<close> of \<open>plugins.go\<close> makes the plugin manager and loads the plugins, then \<open>Execute\<close> initializes the
  configuration again before it runs the command (\<open>root.go\<close>).  That puts a new object into the variable, so that the manager keeps the old one.
\<close>

definition Execute ::
  "'w os \<Rightarrow> yaml \<Rightarrow> (PluginManager \<Rightarrow> 'w cli \<Rightarrow> string option \<times> 'w cli) \<Rightarrow> 'w \<Rightarrow> string option \<times> 'w" where
  "Execute fs y cmd w =
     (case NewPluginManager fs y \<lparr>cl_config = None, cl_dir = [], cl_world = w\<rparr> of
        (pm, c) \<Rightarrow>
          (let pm = \<lparr>pm_config = Fresh (deref (pm_config pm) c)\<rparr>
           in case initConfig fs y c of
                (Some e, c) \<Rightarrow> (Some e, cl_world c)
              | (None, c) \<Rightarrow> (case cmd pm c of (e, c) \<Rightarrow> (e, cl_world c))))"

text \<open>The commands that change the configuration.\<close>

datatype config_command =
    ConfigSet string string
  | ConfigReset
  | PluginInstall string string
  | PluginUninstall string
  | PluginEnable string
  | PluginDisable string

fun run_config_command :: "'w os \<Rightarrow> yaml \<Rightarrow> config_command \<Rightarrow> PluginManager \<Rightarrow> 'w cli \<Rightarrow> string option \<times> 'w cli" where
  "run_config_command fs y (ConfigSet key value) pm c = config_set fs y key value c"
| "run_config_command fs y ConfigReset pm c = config_reset fs y c"
| "run_config_command fs y (PluginInstall name command) pm c = InstallPlugin fs y pm name command (''Plugin: '' @ name) c"
| "run_config_command fs y (PluginUninstall name) pm c = UninstallPlugin fs y name c"
| "run_config_command fs y (PluginEnable name) pm c = EnablePlugin fs y name c"
| "run_config_command fs y (PluginDisable name) pm c = DisablePlugin fs y name c"

end
