(* ===== verification/CliTemplates.thy ===== *)
theory CliTemplates
  imports Cli
begin

text \<open>
  The customization of templates (\<open>template_config.go\<close>), the templates of services (\<open>templates.go\<close>) and the command that creates a
  service from them (\<open>new.go\<close>).  The template language and \<open>strings.Title\<close> are arguments, the embedded files a list of their paths below
  \<open>templates\<close> and their texts.  A map that may be nil is an option.  A command that ends the process with an error returns the text it prints.
\<close>

subsection \<open>Data\<close>

record TemplateData =
  td_ServiceName :: string
  td_ServiceNameCap :: string
  td_ServiceType :: string
  td_ModuleName :: string
  td_Author :: string
  td_License :: string
  td_Organization :: string
  td_GoVersion :: string
  td_WithGRPC :: bool
  td_WithJobs :: bool
  td_WithCache :: bool
  td_WithAuth :: bool
  td_WithMessaging :: bool
  td_WithMetrics :: bool
  td_WithTracing :: bool
  td_CustomVars :: "(string \<rightharpoonup> string) option"

record CustomTemplateFile =
  xf_Path :: string
  xf_TemplatePath :: string
  xf_Conditions :: "(string \<rightharpoonup> bool) option"
  xf_Variables :: "(string \<rightharpoonup> string) option"

record ServiceTypeCustomization =
  sy_Description :: string
  sy_Features :: "string list option"
  sy_DefaultOptions :: "(string \<rightharpoonup> bool) option"
  sy_ExtraFiles :: "CustomTemplateFile list"
  sy_Variables :: "(string \<rightharpoonup> string) option"

record GlobalCustomization =
  gl_Author :: string
  gl_License :: string
  gl_Organization :: string
  gl_GoVersion :: string
  gl_Variables :: "(string \<rightharpoonup> string) option"

record TemplateCustomization =
  tz_ServiceTypes :: "(string \<rightharpoonup> ServiceTypeCustomization) option"
  tz_Global :: GlobalCustomization

record ServiceTypeInfo =
  si_Name :: string
  si_Description :: string
  si_Features :: "string list option"

text \<open>Reading a map that may be nil.\<close>

definition entries :: "('k \<rightharpoonup> 'v) option \<Rightarrow> 'k \<rightharpoonup> 'v" where
  "entries m = (case m of None \<Rightarrow> Map.empty | Some m \<Rightarrow> m)"

lemma entries_simps [simp]: "entries None = Map.empty" "entries (Some m) = m"
  by (simp_all add: entries_def)

subsection \<open>Customization\<close>

definition default_options :: "bool \<Rightarrow> bool \<Rightarrow> bool \<Rightarrow> bool \<Rightarrow> bool \<Rightarrow> string \<rightharpoonup> bool" where
  "default_options g j c a m =
     [''WithGRPC'' \<mapsto> g, ''WithJobs'' \<mapsto> j, ''WithCache'' \<mapsto> c, ''WithAuth'' \<mapsto> a, ''WithMessaging'' \<mapsto> m]"

definition default_type :: "string \<Rightarrow> string list \<Rightarrow> (string \<rightharpoonup> bool) \<Rightarrow> ServiceTypeCustomization" where
  "default_type description features options =
     \<lparr>sy_Description = description, sy_Features = Some features, sy_DefaultOptions = Some options, sy_ExtraFiles = [], sy_Variables = Some Map.empty\<rparr>"

definition getDefaultTemplateCustomization :: TemplateCustomization where
  "getDefaultTemplateCustomization =
     \<lparr>tz_ServiceTypes = Some
        [''api'' \<mapsto> default_type ''REST API service with HTTP endpoints, database, and observability''
                    [''HTTP Server'', ''Database'', ''Observability'', ''Health Checks'', ''OpenAPI'']
                    (default_options False False True True False),
         ''worker'' \<mapsto> default_type ''Background worker service for processing jobs and tasks''
                    [''Job Queue'', ''Database'', ''Observability'', ''Health Checks'']
                    (default_options False True False False True),
         ''scheduler'' \<mapsto> default_type ''Scheduled task service for running cron jobs''
                    [''Cron Scheduler'', ''Database'', ''Observability'', ''Health Checks'']
                    (default_options False True False False False),
         ''gateway'' \<mapsto> default_type ''API gateway with routing, authentication, and rate limiting''
                    [''HTTP Server'', ''gRPC Client'', ''Authentication'', ''Rate Limiting'', ''Observability'']
                    (default_options False False True True False),
         ''event'' \<mapsto> default_type ''Event-driven service with messaging and outbox pattern''
                    [''Messaging'', ''Outbox Pattern'', ''Database'', ''Observability'', ''Health Checks'']
                    (default_options False False False False True)],
      tz_Global = \<lparr>gl_Author = ''Developer'', gl_License = ''MIT'', gl_Organization = ''Your Organization'', gl_GoVersion = ''1.23'',
                    gl_Variables = Some Map.empty\<rparr>\<rparr>"

definition or_default :: "string \<Rightarrow> string \<Rightarrow> string" where
  "or_default s d = (if s = [] then d else s)"

text \<open>The loops over the defaults add what is missing.\<close>

definition fill_missing :: "('k \<rightharpoonup> 'v) option \<Rightarrow> ('k \<rightharpoonup> 'v) option \<Rightarrow> ('k \<rightharpoonup> 'v) option" where
  "fill_missing defaults user = Some (entries defaults ++ entries user)"

definition merge_type :: "ServiceTypeCustomization \<Rightarrow> ServiceTypeCustomization \<Rightarrow> ServiceTypeCustomization" where
  "merge_type userConfig defaultConfig = userConfig
     \<lparr>sy_Description := or_default (sy_Description userConfig) (sy_Description defaultConfig),
      sy_Features := (case sy_Features userConfig of None \<Rightarrow> sy_Features defaultConfig | Some fs \<Rightarrow> Some fs),
      sy_DefaultOptions :=
        (case sy_DefaultOptions userConfig of None \<Rightarrow> sy_DefaultOptions defaultConfig | Some m \<Rightarrow> fill_missing (sy_DefaultOptions defaultConfig) (Some m)),
      sy_Variables := fill_missing (sy_Variables defaultConfig) (sy_Variables userConfig)\<rparr>"

definition mergeTemplateCustomization :: "TemplateCustomization \<Rightarrow> TemplateCustomization \<Rightarrow> TemplateCustomization" where
  "mergeTemplateCustomization user defaults =
     (let g = tz_Global user; d = tz_Global defaults
      in user
       \<lparr>tz_Global := g\<lparr>gl_Author := or_default (gl_Author g) (gl_Author d),
                        gl_License := or_default (gl_License g) (gl_License d),
                        gl_Organization := or_default (gl_Organization g) (gl_Organization d),
                        gl_GoVersion := or_default (gl_GoVersion g) (gl_GoVersion d),
                        gl_Variables := fill_missing (gl_Variables d) (gl_Variables g)\<rparr>,
        tz_ServiceTypes := Some (\<lambda>t. case entries (tz_ServiceTypes defaults) t of
             None \<Rightarrow> entries (tz_ServiceTypes user) t
           | Some defaultConfig \<Rightarrow>
               (case entries (tz_ServiceTypes user) t of
                  None \<Rightarrow> Some defaultConfig
                | Some userConfig \<Rightarrow> Some (merge_type userConfig defaultConfig)))\<rparr>)"

record template_yaml =
  ty_Marshal :: "TemplateCustomization \<Rightarrow> string + string"
  ty_Unmarshal :: "string \<Rightarrow> string + TemplateCustomization"

definition LoadTemplateCustomization :: "'w os \<Rightarrow> template_yaml \<Rightarrow> string \<Rightarrow> 'w \<Rightarrow> string + TemplateCustomization" where
  "LoadTemplateCustomization fs y configPath w =
     (if os_Missing fs configPath w then Inr getDefaultTemplateCustomization
      else case os_ReadFile fs configPath w of
          Inl e \<Rightarrow> Inl (''reading template config file: '' @ e)
        | Inr data \<Rightarrow>
            (case ty_Unmarshal y data of
               Inl e \<Rightarrow> Inl (''parsing template config: '' @ e)
             | Inr config \<Rightarrow> Inr (mergeTemplateCustomization config getDefaultTemplateCustomization)))"

definition SaveTemplateCustomization :: "'w os \<Rightarrow> template_yaml \<Rightarrow> TemplateCustomization \<Rightarrow> string \<Rightarrow> 'w \<Rightarrow> string option \<times> 'w" where
  "SaveTemplateCustomization fs y config configPath w =
     (case os_MkdirAll fs (filepath_Dir configPath) w of
        (Some e, w) \<Rightarrow> (Some (''creating config directory: '' @ e), w)
      | (None, w) \<Rightarrow>
          (case ty_Marshal y config of
             Inl e \<Rightarrow> (Some (''marshaling template config: '' @ e), w)
           | Inr data \<Rightarrow>
               (case os_WriteFile fs configPath data w of
                  (e, w) \<Rightarrow> (map_option (\<lambda>e. ''writing template config file: '' @ e) e, w))))"

text \<open>An option that is missing in the map reads as false.\<close>

definition option_of :: "ServiceTypeCustomization \<Rightarrow> string \<Rightarrow> bool" where
  "option_of c name = (entries (sy_DefaultOptions c) name = Some True)"

definition ApplyCustomization :: "TemplateCustomization \<Rightarrow> TemplateData \<Rightarrow> TemplateData" where
  "ApplyCustomization tc data =
     (let g = tz_Global tc;
          data = data\<lparr>td_Author := or_default (gl_Author g) (td_Author data),
                      td_License := or_default (gl_License g) (td_License data),
                      td_Organization := or_default (gl_Organization g) (td_Organization data),
                      td_GoVersion := or_default (gl_GoVersion g) (td_GoVersion data),
                      td_CustomVars := Some (entries (td_CustomVars data) ++ entries (gl_Variables g))\<rparr>
      in case entries (tz_ServiceTypes tc) (td_ServiceType data) of
           None \<Rightarrow> data
         | Some c \<Rightarrow>
             data\<lparr>td_WithGRPC := (if \<not> td_WithGRPC data \<and> option_of c ''WithGRPC'' then True else td_WithGRPC data),
                  td_WithJobs := (if \<not> td_WithJobs data \<and> option_of c ''WithJobs'' then True else td_WithJobs data),
                  td_WithCache := (if \<not> td_WithCache data \<and> option_of c ''WithCache'' then True else td_WithCache data),
                  td_WithAuth := (if \<not> td_WithAuth data \<and> option_of c ''WithAuth'' then True else td_WithAuth data),
                  td_WithMessaging := (if \<not> td_WithMessaging data \<and> option_of c ''WithMessaging'' then True else td_WithMessaging data),
                  td_CustomVars := Some (entries (td_CustomVars data) ++ entries (sy_Variables c))\<rparr>)"

definition GetServiceTypeInfo :: "TemplateCustomization \<Rightarrow> string \<rightharpoonup> ServiceTypeInfo" where
  "GetServiceTypeInfo tc = (\<lambda>t. map_option (\<lambda>c. \<lparr>si_Name = t, si_Description = sy_Description c, si_Features = sy_Features c\<rparr>)
     (entries (tz_ServiceTypes tc) t))"

text \<open>\<open>keys\<close> is the order in which the map is ranged over.\<close>

definition ValidateServiceType ::
  "((string \<rightharpoonup> ServiceTypeCustomization) option \<Rightarrow> string list) \<Rightarrow> TemplateCustomization \<Rightarrow> string \<Rightarrow> string option" where
  "ValidateServiceType keys tc serviceType =
     (if entries (tz_ServiceTypes tc) serviceType = None then
        Some (''invalid service type '' @ [CHR 0x27] @ serviceType @ [CHR 0x27] @ ''. Available types: '' @ strings_Join (keys (tz_ServiceTypes tc)) '', '')
      else None)"

subsection \<open>Service templates\<close>

record TemplateFile =
  tf_Path :: string
  tf_TemplatePath :: string
  tf_Condition :: "(TemplateData \<Rightarrow> bool) option"

record ServiceTemplate =
  sv_Type :: string
  sv_Name :: string
  sv_Description :: string
  sv_Files :: "TemplateFile list"
  sv_Features :: "string list"

definition tmpl_file :: "string \<Rightarrow> string \<Rightarrow> TemplateFile" where
  "tmpl_file p t = \<lparr>tf_Path = p, tf_TemplatePath = t, tf_Condition = None\<rparr>"

definition getAPIServiceFiles :: "TemplateFile list" where
  "getAPIServiceFiles =
     [tmpl_file ''go.mod'' ''common/go.mod.tmpl'',
      tmpl_file ''main.go'' ''common/main.go.tmpl'',
      tmpl_file ''cmd/server.go'' ''api/cmd/server.go.tmpl'',
      tmpl_file ''internal/config/config.go'' ''api/internal/config/config.go.tmpl'',
      tmpl_file ''internal/handlers/handlers.go'' ''api/internal/handlers/handlers.go.tmpl'',
      tmpl_file ''internal/handlers/health.go'' ''api/internal/handlers/health.go.tmpl'',
      tmpl_file ''internal/handlers/users.go'' ''api/internal/handlers/users.go.tmpl'',
      tmpl_file ''internal/models/user.go'' ''api/internal/models/user.go.tmpl'',
      tmpl_file ''internal/services/user_service.go'' ''api/internal/services/user_service.go.tmpl'',
      tmpl_file ''internal/repositories/user_repository.go'' ''api/internal/repositories/user_repository.go.tmpl'',
      tmpl_file ''migrations/001_create_users_table.sql'' ''api/migrations/001_create_users_table.sql.tmpl'',
      tmpl_file ''api/openapi.yaml'' ''api/api/openapi.yaml.tmpl'',
      tmpl_file ''Makefile'' ''common/Makefile.tmpl'',
      tmpl_file ''Dockerfile'' ''common/Dockerfile.tmpl'',
      tmpl_file ''docker-compose.yml'' ''common/docker-compose.yml.tmpl'',
      tmpl_file ''.gitignore'' ''common/.gitignore.tmpl'',
      tmpl_file ''README.md'' ''api/README.md.tmpl'',
      tmpl_file ''config.yaml'' ''api/config.yaml.tmpl'',
      \<lparr>tf_Path = ''internal/handlers/grpc.go'', tf_TemplatePath = ''api/internal/handlers/grpc.go.tmpl'', tf_Condition = Some td_WithGRPC\<rparr>]"

definition getWorkerServiceFiles :: "TemplateFile list" where
  "getWorkerServiceFiles =
     [tmpl_file ''go.mod'' ''common/go.mod.tmpl'',
      tmpl_file ''main.go'' ''common/main.go.tmpl'',
      tmpl_file ''cmd/worker.go'' ''worker/cmd/worker.go.tmpl'',
      tmpl_file ''internal/config/config.go'' ''worker/internal/config/config.go.tmpl'',
      tmpl_file ''internal/handlers/health.go'' ''common/internal/handlers/health.go.tmpl'',
      tmpl_file ''internal/jobs/email_job.go'' ''worker/internal/jobs/email_job.go.tmpl'',
      tmpl_file ''internal/jobs/image_processor.go'' ''worker/internal/jobs/image_processor.go.tmpl'',
      tmpl_file ''internal/services/notification_service.go'' ''worker/internal/services/notification_service.go.tmpl'',
      tmpl_file ''Makefile'' ''common/Makefile.tmpl'',
      tmpl_file ''Dockerfile'' ''common/Dockerfile.tmpl'',
      tmpl_file ''docker-compose.yml'' ''worker/docker-compose.yml.tmpl'',
      tmpl_file ''.gitignore'' ''common/.gitignore.tmpl'',
      tmpl_file ''README.md'' ''worker/README.md.tmpl'',
      tmpl_file ''config.yaml'' ''worker/config.yaml.tmpl'']"

definition getSchedulerServiceFiles :: "TemplateFile list" where
  "getSchedulerServiceFiles =
     [tmpl_file ''go.mod'' ''common/go.mod.tmpl'',
      tmpl_file ''main.go'' ''common/main.go.tmpl'',
      tmpl_file ''cmd/scheduler.go'' ''scheduler/cmd/scheduler.go.tmpl'',
      tmpl_file ''internal/config/config.go'' ''scheduler/internal/config/config.go.tmpl'',
      tmpl_file ''internal/handlers/health.go'' ''common/internal/handlers/health.go.tmpl'',
      tmpl_file ''internal/jobs/cleanup_job.go'' ''scheduler/internal/jobs/cleanup_job.go.tmpl'',
      tmpl_file ''internal/jobs/report_job.go'' ''scheduler/internal/jobs/report_job.go.tmpl'',
      tmpl_file ''internal/jobs/backup_job.go'' ''scheduler/internal/jobs/backup_job.go.tmpl'',
      tmpl_file ''Makefile'' ''common/Makefile.tmpl'',
      tmpl_file ''Dockerfile'' ''common/Dockerfile.tmpl'',
      tmpl_file ''docker-compose.yml'' ''scheduler/docker-compose.yml.tmpl'',
      tmpl_file ''.gitignore'' ''common/.gitignore.tmpl'',
      tmpl_file ''README.md'' ''scheduler/README.md.tmpl'',
      tmpl_file ''config.yaml'' ''scheduler/config.yaml.tmpl'']"

definition getGatewayServiceFiles :: "TemplateFile list" where
  "getGatewayServiceFiles =
     [tmpl_file ''go.mod'' ''common/go.mod.tmpl'',
      tmpl_file ''main.go'' ''common/main.go.tmpl'',
      tmpl_file ''cmd/gateway.go'' ''gateway/cmd/gateway.go.tmpl'',
      tmpl_file ''internal/config/config.go'' ''gateway/internal/config/config.go.tmpl'',
      tmpl_file ''internal/handlers/handlers.go'' ''gateway/internal/handlers/handlers.go.tmpl'',
      tmpl_file ''internal/handlers/health.go'' ''common/internal/handlers/health.go.tmpl'',
      tmpl_file ''internal/handlers/proxy.go'' ''gateway/internal/handlers/proxy.go.tmpl'',
      tmpl_file ''internal/middleware/auth.go'' ''gateway/internal/middleware/auth.go.tmpl'',
      tmpl_file ''internal/middleware/rate_limit.go'' ''gateway/internal/middleware/rate_limit.go.tmpl'',
      tmpl_file ''internal/services/routing_service.go'' ''gateway/internal/services/routing_service.go.tmpl'',
      tmpl_file ''Makefile'' ''common/Makefile.tmpl'',
      tmpl_file ''Dockerfile'' ''common/Dockerfile.tmpl'',
      tmpl_file ''docker-compose.yml'' ''gateway/docker-compose.yml.tmpl'',
      tmpl_file ''.gitignore'' ''common/.gitignore.tmpl'',
      tmpl_file ''README.md'' ''gateway/README.md.tmpl'',
      tmpl_file ''config.yaml'' ''gateway/config.yaml.tmpl'']"

definition getEventServiceFiles :: "TemplateFile list" where
  "getEventServiceFiles =
     [tmpl_file ''go.mod'' ''common/go.mod.tmpl'',
      tmpl_file ''main.go'' ''common/main.go.tmpl'',
      tmpl_file ''cmd/event.go'' ''event/cmd/event.go.tmpl'',
      tmpl_file ''internal/config/config.go'' ''event/internal/config/config.go.tmpl'',
      tmpl_file ''internal/handlers/handlers.go'' ''event/internal/handlers/handlers.go.tmpl'',
      tmpl_file ''internal/handlers/health.go'' ''common/internal/handlers/health.go.tmpl'',
      tmpl_file ''internal/handlers/events.go'' ''event/internal/handlers/events.go.tmpl'',
      tmpl_file ''internal/events/user_events.go'' ''event/internal/events/user_events.go.tmpl'',
      tmpl_file ''internal/events/order_events.go'' ''event/internal/events/order_events.go.tmpl'',
      tmpl_file ''internal/services/event_service.go'' ''event/internal/services/event_service.go.tmpl'',
      tmpl_file ''migrations/001_create_outbox_table.sql'' ''event/migrations/001_create_outbox_table.sql.tmpl'',
      tmpl_file ''api/asyncapi.yaml'' ''event/api/asyncapi.yaml.tmpl'',
      tmpl_file ''Makefile'' ''common/Makefile.tmpl'',
      tmpl_file ''Dockerfile'' ''common/Dockerfile.tmpl'',
      tmpl_file ''docker-compose.yml'' ''event/docker-compose.yml.tmpl'',
      tmpl_file ''.gitignore'' ''common/.gitignore.tmpl'',
      tmpl_file ''README.md'' ''event/README.md.tmpl'',
      tmpl_file ''config.yaml'' ''event/config.yaml.tmpl'']"

definition GetServiceTemplates :: "ServiceTemplate list" where
  "GetServiceTemplates =
     [\<lparr>sv_Type = ''api'', sv_Name = ''REST API Service'', sv_Description = ''A complete REST API service with HTTP endpoints, database, and observability'',
        sv_Files = getAPIServiceFiles, sv_Features = [''HTTP Server'', ''Database'', ''Observability'', ''Health Checks'', ''OpenAPI'']\<rparr>,
      \<lparr>sv_Type = ''worker'', sv_Name = ''Background Worker Service'', sv_Description = ''A worker service for processing background jobs and tasks'',
        sv_Files = getWorkerServiceFiles, sv_Features = [''Job Queue'', ''Database'', ''Observability'', ''Health Checks'']\<rparr>,
      \<lparr>sv_Type = ''scheduler'', sv_Name = ''Scheduled Task Service'', sv_Description = ''A service for running scheduled tasks and cron jobs'',
        sv_Files = getSchedulerServiceFiles, sv_Features = [''Cron Scheduler'', ''Database'', ''Observability'', ''Health Checks'']\<rparr>,
      \<lparr>sv_Type = ''gateway'', sv_Name = ''API Gateway Service'', sv_Description = ''An API gateway with routing, authentication, and rate limiting'',
        sv_Files = getGatewayServiceFiles, sv_Features = [''HTTP Server'', ''gRPC Client'', ''Authentication'', ''Rate Limiting'', ''Observability'']\<rparr>,
      \<lparr>sv_Type = ''event'', sv_Name = ''Event-Driven Service'', sv_Description = ''A service for handling events with messaging and outbox pattern'',
        sv_Files = getEventServiceFiles, sv_Features = [''Messaging'', ''Outbox Pattern'', ''Database'', ''Observability'', ''Health Checks'']\<rparr>]"

subsection \<open>The template engine\<close>

text \<open>The template language: parsing a template under a name, and executing it.\<close>

record 't templating =
  tm_Parse :: "string \<Rightarrow> string \<Rightarrow> string + 't"
  tm_Execute :: "'t \<Rightarrow> TemplateData \<Rightarrow> string + string"

record 't TemplateEngine =
  te_templates :: "string \<rightharpoonup> 't"

text \<open>
  \<open>embedded\<close> lists the files that \<open>fs.WalkDir\<close> visits below the directory \<open>templates\<close>, in its order; the path the visitor gets starts with the root of the walk.
\<close>

fun loadTemplates :: "'t templating \<Rightarrow> (string \<times> string) list \<Rightarrow> 't TemplateEngine \<Rightarrow> string option \<times> 't TemplateEngine" where
  "loadTemplates lang [] te = (None, te)"
| "loadTemplates lang ((rel, content) # embedded) te =
     (let path = ''templates/'' @ rel
      in if \<not> strings_HasSuffix path ''.tmpl'' then loadTemplates lang embedded te
         else case tm_Parse lang path content of
             Inl e \<Rightarrow> (Some (''parsing template '' @ path @ '': '' @ e), te)
           | Inr tmpl \<Rightarrow> loadTemplates lang embedded (te\<lparr>te_templates := (te_templates te)(path \<mapsto> tmpl)\<rparr>))"

definition NewTemplateEngine :: "'t templating \<Rightarrow> (string \<times> string) list \<Rightarrow> string + 't TemplateEngine" where
  "NewTemplateEngine lang embedded =
     (case loadTemplates lang embedded \<lparr>te_templates = Map.empty\<rparr> of
        (Some e, te) \<Rightarrow> Inl (''loading templates: '' @ e)
      | (None, te) \<Rightarrow> Inr te)"

definition RenderTemplate :: "'t templating \<Rightarrow> 't TemplateEngine \<Rightarrow> string \<Rightarrow> TemplateData \<Rightarrow> string + string" where
  "RenderTemplate lang te templatePath data =
     (case te_templates te templatePath of
        None \<Rightarrow> Inl (''template not found: '' @ templatePath)
      | Some tmpl \<Rightarrow>
          (case tm_Execute lang tmpl data of
             Inl e \<Rightarrow> Inl (''executing template '' @ templatePath @ '': '' @ e)
           | Inr s \<Rightarrow> Inr s))"

definition GetAvailableTemplates :: "((string \<rightharpoonup> 't) \<Rightarrow> string list) \<Rightarrow> 't TemplateEngine \<Rightarrow> string list" where
  "GetAvailableTemplates keys te = keys (te_templates te)"

subsection \<open>New services\<close>

text \<open>The variables the flags of the command set.\<close>

record new_flags =
  nf_serviceName :: string
  nf_serviceType :: string
  nf_outputDir :: string
  nf_withGRPC :: bool
  nf_withJobs :: bool
  nf_withCache :: bool
  nf_withAuth :: bool
  nf_withMessaging :: bool

text \<open>A rune beyond ASCII has bytes above 127 only, so that the runes can be looked at as bytes.\<close>

definition isValidServiceName :: "string \<Rightarrow> bool" where
  "isValidServiceName name =
     (name \<noteq> [] \<and>
      list_all (\<lambda>c. alnum c \<or> c = CHR ''-'') name)"

definition template_data :: "(string \<Rightarrow> string) \<Rightarrow> new_flags \<Rightarrow> TemplateCustomization \<Rightarrow> TemplateData" where
  "template_data title f customization =
     \<lparr>td_ServiceName = nf_serviceName f, td_ServiceNameCap = title (nf_serviceName f), td_ServiceType = nf_serviceType f,
      td_ModuleName = nf_serviceName f @ ''-service'', td_Author = gl_Author (tz_Global customization), td_License = gl_License (tz_Global customization),
      td_Organization = gl_Organization (tz_Global customization), td_GoVersion = gl_GoVersion (tz_Global customization),
      td_WithGRPC = nf_withGRPC f, td_WithJobs = nf_withJobs f, td_WithCache = nf_withCache f, td_WithAuth = nf_withAuth f,
      td_WithMessaging = nf_withMessaging f, td_WithMetrics = True, td_WithTracing = True, td_CustomVars = Some Map.empty\<rparr>"

definition wanted :: "TemplateData \<Rightarrow> TemplateFile \<Rightarrow> bool" where
  "wanted data file = (case tf_Condition file of None \<Rightarrow> True | Some cond \<Rightarrow> cond data)"

fun make_dirs :: "'w os \<Rightarrow> string \<Rightarrow> TemplateData \<Rightarrow> string set \<Rightarrow> TemplateFile list \<Rightarrow> 'w \<Rightarrow> string option \<times> 'w" where
  "make_dirs fs serviceDir data created [] w = (None, w)"
| "make_dirs fs serviceDir data created (file # files) w =
     (let dir = filepath_Dir (filepath_Join [serviceDir, tf_Path file])
      in if \<not> wanted data file \<or> dir \<in> created then make_dirs fs serviceDir data created files w
         else case os_MkdirAll fs dir w of
             (Some e, w) \<Rightarrow> (Some (''creating directory '' @ dir @ '': '' @ e), w)
           | (None, w) \<Rightarrow> make_dirs fs serviceDir data (insert dir created) files w)"

fun write_files ::
  "'w os \<Rightarrow> 't templating \<Rightarrow> 't TemplateEngine \<Rightarrow> string \<Rightarrow> TemplateData \<Rightarrow> TemplateFile list \<Rightarrow> 'w \<Rightarrow> string option \<times> 'w" where
  "write_files fs lang engine serviceDir data [] w = (None, w)"
| "write_files fs lang engine serviceDir data (file # files) w =
     (if \<not> wanted data file then write_files fs lang engine serviceDir data files w
      else case RenderTemplate lang engine (tf_TemplatePath file) data of
          Inl e \<Rightarrow> (Some (''rendering template '' @ tf_TemplatePath file @ '': '' @ e), w)
        | Inr content \<Rightarrow>
            (let filePath = filepath_Join [serviceDir, tf_Path file]
             in case os_WriteFile fs filePath content w of
                  (Some e, w) \<Rightarrow> (Some (''writing file '' @ filePath @ '': '' @ e), w)
                | (None, w) \<Rightarrow> write_files fs lang engine serviceDir data files w))"

definition generateServiceStructure ::
  "'w os \<Rightarrow> 't templating \<Rightarrow> (string \<times> string) list \<Rightarrow> (string \<Rightarrow> string) \<Rightarrow> new_flags \<Rightarrow> string \<Rightarrow> TemplateCustomization \<Rightarrow> 'w \<Rightarrow> string option \<times> 'w" where
  "generateServiceStructure fs lang embedded title f serviceDir customization w =
     (case NewTemplateEngine lang embedded of
        Inl e \<Rightarrow> (Some (''initializing template engine: '' @ e), w)
      | Inr engine \<Rightarrow>
          (case find (\<lambda>t. sv_Type t = nf_serviceType f) GetServiceTemplates of
             None \<Rightarrow> (Some (''unknown service type: '' @ nf_serviceType f), w)
           | Some t \<Rightarrow>
               (let data = ApplyCustomization customization (template_data title f customization)
                in case make_dirs fs serviceDir data {} (sv_Files t) w of
                     (Some e, w) \<Rightarrow> (Some e, w)
                   | (None, w) \<Rightarrow> write_files fs lang engine serviceDir data (sv_Files t) w)))"

definition createService ::
  "'w os \<Rightarrow> template_yaml \<Rightarrow> ((string \<rightharpoonup> ServiceTypeCustomization) option \<Rightarrow> string list) \<Rightarrow> 't templating \<Rightarrow> (string \<times> string) list \<Rightarrow>
    (string \<Rightarrow> string) \<Rightarrow> new_flags \<Rightarrow> 'w \<Rightarrow> string option \<times> 'w" where
  "createService fs y keys lang embedded title f w =
     (if \<not> isValidServiceName (nf_serviceName f) then (Some ''Error: Service name must contain only letters, numbers, and hyphens'', w)
      else
        let configPath = filepath_Join [os_Getenv fs ''HOME'' w, ''.microlib'', ''templates.yaml'']
        in case LoadTemplateCustomization fs y configPath w of
             Inl e \<Rightarrow> (Some (''Error loading template customization: '' @ e), w)
           | Inr customization \<Rightarrow>
               (case ValidateServiceType keys customization (nf_serviceType f) of
                  Some e \<Rightarrow> (Some (''Error: '' @ e), w)
                | None \<Rightarrow>
                    (let serviceDir = filepath_Join [nf_outputDir f, nf_serviceName f]
                     in case os_MkdirAll fs serviceDir w of
                          (Some e, w) \<Rightarrow> (Some (''Error creating service directory: '' @ e), w)
                        | (None, w) \<Rightarrow>
                            (case generateServiceStructure fs lang embedded title f serviceDir customization w of
                               (e, w) \<Rightarrow> (map_option (\<lambda>e. ''Error generating service structure: '' @ e) e, w)))))"

text \<open>The types it lists, in this order.\<close>

definition listServiceTypes :: "'w os \<Rightarrow> template_yaml \<Rightarrow> 'w \<Rightarrow> string + ServiceTypeInfo list" where
  "listServiceTypes fs y w =
     (case LoadTemplateCustomization fs y (filepath_Join [os_Getenv fs ''HOME'' w, ''.microlib'', ''templates.yaml'']) w of
        Inl e \<Rightarrow> Inl (''Error loading template customization: '' @ e)
      | Inr customization \<Rightarrow> Inr (List.map_filter (GetServiceTypeInfo customization) [''api'', ''worker'', ''scheduler'', ''gateway'', ''event'']))"

end
