(* ===== verification/CliProps.thy ===== *)
theory CliProps
  imports CliTemplates
begin

text \<open>
  Properties of the command line tool: what a new service is made of, and why the command that makes it fails; what the configuration keeps.
\<close>

subsection \<open>Options of a new service\<close>

text \<open>What the user's file and the defaults say of an option: the user's value, if his file has one for this type, else the default.\<close>

definition chosen_option :: "TemplateCustomization \<Rightarrow> string \<Rightarrow> string \<Rightarrow> bool option" where
  "chosen_option u t name =
     (case Option.bind (entries (tz_ServiceTypes u) t) (\<lambda>c. entries (sy_DefaultOptions c) name) of
        Some b \<Rightarrow> Some b
      | None \<Rightarrow> Option.bind (entries (tz_ServiceTypes getDefaultTemplateCustomization) t) (\<lambda>c. entries (sy_DefaultOptions c) name))"

definition merged :: "TemplateCustomization \<Rightarrow> TemplateCustomization" where
  "merged u = mergeTemplateCustomization u getDefaultTemplateCustomization"

lemma merged_option:
  "Option.bind (entries (tz_ServiceTypes (merged u)) t) (\<lambda>c. entries (sy_DefaultOptions c) name) = chosen_option u t name"
  by (auto simp: merged_def mergeTemplateCustomization_def chosen_option_def merge_type_def fill_missing_def Let_def map_add_def split: option.split)

lemma option_of_merged:
  "(\<exists>c. entries (tz_ServiceTypes (merged u)) t = Some c \<and> option_of c name) \<longleftrightarrow> chosen_option u t name = Some True"
  by (auto simp: merged_option [symmetric] option_of_def split: bind_splits)

abbreviation "default_types \<equiv> {''api'', ''worker'', ''scheduler'', ''gateway'', ''event''}"

lemma default_types: "dom (entries (tz_ServiceTypes getDefaultTemplateCustomization)) = default_types"
  unfolding getDefaultTemplateCustomization_def by (simp add: insert_commute)

lemma merged_types: "(\<exists>c. entries (tz_ServiceTypes (merged u)) t = Some c) \<longleftrightarrow> t \<in> default_types \<union> dom (entries (tz_ServiceTypes u))"
  unfolding default_types [symmetric] merged_def mergeTemplateCustomization_def Let_def by (auto split: option.split)

definition has_option :: "TemplateCustomization \<Rightarrow> string \<Rightarrow> string \<Rightarrow> bool" where
  "has_option c t name \<longleftrightarrow> (\<exists>k. entries (tz_ServiceTypes c) t = Some k \<and> option_of k name)"

lemma applied_flags:
  "td_WithGRPC (ApplyCustomization c data) \<longleftrightarrow> td_WithGRPC data \<or> has_option c (td_ServiceType data) ''WithGRPC''"
  "td_WithJobs (ApplyCustomization c data) \<longleftrightarrow> td_WithJobs data \<or> has_option c (td_ServiceType data) ''WithJobs''"
  "td_WithCache (ApplyCustomization c data) \<longleftrightarrow> td_WithCache data \<or> has_option c (td_ServiceType data) ''WithCache''"
  "td_WithAuth (ApplyCustomization c data) \<longleftrightarrow> td_WithAuth data \<or> has_option c (td_ServiceType data) ''WithAuth''"
  "td_WithMessaging (ApplyCustomization c data) \<longleftrightarrow> td_WithMessaging data \<or> has_option c (td_ServiceType data) ''WithMessaging''"
  by (cases "entries (tz_ServiceTypes c) (td_ServiceType data)"; simp add: ApplyCustomization_def Let_def has_option_def)+

lemma applied_global:
  "td_Author (ApplyCustomization c data) = or_default (gl_Author (tz_Global c)) (td_Author data)"
  "td_License (ApplyCustomization c data) = or_default (gl_License (tz_Global c)) (td_License data)"
  "td_Organization (ApplyCustomization c data) = or_default (gl_Organization (tz_Global c)) (td_Organization data)"
  "td_GoVersion (ApplyCustomization c data) = or_default (gl_GoVersion (tz_Global c)) (td_GoVersion data)"
  by (cases "entries (tz_ServiceTypes c) (td_ServiceType data)"; simp add: ApplyCustomization_def Let_def)+

lemma merged_global:
  "gl_Author (tz_Global (merged u)) = or_default (gl_Author (tz_Global u)) (gl_Author (tz_Global getDefaultTemplateCustomization))"
  "gl_License (tz_Global (merged u)) = or_default (gl_License (tz_Global u)) (gl_License (tz_Global getDefaultTemplateCustomization))"
  "gl_Organization (tz_Global (merged u)) = or_default (gl_Organization (tz_Global u)) (gl_Organization (tz_Global getDefaultTemplateCustomization))"
  "gl_GoVersion (tz_Global (merged u)) = or_default (gl_GoVersion (tz_Global u)) (gl_GoVersion (tz_Global getDefaultTemplateCustomization))"
  by (simp_all add: merged_def mergeTemplateCustomization_def Let_def)

text \<open>
  A customization file that is read and parsed as \<open>u\<close> gives every service type of the user and every default type, and the data the
  templates see: a feature is on just when its flag is given or the file of the user, else the defaults, have it on; author, license,
  organization and Go version are those of the file where it has them.
\<close>

theorem service_options:
  assumes "\<not> os_Missing fs path w" "os_ReadFile fs path w = Inr text" "ty_Unmarshal y text = Inr u"
  shows "\<exists>c. LoadTemplateCustomization fs y path w = Inr c \<and>
    (let data = ApplyCustomization c (template_data title f c); t = nf_serviceType f; g = tz_Global u; d = tz_Global getDefaultTemplateCustomization
     in (ValidateServiceType keys c t = None \<longleftrightarrow> t \<in> default_types \<union> dom (entries (tz_ServiceTypes u))) \<and>
        (td_WithGRPC data \<longleftrightarrow> nf_withGRPC f \<or> chosen_option u t ''WithGRPC'' = Some True) \<and>
        (td_WithJobs data \<longleftrightarrow> nf_withJobs f \<or> chosen_option u t ''WithJobs'' = Some True) \<and>
        (td_WithCache data \<longleftrightarrow> nf_withCache f \<or> chosen_option u t ''WithCache'' = Some True) \<and>
        (td_WithAuth data \<longleftrightarrow> nf_withAuth f \<or> chosen_option u t ''WithAuth'' = Some True) \<and>
        (td_WithMessaging data \<longleftrightarrow> nf_withMessaging f \<or> chosen_option u t ''WithMessaging'' = Some True) \<and>
        td_Author data = (if gl_Author g = [] then gl_Author d else gl_Author g) \<and>
        td_License data = (if gl_License g = [] then gl_License d else gl_License g) \<and>
        td_Organization data = (if gl_Organization g = [] then gl_Organization d else gl_Organization g) \<and>
        td_GoVersion data = (if gl_GoVersion g = [] then gl_GoVersion d else gl_GoVersion g))"
proof -
  define data where "data = ApplyCustomization (merged u) (template_data title f (merged u))"
  let ?t = "nf_serviceType f"
  have "LoadTemplateCustomization fs y path w = Inr (merged u)" using assms by (simp add: LoadTemplateCustomization_def merged_def)
  moreover have "ValidateServiceType keys (merged u) ?t = None \<longleftrightarrow> ?t \<in> default_types \<union> dom (entries (tz_ServiceTypes u))"
    unfolding merged_types [symmetric] by (auto simp: ValidateServiceType_def)
  moreover have "td_WithGRPC data \<longleftrightarrow> nf_withGRPC f \<or> chosen_option u ?t ''WithGRPC'' = Some True"
    "td_WithJobs data \<longleftrightarrow> nf_withJobs f \<or> chosen_option u ?t ''WithJobs'' = Some True"
    "td_WithCache data \<longleftrightarrow> nf_withCache f \<or> chosen_option u ?t ''WithCache'' = Some True"
    "td_WithAuth data \<longleftrightarrow> nf_withAuth f \<or> chosen_option u ?t ''WithAuth'' = Some True"
    "td_WithMessaging data \<longleftrightarrow> nf_withMessaging f \<or> chosen_option u ?t ''WithMessaging'' = Some True"
    unfolding option_of_merged [symmetric] data_def applied_flags by (simp_all add: template_data_def has_option_def)
  moreover have "td_Author data = or_default (gl_Author (tz_Global u)) (gl_Author (tz_Global getDefaultTemplateCustomization))"
    "td_License data = or_default (gl_License (tz_Global u)) (gl_License (tz_Global getDefaultTemplateCustomization))"
    "td_Organization data = or_default (gl_Organization (tz_Global u)) (gl_Organization (tz_Global getDefaultTemplateCustomization))"
    "td_GoVersion data = or_default (gl_GoVersion (tz_Global u)) (gl_GoVersion (tz_Global getDefaultTemplateCustomization))"
    unfolding data_def applied_global by (simp_all add: template_data_def merged_global or_default_def)
  ultimately show ?thesis unfolding Let_def data_def or_default_def by - (rule exI [of _ "merged u"], intro conjI; assumption)
qed

definition no_cache_file :: TemplateCustomization where
  "no_cache_file =
     \<lparr>tz_ServiceTypes = Some [''api'' \<mapsto> \<lparr>sy_Description = [], sy_Features = None, sy_DefaultOptions = Some [''WithCache'' \<mapsto> False], sy_ExtraFiles = [], sy_Variables = None\<rparr>],
      tz_Global = \<lparr>gl_Author = ''Ada'', gl_License = [], gl_Organization = [], gl_GoVersion = [], gl_Variables = None\<rparr>\<rparr>"

definition file_os :: "unit os" where
  "file_os =
     \<lparr>os_UserHomeDir = (\<lambda>w. Inr ''/root''), os_MkdirAll = (\<lambda>d w. (None, w)), os_Missing = (\<lambda>p w. False), os_ReadFile = (\<lambda>p w. Inr ''x''),
      os_WriteFile = (\<lambda>p text w. (None, w)), os_ReadDir = (\<lambda>d w. Inr []), os_Getenv = (\<lambda>k w. []), os_Environ = (\<lambda>w. []),
      os_LookPath = (\<lambda>c w. Inl ''not found''), os_Run = (\<lambda>p args env w. (None, w))\<rparr>"

definition file_yaml :: template_yaml where
  "file_yaml = \<lparr>ty_Marshal = (\<lambda>c. Inr ''x''), ty_Unmarshal = (\<lambda>text. Inr no_cache_file)\<rparr>"

definition api_flags :: new_flags where
  "api_flags = \<lparr>nf_serviceName = ''shop'', nf_serviceType = ''api'', nf_outputDir = ''.'', nf_withGRPC = True, nf_withJobs = False, nf_withCache = False,
     nf_withAuth = False, nf_withMessaging = False\<rparr>"

theorem service_options_witness:
  "\<exists>c. LoadTemplateCustomization file_os file_yaml ''templates.yaml'' () = Inr c \<and>
    (let data = ApplyCustomization c (template_data (\<lambda>s. s) api_flags c)
     in td_WithGRPC data \<and> \<not> td_WithCache data \<and> td_WithAuth data \<and> td_Author data = ''Ada'' \<and> td_License data = ''MIT'')"
proof -
  have o: "chosen_option no_cache_file ''api'' ''WithCache'' = Some False" "chosen_option no_cache_file ''api'' ''WithAuth'' = Some True"
    by (simp_all add: chosen_option_def no_cache_file_def getDefaultTemplateCustomization_def default_type_def default_options_def)
  have l: "gl_License (tz_Global getDefaultTemplateCustomization) = ''MIT''" by (simp add: getDefaultTemplateCustomization_def)
  have "os_Missing file_os ''templates.yaml'' () = False" "os_ReadFile file_os ''templates.yaml'' () = Inr ''x''" "ty_Unmarshal file_yaml ''x'' = Inr no_cache_file"
    by (simp_all add: file_os_def file_yaml_def)
  then show ?thesis
    using service_options [of file_os "''templates.yaml''" "()" "''x''" file_yaml no_cache_file "\<lambda>s. s" api_flags "\<lambda>_. []"] o l
    by (auto simp: Let_def api_flags_def no_cache_file_def)
qed

subsection \<open>Creating a service\<close>

lemma loadTemplates_keys:
  "loadTemplates lang embedded te = (e, te') \<Longrightarrow> p \<in> dom (te_templates te') \<Longrightarrow> p \<in> dom (te_templates te) \<or> (\<exists>rel. p = ''templates/'' @ rel)"
  by (induction lang embedded te rule: loadTemplates.induct) (auto simp: Let_def split: if_splits sum.splits)

lemma engine_keys:
  assumes "NewTemplateEngine lang embedded = Inr te" "p \<in> dom (te_templates te)"
  shows "\<exists>rel. p = ''templates/'' @ rel"
  using assms loadTemplates_keys [of lang embedded "\<lparr>te_templates = Map.empty\<rparr>" _ te p]
  by (auto simp: NewTemplateEngine_def split: prod.splits option.splits)

lemma not_rendered:
  assumes "NewTemplateEngine lang embedded = Inr te"
  shows "RenderTemplate lang te ''common/go.mod.tmpl'' data = Inl ''template not found: common/go.mod.tmpl''"
proof -
  have "te_templates te ''common/go.mod.tmpl'' = None" using engine_keys [OF assms, of "''common/go.mod.tmpl''"] by auto
  then show ?thesis by (simp add: RenderTemplate_def)
qed

lemma first_file:
  "t \<in> set GetServiceTemplates \<Longrightarrow> \<exists>files. sv_Files t = tmpl_file ''go.mod'' ''common/go.mod.tmpl'' # files"
  by (auto simp: GetServiceTemplates_def getAPIServiceFiles_def getWorkerServiceFiles_def getSchedulerServiceFiles_def
      getGatewayServiceFiles_def getEventServiceFiles_def)

text \<open>What a world can become by making directories.\<close>

definition mkdirs :: "'w os \<Rightarrow> ('w \<times> 'w) set" where
  "mkdirs fs = {(w, snd (os_MkdirAll fs dir w)) | dir w. True}"

lemma mkdirs_step [intro]: "os_MkdirAll fs dir w = (e, w') \<Longrightarrow> (w, w') \<in> (mkdirs fs)\<^sup>*"
  by (rule r_into_rtrancl, unfold mkdirs_def) (auto intro: exI [of _ dir])

lemma make_dirs_mkdirs: "make_dirs fs serviceDir data created files w = (e, w') \<Longrightarrow> (w, w') \<in> (mkdirs fs)\<^sup>*"
proof (induction fs serviceDir data created files w rule: make_dirs.induct)
  case (2 fs serviceDir data created fl fls w)
  then show ?case by (auto simp: Let_def split: if_splits prod.splits option.splits intro: rtrancl_trans [OF mkdirs_step])
qed simp

lemma structure_fails:
  "\<exists>e w'. generateServiceStructure fs lang embedded title f serviceDir c w = (Some e, w') \<and> (w, w') \<in> (mkdirs fs)\<^sup>*"
proof (cases "NewTemplateEngine lang embedded")
  case (Inr te)
  show ?thesis
  proof (cases "find (\<lambda>t. sv_Type t = nf_serviceType f) GetServiceTemplates")
    case (Some t)
    then obtain files where "sv_Files t = tmpl_file ''go.mod'' ''common/go.mod.tmpl'' # files" using first_file [of t] by (auto simp: find_Some_iff)
    then have fails: "\<exists>e. write_files fs lang te serviceDir data (sv_Files t) w' = (Some e, w')" for data w'
      by (simp add: wanted_def tmpl_file_def not_rendered [OF Inr])
    obtain e w1 where dirs: "make_dirs fs serviceDir (ApplyCustomization c (template_data title f c)) {} (sv_Files t) w = (e, w1)" by fastforce
    from Some Inr dirs fails [of "ApplyCustomization c (template_data title f c)" w1] make_dirs_mkdirs [OF dirs] show ?thesis
      by (cases e) (auto simp: generateServiceStructure_def)
  qed (simp add: generateServiceStructure_def Inr)
qed (simp add: generateServiceStructure_def)

text \<open>
  C39: whatever the flags, the customization, the embedded templates and the file system, the command that creates a service ends with an
  error and has made directories only: the templates are stored under paths that begin with \<open>templates/\<close> and looked up without it.
\<close>

theorem new_service_never_completes:
  "\<exists>e w'. createService fs y keys lang embedded title f w = (Some e, w') \<and> (w, w') \<in> (mkdirs fs)\<^sup>*"
proof -
  have "\<exists>e w'. generateServiceStructure fs lang embedded title f dir c w1 = (Some e, w') \<and> (w, w') \<in> (mkdirs fs)\<^sup>*"
    if "(w, w1) \<in> (mkdirs fs)\<^sup>*" for dir c w1
    using structure_fails [of fs lang embedded title f dir c w1] that by (meson rtrancl_trans)
  note fails = this
  show ?thesis
  proof (cases "LoadTemplateCustomization fs y (filepath_Join [os_Getenv fs ''HOME'' w, ''.microlib'', ''templates.yaml'']) w")
    case (Inr c)
    obtain e w1 where dir: "os_MkdirAll fs (filepath_Join [nf_outputDir f, nf_serviceName f]) w = (e, w1)" by fastforce
    then have "(w, w1) \<in> (mkdirs fs)\<^sup>*" by blast
    with fails [OF this, of "filepath_Join [nf_outputDir f, nf_serviceName f]" c] Inr dir show ?thesis
      by (cases e) (auto simp: createService_def Let_def split: option.split)
  qed (simp add: createService_def)
qed

end
