(* ===== verification/CliConfigProps.thy ===== *)
theory CliConfigProps
  imports Cli
begin

text \<open>
  The commands that change the configuration of the tool, run one after the other, against a file system and a YAML library that keep what they document:
  each run reads the file the run before has written, and the configuration behaves like one value with plugins of distinct names.
\<close>

subsection \<open>What the tool promises\<close>

definition plugin_known :: "string \<Rightarrow> CLIConfig \<Rightarrow> bool" where
  "plugin_known name c \<longleftrightarrow> name \<in> pl_Name ` set (cc_Plugins c)"

definition new_plugin :: "string \<Rightarrow> string \<Rightarrow> PluginConfig" where
  "new_plugin name command =
     \<lparr>pl_Name = name, pl_Command = command, pl_Description = ''Plugin: '' @ name, pl_Enabled = True, pl_Config = Some Map.empty\<rparr>"

definition on_plugins :: "(PluginConfig list \<Rightarrow> PluginConfig list) \<Rightarrow> CLIConfig \<Rightarrow> CLIConfig" where
  "on_plugins g c = c\<lparr>cc_Plugins := g (cc_Plugins c)\<rparr>"

definition enable :: "bool \<Rightarrow> string \<Rightarrow> PluginConfig list \<Rightarrow> PluginConfig list" where
  "enable b name = map (\<lambda>p. if pl_Name p = name then p\<lparr>pl_Enabled := b\<rparr> else p)"

fun promised :: "(string \<Rightarrow> bool) \<Rightarrow> config_command \<Rightarrow> CLIConfig \<Rightarrow> string option \<times> CLIConfig" where
  "promised found (ConfigSet key value) c = (None, set_key key value c)"
| "promised found ConfigReset c = (None, getDefaultConfig)"
| "promised found (PluginInstall name command) c =
     (if plugin_known name c then (Some (''plugin '' @ name @ '' already exists''), c)
      else if \<not> found command then (Some (''command not found: '' @ command), c)
      else (None, on_plugins (\<lambda>ps. ps @ [new_plugin name command]) c))"
| "promised found (PluginUninstall name) c = (None, on_plugins (filter (\<lambda>p. pl_Name p \<noteq> name)) c)"
| "promised found (PluginEnable name) c = (None, on_plugins (enable True name) c)"
| "promised found (PluginDisable name) c = (None, on_plugins (enable False name) c)"

fun promised_all :: "(string \<Rightarrow> bool) \<Rightarrow> config_command list \<Rightarrow> CLIConfig \<Rightarrow> string option list \<times> CLIConfig" where
  "promised_all found [] c = ([], c)"
| "promised_all found (cmd # cmds) c =
     (case promised found cmd c of (e, c) \<Rightarrow> (case promised_all found cmds c of (es, c) \<Rightarrow> (e # es, c)))"

text \<open>The runs of the tool.\<close>

fun execute_all :: "'w os \<Rightarrow> yaml \<Rightarrow> config_command list \<Rightarrow> 'w \<Rightarrow> string option list \<times> 'w" where
  "execute_all fs y [] w = ([], w)"
| "execute_all fs y (cmd # cmds) w =
     (case Execute fs y (run_config_command fs y cmd) w of (e, w) \<Rightarrow> (case execute_all fs y cmds w of (es, w) \<Rightarrow> (e # es, w)))"

subsection \<open>Invariant\<close>

text \<open>Names are distinct, and the maps of the configuration are empty and not nil, as in every configuration the commands make from the default.\<close>

definition plain :: "CLIConfig \<Rightarrow> bool" where
  "plain c \<longleftrightarrow> tp_Variables (cc_Templates c) = Some Map.empty \<and> (\<forall>p \<in> set (cc_Plugins c). pl_Config p = Some Map.empty)"

definition config_ok :: "CLIConfig \<Rightarrow> bool" where
  "config_ok c \<longleftrightarrow> distinct (map pl_Name (cc_Plugins c)) \<and> plain c"

lemma config_ok_default [simp]: "config_ok getDefaultConfig"
  by (simp add: config_ok_def plain_def getDefaultConfig_def)

lemma remove_plugin_filter: "distinct (map pl_Name ps) \<Longrightarrow> remove_plugin name ps = filter (\<lambda>p. pl_Name p \<noteq> name) ps"
proof (induction ps)
  case (Cons p ps)
  then show ?case by (auto simp: image_iff intro!: filter_True [symmetric])
qed simp

lemma enable_plugin_enable: "distinct (map pl_Name ps) \<Longrightarrow> enable_plugin b name ps = enable b name ps"
proof (induction ps)
  case (Cons p ps)
  then have "enable b name ps = ps" if "pl_Name p = name" using that by (auto simp: enable_def image_iff intro!: map_idI)
  with Cons show ?case by (auto simp: enable_def)
qed (simp add: enable_def)

lemma enable_names [simp]: "map pl_Name (enable b name ps) = map pl_Name ps"
  by (simp add: enable_def)

lemma set_key_keeps [simp]:
  "cc_Plugins (set_key k v c) = cc_Plugins c" "cc_Templates (set_key k v c) = cc_Templates c"
  by (simp_all add: set_key_def)

lemma enable_configs [simp]: "(\<forall>p \<in> set (enable b name ps). pl_Config p = Some Map.empty) \<longleftrightarrow> (\<forall>p \<in> set ps. pl_Config p = Some Map.empty)"
  by (induction ps) (auto simp: enable_def)

lemma promised_ok: "config_ok c \<Longrightarrow> config_ok (snd (promised found cmd c))"
  unfolding config_ok_def plain_def
  by (cases cmd) (auto simp: on_plugins_def new_plugin_def plugin_known_def getDefaultConfig_def distinct_map_filter split: if_splits)

text \<open>What a command hands to \<open>UpdateConfig\<close>.\<close>

fun updater :: "config_command \<Rightarrow> CLIConfig \<Rightarrow> CLIConfig" where
  "updater (ConfigSet key value) = set_key key value"
| "updater ConfigReset = (\<lambda>_. getDefaultConfig)"
| "updater (PluginInstall name command) = (\<lambda>c. c\<lparr>cc_Plugins := cc_Plugins c @ [new_plugin name command]\<rparr>)"
| "updater (PluginUninstall name) = (\<lambda>c. c\<lparr>cc_Plugins := remove_plugin name (cc_Plugins c)\<rparr>)"
| "updater (PluginEnable name) = (\<lambda>c. c\<lparr>cc_Plugins := enable_plugin True name (cc_Plugins c)\<rparr>)"
| "updater (PluginDisable name) = (\<lambda>c. c\<lparr>cc_Plugins := enable_plugin False name (cc_Plugins c)\<rparr>)"

subsection \<open>Files\<close>

definition config_dir :: "string \<Rightarrow> string" where
  "config_dir home = filepath_Join [home, ''.microlib'']"

definition config_file :: "string \<Rightarrow> string" where
  "config_file home = filepath_Join [config_dir home, ''config.yaml'']"

text \<open>
  What the tool relies on: the home directory is known, the directory of the configuration can be made, and once it is there the file can be
  written and read again; programs are found whatever the tool writes; YAML gives such a configuration back as it was.
\<close>

locale config_files =
  fixes fs :: "'w os" and y :: yaml and home :: string and ready :: "'w \<Rightarrow> bool"
  assumes home: "os_UserHomeDir fs w = Inr home"
    and mkdir: "\<exists>w'. os_MkdirAll fs (config_dir home) w = (None, w') \<and> ready w'"
    and mkdir_keeps: "os_MkdirAll fs (config_dir home) w = (e, w') \<Longrightarrow> os_ReadFile fs (config_file home) w = Inr text \<Longrightarrow> os_ReadFile fs (config_file home) w' = Inr text"
    and write_ok: "ready w \<Longrightarrow> \<exists>w'. os_WriteFile fs (config_file home) text w = (None, w') \<and> ready w' \<and> os_ReadFile fs (config_file home) w' = Inr text"
    and read_there: "os_ReadFile fs (config_file home) w = Inr text \<Longrightarrow> \<not> os_Missing fs (config_file home) w"
    and look_mkdir: "os_MkdirAll fs (config_dir home) w = (e, w') \<Longrightarrow> os_LookPath fs command w' = os_LookPath fs command w"
    and look_write: "os_WriteFile fs (config_file home) text w = (e, w') \<Longrightarrow> os_LookPath fs command w' = os_LookPath fs command w"
    and marshal: "\<exists>text. ya_Marshal y (Some c) = Inr text"
    and unmarshal: "plain c \<Longrightarrow> ya_Marshal y (Some c) = Inr text \<Longrightarrow> ya_Unmarshal y text = (None, c)"
begin

definition holds :: "'w \<Rightarrow> CLIConfig \<Rightarrow> bool" where
  "holds w c \<longleftrightarrow> (\<exists>text. os_ReadFile fs (config_file home) w = Inr text \<and> ya_Unmarshal y text = (None, c))"

definition runnable :: "'w \<Rightarrow> string \<Rightarrow> bool" where
  "runnable w command \<longleftrightarrow> (\<exists>p. os_LookPath fs command w = Inr p)"

lemma saved:
  assumes "ready w" "plain c"
  shows "\<exists>w'. saveConfig fs y \<lparr>cl_config = Some c, cl_dir = config_dir home, cl_world = w\<rparr> = (None, \<lparr>cl_config = Some c, cl_dir = config_dir home, cl_world = w'\<rparr>) \<and>
    ready w' \<and> holds w' c \<and> runnable w' = runnable w"
proof -
  obtain s where m: "ya_Marshal y (Some c) = Inr s" using marshal by blast
  obtain w' where w: "os_WriteFile fs (config_file home) s w = (None, w')" "ready w'" "os_ReadFile fs (config_file home) w' = Inr s" using write_ok [OF assms(1)] by blast
  with m unmarshal [OF assms(2) m] look_write [OF w(1)] show ?thesis
    by (auto simp: saveConfig_def config_file_def holds_def runnable_def)
qed

lemma init_load:
  assumes "holds w c"
  shows "\<exists>w'. initConfig fs y \<lparr>cl_config = c0, cl_dir = d0, cl_world = w\<rparr> = (None, \<lparr>cl_config = Some c, cl_dir = config_dir home, cl_world = w'\<rparr>) \<and>
    ready w' \<and> holds w' c \<and> runnable w' = runnable w"
proof -
  from assms obtain s where r: "os_ReadFile fs (config_file home) w = Inr s" "ya_Unmarshal y s = (None, c)" by (auto simp: holds_def)
  obtain w' where w: "os_MkdirAll fs (config_dir home) w = (None, w')" "ready w'" using mkdir by blast
  with r mkdir_keeps [OF w(1) r(1)] read_there look_mkdir [OF w(1)] show ?thesis
    by (auto simp: initConfig_def home Let_def config_dir_def config_file_def loadConfig_def holds_def runnable_def)
qed

lemma init_fresh:
  assumes "os_Missing fs (config_file home) (snd (os_MkdirAll fs (config_dir home) w))"
  shows "\<exists>w'. initConfig fs y \<lparr>cl_config = c0, cl_dir = d0, cl_world = w\<rparr> = (None, \<lparr>cl_config = Some getDefaultConfig, cl_dir = config_dir home, cl_world = w'\<rparr>) \<and>
    ready w' \<and> holds w' getDefaultConfig \<and> runnable w' = runnable w"
proof -
  obtain w1 where w: "os_MkdirAll fs (config_dir home) w = (None, w1)" "ready w1" using mkdir by blast
  have n: "plain getDefaultConfig" using config_ok_default by (simp add: config_ok_def)
  have "runnable w1 = runnable w" using look_mkdir [OF w(1)] by (simp add: runnable_def fun_eq_iff)
  then show ?thesis using saved [OF w(2) n] assms w
    by (auto simp: initConfig_def home Let_def config_dir_def config_file_def)
qed

lemma updated:
  assumes "ready w" "plain (g c)"
  shows "\<exists>w'. UpdateConfig fs y g \<lparr>cl_config = Some c, cl_dir = config_dir home, cl_world = w\<rparr> = (None, \<lparr>cl_config = Some (g c), cl_dir = config_dir home, cl_world = w'\<rparr>) \<and>
    holds w' (g c) \<and> runnable w' = runnable w"
  using saved [OF assms] by (auto simp: UpdateConfig_def GetConfig_def)

lemmas updater_simps = config_set_def config_reset_def InstallPlugin_def UninstallPlugin_def EnablePlugin_def DisablePlugin_def
  on_plugins_def remove_plugin_filter enable_plugin_enable new_plugin_def plugin_known_def runnable_def deref_def list_ex_iff

lemma command_promised:
  assumes "ready w" "holds w c" "config_ok c" "promised (runnable w) cmd c = (e, c')"
  shows "\<exists>w'. run_config_command fs y cmd \<lparr>pm_config = Fresh c\<rparr> \<lparr>cl_config = Some c, cl_dir = config_dir home, cl_world = w\<rparr> =
      (e, \<lparr>cl_config = Some c', cl_dir = config_dir home, cl_world = w'\<rparr>) \<and> holds w' c' \<and> runnable w' = runnable w"
proof -
  have n: "plain c'" using promised_ok [OF assms(3), of "runnable w" cmd] assms(4) by (simp add: config_ok_def)
  have d: "distinct (map pl_Name (cc_Plugins c))" using assms(3) by (simp add: config_ok_def)
  show ?thesis
  proof (cases "e = None")
    case True
    then have g: "c' = updater cmd c" and run: "run_config_command fs y cmd \<lparr>pm_config = Fresh c\<rparr> \<lparr>cl_config = Some c, cl_dir = config_dir home, cl_world = w\<rparr> =
        UpdateConfig fs y (updater cmd) \<lparr>cl_config = Some c, cl_dir = config_dir home, cl_world = w\<rparr>"
      using assms(4) d by (cases cmd; auto simp: updater_simps split: if_splits)+
    show ?thesis unfolding True run g using updated [OF assms(1), of "updater cmd" c] n g by simp
  next
    case False
    then show ?thesis using assms(2,4)
      by (cases cmd) (auto simp: InstallPlugin_def plugin_known_def runnable_def deref_def list_ex_iff split: if_splits sum.splits)
  qed
qed

lemma execute_promised:
  assumes "holds w c" "config_ok c" "promised (runnable w) cmd c = (e, c')"
  shows "\<exists>w'. Execute fs y (run_config_command fs y cmd) w = (e, w') \<and> holds w' c' \<and> runnable w' = runnable w"
proof -
  obtain w1 where 1: "initConfig fs y \<lparr>cl_config = None, cl_dir = [], cl_world = w\<rparr> = (None, \<lparr>cl_config = Some c, cl_dir = config_dir home, cl_world = w1\<rparr>)"
    "holds w1 c" "runnable w1 = runnable w"
    using init_load [OF assms(1)] by blast
  obtain w2 where 2: "initConfig fs y \<lparr>cl_config = Some c, cl_dir = config_dir home, cl_world = w1\<rparr> =
      (None, \<lparr>cl_config = Some c, cl_dir = config_dir home, cl_world = w2\<rparr>)" "ready w2" "holds w2 c" "runnable w2 = runnable w1"
    using init_load [OF 1(2)] by blast
  from command_promised [OF 2(2,3) assms(2), of cmd e c'] assms(3) 1 2 show ?thesis
    by (auto simp: Execute_def NewPluginManager_def GetConfig_def deref_def)
qed

lemma all_promised:
  assumes "holds w c" "config_ok c" "promised_all (runnable w) cmds c = (es, c')"
  shows "\<exists>w'. execute_all fs y cmds w = (es, w') \<and> holds w' c' \<and> config_ok c'"
  using assms
proof (induction cmds arbitrary: w c es)
  case (Cons cmd cmds)
  obtain e c1 where p: "promised (runnable w) cmd c = (e, c1)" by fastforce
  obtain w1 where r: "Execute fs y (run_config_command fs y cmd) w = (e, w1)" "holds w1 c1" "runnable w1 = runnable w"
    using execute_promised [OF Cons.prems(1,2) p] by blast
  have "config_ok c1" using promised_ok [OF Cons.prems(2), of "runnable w" cmd] p by simp
  moreover obtain es' where "es = e # es'" "promised_all (runnable w1) cmds c1 = (es', c')"
    using Cons.prems(3) p r(3) by (auto split: prod.splits)
  ultimately show ?case using Cons.IH [OF r(2)] r(1) by auto
qed auto

text \<open>The first run makes the file.\<close>

lemma fresh_promised:
  assumes "os_Missing fs (config_file home) (snd (os_MkdirAll fs (config_dir home) w))" "promised (runnable w) cmd getDefaultConfig = (e, c')"
  shows "\<exists>w'. Execute fs y (run_config_command fs y cmd) w = (e, w') \<and> holds w' c' \<and> runnable w' = runnable w"
proof -
  obtain w1 where 1: "initConfig fs y \<lparr>cl_config = None, cl_dir = [], cl_world = w\<rparr> = (None, \<lparr>cl_config = Some getDefaultConfig, cl_dir = config_dir home, cl_world = w1\<rparr>)"
    "holds w1 getDefaultConfig" "runnable w1 = runnable w"
    using init_fresh [OF assms(1)] by blast
  obtain w2 where 2: "initConfig fs y \<lparr>cl_config = Some getDefaultConfig, cl_dir = config_dir home, cl_world = w1\<rparr> =
      (None, \<lparr>cl_config = Some getDefaultConfig, cl_dir = config_dir home, cl_world = w2\<rparr>)" "ready w2" "holds w2 getDefaultConfig" "runnable w2 = runnable w1"
    using init_load [OF 1(2)] by blast
  from command_promised [OF 2(2,3) config_ok_default, of cmd e c'] assms(2) 1 2 show ?thesis
    by (auto simp: Execute_def NewPluginManager_def GetConfig_def deref_def)
qed

lemma from_fresh:
  assumes "os_Missing fs (config_file home) (snd (os_MkdirAll fs (config_dir home) w))"
    and "cmds \<noteq> []" "promised_all (runnable w) cmds getDefaultConfig = (es, c')"
  shows "\<exists>w' text. execute_all fs y cmds w = (es, w') \<and> os_ReadFile fs (config_file home) w' = Inr text \<and>
    ya_Unmarshal y text = (None, c') \<and> distinct (map pl_Name (cc_Plugins c'))"
proof -
  obtain cmd cmds' where c: "cmds = cmd # cmds'" using assms(2) by (cases cmds) auto
  obtain e c1 where p: "promised (runnable w) cmd getDefaultConfig = (e, c1)" by fastforce
  obtain w1 where r: "Execute fs y (run_config_command fs y cmd) w = (e, w1)" "holds w1 c1" "runnable w1 = runnable w"
    using fresh_promised [OF assms(1) p] by blast
  have "config_ok c1" using promised_ok [OF config_ok_default, of "runnable w" cmd] p by simp
  moreover obtain es' where "es = e # es'" "promised_all (runnable w1) cmds' c1 = (es', c')"
    using assms(3) p r(3) c by (auto split: prod.splits)
  ultimately obtain w' where "execute_all fs y cmds w = (es, w')" "holds w' c'" "config_ok c'"
    using all_promised [OF r(2), of cmds' es' c'] r(1) c by auto
  then show ?thesis by (auto simp: holds_def config_ok_def)
qed

end

text \<open>
  C37: on a file system and with a YAML library that keep what they document, the runs of the tool from an empty home directory answer any
  sequence of \<open>config\<close> and \<open>plugin\<close> commands as the commands on one configuration value do, the file holds that value in the end, and no two
  plugins have the same name.
\<close>

theorem config_commands_kept:
  assumes "config_files fs y home ready"
    and "os_Missing fs (config_file home) (snd (os_MkdirAll fs (config_dir home) w))" "cmds \<noteq> []"
    and "promised_all (\<lambda>command. \<exists>p. os_LookPath fs command w = Inr p) cmds getDefaultConfig = (es, c)"
  shows "\<exists>w' text. execute_all fs y cmds w = (es, w') \<and> os_ReadFile fs (config_file home) w' = Inr text \<and>
    ya_Unmarshal y text = (None, c) \<and> distinct (map pl_Name (cc_Plugins c))"
proof -
  have "config_files.runnable fs w = (\<lambda>command. \<exists>p. os_LookPath fs command w = Inr p)"
    by (rule ext) (simp add: config_files.runnable_def [OF assms(1)])
  with config_files.from_fresh [OF assms(1,2,3), of es c] assms(4) show ?thesis by simp
qed

subsection \<open>An instance\<close>

text \<open>Files in memory, and an encoding of plain configurations as texts.\<close>

definition enc_string :: "string \<Rightarrow> string" where
  "enc_string s = concat (map (\<lambda>c. [CHR ''c'', c]) s) @ ''.''"

fun dec_string :: "string \<Rightarrow> string \<times> string" where
  "dec_string (t # c # r) = (if t = CHR ''c'' then (case dec_string r of (s, r) \<Rightarrow> (c # s, r)) else ([], c # r))"
| "dec_string _ = ([], [])"

lemma dec_enc_string [simp]: "dec_string (enc_string s @ r) = (s, r)"
  by (induction s) (cases r; simp add: enc_string_def)+

definition enc_bool :: "bool \<Rightarrow> string" where
  "enc_bool b = (if b then ''1'' else ''0'')"

fun dec_bool :: "string \<Rightarrow> bool \<times> string" where
  "dec_bool (c # r) = (c = CHR ''1'', r)"
| "dec_bool [] = (False, [])"

lemma dec_enc_bool [simp]: "dec_bool (enc_bool b @ r) = (b, r)"
  by (simp add: enc_bool_def)

fun enc_plugins :: "PluginConfig list \<Rightarrow> string" where
  "enc_plugins [] = ''.''"
| "enc_plugins (p # ps) = ''p'' @ enc_string (pl_Name p) @ enc_string (pl_Command p) @ enc_string (pl_Description p) @ enc_bool (pl_Enabled p) @ enc_plugins ps"

fun dec_plugins :: "nat \<Rightarrow> string \<Rightarrow> PluginConfig list \<times> string" where
  "dec_plugins 0 r = ([], r)"
| "dec_plugins (Suc n) [] = ([], [])"
| "dec_plugins (Suc n) (t # r) =
     (if t \<noteq> CHR ''p'' then ([], r)
      else case dec_string r of (name, r) \<Rightarrow> case dec_string r of (command, r) \<Rightarrow> case dec_string r of (description, r) \<Rightarrow> case dec_bool r of (enabled, r) \<Rightarrow>
        case dec_plugins n r of (ps, r) \<Rightarrow>
          (\<lparr>pl_Name = name, pl_Command = command, pl_Description = description, pl_Enabled = enabled, pl_Config = Some Map.empty\<rparr> # ps, r))"

lemma dec_enc_plugins:
  "\<forall>p \<in> set ps. pl_Config p = Some Map.empty \<Longrightarrow> length ps < n \<Longrightarrow> dec_plugins n (enc_plugins ps @ r) = (ps, r)"
proof (induction ps arbitrary: n)
  case Nil
  then show ?case by (cases n) auto
next
  case (Cons p ps)
  then show ?case by (cases n) auto
qed

definition enc_config :: "CLIConfig \<Rightarrow> string" where
  "enc_config c = (let d = cc_Defaults c in
     enc_string (cc_DefaultOutputDir c) @ enc_string (tp_CustomPath (cc_Templates c)) @
     enc_string (df_GoVersion d) @ enc_string (df_Author d) @ enc_string (df_License d) @ enc_string (df_Organization d) @
     enc_bool (df_WithGRPC d) @ enc_bool (df_WithJobs d) @ enc_bool (df_WithCache d) @ enc_bool (df_WithAuth d) @ enc_plugins (cc_Plugins c))"

definition dec_config :: "string \<Rightarrow> CLIConfig" where
  "dec_config r =
     (case dec_string r of (output_dir, r) \<Rightarrow> case dec_string r of (path, r) \<Rightarrow> case dec_string r of (go, r) \<Rightarrow> case dec_string r of (author, r) \<Rightarrow>
      case dec_string r of (license, r) \<Rightarrow> case dec_string r of (organization, r) \<Rightarrow> case dec_bool r of (grpc, r) \<Rightarrow> case dec_bool r of (jobs, r) \<Rightarrow>
      case dec_bool r of (cache, r) \<Rightarrow> case dec_bool r of (auth, r) \<Rightarrow>
        \<lparr>cc_DefaultOutputDir = output_dir, cc_Templates = \<lparr>tp_CustomPath = path, tp_Variables = Some Map.empty\<rparr>, cc_Plugins = fst (dec_plugins (length r) r),
         cc_Defaults = \<lparr>df_GoVersion = go, df_Author = author, df_License = license, df_Organization = organization,
                        df_WithGRPC = grpc, df_WithJobs = jobs, df_WithCache = cache, df_WithAuth = auth\<rparr>\<rparr>)"

lemma enc_plugins_length: "length ps < length (enc_plugins ps)"
  by (induction ps) auto

lemma dec_enc_config: "plain c \<Longrightarrow> dec_config (enc_config c) = c"
  using dec_enc_plugins [of "cc_Plugins c" "length (enc_plugins (cc_Plugins c))" "[]"] enc_plugins_length [of "cc_Plugins c"]
  by (simp add: dec_config_def enc_config_def Let_def plain_def)

definition memory_yaml :: yaml where
  "memory_yaml = \<lparr>ya_Marshal = (\<lambda>c. case c of None \<Rightarrow> Inr [] | Some c \<Rightarrow> Inr (enc_config c)), ya_Unmarshal = (\<lambda>text. (None, dec_config text))\<rparr>"

definition memory_os :: "(string \<rightharpoonup> string) os" where
  "memory_os =
     \<lparr>os_UserHomeDir = (\<lambda>w. Inr ''/root''), os_MkdirAll = (\<lambda>d w. (None, w)), os_Missing = (\<lambda>p w. w p = None),
      os_ReadFile = (\<lambda>p w. case w p of None \<Rightarrow> Inl ''no such file'' | Some text \<Rightarrow> Inr text), os_WriteFile = (\<lambda>p text w. (None, w(p \<mapsto> text))),
      os_ReadDir = (\<lambda>d w. Inr []), os_Getenv = (\<lambda>k w. []), os_Environ = (\<lambda>w. []),
      os_LookPath = (\<lambda>command w. if command = ''microlib-hello'' then Inr ''/bin/microlib-hello'' else Inl ''not found''),
      os_Run = (\<lambda>p args env w. (None, w))\<rparr>"

interpretation memory: config_files memory_os memory_yaml "''/root''" "\<lambda>_. True"
  by unfold_locales (auto simp: memory_os_def memory_yaml_def dec_enc_config split: option.splits)

theorem config_commands_kept_witness:
  "\<exists>w' text c. execute_all memory_os memory_yaml
      [ConfigSet ''author'' ''Ada'', PluginInstall ''hello'' ''microlib-hello'', PluginInstall ''hello'' ''x'', PluginInstall ''bye'' ''x'', PluginDisable ''hello''] Map.empty
      = ([None, None, Some ''plugin hello already exists'', Some ''command not found: x'', None], w') \<and>
    os_ReadFile memory_os (config_file ''/root'') w' = Inr text \<and> ya_Unmarshal memory_yaml text = (None, c) \<and>
    df_Author (cc_Defaults c) = ''Ada'' \<and> map (\<lambda>p. (pl_Name p, pl_Enabled p)) (cc_Plugins c) = [(''hello'', False)]"
  using config_commands_kept [OF memory.config_files_axioms, where w = Map.empty and
      cmds = "[ConfigSet ''author'' ''Ada'', PluginInstall ''hello'' ''microlib-hello'', PluginInstall ''hello'' ''x'', PluginInstall ''bye'' ''x'', PluginDisable ''hello'']"
      and es = "[None, None, Some ''plugin hello already exists'', Some ''command not found: x'', None]"
      and c = "on_plugins (\<lambda>_. [(new_plugin ''hello'' ''microlib-hello'')\<lparr>pl_Enabled := False\<rparr>]) (set_key ''author'' ''Ada'' getDefaultConfig)"]
  by (auto simp: memory_os_def plugin_known_def on_plugins_def new_plugin_def enable_def set_key_def getDefaultConfig_def)

end
