(* ===== verification/CliDatabase.thy ===== *)
theory CliDatabase
  imports Cli Seeder
begin

text \<open>
  The commands on migrations and seeds (\<open>migration.go\<close>, \<open>seed.go\<close> of package cli).  The time of day and its RFC 3339 text are arguments, as are the
  driver's parsing, pool and ping, the walk over a directory and the outcome of statements.  A command that ends the process with an error returns
  what went wrong.
\<close>

subsection \<open>Environment\<close>

definition getEnv :: "'w os \<Rightarrow> string \<Rightarrow> string \<Rightarrow> 'w \<Rightarrow> string" where
  "getEnv fs key defaultValue w = (let value = os_Getenv fs key w in if value = [] then defaultValue else value)"

definition getEnvInt :: "'w os \<Rightarrow> string \<Rightarrow> int \<Rightarrow> 'w \<Rightarrow> int" where
  "getEnvInt fs key defaultValue w =
     (let value = os_Getenv fs key w
      in if value = [] then defaultValue else case strconv_Atoi value of None \<Rightarrow> defaultValue | Some intValue \<Rightarrow> intValue)"

record 'p driver =
  dr_parse :: "string \<Rightarrow> string option"
  dr_create :: "PostgresConfig \<Rightarrow> string + 'p"
  dr_ping :: "'p \<Rightarrow> string option"

definition connectToDatabase :: "'p driver \<Rightarrow> 'w os \<Rightarrow> 'w \<Rightarrow> pg_error + 'p \<times> PostgresConfig" where
  "connectToDatabase dr fs w =
     NewPostgresDB (dr_parse dr) (dr_create dr) (dr_ping dr)
       \<lparr>pc_Host = getEnv fs ''DB_HOST'' ''localhost'' w, pc_Port = getEnvInt fs ''DB_PORT'' 5432 w,
        pc_Username = getEnv fs ''DB_USER'' ''postgres'' w, pc_Password = getEnv fs ''DB_PASSWORD'' ''postgres'' w,
        pc_Database = getEnv fs ''DB_NAME'' ''postgres'' w, pc_SSLMode = getEnv fs ''DB_SSLMODE'' ''disable'' w,
        pc_MaxConnections = 0, pc_ConnTimeout = 0, pc_MaxIdleTime = 0, pc_MaxLifetime = 0, pc_HealthCheckFreq = 0\<rparr>"

subsection \<open>Migrations\<close>

definition sanitize_name :: "string \<Rightarrow> string" where
  "sanitize_name = map_runes alnum (CHR ''_'')"

definition newline :: string where
  "newline = [CHR 0x0A]"

definition migration_filename :: "int \<Rightarrow> string \<Rightarrow> string" where
  "migration_filename version name = ''V'' @ fmt_d version @ ''__'' @ name @ ''.sql''"

definition migration_content :: "string \<Rightarrow> string \<Rightarrow> string" where
  "migration_content name stamp =
     ''-- Migration: '' @ name @ newline @ ''-- Created at: '' @ stamp @ newline @ newline @
     ''-- Write your UP migration SQL here'' @ newline @ newline @ ''-- DOWN'' @ newline @ newline @
     ''-- Write your DOWN migration SQL here'' @ newline"

datatype cli_error =
    CliCreateDir string
  | CliCreateFile string
  | CliConnect pg_error
  | CliVersion string
  | CliMigrations mig_error
  | CliSeeds seed_error

definition createMigration :: "'w os \<Rightarrow> string \<Rightarrow> time \<Rightarrow> string \<Rightarrow> string \<Rightarrow> 'w \<Rightarrow> cli_error option \<times> 'w" where
  "createMigration fs migrationsDir now stamp arg w =
     (let name = sanitize_name arg
      in case os_MkdirAll fs migrationsDir w of
           (Some e, w) \<Rightarrow> (Some (CliCreateDir e), w)
         | (None, w) \<Rightarrow>
             (let version = now div Second; filename = migration_filename version name
              in case os_WriteFile fs (filepath_Join [migrationsDir, filename]) (migration_content name stamp) w of
                   (e, w) \<Rightarrow> (map_option CliCreateFile e, w)))"

definition parse_version :: "string list \<Rightarrow> cli_error + int" where
  "parse_version args =
     (case args of
        [] \<Rightarrow> Inr 0
      | a # _ \<Rightarrow> (case strconv_ParseInt a of None \<Rightarrow> Inl (CliVersion a) | Some v \<Rightarrow> Inr v))"

text \<open>What the commands that use the runner begin with: the pool, and the migrations loaded.\<close>

definition with_runner ::
  "'d mig_db pg_pool driver \<Rightarrow> 'w os \<Rightarrow> 'w \<Rightarrow> mig_entry list \<Rightarrow> ('d mig_db pg_pool \<Rightarrow> PostgresMigrationRunner \<Rightarrow> cli_error + 'r) \<Rightarrow> cli_error + 'r" where
  "with_runner dr fs w walk k =
     (case connectToDatabase dr fs w of
        Inl e \<Rightarrow> Inl (CliConnect e)
      | Inr (pool, cfg) \<Rightarrow>
          (case LoadMigrations walk NewPostgresMigrationRunner of
             (Some e, r) \<Rightarrow> Inl (CliMigrations e)
           | (None, r) \<Rightarrow> k pool r))"

text \<open>The outcome of the statements on the tables.\<close>

record outcomes =
  oc_init :: "string option"
  oc_query :: "string option"
  oc_record :: "int \<Rightarrow> string option"
  oc_seed :: "string \<Rightarrow> string option"
  oc_delete :: "string option"

definition applyMigrations ::
  "'d mig_db pg_pool driver \<Rightarrow> 'w os \<Rightarrow> 'w \<Rightarrow> mig_entry list \<Rightarrow> (string \<Rightarrow> 'd \<Rightarrow> string + 'd) \<Rightarrow> outcomes \<Rightarrow> time \<Rightarrow> string list \<Rightarrow> 'd mig_db \<Rightarrow>
   cli_error option \<times> 'd mig_db" where
  "applyMigrations dr fs w walk run_sql oc now args db =
     (case with_runner dr fs w walk (\<lambda>pool r. case parse_version args of
          Inl e \<Rightarrow> Inl e
        | Inr version \<Rightarrow> Inr (Apply pool run_sql (oc_record oc) (oc_init oc) (oc_query oc) now version r db)) of
        Inl e \<Rightarrow> (Some e, db)
      | Inr (e, r, db) \<Rightarrow> (map_option CliMigrations e, db))"

definition rollbackMigrations ::
  "'d mig_db pg_pool driver \<Rightarrow> 'w os \<Rightarrow> 'w \<Rightarrow> mig_entry list \<Rightarrow> (string \<Rightarrow> 'd \<Rightarrow> string + 'd) \<Rightarrow> outcomes \<Rightarrow> string list \<Rightarrow> 'd mig_db \<Rightarrow>
   cli_error option \<times> 'd mig_db" where
  "rollbackMigrations dr fs w walk run_sql oc args db =
     (case with_runner dr fs w walk (\<lambda>pool r. case parse_version args of
          Inl e \<Rightarrow> Inl e
        | Inr version \<Rightarrow> Inr (Rollback pool run_sql (oc_record oc) (oc_init oc) (oc_query oc) version r db)) of
        Inl e \<Rightarrow> (Some e, db)
      | Inr (e, r, db) \<Rightarrow> (map_option CliMigrations e, db))"

definition migrationStatus ::
  "'d mig_db pg_pool driver \<Rightarrow> 'w os \<Rightarrow> 'w \<Rightarrow> mig_entry list \<Rightarrow> outcomes \<Rightarrow> 'd mig_db \<Rightarrow> (cli_error + MigrationStatus list) \<times> 'd mig_db" where
  "migrationStatus dr fs w walk oc db =
     (case with_runner dr fs w walk (\<lambda>pool r. Inr (Status (oc_init oc) (oc_query oc) db)) of
        Inl e \<Rightarrow> (Inl e, db)
      | Inr (Inl e, db) \<Rightarrow> (Inl (CliMigrations e), db)
      | Inr (Inr statuses, db) \<Rightarrow> (Inr statuses, db))"

subsection \<open>Seeds\<close>

text \<open>
  The number that \<open>fmt.Sscanf\<close> returns is the number of items read, one; the value it read into \<open>priority\<close> is overwritten.
\<close>

fun next_priority :: "(string \<times> bool) list \<Rightarrow> int \<Rightarrow> int" where
  "next_priority [] priority = priority"
| "next_priority ((name, dir) # entries) priority =
     (if \<not> dir \<and> strings_HasPrefix name ''S'' then
        (case strings_SplitN2 name ''_'' of
           [p, n] \<Rightarrow>
             (case sscanf_d (strings_TrimPrefix p ''S'') of
                Some v \<Rightarrow> (let items = 1 in next_priority entries (items + 1))
              | None \<Rightarrow> next_priority entries priority)
         | _ \<Rightarrow> next_priority entries priority)
      else next_priority entries priority)"

definition fmt_02d :: "int \<Rightarrow> string" where
  "fmt_02d n = (let s = fmt_d n in if length s < 2 then replicate (2 - length s) (CHR ''0'') @ s else s)"

definition seed_filename :: "int \<Rightarrow> string \<Rightarrow> string" where
  "seed_filename priority name = ''S'' @ fmt_02d priority @ ''_'' @ name @ ''.sql''"

definition seed_content :: "string \<Rightarrow> string \<Rightarrow> string" where
  "seed_content name stamp =
     ''-- Seed: '' @ name @ newline @ ''-- Created at: '' @ stamp @ newline @ newline @
     ''-- Write your seed SQL here'' @ newline @ ''-- Example:'' @ newline @
     ''-- INSERT INTO users (name, email) VALUES ('' @ [CHR 0x27] @ ''Admin'' @ [CHR 0x27] @ '', '' @ [CHR 0x27] @ ''admin@example.com'' @ [CHR 0x27] @ '');'' @ newline"

definition createSeed :: "'w os \<Rightarrow> string \<Rightarrow> string \<Rightarrow> string \<Rightarrow> 'w \<Rightarrow> cli_error option \<times> 'w" where
  "createSeed fs seedsDir stamp arg w =
     (let name = sanitize_name arg
      in case os_MkdirAll fs seedsDir w of
           (Some e, w) \<Rightarrow> (Some (CliCreateDir e), w)
         | (None, w) \<Rightarrow>
             (let priority = (case os_ReadDir fs seedsDir w of Inl e \<Rightarrow> 1 | Inr entries \<Rightarrow> next_priority entries 1)
              in case os_WriteFile fs (filepath_Join [seedsDir, seed_filename priority name]) (seed_content name stamp) w of
                   (e, w) \<Rightarrow> (map_option CliCreateFile e, w)))"

definition applySeeds ::
  "'d seed_db pg_pool driver \<Rightarrow> 'w os \<Rightarrow> 'w \<Rightarrow> mig_entry list \<Rightarrow> (Seed list \<Rightarrow> Seed list) \<Rightarrow> (string \<Rightarrow> 'd \<Rightarrow> string + 'd) \<Rightarrow> outcomes \<Rightarrow> 'd seed_db \<Rightarrow>
   cli_error option \<times> 'd seed_db" where
  "applySeeds dr fs w walk order run_sql oc db =
     (case connectToDatabase dr fs w of
        Inl e \<Rightarrow> (Some (CliConnect e), db)
      | Inr (pool, cfg) \<Rightarrow>
          (case LoadSeeds walk NewPostgresSeeder of
             (Some e, s) \<Rightarrow> (Some (CliSeeds e), db)
           | (None, s) \<Rightarrow>
               (case Seeder_Apply pool order run_sql (oc_seed oc) (oc_init oc) (oc_query oc) s db of
                  (e, s, db) \<Rightarrow> (map_option CliSeeds e, db))))"

definition resetSeeds :: "'d seed_db pg_pool driver \<Rightarrow> 'w os \<Rightarrow> 'w \<Rightarrow> outcomes \<Rightarrow> 'd seed_db \<Rightarrow> cli_error option \<times> 'd seed_db" where
  "resetSeeds dr fs w oc db =
     (case connectToDatabase dr fs w of
        Inl e \<Rightarrow> (Some (CliConnect e), db)
      | Inr (pool, cfg) \<Rightarrow> (case Seeder_Reset (oc_init oc) (oc_delete oc) db of (e, db) \<Rightarrow> (map_option CliSeeds e, db)))"

end
