(* ===== verification/CliDatabaseProps.thy ===== *)
theory CliDatabaseProps
  imports CliDatabase
begin

text \<open>
  What the commands on migrations and seeds create is what the runner and the seeder read: the file name and the text give the version, the
  description and both sections back; the priorities of created seeds collide.
\<close>

subsection \<open>Numbers and texts\<close>










subsection \<open>Migrations\<close>















text \<open>The migrations among the files of the service templates have names the runner refuses.\<close>

lemma template_migrations_rejected:
  "parseMigrationContent ''001_create_users_table.sql'' content r = (Some (ErrFilename ''001_create_users_table.sql''), r)"
  "parseMigrationContent ''001_create_outbox_table.sql'' content r = (Some (ErrFilename ''001_create_outbox_table.sql''), r)"
  by (simp_all add: parseMigrationContent_def strings_SplitN2_def strings_HasPrefix_def)

subsection \<open>Seeds\<close>

text \<open>Once a seed with a readable priority is in the directory, every seed created gets the priority 2: the third and all later ones run in no order.\<close>

definition readable_seed :: "string \<times> bool \<Rightarrow> bool" where
  "readable_seed e \<longleftrightarrow> \<not> snd e \<and> strings_HasPrefix (fst e) ''S'' \<and>
     (\<exists>p n v. strings_SplitN2 (fst e) ''_'' = [p, n] \<and> sscanf_d (strings_TrimPrefix p ''S'') = Some v)"

theorem seed_priorities_collide:
  "next_priority entries n = (if list_ex readable_seed entries then 2 else n)"
  by (induction entries n rule: next_priority.induct) (auto simp: readable_seed_def split: list.splits option.splits)

end
