(* ===== verification/AsyncAPI.thy ===== *)
theory AsyncAPI
  imports GoOs GoFmt
begin

text \<open>
  Package messaging, \<open>asyncapi.go\<close> and \<open>serialization.go\<close>: documents that describe the topics of a service, and the JSON serializer.  JSON,
  \<open>strings.Title\<close> and the file system are arguments.  A map or pointer that may be nil is an option; an operation returns \<open>None\<close> when it
  panics.
\<close>

subsection \<open>Documents\<close>

text \<open>Values of type \<open>interface{}\<close>: those the code makes, and others a file may hold.\<close>

datatype any = AnyBool bool | AnyStrings "string \<rightharpoonup> string" | AnyLoaded string

datatype AsyncAPISchema = Schema
  (sch_Type: string)
  (sch_Format: string)
  (sch_Properties: "(string \<Rightarrow> AsyncAPISchema option option) option")
  (sch_Required: "string list")
  (sch_Description: string)
  (sch_Items: "AsyncAPISchema option")
  (sch_AdditionalProperties: "any option")
  (sch_Ref: string)

record AsyncAPIContact =
  ac_Name :: string
  ac_URL :: string
  ac_Email :: string

record AsyncAPILicense =
  al_Name :: string
  al_URL :: string

record AsyncAPIInfo =
  ai_Title :: string
  ai_Version :: string
  ai_Description :: string
  ai_TermsOfService :: string
  ai_Contact :: "AsyncAPIContact option"
  ai_License :: "AsyncAPILicense option"

record AsyncAPIServer =
  as_URL :: string
  as_Protocol :: string
  as_Description :: string
  as_Variables :: "(string \<rightharpoonup> any) option"
  as_Security :: "(string \<rightharpoonup> string list) list"

record AsyncAPITag =
  tg_Name :: string
  tg_Description :: string

record AsyncAPICorrelationID =
  co_Location :: string
  co_Description :: string

record AsyncAPIMessage =
  am_Headers :: "AsyncAPISchema option"
  am_Payload :: "AsyncAPISchema option"
  am_CorrelationID :: "AsyncAPICorrelationID option"
  am_ContentType :: string
  am_Name :: string
  am_Title :: string
  am_Summary :: string
  am_Description :: string
  am_Examples :: "any list"
  am_Ref :: string

record AsyncAPIOperation =
  ao_Summary :: string
  ao_Description :: string
  ao_OperationID :: string
  ao_Tags :: "AsyncAPITag list"
  ao_Message :: "AsyncAPIMessage option"

record AsyncAPIChannel =
  ch_Description :: string
  ch_Subscribe :: "AsyncAPIOperation option"
  ch_Publish :: "AsyncAPIOperation option"
  ch_Parameters :: "(string \<rightharpoonup> any) option"

record AsyncAPIComponents =
  cm_Schemas :: "(string \<Rightarrow> AsyncAPISchema option option) option"
  cm_Messages :: "(string \<Rightarrow> AsyncAPIMessage option option) option"
  cm_SecuritySchemes :: "(string \<rightharpoonup> any) option"

record AsyncAPIDocument =
  ad_AsyncAPI :: string
  ad_Info :: AsyncAPIInfo
  ad_Servers :: "(string \<rightharpoonup> AsyncAPIServer) option"
  ad_Channels :: "(string \<rightharpoonup> AsyncAPIChannel) option"
  ad_Components :: "AsyncAPIComponents option"
  ad_DefaultContentType :: string

record AsyncAPIGenerator =
  ag_document :: AsyncAPIDocument

subsection \<open>The generator\<close>

definition AsyncAPIVersion :: string where
  "AsyncAPIVersion = ''2.6.0''"

definition NewAsyncAPIGenerator :: "string \<Rightarrow> string \<Rightarrow> string \<Rightarrow> AsyncAPIGenerator" where
  "NewAsyncAPIGenerator title version description =
     \<lparr>ag_document =
        \<lparr>ad_AsyncAPI = AsyncAPIVersion,
         ad_Info = \<lparr>ai_Title = title, ai_Version = version, ai_Description = description, ai_TermsOfService = [], ai_Contact = None, ai_License = None\<rparr>,
         ad_Servers = Some Map.empty, ad_Channels = Some Map.empty,
         ad_Components = Some \<lparr>cm_Schemas = Some Map.empty, cm_Messages = Some Map.empty, cm_SecuritySchemes = None\<rparr>,
         ad_DefaultContentType = ''application/json''\<rparr>\<rparr>"

text \<open>Assigning to an entry of a nil map panics.\<close>

definition put :: "'k \<Rightarrow> 'v \<Rightarrow> ('k \<rightharpoonup> 'v) option \<Rightarrow> ('k \<rightharpoonup> 'v) option option" where
  "put k v m = map_option (\<lambda>m. Some (m(k \<mapsto> v))) m"

definition put_server :: "string \<Rightarrow> AsyncAPIServer \<Rightarrow> AsyncAPIGenerator \<Rightarrow> AsyncAPIGenerator option" where
  "put_server name server g = map_option (\<lambda>m. g\<lparr>ag_document := (ag_document g)\<lparr>ad_Servers := m\<rparr>\<rparr>) (put name server (ad_Servers (ag_document g)))"

definition AddServer :: "string \<Rightarrow> string \<Rightarrow> string \<Rightarrow> string \<Rightarrow> AsyncAPIGenerator \<Rightarrow> AsyncAPIGenerator option" where
  "AddServer name url protocol description =
     put_server name \<lparr>as_URL = url, as_Protocol = protocol, as_Description = description, as_Variables = None, as_Security = []\<rparr>"

definition server_variable :: "string \<Rightarrow> string \<Rightarrow> any" where
  "server_variable description def = AnyStrings [''description'' \<mapsto> description, ''default'' \<mapsto> def]"

definition AddRabbitMQServer :: "string \<Rightarrow> string \<Rightarrow> string \<Rightarrow> string \<Rightarrow> AsyncAPIGenerator \<Rightarrow> AsyncAPIGenerator option" where
  "AddRabbitMQServer name host virtualHost description =
     (let url = ''amqp://{username}:{password}@'' @ host @ ''/{virtualHost}'';
          virtualHost = (if virtualHost = [] then ''/'' else virtualHost)
      in put_server name
           \<lparr>as_URL = url, as_Protocol = ''amqp'', as_Description = description,
            as_Variables = Some [''username'' \<mapsto> server_variable ''RabbitMQ username'' ''guest'',
                                 ''password'' \<mapsto> server_variable ''RabbitMQ password'' ''guest'',
                                 ''virtualHost'' \<mapsto> server_variable ''RabbitMQ virtual host'' virtualHost],
            as_Security = []\<rparr>)"

definition AddKafkaServer :: "string \<Rightarrow> string \<Rightarrow> string \<Rightarrow> AsyncAPIGenerator \<Rightarrow> AsyncAPIGenerator option" where
  "AddKafkaServer name host description =
     put_server name \<lparr>as_URL = ''kafka://'' @ host, as_Protocol = ''kafka'', as_Description = description, as_Variables = None, as_Security = []\<rparr>"

definition put_channel :: "string \<Rightarrow> AsyncAPIChannel \<Rightarrow> AsyncAPIGenerator \<Rightarrow> AsyncAPIGenerator option" where
  "put_channel name ch g = map_option (\<lambda>m. g\<lparr>ag_document := (ag_document g)\<lparr>ad_Channels := m\<rparr>\<rparr>) (put name ch (ad_Channels (ag_document g)))"

definition zero_channel :: AsyncAPIChannel where
  "zero_channel = \<lparr>ch_Description = [], ch_Subscribe = None, ch_Publish = None, ch_Parameters = None\<rparr>"

definition AddChannel :: "string \<Rightarrow> string \<Rightarrow> AsyncAPIGenerator \<Rightarrow> AsyncAPIGenerator option" where
  "AddChannel name description = put_channel name (zero_channel\<lparr>ch_Description := description\<rparr>)"

definition channel_at :: "string \<Rightarrow> AsyncAPIGenerator \<Rightarrow> AsyncAPIChannel" where
  "channel_at channel g = (case Option.bind (ad_Channels (ag_document g)) (\<lambda>m. m channel) of None \<Rightarrow> zero_channel | Some ch \<Rightarrow> ch)"

definition ref_message :: "string \<Rightarrow> AsyncAPIMessage" where
  "ref_message messageRef =
     \<lparr>am_Headers = None, am_Payload = None, am_CorrelationID = None, am_ContentType = [], am_Name = [], am_Title = [], am_Summary = [],
      am_Description = [], am_Examples = [], am_Ref = ''#/components/messages/'' @ messageRef\<rparr>"

definition async_operation :: "string \<Rightarrow> string \<Rightarrow> string \<Rightarrow> string \<Rightarrow> AsyncAPIOperation" where
  "async_operation summary description operationId messageRef =
     \<lparr>ao_Summary = summary, ao_Description = description, ao_OperationID = operationId, ao_Tags = [], ao_Message = Some (ref_message messageRef)\<rparr>"

definition AddPublishOperation :: "string \<Rightarrow> string \<Rightarrow> string \<Rightarrow> string \<Rightarrow> string \<Rightarrow> AsyncAPIGenerator \<Rightarrow> AsyncAPIGenerator option" where
  "AddPublishOperation channel summary description operationId messageRef g =
     put_channel channel ((channel_at channel g)\<lparr>ch_Publish := Some (async_operation summary description operationId messageRef)\<rparr>) g"

definition AddSubscribeOperation :: "string \<Rightarrow> string \<Rightarrow> string \<Rightarrow> string \<Rightarrow> string \<Rightarrow> AsyncAPIGenerator \<Rightarrow> AsyncAPIGenerator option" where
  "AddSubscribeOperation channel summary description operationId messageRef g =
     put_channel channel ((channel_at channel g)\<lparr>ch_Subscribe := Some (async_operation summary description operationId messageRef)\<rparr>) g"

definition put_component ::
  "(AsyncAPIComponents \<Rightarrow> AsyncAPIComponents option) \<Rightarrow> AsyncAPIGenerator \<Rightarrow> AsyncAPIGenerator option" where
  "put_component upd g =
     map_option (\<lambda>c. g\<lparr>ag_document := (ag_document g)\<lparr>ad_Components := Some c\<rparr>\<rparr>) (Option.bind (ad_Components (ag_document g)) upd)"

definition AddMessage ::
  "string \<Rightarrow> string \<Rightarrow> string \<Rightarrow> string \<Rightarrow> AsyncAPISchema option \<Rightarrow> AsyncAPISchema option \<Rightarrow> AsyncAPIGenerator \<Rightarrow> AsyncAPIGenerator option" where
  "AddMessage name title summary description headers payload =
     put_component (\<lambda>c. map_option (\<lambda>m. c\<lparr>cm_Messages := m\<rparr>) (put name (Some
       \<lparr>am_Headers = headers, am_Payload = payload,
        am_CorrelationID = Some \<lparr>co_Location = ''$message.headers#/correlation-id'', co_Description = ''Correlation ID for message tracing''\<rparr>,
        am_ContentType = [], am_Name = name, am_Title = title, am_Summary = summary, am_Description = description, am_Examples = [], am_Ref = []\<rparr>)
       (cm_Messages c)))"

definition AddSchema :: "string \<Rightarrow> AsyncAPISchema option \<Rightarrow> AsyncAPIGenerator \<Rightarrow> AsyncAPIGenerator option" where
  "AddSchema name schema = put_component (\<lambda>c. map_option (\<lambda>m. c\<lparr>cm_Schemas := m\<rparr>) (put name schema (cm_Schemas c)))"

definition CreateObjectSchema :: "(string \<Rightarrow> AsyncAPISchema option option) option \<Rightarrow> string list \<Rightarrow> AsyncAPISchema" where
  "CreateObjectSchema properties required = Schema ''object'' [] properties required [] None None []"

definition CreateStringSchema :: "string \<Rightarrow> string \<Rightarrow> AsyncAPISchema" where
  "CreateStringSchema description format = Schema ''string'' (if format \<noteq> [] then format else []) None [] description None None []"

definition CreateNumberSchema :: "string \<Rightarrow> AsyncAPISchema" where
  "CreateNumberSchema description = Schema ''number'' [] None [] description None None []"

definition CreateArraySchema :: "string \<Rightarrow> AsyncAPISchema option \<Rightarrow> AsyncAPISchema" where
  "CreateArraySchema description items = Schema ''array'' [] None [] description items None []"

definition CreateSchemaRef :: "string \<Rightarrow> AsyncAPISchema" where
  "CreateSchemaRef schemaName = Schema [] [] None [] [] None None (''#/components/schemas/'' @ schemaName)"

subsection \<open>Files\<close>

record document_json =
  dj_MarshalIndent :: "AsyncAPIDocument \<Rightarrow> string + string"
  dj_Unmarshal :: "string \<Rightarrow> string + AsyncAPIDocument"

definition ToJSON :: "document_json \<Rightarrow> AsyncAPIGenerator \<Rightarrow> string + string" where
  "ToJSON j g = dj_MarshalIndent j (ag_document g)"

definition SaveToFile :: "'w os \<Rightarrow> document_json \<Rightarrow> string \<Rightarrow> AsyncAPIGenerator \<Rightarrow> 'w \<Rightarrow> string option \<times> 'w" where
  "SaveToFile fs j filePath g w =
     (case os_MkdirAll fs (filepath_Dir filePath) w of
        (Some e, w) \<Rightarrow> (Some (''failed to create directory: '' @ e), w)
      | (None, w) \<Rightarrow>
          (case ToJSON j g of
             Inl e \<Rightarrow> (Some (''failed to convert to JSON: '' @ e), w)
           | Inr data \<Rightarrow>
               (case os_WriteFile fs filePath data w of (e, w) \<Rightarrow> (map_option (\<lambda>e. ''failed to write file: '' @ e) e, w))))"

text \<open>\<open>os_Open\<close> is the error of opening the file; reading to the end of an open file is as reading the file.\<close>

definition LoadAsyncAPIFromFile ::
  "'w os \<Rightarrow> (string \<Rightarrow> 'w \<Rightarrow> string option) \<Rightarrow> document_json \<Rightarrow> string \<Rightarrow> 'w \<Rightarrow> string + AsyncAPIGenerator" where
  "LoadAsyncAPIFromFile fs os_Open j filePath w =
     (case os_Open filePath w of
        Some e \<Rightarrow> Inl (''failed to open file: '' @ e)
      | None \<Rightarrow>
          (case os_ReadFile fs filePath w of
             Inl e \<Rightarrow> Inl (''failed to read file: '' @ e)
           | Inr content \<Rightarrow>
               (case dj_Unmarshal j content of
                  Inl e \<Rightarrow> Inl (''failed to parse JSON: '' @ e)
                | Inr doc \<Rightarrow> Inr \<lparr>ag_document = doc\<rparr>)))"

subsection \<open>Topics\<close>

definition defaultPayloadSchema :: AsyncAPISchema where
  "defaultPayloadSchema = Schema ''object'' [] None [] [] None (Some (AnyBool True)) []"

definition defaultHeadersSchema :: AsyncAPISchema where
  "defaultHeadersSchema = Schema ''object'' []
     (Some [''correlation-id'' \<mapsto> Some (Schema ''string'' [] None [] ''Correlation ID for message tracing'' None None []),
            ''timestamp'' \<mapsto> Some (Schema ''string'' ''date-time'' None [] ''Message timestamp'' None None [])]) [] [] None None []"

definition cleanTopic :: "string \<Rightarrow> string" where
  "cleanTopic topic = strings_Replace1 (CHR ''/'') (CHR ''-'') (strings_Replace1 (CHR ''.'') (CHR ''-'') topic)"

definition messageName :: "string \<Rightarrow> string" where
  "messageName topic = cleanTopic topic @ ''Message''"

definition add_topic :: "(string \<Rightarrow> string) \<Rightarrow> string \<Rightarrow> AsyncAPIGenerator \<Rightarrow> AsyncAPIGenerator option" where
  "add_topic title topic g =
     Option.bind (AddChannel topic (''Channel for '' @ topic @ '' messages'') g) (\<lambda>g.
     Option.bind (AddMessage (messageName topic) (topic @ '' Message'') (''Message for '' @ topic @ '' topic'')
       (''Message published/subscribed on the '' @ topic @ '' topic'') (Some defaultHeadersSchema) (Some defaultPayloadSchema) g) (\<lambda>g.
     Option.bind (AddPublishOperation topic (''Publish to '' @ topic) (''Publish a message to the '' @ topic @ '' topic'')
       (''publish'' @ title (cleanTopic topic)) (messageName topic) g) (\<lambda>g.
     AddSubscribeOperation topic (''Subscribe to '' @ topic) (''Receive messages from the '' @ topic @ '' topic'')
       (''subscribe'' @ title (cleanTopic topic)) (messageName topic) g)))"

fun add_topics :: "(string \<Rightarrow> string) \<Rightarrow> string list \<Rightarrow> AsyncAPIGenerator \<Rightarrow> AsyncAPIGenerator option" where
  "add_topics title [] g = Some g"
| "add_topics title (topic # topics) g = Option.bind (add_topic title topic g) (add_topics title topics)"

definition GenerateFromTopics ::
  "(string \<Rightarrow> string) \<Rightarrow> string \<Rightarrow> string \<Rightarrow> string \<Rightarrow> string \<Rightarrow> string \<Rightarrow> string \<Rightarrow> string list \<Rightarrow> AsyncAPIGenerator option" where
  "GenerateFromTopics strings_Title title version description serverName serverURL protocol topics =
     Option.bind (AddServer serverName serverURL protocol ''Default server'' (NewAsyncAPIGenerator title version description))
       (add_topics strings_Title topics)"

subsection \<open>The JSON serializer\<close>

text \<open>\<open>marshal\<close> and \<open>unmarshal\<close> are those of \<open>encoding/json\<close> for the type of the value; what was there before is changed.\<close>

definition Serialize :: "('v \<Rightarrow> string + string) \<Rightarrow> 'v \<Rightarrow> string + string" where
  "Serialize marshal v = (case marshal v of Inl e \<Rightarrow> Inl (''failed to serialize to JSON: '' @ e) | Inr data \<Rightarrow> Inr data)"

definition Deserialize :: "(string \<Rightarrow> 'v \<Rightarrow> string option \<times> 'v) \<Rightarrow> string \<Rightarrow> 'v \<Rightarrow> string option \<times> 'v" where
  "Deserialize unmarshal data v = (case unmarshal data v of (e, v) \<Rightarrow> (map_option (\<lambda>e. ''failed to deserialize from JSON: '' @ e) e, v))"

end
