(* ===== verification/AsyncAPIProps.thy ===== *)
theory AsyncAPIProps
  imports AsyncAPI
begin

text \<open>
  Generated documents are closed: every channel refers to a message the document has.  What breaks: two topics that differ in the characters that
  are replaced share a message, and a document that was saved and loaded again cannot be extended.
\<close>

subsection \<open>Documents made from topics\<close>

definition topic_message :: "string \<Rightarrow> AsyncAPIMessage" where
  "topic_message topic =
     \<lparr>am_Headers = Some defaultHeadersSchema, am_Payload = Some defaultPayloadSchema,
      am_CorrelationID = Some \<lparr>co_Location = ''$message.headers#/correlation-id'', co_Description = ''Correlation ID for message tracing''\<rparr>,
      am_ContentType = [], am_Name = messageName topic, am_Title = topic @ '' Message'', am_Summary = ''Message for '' @ topic @ '' topic'',
      am_Description = ''Message published/subscribed on the '' @ topic @ '' topic'', am_Examples = [], am_Ref = []\<rparr>"

definition topic_channel :: "(string \<Rightarrow> string) \<Rightarrow> string \<Rightarrow> AsyncAPIChannel" where
  "topic_channel title topic =
     \<lparr>ch_Description = ''Channel for '' @ topic @ '' messages'',
      ch_Subscribe = Some (async_operation (''Subscribe to '' @ topic) (''Receive messages from the '' @ topic @ '' topic'')
        (''subscribe'' @ title (cleanTopic topic)) (messageName topic)),
      ch_Publish = Some (async_operation (''Publish to '' @ topic) (''Publish a message to the '' @ topic @ '' topic'')
        (''publish'' @ title (cleanTopic topic)) (messageName topic)),
      ch_Parameters = None\<rparr>"

text \<open>A generator that has its maps, with these channels and messages; the rest of the document is \<open>d\<close>.\<close>

definition with_maps :: "AsyncAPIDocument \<Rightarrow> (string \<rightharpoonup> AsyncAPIChannel) \<Rightarrow> (string \<Rightarrow> AsyncAPIMessage option option) \<Rightarrow> AsyncAPIGenerator" where
  "with_maps d chs ms =
     \<lparr>ag_document = d\<lparr>ad_Channels := Some chs, ad_Components := Some \<lparr>cm_Schemas = Some Map.empty, cm_Messages = Some ms, cm_SecuritySchemes = None\<rparr>\<rparr>\<rparr>"

lemma add_topic_maps:
  "add_topic title topic (with_maps d chs ms) = Some (with_maps d (chs(topic \<mapsto> topic_channel title topic)) (ms(messageName topic \<mapsto> Some (topic_message topic))))"
  by (simp add: add_topic_def AddChannel_def AddMessage_def AddPublishOperation_def AddSubscribeOperation_def put_channel_def put_component_def
      put_def with_maps_def channel_at_def zero_channel_def topic_channel_def topic_message_def)

lemma add_topics_maps:
  "add_topics title topics (with_maps d chs ms) =
     Some (with_maps d (chs ++ map_of (map (\<lambda>t. (t, topic_channel title t)) (rev topics))) (ms ++ map_of (map (\<lambda>t. (messageName t, Some (topic_message t))) (rev topics))))"
  by (induction topics arbitrary: chs ms) (simp_all add: add_topic_maps)

lemma map_of_last:
  "map_of (map (\<lambda>t. (k t, v t)) (rev ts)) n = (if n \<in> k ` set ts then Some (v (last (filter (\<lambda>t. k t = n) ts))) else None)"
  by (induction ts rule: rev_induct) auto

text \<open>The message a reference stands for.\<close>

definition referenced :: "AsyncAPIDocument \<Rightarrow> AsyncAPIOperation option \<Rightarrow> AsyncAPIMessage option" where
  "referenced doc op =
     Option.bind op (\<lambda>op. Option.bind (ao_Message op) (\<lambda>r. Option.bind (ad_Components doc) (\<lambda>c. Option.bind (cm_Messages c) (\<lambda>ms.
       if strings_HasPrefix (am_Ref r) ''#/components/messages/'' then Option.bind (ms (drop 22 (am_Ref r))) (\<lambda>m. m) else None))))"

lemma referenced_operation:
  "referenced (ag_document (with_maps d chs ms)) (Some (async_operation s e i n)) = Option.bind (ms n) (\<lambda>m. m)"
  by (simp add: referenced_def with_maps_def async_operation_def ref_message_def strings_HasPrefix_def)

lemma referenced_topic:
  "referenced (ag_document (with_maps d chs ms)) (ch_Publish (topic_channel title t)) = Option.bind (ms (messageName t)) (\<lambda>m. m)"
  "referenced (ag_document (with_maps d chs ms)) (ch_Subscribe (topic_channel title t)) = Option.bind (ms (messageName t)) (\<lambda>m. m)"
  unfolding topic_channel_def by (simp_all only: AsyncAPIChannel.simps referenced_operation)

lemma maps_channels: "ad_Channels (ag_document (with_maps d chs ms)) = Some chs"
  by (simp add: with_maps_def)

lemma generated_maps:
  "\<exists>d chs ms. GenerateFromTopics strings_Title title version description serverName serverURL protocol topics = Some (with_maps d chs ms) \<and>
    ad_Servers d = Some [serverName \<mapsto> \<lparr>as_URL = serverURL, as_Protocol = protocol, as_Description = ''Default server'', as_Variables = None, as_Security = []\<rparr>] \<and>
    chs = map_of (map (\<lambda>t. (t, topic_channel strings_Title t)) (rev topics)) \<and>
    ms = map_of (map (\<lambda>t. (messageName t, Some (topic_message t))) (rev topics))"
proof -
  define d where "d = (ag_document (NewAsyncAPIGenerator title version description))
    \<lparr>ad_Servers := Some [serverName \<mapsto> \<lparr>as_URL = serverURL, as_Protocol = protocol, as_Description = ''Default server'', as_Variables = None, as_Security = []\<rparr>]\<rparr>"
  have "AddServer serverName serverURL protocol ''Default server'' (NewAsyncAPIGenerator title version description) = Some (with_maps d Map.empty Map.empty)"
    by (simp add: d_def AddServer_def put_server_def put_def NewAsyncAPIGenerator_def with_maps_def)
  then have "GenerateFromTopics strings_Title title version description serverName serverURL protocol topics =
      Some (with_maps d (map_of (map (\<lambda>t. (t, topic_channel strings_Title t)) (rev topics))) (map_of (map (\<lambda>t. (messageName t, Some (topic_message t))) (rev topics))))"
    by (simp add: GenerateFromTopics_def add_topics_maps)
  then show ?thesis by (intro exI conjI) (assumption, simp_all add: d_def)
qed

text \<open>
  C40: the document made from a list of topics has a channel for each topic and no other, and both operations of a channel refer to a message of the
  document.  That message is the one of the last topic whose name gives the same identifier when dots and slashes become dashes.
\<close>

theorem generated_document:
  "\<exists>g chs. GenerateFromTopics strings_Title title version description serverName serverURL protocol topics = Some g \<and>
    ad_Channels (ag_document g) = Some chs \<and> dom chs = set topics \<and>
    (\<forall>topic \<in> set topics. \<exists>ch. chs topic = Some ch \<and>
       (let m = Some (topic_message (last (filter (\<lambda>t. cleanTopic t = cleanTopic topic) topics)))
        in referenced (ag_document g) (ch_Publish ch) = m \<and> referenced (ag_document g) (ch_Subscribe ch) = m))"
proof -
  obtain d chs ms where g: "GenerateFromTopics strings_Title title version description serverName serverURL protocol topics = Some (with_maps d chs ms)"
    and chs: "chs = map_of (map (\<lambda>t. (t, topic_channel strings_Title t)) (rev topics))"
    and ms: "ms = map_of (map (\<lambda>t. (messageName t, Some (topic_message t))) (rev topics))"
    using generated_maps by blast
  have "chs topic = Some (topic_channel strings_Title topic)" if t: "topic \<in> set topics" for topic
  proof -
    have "last (filter (\<lambda>t. t = topic) topics) = topic" using t last_in_set [of "filter (\<lambda>t. t = topic) topics"] by (auto simp: filter_empty_conv)
    with t show ?thesis unfolding chs map_of_last by simp
  qed
  moreover have "ms (messageName topic) = Some (Some (topic_message (last (filter (\<lambda>t. cleanTopic t = cleanTopic topic) topics))))" if "topic \<in> set topics" for topic
    using that unfolding ms map_of_last by (simp add: messageName_def)
  moreover have "dom chs = set topics" unfolding chs by (simp add: dom_map_of_conv_image_fst image_image)
  ultimately show ?thesis
    using g by (intro exI [of _ "with_maps d chs ms"] exI [of _ chs]) (simp add: referenced_topic maps_channels Let_def)
qed

theorem generated_document_witness:
  "\<exists>g chs ch. GenerateFromTopics (\<lambda>s. s) ''Shop'' ''1'' [] ''main'' ''localhost'' ''kafka'' [''orders.paid'', ''orders-paid''] = Some g \<and>
    ad_Channels (ag_document g) = Some chs \<and> chs ''orders.paid'' = Some ch \<and> referenced (ag_document g) (ch_Publish ch) = Some (topic_message ''orders-paid'')"
  using generated_document [of "\<lambda>s. s" "''Shop''" "''1''" "[]" "''main''" "''localhost''" "''kafka''" "[''orders.paid'', ''orders-paid'']"]
  by (auto simp: Let_def cleanTopic_def strings_Replace1_def)

subsection \<open>Documents loaded again\<close>

text \<open>
  Empty maps of a document are left out of its JSON text (\<open>omitempty\<close>), and what the text does not have is nil in the loaded document: adding a
  server, a message or a schema to a loaded document without one panics.
\<close>

theorem loaded_generator_panics:
  assumes "ToJSON j (NewAsyncAPIGenerator title version description) = Inr text" "dj_Unmarshal j text = Inr doc"
    and omitempty: "\<And>d t d'. dj_MarshalIndent j d = Inr t \<Longrightarrow> dj_Unmarshal j t = Inr d' \<Longrightarrow>
      (ad_Servers d = Some Map.empty \<longrightarrow> ad_Servers d' = None) \<and>
      (\<forall>c c'. ad_Components d = Some c \<longrightarrow> ad_Components d' = Some c' \<longrightarrow>
         (cm_Messages c = Some Map.empty \<longrightarrow> cm_Messages c' = None) \<and> (cm_Schemas c = Some Map.empty \<longrightarrow> cm_Schemas c' = None))"
  shows "AddServer name url protocol des \<lparr>ag_document = doc\<rparr> = None \<and> AddMessage mname mtitle summary mdes h p \<lparr>ag_document = doc\<rparr> = None \<and>
    AddSchema sname schema \<lparr>ag_document = doc\<rparr> = None"
proof -
  have d: "dj_MarshalIndent j (ag_document (NewAsyncAPIGenerator title version description)) = Inr text" using assms(1) by (simp add: ToJSON_def)
  from omitempty [OF d assms(2)] show ?thesis
    by (auto simp: NewAsyncAPIGenerator_def AddServer_def put_server_def put_def AddMessage_def AddSchema_def put_component_def split: bind_split)
qed

end
