(* ===== verification/PostgresCalls.thy ===== *)
theory PostgresCalls
  imports Database
begin

text \<open>
  The methods of \<open>PostgresDB\<close>, \<open>PostgresTx\<close>, \<open>PostgresRows\<close>, \<open>PostgresRow\<close> and \<open>PostgresResult\<close> (\<open>data/postgres.go\<close>), which hand their arguments to
  the driver: pool, transactions, rows and command tags are the driver's, given by their functions on a world.
\<close>

record ('a, 't, 'r, 'q, 'c, 'd, 'w) pgx =
  px_Query :: "string \<Rightarrow> 'a list \<Rightarrow> 'w \<Rightarrow> (string + 'r) \<times> 'w"
  px_QueryRow :: "string \<Rightarrow> 'a list \<Rightarrow> 'w \<Rightarrow> 'q \<times> 'w"
  px_Exec :: "string \<Rightarrow> 'a list \<Rightarrow> 'w \<Rightarrow> (string + 'c) \<times> 'w"
  px_Close :: "'w \<Rightarrow> 'w"
  px_Ping :: "'w \<Rightarrow> string option \<times> 'w"
  tx_Query :: "'t \<Rightarrow> string \<Rightarrow> 'a list \<Rightarrow> 'w \<Rightarrow> (string + 'r) \<times> 'w"
  tx_QueryRow :: "'t \<Rightarrow> string \<Rightarrow> 'a list \<Rightarrow> 'w \<Rightarrow> 'q \<times> 'w"
  tx_Exec :: "'t \<Rightarrow> string \<Rightarrow> 'a list \<Rightarrow> 'w \<Rightarrow> (string + 'c) \<times> 'w"
  rows_Next :: "'r \<Rightarrow> 'w \<Rightarrow> bool \<times> 'w"
  rows_Scan :: "'r \<Rightarrow> 'd list \<Rightarrow> 'w \<Rightarrow> (string + 'a list) \<times> 'w" \<comment> \<open>the values put into the destinations\<close>
  rows_Close :: "'r \<Rightarrow> 'w \<Rightarrow> 'w"
  rows_Err :: "'r \<Rightarrow> 'w \<Rightarrow> string option"
  row_Scan :: "'q \<Rightarrow> 'd list \<Rightarrow> 'w \<Rightarrow> (string + 'a list) \<times> 'w"
  tag_RowsAffected :: "'c \<Rightarrow> int"

record PostgresDB =
  pd_cfg :: PostgresConfig
record 't PostgresTx =
  pt_tx :: 't
record 'r PostgresRows =
  pr_rows :: 'r
record 'q PostgresRow =
  po_row :: 'q
record 'c PostgresResult =
  pe_cmdTag :: 'c

definition DB_Query :: "('a, 't, 'r, 'q, 'c, 'd, 'w) pgx \<Rightarrow> PostgresDB \<Rightarrow> string \<Rightarrow> 'a list \<Rightarrow> 'w \<Rightarrow> (string + 'r PostgresRows) \<times> 'w" where
  "DB_Query px db query args w =
     (case px_Query px query args w of
        (Inl e, w) \<Rightarrow> (Inl (''postgres query error: '' @ e), w)
      | (Inr rows, w) \<Rightarrow> (Inr \<lparr>pr_rows = rows\<rparr>, w))"

definition DB_QueryRow :: "('a, 't, 'r, 'q, 'c, 'd, 'w) pgx \<Rightarrow> PostgresDB \<Rightarrow> string \<Rightarrow> 'a list \<Rightarrow> 'w \<Rightarrow> 'q PostgresRow \<times> 'w" where
  "DB_QueryRow px db query args w = (case px_QueryRow px query args w of (row, w) \<Rightarrow> (\<lparr>po_row = row\<rparr>, w))"

definition DB_Exec :: "('a, 't, 'r, 'q, 'c, 'd, 'w) pgx \<Rightarrow> PostgresDB \<Rightarrow> string \<Rightarrow> 'a list \<Rightarrow> 'w \<Rightarrow> (string + 'c PostgresResult) \<times> 'w" where
  "DB_Exec px db query args w =
     (case px_Exec px query args w of
        (Inl e, w) \<Rightarrow> (Inl (''postgres exec error: '' @ e), w)
      | (Inr cmdTag, w) \<Rightarrow> (Inr \<lparr>pe_cmdTag = cmdTag\<rparr>, w))"

definition DB_Close :: "('a, 't, 'r, 'q, 'c, 'd, 'w) pgx \<Rightarrow> PostgresDB \<Rightarrow> 'w \<Rightarrow> string option \<times> 'w" where
  "DB_Close px db w = (None, px_Close px w)"

definition DB_Ping :: "('a, 't, 'r, 'q, 'c, 'd, 'w) pgx \<Rightarrow> PostgresDB \<Rightarrow> 'w \<Rightarrow> string option \<times> 'w" where
  "DB_Ping px db w = px_Ping px w"

definition Tx_Query :: "('a, 't, 'r, 'q, 'c, 'd, 'w) pgx \<Rightarrow> 't PostgresTx \<Rightarrow> string \<Rightarrow> 'a list \<Rightarrow> 'w \<Rightarrow> (string + 'r PostgresRows) \<times> 'w" where
  "Tx_Query px t query args w =
     (case tx_Query px (pt_tx t) query args w of
        (Inl e, w) \<Rightarrow> (Inl (''postgres transaction query error: '' @ e), w)
      | (Inr rows, w) \<Rightarrow> (Inr \<lparr>pr_rows = rows\<rparr>, w))"

definition Tx_QueryRow :: "('a, 't, 'r, 'q, 'c, 'd, 'w) pgx \<Rightarrow> 't PostgresTx \<Rightarrow> string \<Rightarrow> 'a list \<Rightarrow> 'w \<Rightarrow> 'q PostgresRow \<times> 'w" where
  "Tx_QueryRow px t query args w = (case tx_QueryRow px (pt_tx t) query args w of (row, w) \<Rightarrow> (\<lparr>po_row = row\<rparr>, w))"

definition Tx_Exec :: "('a, 't, 'r, 'q, 'c, 'd, 'w) pgx \<Rightarrow> 't PostgresTx \<Rightarrow> string \<Rightarrow> 'a list \<Rightarrow> 'w \<Rightarrow> (string + 'c PostgresResult) \<times> 'w" where
  "Tx_Exec px t query args w =
     (case tx_Exec px (pt_tx t) query args w of
        (Inl e, w) \<Rightarrow> (Inl (''postgres transaction exec error: '' @ e), w)
      | (Inr cmdTag, w) \<Rightarrow> (Inr \<lparr>pe_cmdTag = cmdTag\<rparr>, w))"

definition Rows_Next :: "('a, 't, 'r, 'q, 'c, 'd, 'w) pgx \<Rightarrow> 'r PostgresRows \<Rightarrow> 'w \<Rightarrow> bool \<times> 'w" where
  "Rows_Next px r w = rows_Next px (pr_rows r) w"
definition Rows_Scan :: "('a, 't, 'r, 'q, 'c, 'd, 'w) pgx \<Rightarrow> 'r PostgresRows \<Rightarrow> 'd list \<Rightarrow> 'w \<Rightarrow> (string + 'a list) \<times> 'w" where
  "Rows_Scan px r dest w = rows_Scan px (pr_rows r) dest w"
definition Rows_Close :: "('a, 't, 'r, 'q, 'c, 'd, 'w) pgx \<Rightarrow> 'r PostgresRows \<Rightarrow> 'w \<Rightarrow> string option \<times> 'w" where
  "Rows_Close px r w = (None, rows_Close px (pr_rows r) w)"
definition Rows_Err :: "('a, 't, 'r, 'q, 'c, 'd, 'w) pgx \<Rightarrow> 'r PostgresRows \<Rightarrow> 'w \<Rightarrow> string option" where
  "Rows_Err px r w = rows_Err px (pr_rows r) w"

definition Row_Scan :: "('a, 't, 'r, 'q, 'c, 'd, 'w) pgx \<Rightarrow> 'q PostgresRow \<Rightarrow> 'd list \<Rightarrow> 'w \<Rightarrow> (string + 'a list) \<times> 'w" where
  "Row_Scan px r dest w = row_Scan px (po_row r) dest w"

definition Result_RowsAffected :: "('a, 't, 'r, 'q, 'c, 'd, 'w) pgx \<Rightarrow> 'c PostgresResult \<Rightarrow> string + int" where
  "Result_RowsAffected px r = Inr (tag_RowsAffected px (pe_cmdTag r))"

text \<open>
  The loop every caller of the package writes: rows are scanned until \<open>Next\<close> is false, then \<open>Err\<close> is asked.  Over a driver that delivers a list of rows
  and then possibly an error, it gives all rows or that error, never a part of the rows as if it were all.
\<close>

fun collect :: "nat \<Rightarrow> ('a, 't, 'r, 'q, 'c, 'd, 'w) pgx \<Rightarrow> 'r PostgresRows \<Rightarrow> 'd list \<Rightarrow> 'a list list \<Rightarrow> 'w \<Rightarrow> ((string + 'a list list) \<times> 'w) option" where
  "collect 0 px r dest acc w = None"
| "collect (Suc n) px r dest acc w =
     (case Rows_Next px r w of
        (False, w) \<Rightarrow> Some (case Rows_Err px r w of Some e \<Rightarrow> Inl e | None \<Rightarrow> Inr acc, w)
      | (True, w) \<Rightarrow>
          (case Rows_Scan px r dest w of
             (Inl e, w) \<Rightarrow> Some (Inl e, w)
           | (Inr row, w) \<Rightarrow> collect n px r dest (acc @ [row]) w))"

locale row_stream =
  fixes px :: "('a, 't, 'r, 'q, 'c, 'd, 'w) pgx" and rest :: "'r \<Rightarrow> 'w \<Rightarrow> 'a list list" and fault :: "'r \<Rightarrow> 'w \<Rightarrow> string option"
    and current :: "'r \<Rightarrow> 'w \<Rightarrow> 'a list option"
  assumes next_more: "rest r w = row # rows \<Longrightarrow> \<exists>w'. rows_Next px r w = (True, w') \<and> rest r w' = rows \<and> fault r w' = fault r w \<and> current r w' = Some row"
    and next_end: "rest r w = [] \<Longrightarrow> \<exists>w'. rows_Next px r w = (False, w') \<and> rows_Err px r w' = fault r w"
    and scan: "current r w = Some row \<Longrightarrow> \<exists>w'. rows_Scan px r dest w = (Inr row, w') \<and> rest r w' = rest r w \<and> fault r w' = fault r w"
begin

lemma collect_all:
  "length (rest r w) < n \<Longrightarrow>
   \<exists>w'. collect n px \<lparr>pr_rows = r\<rparr> dest acc w = Some (case fault r w of Some e \<Rightarrow> Inl e | None \<Rightarrow> Inr (acc @ rest r w), w')"
proof (induction n arbitrary: acc w)
  case (Suc n)
  show ?case
  proof (cases "rest r w")
    case Nil
    from next_end [OF Nil] Nil show ?thesis by (auto simp: Rows_Next_def Rows_Err_def split: option.split)
  next
    case (Cons row rows)
    obtain w1 where 1: "rows_Next px r w = (True, w1)" "rest r w1 = rows" "fault r w1 = fault r w" "current r w1 = Some row"
      using next_more [OF Cons] by blast
    obtain w2 where 2: "rows_Scan px r dest w1 = (Inr row, w2)" "rest r w2 = rows" "fault r w2 = fault r w"
      using scan [OF 1(4)] 1 by auto
    from Suc.IH [of w2 "acc @ [row]"] Suc.prems Cons 1 2 show ?thesis by (cases "fault r w") (simp_all add: Rows_Next_def Rows_Scan_def)
  qed
qed simp

end

text \<open>A driver over a list of rows; the world is the rows left and the row the cursor is on.\<close>

definition list_pgx :: "string option \<Rightarrow> (nat, unit, unit, unit, int, unit, nat list list \<times> nat list option) pgx" where
  "list_pgx err =
     \<lparr>px_Query = (\<lambda>q a w. (Inr (), w)), px_QueryRow = (\<lambda>q a w. ((), w)), px_Exec = (\<lambda>q a w. (Inr 0, w)), px_Close = (\<lambda>w. w), px_Ping = (\<lambda>w. (None, w)),
      tx_Query = (\<lambda>t q a w. (Inr (), w)), tx_QueryRow = (\<lambda>t q a w. ((), w)), tx_Exec = (\<lambda>t q a w. (Inr 0, w)),
      rows_Next = (\<lambda>r w. case fst w of [] \<Rightarrow> (False, [], None) | row # rows \<Rightarrow> (True, rows, Some row)),
      rows_Scan = (\<lambda>r dest w. (case snd w of None \<Rightarrow> Inl ''no row'' | Some row \<Rightarrow> Inr row, w)), rows_Close = (\<lambda>r w. w), rows_Err = (\<lambda>r w. err),
      row_Scan = (\<lambda>q dest w. (Inl ''no rows'', w)), tag_RowsAffected = (\<lambda>c. c)\<rparr>"

interpretation listed: row_stream "list_pgx err" "\<lambda>r. fst" "\<lambda>r w. err" "\<lambda>r. snd" for err
  by unfold_locales (auto simp: list_pgx_def)

end
