(* ===== verification/ObservabilityDefaults.thy ===== *)
theory ObservabilityDefaults
  imports Metrics Tracing HealthEndpoints
begin

text \<open>
  The configuration of all observability components (\<open>observability/config.go\<close>), the logger that writes nothing (\<open>noop.go\<close>), and that the default paths of
  the health endpoints are the ones the middleware lets pass.
\<close>

record HealthEndpointsConfig =
  he_Enabled :: bool
  he_Path :: string
  he_LivenessPath :: string
  he_ReadinessPath :: string
  he_StartupPath :: string

definition DefaultHealthEndpointsConfig :: HealthEndpointsConfig where
  "DefaultHealthEndpointsConfig =
     \<lparr>he_Enabled = True, he_Path = ''/health'', he_LivenessPath = ''/health/live'', he_ReadinessPath = ''/health/ready'', he_StartupPath = ''/health/startup''\<rparr>"

record ObservabilityConfig =
  oc_Logger :: LoggerConfig
  oc_Metrics :: MetricsConfig
  oc_Tracing :: TracingConfig
  oc_HealthEndpoints :: HealthEndpointsConfig

definition DefaultObservabilityConfig :: ObservabilityConfig where
  "DefaultObservabilityConfig =
     \<lparr>oc_Logger = DefaultLoggerConfig, oc_Metrics = DefaultMetricsConfig, oc_Tracing = DefaultTracingConfig, oc_HealthEndpoints = DefaultHealthEndpointsConfig\<rparr>"

text \<open>A logger by its calls on the log, of the package or writing nothing.\<close>

datatype 'v Logger = SlogLogger "'v slogLogger" | NoopLogger

definition NoOpLogger :: "'v Logger" where
  "NoOpLogger = NoopLogger"

definition logger_InfoContext :: "'v Logger \<Rightarrow> log_context \<Rightarrow> string \<Rightarrow> 'v Field list \<Rightarrow> 'v log \<Rightarrow> 'v log" where
  "logger_InfoContext l ctx msg fs out = (case l of NoopLogger \<Rightarrow> out | SlogLogger s \<Rightarrow> InfoContext s ctx msg fs out)"

definition logger_ErrorContext :: "'v Logger \<Rightarrow> log_context \<Rightarrow> string \<Rightarrow> string option \<Rightarrow> 'v Field list \<Rightarrow> 'v log \<Rightarrow> 'v log" where
  "logger_ErrorContext l ctx msg err fs out = (case l of NoopLogger \<Rightarrow> out | SlogLogger s \<Rightarrow> ErrorContext s ctx msg err fs out)"

definition logger_WithContext :: "'v Logger \<Rightarrow> log_context option \<Rightarrow> 'v Logger" where
  "logger_WithContext l ctx = (case l of NoopLogger \<Rightarrow> NoopLogger | SlogLogger s \<Rightarrow> SlogLogger (WithContext s ctx))"

lemma noop_stays_silent:
  "logger_InfoContext (logger_WithContext NoOpLogger c) ctx msg fs out = out"
  "logger_ErrorContext (logger_WithContext NoOpLogger c) ctx msg err fs out = out"
  by (simp_all add: NoOpLogger_def logger_WithContext_def logger_InfoContext_def logger_ErrorContext_def)

text \<open>The three places that give the paths of the health endpoints agree.\<close>

theorem default_health_paths_agree:
  "let e = oc_HealthEndpoints DefaultObservabilityConfig
   in \<forall>path. path \<in> {he_Path e, he_LivenessPath e, he_ReadinessPath e, he_StartupPath e} \<longleftrightarrow>
      IsHealthPath path DefaultHealthPathConfig"
  by (simp add: Let_def DefaultObservabilityConfig_def DefaultHealthEndpointsConfig_def IsHealthPath_def DefaultHealthPathConfig_def)

end
