(* ===== verification/OpenApiSpec.thy ===== *)
theory OpenApiSpec
  imports GoOs
begin

text \<open>
  The OpenAPI specification a server serves (\<open>http/openapi.go\<close>): a JSON object of type \<open>'j\<close> read from a file or from bytes, JSON is an argument.
\<close>

record 'j spec_json =
  oj_Unmarshal :: "string \<Rightarrow> string + 'j"
  oj_MarshalIndent :: "'j \<Rightarrow> string + string"

record 'j OpenAPISpec =
  op_spec :: 'j

definition NewOpenAPISpecFromBytes :: "'j spec_json \<Rightarrow> string \<Rightarrow> string + 'j OpenAPISpec" where
  "NewOpenAPISpecFromBytes j data =
     (case oj_Unmarshal j data of
        Inl e \<Rightarrow> Inl (''failed to parse OpenAPI specification: '' @ e)
      | Inr spec \<Rightarrow> Inr \<lparr>op_spec = spec\<rparr>)"

definition NewOpenAPISpec :: "'w os \<Rightarrow> 'j spec_json \<Rightarrow> string \<Rightarrow> 'w \<Rightarrow> string + 'j OpenAPISpec" where
  "NewOpenAPISpec fs j specPath w =
     (case os_ReadFile fs specPath w of
        Inl e \<Rightarrow> Inl (''failed to read OpenAPI specification: '' @ e)
      | Inr data \<Rightarrow>
          (case oj_Unmarshal j data of
             Inl e \<Rightarrow> Inl (''failed to parse OpenAPI specification: '' @ e)
           | Inr spec \<Rightarrow> Inr \<lparr>op_spec = spec\<rparr>))"

definition Spec :: "'j OpenAPISpec \<Rightarrow> 'j" where
  "Spec s = op_spec s"

definition OpenAPISpec_JSON :: "'j spec_json \<Rightarrow> 'j OpenAPISpec \<Rightarrow> string + string" where
  "OpenAPISpec_JSON j s = oj_MarshalIndent j (op_spec s)"

text \<open>Both constructors agree, and what is served reads as the specification that was loaded, if JSON gives a value back as it was.\<close>

lemma spec_served:
  assumes "\<And>v text. oj_MarshalIndent j v = Inr text \<Longrightarrow> oj_Unmarshal j text = Inr v"
    and "NewOpenAPISpec fs j specPath w = Inr s" "OpenAPISpec_JSON j s = Inr text"
  shows "NewOpenAPISpecFromBytes j text = Inr s \<and> (\<exists>data. os_ReadFile fs specPath w = Inr data \<and> NewOpenAPISpecFromBytes j data = Inr s)"
  using assms by (cases "os_ReadFile fs specPath w") (auto simp: NewOpenAPISpec_def NewOpenAPISpecFromBytes_def OpenAPISpec_JSON_def split: sum.splits)

end
