(* ===== verification/Spec2Isabelle.thy ===== *)
theory Spec2Isabelle
  imports MemoryQueueProps CronScheduler CoreService OutboxPostgres RelayBackoff SecurityProps Migrations RedisQueueProps ConfigProps HealthEndpoints RedisCacheProps Seeder RabbitProps KafkaProps ObservedServers SecretsComposed GrpcTracing CliProps CliConfigProps CliDatabaseProps AsyncAPIProps PostgresCalls ObservabilityDefaults OpenApiSpec
begin

text \<open>
  \<^bold>\<open>A verification development for microlib\<close>, a library of Go packages for services: background jobs, messaging with an outbox, databases and
  their migrations, configuration, security, HTTP and gRPC servers, observability, and a command line tool that creates services.

  \<^bold>\<open>How the parts interact.\<close>  Package core runs the life cycle of a service: health checks before it starts, hooks in order, shutdown hooks in
  reverse.  Package jobs has three queues behind the interface \<open>JobQueue\<close> (memory, PostgreSQL, Redis) whose workers run handlers and retry after the
  backoff of a policy; its cron scheduler runs jobs and asks a leader elector for singletons.  Package messaging has three brokers (memory,
  RabbitMQ, Kafka); the outbox saves messages in the transaction of the application's own change (package data), and a relay publishes what
  it holds through a broker.  Package data also has migrations, seeds and a Redis cache.  Package security validates tokens, decides on
  requests and keeps secrets, with a cache in front of the store; the servers of packages http and grpc put its middleware, together with
  logging, metrics and tracing of package observability, around the handlers.  Package config loads the configuration of all of them, and
  the cli writes the migrations, seeds and services they read.

  \<^bold>\<open>Modelling.\<close>  Each operation is one definition with the guards, early returns and panics of the source, in the order of the source; a struct is a
  \<open>record\<close>, an error or a panic a value of an option, a sum or a datatype of outcomes.  Where pointers are shared (entries of the memory
  queue) they are addresses into a store.  What runs under a mutex is one step; goroutines are inductive step relations in which the steps
  interleave freely (memory queue, PostgreSQL queue, outbox with relay, secret cache, RabbitMQ broker, cron scheduler).  The clock, random
  draws, the order of iteration over a map and the outcome of handlers and hooks are arguments.  Code outside the repository - drivers, client
  libraries, JSON, YAML, templates, the file system - is a record of functions on a state or a function argument; what a property relies on is
  the law of a locale or a named hypothesis, and every locale is interpreted on a concrete instance.

  \<^bold>\<open>Shared theories.\<close>
  \<^descr> \<open>Prelude\<close>: Go's integers with wrap-around, durations, strings, maps and their iteration, sorting, with generic lemmas.
  \<^descr> \<open>Float64\<close>: binary64 as rationals with rounding to nearest even, infinities and NaN; rounding is monotone and exact on integers below \<open>2 ^ 53\<close>.
  \<^descr> \<open>GoFmt\<close>, \<open>GoUtf8\<close>, \<open>GoPath\<close>, \<open>GoOs\<close>: numbers as text, UTF-8 with replaced bytes, paths, and files, environment and programs.

  \<^bold>\<open>Package jobs.\<close>
  \<^descr> \<open>RetryPolicies\<close> (\<open>retry_policy.go\<close>): the float64 backoff is the exact exponential one within stated bounds, monotone, and within its jitter.
  \<^descr> \<open>Jobs\<close> (\<open>scheduler.go\<close>, \<open>config.go\<close>, \<open>metrics.go\<close>): jobs, statuses, entries, defaults and counters.
  \<^descr> \<open>JobQueueSpec\<close>: the contract of \<open>JobQueue\<close> as an abstract table of statuses and the locale \<open>job_queue\<close>, with the simulation of any
    sequence of calls proved once; interpreted for all three queues.
  \<^descr> \<open>MemoryQueue\<close>, \<open>MemoryQueueInv\<close>, \<open>MemoryQueueSys\<close>, \<open>MemoryQueueProps\<close> (\<open>job_queue.go\<close>): operations; the invariant of the pointers;
    the system of clients and workers; no job is lost or held twice, what a worker does with a finished job, the counters balance, settled
    jobs stay settled, and the race in which a cancelled job runs.
  \<^descr> \<open>PostgresQueue\<close>, \<open>PostgresQueueProps\<close> (\<open>job_queue_postgres.go\<close>): the table as a list of rows, each operation as its statements; refinement and exclusive workers across processes.
  \<^descr> \<open>RedisQueue\<close>, \<open>RedisQueueProps\<close> (\<open>job_queue_redis.go\<close>): the keys of the database and the pipelines on them; refinement for one client, and what
    two workers or \<open>List\<close> break.
  \<^descr> \<open>LeaderElection\<close> (\<open>leader_election.go\<close>), \<open>CronScheduler\<close> (\<open>cron_scheduler.go\<close>): electors behind the locale \<open>leader_elector\<close>; singletons
    start only on the leader, executions and their records.

  \<^bold>\<open>Packages core and config.\<close>
  \<^descr> \<open>CoreService\<close> (\<open>health.go\<close>, \<open>service.go\<close>): summaries of checks, start and shutdown on every branch.
  \<^descr> \<open>ConfigSource\<close>, \<open>ConfigManager\<close>, \<open>ConfigProps\<close> (\<open>source.go\<close>, \<open>manager.go\<close>, \<open>config.go\<close>): reflection as a tree of typed fields; a field gets the
    converted value of the source of highest priority; reloading and the container.

  \<^bold>\<open>Package data.\<close>
  \<^descr> \<open>Database\<close>, \<open>PostgresCalls\<close> (\<open>database.go\<close>, \<open>postgres.go\<close>): configuration, transactions over the locale \<open>transactional\<close>, and the methods over the
    driver with the locale \<open>row_stream\<close>.
  \<^descr> \<open>Migrations\<close> (\<open>migration.go\<close>), \<open>Seeder\<close> (\<open>seeder.go\<close>): whatever fails, an initial part in order is applied and recorded; rollback undoes.
  \<^descr> \<open>RedisCache\<close>, \<open>RedisCacheProps\<close> (\<open>cache.go\<close>, \<open>redis.go\<close>): on a server with the laws of \<open>redis_strings\<close> the cache is a table with expiry.

  \<^bold>\<open>Package messaging.\<close>
  \<^descr> \<open>Messaging\<close> (\<open>message.go\<close>, \<open>config.go\<close>, \<open>broker.go\<close>, \<open>memory_broker.go\<close>): messages, choice of a broker, delivery in memory.
  \<^descr> \<open>Outbox\<close>, \<open>OutboxRelayInv\<close>, \<open>OutboxPostgres\<close>, \<open>RelayBackoff\<close> (\<open>outbox.go\<close>, \<open>outbox_helper.go\<close>, \<open>relay.go\<close>, \<open>outbox_postgres.go\<close>): the relay over
    any store of the locale \<open>outbox_store\<close>; messages are kept, committed with the application's change, and marked processed only when
    published or given up; when a message is tried again, and when it never is.
  \<^descr> \<open>RabbitMQ\<close>, \<open>RabbitProps\<close> (\<open>rabbitmq_broker.go\<close>): the broker over an AMQP library with the laws of \<open>amqp_queues\<close>; delivery at least once, reconnection ends.
  \<^descr> \<open>Kafka\<close>, \<open>KafkaProps\<close> (\<open>kafka_broker.go\<close>): retries, commits, the round trip of a message, writers and readers.
  \<^descr> \<open>AsyncAPI\<close>, \<open>AsyncAPIProps\<close> (\<open>asyncapi.go\<close>, \<open>serialization.go\<close>): generated documents are closed; which topics share a message; a loaded document panics.

  \<^bold>\<open>Package security.\<close>
  \<^descr> \<open>Authentication\<close> (\<open>auth.go\<close>, \<open>jwks_client.go\<close>), \<open>PolicyEvaluator\<close>, \<open>Authorization\<close> (\<open>authorization.go\<close>, \<open>grpc_authorization.go\<close>,
    \<open>local_policy_evaluator.go\<close>, \<open>opa_evaluator.go\<close>), \<open>SecurityProps\<close>: tokens are accepted only under a current key; requests pass exactly when
    the policy allows them, through the locale \<open>authorizer\<close>.
  \<^descr> \<open>Secrets\<close>, \<open>SecretsProps\<close> (\<open>secrets.go\<close>), \<open>VaultSecrets\<close>, \<open>VaultProps\<close> (\<open>vault_secrets.go\<close>, \<open>aws_secrets.go\<close>, \<open>azure_secrets.go\<close>),
    \<open>SecretsComposed\<close>: a cache in front of a store is a store (locale \<open>secret_store\<close>), its staleness is bounded; the Vault store is a table
    on servers of the locale \<open>kv_engine\<close>; what the two make of a secret together.

  \<^bold>\<open>Packages http, grpc and observability.\<close>
  \<^descr> \<open>HttpMiddleware\<close>, \<open>HttpServer\<close>, \<open>HttpProps\<close>, \<open>OpenApiSpec\<close> (\<open>middleware.go\<close>, \<open>auth_middleware.go\<close>, \<open>auth_middleware_impl.go\<close>, \<open>server.go\<close>,
    \<open>config.go\<close>, \<open>openapi.go\<close>, and \<open>http_tracing.go\<close>): handlers as functions on the response being written; authentication guards every handler,
    panics are recovered, and when the server fails open.
  \<^descr> \<open>GrpcServer\<close>, \<open>GrpcProps\<close>, \<open>GrpcTracing\<close> (\<open>interceptors.go\<close>, \<open>server.go\<close>, \<open>config.go\<close>, \<open>tracing.go\<close>): the same for calls, the
    configuration that drops authentication, and the trace of a client that its server continues (locale \<open>propagation\<close>).
  \<^descr> \<open>Metrics\<close>, \<open>MetricsProps\<close> (\<open>metrics.go\<close>, locale \<open>prometheus_lib\<close>), \<open>ObservedServers\<close>: instruments keep their kind; a counter asked for twice panics, and
    what that does to both servers.
  \<^descr> \<open>Logger\<close> (\<open>logger.go\<close>, \<open>global_logger.go\<close>), \<open>Tracing\<close> (\<open>tracing.go\<close>, \<open>http_carrier.go\<close>, \<open>testing.go\<close>), \<open>HealthEndpoints\<close> (\<open>health.go\<close>,
    \<open>http_health.go\<close>), \<open>ObservabilityDefaults\<close> (\<open>config.go\<close>, \<open>noop.go\<close>): entries, tracers, probes, default settings.

  \<^bold>\<open>Package cli.\<close>
  \<^descr> \<open>Cli\<close>, \<open>CliConfigProps\<close> (\<open>config.go\<close>, \<open>plugins.go\<close>, \<open>root.go\<close>): runs of the commands act like commands on one configuration value, on
    files with the laws of \<open>config_files\<close>.
  \<^descr> \<open>CliTemplates\<close>, \<open>CliProps\<close> (\<open>template_config.go\<close>, \<open>templates.go\<close>, \<open>new.go\<close>): what a new service is made of, and why the command that makes it fails.
  \<^descr> \<open>CliDatabase\<close>, \<open>CliDatabaseProps\<close> (\<open>migration.go\<close>, \<open>seed.go\<close>): what the commands write, the runner of package data reads back.

  \<^bold>\<open>Loops and bounds.\<close>  Loops over data are structural recursions; loops over a ticker, fetched messages or polls take the list of what happens and end with
  it.  Loops whose end depends on the other side are \<open>partial_function (option)\<close>: \<open>reconnect_loop\<close> of \<open>RabbitMQ\<close>, which is proved to return after at
  most \<open>MaxReconnectAttempts\<close> attempts, \<open>scan_loop\<close> of \<open>RedisCache\<close>, which returns under the law of the locale that iterating with a cursor ends, and
  \<open>vault_ListSecrets\<close>, which descends into directories of keys and returns on a store that has finitely many.  Only \<open>collect\<close>,
  the loop of a client over the rows of an answer in \<open>PostgresCalls\<close>, takes fuel; fuel above the number of rows is proved to be enough.
  Durations are integers in nanoseconds; where the code can overflow (backoffs, retry counts, conversions from float64) the wrap-around or an arbitrary result is written out.

  \<^bold>\<open>Not modelled.\<close>  Opening sockets and serving on them (failures are events), the encoding of log entries, attributes of spans, the HTML of the
  pages for API documentation, the log adapters of the Kafka client, the base64 helpers nothing calls, the registration of commands and flags
  and the texts the tool prints, the older service generator with its templates that only tests call, the demonstration program, and the tracer
  for tests in package http.  None of them has a state or a decision another part depends on.
\<close>

end
